(* ===== verification/Rust_Prelude.thy ===== *)
theory Rust_Prelude
  imports Main "HOL-Library.Word" "HOL-Library.List_Lexorder"
begin

text \<open>
  The parts of the Rust language that every component of the model uses: panics,
  \<open>Result\<close> and \<open>Option\<close> with their combinators, and programs that thread a
  mutable state. The primitive integers are in the theory Rust_Integers.
\<close>

named_theorems rust_simps \<open>rewrite rules for results, panics and stateful programs\<close>
named_theorems word_ops \<open>the definitions of the primitive integer operations\<close>

section \<open>Types\<close>

type_synonym u8 = "8 word"
type_synonym u16 = "16 word"
type_synonym u32 = "32 word"
type_synonym u64 = "64 word"
type_synonym u128 = "128 word"
type_synonym bytes = "u8 list"
type_synonym ('e, 'a) result = "'e + 'a"

section \<open>Panics and results\<close>

text \<open>A computation that may panic. The panic carries the message the code gives it.\<close>

datatype 'a outcome = Panic string | Done 'a

fun obind :: "'a outcome \<Rightarrow> ('a \<Rightarrow> 'b outcome) \<Rightarrow> 'b outcome" where
  "obind (Panic m) f = Panic m"
| "obind (Done x) f = f x"

fun omap :: "('a \<Rightarrow> 'b) \<Rightarrow> 'a outcome \<Rightarrow> 'b outcome" where
  "omap f (Panic m) = Panic m"
| "omap f (Done x) = Done (f x)"

fun panics :: "'a outcome \<Rightarrow> bool" where
  "panics (Panic m) = True"
| "panics (Done x) = False"

text \<open>\<open>Option::expect\<close> and \<open>Option::unwrap\<close>.\<close>

fun expect :: "string \<Rightarrow> 'a option \<Rightarrow> 'a outcome" where
  "expect m None = Panic m"
| "expect m (Some x) = Done x"

definition unwrap :: "'a option \<Rightarrow> 'a outcome" where
  "unwrap = expect ''called Option::unwrap() on a None value''"

text \<open>\<open>Result::expect\<close>, \<open>Result::unwrap\<close>, \<open>Result::ok\<close>.\<close>

fun expect_ok :: "string \<Rightarrow> ('e, 'a) result \<Rightarrow> 'a outcome" where
  "expect_ok m (Inl e) = Panic m"
| "expect_ok m (Inr x) = Done x"

definition unwrap_ok :: "('e, 'a) result \<Rightarrow> 'a outcome" where
  "unwrap_ok = expect_ok ''called Result::unwrap() on an Err value''"

fun result_ok :: "('e, 'a) result \<Rightarrow> 'a option" where
  "result_ok (Inl e) = None"
| "result_ok (Inr x) = Some x"

text \<open>\<open>Option::ok_or_else\<close>, \<open>Result::map\<close>, \<open>Result::map_err\<close> and the question mark.\<close>

fun ok_or :: "'e \<Rightarrow> 'a option \<Rightarrow> ('e, 'a) result" where
  "ok_or e None = Inl e"
| "ok_or e (Some x) = Inr x"

fun map_ok :: "('a \<Rightarrow> 'b) \<Rightarrow> ('e, 'a) result \<Rightarrow> ('e, 'b) result" where
  "map_ok f (Inl e) = Inl e"
| "map_ok f (Inr x) = Inr (f x)"

fun map_err :: "('e \<Rightarrow> 'f) \<Rightarrow> ('e, 'a) result \<Rightarrow> ('f, 'a) result" where
  "map_err f (Inl e) = Inl (f e)"
| "map_err f (Inr x) = Inr x"

fun rbind :: "('e, 'a) result \<Rightarrow> ('a \<Rightarrow> ('e, 'b) result) \<Rightarrow> ('e, 'b) result" where
  "rbind (Inl e) f = Inl e"
| "rbind (Inr x) f = f x"

text \<open>A result inside a computation that may panic: the question mark in such a function.\<close>

fun orbind :: "('e, 'a) result outcome \<Rightarrow> ('a \<Rightarrow> ('e, 'b) result outcome) \<Rightarrow> ('e, 'b) result outcome"
where
  "orbind (Panic m) f = Panic m"
| "orbind (Done (Inl e)) f = Done (Inl e)"
| "orbind (Done (Inr x)) f = f x"

lemma unwrap_simps [simp]:
  "unwrap (Some x) = Done x" "panics (unwrap None)"
  by (simp_all add: unwrap_def)

lemma unwrap_ok_simps [simp]:
  "unwrap_ok (Inr x) = Done x" "panics (unwrap_ok (Inl e))"
  by (simp_all add: unwrap_ok_def)

lemma expect_eq_Done_iff [rust_simps]: "expect m x = Done y \<longleftrightarrow> x = Some y"
  by (cases x) auto

lemma expect_ok_eq_Done_iff [rust_simps]: "expect_ok m x = Done y \<longleftrightarrow> x = Inr y"
  by (cases x) auto

lemma obind_eq_Done_iff [rust_simps]: "obind m f = Done y \<longleftrightarrow> (\<exists>x. m = Done x \<and> f x = Done y)"
  by (cases m) auto

lemma omap_eq_Done_iff [rust_simps]: "omap f m = Done y \<longleftrightarrow> (\<exists>x. m = Done x \<and> y = f x)"
  by (cases m) auto

lemma orbind_eq_Ok_iff [rust_simps]:
  "orbind m f = Done (Inr y) \<longleftrightarrow> (\<exists>x. m = Done (Inr x) \<and> f x = Done (Inr y))"
  by (cases "(m, f)" rule: orbind.cases) auto

lemma rbind_eq_Ok_iff [rust_simps]: "rbind m f = Inr y \<longleftrightarrow> (\<exists>x. m = Inr x \<and> f x = Inr y)"
  by (cases m) auto

lemma unwrap_eq_Done_iff: "unwrap x = Done y \<longleftrightarrow> x = Some y"
  by (simp add: unwrap_def expect_eq_Done_iff)

lemma unwrap_ok_eq_Done_iff: "unwrap_ok x = Done y \<longleftrightarrow> x = Inr y"
  by (simp add: unwrap_ok_def expect_ok_eq_Done_iff)

lemma ok_or_eq_Ok_iff [rust_simps]: "ok_or e x = Inr y \<longleftrightarrow> x = Some y"
  by (cases x) auto

lemma map_ok_eq_Ok_iff [rust_simps]: "map_ok f x = Inr y \<longleftrightarrow> (\<exists>z. x = Inr z \<and> y = f z)"
  by (cases x) auto

lemma map_err_eq_Ok_iff [rust_simps]: "map_err f x = Inr y \<longleftrightarrow> x = Inr y"
  by (cases x) auto

lemma panics_iff: "panics m \<longleftrightarrow> (\<forall>x. m \<noteq> Done x)"
  by (cases m) auto

section \<open>Programs with a mutable state\<close>

text \<open>
  A function that takes a mutable reference and returns a \<open>Result\<close>: it maps the state to
  the returned value together with the state it leaves behind, also when it returns an error;
  a panic leaves no state.
\<close>

type_synonym ('s, 'e, 'a) prog = "'s \<Rightarrow> (('e, 'a) result \<times> 's) outcome"

definition preturn :: "'a \<Rightarrow> ('s, 'e, 'a) prog" where
  "preturn x s = Done (Inr x, s)"

definition pfail :: "'e \<Rightarrow> ('s, 'e, 'a) prog" where
  "pfail e s = Done (Inl e, s)"

definition ppanic :: "string \<Rightarrow> ('s, 'e, 'a) prog" where
  "ppanic m s = Panic m"

fun pbind_cont :: "('a \<Rightarrow> ('s, 'e, 'b) prog) \<Rightarrow> (('e, 'a) result \<times> 's) outcome
    \<Rightarrow> (('e, 'b) result \<times> 's) outcome"
where
  "pbind_cont f (Panic m) = Panic m"
| "pbind_cont f (Done (Inl e, s)) = Done (Inl e, s)"
| "pbind_cont f (Done (Inr x, s)) = f x s"

definition pbind :: "('s, 'e, 'a) prog \<Rightarrow> ('a \<Rightarrow> ('s, 'e, 'b) prog) \<Rightarrow> ('s, 'e, 'b) prog" where
  "pbind m f s = pbind_cont f (m s)"

text \<open>A pure result, a panicking computation, and a read of the state as programs.\<close>

definition plift :: "('e, 'a) result \<Rightarrow> ('s, 'e, 'a) prog" where
  "plift r s = Done (r, s)"

definition plift_out :: "'a outcome \<Rightarrow> ('s, 'e, 'a) prog" where
  "plift_out m s = omap (\<lambda>x. (Inr x, s)) m"

definition preads :: "('s \<Rightarrow> 'a) \<Rightarrow> ('s, 'e, 'a) prog" where
  "preads f s = Done (Inr (f s), s)"

definition pmodify :: "('s \<Rightarrow> 's) \<Rightarrow> ('s, 'e, unit) prog" where
  "pmodify f s = Done (Inr (), f s)"

text \<open>Converting the error of a program, as \<open>map_err\<close> and the \<open>From\<close> of a question mark do.\<close>

definition pmap_err :: "('e \<Rightarrow> 'f) \<Rightarrow> ('s, 'e, 'a) prog \<Rightarrow> ('s, 'f, 'a) prog" where
  "pmap_err f m s = omap (\<lambda>(r, t). (map_err f r, t)) (m s)"

lemma prog_simps [simp]:
  "preturn x s = Done (Inr x, s)"
  "pfail e s = Done (Inl e, s)"
  "ppanic m s = Panic m"
  "plift r s = Done (r, s)"
  "preads g s = Done (Inr (g s), s)"
  "pmodify h s = Done (Inr (), h s)"
  by (simp_all add: preturn_def pfail_def ppanic_def plift_def preads_def pmodify_def)

lemma pbind_eq_Done_iff:
  "pbind m f s = Done (r, t) \<longleftrightarrow>
     (\<exists>e. m s = Done (Inl e, t) \<and> r = Inl e) \<or>
     (\<exists>x u. m s = Done (Inr x, u) \<and> f x u = Done (r, t))"
  unfolding pbind_def by (cases "(f, m s)" rule: pbind_cont.cases) auto

lemma pbind_eq_Ok_iff [rust_simps]:
  "pbind m f s = Done (Inr y, t) \<longleftrightarrow> (\<exists>x u. m s = Done (Inr x, u) \<and> f x u = Done (Inr y, t))"
  by (auto simp: pbind_eq_Done_iff)

lemma pbind_simps [simp]:
  "pbind (preturn x) f s = f x s"
  "pbind (pfail e) f s = Done (Inl e, s)"
  "pbind (preads g) f s = f (g s) s"
  "pbind (pmodify h) f' s = f' () (h s)"
  "pbind (plift (Inr x)) f s = f x s"
  "pbind (plift (Inl e)) f s = Done (Inl e, s)"
  by (simp_all add: pbind_def)

lemma plift_out_eq_Done_iff [rust_simps]:
  "plift_out m s = Done (r, t) \<longleftrightarrow> (\<exists>x. m = Done x \<and> r = Inr x \<and> t = s)"
  by (cases m) (auto simp: plift_out_def)

lemma pmap_err_eq_Done_iff:
  "pmap_err f m s = Done (r, t) \<longleftrightarrow> (\<exists>r'. m s = Done (r', t) \<and> r = map_err f r')"
  by (cases "m s") (auto simp: pmap_err_def split: prod.splits)

lemma pmap_err_eq_Ok_iff [rust_simps]:
  "pmap_err f m s = Done (Inr x, t) \<longleftrightarrow> m s = Done (Inr x, t)"
  unfolding pmap_err_eq_Done_iff by (metis map_err.simps(2) map_err_eq_Ok_iff)

end
