(* ===== verification/Rust_Integers.thy ===== *)
theory Rust_Integers
  imports Rust_Prelude
begin

text \<open>
  Rust's primitive unsigned integers as machine words: the \<open>checked_*\<close>,
  \<open>wrapping_*\<close> and \<open>saturating_*\<close> operations, the byte order conversions
  \<open>to_be_bytes\<close> and friends, and \<open>to_string\<close> and \<open>parse\<close> in base ten. The
  lemmas relate each of them to exact arithmetic on \<open>nat\<close>.
\<close>

section \<open>Checked, wrapping and saturating operations\<close>

definition checked_add :: "'a::len word \<Rightarrow> 'a word \<Rightarrow> 'a word option" where
  [word_ops]: "checked_add a b = (if unat a + unat b < 2 ^ LENGTH('a) then Some (a + b) else None)"

definition checked_sub :: "'a::len word \<Rightarrow> 'a word \<Rightarrow> 'a word option" where
  [word_ops]: "checked_sub a b = (if unat b \<le> unat a then Some (a - b) else None)"

definition checked_mul :: "'a::len word \<Rightarrow> 'a word \<Rightarrow> 'a word option" where
  [word_ops]: "checked_mul a b = (if unat a * unat b < 2 ^ LENGTH('a) then Some (a * b) else None)"

definition checked_pow :: "'a::len word \<Rightarrow> u32 \<Rightarrow> 'a word option" where
  [word_ops]: "checked_pow a e = (if unat a ^ unat e < 2 ^ LENGTH('a) then Some (a ^ unat e) else None)"

definition checked_div :: "'a::len word \<Rightarrow> 'a word \<Rightarrow> 'a word option" where
  [word_ops]: "checked_div a b = (if b = 0 then None else Some (a div b))"

definition checked_rem :: "'a::len word \<Rightarrow> 'a word \<Rightarrow> 'a word option" where
  [word_ops]: "checked_rem a b = (if b = 0 then None else Some (a mod b))"

definition checked_shr :: "'a::len word \<Rightarrow> u32 \<Rightarrow> 'a word option" where
  [word_ops]: "checked_shr a n = (if unat n < LENGTH('a) then Some (drop_bit (unat n) a) else None)"

definition wrapping_pow :: "'a::len word \<Rightarrow> u32 \<Rightarrow> 'a word" where
  [word_ops]: "wrapping_pow a e = a ^ unat e"

text \<open>\<open>- 1\<close> is the greatest word, the \<open>MAX\<close> of the type.\<close>

definition saturating_add :: "'a::len word \<Rightarrow> 'a word \<Rightarrow> 'a word" where
  [word_ops]: "saturating_add a b = (case checked_add a b of Some c \<Rightarrow> c | None \<Rightarrow> - 1)"

definition saturating_sub :: "'a::len word \<Rightarrow> 'a word \<Rightarrow> 'a word" where
  [word_ops]: "saturating_sub a b = (case checked_sub a b of Some c \<Rightarrow> c | None \<Rightarrow> 0)"

definition saturating_mul :: "'a::len word \<Rightarrow> 'a word \<Rightarrow> 'a word" where
  [word_ops]: "saturating_mul a b = (case checked_mul a b of Some c \<Rightarrow> c | None \<Rightarrow> - 1)"

definition saturating_pow :: "'a::len word \<Rightarrow> u32 \<Rightarrow> 'a word" where
  [word_ops]: "saturating_pow a e = (case checked_pow a e of Some c \<Rightarrow> c | None \<Rightarrow> - 1)"

text \<open>\<open>TryFrom\<close> between primitive integers: only values that fit are converted.\<close>

definition try_into_word :: "'b::len word \<Rightarrow> 'a::len word option" where
  [word_ops]: "try_into_word a = (if unat a < 2 ^ LENGTH('a) then Some (ucast a) else None)"

lemma unat_lt: "unat (a :: 'a::len word) < 2 ^ LENGTH('a)"
  by (rule unsigned_less)

lemma unat_eq_lt: "unat (a :: 'a::len word) = n \<Longrightarrow> n < 2 ^ LENGTH('a)"
  by auto

lemma unat_add_exact:
  "unat a + unat b < 2 ^ LENGTH('a) \<Longrightarrow> unat (a + b :: 'a::len word) = unat a + unat b"
  by (simp add: unat_word_ariths)

lemma unat_mul_exact:
  "unat a * unat b < 2 ^ LENGTH('a) \<Longrightarrow> unat (a * b :: 'a::len word) = unat a * unat b"
  by (simp add: unat_word_ariths)

lemma unat_sub_exact: "unat b \<le> unat a \<Longrightarrow> unat (a - b :: 'a::len word) = unat a - unat b"
  by (rule unat_sub) (simp add: word_le_nat_alt)

lemma unat_pow_exact:
  "unat a ^ n < 2 ^ LENGTH('a) \<Longrightarrow> unat (a ^ n :: 'a::len word) = unat a ^ n"
proof -
  assume "unat a ^ n < 2 ^ LENGTH('a)"
  then have "unat (of_nat (unat a ^ n) :: 'a word) = unat a ^ n"
    by (simp add: unat_of_nat del: of_nat_power)
  then show ?thesis by simp
qed

lemma checked_add_Some_iff [rust_simps]:
  "checked_add a b = Some c \<longleftrightarrow> unat c = unat a + unat (b :: 'a::len word)"
  by (auto dest: unat_eq_lt simp: checked_add_def unat_add_exact intro: word_unat_eq_iff [THEN iffD2])

lemma checked_sub_Some_iff [rust_simps]:
  "checked_sub a b = Some c \<longleftrightarrow> unat b \<le> unat a \<and> unat c = unat a - unat (b :: 'a::len word)"
  by (auto simp: checked_sub_def unat_sub_exact intro: word_unat_eq_iff [THEN iffD2])

lemma checked_mul_Some_iff [rust_simps]:
  "checked_mul a b = Some c \<longleftrightarrow> unat c = unat a * unat (b :: 'a::len word)"
  by (auto dest: unat_eq_lt simp: checked_mul_def unat_mul_exact intro: word_unat_eq_iff [THEN iffD2])

lemma checked_pow_Some_iff [rust_simps]:
  "checked_pow a e = Some c \<longleftrightarrow> unat c = unat (a :: 'a::len word) ^ unat e"
  by (auto dest: unat_eq_lt simp: checked_pow_def unat_pow_exact intro: word_unat_eq_iff [THEN iffD2])

lemma checked_div_Some_iff [rust_simps]:
  "checked_div a b = Some c \<longleftrightarrow> unat b \<noteq> 0 \<and> unat c = unat a div unat (b :: 'a::len word)"
  by (auto simp: checked_div_def unat_div unat_eq_zero intro: word_unat_eq_iff [THEN iffD2])

lemma checked_rem_Some_iff [rust_simps]:
  "checked_rem a b = Some c \<longleftrightarrow> unat b \<noteq> 0 \<and> unat c = unat a mod unat (b :: 'a::len word)"
  by (auto simp: checked_rem_def unat_mod unat_eq_zero intro: word_unat_eq_iff [THEN iffD2])

lemma unat_drop_bit: "unat (drop_bit n (a :: 'a::len word)) = unat a div 2 ^ n"
  unfolding unat_drop_bit_eq by (simp only: drop_bit_eq_div)

lemma checked_shr_Some_iff [rust_simps]:
  "checked_shr a n = Some c \<longleftrightarrow> unat n < LENGTH('a) \<and> unat c = unat (a :: 'a::len word) div 2 ^ unat n"
  by (auto simp: checked_shr_def unat_drop_bit intro: word_unat_eq_iff [THEN iffD2])

lemma try_into_word_Some_iff [rust_simps]:
  "(try_into_word a :: 'a::len word option) = Some c \<longleftrightarrow> unat c = unat (a :: 'b::len word)"
proof -
  have "unat a < 2 ^ LENGTH('a) \<Longrightarrow> unat (ucast a :: 'a word) = unat a"
    by (simp add: unsigned_ucast_eq take_bit_nat_eq_self)
  then show ?thesis
    by (auto dest: unat_eq_lt simp: try_into_word_def intro: word_unat_eq_iff [THEN iffD2])
qed

lemma unat_ucast_widen:
  assumes "LENGTH('b::len) \<le> LENGTH('a::len)"
  shows "unat (ucast (a :: 'b word) :: 'a word) = unat a"
proof -
  have "unat a < 2 ^ LENGTH('b)" by (rule unat_lt)
  also have "\<dots> \<le> 2 ^ LENGTH('a)" using assms by (rule power_increasing) simp
  finally show ?thesis by (simp add: unsigned_ucast_eq take_bit_nat_eq_self)
qed

lemmas checked_Some_iff =
  checked_add_Some_iff checked_sub_Some_iff checked_mul_Some_iff checked_pow_Some_iff
  checked_div_Some_iff checked_rem_Some_iff checked_shr_Some_iff try_into_word_Some_iff

lemma unat_max_word: "unat (- 1 :: 'a::len word) = 2 ^ LENGTH('a) - 1"
  by (simp add: unsigned_minus_1_eq_mask mask_eq_exp_minus_1)

lemma unat_saturating_add: "unat (saturating_add a b) = min (unat a + unat b) (2 ^ LENGTH('a) - 1)"
  for a b :: "'a::len word"
  using unat_add_exact [of a b] by (auto simp: saturating_add_def checked_add_def unat_max_word)

lemma unat_saturating_sub: "unat (saturating_sub a b) = unat a - unat (b :: 'a::len word)"
  by (auto simp: saturating_sub_def checked_sub_def unat_sub_exact)

lemma unat_saturating_mul: "unat (saturating_mul a b) = min (unat a * unat b) (2 ^ LENGTH('a) - 1)"
  for a b :: "'a::len word"
  using unat_mul_exact [of a b] by (auto simp: saturating_mul_def checked_mul_def unat_max_word)

lemma unat_saturating_pow: "unat (saturating_pow a e) = min (unat a ^ unat e) (2 ^ LENGTH('a) - 1)"
  for a :: "'a::len word"
  using unat_pow_exact [of a "unat e"] by (auto simp: saturating_pow_def checked_pow_def unat_max_word)

section \<open>Byte order conversions\<close>

primrec nat_to_le :: "nat \<Rightarrow> nat \<Rightarrow> bytes" where
  "nat_to_le 0 n = []"
| "nat_to_le (Suc k) n = word_of_nat (n mod 256) # nat_to_le k (n div 256)"

primrec nat_of_le :: "bytes \<Rightarrow> nat" where
  "nat_of_le [] = 0"
| "nat_of_le (b # bs) = unat b + 256 * nat_of_le bs"

definition to_le_bytes :: "'a::len word \<Rightarrow> bytes" where
  "to_le_bytes a = nat_to_le (LENGTH('a) div 8) (unat a)"

definition to_be_bytes :: "'a::len word \<Rightarrow> bytes" where
  "to_be_bytes a = rev (to_le_bytes a)"

definition from_le_bytes :: "bytes \<Rightarrow> 'a::len word" where
  "from_le_bytes bs = word_of_nat (nat_of_le bs)"

definition from_be_bytes :: "bytes \<Rightarrow> 'a::len word" where
  "from_be_bytes bs = from_le_bytes (rev bs)"

lemma length_nat_to_le [simp]: "length (nat_to_le k n) = k"
  by (induction k arbitrary: n) auto

lemma nat_of_le_less: "nat_of_le bs < 256 ^ length bs"
proof (induction bs)
  case (Cons b bs)
  have "unat b < 256" using unat_lt [of b] by simp
  with Cons show ?case by simp
qed simp

lemma nat_of_le_to_le: "nat_of_le (nat_to_le k n) = n mod 256 ^ k"
proof (induction k arbitrary: n)
  case (Suc k)
  have "unat (word_of_nat (n mod 256) :: u8) = n mod 256"
    by (simp add: unat_of_nat)
  then show ?case by (simp add: Suc mod_mult2_eq)
qed simp

lemma nat_to_le_of_le: "length bs = k \<Longrightarrow> nat_to_le k (nat_of_le bs) = bs"
proof (induction bs arbitrary: k)
  case (Cons b bs)
  have "unat b < 256" using unat_lt [of b] by simp
  with Cons show ?case by auto
qed simp

lemma nat_of_le_append: "nat_of_le (xs @ ys) = nat_of_le xs + 256 ^ length xs * nat_of_le ys"
  by (induction xs) (auto simp: algebra_simps)

lemma nat_of_le_zeros [simp]: "nat_of_le (replicate n 0) = 0"
  by (induction n) auto

lemma length_to_bytes [simp]:
  "length (to_le_bytes (a :: 'a::len word)) = LENGTH('a) div 8"
  "length (to_be_bytes a) = LENGTH('a) div 8"
  by (simp_all add: to_le_bytes_def to_be_bytes_def)

lemma power_256: "(256 :: nat) ^ k = 2 ^ (8 * k)"
  by (simp add: power_mult)

lemma nat_of_le_to_le_bytes:
  assumes "8 dvd LENGTH('a::len)"
  shows "nat_of_le (to_le_bytes (a :: 'a word)) = unat a"
  using assms by (auto simp: to_le_bytes_def nat_of_le_to_le power_256)

lemma from_to_le_bytes:
  "8 dvd LENGTH('a::len) \<Longrightarrow> from_le_bytes (to_le_bytes (a :: 'a word)) = a"
  by (simp add: from_le_bytes_def nat_of_le_to_le_bytes)

lemma from_to_be_bytes:
  "8 dvd LENGTH('a::len) \<Longrightarrow> from_be_bytes (to_be_bytes (a :: 'a word)) = a"
  by (simp add: from_be_bytes_def to_be_bytes_def from_to_le_bytes)

lemma unat_from_le_bytes:
  assumes "8 * length bs \<le> LENGTH('a::len)"
  shows "unat (from_le_bytes bs :: 'a word) = nat_of_le bs"
proof -
  have "nat_of_le bs < 2 ^ (8 * length bs)"
    using nat_of_le_less [of bs] by (simp add: power_256)
  also have "\<dots> \<le> 2 ^ LENGTH('a)" using assms by (intro power_increasing) auto
  finally show ?thesis by (simp add: from_le_bytes_def unat_of_nat)
qed

lemma to_from_le_bytes:
  "8 * length bs = LENGTH('a::len) \<Longrightarrow> to_le_bytes (from_le_bytes bs :: 'a word) = bs"
  by (simp add: to_le_bytes_def unat_from_le_bytes nat_to_le_of_le flip: length_to_bytes)

lemma nat_to_le_4:
  "nat_to_le 4 n = [word_of_nat (n mod 256), word_of_nat (n div 256 mod 256),
     word_of_nat (n div 256 div 256 mod 256), word_of_nat (n div 256 div 256 div 256 mod 256)]"
proof -
  have "(4 :: nat) = Suc (Suc (Suc (Suc 0)))" by simp
  then show ?thesis by (simp only: nat_to_le.simps)
qed

lemma to_be_bytes_u32:
  "to_be_bytes (a :: u32) = [word_of_nat (unat a div 256 div 256 div 256 mod 256),
     word_of_nat (unat a div 256 div 256 mod 256), word_of_nat (unat a div 256 mod 256),
     word_of_nat (unat a mod 256)]"
proof -
  have "to_le_bytes a = nat_to_le 4 (unat a)" by (simp add: to_le_bytes_def)
  then show ?thesis by (simp only: to_be_bytes_def nat_to_le_4 rev.simps append.simps)
qed

lemma word_of_byte_eq_iff: "a < 256 \<Longrightarrow> b < 256 \<Longrightarrow> (word_of_nat a :: u8) = word_of_nat b \<longleftrightarrow> a = b"
  by (simp add: word_unat_eq_iff unat_of_nat del: unsigned_of_nat)

section \<open>Printing and parsing integers in base ten\<close>

definition digit_char :: "nat \<Rightarrow> char" where
  "digit_char d = char_of (d + 48)"

text \<open>\<open>to_string\<close> of an unsigned integer.\<close>

fun show_nat :: "nat \<Rightarrow> string" where
  "show_nat n = (if n < 10 then [digit_char n] else show_nat (n div 10) @ [digit_char (n mod 10)])"

declare show_nat.simps [simp del]

definition to_string :: "'a::len word \<Rightarrow> string" where
  "to_string a = show_nat (unat a)"

text \<open>
  \<open>str::parse\<close> for an unsigned integer type of \<open>n\<close> bits: one leading plus sign is accepted,
  at least one digit is required, and the first character that is no digit or the first
  overflow decides the error.
\<close>

datatype int_error_kind = Empty | InvalidDigit | PosOverflow

definition is_digit :: "char \<Rightarrow> bool" where
  "is_digit c \<longleftrightarrow> 48 \<le> (of_char c :: nat) \<and> (of_char c :: nat) \<le> 57"

definition digit_val :: "char \<Rightarrow> nat" where
  "digit_val c = of_char c - 48"

fun parse_digits :: "nat \<Rightarrow> nat \<Rightarrow> string \<Rightarrow> (int_error_kind, nat) result" where
  "parse_digits n acc [] = Inr acc"
| "parse_digits n acc (c # cs) =
     (if \<not> is_digit c then Inl InvalidDigit
      else if 2 ^ n \<le> acc * 10 + digit_val c then Inl PosOverflow
      else parse_digits n (acc * 10 + digit_val c) cs)"

definition parse_uint :: "nat \<Rightarrow> string \<Rightarrow> (int_error_kind, nat) result" where
  "parse_uint n s =
     (case s of
        [] \<Rightarrow> Inl Empty
      | c # cs \<Rightarrow>
          if c = CHR ''+'' then (if cs = [] then Inl InvalidDigit else parse_digits n 0 cs)
          else parse_digits n 0 (c # cs))"

definition parse_word :: "string \<Rightarrow> (int_error_kind, 'a::len word) result" where
  "parse_word s = map_ok word_of_nat (parse_uint LENGTH('a) s)"

text \<open>The \<open>Display\<close> of \<open>ParseIntError\<close>.\<close>

fun show_int_error :: "int_error_kind \<Rightarrow> string" where
  "show_int_error Empty = ''cannot parse integer from empty string''"
| "show_int_error InvalidDigit = ''invalid digit found in string''"
| "show_int_error PosOverflow = ''number too large to fit in target type''"

text \<open>The value a string of digits denotes, continuing from \<open>acc\<close>.\<close>

definition digits_val :: "nat \<Rightarrow> string \<Rightarrow> nat" where
  "digits_val acc s = foldl (\<lambda>a c. a * 10 + digit_val c) acc s"

lemma digits_val_simps [simp]:
  "digits_val acc [] = acc"
  "digits_val acc (c # cs) = digits_val (acc * 10 + digit_val c) cs"
  "digits_val acc (xs @ ys) = digits_val (digits_val acc xs) ys"
  by (simp_all add: digits_val_def)

lemma digits_val_acc: "digits_val acc s = acc * 10 ^ length s + digits_val 0 s"
proof (induction s arbitrary: acc)
  case (Cons c cs)
  show ?case
    using Cons [of "acc * 10 + digit_val c"] Cons [of "digit_val c"] by (simp add: algebra_simps)
qed simp

lemma parse_digits_eq_Ok_iff:
  "acc < 2 ^ n \<Longrightarrow>
   parse_digits n acc s = Inr v \<longleftrightarrow> (\<forall>c \<in> set s. is_digit c) \<and> digits_val acc s = v \<and> v < 2 ^ n"
proof (induction s arbitrary: acc)
  case (Cons c cs)
  have "acc * 10 + digit_val c \<le> digits_val (acc * 10 + digit_val c) cs"
    by (subst digits_val_acc) (simp add: trans_le_add1)
  then show ?case using Cons.IH [of "acc * 10 + digit_val c"] by auto
qed auto

lemma digit_char_simps:
  assumes "d < 10"
  shows "is_digit (digit_char d)" "digit_val (digit_char d) = d" "digit_char d \<noteq> CHR ''+''"
    "digit_char d \<noteq> CHR ''.''" "digit_char d = CHR ''0'' \<longleftrightarrow> d = 0"
proof -
  have of_char: "(of_char (digit_char d) :: nat) = d + 48"
    using assms by (simp add: digit_char_def)
  then show "is_digit (digit_char d)" "digit_val (digit_char d) = d"
    using assms by (simp_all add: is_digit_def digit_val_def)
  have neq: "digit_char d \<noteq> c" if "(of_char c :: nat) \<noteq> d + 48" for c
    using of_char that by metis
  show "digit_char d \<noteq> CHR ''+''" "digit_char d \<noteq> CHR ''.''" by (rule neq, simp)+
  show "digit_char d = CHR ''0'' \<longleftrightarrow> d = 0"
    using assms by (simp add: digit_char_def char_of_eq_iff take_bit_nat_eq_self)
qed

lemma show_nat_digits: "c \<in> set (show_nat n) \<Longrightarrow> \<exists>d < 10. c = digit_char d"
proof (induction n rule: show_nat.induct)
  case (1 n)
  then show ?case
    by (subst (asm) (2) show_nat.simps) (auto split: if_splits intro: exI [of _ "n mod 10"])
qed

lemma show_nat_nonempty [simp]: "show_nat n \<noteq> []"
  by (subst show_nat.simps) simp

lemma digits_val_show_nat [simp]: "digits_val 0 (show_nat n) = n"
proof (induction n rule: show_nat.induct)
  case (1 n)
  then show ?case
    by (subst show_nat.simps) (auto simp: digit_char_simps)
qed

lemma parse_uint_digits:
  assumes "s \<noteq> []" "\<And>c. c \<in> set s \<Longrightarrow> \<exists>d < 10. c = digit_char d" "digits_val 0 s < 2 ^ n"
  shows "parse_uint n s = Inr (digits_val 0 s)"
proof -
  have "\<forall>c \<in> set s. is_digit c" using assms(2) digit_char_simps(1) by blast
  then have "parse_digits n 0 s = Inr (digits_val 0 s)"
    using assms(3) by (subst parse_digits_eq_Ok_iff) auto
  moreover have "hd s \<noteq> CHR ''+''"
    using assms(1,2) by (metis digit_char_simps(3) list.set_sel(1))
  ultimately show ?thesis using assms(1) by (cases s) (auto simp: parse_uint_def)
qed

lemma parse_uint_show_nat: "k < 2 ^ n \<Longrightarrow> parse_uint n (show_nat k) = Inr k"
  using parse_uint_digits [of "show_nat k" n] by (simp add: show_nat_digits)

lemma parse_word_to_string: "parse_word (to_string (a :: 'a::len word)) = Inr a"
  by (simp add: parse_word_def to_string_def parse_uint_show_nat)

lemma parse_uint_less: "parse_uint n s = Inr v \<Longrightarrow> v < 2 ^ n"
  by (auto simp: parse_uint_def parse_digits_eq_Ok_iff split: list.splits if_splits)

lemma parse_word_Ok_iff:
  "parse_word s = Inr (a :: 'a::len word) \<longleftrightarrow> parse_uint LENGTH('a) s = Inr (unat a)"
  by (cases "parse_uint LENGTH('a) s")
    (auto simp: parse_word_def unat_of_nat dest: parse_uint_less)

end
