(* ===== verification/Std_Errors.thy ===== *)
theory Std_Errors
  imports Rust_Integers
begin

text \<open>
  The error types of cosmwasm-std and of cosmwasm-crypto: \<open>packages/std/src/errors/std_error.rs\<close>,
  \<open>verification_error.rs\<close>, \<open>recover_pubkey_error.rs\<close> and \<open>packages/crypto/src/errors.rs\<close>.
  The feature \<open>backtraces\<close> is off, so no variant carries a backtrace. The hand-written
  \<open>PartialEq\<close> implementations are modelled as functions and shown to decide equality.
\<close>

section \<open>Crypto errors\<close>

datatype crypto_error =
    CryptoBatchErr string
  | CryptoGenericErr string
  | CryptoInvalidHashFormat
  | CryptoInvalidPubkeyFormat
  | CryptoInvalidSignatureFormat
  | CryptoInvalidRecoveryParam

fun crypto_error_code :: "crypto_error \<Rightarrow> u32" where
  "crypto_error_code CryptoInvalidHashFormat = 3"
| "crypto_error_code CryptoInvalidSignatureFormat = 4"
| "crypto_error_code CryptoInvalidPubkeyFormat = 5"
| "crypto_error_code CryptoInvalidRecoveryParam = 6"
| "crypto_error_code (CryptoBatchErr msg) = 7"
| "crypto_error_code (CryptoGenericErr msg) = 10"

section \<open>Verification and recovery errors\<close>

datatype verification_error =
    VBatchErr
  | VGenericErr
  | VInvalidHashFormat
  | VInvalidSignatureFormat
  | VInvalidPubkeyFormat
  | VInvalidRecoveryParam
  | VUnknownErr u32

fun verification_error_eq :: "verification_error \<Rightarrow> verification_error \<Rightarrow> bool" where
  "verification_error_eq VBatchErr rhs = (case rhs of VBatchErr \<Rightarrow> True | _ \<Rightarrow> False)"
| "verification_error_eq VGenericErr rhs = (case rhs of VGenericErr \<Rightarrow> True | _ \<Rightarrow> False)"
| "verification_error_eq VInvalidHashFormat rhs = (case rhs of VInvalidHashFormat \<Rightarrow> True | _ \<Rightarrow> False)"
| "verification_error_eq VInvalidPubkeyFormat rhs = (case rhs of VInvalidPubkeyFormat \<Rightarrow> True | _ \<Rightarrow> False)"
| "verification_error_eq VInvalidSignatureFormat rhs =
     (case rhs of VInvalidSignatureFormat \<Rightarrow> True | _ \<Rightarrow> False)"
| "verification_error_eq VInvalidRecoveryParam rhs =
     (case rhs of VInvalidRecoveryParam \<Rightarrow> True | _ \<Rightarrow> False)"
| "verification_error_eq (VUnknownErr error_code) rhs =
     (case rhs of VUnknownErr rhs_error_code \<Rightarrow> error_code = rhs_error_code | _ \<Rightarrow> False)"

fun verification_error_from :: "crypto_error \<Rightarrow> verification_error" where
  "verification_error_from CryptoInvalidHashFormat = VInvalidHashFormat"
| "verification_error_from CryptoInvalidPubkeyFormat = VInvalidPubkeyFormat"
| "verification_error_from CryptoInvalidSignatureFormat = VInvalidSignatureFormat"
| "verification_error_from (CryptoGenericErr msg) = VGenericErr"
| "verification_error_from CryptoInvalidRecoveryParam = VInvalidRecoveryParam"
| "verification_error_from (CryptoBatchErr msg) = VBatchErr"

datatype recover_pubkey_error =
    RInvalidHashFormat
  | RInvalidSignatureFormat
  | RInvalidRecoveryParam
  | RUnknownErr u32

fun recover_pubkey_error_eq :: "recover_pubkey_error \<Rightarrow> recover_pubkey_error \<Rightarrow> bool" where
  "recover_pubkey_error_eq RInvalidHashFormat rhs = (case rhs of RInvalidHashFormat \<Rightarrow> True | _ \<Rightarrow> False)"
| "recover_pubkey_error_eq RInvalidSignatureFormat rhs =
     (case rhs of RInvalidSignatureFormat \<Rightarrow> True | _ \<Rightarrow> False)"
| "recover_pubkey_error_eq RInvalidRecoveryParam rhs =
     (case rhs of RInvalidRecoveryParam \<Rightarrow> True | _ \<Rightarrow> False)"
| "recover_pubkey_error_eq (RUnknownErr error_code) rhs =
     (case rhs of RUnknownErr rhs_error_code \<Rightarrow> error_code = rhs_error_code | _ \<Rightarrow> False)"

fun recover_pubkey_error_from :: "crypto_error \<Rightarrow> recover_pubkey_error outcome" where
  "recover_pubkey_error_from CryptoInvalidHashFormat = Done RInvalidHashFormat"
| "recover_pubkey_error_from CryptoInvalidPubkeyFormat = Panic ''Conversion not supported''"
| "recover_pubkey_error_from CryptoInvalidSignatureFormat = Done RInvalidSignatureFormat"
| "recover_pubkey_error_from (CryptoGenericErr msg) =
     Done (RUnknownErr (crypto_error_code (CryptoGenericErr msg)))"
| "recover_pubkey_error_from CryptoInvalidRecoveryParam = Done RInvalidRecoveryParam"
| "recover_pubkey_error_from (CryptoBatchErr msg) = Panic ''Conversion not supported''"

section \<open>Arithmetic errors\<close>

datatype overflow_operation = OpAdd | OpSub | OpMul | OpPow | OpShr | OpShl

record overflow_error =
  operation :: overflow_operation
  operand1 :: string
  operand2 :: string

definition overflow_error_new :: "overflow_operation \<Rightarrow> string \<Rightarrow> string \<Rightarrow> overflow_error" where
  "overflow_error_new op a b = \<lparr>operation = op, operand1 = a, operand2 = b\<rparr>"

record conversion_overflow_error =
  source_type :: string
  target_type :: string
  conv_value :: string

definition conversion_overflow_error_new :: "string \<Rightarrow> string \<Rightarrow> string \<Rightarrow> conversion_overflow_error"
where
  "conversion_overflow_error_new src tgt v = \<lparr>source_type = src, target_type = tgt, conv_value = v\<rparr>"

record divide_by_zero_error =
  operand :: string

definition divide_by_zero_error_new :: "string \<Rightarrow> divide_by_zero_error" where
  "divide_by_zero_error_new a = \<lparr>operand = a\<rparr>"

section \<open>StdError\<close>

datatype std_error =
    VerificationErr verification_error
  | RecoverPubkeyErr recover_pubkey_error
  | GenericErr string
  | InvalidBase64 string
  | InvalidDataSize u64 u64
  | InvalidUtf8 string
  | NotFound string
  | ParseErr string string
  | SerializeErr string string
  | Overflow overflow_error
  | DivideByZero divide_by_zero_error
  | ConversionOverflow conversion_overflow_error

type_synonym 'a std_result = "(std_error, 'a) result"

fun std_error_eq :: "std_error \<Rightarrow> std_error \<Rightarrow> bool" where
  "std_error_eq (VerificationErr source) rhs =
     (case rhs of VerificationErr rhs_source \<Rightarrow> verification_error_eq source rhs_source | _ \<Rightarrow> False)"
| "std_error_eq (RecoverPubkeyErr source) rhs =
     (case rhs of RecoverPubkeyErr rhs_source \<Rightarrow> recover_pubkey_error_eq source rhs_source | _ \<Rightarrow> False)"
| "std_error_eq (GenericErr msg) rhs = (case rhs of GenericErr rhs_msg \<Rightarrow> msg = rhs_msg | _ \<Rightarrow> False)"
| "std_error_eq (InvalidBase64 msg) rhs = (case rhs of InvalidBase64 rhs_msg \<Rightarrow> msg = rhs_msg | _ \<Rightarrow> False)"
| "std_error_eq (InvalidDataSize expected actual) rhs =
     (case rhs of InvalidDataSize rhs_expected rhs_actual \<Rightarrow>
        expected = rhs_expected \<and> actual = rhs_actual | _ \<Rightarrow> False)"
| "std_error_eq (InvalidUtf8 msg) rhs = (case rhs of InvalidUtf8 rhs_msg \<Rightarrow> msg = rhs_msg | _ \<Rightarrow> False)"
| "std_error_eq (NotFound kind) rhs = (case rhs of NotFound rhs_kind \<Rightarrow> kind = rhs_kind | _ \<Rightarrow> False)"
| "std_error_eq (ParseErr target msg) rhs =
     (case rhs of ParseErr rhs_target rhs_msg \<Rightarrow> target = rhs_target \<and> msg = rhs_msg | _ \<Rightarrow> False)"
| "std_error_eq (SerializeErr source msg) rhs =
     (case rhs of SerializeErr rhs_source rhs_msg \<Rightarrow> source = rhs_source \<and> msg = rhs_msg | _ \<Rightarrow> False)"
| "std_error_eq (Overflow source) rhs =
     (case rhs of Overflow rhs_source \<Rightarrow> source = rhs_source | _ \<Rightarrow> False)"
| "std_error_eq (DivideByZero source) rhs =
     (case rhs of DivideByZero rhs_source \<Rightarrow> source = rhs_source | _ \<Rightarrow> False)"
| "std_error_eq (ConversionOverflow source) rhs =
     (case rhs of ConversionOverflow rhs_source \<Rightarrow> source = rhs_source | _ \<Rightarrow> False)"

section \<open>The hand-written comparisons decide equality\<close>

lemma verification_error_eq_iff [simp]: "verification_error_eq a b \<longleftrightarrow> a = b"
  by (cases a; cases b) auto

lemma recover_pubkey_error_eq_iff [simp]: "recover_pubkey_error_eq a b \<longleftrightarrow> a = b"
  by (cases a; cases b) auto

lemma std_error_eq_iff [simp]: "std_error_eq a b \<longleftrightarrow> a = b"
  by (cases a) (auto split: std_error.splits)

text \<open>Distinct kinds of crypto error have distinct codes, and no code is a verdict (0 or 1).\<close>

lemma crypto_error_code_inj:
  "crypto_error_code a = crypto_error_code b \<Longrightarrow>
   verification_error_from a = verification_error_from b"
  by (cases a; cases b) auto

lemma crypto_error_code_not_verdict: "crypto_error_code e \<noteq> 0 \<and> crypto_error_code e \<noteq> 1"
  by (cases e) auto

end
