(* ===== verification/VM_Errors.thy ===== *)
theory VM_Errors
  imports Std_Errors
begin

text \<open>
  The error types of cosmwasm-vm (\<open>packages/vm/src/errors\<close>), the gas reports and errors of a
  backend (\<open>packages/vm/src/backend.rs\<close>) and the conversions to 32 bits of
  \<open>conversion.rs\<close>. A \<open>usize\<close> is a natural number.
\<close>

section \<open>Errors\<close>

datatype region_validation_error =
    LengthExceedsCapacity u32 u32
  | OutOfRange u32 u32
  | ZeroOffset

datatype communication_error =
    DerefErr u32 string
  | InvalidOrder int
  | InvalidRegion region_validation_error
  | CommInvalidUtf8 string
  | RegionLengthTooBig nat nat
  | RegionTooSmall nat nat
  | ZeroAddress

datatype backend_error =
    ForeignPanic
  | BadArgument
  | BackendInvalidUtf8
  | IteratorDoesNotExist u32
  | OutOfGas
  | Unknown "string option"
  | UserErr string

datatype vm_error =
    VmBackendErr backend_error
  | VmCacheErr string
  | VmCommunicationErr communication_error
  | VmCompileErr string
  | VmConversionErr string string string
  | VmCryptoErr crypto_error
  | VmGasDepletion
  | VmGenericErr string
  | VmInstantiationErr string
  | VmIntegrityErr
  | VmParseErr string string
  | VmDeserializationLimitExceeded nat nat
  | VmSerializeErr string string
  | VmResolveErr string
  | VmResultMismatch string nat nat
  | VmRuntimeErr string
  | VmStaticValidationErr string
  | VmUninitializedContextData string
  | VmWriteAccessDenied

type_synonym 'a vm_result = "(vm_error, 'a) result"

text \<open>The conversions the question mark applies.\<close>

definition vm_error_from_backend :: "backend_error \<Rightarrow> vm_error" where
  "vm_error_from_backend original =
     (case original of OutOfGas \<Rightarrow> VmGasDepletion | _ \<Rightarrow> VmBackendErr original)"

definition vm_error_from_export :: "string \<Rightarrow> vm_error" where
  "vm_error_from_export original = VmResolveErr (''Could not get export: '' @ original)"

definition vm_error_from_runtime :: "string \<Rightarrow> vm_error" where
  "vm_error_from_runtime message = VmRuntimeErr (''Wasmer runtime error: '' @ ''RuntimeError: '' @ message)"

definition vm_error_from_serialize :: "string \<Rightarrow> vm_error" where
  "vm_error_from_serialize original = VmCacheErr (''Could not serialize module: '' @ original)"

definition vm_error_from_deserialize :: "string \<Rightarrow> vm_error" where
  "vm_error_from_deserialize original = VmCacheErr (''Could not deserialize module: '' @ original)"

definition vm_error_from_compile :: "string \<Rightarrow> vm_error" where
  "vm_error_from_compile original = VmCompileErr (''Could not compile: '' @ original)"

section \<open>Gas reports\<close>

record gas_info =
  cost :: u64
  externally_used :: u64

definition gas_info_new :: "u64 \<Rightarrow> u64 \<Rightarrow> gas_info" where
  "gas_info_new c e = \<lparr>cost = c, externally_used = e\<rparr>"

definition gas_info_with_cost :: "u64 \<Rightarrow> gas_info" where
  "gas_info_with_cost amount = \<lparr>cost = amount, externally_used = 0\<rparr>"

definition gas_info_with_externally_used :: "u64 \<Rightarrow> gas_info" where
  "gas_info_with_externally_used amount = \<lparr>cost = 0, externally_used = amount\<rparr>"

definition gas_info_free :: gas_info where
  "gas_info_free = \<lparr>cost = 0, externally_used = 0\<rparr>"

definition gas_info_add_assign :: "gas_info \<Rightarrow> gas_info \<Rightarrow> gas_info" where
  "gas_info_add_assign self other =
     \<lparr>cost = cost self + cost other, externally_used = externally_used self + externally_used other\<rparr>"

type_synonym 'a backend_result = "(backend_error, 'a) result \<times> gas_info"

section \<open>Conversions\<close>

definition to_u32 :: "nat \<Rightarrow> u32 vm_result" where
  "to_u32 input =
     (if input < 2 ^ 32 then Inr (word_of_nat input)
      else Inl (VmConversionErr ''usize'' ''u32'' (show_nat input)))"

lemma to_u32_Ok_iff: "to_u32 n = Inr w \<longleftrightarrow> n = unat w"
  using unat_lt [of w] by (auto simp: to_u32_def unat_of_nat word_unat_eq_iff)

end
