(* ===== verification/Sections.thy ===== *)
theory Sections
  imports VM_Errors
begin

text \<open>
  Several byte strings in one: \<open>packages/std/src/sections.rs\<close>, the side of the contract, and
  \<open>packages/vm/src/sections.rs\<close>, the side of the host. Each section is followed by its length
  in four bytes, so that the last one can be cut off first.
\<close>

text \<open>The big endian length in the four bytes before position \<open>n\<close>, as both sides read it.\<close>

definition section_len_before :: "bytes \<Rightarrow> nat \<Rightarrow> nat" where
  "section_len_before data n =
     unat (from_be_bytes [data ! (n - 4), data ! (n - 3), data ! (n - 2), data ! (n - 1)] :: u32)"

section \<open>The contract side\<close>

text \<open>\<open>force_to_u32\<close>: the conversion panics where a \<open>usize\<close> can exceed 32 bits.\<close>

definition force_to_u32 :: "nat \<Rightarrow> u32 outcome" where
  "force_to_u32 input =
     (if input < 2 ^ 32 then Done (word_of_nat input) else Panic ''Input exceeds u32 range'')"

fun std_encode_sections :: "bytes list \<Rightarrow> bytes outcome" where
  "std_encode_sections [] = Done []"
| "std_encode_sections (section # sections) =
     obind (force_to_u32 (length section)) (\<lambda>len.
     obind (std_encode_sections sections) (\<lambda>out. Done (section @ to_be_bytes len @ out)))"

text \<open>
  \<open>data.len() - 4 - tail_len\<close> below zero panics: by the overflow check, or, where that is
  off, in \<open>split_off\<close>.
\<close>

definition split_tail :: "bytes \<Rightarrow> (bytes \<times> bytes) outcome" where
  "split_tail data =
     (if length data < 4 then Panic ''Cannot read section length''
      else
        let n = length data; tail_len = section_len_before data n
        in if n < 4 + tail_len then Panic ''attempt to subtract with overflow''
           else
             let rest_len_end = n - 4 - tail_len;
                 (rest, tail) = (if rest_len_end = 0 then ([], data)
                                 else (take rest_len_end data, drop rest_len_end data))
             in Done (rest, take tail_len tail))"

definition decode_sections2 :: "bytes \<Rightarrow> (bytes \<times> bytes) outcome" where
  "decode_sections2 data =
     obind (split_tail data) (\<lambda>(rest, second).
     obind (split_tail rest) (\<lambda>(_, first). Done (first, second)))"

section \<open>The host side\<close>

fun vm_encode_sections :: "bytes list \<Rightarrow> bytes vm_result" where
  "vm_encode_sections [] = Inr []"
| "vm_encode_sections (section # sections) =
     rbind (to_u32 (length section)) (\<lambda>len.
     rbind (vm_encode_sections sections) (\<lambda>out. Inr (section @ to_be_bytes len @ out)))"

text \<open>The loop of \<open>decode_sections\<close>; the slice panics when its start is out of range.\<close>

fun decode_sections_loop :: "bytes \<Rightarrow> nat \<Rightarrow> bytes list \<Rightarrow> bytes list outcome" where
  "decode_sections_loop data remaining_len result =
     (if 4 \<le> remaining_len then
        let tail_len = section_len_before data remaining_len
        in if remaining_len < 4 + tail_len then Panic ''slice index out of range''
           else decode_sections_loop data (remaining_len - (4 + tail_len))
             (result @ [drop (remaining_len - 4 - tail_len) (take (remaining_len - 4) data)])
      else Done result)"

declare decode_sections_loop.simps [simp del]

definition decode_sections :: "bytes \<Rightarrow> bytes list outcome" where
  "decode_sections data = omap rev (decode_sections_loop data (length data) [])"

section \<open>Facts\<close>

text \<open>What both encoders produce.\<close>

definition section_bytes :: "bytes \<Rightarrow> bytes" where
  "section_bytes s = s @ to_be_bytes (word_of_nat (length s) :: u32)"

definition sections_small :: "bytes list \<Rightarrow> bool" where
  "sections_small ss \<longleftrightarrow> (\<forall>s \<in> set ss. length s < 2 ^ 32)"

lemma std_encode_sections_Done:
  "sections_small ss \<Longrightarrow> std_encode_sections ss = Done (concat (map section_bytes ss))"
  by (induction ss) (auto simp: sections_small_def force_to_u32_def section_bytes_def)

lemma vm_encode_sections_Ok:
  "sections_small ss \<Longrightarrow> vm_encode_sections ss = Inr (concat (map section_bytes ss))"
  by (induction ss) (auto simp: sections_small_def to_u32_def section_bytes_def)

lemma length_section_bytes [simp]: "length (section_bytes s) = length s + 4"
  by (simp add: section_bytes_def)

text \<open>The length read at the end of a section.\<close>

lemma section_len_before_section:
  assumes "length s < 2 ^ 32" "n = length r + length (section_bytes s)"
  shows "section_len_before (r @ section_bytes s @ t) n = length s"
proof -
  define l where "l = to_be_bytes (word_of_nat (length s) :: u32)"
  have "length l = 4" by (simp add: l_def)
  then obtain a b c d where l: "l = [a, b, c, d]" by (auto simp: length_Suc_conv numeral_eq_Suc)
  have data: "r @ section_bytes s @ t = (r @ s) @ a # b # c # d # t"
    by (simp add: section_bytes_def flip: l_def) (simp add: l)
  have n: "n = length (r @ s) + 4" using assms(2) by simp
  have "section_len_before (r @ section_bytes s @ t) n = unat (from_be_bytes l :: u32)"
    unfolding section_len_before_def data n l by (simp add: nth_append numeral_2_eq_2 numeral_3_eq_3)
  also have "from_be_bytes l = (word_of_nat (length s) :: u32)" by (simp add: l_def from_to_be_bytes)
  finally show ?thesis using assms(1) by (simp add: unat_of_nat)
qed

lemma split_tail_section:
  assumes "length s < 2 ^ 32"
  shows "split_tail (r @ section_bytes s) = Done (r, s)"
proof -
  have "section_len_before (r @ section_bytes s) (length (r @ section_bytes s)) = length s"
    using section_len_before_section [OF assms, of _ r "[]"] by simp
  then show ?thesis
    by (cases "r = []") (simp_all add: split_tail_def Let_def, simp_all add: section_bytes_def)
qed

lemma decode_sections_loop_step:
  assumes "length s < 2 ^ 32" "n = length r + length (section_bytes s)"
  shows "decode_sections_loop (r @ section_bytes s @ t) n acc =
    decode_sections_loop (r @ section_bytes s @ t) (length r) (acc @ [s])"
proof -
  define d where "d = r @ section_bytes s @ t"
  have "section_len_before d n = length s" using section_len_before_section [OF assms] by (simp add: d_def)
  moreover have "drop (n - 4 - length s) (take (n - 4) d) = s"
    using assms(2) by (simp add: d_def section_bytes_def)
  moreover have "4 \<le> n" "\<not> n < 4 + length s" "n - (4 + length s) = length r" using assms(2) by simp_all
  ultimately have "decode_sections_loop d n acc = decode_sections_loop d (length r) (acc @ [s])"
    by (subst decode_sections_loop.simps) (simp only: Let_def if_True if_False)
  then show ?thesis by (simp add: d_def)
qed

lemma decode_sections_loop_concat:
  "sections_small ss \<Longrightarrow>
   decode_sections_loop (concat (map section_bytes ss) @ t) (length (concat (map section_bytes ss))) acc = Done (acc @ rev ss)"
proof (induction ss arbitrary: t acc rule: rev_induct)
  case Nil
  show ?case by (simp add: decode_sections_loop.simps)
next
  case (snoc s ss)
  then have "length s < 2 ^ 32" "sections_small ss" by (auto simp: sections_small_def)
  then show ?case
    using decode_sections_loop_step [of s _ "concat (map section_bytes ss)" t acc] snoc.IH [of "section_bytes s @ t" "acc @ [s]"]
    by simp
qed

lemma decode_encode_sections:
  assumes "sections_small ss"
  shows "decode_sections (concat (map section_bytes ss)) = Done ss"
  using decode_sections_loop_concat [OF assms, of "[]" "[]"] by (simp add: decode_sections_def)

lemma decode_encode_sections2:
  assumes "length a < 2 ^ 32" "length b < 2 ^ 32"
  shows "decode_sections2 (section_bytes a @ section_bytes b) = Done (a, b)"
  using split_tail_section [OF assms(2)] split_tail_section [OF assms(1), of "[]"]
  by (simp add: decode_sections2_def)

lemma decode_vm_sections2:
  assumes "vm_encode_sections [a, b] = Inr out"
  shows "decode_sections2 out = Done (a, b)"
proof -
  have "length a < 2 ^ 32" "length b < 2 ^ 32" using assms by (auto simp: rbind_eq_Ok_iff to_u32_def split: if_splits)
  then show ?thesis
    using vm_encode_sections_Ok [of "[a, b]"] decode_encode_sections2 [of a b] assms by (simp add: sections_small_def)
qed

text \<open>Data that the host accepts is, up to at most three leading bytes, an encoding.\<close>

lemma last_four_bytes:
  assumes "4 \<le> n" "n \<le> length data"
  shows "drop (n - 4) (take n data) = to_be_bytes (word_of_nat (section_len_before data n) :: u32)"
proof -
  have "drop (n - 4) (take n data) = map (\<lambda>i. data ! i) [n - 4..<n]"
    using assms by (intro nth_equalityI) auto
  also have "[n - 4..<n] = [n - 4, n - 3, n - 2, n - 1]"
    using assms(1) by (intro nth_equalityI) (auto simp: nth_Cons split: nat.splits)
  finally have eq: "drop (n - 4) (take n data) = [data ! (n - 4), data ! (n - 3), data ! (n - 2), data ! (n - 1)]"
    by simp
  have "to_be_bytes (from_be_bytes [a, b, c, d] :: u32) = [a, b, c, d]" for a b c d
    by (simp add: to_be_bytes_def from_be_bytes_def to_from_le_bytes)
  then show ?thesis by (simp add: eq section_len_before_def)
qed

lemma decode_sections_loop_sound:
  "decode_sections_loop data n acc = Done res \<Longrightarrow> n \<le> length data \<Longrightarrow>
   \<exists>j ss. take n data = j @ concat (map section_bytes ss) \<and> length j < 4 \<and> sections_small ss \<and> res = acc @ rev ss"
proof (induction data n acc rule: decode_sections_loop.induct)
  case (1 data n acc)
  define L where "L = section_len_before data n"
  show ?case
  proof (cases "4 \<le> n")
    case True
    define s where "s = drop (n - 4 - L) (take (n - 4) data)"
    from True "1.prems"(1) have ge: "4 + L \<le> n"
      and rec: "decode_sections_loop data (n - (4 + L)) (acc @ [s]) = Done res"
      by (simp_all add: decode_sections_loop.simps [of data n acc] Let_def L_def s_def split: if_splits)
    obtain j ss where IH: "take (n - (4 + L)) data = j @ concat (map section_bytes ss)" "length j < 4"
      "sections_small ss" "res = (acc @ [s]) @ rev ss"
      using "1.IH" [OF True] ge rec "1.prems"(2) unfolding L_def s_def by force
    have len: "length s = L" using ge "1.prems"(2) by (simp add: s_def)
    have small: "L < 2 ^ 32" using unat_lt [of "_ :: u32"] by (simp add: L_def section_len_before_def)
    have "take n data = take (n - (4 + L)) data @ s @ drop (n - 4) (take n data)"
    proof -
      have "take n data = take (n - 4) data @ drop (n - 4) (take n data)"
        by (metis append_take_drop_id diff_le_self min.absorb1 take_take)
      moreover have "take (n - 4) data = take (n - (4 + L)) data @ s"
        by (metis append_take_drop_id diff_diff_left diff_le_self min.absorb1 s_def take_take)
      ultimately show ?thesis by simp
    qed
    also have "s @ drop (n - 4) (take n data) = section_bytes s"
      using last_four_bytes [OF True "1.prems"(2)] by (simp add: section_bytes_def len L_def)
    finally have "take n data = j @ concat (map section_bytes (ss @ [s]))" using IH(1) by simp
    moreover have "sections_small (ss @ [s])" using IH(3) small len by (auto simp: sections_small_def)
    moreover have "res = acc @ rev (ss @ [s])" using IH(4) by simp
    ultimately show ?thesis using IH(2) by blast
  next
    case False
    with "1.prems" have "res = acc" by (simp add: decode_sections_loop.simps [of data n acc])
    with False "1.prems"(2) show ?thesis
      by (intro exI [of _ "take n data"] exI [of _ "[]"]) (simp add: sections_small_def)
  qed
qed

lemma decode_sections_sound:
  assumes "decode_sections data = Done ss"
  shows "\<exists>j. data = j @ concat (map section_bytes ss) \<and> length j < 4 \<and> sections_small ss"
  using assms decode_sections_loop_sound [of data "length data" "[]"]
  by (auto simp: decode_sections_def omap_eq_Done_iff)

end
