(* ===== verification/VM_Memory.thy ===== *)
theory VM_Memory
  imports Sections
begin

text \<open>
  The host's view of the linear memory of a contract: \<open>packages/vm/src/memory.rs\<close> and the
  implementation of \<open>Memory\<close> for \<open>wasmer::Memory\<close> in \<open>wasm.rs\<close>. Dereferencing a pointer
  into the memory and the metering of gas are done by wasmer, which is not part of the repository:
  its functions are the record \<open>wasm_engine\<close>, and the locale \<open>wasm_engine_laws\<close> states the
  part of their behaviour that the code relies on. The last section realises the locale by a list
  of bytes and a gas counter.
\<close>

section \<open>Regions\<close>

record region =
  reg_offset :: u32
  reg_capacity :: u32
  reg_length :: u32

definition validate_region :: "region \<Rightarrow> (region_validation_error, unit) result" where
  "validate_region region =
     (if reg_offset region = 0 then Inl ZeroOffset
      else if reg_capacity region < reg_length region
        then Inl (LengthExceedsCapacity (reg_length region) (reg_capacity region))
      else if (- 1) - reg_offset region < reg_capacity region
        then Inl (OutOfRange (reg_offset region) (reg_capacity region))
      else Inr ())"

text \<open>A region is valid when its capacity fits below the end of the 32-bit address space.\<close>

definition region_ok :: "region \<Rightarrow> bool" where
  "region_ok r \<longleftrightarrow> reg_offset r \<noteq> 0 \<and> unat (reg_length r) \<le> unat (reg_capacity r) \<and>
     unat (reg_offset r) + unat (reg_capacity r) < 2 ^ 32"

lemma validate_region_Ok_iff: "validate_region r = Inr () \<longleftrightarrow> region_ok r"
proof -
  have max: "unat (- 1 :: u32) = 4294967295" by (simp add: unat_max_word)
  have "unat (reg_offset r) < 4294967296" using unat_lt [of "reg_offset r"] by simp
  then have "unat (reg_offset r) \<le> unat (- 1 :: u32)" unfolding max by linarith
  from unat_sub_exact [OF this] have "unat (- 1 - reg_offset r) = 4294967295 - unat (reg_offset r)"
    unfolding max .
  then show ?thesis
    using \<open>unat (reg_offset r) < 4294967296\<close>
    by (auto simp: validate_region_def region_ok_def word_less_nat_alt not_less)
qed

text \<open>The \<open>Debug\<close> format of a region, which is part of an error message.\<close>

definition show_region :: "region \<Rightarrow> string" where
  "show_region r = ''Region { offset: '' @ to_string (reg_offset r) @ '', capacity: '' @ to_string (reg_capacity r)
     @ '', length: '' @ to_string (reg_length r) @ '' }''"

section \<open>The engine\<close>

datatype metering_points = Remaining u64 | Exhausted

text \<open>
  \<open>we_deref_region\<close> and \<open>we_set_region\<close> are \<open>WasmPtr<Region>::deref\<close> followed by
  \<open>get\<close> or \<open>set\<close> on the cell, \<open>we_read_cells\<close> and \<open>we_write_cells\<close> are
  \<open>WasmPtr<u8, Array>::deref\<close> with the given length followed by reading all cells or writing
  the first ones.
\<close>

record 'w wasm_engine =
  we_has_memory :: "'w \<Rightarrow> bool"
  we_mem_bytes :: "'w \<Rightarrow> nat"
  we_deref_region :: "'w \<Rightarrow> u32 \<Rightarrow> region option"
  we_set_region :: "'w \<Rightarrow> u32 \<Rightarrow> region \<Rightarrow> 'w option"
  we_read_cells :: "'w \<Rightarrow> u32 \<Rightarrow> u32 \<Rightarrow> bytes option"
  we_write_cells :: "'w \<Rightarrow> u32 \<Rightarrow> u32 \<Rightarrow> bytes \<Rightarrow> 'w option"
  we_points :: "'w \<Rightarrow> metering_points"
  we_set_points :: "'w \<Rightarrow> u64 \<Rightarrow> 'w"

section \<open>Memory for wasmer::Memory\<close>

definition deref_failed :: "'w wasm_engine \<Rightarrow> 'w \<Rightarrow> region \<Rightarrow> vm_error" where
  "deref_failed E w region = VmCommunicationErr (DerefErr (reg_offset region)
     (''Tried to access memory of region '' @ show_region region @ '' in wasm memory of size ''
      @ show_nat (we_mem_bytes E w)
      @ '' bytes. This typically happens when the given Region pointer does not point to a proper Region struct.''))"

definition get_region :: "'w wasm_engine \<Rightarrow> 'w \<Rightarrow> u32 \<Rightarrow> (communication_error, region) result" where
  "get_region E w ptr =
     (case we_deref_region E w ptr of
        Some region \<Rightarrow> rbind (map_err InvalidRegion (validate_region region)) (\<lambda>_. Inr region)
      | None \<Rightarrow> Inl (DerefErr ptr ''Could not dereference this pointer to a Region''))"

definition set_region :: "'w wasm_engine \<Rightarrow> u32 \<Rightarrow> region \<Rightarrow> 'w \<Rightarrow> (communication_error, unit) result \<times> 'w" where
  "set_region E ptr data w =
     (case we_set_region E w ptr data of
        Some w' \<Rightarrow> (Inr (), w')
      | None \<Rightarrow> (Inl (DerefErr ptr ''Could not dereference this pointer to a Region''), w))"

definition read_region :: "'w wasm_engine \<Rightarrow> 'w \<Rightarrow> u32 \<Rightarrow> nat \<Rightarrow> bytes vm_result" where
  "read_region E w ptr max_length =
     rbind (map_err VmCommunicationErr (get_region E w ptr)) (\<lambda>region.
     rbind (to_u32 max_length) (\<lambda>max.
     if max < reg_length region
     then Inl (VmCommunicationErr (RegionLengthTooBig (unat (reg_length region)) max_length))
     else case we_read_cells E w (reg_offset region) (reg_length region) of
            Some cells \<Rightarrow> Inr cells
          | None \<Rightarrow> Inl (deref_failed E w region)))"

definition maybe_read_region :: "'w wasm_engine \<Rightarrow> 'w \<Rightarrow> u32 \<Rightarrow> nat \<Rightarrow> bytes option vm_result" where
  "maybe_read_region E w ptr max_length =
     (if ptr = 0 then Inr None else map_ok Some (read_region E w ptr max_length))"

definition write_region :: "'w wasm_engine \<Rightarrow> u32 \<Rightarrow> bytes \<Rightarrow> 'w \<Rightarrow> unit vm_result \<times> 'w" where
  "write_region E ptr data w =
     (case get_region E w ptr of
        Inl e \<Rightarrow> (Inl (VmCommunicationErr e), w)
      | Inr region \<Rightarrow>
          let region_capacity = unat (reg_capacity region) in
          if region_capacity < length data
          then (Inl (VmCommunicationErr (RegionTooSmall region_capacity (length data))), w)
          else case we_write_cells E w (reg_offset region) (reg_capacity region) data of
                 Some w' \<Rightarrow>
                   (case set_region E ptr (region\<lparr>reg_length := word_of_nat (length data)\<rparr>) w' of
                      (Inl e, w'') \<Rightarrow> (Inl (VmCommunicationErr e), w'')
                    | (Inr _, w'') \<Rightarrow> (Inr (), w''))
               | None \<Rightarrow> (Inl (deref_failed E w region), w))"

definition engine_gas_left :: "'w wasm_engine \<Rightarrow> 'w \<Rightarrow> u64" where
  "engine_gas_left E w = (case we_points E w of Remaining count \<Rightarrow> count | Exhausted \<Rightarrow> 0)"

definition engine_set_gas_left :: "'w wasm_engine \<Rightarrow> u64 \<Rightarrow> 'w \<Rightarrow> 'w" where
  "engine_set_gas_left E new w = we_set_points E w new"

section \<open>What the code relies on\<close>

definition apart :: "u32 \<Rightarrow> region \<Rightarrow> bool" where
  "apart ptr r \<longleftrightarrow> unat ptr + 12 \<le> unat (reg_offset r) \<or> unat (reg_offset r) + unat (reg_capacity r) \<le> unat ptr"

locale wasm_engine_laws =
  fixes E :: "'w wasm_engine"
  assumes points_set: "we_points E (we_set_points E w n) = Remaining n"
    and set_points_memory: "we_deref_region E (we_set_points E w n) p = we_deref_region E w p"
      "we_read_cells E (we_set_points E w n) off len = we_read_cells E w off len"
      "we_has_memory E (we_set_points E w n) = we_has_memory E w"
    and write_points: "we_write_cells E w off cap d = Some w' \<Longrightarrow> we_points E w' = we_points E w \<and> we_has_memory E w' = we_has_memory E w"
      "we_set_region E w p r = Some w' \<Longrightarrow> we_points E w' = we_points E w \<and> we_has_memory E w' = we_has_memory E w"
    and read_length: "we_read_cells E w off len = Some bs \<Longrightarrow> length bs = unat len"
    and read_written: "we_write_cells E w off cap d = Some w' \<Longrightarrow> length d \<le> unat cap \<Longrightarrow>
      we_read_cells E w' off (word_of_nat (length d)) = Some d"
    and get_set_region: "4 dvd unat p \<Longrightarrow> we_set_region E w p r = Some w' \<Longrightarrow> we_deref_region E w' p = Some r"
    and set_region_apart: "4 dvd unat p \<Longrightarrow> we_set_region E w p r = Some w' \<Longrightarrow>
      unat p + 12 \<le> unat off \<or> unat off + unat len \<le> unat p \<Longrightarrow> we_read_cells E w' off len = we_read_cells E w off len"
    and set_region_defined: "we_deref_region E w p \<noteq> None \<Longrightarrow> we_set_region E w p r \<noteq> None"
    and deref_after_write: "we_write_cells E w off cap d = Some w' \<Longrightarrow>
      we_deref_region E w' p = None \<longleftrightarrow> we_deref_region E w p = None"
begin

lemma read_region_bound:
  assumes "read_region E w ptr max_length = Inr bs"
  shows "length bs \<le> max_length"
  using assms read_length
  by (auto simp: read_region_def rbind_eq_Ok_iff to_u32_Ok_iff word_less_nat_alt not_less
      split: if_splits option.splits)

lemma write_region_Ok:
  assumes "write_region E ptr data w = (Inr (), w')" "4 dvd unat ptr"
    and "\<And>r. we_deref_region E w ptr = Some r \<Longrightarrow> apart ptr r" "length data \<le> max_length" "max_length < 2 ^ 32"
  shows "read_region E w' ptr max_length = Inr data"
proof -
  obtain region where region: "get_region E w ptr = Inr region" "length data \<le> unat (reg_capacity region)"
    using assms(1) by (auto simp: write_region_def Let_def split: sum.splits if_splits)
  obtain w1 where w1: "we_write_cells E w (reg_offset region) (reg_capacity region) data = Some w1"
    using assms(1) region by (auto simp: write_region_def Let_def split: option.splits)
  have w': "we_set_region E w1 ptr (region\<lparr>reg_length := word_of_nat (length data)\<rparr>) = Some w'"
    using assms(1) region w1 by (auto simp: write_region_def set_region_def Let_def split: option.splits)
  have deref: "we_deref_region E w ptr = Some region" and ok: "region_ok region"
    using region(1) by (auto simp: get_region_def rbind_eq_Ok_iff map_err_eq_Ok_iff validate_region_Ok_iff
        split: option.splits)
  define region' where "region' = region\<lparr>reg_length := word_of_nat (length data)\<rparr>"
  have len: "unat (reg_length region') = length data"
    using region(2) unat_lt [of "reg_capacity region"] by (simp add: region'_def unat_of_nat)
  then have "region_ok region'"
    using ok region(2) by (simp add: region_ok_def region'_def)
  then have "validate_region region' = Inr ()" by (simp add: validate_region_Ok_iff)
  moreover have "we_deref_region E w' ptr = Some region'"
    using get_set_region [OF assms(2) w'] by (simp add: region'_def)
  moreover have "we_read_cells E w' (reg_offset region') (reg_length region') = Some data"
  proof -
    have "apart ptr region" using assms(3) deref by blast
    then have "unat ptr + 12 \<le> unat (reg_offset region) \<or>
        unat (reg_offset region) + unat (word_of_nat (length data) :: u32) \<le> unat ptr"
      using region(2) len by (auto simp: apart_def region'_def)
    from set_region_apart [OF assms(2) w' this] read_written [OF w1 region(2)]
    show ?thesis by (simp add: region'_def)
  qed
  ultimately show ?thesis
    using len assms(4,5)
    by (simp add: read_region_def get_region_def to_u32_def word_less_nat_alt unat_of_nat)
qed

lemma write_region_points:
  assumes "write_region E ptr data w = (r, w')"
  shows "we_points E w' = we_points E w \<and> we_has_memory E w' = we_has_memory E w"
  using assms
  by (auto simp: write_region_def set_region_def Let_def dest!: write_points
      split: sum.splits if_splits option.splits)

end

section \<open>A linear memory with a gas counter\<close>

definition put_bytes :: "nat \<Rightarrow> bytes \<Rightarrow> bytes \<Rightarrow> bytes" where
  "put_bytes i bs mem = take i mem @ bs @ drop (i + length bs) mem"

definition get_bytes :: "nat \<Rightarrow> nat \<Rightarrow> bytes \<Rightarrow> bytes" where
  "get_bytes i n mem = take n (drop i mem)"

lemma length_put_bytes: "i + length bs \<le> length mem \<Longrightarrow> length (put_bytes i bs mem) = length mem"
  by (simp add: put_bytes_def)

lemma get_put_bytes: "i + length bs \<le> length mem \<Longrightarrow> get_bytes i (length bs) (put_bytes i bs mem) = bs"
  by (simp add: put_bytes_def get_bytes_def)

lemma get_put_bytes_part:
  "i + length bs \<le> length mem \<Longrightarrow> k + n \<le> length bs \<Longrightarrow>
   get_bytes (i + k) n (put_bytes i bs mem) = take n (drop k bs)"
  by (simp add: put_bytes_def get_bytes_def)

lemma get_put_bytes_apart:
  assumes "i + length bs \<le> length mem" "j + n \<le> i \<or> i + length bs \<le> j"
  shows "get_bytes j n (put_bytes i bs mem) = get_bytes j n mem"
  using assms by (auto simp: put_bytes_def get_bytes_def take_drop min_def)

record linear_instance =
  lm_mem :: bytes
  lm_points :: metering_points

definition region_bytes :: "region \<Rightarrow> bytes" where
  "region_bytes r = to_le_bytes (reg_offset r) @ to_le_bytes (reg_capacity r) @ to_le_bytes (reg_length r)"

definition bytes_region :: "bytes \<Rightarrow> region" where
  "bytes_region bs = \<lparr>reg_offset = from_le_bytes (take 4 bs), reg_capacity = from_le_bytes (take 4 (drop 4 bs)),
     reg_length = from_le_bytes (take 4 (drop 8 bs))\<rparr>"

lemma bytes_region_bytes: "bytes_region (region_bytes r) = r"
  by (cases r) (simp add: bytes_region_def region_bytes_def from_to_le_bytes)

lemma length_region_bytes [simp]: "length (region_bytes r) = 12"
  by (simp add: region_bytes_def)

definition linear_engine :: "linear_instance wasm_engine" where
  "linear_engine =
     \<lparr>we_has_memory = (\<lambda>w. True),
      we_mem_bytes = (\<lambda>w. length (lm_mem w)),
      we_deref_region = (\<lambda>w p. if unat p + 12 \<le> length (lm_mem w)
         then Some (bytes_region (get_bytes (unat p) 12 (lm_mem w))) else None),
      we_set_region = (\<lambda>w p r. if unat p + 12 \<le> length (lm_mem w)
         then Some (w\<lparr>lm_mem := put_bytes (unat p) (region_bytes r) (lm_mem w)\<rparr>) else None),
      we_read_cells = (\<lambda>w off len. if unat off + unat len \<le> length (lm_mem w)
         then Some (get_bytes (unat off) (unat len) (lm_mem w)) else None),
      we_write_cells = (\<lambda>w off cap d. if unat off + unat cap \<le> length (lm_mem w) \<and> length d \<le> unat cap
         then Some (w\<lparr>lm_mem := put_bytes (unat off) d (lm_mem w)\<rparr>) else None),
      we_points = lm_points,
      we_set_points = (\<lambda>w n. w\<lparr>lm_points := Remaining n\<rparr>)\<rparr>"

interpretation linear: wasm_engine_laws linear_engine
proof
  fix w w' :: linear_instance and n :: u64 and p off cap len :: u32 and d bs :: bytes and r :: region
  show "we_points linear_engine (we_set_points linear_engine w n) = Remaining n"
    "we_deref_region linear_engine (we_set_points linear_engine w n) p = we_deref_region linear_engine w p"
    "we_read_cells linear_engine (we_set_points linear_engine w n) off len = we_read_cells linear_engine w off len"
    "we_has_memory linear_engine (we_set_points linear_engine w n) = we_has_memory linear_engine w"
    by (simp_all add: linear_engine_def)
  show "we_points linear_engine w' = we_points linear_engine w \<and> we_has_memory linear_engine w' = we_has_memory linear_engine w"
    if "we_write_cells linear_engine w off cap d = Some w'"
    using that by (auto simp: linear_engine_def split: if_splits)
  show "we_points linear_engine w' = we_points linear_engine w \<and> we_has_memory linear_engine w' = we_has_memory linear_engine w"
    if "we_set_region linear_engine w p r = Some w'"
    using that by (auto simp: linear_engine_def split: if_splits)
  show "length bs = unat len" if "we_read_cells linear_engine w off len = Some bs"
    using that by (auto simp: linear_engine_def get_bytes_def split: if_splits)
  show "we_read_cells linear_engine w' off (word_of_nat (length d)) = Some d"
    if "we_write_cells linear_engine w off cap d = Some w'" "length d \<le> unat cap"
  proof -
    have "unat (word_of_nat (length d) :: u32) = length d"
      using that(2) unat_lt [of cap] by (simp add: unat_of_nat)
    with that show ?thesis
      by (auto simp: linear_engine_def get_put_bytes length_put_bytes split: if_splits)
  qed
  show "we_deref_region linear_engine w' p = Some r"
    if "4 dvd unat p" "we_set_region linear_engine w p r = Some w'"
    using that get_put_bytes [of "unat p" "region_bytes r" "lm_mem w"]
    by (auto simp: linear_engine_def length_put_bytes bytes_region_bytes split: if_splits)
  show "we_read_cells linear_engine w' off len = we_read_cells linear_engine w off len"
    if "4 dvd unat p" "we_set_region linear_engine w p r = Some w'"
      "unat p + 12 \<le> unat off \<or> unat off + unat len \<le> unat p"
    using that by (auto simp: linear_engine_def length_put_bytes get_put_bytes_apart split: if_splits)
  show "we_set_region linear_engine w p r \<noteq> None" if "we_deref_region linear_engine w p \<noteq> None"
    using that by (auto simp: linear_engine_def split: if_splits)
  show "we_deref_region linear_engine w' p = None \<longleftrightarrow> we_deref_region linear_engine w p = None"
    if "we_write_cells linear_engine w off cap d = Some w'"
    using that by (auto simp: linear_engine_def length_put_bytes split: if_splits)
qed

end
