(* ===== verification/Storage.thy ===== *)
theory Storage
  imports Std_Errors "HOL-Library.Sublist"
begin

text \<open>
  The trait \<open>Storage\<close> of \<open>packages/std/src/traits.rs\<close>, with \<open>Order\<close> and \<open>Record\<close> of
  \<open>iterator.rs\<close>, and its in-memory implementation \<open>MemoryStorage\<close> of
  \<open>packages/std/src/storage.rs\<close>. A \<open>dyn Storage\<close> is a value of the record
  \<open>storage_ops\<close>, the functions of its vtable. The locale \<open>key_value_store\<close> states the contract
  of the trait over a finite map from keys to values, and MemoryStorage is shown to keep it.
  Iterators are lists: an item whose computation panics makes the list panic.
\<close>

section \<open>The interface\<close>

datatype order = Ascending | Descending

text \<open>The integers an order is passed as over the wasm boundary.\<close>

fun order_to_i32 :: "order \<Rightarrow> int" where
  "order_to_i32 Ascending = 1"
| "order_to_i32 Descending = 2"

definition order_try_from_i32 :: "int \<Rightarrow> order std_result" where
  "order_try_from_i32 value =
     (if value = 1 then Inr Ascending
      else if value = 2 then Inr Descending
      else Inl (GenericErr ''Order must be 1 or 2''))"

type_synonym kv = "bytes \<times> bytes"

record 's storage_ops =
  st_get :: "'s \<Rightarrow> bytes \<Rightarrow> bytes option"
  st_range :: "'s \<Rightarrow> bytes option \<Rightarrow> bytes option \<Rightarrow> order \<Rightarrow> kv list outcome"
  st_set :: "'s \<Rightarrow> bytes \<Rightarrow> bytes \<Rightarrow> 's outcome"
  st_remove :: "'s \<Rightarrow> bytes \<Rightarrow> 's outcome"

text \<open>The bound \<open>start\<close> is inclusive and \<open>end\<close> is exclusive.\<close>

definition in_range :: "bytes option \<Rightarrow> bytes option \<Rightarrow> bytes \<Rightarrow> bool" where
  "in_range start end k \<longleftrightarrow>
     (case start of None \<Rightarrow> True | Some s \<Rightarrow> s \<le> k) \<and> (case end of None \<Rightarrow> True | Some e \<Rightarrow> k < e)"

definition ordered_by :: "order \<Rightarrow> bytes list \<Rightarrow> bool" where
  "ordered_by ord ks \<longleftrightarrow> (case ord of Ascending \<Rightarrow> sorted_wrt (<) ks | Descending \<Rightarrow> sorted_wrt (>) ks)"

text \<open>What a range over a map returns: its entries between the bounds, in order of the keys.\<close>

definition range_spec :: "(bytes \<rightharpoonup> bytes) \<Rightarrow> bytes option \<Rightarrow> bytes option \<Rightarrow> order \<Rightarrow> kv list \<Rightarrow> bool" where
  "range_spec m start end ord rs \<longleftrightarrow>
     set rs = {(k, v). m k = Some v \<and> in_range start end k} \<and> ordered_by ord (map fst rs)"

text \<open>The contract of a storage: \<open>view\<close> is the map that it holds.\<close>

locale key_value_store =
  fixes S :: "'s storage_ops" and valid :: "'s \<Rightarrow> bool" and view :: "'s \<Rightarrow> bytes \<rightharpoonup> bytes"
  assumes get_view: "valid s \<Longrightarrow> st_get S s k = view s k"
    and set_view: "valid s \<Longrightarrow> v \<noteq> [] \<Longrightarrow> \<exists>t. st_set S s k v = Done t \<and> valid t \<and> view t = (view s)(k \<mapsto> v)"
    and set_empty: "valid s \<Longrightarrow> panics (st_set S s k [])"
    and remove_view: "valid s \<Longrightarrow> \<exists>t. st_remove S s k = Done t \<and> valid t \<and> view t = (view s)(k := None)"
    and range_view: "valid s \<Longrightarrow> \<exists>rs. st_range S s start end ord = Done rs \<and> range_spec (view s) start end ord rs"
begin

lemma get_after_set:
  assumes "valid s" "st_set S s k v = Done t"
  shows "valid t" "st_get S t j = (if j = k then Some v else st_get S s j)"
proof -
  have "v \<noteq> []" using assms set_empty by (metis panics.simps(2))
  then show "valid t" "st_get S t j = (if j = k then Some v else st_get S s j)"
    using set_view [OF assms(1), of v k] assms get_view by auto
qed

lemma get_after_remove:
  assumes "valid s" "st_remove S s k = Done t"
  shows "valid t" "st_get S t j = (if j = k then None else st_get S s j)"
  using remove_view [OF assms(1), of k] assms get_view by auto

lemma set_Done: "valid s \<Longrightarrow> v \<noteq> [] \<Longrightarrow> \<exists>t. st_set S s k v = Done t"
  using set_view by blast

lemma remove_Done: "valid s \<Longrightarrow> \<exists>t. st_remove S s k = Done t"
  using remove_view by blast

end

lemma sorted_wrt_greater_iff: "sorted_wrt (>) xs \<longleftrightarrow> sorted_wrt (<) (rev xs)" for xs :: "'a::linorder list"
  by (simp add: sorted_wrt_rev)

lemma sorted_fst_unique:
  "sorted_wrt (<) (map fst rs) \<Longrightarrow> sorted_wrt (<) (map fst qs) \<Longrightarrow> set rs = set qs \<Longrightarrow> rs = qs"
  for rs qs :: "('k::linorder \<times> 'v) list"
proof -
  assume sorted: "sorted_wrt (<) (map fst rs)" "sorted_wrt (<) (map fst qs)" and eq: "set rs = set qs"
  then have "map fst rs = map fst qs"
    by (metis set_map strict_sorted_equal)
  moreover have "distinct (map fst rs)" using sorted(1) by (simp add: strict_sorted_iff)
  ultimately show "rs = qs" using eq
    by (metis distinct_map inj_on_map_eq_map map_injective sup.idem)
qed

text \<open>The entries and the order determine the result.\<close>

lemma range_spec_unique: "range_spec m start end ord rs \<Longrightarrow> range_spec m start end ord qs \<Longrightarrow> rs = qs"
  using sorted_fst_unique [of rs qs] sorted_fst_unique [of "rev rs" "rev qs"]
  by (cases ord) (auto simp: range_spec_def ordered_by_def sorted_wrt_greater_iff rev_map)

section \<open>MemoryStorage\<close>

text \<open>A \<open>BTreeMap\<close> as the list of its entries in ascending order of the keys.\<close>

fun btree_get :: "('k \<times> 'v) list \<Rightarrow> 'k \<Rightarrow> 'v option" where
  "btree_get [] k = None"
| "btree_get ((j, v) # es) k = (if j = k then Some v else btree_get es k)"

fun btree_insert :: "'k::linorder \<Rightarrow> 'v \<Rightarrow> ('k \<times> 'v) list \<Rightarrow> ('k \<times> 'v) list" where
  "btree_insert k v [] = [(k, v)]"
| "btree_insert k v ((j, w) # es) =
     (if k < j then (k, v) # (j, w) # es
      else if k = j then (k, v) # es
      else (j, w) # btree_insert k v es)"

fun btree_remove :: "'k \<Rightarrow> ('k \<times> 'v) list \<Rightarrow> ('k \<times> 'v) list" where
  "btree_remove k [] = []"
| "btree_remove k ((j, w) # es) = (if j = k then es else (j, w) # btree_remove k es)"

definition btree_sorted :: "('k::linorder \<times> 'v) list \<Rightarrow> bool" where
  "btree_sorted es \<longleftrightarrow> sorted_wrt (<) (map fst es)"

text \<open>\<open>BTreeMap::range\<close>: it panics when the start is greater than the end.\<close>

definition btree_range :: "bytes option \<Rightarrow> bytes option \<Rightarrow> kv list \<Rightarrow> kv list outcome" where
  "btree_range start end es =
     (case (start, end) of
        (Some s, Some e) \<Rightarrow>
          if e < s then Panic ''range start is greater than range end in BTreeMap''
          else Done (filter (\<lambda>(k, v). in_range start end k) es)
      | _ \<Rightarrow> Done (filter (\<lambda>(k, v). in_range start end k) es))"

record memory_storage =
  ms_data :: "kv list"

definition memory_storage_new :: memory_storage where
  "memory_storage_new = \<lparr>ms_data = []\<rparr>"

definition memory_get :: "memory_storage \<Rightarrow> bytes \<Rightarrow> bytes option" where
  "memory_get self key = btree_get (ms_data self) key"

definition memory_set :: "memory_storage \<Rightarrow> bytes \<Rightarrow> bytes \<Rightarrow> memory_storage outcome" where
  "memory_set self key value =
     (if value = [] then Panic ''TL;DR: Value must not be empty in Storage::set''
      else Done (self\<lparr>ms_data := btree_insert key value (ms_data self)\<rparr>))"

definition memory_remove :: "memory_storage \<Rightarrow> bytes \<Rightarrow> memory_storage outcome" where
  "memory_remove self key = Done (self\<lparr>ms_data := btree_remove key (ms_data self)\<rparr>)"

definition memory_range :: "memory_storage \<Rightarrow> bytes option \<Rightarrow> bytes option \<Rightarrow> order \<Rightarrow> kv list outcome" where
  "memory_range self start end ord =
     (if (case (start, end) of (Some s, Some e) \<Rightarrow> e < s | _ \<Rightarrow> False) then Done []
      else obind (btree_range start end (ms_data self)) (\<lambda>iter.
           case ord of Ascending \<Rightarrow> Done iter | Descending \<Rightarrow> Done (rev iter)))"

definition memory_ops :: "memory_storage storage_ops" where
  "memory_ops = \<lparr>st_get = memory_get, st_range = memory_range, st_set = memory_set, st_remove = memory_remove\<rparr>"

section \<open>MemoryStorage keeps the contract\<close>

definition memory_inv :: "memory_storage \<Rightarrow> bool" where
  "memory_inv s \<longleftrightarrow> btree_sorted (ms_data s)"

lemma btree_get_Some_iff: "btree_sorted es \<Longrightarrow> btree_get es k = Some v \<longleftrightarrow> (k, v) \<in> set es"
proof (induction es)
  case (Cons e es)
  then show ?case by (cases e) (force simp: btree_sorted_def)
qed simp

lemma btree_get_insert: "btree_get (btree_insert k v es) = (btree_get es)(k \<mapsto> v)"
  by (induction es) (auto simp: fun_eq_iff)

lemma fst_set_btree_insert: "fst ` set (btree_insert k v es) = insert k (fst ` set es)"
proof (induction es)
  case (Cons e es)
  then show ?case by (cases e) auto
qed simp

lemma btree_sorted_insert: "btree_sorted es \<Longrightarrow> btree_sorted (btree_insert k v es)"
proof (induction es)
  case (Cons e es)
  have "\<forall>j \<in> fst ` set (btree_insert k v es). fst e < j" if "fst e < k"
    using that Cons.prems by (auto simp: fst_set_btree_insert btree_sorted_def)
  with Cons show ?case
    by (cases e) (auto simp: btree_sorted_def not_less_iff_gr_or_eq)
qed (simp add: btree_sorted_def)

lemma set_btree_remove: "set (btree_remove k es) \<subseteq> set es"
  by (induction es) (auto split: if_splits)

lemma btree_sorted_remove: "btree_sorted es \<Longrightarrow> btree_sorted (btree_remove k es)"
proof (induction es)
  case (Cons e es)
  then show ?case
    using set_btree_remove [of k es] by (cases e) (auto simp: btree_sorted_def)
qed simp

lemma btree_get_remove: "btree_sorted es \<Longrightarrow> btree_get (btree_remove k es) = (btree_get es)(k := None)"
proof (induction es)
  case (Cons e es)
  have "btree_get es (fst e) = None"
    using Cons.prems btree_get_Some_iff [of es "fst e"]
    by (cases "btree_get es (fst e)") (force simp: btree_sorted_def)+
  with Cons show ?case by (cases e) (auto simp: fun_eq_iff btree_sorted_def)
qed auto

lemma btree_range_spec:
  assumes "btree_sorted es"
  shows "range_spec (btree_get es) start end Ascending (filter (\<lambda>(k, v). in_range start end k) es)"
proof -
  have "sorted_wrt (<) (map fst (filter P es))" for P
    using assms by (simp add: btree_sorted_def sorted_wrt_map sorted_wrt_filter)
  then show ?thesis
    using assms by (auto simp: range_spec_def ordered_by_def btree_get_Some_iff)
qed

lemma range_spec_rev: "range_spec m start end Ascending rs \<Longrightarrow> range_spec m start end Descending (rev rs)"
  by (simp add: range_spec_def ordered_by_def sorted_wrt_greater_iff rev_map)

lemma range_spec_empty:
  assumes "start = Some s" "end = Some e" "e \<le> s"
  shows "range_spec m start end ord []"
  using assms by (cases ord) (auto simp: range_spec_def ordered_by_def in_range_def)

interpretation memory: key_value_store memory_ops memory_inv "\<lambda>s. btree_get (ms_data s)"
proof
  fix s k v start "end" ord
  assume valid: "memory_inv s"
  show "st_get memory_ops s k = btree_get (ms_data s) k"
    by (simp add: memory_ops_def memory_get_def)
  show "\<exists>t. st_set memory_ops s k v = Done t \<and> memory_inv t \<and> btree_get (ms_data t) = (btree_get (ms_data s))(k \<mapsto> v)"
    if "v \<noteq> []"
    using valid that by (simp add: memory_ops_def memory_set_def memory_inv_def btree_get_insert btree_sorted_insert)
  show "panics (st_set memory_ops s k [])"
    by (simp add: memory_ops_def memory_set_def)
  show "\<exists>t. st_remove memory_ops s k = Done t \<and> memory_inv t \<and> btree_get (ms_data t) = (btree_get (ms_data s))(k := None)"
    using valid by (simp add: memory_ops_def memory_remove_def memory_inv_def btree_get_remove btree_sorted_remove)
  note spec = btree_range_spec [OF valid [unfolded memory_inv_def]]
  show "\<exists>rs. st_range memory_ops s start end ord = Done rs \<and> range_spec (btree_get (ms_data s)) start end ord rs"
    using spec range_spec_rev [OF spec]
    by (cases ord)
      (auto simp: memory_ops_def memory_range_def btree_range_def range_spec_empty split: option.splits)
qed

lemma memory_new_empty:
  "memory_inv memory_storage_new" "btree_get (ms_data memory_storage_new) = Map.empty"
  by (auto simp: memory_inv_def memory_storage_new_def btree_sorted_def)

end
