(* ===== verification/VM_Environment.thy ===== *)
theory VM_Environment
  imports VM_Memory Storage
begin

text \<open>
  The environment of a running contract, \<open>packages/vm/src/environment.rs\<close>: gas accounting,
  access to the storage, the querier and the wasm instance. The backend (storage, querier, address
  functions), the crypto functions and the guest code that wasmer runs are outside: they are the
  record \<open>host\<close>. Calling a guest function runs code that may call imports again, so it is a
  function on the whole environment. Arithmetic on gas wraps, as in a release build.
\<close>

section \<open>Data\<close>

record gas_config =
  secp256k1_verify_cost :: u64
  secp256k1_recover_pubkey_cost :: u64
  ed25519_verify_cost :: u64
  ed25519_batch_verify_cost :: u64
  ed25519_batch_verify_one_pubkey_cost :: u64

definition GAS_PER_US :: u64 where
  "GAS_PER_US = 1000000000"

definition gas_config_default :: gas_config where
  "gas_config_default =
     \<lparr>secp256k1_verify_cost = 154 * GAS_PER_US,
      secp256k1_recover_pubkey_cost = 162 * GAS_PER_US,
      ed25519_verify_cost = 63 * GAS_PER_US,
      ed25519_batch_verify_cost = 63 * GAS_PER_US div 2,
      ed25519_batch_verify_one_pubkey_cost = 63 * GAS_PER_US div 4\<rparr>"

record gas_state =
  gas_limit :: u64
  externally_used_gas :: u64

definition gas_state_with_limit :: "u64 \<Rightarrow> gas_state" where
  "gas_state_with_limit limit = \<lparr>gas_limit = limit, externally_used_gas = 0\<rparr>"

text \<open>\<open>ContextData\<close>, which the environment shares behind a lock.\<close>

record ('s, 'q, 'w) context_data =
  cd_gas_state :: gas_state
  cd_storage :: "'s option"
  cd_storage_readonly :: bool
  cd_querier :: "'q option"
  cd_wasm_instance :: "'w option"

definition context_data_new :: "u64 \<Rightarrow> ('s, 'q, 'w) context_data" where
  "context_data_new limit =
     \<lparr>cd_gas_state = gas_state_with_limit limit, cd_storage = None, cd_storage_readonly = True,
      cd_querier = None, cd_wasm_instance = None\<rparr>"

section \<open>What is outside\<close>

datatype wasm_val = I32 u32 | I64 u64 | F32 u32 | F64 u64

datatype call_failure = ExportFailure string | RuntimeFailure string

record 's backend_storage =
  bs_get :: "'s \<Rightarrow> bytes \<Rightarrow> bytes option backend_result"
  bs_scan :: "'s \<Rightarrow> bytes option \<Rightarrow> bytes option \<Rightarrow> order \<Rightarrow> (u32 backend_result \<times> 's) outcome"
  bs_next :: "'s \<Rightarrow> u32 \<Rightarrow> kv option backend_result \<times> 's"
  bs_set :: "'s \<Rightarrow> bytes \<Rightarrow> bytes \<Rightarrow> unit backend_result \<times> 's"
  bs_remove :: "'s \<Rightarrow> bytes \<Rightarrow> unit backend_result \<times> 's"

record crypto_api =
  cr_secp256k1_verify :: "bytes \<Rightarrow> bytes \<Rightarrow> bytes \<Rightarrow> (crypto_error, bool) result"
  cr_secp256k1_recover_pubkey :: "bytes \<Rightarrow> bytes \<Rightarrow> u8 \<Rightarrow> (crypto_error, bytes) result"
  cr_ed25519_verify :: "bytes \<Rightarrow> bytes \<Rightarrow> bytes \<Rightarrow> (crypto_error, bool) result"
  cr_ed25519_batch_verify :: "bytes list \<Rightarrow> bytes list \<Rightarrow> bytes list \<Rightarrow> (crypto_error, bool) result"

record ('s, 'q, 'w, 'r) host =
  h_engine :: "'w wasm_engine"
  h_call :: "string \<Rightarrow> wasm_val list \<Rightarrow> ('s, 'q, 'w) context_data \<Rightarrow>
    (call_failure, wasm_val list) result \<times> ('s, 'q, 'w) context_data"
  h_show_val :: "wasm_val \<Rightarrow> string"
  h_storage :: "'s backend_storage"
  h_query_raw :: "'q \<Rightarrow> bytes \<Rightarrow> u64 \<Rightarrow> 'r backend_result"
  h_result_to_vec :: "'r \<Rightarrow> (string, bytes) result"
  h_result_type :: string
  h_canonical_address :: "string \<Rightarrow> bytes backend_result"
  h_human_address :: "bytes \<Rightarrow> string backend_result"
  h_crypto :: crypto_api
  h_print_debug :: bool
  h_gas_config :: gas_config

section \<open>The environment\<close>

type_synonym ('s, 'q, 'w, 'a) vm_prog = "(('s, 'q, 'w) context_data, vm_error, 'a) prog"

definition no_instance :: string where
  "no_instance = ''Wasmer instance is not set. This is a bug in the lifecycle.''"

definition set_wasm_instance :: "'w option \<Rightarrow> ('s, 'q, 'w) context_data \<Rightarrow> ('s, 'q, 'w) context_data" where
  "set_wasm_instance w env = env\<lparr>cd_wasm_instance := w\<rparr>"

definition with_wasm_instance :: "('w \<Rightarrow> 'a vm_result \<times> 'w) \<Rightarrow> ('s, 'q, 'w, 'a) vm_prog" where
  "with_wasm_instance callback env =
     (case cd_wasm_instance env of
        Some instance \<Rightarrow>
          (case callback instance of (r, instance') \<Rightarrow> Done (r, env\<lparr>cd_wasm_instance := Some instance'\<rparr>))
      | None \<Rightarrow> Done (Inl (VmUninitializedContextData ''wasmer_instance''), env))"

definition get_gas_left :: "('s, 'q, 'w, 'r) host \<Rightarrow> ('s, 'q, 'w) context_data \<Rightarrow> u64 outcome" where
  "get_gas_left H env = omap (engine_gas_left (h_engine H)) (expect no_instance (cd_wasm_instance env))"

definition set_gas_left ::
  "('s, 'q, 'w, 'r) host \<Rightarrow> u64 \<Rightarrow> ('s, 'q, 'w) context_data \<Rightarrow> ('s, 'q, 'w) context_data outcome" where
  "set_gas_left H new_value env =
     omap (\<lambda>w. env\<lparr>cd_wasm_instance := Some (engine_set_gas_left (h_engine H) new_value w)\<rparr>)
       (expect no_instance (cd_wasm_instance env))"

definition decrease_gas_left :: "('s, 'q, 'w, 'r) host \<Rightarrow> u64 \<Rightarrow> ('s, 'q, 'w, unit) vm_prog" where
  "decrease_gas_left H amount env =
     (case cd_wasm_instance env of
        None \<Rightarrow> Done (Inl (VmUninitializedContextData ''wasmer_instance''), env)
      | Some w \<Rightarrow>
          let remaining = engine_gas_left (h_engine H) w in
          if remaining < amount
          then omap (\<lambda>env'. (Inl VmGasDepletion, env')) (set_gas_left H 0 env)
          else omap (\<lambda>env'. (Inr (), env')) (set_gas_left H (remaining - amount) env))"

text \<open>Access to the memory: the instance must be set and export a memory.\<close>

definition with_memory ::
  "('s, 'q, 'w, 'r) host \<Rightarrow> ('w \<Rightarrow> 'a vm_result \<times> 'w) \<Rightarrow> ('s, 'q, 'w, 'a) vm_prog" where
  "with_memory H callback env =
     (case cd_wasm_instance env of
        None \<Rightarrow> Panic no_instance
      | Some w \<Rightarrow>
          if \<not> we_has_memory (h_engine H) w then Panic ''A contract must have exactly one exported memory.''
          else with_wasm_instance callback env)"

definition env_read_region :: "('s, 'q, 'w, 'r) host \<Rightarrow> u32 \<Rightarrow> nat \<Rightarrow> ('s, 'q, 'w, bytes) vm_prog" where
  "env_read_region H ptr max_length = with_memory H (\<lambda>w. (read_region (h_engine H) w ptr max_length, w))"

definition env_maybe_read_region ::
  "('s, 'q, 'w, 'r) host \<Rightarrow> u32 \<Rightarrow> nat \<Rightarrow> ('s, 'q, 'w, bytes option) vm_prog" where
  "env_maybe_read_region H ptr max_length =
     with_memory H (\<lambda>w. (maybe_read_region (h_engine H) w ptr max_length, w))"

definition env_write_region :: "('s, 'q, 'w, 'r) host \<Rightarrow> u32 \<Rightarrow> bytes \<Rightarrow> ('s, 'q, 'w, unit) vm_prog" where
  "env_write_region H ptr data = with_memory H (write_region (h_engine H) ptr data)"

text \<open>
  \<open>call_function\<close> of the wasmer instance: a trap with no gas left is reported as such.
\<close>

definition call_function ::
  "('s, 'q, 'w, 'r) host \<Rightarrow> string \<Rightarrow> wasm_val list \<Rightarrow> ('s, 'q, 'w, wasm_val list) vm_prog" where
  "call_function H name args env =
     (case cd_wasm_instance env of
        None \<Rightarrow> Done (Inl (VmUninitializedContextData ''wasmer_instance''), env)
      | Some _ \<Rightarrow>
          (case h_call H name args env of
             (Inr vals, env') \<Rightarrow> Done (Inr vals, env')
           | (Inl (ExportFailure msg), env') \<Rightarrow> Done (Inl (vm_error_from_export msg), env')
           | (Inl (RuntimeFailure msg), env') \<Rightarrow>
               (case map_option (we_points (h_engine H)) (cd_wasm_instance env') of
                  Some Exhausted \<Rightarrow> Done (Inl VmGasDepletion, env')
                | _ \<Rightarrow> Done (Inl (vm_error_from_runtime msg), env'))))"

definition call_function0 ::
  "('s, 'q, 'w, 'r) host \<Rightarrow> string \<Rightarrow> wasm_val list \<Rightarrow> ('s, 'q, 'w, unit) vm_prog" where
  "call_function0 H name args =
     pbind (call_function H name args) (\<lambda>result.
     if length result \<noteq> 0 then pfail (VmResultMismatch name 0 (length result)) else preturn ())"

definition call_function1 ::
  "('s, 'q, 'w, 'r) host \<Rightarrow> string \<Rightarrow> wasm_val list \<Rightarrow> ('s, 'q, 'w, wasm_val) vm_prog" where
  "call_function1 H name args =
     pbind (call_function H name args) (\<lambda>result.
     if length result \<noteq> 1 then pfail (VmResultMismatch name 1 (length result)) else preturn (hd result))"

definition with_storage_from_context :: "('s \<Rightarrow> ('a \<times> 's) outcome) \<Rightarrow> ('s, 'q, 'w, 'a) vm_prog" where
  "with_storage_from_context callback env =
     (case cd_storage env of
        Some store \<Rightarrow> omap (\<lambda>(r, store'). (Inr r, env\<lparr>cd_storage := Some store'\<rparr>)) (callback store)
      | None \<Rightarrow> Done (Inl (VmUninitializedContextData ''storage''), env))"

definition with_querier_from_context :: "('q \<Rightarrow> 'a) \<Rightarrow> ('s, 'q, 'w, 'a) vm_prog" where
  "with_querier_from_context callback env =
     (case cd_querier env of
        Some querier \<Rightarrow> Done (Inr (callback querier), env)
      | None \<Rightarrow> Done (Inl (VmUninitializedContextData ''querier''), env))"

definition set_storage_readonly :: "bool \<Rightarrow> ('s, 'q, 'w) context_data \<Rightarrow> ('s, 'q, 'w) context_data" where
  "set_storage_readonly new_value env = env\<lparr>cd_storage_readonly := new_value\<rparr>"

definition move_in :: "'s \<Rightarrow> 'q \<Rightarrow> ('s, 'q, 'w) context_data \<Rightarrow> ('s, 'q, 'w) context_data" where
  "move_in storage querier env = env\<lparr>cd_storage := Some storage, cd_querier := Some querier\<rparr>"

definition move_out :: "('s, 'q, 'w) context_data \<Rightarrow> ('s option \<times> 'q option) \<times> ('s, 'q, 'w) context_data" where
  "move_out env = ((cd_storage env, cd_querier env), env\<lparr>cd_storage := None, cd_querier := None\<rparr>)"

definition process_gas_info :: "('s, 'q, 'w, 'r) host \<Rightarrow> gas_info \<Rightarrow> ('s, 'q, 'w, unit) vm_prog" where
  "process_gas_info H info env =
     obind (get_gas_left H env) (\<lambda>gas_left.
     let gas_state = cd_gas_state env;
         env1 = env\<lparr>cd_gas_state := gas_state
           \<lparr>externally_used_gas := externally_used_gas gas_state + externally_used info\<rparr>\<rparr>;
         new_limit = saturating_sub (saturating_sub gas_left (externally_used info)) (cost info)
     in obind (set_gas_left H new_limit env1) (\<lambda>env2.
        if gas_left < externally_used info + cost info then Done (Inl VmGasDepletion, env2)
        else Done (Inr (), env2)))"

section \<open>Gas accounting\<close>

context wasm_engine_laws
begin

text \<open>
  The remaining gas goes down by what was used, to zero at most, and the call fails exactly when
  more was used than was left.
\<close>

lemma process_gas_info_ok:
  assumes "h_engine H = E" "cd_wasm_instance env = Some w"
    and "unat (externally_used info) + unat (cost info) < 2 ^ 64"
  shows "\<exists>r env'. process_gas_info H info env = Done (r, env') \<and>
    get_gas_left H env' = Done (saturating_sub (saturating_sub (engine_gas_left E w) (externally_used info)) (cost info)) \<and>
    (r = Inr () \<longleftrightarrow> unat (externally_used info) + unat (cost info) \<le> unat (engine_gas_left E w)) \<and>
    (r = Inr () \<or> r = Inl VmGasDepletion) \<and>
    externally_used_gas (cd_gas_state env') = externally_used_gas (cd_gas_state env) + externally_used info \<and>
    cd_storage env' = cd_storage env \<and> cd_storage_readonly env' = cd_storage_readonly env \<and>
    gas_limit (cd_gas_state env') = gas_limit (cd_gas_state env)"
proof -
  have "unat (externally_used info + cost info) = unat (externally_used info) + unat (cost info)"
    using assms(3) by (intro unat_add_exact) simp
  then show ?thesis
    using assms(1,2)
    by (simp add: process_gas_info_def get_gas_left_def set_gas_left_def engine_gas_left_def
        engine_set_gas_left_def points_set Let_def word_less_nat_alt not_less)
qed

lemma unat_gas_after:
  "unat (saturating_sub (saturating_sub g e) c) = unat g - (unat e + unat c)" for g e c :: u64
  by (simp add: unat_saturating_sub)

lemma decrease_gas_left_ok:
  assumes "h_engine H = E" "cd_wasm_instance env = Some w"
  shows "\<exists>r env'. decrease_gas_left H amount env = Done (r, env') \<and>
    get_gas_left H env' = Done (saturating_sub (engine_gas_left E w) amount) \<and>
    (r = Inr () \<longleftrightarrow> amount \<le> engine_gas_left E w)"
  using assms
  by (auto simp: decrease_gas_left_def get_gas_left_def set_gas_left_def engine_gas_left_def
      engine_set_gas_left_def points_set Let_def word_unat_eq_iff unat_saturating_sub word_less_nat_alt
      word_le_nat_alt unat_sub_exact)

end

lemma move_out_move_in: "fst (move_out (move_in s q env)) = (Some s, Some q)"
  by (simp add: move_out_def move_in_def)

end
