(* ===== verification/VM_Imports.thy ===== *)
theory VM_Imports
  imports VM_Environment Rust_Strings
begin

text \<open>
  The functions that the host offers to a contract, \<open>packages/vm/src/imports.rs\<close>. Each takes
  pointers into the memory of the contract, reads its arguments within fixed limits, performs the
  operation, charges gas and writes the result back into memory that the contract allocates.
\<close>

section \<open>Limits\<close>

definition KI :: nat where "KI = 1024"
definition MI :: nat where "MI = 1024 * 1024"
definition MAX_LENGTH_DB_KEY :: nat where "MAX_LENGTH_DB_KEY = 64 * KI"
definition MAX_LENGTH_DB_VALUE :: nat where "MAX_LENGTH_DB_VALUE = 128 * KI"
definition MAX_LENGTH_CANONICAL_ADDRESS :: nat where "MAX_LENGTH_CANONICAL_ADDRESS = 64"
definition MAX_LENGTH_HUMAN_ADDRESS :: nat where "MAX_LENGTH_HUMAN_ADDRESS = 256"
definition MAX_LENGTH_QUERY_CHAIN_REQUEST :: nat where "MAX_LENGTH_QUERY_CHAIN_REQUEST = 64 * KI"
definition MAX_LENGTH_ED25519_SIGNATURE :: nat where "MAX_LENGTH_ED25519_SIGNATURE = 64"
definition MAX_LENGTH_ED25519_MESSAGE :: nat where "MAX_LENGTH_ED25519_MESSAGE = 128 * 1024"
definition MAX_COUNT_ED25519_BATCH :: nat where "MAX_COUNT_ED25519_BATCH = 256"
definition MAX_LENGTH_DEBUG :: nat where "MAX_LENGTH_DEBUG = 2 * MI"
definition MESSAGE_HASH_MAX_LEN :: nat where "MESSAGE_HASH_MAX_LEN = 32"
definition ECDSA_SIGNATURE_LEN :: nat where "ECDSA_SIGNATURE_LEN = 64"
definition ECDSA_PUBKEY_MAX_LEN :: nat where "ECDSA_PUBKEY_MAX_LEN = 65"
definition EDDSA_PUBKEY_LEN :: nat where "EDDSA_PUBKEY_LEN = 32"

lemmas limit_defs =
  KI_def MI_def MAX_LENGTH_DB_KEY_def MAX_LENGTH_DB_VALUE_def MAX_LENGTH_CANONICAL_ADDRESS_def
  MAX_LENGTH_HUMAN_ADDRESS_def MAX_LENGTH_QUERY_CHAIN_REQUEST_def MAX_LENGTH_ED25519_SIGNATURE_def
  MAX_LENGTH_ED25519_MESSAGE_def MAX_COUNT_ED25519_BATCH_def MAX_LENGTH_DEBUG_def
  MESSAGE_HASH_MAX_LEN_def ECDSA_SIGNATURE_LEN_def ECDSA_PUBKEY_MAX_LEN_def EDDSA_PUBKEY_LEN_def

section \<open>Helpers\<close>

definition to_high_half :: "u32 \<Rightarrow> u64" where
  "to_high_half data = push_bit 32 (ucast data)"

definition to_low_half :: "u32 \<Rightarrow> u64" where
  "to_low_half data = ucast data"

text \<open>\<open>ref_to_u32\<close> of a wasm value: only a 32-bit integer converts.\<close>

definition ref_to_u32 :: "('s, 'q, 'w, 'r) host \<Rightarrow> wasm_val \<Rightarrow> u32 vm_result" where
  "ref_to_u32 H v =
     (case v of I32 n \<Rightarrow> Inr n
      | _ \<Rightarrow> Inl (VmConversionErr ''wasmer_types::values::Value<wasmer::externals::function::Function>'' ''u32''
                  (h_show_val H v)))"

definition write_to_contract :: "('s, 'q, 'w, 'r) host \<Rightarrow> bytes \<Rightarrow> ('s, 'q, 'w, u32) vm_prog" where
  "write_to_contract H input =
     pbind (plift (to_u32 (length input))) (\<lambda>out_size.
     pbind (call_function1 H ''allocate'' [I32 out_size]) (\<lambda>result.
     pbind (plift (ref_to_u32 H result)) (\<lambda>target_ptr.
     if target_ptr = 0 then pfail (VmCommunicationErr ZeroAddress)
     else pbind (env_write_region H target_ptr input) (\<lambda>_. preturn target_ptr))))"

section \<open>Storage\<close>

definition do_db_read :: "('s, 'q, 'w, 'r) host \<Rightarrow> u32 \<Rightarrow> ('s, 'q, 'w, u32) vm_prog" where
  "do_db_read H key_ptr =
     pbind (env_read_region H key_ptr MAX_LENGTH_DB_KEY) (\<lambda>key.
     pbind (with_storage_from_context (\<lambda>store. Done (bs_get (h_storage H) store key, store))) (\<lambda>(result, gas_info).
     pbind (process_gas_info H gas_info) (\<lambda>_.
     pbind (plift (map_err vm_error_from_backend result)) (\<lambda>value.
     case value of
       Some out_data \<Rightarrow> write_to_contract H out_data
     | None \<Rightarrow> preturn 0))))"

definition do_db_write :: "('s, 'q, 'w, 'r) host \<Rightarrow> u32 \<Rightarrow> u32 \<Rightarrow> ('s, 'q, 'w, unit) vm_prog" where
  "do_db_write H key_ptr value_ptr env =
     (if cd_storage_readonly env then Done (Inl VmWriteAccessDenied, env)
      else
        pbind (env_read_region H key_ptr MAX_LENGTH_DB_KEY) (\<lambda>key.
        pbind (env_read_region H value_ptr MAX_LENGTH_DB_VALUE) (\<lambda>value.
        pbind (with_storage_from_context (\<lambda>store. Done (bs_set (h_storage H) store key value))) (\<lambda>(result, gas_info).
        pbind (process_gas_info H gas_info) (\<lambda>_.
        plift (map_err vm_error_from_backend result))))) env)"

definition do_db_remove :: "('s, 'q, 'w, 'r) host \<Rightarrow> u32 \<Rightarrow> ('s, 'q, 'w, unit) vm_prog" where
  "do_db_remove H key_ptr env =
     (if cd_storage_readonly env then Done (Inl VmWriteAccessDenied, env)
      else
        pbind (env_read_region H key_ptr MAX_LENGTH_DB_KEY) (\<lambda>key.
        pbind (with_storage_from_context (\<lambda>store. Done (bs_remove (h_storage H) store key))) (\<lambda>(result, gas_info).
        pbind (process_gas_info H gas_info) (\<lambda>_.
        plift (map_err vm_error_from_backend result)))) env)"

definition do_db_scan :: "('s, 'q, 'w, 'r) host \<Rightarrow> u32 \<Rightarrow> u32 \<Rightarrow> int \<Rightarrow> ('s, 'q, 'w, u32) vm_prog" where
  "do_db_scan H start_ptr end_ptr ord =
     pbind (env_maybe_read_region H start_ptr MAX_LENGTH_DB_KEY) (\<lambda>start.
     pbind (env_maybe_read_region H end_ptr MAX_LENGTH_DB_KEY) (\<lambda>end.
     pbind (plift (map_err (\<lambda>_. VmCommunicationErr (InvalidOrder ord)) (order_try_from_i32 ord))) (\<lambda>order.
     pbind (with_storage_from_context (\<lambda>store. bs_scan (h_storage H) store start end order)) (\<lambda>(result, gas_info).
     pbind (process_gas_info H gas_info) (\<lambda>_.
     plift (map_err vm_error_from_backend result))))))"

definition do_db_next :: "('s, 'q, 'w, 'r) host \<Rightarrow> u32 \<Rightarrow> ('s, 'q, 'w, u32) vm_prog" where
  "do_db_next H iterator_id =
     pbind (with_storage_from_context (\<lambda>store. Done (bs_next (h_storage H) store iterator_id))) (\<lambda>(result, gas_info).
     pbind (process_gas_info H gas_info) (\<lambda>_.
     pbind (plift (map_err vm_error_from_backend result)) (\<lambda>record.
     let (key, value) = (case record of Some kv \<Rightarrow> kv | None \<Rightarrow> ([], [])) in
     pbind (plift (vm_encode_sections [key, value])) (\<lambda>out_data.
     write_to_contract H out_data))))"

section \<open>Addresses\<close>

definition do_addr_validate :: "('s, 'q, 'w, 'r) host \<Rightarrow> u32 \<Rightarrow> ('s, 'q, 'w, u32) vm_prog" where
  "do_addr_validate H source_ptr =
     pbind (env_read_region H source_ptr MAX_LENGTH_HUMAN_ADDRESS) (\<lambda>source_data.
     if source_data = [] then write_to_contract H (ascii ''Input is empty'')
     else case from_utf8 source_data of
       None \<Rightarrow> write_to_contract H (ascii ''Input is not valid UTF-8'')
     | Some source_string \<Rightarrow>
         (case h_canonical_address H source_string of (result, gas_info) \<Rightarrow>
            pbind (process_gas_info H gas_info) (\<lambda>_.
            case result of
              Inr _ \<Rightarrow> preturn 0
            | Inl (UserErr msg) \<Rightarrow> write_to_contract H (ascii msg)
            | Inl err \<Rightarrow> pfail (vm_error_from_backend err))))"

definition do_addr_canonicalize :: "('s, 'q, 'w, 'r) host \<Rightarrow> u32 \<Rightarrow> u32 \<Rightarrow> ('s, 'q, 'w, u32) vm_prog" where
  "do_addr_canonicalize H source_ptr destination_ptr =
     pbind (env_read_region H source_ptr MAX_LENGTH_HUMAN_ADDRESS) (\<lambda>source_data.
     if source_data = [] then write_to_contract H (ascii ''Input is empty'')
     else case from_utf8 source_data of
       None \<Rightarrow> write_to_contract H (ascii ''Input is not valid UTF-8'')
     | Some source_string \<Rightarrow>
         (case h_canonical_address H source_string of (result, gas_info) \<Rightarrow>
            pbind (process_gas_info H gas_info) (\<lambda>_.
            case result of
              Inr canonical \<Rightarrow> pbind (env_write_region H destination_ptr canonical) (\<lambda>_. preturn 0)
            | Inl (UserErr msg) \<Rightarrow> write_to_contract H (ascii msg)
            | Inl err \<Rightarrow> pfail (vm_error_from_backend err))))"

definition do_addr_humanize :: "('s, 'q, 'w, 'r) host \<Rightarrow> u32 \<Rightarrow> u32 \<Rightarrow> ('s, 'q, 'w, u32) vm_prog" where
  "do_addr_humanize H source_ptr destination_ptr =
     pbind (env_read_region H source_ptr MAX_LENGTH_CANONICAL_ADDRESS) (\<lambda>canonical.
     case h_human_address H canonical of (result, gas_info) \<Rightarrow>
       pbind (process_gas_info H gas_info) (\<lambda>_.
       case result of
         Inr human \<Rightarrow> pbind (env_write_region H destination_ptr (ascii human)) (\<lambda>_. preturn 0)
       | Inl (UserErr msg) \<Rightarrow> write_to_contract H (ascii msg)
       | Inl err \<Rightarrow> pfail (vm_error_from_backend err)))"

section \<open>Signatures\<close>

text \<open>The verdict of a verification: 0 for valid, 1 for invalid, or the code of an allowed error.\<close>

definition verdict_code :: "(crypto_error \<Rightarrow> bool) \<Rightarrow> (crypto_error, bool) result \<Rightarrow> u32 outcome" where
  "verdict_code allowed result =
     (case result of
        Inl err \<Rightarrow> if allowed err then Done (crypto_error_code err) else Panic ''Error must not happen for this call''
      | Inr valid \<Rightarrow> Done (if valid then 0 else 1))"

fun secp256k1_verify_error :: "crypto_error \<Rightarrow> bool" where
  "secp256k1_verify_error (CryptoBatchErr msg) = False"
| "secp256k1_verify_error CryptoInvalidRecoveryParam = False"
| "secp256k1_verify_error _ = True"

fun secp256k1_recover_error :: "crypto_error \<Rightarrow> bool" where
  "secp256k1_recover_error (CryptoBatchErr msg) = False"
| "secp256k1_recover_error CryptoInvalidPubkeyFormat = False"
| "secp256k1_recover_error _ = True"

fun ed25519_verify_error :: "crypto_error \<Rightarrow> bool" where
  "ed25519_verify_error (CryptoBatchErr msg) = False"
| "ed25519_verify_error CryptoInvalidHashFormat = False"
| "ed25519_verify_error CryptoInvalidRecoveryParam = False"
| "ed25519_verify_error _ = True"

fun ed25519_batch_error :: "crypto_error \<Rightarrow> bool" where
  "ed25519_batch_error CryptoInvalidHashFormat = False"
| "ed25519_batch_error CryptoInvalidRecoveryParam = False"
| "ed25519_batch_error _ = True"

definition do_secp256k1_verify :: "('s, 'q, 'w, 'r) host \<Rightarrow> u32 \<Rightarrow> u32 \<Rightarrow> u32 \<Rightarrow> ('s, 'q, 'w, u32) vm_prog" where
  "do_secp256k1_verify H hash_ptr signature_ptr pubkey_ptr =
     pbind (env_read_region H hash_ptr MESSAGE_HASH_MAX_LEN) (\<lambda>hash.
     pbind (env_read_region H signature_ptr ECDSA_SIGNATURE_LEN) (\<lambda>signature.
     pbind (env_read_region H pubkey_ptr ECDSA_PUBKEY_MAX_LEN) (\<lambda>pubkey.
     let result = cr_secp256k1_verify (h_crypto H) hash signature pubkey;
         gas_info = gas_info_with_cost (secp256k1_verify_cost (h_gas_config H))
     in pbind (process_gas_info H gas_info) (\<lambda>_.
        plift_out (verdict_code secp256k1_verify_error result)))))"

definition do_secp256k1_recover_pubkey ::
  "('s, 'q, 'w, 'r) host \<Rightarrow> u32 \<Rightarrow> u32 \<Rightarrow> u32 \<Rightarrow> ('s, 'q, 'w, u64) vm_prog" where
  "do_secp256k1_recover_pubkey H hash_ptr signature_ptr recover_param =
     pbind (env_read_region H hash_ptr MESSAGE_HASH_MAX_LEN) (\<lambda>hash.
     pbind (env_read_region H signature_ptr ECDSA_SIGNATURE_LEN) (\<lambda>signature.
     case (try_into_word recover_param :: u8 option) of
       None \<Rightarrow> preturn (push_bit 32 (ucast (crypto_error_code CryptoInvalidRecoveryParam)))
     | Some rp \<Rightarrow>
         let result = cr_secp256k1_recover_pubkey (h_crypto H) hash signature rp;
             gas_info = gas_info_with_cost (secp256k1_recover_pubkey_cost (h_gas_config H))
         in pbind (process_gas_info H gas_info) (\<lambda>_.
            case result of
              Inr pubkey \<Rightarrow> pbind (write_to_contract H pubkey) (\<lambda>pubkey_ptr. preturn (to_low_half pubkey_ptr))
            | Inl err \<Rightarrow>
                if secp256k1_recover_error err then preturn (to_high_half (crypto_error_code err))
                else ppanic ''Error must not happen for this call'')))"

definition do_ed25519_verify :: "('s, 'q, 'w, 'r) host \<Rightarrow> u32 \<Rightarrow> u32 \<Rightarrow> u32 \<Rightarrow> ('s, 'q, 'w, u32) vm_prog" where
  "do_ed25519_verify H message_ptr signature_ptr pubkey_ptr =
     pbind (env_read_region H message_ptr MAX_LENGTH_ED25519_MESSAGE) (\<lambda>message.
     pbind (env_read_region H signature_ptr MAX_LENGTH_ED25519_SIGNATURE) (\<lambda>signature.
     pbind (env_read_region H pubkey_ptr EDDSA_PUBKEY_LEN) (\<lambda>pubkey.
     let result = cr_ed25519_verify (h_crypto H) message signature pubkey;
         gas_info = gas_info_with_cost (ed25519_verify_cost (h_gas_config H))
     in pbind (process_gas_info H gas_info) (\<lambda>_.
        plift_out (verdict_code ed25519_verify_error result)))))"

definition do_ed25519_batch_verify ::
  "('s, 'q, 'w, 'r) host \<Rightarrow> u32 \<Rightarrow> u32 \<Rightarrow> u32 \<Rightarrow> ('s, 'q, 'w, u32) vm_prog" where
  "do_ed25519_batch_verify H messages_ptr signatures_ptr public_keys_ptr =
     pbind (env_read_region H messages_ptr ((MAX_LENGTH_ED25519_MESSAGE + 4) * MAX_COUNT_ED25519_BATCH)) (\<lambda>messages.
     pbind (env_read_region H signatures_ptr ((MAX_LENGTH_ED25519_SIGNATURE + 4) * MAX_COUNT_ED25519_BATCH)) (\<lambda>signatures.
     pbind (env_read_region H public_keys_ptr ((EDDSA_PUBKEY_LEN + 4) * MAX_COUNT_ED25519_BATCH)) (\<lambda>public_keys.
     pbind (plift_out (decode_sections messages)) (\<lambda>messages.
     pbind (plift_out (decode_sections signatures)) (\<lambda>signatures.
     pbind (plift_out (decode_sections public_keys)) (\<lambda>public_keys.
     let result = cr_ed25519_batch_verify (h_crypto H) messages signatures public_keys;
         gas_cost = (if length public_keys = 1 then ed25519_batch_verify_one_pubkey_cost (h_gas_config H)
                     else ed25519_batch_verify_cost (h_gas_config H)) * word_of_nat (length signatures);
         gas_info = gas_info_with_cost (max gas_cost (ed25519_verify_cost (h_gas_config H)))
     in pbind (process_gas_info H gas_info) (\<lambda>_.
        plift_out (verdict_code ed25519_batch_error result))))))))"

section \<open>Debugging and queries\<close>

text \<open>Printing has no effect on the state.\<close>

definition do_debug :: "('s, 'q, 'w, 'r) host \<Rightarrow> u32 \<Rightarrow> ('s, 'q, 'w, unit) vm_prog" where
  "do_debug H message_ptr =
     (if h_print_debug H then pbind (env_read_region H message_ptr MAX_LENGTH_DEBUG) (\<lambda>message_data. preturn ())
      else preturn ())"

definition do_query_chain :: "('s, 'q, 'w, 'r) host \<Rightarrow> u32 \<Rightarrow> ('s, 'q, 'w, u32) vm_prog" where
  "do_query_chain H request_ptr =
     pbind (env_read_region H request_ptr MAX_LENGTH_QUERY_CHAIN_REQUEST) (\<lambda>request.
     pbind (\<lambda>env. omap (\<lambda>g. (Inr g, env)) (get_gas_left H env)) (\<lambda>gas_remaining.
     pbind (with_querier_from_context (\<lambda>querier. h_query_raw H querier request gas_remaining)) (\<lambda>(result, gas_info).
     pbind (process_gas_info H gas_info) (\<lambda>_.
     pbind (plift (map_err vm_error_from_backend result)) (\<lambda>answer.
     pbind (plift (map_err (\<lambda>e. VmSerializeErr (h_result_type H) e) (h_result_to_vec H answer))) (\<lambda>serialized.
     write_to_contract H serialized))))))"

end
