(* ===== verification/VM_Mock_Storage.thy ===== *)
theory VM_Mock_Storage
  imports VM_Environment
begin

text \<open>
  \<open>MockStorage\<close> of \<open>packages/vm/src/testing/storage.rs\<close>: an implementation of the backend
  storage with iterators that the host refers to by number. A hash map from iterator numbers is a
  list of entries with distinct keys.
\<close>

section \<open>The code\<close>

definition GAS_COST_LAST_ITERATION :: u64 where
  "GAS_COST_LAST_ITERATION = 37"

definition GAS_COST_RANGE :: u64 where
  "GAS_COST_RANGE = 11"

record iter =
  it_data :: "kv list"
  it_position :: nat

record mock_storage =
  mk_data :: "kv list"
  mk_iterators :: "(u32 \<times> iter) list"

definition mock_storage_new :: mock_storage where
  "mock_storage_new = \<lparr>mk_data = [], mk_iterators = []\<rparr>"

definition mock_get :: "mock_storage \<Rightarrow> bytes \<Rightarrow> bytes option backend_result" where
  "mock_get self key =
     (Inr (btree_get (mk_data self) key), gas_info_with_externally_used (word_of_nat (length key)))"

definition mock_scan ::
  "mock_storage \<Rightarrow> bytes option \<Rightarrow> bytes option \<Rightarrow> order \<Rightarrow> (u32 backend_result \<times> mock_storage) outcome" where
  "mock_scan self start end ord =
     (let gas_info = gas_info_with_externally_used GAS_COST_RANGE in
      obind (if (case (start, end) of (Some s, Some e) \<Rightarrow> e < s | _ \<Rightarrow> False) then Done []
             else case ord of
                    Ascending \<Rightarrow> btree_range start end (mk_data self)
                  | Descending \<Rightarrow> omap rev (btree_range start end (mk_data self))) (\<lambda>values.
      obind (if length (mk_iterators self) < 2 ^ 32 then Done (word_of_nat (length (mk_iterators self)))
             else Panic ''Found more iterator IDs than supported'') (\<lambda>last_id :: u32.
      let new_id = last_id + 1;
          iter = \<lparr>it_data = values, it_position = 0\<rparr>
      in Done ((Inr new_id, gas_info), self\<lparr>mk_iterators := btree_insert new_id iter (mk_iterators self)\<rparr>))))"

definition mock_next :: "mock_storage \<Rightarrow> u32 \<Rightarrow> kv option backend_result \<times> mock_storage" where
  "mock_next self iterator_id =
     (case btree_get (mk_iterators self) iterator_id of
        None \<Rightarrow> ((Inl (IteratorDoesNotExist iterator_id), gas_info_free), self)
      | Some iterator \<Rightarrow>
          if it_position iterator < length (it_data iterator) then
            let item = it_data iterator ! it_position iterator;
                iterator' = iterator\<lparr>it_position := it_position iterator + 1\<rparr>;
                gas_cost = word_of_nat (length (fst item) + length (snd item))
            in ((Inr (Some item), gas_info_with_cost gas_cost),
                self\<lparr>mk_iterators := btree_insert iterator_id iterator' (mk_iterators self)\<rparr>)
          else ((Inr None, gas_info_with_externally_used GAS_COST_LAST_ITERATION), self))"

definition mock_set :: "mock_storage \<Rightarrow> bytes \<Rightarrow> bytes \<Rightarrow> unit backend_result \<times> mock_storage" where
  "mock_set self key value =
     ((Inr (), gas_info_with_externally_used (word_of_nat (length key + length value))),
      self\<lparr>mk_data := btree_insert key value (mk_data self)\<rparr>)"

definition mock_remove :: "mock_storage \<Rightarrow> bytes \<Rightarrow> unit backend_result \<times> mock_storage" where
  "mock_remove self key =
     ((Inr (), gas_info_with_externally_used (word_of_nat (length key))),
      self\<lparr>mk_data := btree_remove key (mk_data self)\<rparr>)"

definition mock_backend :: "mock_storage backend_storage" where
  "mock_backend = \<lparr>bs_get = mock_get, bs_scan = mock_scan, bs_next = mock_next, bs_set = mock_set, bs_remove = mock_remove\<rparr>"

text \<open>\<open>all\<close> calls \<open>next\<close> until the iterator is at its end.\<close>

definition mock_left :: "mock_storage \<Rightarrow> u32 \<Rightarrow> nat" where
  "mock_left self iterator_id =
     (case btree_get (mk_iterators self) iterator_id of
        None \<Rightarrow> 0 | Some it \<Rightarrow> length (it_data it) - it_position it)"

function mock_all_loop ::
  "mock_storage \<Rightarrow> u32 \<Rightarrow> kv list \<Rightarrow> gas_info \<Rightarrow> kv list backend_result \<times> mock_storage" where
  "mock_all_loop self iterator_id out used =
     (case mock_next self iterator_id of
        ((Inl err, info), self') \<Rightarrow> ((Inl err, gas_info_add_assign used info), self')
      | ((Inr (Some v), info), self') \<Rightarrow>
          mock_all_loop self' iterator_id (out @ [v]) (gas_info_add_assign used info)
      | ((Inr None, info), self') \<Rightarrow> ((Inr out, gas_info_add_assign used info), self'))"
  by pat_completeness auto

definition mock_all :: "mock_storage \<Rightarrow> u32 \<Rightarrow> kv list backend_result \<times> mock_storage" where
  "mock_all self iterator_id = mock_all_loop self iterator_id [] gas_info_free"

section \<open>Iterators\<close>

lemma mock_next_left:
  assumes "mock_next self i = ((Inr (Some v), info), self')"
  shows "mock_left self' i < mock_left self i"
  using assms by (auto simp: mock_next_def mock_left_def btree_get_insert Let_def split: option.splits if_splits)

termination mock_all_loop
  by (relation "measure (\<lambda>(self, i, out, used). mock_left self i)") (auto dest: mock_next_left [OF sym])

declare mock_all_loop.simps [simp del]

text \<open>The rest of an iterator is returned in order, and then it is at its end.\<close>

lemma mock_all_loop_eq:
  assumes "btree_get (mk_iterators self) i = Some it"
  shows "\<exists>used' self'. mock_all_loop self i out used = ((Inr (out @ drop (it_position it) (it_data it)), used'), self') \<and>
    mk_data self' = mk_data self \<and> mock_left self' i = 0"
  using assms
proof (induction "mock_left self i" arbitrary: self it out used)
  case 0
  then show ?case
    by (subst mock_all_loop.simps) (simp add: mock_next_def mock_left_def Let_def)
next
  case (Suc n)
  have less: "it_position it < length (it_data it)" using Suc.hyps(2) Suc.prems by (simp add: mock_left_def)
  define v where "v = it_data it ! it_position it"
  define it' where "it' = it\<lparr>it_position := it_position it + 1\<rparr>"
  obtain info self' where step: "mock_next self i = ((Inr (Some v), info), self')"
    "btree_get (mk_iterators self') i = Some it'" "mk_data self' = mk_data self"
    using less Suc.prems by (simp add: mock_next_def Let_def v_def it'_def btree_get_insert)
  have "n = mock_left self' i" using Suc.hyps(2) step(2) Suc.prems by (simp add: mock_left_def it'_def)
  from Suc.hyps(1) [OF this step(2), of "out @ [v]"] step(1,3) less show ?case
    by (subst mock_all_loop.simps) (simp add: Let_def it'_def v_def Cons_nth_drop_Suc)
qed

text \<open>The number of a new iterator is not in use: the numbers in use are 1 to the number of iterators.\<close>

definition mock_inv :: "mock_storage \<Rightarrow> bool" where
  "mock_inv self \<longleftrightarrow> btree_sorted (mk_data self) \<and> btree_sorted (mk_iterators self) \<and>
     length (mk_iterators self) < 2 ^ 32 \<and>
     unat ` fst ` set (mk_iterators self) = {1..length (mk_iterators self)}"

abbreviation mock_view :: "mock_storage \<Rightarrow> bytes \<rightharpoonup> bytes" where
  "mock_view self \<equiv> btree_get (mk_data self)"

lemma mock_scan_all:
  assumes "mock_inv self" "length (mk_iterators self) + 1 < 2 ^ 32"
  shows "\<exists>i info self' rs. mock_scan self start end ord = Done ((Inr i, info), self') \<and>
    btree_get (mk_iterators self) i = None \<and> mk_data self' = mk_data self \<and>
    fst (fst (mock_all self' i)) = Inr rs \<and> range_spec (mock_view self) start end ord rs"
proof -
  have sorted: "btree_sorted (mk_data self)" using assms(1) by (simp add: mock_inv_def)
  define m where "m = \<lparr>ms_data = mk_data self\<rparr>"
  obtain rs where rs: "memory_range m start end ord = Done rs" "range_spec (mock_view self) start end ord rs"
    using memory.range_view [of m start "end" ord] sorted
    by (auto simp: m_def memory_inv_def memory_ops_def)
  define i :: u32 where "i = word_of_nat (length (mk_iterators self)) + 1"
  have i: "unat i = length (mk_iterators self) + 1"
    using assms(2) by (simp add: i_def unat_word_ariths unat_of_nat)
  have "i \<notin> fst ` set (mk_iterators self)"
  proof
    assume "i \<in> fst ` set (mk_iterators self)"
    then have "unat i \<in> unat ` fst ` set (mk_iterators self)" by (rule imageI)
    then show False using i assms(1) by (simp add: mock_inv_def)
  qed
  then have unused: "(i, it) \<notin> set (mk_iterators self)" for it
    by (metis fst_conv image_eqI)
  have "btree_sorted (mk_iterators self)"
    using assms(1) by (simp add: mock_inv_def)
  then have fresh: "btree_get (mk_iterators self) i = None"
    using unused by (metis btree_get_Some_iff not_Some_eq)
  define self' where "self' = self\<lparr>mk_iterators := btree_insert i \<lparr>it_data = rs, it_position = 0\<rparr> (mk_iterators self)\<rparr>"
  have "(if (case (start, end) of (Some s, Some e) \<Rightarrow> e < s | _ \<Rightarrow> False) then Done []
      else case ord of Ascending \<Rightarrow> btree_range start end (mk_data self)
        | Descending \<Rightarrow> omap rev (btree_range start end (mk_data self))) = Done rs"
    using rs(1) by (cases ord; cases "btree_range start end (mk_data self)")
      (auto simp: memory_range_def m_def split: if_splits)
  then have scan: "mock_scan self start end ord = Done ((Inr i, gas_info_with_externally_used GAS_COST_RANGE), self')"
    using assms(2) by (simp add: mock_scan_def Let_def i_def self'_def)
  have "fst (fst (mock_all self' i)) = Inr rs"
    using mock_all_loop_eq [of self' i "\<lparr>it_data = rs, it_position = 0\<rparr>" "[]" gas_info_free]
    by (auto simp: mock_all_def self'_def btree_get_insert)
  with scan fresh rs(2) show ?thesis by (auto simp: self'_def)
qed

lemma length_btree_insert:
  "length (btree_insert k v es) = (if k \<in> fst ` set es then length es else length es + 1)" if "btree_sorted es"
  using that
proof (induction es)
  case (Cons e es)
  have "k \<notin> fst ` set es" if "k \<le> fst e" using that Cons.prems by (auto simp: btree_sorted_def)
  with Cons show ?case by (cases e) (auto simp: btree_sorted_def not_less_iff_gr_or_eq)
qed simp

lemma mock_inv_new: "mock_inv mock_storage_new"
  by (simp add: mock_inv_def mock_storage_new_def btree_sorted_def)

lemma mock_set_inv: "mock_inv self \<Longrightarrow> mock_inv (snd (mock_set self k v))"
  by (simp add: mock_inv_def mock_set_def btree_sorted_insert)

lemma mock_remove_inv: "mock_inv self \<Longrightarrow> mock_inv (snd (mock_remove self k))"
  by (simp add: mock_inv_def mock_remove_def btree_sorted_remove)

lemma mock_next_inv:
  assumes "mock_inv self" "mock_next self i = (r, self')"
  shows "mock_inv self'" "mk_data self' = mk_data self"
proof -
  have member: "i \<in> fst ` set (mk_iterators self)" if "btree_get (mk_iterators self) i = Some it" for it
    using that assms(1) btree_get_Some_iff [of "mk_iterators self" i it] by (force simp: mock_inv_def)
  have keep: "mock_inv (self\<lparr>mk_iterators := btree_insert i it (mk_iterators self)\<rparr>)"
    if "i \<in> fst ` set (mk_iterators self)" for it
    using that assms(1)
    by (simp add: mock_inv_def btree_sorted_insert length_btree_insert fst_set_btree_insert insert_absorb)
  show "mock_inv self'" "mk_data self' = mk_data self"
    using assms member keep by (auto simp: mock_next_def Let_def split: option.splits if_splits)
qed

lemma mock_scan_inv:
  assumes "mock_inv self" "mock_scan self start end ord = Done (r, self')" "length (mk_iterators self) + 1 < 2 ^ 32"
  shows "mock_inv self'" "mk_data self' = mk_data self"
proof -
  define i :: u32 where "i = word_of_nat (length (mk_iterators self)) + 1"
  have i: "unat i = length (mk_iterators self) + 1"
    using assms(3) by (simp add: i_def unat_word_ariths unat_of_nat)
  have fresh: "i \<notin> fst ` set (mk_iterators self)"
  proof
    assume "i \<in> fst ` set (mk_iterators self)"
    then have "unat i \<in> unat ` fst ` set (mk_iterators self)" by (rule imageI)
    then show False using i assms(1) by (simp add: mock_inv_def)
  qed
  obtain it where self': "self' = self\<lparr>mk_iterators := btree_insert i it (mk_iterators self)\<rparr>"
    using assms(2) by (auto simp: mock_scan_def Let_def obind_eq_Done_iff i_def split: if_splits)
  have "insert (unat i) {1..length (mk_iterators self)} = {1..length (mk_iterators self) + 1}"
    unfolding i by auto
  then show "mock_inv self'" "mk_data self' = mk_data self"
    using assms(1,3) fresh
    by (auto simp: self' mock_inv_def btree_sorted_insert length_btree_insert fst_set_btree_insert)
qed

end
