(* ===== verification/VM_Safety.thy ===== *)
theory VM_Safety
  imports VM_Imports VM_Mock_Storage
begin

text \<open>
  What the imports of the host guarantee about the environment: the gas left never grows, the
  read-only mode is kept and in it the stored data does not change, and a write or a read has the
  effect the storage promises. The laws of the locale \<open>host_laws\<close> are about the code outside
  the repository: the guest that wasmer runs and the storage of the backend.
\<close>

section \<open>Steps of a contract\<close>

text \<open>An import that returns, with any result, takes the environment from one state to another.\<close>

inductive import_step :: "('s, 'q, 'w, 'r) host \<Rightarrow> ('s, 'q, 'w) context_data \<Rightarrow> ('s, 'q, 'w) context_data \<Rightarrow> bool"
  for H :: "('s, 'q, 'w, 'r) host" where
  db_read: "do_db_read H p env = Done (r, env') \<Longrightarrow> import_step H env env'"
| db_write: "do_db_write H p q env = Done (u, env') \<Longrightarrow> import_step H env env'"
| db_remove: "do_db_remove H p env = Done (u, env') \<Longrightarrow> import_step H env env'"
| db_scan: "do_db_scan H p q i env = Done (r, env') \<Longrightarrow> import_step H env env'"
| db_next: "do_db_next H p env = Done (r, env') \<Longrightarrow> import_step H env env'"
| addr_validate: "do_addr_validate H p env = Done (r, env') \<Longrightarrow> import_step H env env'"
| addr_canonicalize: "do_addr_canonicalize H p q env = Done (r, env') \<Longrightarrow> import_step H env env'"
| addr_humanize: "do_addr_humanize H p q env = Done (r, env') \<Longrightarrow> import_step H env env'"
| secp256k1_verify: "do_secp256k1_verify H p q k env = Done (r, env') \<Longrightarrow> import_step H env env'"
| secp256k1_recover: "do_secp256k1_recover_pubkey H p q k env = Done (l, env') \<Longrightarrow> import_step H env env'"
| ed25519_verify: "do_ed25519_verify H p q k env = Done (r, env') \<Longrightarrow> import_step H env env'"
| ed25519_batch_verify: "do_ed25519_batch_verify H p q k env = Done (r, env') \<Longrightarrow> import_step H env env'"
| debug: "do_debug H p env = Done (u, env') \<Longrightarrow> import_step H env env'"
| query_chain: "do_query_chain H p env = Done (r, env') \<Longrightarrow> import_step H env env'"

definition confined ::
  "'w wasm_engine \<Rightarrow> ('s \<Rightarrow> 'd) \<Rightarrow> ('s, 'q, 'w) context_data \<Rightarrow> ('s, 'q, 'w) context_data \<Rightarrow> bool" where
  "confined E sd env env' \<longleftrightarrow>
     (\<forall>w. cd_wasm_instance env = Some w \<longrightarrow>
        (\<exists>w'. cd_wasm_instance env' = Some w' \<and> engine_gas_left E w' \<le> engine_gas_left E w)) \<and>
     cd_storage_readonly env' = cd_storage_readonly env \<and>
     gas_limit (cd_gas_state env') = gas_limit (cd_gas_state env) \<and>
     (cd_storage_readonly env \<longrightarrow> map_option sd (cd_storage env') = map_option sd (cd_storage env))"

lemma confined_refl [simp]: "confined E sd env env"
  by (simp add: confined_def)

lemma confined_trans: "confined E sd a b \<Longrightarrow> confined E sd b c \<Longrightarrow> confined E sd a c"
proof -
  assume ab: "confined E sd a b" and bc: "confined E sd b c"
  have "\<exists>w'. cd_wasm_instance c = Some w' \<and> engine_gas_left E w' \<le> engine_gas_left E w"
    if w: "cd_wasm_instance a = Some w" for w
  proof -
    obtain v where v: "cd_wasm_instance b = Some v" "engine_gas_left E v \<le> engine_gas_left E w"
      using ab w by (auto simp: confined_def)
    then show ?thesis using bc by (auto simp: confined_def intro: order_trans)
  qed
  then show ?thesis using ab bc by (simp add: confined_def)
qed

definition confined_prog :: "'w wasm_engine \<Rightarrow> ('s \<Rightarrow> 'd) \<Rightarrow> ('s, 'q, 'w, 'a) vm_prog \<Rightarrow> bool" where
  "confined_prog E sd p \<longleftrightarrow> (\<forall>env r env'. p env = Done (r, env') \<longrightarrow> confined E sd env env')"

text \<open>The same for a start in an environment that may write.\<close>

definition confined_write_prog :: "'w wasm_engine \<Rightarrow> ('s \<Rightarrow> 'd) \<Rightarrow> ('s, 'q, 'w, 'a) vm_prog \<Rightarrow> bool" where
  "confined_write_prog E sd p \<longleftrightarrow>
     (\<forall>env r env'. \<not> cd_storage_readonly env \<longrightarrow> p env = Done (r, env') \<longrightarrow> confined E sd env env')"

named_theorems confined \<open>programs that stay confined\<close>

lemma confined_progD: "confined_prog E sd p \<Longrightarrow> p env = Done (r, env') \<Longrightarrow> confined E sd env env'"
  by (simp add: confined_prog_def)

lemma confined_pbind [confined]:
  "confined_prog E sd p \<Longrightarrow> (\<And>x. confined_prog E sd (f x)) \<Longrightarrow> confined_prog E sd (pbind p f)"
  unfolding confined_prog_def pbind_eq_Done_iff using confined_trans by blast

lemma confined_pure [confined]:
  "confined_prog E sd (preturn x)" "confined_prog E sd (pfail e)" "confined_prog E sd (plift r)"
  "confined_prog E sd (plift_out m)" "confined_prog E sd (ppanic msg)"
  by (auto simp: confined_prog_def plift_out_eq_Done_iff)

locale host_laws = wasm_engine_laws E for E :: "'w wasm_engine" +
  fixes H :: "('s, 'q, 'w, 'r) host" and sd :: "'s \<Rightarrow> 'd"
  assumes engine: "h_engine H = E"
    and call_gas: "h_call H f args env = (r, env') \<Longrightarrow> cd_wasm_instance env = Some w \<Longrightarrow>
      \<exists>w'. cd_wasm_instance env' = Some w' \<and> engine_gas_left E w' \<le> engine_gas_left E w"
    and call_context: "h_call H f args env = (r, env') \<Longrightarrow>
      cd_storage_readonly env' = cd_storage_readonly env \<and>
      gas_limit (cd_gas_state env') = gas_limit (cd_gas_state env) \<and>
      (cd_storage_readonly env \<longrightarrow> map_option sd (cd_storage env') = map_option sd (cd_storage env))"
    and scan_data: "bs_scan (h_storage H) s start end ord = Done (b, s') \<Longrightarrow> sd s' = sd s"
    and next_data: "bs_next (h_storage H) s i = (n, s') \<Longrightarrow> sd s' = sd s"
begin

lemma confined_memory [confined]:
  "confined_prog E sd (env_read_region H p n)" "confined_prog E sd (env_maybe_read_region H p n)"
  "confined_prog E sd (env_write_region H p d)"
  using write_region_points
  by (fastforce simp: confined_prog_def confined_def env_read_region_def env_maybe_read_region_def
      env_write_region_def with_memory_def with_wasm_instance_def engine engine_gas_left_def
      split: option.splits if_splits prod.splits)+

lemma confined_process_gas_info [confined]: "confined_prog E sd (process_gas_info H info)"
proof -
  have "saturating_sub (saturating_sub g e) c \<le> g" for g e c :: u64
    by (simp add: word_le_nat_alt unat_saturating_sub)
  then show ?thesis
    by (auto simp: confined_prog_def confined_def process_gas_info_def get_gas_left_def set_gas_left_def
        obind_eq_Done_iff omap_eq_Done_iff expect_eq_Done_iff engine engine_gas_left_def engine_set_gas_left_def
        points_set Let_def split: if_splits)
qed

lemma confined_call_function [confined]: "confined_prog E sd (call_function H name args)"
proof -
  have "confined E sd env env'" if "h_call H name args env = (r, env')" for env r env'
    using call_gas [OF that] call_context [OF that] by (simp add: confined_def)
  then show ?thesis
    by (fastforce simp: confined_prog_def call_function_def
        split: option.splits prod.splits sum.splits call_failure.splits metering_points.splits)
qed

lemma confined_call_function1 [confined]: "confined_prog E sd (call_function1 H name args)"
  unfolding call_function1_def by (auto intro!: confined)

lemma confined_write_to_contract [confined]: "confined_prog E sd (write_to_contract H data)"
  unfolding write_to_contract_def by (auto intro!: confined)

lemma confined_with_storage [confined]:
  "(\<And>s r s'. f s = Done (r, s') \<Longrightarrow> sd s' = sd s) \<Longrightarrow> confined_prog E sd (with_storage_from_context f)"
  by (fastforce simp: confined_prog_def confined_def with_storage_from_context_def omap_eq_Done_iff split: option.splits)

lemma confined_with_querier [confined]: "confined_prog E sd (with_querier_from_context f)"
  by (auto simp: confined_prog_def with_querier_from_context_def split: option.splits)

lemma confined_gas_remaining [confined]:
  "confined_prog E sd (\<lambda>env. omap (\<lambda>g. (Inr g, env)) (get_gas_left H env))"
  by (auto simp: confined_prog_def omap_eq_Done_iff)

lemma confined_write_storage: "confined_write_prog E sd (with_storage_from_context f)"
  by (auto simp: confined_write_prog_def confined_def with_storage_from_context_def omap_eq_Done_iff split: option.splits)

lemma confined_write_pbind:
  assumes "confined_write_prog E sd p" "\<And>x. confined_write_prog E sd (f x)"
  shows "confined_write_prog E sd (pbind p f)"
  unfolding confined_write_prog_def pbind_eq_Done_iff
proof (intro allI impI)
  fix env r env'
  assume env: "\<not> cd_storage_readonly env"
    and run: "(\<exists>e. p env = Done (Inl e, env') \<and> r = Inl e) \<or>
      (\<exists>x u. p env = Done (Inr x, u) \<and> f x u = Done (r, env'))"
  show "confined E sd env env'"
  proof (cases "\<exists>x u. p env = Done (Inr x, u) \<and> f x u = Done (r, env')")
    case True
    then obtain x u where u: "p env = Done (Inr x, u)" "f x u = Done (r, env')" by blast
    then have "confined E sd env u" using assms(1) env by (auto simp: confined_write_prog_def)
    moreover from this have "\<not> cd_storage_readonly u" using env by (simp add: confined_def)
    then have "confined E sd u env'" using assms(2) u(2) by (auto simp: confined_write_prog_def)
    ultimately show ?thesis by (rule confined_trans)
  next
    case False
    then show ?thesis using run assms(1) env by (auto simp: confined_write_prog_def)
  qed
qed

lemma confined_write_prog: "confined_prog E sd p \<Longrightarrow> confined_write_prog E sd p"
  by (auto simp: confined_prog_def confined_write_prog_def)

text \<open>A write is confined because it is refused in read-only mode.\<close>

lemma confined_writable:
  "confined_write_prog E sd p \<Longrightarrow>
   confined_prog E sd (\<lambda>env. if cd_storage_readonly env then Done (Inl e, env) else p env)"
  by (auto simp: confined_prog_def confined_write_prog_def)

lemma confined_do_db_write: "confined_prog E sd (do_db_write H p q)"
  unfolding do_db_write_def
  by (rule confined_writable, rule confined_write_pbind, rule confined_write_prog, rule confined,
      rule confined_write_pbind, rule confined_write_prog, rule confined,
      rule confined_write_pbind, rule confined_write_storage)
    (auto intro!: confined_write_prog confined split: prod.splits)

lemma confined_do_db_remove: "confined_prog E sd (do_db_remove H p)"
  unfolding do_db_remove_def
  by (rule confined_writable, rule confined_write_pbind, rule confined_write_prog, rule confined,
      rule confined_write_pbind, rule confined_write_storage)
    (auto intro!: confined_write_prog confined split: prod.splits)

lemma confined_do_db_read: "confined_prog E sd (do_db_read H p)"
  unfolding do_db_read_def by (auto intro!: confined split: prod.splits option.splits)

lemma confined_do_db_scan: "confined_prog E sd (do_db_scan H p q i)"
  unfolding do_db_scan_def by (auto intro!: confined dest: scan_data split: prod.splits)

lemma confined_do_db_next: "confined_prog E sd (do_db_next H p)"
  unfolding do_db_next_def by (auto intro!: confined dest: next_data split: prod.splits option.splits simp: Let_def)

lemma confined_do_addr:
  "confined_prog E sd (do_addr_validate H p)" "confined_prog E sd (do_addr_canonicalize H p q)"
  "confined_prog E sd (do_addr_humanize H p q)"
  unfolding do_addr_validate_def do_addr_canonicalize_def do_addr_humanize_def
  by (auto intro!: confined split: prod.splits option.splits sum.splits backend_error.splits)

lemma confined_do_crypto:
  "confined_prog E sd (do_secp256k1_verify H p q k)" "confined_prog E sd (do_secp256k1_recover_pubkey H p q k)"
  "confined_prog E sd (do_ed25519_verify H p q k)" "confined_prog E sd (do_ed25519_batch_verify H p q k)"
  unfolding do_secp256k1_verify_def do_secp256k1_recover_pubkey_def do_ed25519_verify_def
    do_ed25519_batch_verify_def Let_def
  by (auto intro!: confined split: option.splits sum.splits)

lemma confined_do_debug: "confined_prog E sd (do_debug H p)"
  unfolding do_debug_def by (auto intro!: confined)

lemma confined_do_query_chain: "confined_prog E sd (do_query_chain H p)"
  unfolding do_query_chain_def by (auto intro!: confined split: prod.splits)

lemmas confined_imports =
  confined_do_db_read confined_do_db_write confined_do_db_remove confined_do_db_scan confined_do_db_next
  confined_do_addr confined_do_crypto confined_do_debug confined_do_query_chain

lemma import_step_confined: "import_step H env env' \<Longrightarrow> confined E sd env env'"
  by (induction rule: import_step.induct) (blast intro: confined_progD confined_imports)+

lemma import_steps_confined: "(import_step H)\<^sup>*\<^sup>* env env' \<Longrightarrow> confined E sd env env'"
  by (induction rule: rtranclp_induct) (auto intro: confined_trans import_step_confined)

end

section \<open>Effects\<close>

text \<open>
  What the contract's allocator promises: the pointer it returns is aligned and points to a region
  that does not overlap its own description.
\<close>

definition allocator_ok :: "('s, 'q, 'w, 'r) host \<Rightarrow> bool" where
  "allocator_ok H \<longleftrightarrow>
     (\<forall>n env p env' w. h_call H ''allocate'' [I32 n] env = (Inr [I32 p], env') \<longrightarrow> p \<noteq> 0 \<longrightarrow>
        cd_wasm_instance env' = Some w \<longrightarrow>
        4 dvd unat p \<and> (\<forall>r. we_deref_region (h_engine H) w p = Some r \<longrightarrow> apart p r))"

lemma env_read_region_Ok_iff:
  "env_read_region H p n env = Done (Inr bs, env') \<longleftrightarrow>
   (\<exists>w. cd_wasm_instance env = Some w \<and> we_has_memory (h_engine H) w \<and>
      read_region (h_engine H) w p n = Inr bs \<and> env' = env)"
  by (auto simp: env_read_region_def with_memory_def with_wasm_instance_def split: option.splits)

lemma env_write_region_Ok_iff:
  "env_write_region H p d env = Done (Inr (), env') \<longleftrightarrow>
   (\<exists>w w'. cd_wasm_instance env = Some w \<and> we_has_memory (h_engine H) w \<and>
      write_region (h_engine H) p d w = (Inr (), w') \<and> env' = env\<lparr>cd_wasm_instance := Some w'\<rparr>)"
  by (auto simp: env_write_region_def with_memory_def with_wasm_instance_def split: option.splits prod.splits)

lemma call_function1_Ok:
  assumes "call_function1 H f args env = Done (Inr v, env')"
  shows "h_call H f args env = (Inr [v], env')"
proof -
  obtain vs u where vs: "call_function H f args env = Done (Inr vs, u)"
    "(if length vs \<noteq> 1 then pfail (VmResultMismatch f 1 (length vs)) else preturn (hd vs)) u = Done (Inr v, env')"
    using assms by (auto simp: call_function1_def pbind_eq_Ok_iff)
  then have "vs = [v] \<and> u = env'" by (cases vs) (auto split: if_splits)
  moreover have "h_call H f args env = (Inr vs, u)"
    using vs(1) by (auto simp: call_function_def
        split: option.splits prod.splits sum.splits call_failure.splits metering_points.splits)
  ultimately show ?thesis by simp
qed

lemma process_gas_info_keeps:
  assumes "process_gas_info H info env = Done (r, env')"
  shows "cd_storage env' = cd_storage env" "cd_storage_readonly env' = cd_storage_readonly env"
  using assms by (auto simp: process_gas_info_def obind_eq_Done_iff set_gas_left_def omap_eq_Done_iff Let_def split: if_splits)

lemma with_storage_Ok_iff:
  "with_storage_from_context f env = Done (Inr r, env') \<longleftrightarrow>
   (\<exists>s s'. cd_storage env = Some s \<and> f s = Done (r, s') \<and> env' = env\<lparr>cd_storage := Some s'\<rparr>)"
  by (auto simp: with_storage_from_context_def omap_eq_Done_iff split: option.splits)

context wasm_engine_laws
begin

lemma write_to_contract_Ok:
  assumes "h_engine H = E" "allocator_ok H" "write_to_contract H d env = Done (Inr p, env')"
  shows "p \<noteq> 0 \<and> (\<exists>w. cd_wasm_instance env' = Some w \<and> read_region E w p (length d) = Inr d)"
proof -
  obtain n v u where n: "to_u32 (length d) = Inr n" and call: "call_function1 H ''allocate'' [I32 n] env = Done (Inr v, u)"
    and ref: "ref_to_u32 H v = Inr p" and p: "p \<noteq> 0" and wr: "env_write_region H p d u = Done (Inr (), env')"
    using assms(3) by (auto simp: write_to_contract_def pbind_eq_Ok_iff split: if_splits)
  have "v = I32 p" using ref by (cases v) (auto simp: ref_to_u32_def)
  then have hcall: "h_call H ''allocate'' [I32 n] env = (Inr [I32 p], u)" using call_function1_Ok [OF call] by simp
  obtain w w' where w: "cd_wasm_instance u = Some w" "write_region E p d w = (Inr (), w')"
    "env' = u\<lparr>cd_wasm_instance := Some w'\<rparr>"
    using wr by (auto simp: env_write_region_Ok_iff assms(1))
  have alloc: "4 dvd unat p" "\<And>r. we_deref_region E w p = Some r \<Longrightarrow> apart p r"
    using assms(2) hcall p w(1) unfolding allocator_ok_def assms(1) by blast+
  have "length d < 2 ^ 32" using n by (auto simp: to_u32_def split: if_splits)
  from write_region_Ok [OF w(2) alloc order_refl this] p w(3) show ?thesis by simp
qed

lemma do_db_write_effect:
  assumes "h_engine H = E" "do_db_write H kp vp env = Done (Inr (), env')"
  shows "\<exists>w key dat s s' g. \<not> cd_storage_readonly env \<and> cd_wasm_instance env = Some w \<and>
    read_region E w kp MAX_LENGTH_DB_KEY = Inr key \<and> length key \<le> MAX_LENGTH_DB_KEY \<and>
    read_region E w vp MAX_LENGTH_DB_VALUE = Inr dat \<and> length dat \<le> MAX_LENGTH_DB_VALUE \<and>
    cd_storage env = Some s \<and> bs_set (h_storage H) s key dat = ((Inr (), g), s') \<and> cd_storage env' = Some s'"
proof -
  have ro: "\<not> cd_storage_readonly env" using assms(2) by (auto simp: do_db_write_def)
  obtain w key dat where w: "cd_wasm_instance env = Some w"
    "read_region E w kp MAX_LENGTH_DB_KEY = Inr key" "read_region E w vp MAX_LENGTH_DB_VALUE = Inr dat"
    and rest: "pbind (with_storage_from_context (\<lambda>store. Done (bs_set (h_storage H) store key dat))) (\<lambda>(result, gas_info).
        pbind (process_gas_info H gas_info) (\<lambda>_. plift (map_err vm_error_from_backend result))) env = Done (Inr (), env')"
    using assms(2) ro by (auto simp: do_db_write_def pbind_eq_Ok_iff env_read_region_Ok_iff assms(1))
  obtain s r g s' v where s: "cd_storage env = Some s" "bs_set (h_storage H) s key dat = ((r, g), s')"
    and gas: "process_gas_info H g (env\<lparr>cd_storage := Some s'\<rparr>) = Done (Inr v, env')" and r: "map_err vm_error_from_backend r = Inr ()"
    using rest by (auto simp: pbind_eq_Ok_iff with_storage_Ok_iff split: prod.splits)
  have "cd_storage env' = Some s'" using process_gas_info_keeps(1) [OF gas] by simp
  moreover have "r = Inr ()" using r by (simp add: map_err_eq_Ok_iff)
  ultimately show ?thesis using ro w s read_region_bound by blast
qed

lemma do_db_read_effect:
  assumes "h_engine H = E" "allocator_ok H" "do_db_read H kp env = Done (Inr p, env')"
  shows "\<exists>w key s v g. cd_wasm_instance env = Some w \<and> read_region E w kp MAX_LENGTH_DB_KEY = Inr key \<and>
    cd_storage env = Some s \<and> bs_get (h_storage H) s key = (Inr v, g) \<and>
    (case v of None \<Rightarrow> p = 0
     | Some d \<Rightarrow> p \<noteq> 0 \<and> (\<exists>w'. cd_wasm_instance env' = Some w' \<and> read_region E w' p (length d) = Inr d))"
proof -
  obtain w key where w: "cd_wasm_instance env = Some w" "read_region E w kp MAX_LENGTH_DB_KEY = Inr key"
    and rest: "pbind (with_storage_from_context (\<lambda>store. Done (bs_get (h_storage H) store key, store))) (\<lambda>(result, gas_info).
        pbind (process_gas_info H gas_info) (\<lambda>_. pbind (plift (map_err vm_error_from_backend result)) (\<lambda>value.
          case value of Some out_data \<Rightarrow> write_to_contract H out_data | None \<Rightarrow> preturn 0))) env = Done (Inr p, env')"
    using assms(3) by (auto simp: do_db_read_def pbind_eq_Ok_iff [of "env_read_region _ _ _"] env_read_region_Ok_iff assms(1))
  obtain s r g v u x where s: "cd_storage env = Some s" "bs_get (h_storage H) s key = (r, g)"
    "process_gas_info H g (env\<lparr>cd_storage := Some s\<rparr>) = Done (Inr x, u)" "map_err vm_error_from_backend r = Inr v"
    "(case v of Some out_data \<Rightarrow> write_to_contract H out_data | None \<Rightarrow> preturn 0) u = Done (Inr p, env')"
    using rest by (auto simp: pbind_eq_Ok_iff with_storage_Ok_iff split: prod.splits)
  have "r = Inr v" using s(4) by (simp add: map_err_eq_Ok_iff)
  moreover have "case v of None \<Rightarrow> p = 0
     | Some d \<Rightarrow> p \<noteq> 0 \<and> (\<exists>w'. cd_wasm_instance env' = Some w' \<and> read_region E w' p (length d) = Inr d)"
    using s(5) write_to_contract_Ok [OF assms(1,2)] by (cases v) auto
  ultimately show ?thesis using w s(1,2) by blast
qed

end

section \<open>A host with the mock storage\<close>

text \<open>
  A guest with one function, \<open>allocate\<close>: it describes a region at address 64 in the twelve
  bytes at address 8.
\<close>

definition mock_call ::
  "string \<Rightarrow> wasm_val list \<Rightarrow> (mock_storage, unit, linear_instance) context_data \<Rightarrow>
    (call_failure, wasm_val list) result \<times> (mock_storage, unit, linear_instance) context_data" where
  "mock_call name args env =
     (case (cd_wasm_instance env, args) of
        (Some w, [I32 n]) \<Rightarrow>
          (case we_set_region linear_engine w 8 \<lparr>reg_offset = 64, reg_capacity = n, reg_length = 0\<rparr> of
             Some w' \<Rightarrow> (Inr [I32 8], env\<lparr>cd_wasm_instance := Some w'\<rparr>)
           | None \<Rightarrow> (Inl (RuntimeFailure ''out of memory''), env))
      | _ \<Rightarrow> (Inl (ExportFailure name), env))"

definition no_crypto :: crypto_api where
  "no_crypto = \<lparr>cr_secp256k1_verify = (\<lambda>_ _ _. Inr False),
     cr_secp256k1_recover_pubkey = (\<lambda>_ _ _. Inl CryptoInvalidRecoveryParam),
     cr_ed25519_verify = (\<lambda>_ _ _. Inr False), cr_ed25519_batch_verify = (\<lambda>_ _ _. Inr False)\<rparr>"

definition mock_host :: "(mock_storage, unit, linear_instance, unit) host" where
  "mock_host = \<lparr>h_engine = linear_engine, h_call = mock_call, h_show_val = (\<lambda>_. ''value''),
     h_storage = mock_backend, h_query_raw = (\<lambda>_ _ _. (Inl (Unknown None), gas_info_free)),
     h_result_to_vec = (\<lambda>_. Inl ''no query''), h_result_type = ''unit'',
     h_canonical_address = (\<lambda>s. (Inr (ascii s), gas_info_free)),
     h_human_address = (\<lambda>b. (Inr (from_ascii b), gas_info_free)),
     h_crypto = no_crypto, h_print_debug = False, h_gas_config = gas_config_default\<rparr>"

lemma mock_call_frame:
  assumes "mock_call name args env = (r, env')"
  shows "env' = env \<or> (\<exists>w w'. cd_wasm_instance env = Some w \<and> env' = env\<lparr>cd_wasm_instance := Some w'\<rparr> \<and>
    lm_points w' = lm_points w)"
  using assms by (auto simp: mock_call_def linear_engine_def
      split: option.splits list.splits wasm_val.splits if_splits)

interpretation mock: host_laws linear_engine mock_host mock_view
proof
  fix f args s s' start "end" ord b i n and env env' :: "(mock_storage, unit, linear_instance) context_data" and r w
  show "h_engine mock_host = linear_engine" by (simp add: mock_host_def)
  assume "h_call mock_host f args env = (r, env')"
  then have frame: "env' = env \<or> (\<exists>w w'. cd_wasm_instance env = Some w \<and>
      env' = env\<lparr>cd_wasm_instance := Some w'\<rparr> \<and> lm_points w' = lm_points w)"
    using mock_call_frame by (simp add: mock_host_def)
  then show "cd_storage_readonly env' = cd_storage_readonly env \<and>
      gas_limit (cd_gas_state env') = gas_limit (cd_gas_state env) \<and>
      (cd_storage_readonly env \<longrightarrow> map_option mock_view (cd_storage env') = map_option mock_view (cd_storage env))"
    by auto
  show "\<exists>w'. cd_wasm_instance env' = Some w' \<and> engine_gas_left linear_engine w' \<le> engine_gas_left linear_engine w"
    if "cd_wasm_instance env = Some w"
    using frame that by (auto simp: engine_gas_left_def linear_engine_def)
next
  fix s s' start "end" ord b
  show "mock_view s' = mock_view s" if "bs_scan (h_storage mock_host) s start end ord = Done (b, s')"
    using that by (auto simp: mock_host_def mock_backend_def mock_scan_def Let_def obind_eq_Done_iff)
next
  fix s s' i n
  show "mock_view s' = mock_view s" if "bs_next (h_storage mock_host) s i = (n, s')"
    using that by (auto simp: mock_host_def mock_backend_def mock_next_def Let_def split: option.splits if_splits)
qed

lemma mock_allocator_ok: "allocator_ok mock_host"
proof -
  have "4 dvd unat p \<and> (\<forall>r. we_deref_region linear_engine w p = Some r \<longrightarrow> apart p r)"
    if call: "mock_call ''allocate'' [I32 n] env = (Inr [I32 p], env')" and w: "cd_wasm_instance env' = Some w"
    for n env p env' w
  proof -
    define r where "r = \<lparr>reg_offset = 64, reg_capacity = n, reg_length = 0\<rparr>"
    obtain w0 where w0: "we_set_region linear_engine w0 8 r = Some w" and p: "p = 8"
      using call w by (auto simp: mock_call_def r_def split: option.splits)
    have "we_deref_region linear_engine w 8 = Some r" by (rule linear.get_set_region [OF _ w0]) simp
    then show ?thesis using p by (simp add: apart_def r_def)
  qed
  then show ?thesis by (simp add: allocator_ok_def mock_host_def)
qed

text \<open>Returning data to the contract succeeds when its memory has room.\<close>

lemma mock_write_region:
  assumes "get_region linear_engine w p = Inr r" "length d \<le> unat (reg_capacity r)"
    and "unat p + 12 \<le> length (lm_mem w)" "unat (reg_offset r) + unat (reg_capacity r) \<le> length (lm_mem w)"
  shows "\<exists>w'. write_region linear_engine p d w = (Inr (), w')"
proof -
  define w1 where "w1 = w\<lparr>lm_mem := put_bytes (unat (reg_offset r)) d (lm_mem w)\<rparr>"
  have "we_write_cells linear_engine w (reg_offset r) (reg_capacity r) d = Some w1"
    using assms(2,4) by (simp add: linear_engine_def w1_def)
  moreover have "length (lm_mem w1) = length (lm_mem w)"
    using assms(2,4) by (simp add: w1_def length_put_bytes)
  then obtain w2 where "set_region linear_engine p (r\<lparr>reg_length := word_of_nat (length d)\<rparr>) w1 = (Inr (), w2)"
    using assms(3) by (simp add: set_region_def linear_engine_def)
  ultimately show ?thesis using assms(1,2) by (simp add: write_region_def Let_def)
qed

lemma mock_write_to_contract:
  assumes "cd_wasm_instance env = Some w" "64 + length d \<le> length (lm_mem w)" "length (lm_mem w) < 2 ^ 32"
  shows "\<exists>env'. write_to_contract mock_host d env = Done (Inr 8, env')"
proof -
  define r where "r = \<lparr>reg_offset = 64, reg_capacity = word_of_nat (length d) :: u32, reg_length = 0\<rparr>"
  have n: "unat (word_of_nat (length d) :: u32) = length d" using assms(2,3) by (simp add: unat_of_nat)
  obtain w1 where w1: "we_set_region linear_engine w 8 r = Some w1" "length (lm_mem w1) = length (lm_mem w)"
    using assms(2) by (simp add: linear_engine_def length_put_bytes)
  have "we_deref_region linear_engine w1 8 = Some r" by (rule linear.get_set_region [OF _ w1(1)]) simp
  moreover have "validate_region r = Inr ()"
    using assms(2,3) by (simp add: validate_region_Ok_iff region_ok_def r_def n)
  ultimately have "get_region linear_engine w1 8 = Inr r" by (simp add: get_region_def)
  then obtain w2 where w2: "write_region linear_engine 8 d w1 = (Inr (), w2)"
    using mock_write_region [of w1 8 r d] assms(2) w1(2) by (auto simp: r_def n)
  have "call_function1 mock_host ''allocate'' [I32 (word_of_nat (length d))] env =
      Done (Inr (I32 8), env\<lparr>cd_wasm_instance := Some w1\<rparr>)"
    using assms(1) w1(1)
    by (simp add: call_function1_def call_function_def pbind_def mock_host_def mock_call_def r_def)
  moreover have "to_u32 (length d) = Inr (word_of_nat (length d))" using assms(2,3) by (simp add: to_u32_def)
  moreover have "env_write_region mock_host 8 d (env\<lparr>cd_wasm_instance := Some w1\<rparr>) =
      Done (Inr (), env\<lparr>cd_wasm_instance := Some w2\<rparr>)"
    using w2 unfolding env_write_region_Ok_iff by (simp add: mock_host_def linear_engine_def)
  ultimately show ?thesis by (simp add: write_to_contract_def pbind_def ref_to_u32_def)
qed

end
