(* ===== verification/Crypto.thy ===== *)
theory Crypto
  imports VM_Safety
begin

text \<open>
  The package \<open>packages/crypto\<close>: the checks of lengths and formats around the curve libraries
  \<open>k256\<close> and \<open>ed25519-zebra\<close>, which are the record \<open>curves\<close>, and what happens to
  its results at the boundary: the imports of the virtual machine turn them into codes, and
  \<open>ExternalApi\<close> of \<open>packages/std/src/imports.rs\<close> turns the codes into results again.
\<close>

section \<open>The curve libraries\<close>

text \<open>
  The errors of \<open>k256\<close> are used by their text only. \<open>ed_batch_verify\<close> is the batch
  verifier applied to the queue of keys, signatures and messages.
\<close>

record ('sig, 'rsig, 'id, 'vk, 'evk) curves =
  signature_from_bytes :: "bytes \<Rightarrow> (string, 'sig) result"
  normalize_s :: "'sig \<Rightarrow> (string, 'sig) result"
  verifying_key :: "bytes \<Rightarrow> (string, 'vk) result"
  verify_digest :: "'vk \<Rightarrow> bytes \<Rightarrow> 'sig \<Rightarrow> bool"
  recovery_id :: "u8 \<Rightarrow> 'id option"
  recoverable_signature :: "'sig \<Rightarrow> 'id \<Rightarrow> (string, 'rsig) result"
  recover_verify_key :: "'rsig \<Rightarrow> bytes \<Rightarrow> (string, 'vk) result"
  encoded_point :: "'vk \<Rightarrow> bytes"
  ed_verification_key :: "bytes \<Rightarrow> 'evk option"
  ed_verify :: "'evk \<Rightarrow> bytes \<Rightarrow> bytes \<Rightarrow> bool"
  ed_batch_verify :: "(bytes \<times> bytes \<times> bytes) list \<Rightarrow> bool"

section \<open>secp256k1\<close>

definition ECDSA_COMPRESSED_PUBKEY_LEN :: nat where
  "ECDSA_COMPRESSED_PUBKEY_LEN = 33"

definition read_hash :: "bytes \<Rightarrow> (crypto_error, bytes) result" where
  "read_hash data = (if length data = 32 then Inr data else Inl CryptoInvalidHashFormat)"

definition read_signature :: "bytes \<Rightarrow> (crypto_error, bytes) result" where
  "read_signature data = (if length data = 64 then Inr data else Inl CryptoInvalidSignatureFormat)"

definition check_pubkey :: "bytes \<Rightarrow> (crypto_error, unit) result" where
  "check_pubkey data =
     (let ok = (case data of
          [] \<Rightarrow> False
        | b # _ \<Rightarrow>
            if b = 0x02 \<or> b = 0x03 then length data = ECDSA_COMPRESSED_PUBKEY_LEN
            else if b = 0x04 then length data = ECDSA_PUBKEY_MAX_LEN
            else False)
      in if ok then Inr () else Inl CryptoInvalidPubkeyFormat)"

text \<open>The digest of a message hash is the hash itself (\<open>identity_digest.rs\<close>).\<close>

definition secp256k1_verify ::
  "('sig, 'rsig, 'id, 'vk, 'evk) curves \<Rightarrow> bytes \<Rightarrow> bytes \<Rightarrow> bytes \<Rightarrow> (crypto_error, bool) result" where
  "secp256k1_verify K message_hash signature public_key =
     rbind (read_hash message_hash) (\<lambda>message_hash.
     rbind (read_signature signature) (\<lambda>signature.
     rbind (check_pubkey public_key) (\<lambda>_.
     rbind (map_err CryptoGenericErr (signature_from_bytes K signature)) (\<lambda>signature.
     rbind (map_err CryptoGenericErr (normalize_s K signature)) (\<lambda>signature.
     rbind (map_err CryptoGenericErr (verifying_key K public_key)) (\<lambda>public_key.
     Inr (verify_digest K public_key message_hash signature)))))))"

definition secp256k1_recover_pubkey ::
  "('sig, 'rsig, 'id, 'vk, 'evk) curves \<Rightarrow> bytes \<Rightarrow> bytes \<Rightarrow> u8 \<Rightarrow> (crypto_error, bytes) result" where
  "secp256k1_recover_pubkey K message_hash signature recovery_param =
     rbind (read_hash message_hash) (\<lambda>message_hash.
     rbind (read_signature signature) (\<lambda>signature.
     rbind (ok_or CryptoInvalidRecoveryParam (recovery_id K recovery_param)) (\<lambda>id.
     rbind (map_err CryptoGenericErr (signature_from_bytes K signature)) (\<lambda>signature.
     rbind (map_err CryptoGenericErr (recoverable_signature K signature id)) (\<lambda>extended_signature.
     rbind (map_err CryptoGenericErr (recover_verify_key K extended_signature message_hash)) (\<lambda>pubkey.
     Inr (encoded_point K pubkey)))))))"

section \<open>ed25519\<close>

definition read_pubkey :: "bytes \<Rightarrow> (crypto_error, bytes) result" where
  "read_pubkey data = (if length data = 32 then Inr data else Inl CryptoInvalidPubkeyFormat)"

definition ed25519_verify ::
  "('sig, 'rsig, 'id, 'vk, 'evk) curves \<Rightarrow> bytes \<Rightarrow> bytes \<Rightarrow> bytes \<Rightarrow> (crypto_error, bool) result" where
  "ed25519_verify K message signature public_key =
     rbind (read_signature signature) (\<lambda>signature.
     rbind (read_pubkey public_key) (\<lambda>pubkey.
     Inr (case ed_verification_key K pubkey of
            Some vk \<Rightarrow> ed_verify K vk signature message
          | None \<Rightarrow> False)))"

text \<open>The loop of the batch: each item is validated and queued.\<close>

fun batch_queue :: "(bytes \<times> bytes \<times> bytes) list \<Rightarrow> (crypto_error, (bytes \<times> bytes \<times> bytes) list) result" where
  "batch_queue [] = Inr []"
| "batch_queue ((message, signature, public_key) # items) =
     rbind (read_signature signature) (\<lambda>signature.
     rbind (read_pubkey public_key) (\<lambda>pubkey.
     map_ok ((#) (pubkey, signature, message)) (batch_queue items)))"

definition ed25519_batch_verify ::
  "('sig, 'rsig, 'id, 'vk, 'evk) curves \<Rightarrow> bytes list \<Rightarrow> bytes list \<Rightarrow> bytes list \<Rightarrow> (crypto_error, bool) result" where
  "ed25519_batch_verify K messages signatures public_keys =
     (let messages_len = length messages;
          signatures_len = length signatures;
          public_keys_len = length public_keys;
          run = (\<lambda>messages public_keys.
            map_ok (ed_batch_verify K) (batch_queue (zip messages (zip signatures public_keys))))
      in if messages_len = signatures_len \<and> messages_len = public_keys_len then run messages public_keys
         else if messages_len = 1 \<and> signatures_len = public_keys_len
           then run (concat (replicate signatures_len messages)) public_keys
         else if public_keys_len = 1 \<and> messages_len = signatures_len
           then run messages (concat (replicate messages_len public_keys))
         else Inl (CryptoBatchErr ''Mismatched / erroneous number of messages / signatures / public keys''))"

section \<open>The package as the crypto functions of the imports\<close>

definition package_crypto :: "('sig, 'rsig, 'id, 'vk, 'evk) curves \<Rightarrow> crypto_api" where
  "package_crypto K =
     \<lparr>cr_secp256k1_verify = secp256k1_verify K,
      cr_secp256k1_recover_pubkey = secp256k1_recover_pubkey K,
      cr_ed25519_verify = ed25519_verify K,
      cr_ed25519_batch_verify = ed25519_batch_verify K\<rparr>"

section \<open>The contract's side\<close>

definition from_high_half :: "u64 \<Rightarrow> u32 outcome" where
  "from_high_half data = unwrap (try_into_word (drop_bit 32 data))"

definition from_low_half :: "u64 \<Rightarrow> u32 outcome" where
  "from_low_half data = unwrap (try_into_word (and data 0xFFFFFFFF))"

definition external_secp256k1_verdict :: "u32 \<Rightarrow> (verification_error, bool) result outcome" where
  "external_secp256k1_verdict result =
     (if result = 0 then Done (Inr True)
      else if result = 1 then Done (Inr False)
      else if result = 2 then Panic ''MessageTooLong must not happen. This is a bug in the VM.''
      else if result = 3 then Done (Inl VInvalidHashFormat)
      else if result = 4 then Done (Inl VInvalidSignatureFormat)
      else if result = 5 then Done (Inl VInvalidPubkeyFormat)
      else if result = 10 then Done (Inl VGenericErr)
      else Done (Inl (VUnknownErr result)))"

text \<open>The result of a recovery is an error, or the pointer to the region of the key.\<close>

definition external_recover_verdict :: "u64 \<Rightarrow> (recover_pubkey_error, u32) result outcome" where
  "external_recover_verdict result =
     obind (from_high_half result) (\<lambda>error_code.
     obind (from_low_half result) (\<lambda>pubkey_ptr.
     if error_code = 0 then Done (Inr pubkey_ptr)
     else if error_code = 2 then Panic ''MessageTooLong must not happen. This is a bug in the VM.''
     else if error_code = 3 then Done (Inl RInvalidHashFormat)
     else if error_code = 4 then Done (Inl RInvalidSignatureFormat)
     else if error_code = 6 then Done (Inl RInvalidRecoveryParam)
     else Done (Inl (RUnknownErr error_code))))"

text \<open>The same match is written twice, for \<open>ed25519_verify\<close> and \<open>ed25519_batch_verify\<close>.\<close>

definition external_ed25519_verdict :: "u32 \<Rightarrow> (verification_error, bool) result outcome" where
  "external_ed25519_verdict result =
     (if result = 0 then Done (Inr True)
      else if result = 1 then Done (Inr False)
      else if result = 2 then Panic ''Error code 2 unused since CosmWasm 0.15. This is a bug in the VM.''
      else if result = 3 then Panic ''InvalidHashFormat must not happen. This is a bug in the VM.''
      else if result = 4 then Done (Inl VInvalidSignatureFormat)
      else if result = 5 then Done (Inl VInvalidPubkeyFormat)
      else if result = 10 then Done (Inl VGenericErr)
      else Done (Inl (VUnknownErr result)))"

section \<open>Which errors are returned\<close>

lemma rbind_eq_Err_iff:
  "rbind r f = Inl e \<longleftrightarrow> r = Inl e \<or> (\<exists>x. r = Inr x \<and> f x = Inl e)"
  by (cases r) auto

lemma map_err_eq_Err_iff: "map_err f r = Inl e \<longleftrightarrow> (\<exists>e'. r = Inl e' \<and> e = f e')"
  by (cases r) auto

lemma ok_or_eq_Err_iff: "ok_or e r = Inl e' \<longleftrightarrow> r = None \<and> e' = e"
  by (cases r) auto

lemmas crypto_errs = rbind_eq_Err_iff map_err_eq_Err_iff ok_or_eq_Err_iff

lemma secp256k1_verify_errors: "secp256k1_verify K h s p = Inl e \<Longrightarrow> secp256k1_verify_error e"
  by (auto simp: secp256k1_verify_def crypto_errs read_hash_def read_signature_def check_pubkey_def Let_def
      split: if_splits)

lemma secp256k1_recover_errors: "secp256k1_recover_pubkey K h s p = Inl e \<Longrightarrow> secp256k1_recover_error e"
  by (auto simp: secp256k1_recover_pubkey_def crypto_errs read_hash_def read_signature_def split: if_splits)

lemma ed25519_verify_errors: "ed25519_verify K m s p = Inl e \<Longrightarrow> ed25519_verify_error e"
  by (auto simp: ed25519_verify_def crypto_errs read_signature_def read_pubkey_def split: if_splits)

lemma map_ok_eq_Err_iff: "map_ok f r = Inl e \<longleftrightarrow> r = Inl e"
  by (cases r) auto

lemma batch_queue_errors:
  "batch_queue items = Inl e \<Longrightarrow> e = CryptoInvalidSignatureFormat \<or> e = CryptoInvalidPubkeyFormat"
  by (induction items rule: batch_queue.induct)
    (auto simp: crypto_errs map_ok_eq_Err_iff read_signature_def read_pubkey_def split: if_splits)

lemma ed25519_batch_errors: "ed25519_batch_verify K ms ss ps = Inl e \<Longrightarrow> ed25519_batch_error e"
  by (auto simp: ed25519_batch_verify_def Let_def map_ok_eq_Err_iff dest!: batch_queue_errors split: if_splits)

section \<open>Crossing the boundary\<close>

lemma halves:
  "from_high_half (to_high_half c) = Done c" "from_low_half (to_high_half c) = Done 0"
  "from_high_half (to_low_half c) = Done 0" "from_low_half (to_low_half c) = Done c"
proof -
  have c: "unat c < 4294967296" using unat_lt [of c] by simp
  have mask: "and (x :: u64) 0xFFFFFFFF = take_bit 32 x" for x
    by (simp add: take_bit_eq_mask mask_eq_exp_minus_1)
  have low: "unat (take_bit 32 x) = unat x mod 4294967296" for x :: u64
    unfolding unsigned_take_bit_eq by (simp add: take_bit_eq_mod)
  have uc: "unat (ucast c :: u64) = unat c" by (simp add: unat_ucast_widen)
  have hi: "unat (to_high_half c) = unat c * 4294967296"
    using c by (simp add: to_high_half_def push_bit_eq_mult unat_word_ariths uc)
  have lo: "unat (to_low_half c) = unat c" by (simp add: to_low_half_def uc)
  show "from_high_half (to_high_half c) = Done c" "from_high_half (to_low_half c) = Done 0"
    using c by (simp_all add: from_high_half_def unwrap_eq_Done_iff try_into_word_Some_iff drop_bit_eq_div
        unat_div hi lo)
  show "from_low_half (to_high_half c) = Done 0" "from_low_half (to_low_half c) = Done c"
    using c by (simp_all add: from_low_half_def mask unwrap_eq_Done_iff try_into_word_Some_iff low hi lo)
qed

lemma secp256k1_boundary:
  assumes "r = secp256k1_verify K h s p"
  shows "\<exists>c. verdict_code secp256k1_verify_error r = Done c \<and>
    external_secp256k1_verdict c = Done (map_err verification_error_from r)"
proof (cases r)
  case (Inl e)
  then have "secp256k1_verify_error e" using assms secp256k1_verify_errors by metis
  with Inl show ?thesis by (cases e) (simp_all add: verdict_code_def external_secp256k1_verdict_def)
qed (simp add: verdict_code_def external_secp256k1_verdict_def)

lemma ed25519_boundary:
  assumes "r = ed25519_verify K m s p"
  shows "\<exists>c. verdict_code ed25519_verify_error r = Done c \<and>
    external_ed25519_verdict c = Done (map_err verification_error_from r)"
proof (cases r)
  case (Inl e)
  then have "ed25519_verify_error e" using assms ed25519_verify_errors by metis
  with Inl show ?thesis by (cases e) (simp_all add: verdict_code_def external_ed25519_verdict_def)
qed (simp add: verdict_code_def external_ed25519_verdict_def)

lemma ed25519_batch_boundary:
  assumes "r = ed25519_batch_verify K ms ss ps"
  shows "\<exists>c. verdict_code ed25519_batch_error r = Done c \<and>
    external_ed25519_verdict c = Done (case r of
        Inl (CryptoBatchErr msg) \<Rightarrow> Inl (VUnknownErr 7) | _ \<Rightarrow> map_err verification_error_from r)"
proof (cases r)
  case (Inl e)
  then have "ed25519_batch_error e" using assms ed25519_batch_errors by metis
  with Inl show ?thesis by (cases e) (simp_all add: verdict_code_def external_ed25519_verdict_def)
qed (simp add: verdict_code_def external_ed25519_verdict_def)

lemma recover_boundary:
  assumes "secp256k1_recover_pubkey K h s p = Inl e"
  shows "external_recover_verdict (to_high_half (crypto_error_code e)) = omap Inl (recover_pubkey_error_from e)"
  using secp256k1_recover_errors [OF assms]
  by (cases e) (simp_all add: external_recover_verdict_def halves)

lemma recover_boundary_ptr: "external_recover_verdict (to_low_half ptr) = Done (Inr ptr)"
  by (simp add: external_recover_verdict_def halves)

section \<open>The imports do not panic on crypto errors\<close>

lemma env_read_region_returns:
  assumes "cd_wasm_instance env = Some w" "we_has_memory (h_engine H) w"
  shows "env_read_region H p n env = Done (read_region (h_engine H) w p n, env)"
  using assms by (cases env) (simp add: env_read_region_def with_memory_def with_wasm_instance_def)

lemma process_gas_info_returns:
  assumes "cd_wasm_instance env = Some w"
  shows "\<exists>r env'. process_gas_info H info env = Done (r, env')"
  using assms by (simp add: process_gas_info_def get_gas_left_def set_gas_left_def Let_def)

lemma pbind_returns:
  assumes "\<exists>r env'. m env = Done (r, env')"
    and "\<And>x env'. m env = Done (Inr x, env') \<Longrightarrow> \<exists>q env''. f x env' = Done (q, env'')"
  shows "\<exists>q env''. pbind m f env = Done (q, env'')"
proof -
  obtain r env' where "m env = Done (r, env')" using assms(1) by blast
  with assms(2) show ?thesis by (cases r) (auto simp: pbind_def)
qed

lemma read_then_returns:
  assumes "cd_wasm_instance env = Some w" "we_has_memory (h_engine H) w"
    and "\<And>bs. \<exists>q env'. f bs env = Done (q, env')"
  shows "\<exists>q env'. pbind (env_read_region H p n) f env = Done (q, env')"
  using env_read_region_returns [OF assms(1,2)] assms(3) by (intro pbind_returns) auto

lemma verdict_returns:
  assumes "cd_wasm_instance env = Some w" "\<exists>c. v = Done c"
  shows "\<exists>q env'. pbind (process_gas_info H info) (\<lambda>_. plift_out v) env = Done (q, env')"
  using process_gas_info_returns [OF assms(1)] assms(2) by (intro pbind_returns) (auto simp: plift_out_def)

lemma do_secp256k1_verify_returns:
  assumes "h_crypto H = package_crypto K" "cd_wasm_instance env = Some w" "we_has_memory (h_engine H) w"
  shows "\<exists>r env'. do_secp256k1_verify H hp sp pp env = Done (r, env')"
  unfolding do_secp256k1_verify_def Let_def assms(1) package_crypto_def crypto_api.simps
  using secp256k1_boundary [OF refl]
  by (intro read_then_returns [OF assms(2,3)] verdict_returns [OF assms(2)]) blast

lemma do_ed25519_verify_returns:
  assumes "h_crypto H = package_crypto K" "cd_wasm_instance env = Some w" "we_has_memory (h_engine H) w"
  shows "\<exists>r env'. do_ed25519_verify H mp sp pp env = Done (r, env')"
  unfolding do_ed25519_verify_def Let_def assms(1) package_crypto_def crypto_api.simps
  using ed25519_boundary [OF refl]
  by (intro read_then_returns [OF assms(2,3)] verdict_returns [OF assms(2)]) blast

section \<open>Batches\<close>

text \<open>
  What the batch verifier of the library promises: a batch is accepted when each of its items is
  valid on its own.
\<close>

definition batch_consistent :: "('sig, 'rsig, 'id, 'vk, 'evk) curves \<Rightarrow> bool" where
  "batch_consistent K \<longleftrightarrow>
     (\<forall>items. ed_batch_verify K items =
        (\<forall>(pk, s, m) \<in> set items. case ed_verification_key K pk of Some vk \<Rightarrow> ed_verify K vk s m | None \<Rightarrow> False))"

text \<open>The three accepted shapes of the input, as lists of message, signature and key.\<close>

definition batch_items :: "bytes list \<Rightarrow> bytes list \<Rightarrow> bytes list \<Rightarrow> (bytes \<times> bytes \<times> bytes) list option" where
  "batch_items ms ss ps =
     (if length ms = length ss \<and> length ps = length ss then Some (zip ms (zip ss ps))
      else if length ms = 1 \<and> length ps = length ss then Some (map (\<lambda>(s, p). (hd ms, s, p)) (zip ss ps))
      else if length ps = 1 \<and> length ms = length ss then Some (map (\<lambda>(m, s). (m, s, hd ps)) (zip ms ss))
      else None)"

lemma batch_queue_Ok_iff:
  "batch_queue items = Inr q \<longleftrightarrow>
   (\<forall>(m, s, p) \<in> set items. length s = 64 \<and> length p = 32) \<and> q = map (\<lambda>(m, s, p). (p, s, m)) items"
  by (induction items arbitrary: q rule: batch_queue.induct)
    (auto simp: rbind_eq_Ok_iff map_ok_eq_Ok_iff read_signature_def read_pubkey_def)

lemma ed25519_verify_True_iff:
  "ed25519_verify K m s p = Inr True \<longleftrightarrow> length s = 64 \<and> length p = 32 \<and>
   (case ed_verification_key K p of Some vk \<Rightarrow> ed_verify K vk s m | None \<Rightarrow> False)"
  by (auto simp: ed25519_verify_def rbind_eq_Ok_iff read_signature_def read_pubkey_def)

lemma batch_run_True_iff:
  assumes "batch_consistent K"
  shows "map_ok (ed_batch_verify K) (batch_queue items) = Inr True \<longleftrightarrow>
    (\<forall>(m, s, p) \<in> set items. ed25519_verify K m s p = Inr True)"
  using assms
  by (fastforce simp: map_ok_eq_Ok_iff batch_queue_Ok_iff ed25519_verify_True_iff batch_consistent_def)

lemma replicate_hd: "length xs = 1 \<Longrightarrow> concat (replicate n xs) = replicate n (hd xs)"
  by (cases xs; induction n; simp)

lemma zip_replicate_left: "length ys = n \<Longrightarrow> zip (replicate n x) ys = map (Pair x) ys"
  by (induction ys arbitrary: n) auto

lemma zip_replicate_right:
  "length ms = n \<Longrightarrow> length ss = n \<Longrightarrow> zip ms (zip ss (replicate n x)) = map (\<lambda>(m, s). (m, s, x)) (zip ms ss)"
  by (induction ms arbitrary: n ss) (auto simp: length_Suc_conv)

lemma ed25519_batch_verify_items:
  "ed25519_batch_verify K ms ss ps =
    (case batch_items ms ss ps of
       Some items \<Rightarrow> map_ok (ed_batch_verify K) (batch_queue items)
     | None \<Rightarrow> Inl (CryptoBatchErr ''Mismatched / erroneous number of messages / signatures / public keys''))"
  by (auto simp: ed25519_batch_verify_def batch_items_def Let_def replicate_hd zip_replicate_left
      zip_replicate_right prod.case_distrib split_def)

lemma ed25519_batch_True_iff:
  assumes "batch_consistent K"
  shows "ed25519_batch_verify K ms ss ps = Inr True \<longleftrightarrow>
    (\<exists>items. batch_items ms ss ps = Some items \<and> (\<forall>(m, s, p) \<in> set items. ed25519_verify K m s p = Inr True))"
  using batch_run_True_iff [OF assms] by (auto simp: ed25519_batch_verify_items split: option.splits)

text \<open>Curves on which every item with a non-empty message is valid.\<close>

definition length_curves :: "(unit, unit, unit, unit, bytes) curves" where
  "length_curves =
     \<lparr>signature_from_bytes = (\<lambda>_. Inr ()), normalize_s = (\<lambda>_. Inr ()), verifying_key = (\<lambda>_. Inr ()),
      verify_digest = (\<lambda>_ h _. h \<noteq> []), recovery_id = (\<lambda>_. Some ()), recoverable_signature = (\<lambda>_ _. Inr ()),
      recover_verify_key = (\<lambda>_ _. Inr ()), encoded_point = (\<lambda>_. [4]), ed_verification_key = Some,
      ed_verify = (\<lambda>_ _ m. m \<noteq> []), ed_batch_verify = (\<lambda>items. \<forall>(_, _, m) \<in> set items. m \<noteq> [])\<rparr>"

end
