(* ===== verification/Uint64_128.thy ===== *)
theory Uint64_128
  imports Std_Errors
begin

text \<open>
  The fixed-width integers \<open>Uint64\<close> and \<open>Uint128\<close> of
  \<open>packages/std/src/math/uint64.rs\<close> and \<open>uint128.rs\<close>. Each is a wrapper around a primitive
  integer: a constructor with one word. An operator that panics in Rust returns an
  \<open>outcome\<close>, a checked method a \<open>result\<close>. References are values here, so the impl
  for a reference is the impl for the value. Uint128 products go through Uint256 and are in the
  theory Wide_Uint. The lemmas at the end state every operation on the exact natural numbers
  the wrappers denote.
\<close>

section \<open>Uint64\<close>

datatype uint64 = Uint64 (u64: "64 word")

abbreviation val64 :: "uint64 \<Rightarrow> nat" where
  "val64 x \<equiv> unat (u64 x)"

definition uint64_MAX :: "uint64" where
  "uint64_MAX = Uint64 (- 1)"

definition uint64_new :: "64 word \<Rightarrow> uint64" where
  "uint64_new value = Uint64 value"

definition uint64_zero :: "uint64" where
  "uint64_zero = Uint64 0"

definition uint64_to_be_bytes :: "uint64 \<Rightarrow> bytes" where
  "uint64_to_be_bytes self = to_be_bytes (u64 self)"

definition uint64_to_le_bytes :: "uint64 \<Rightarrow> bytes" where
  "uint64_to_le_bytes self = to_le_bytes (u64 self)"

definition uint64_is_zero :: "uint64 \<Rightarrow> bool" where
  "uint64_is_zero self \<longleftrightarrow> u64 self = 0"

definition uint64_to_string :: "uint64 \<Rightarrow> string" where
  "uint64_to_string self = to_string (u64 self)"

definition uint64_checked_add :: "uint64 \<Rightarrow> uint64 \<Rightarrow> (overflow_error, uint64) result" where
  "uint64_checked_add self other =
     ok_or (overflow_error_new OpAdd (uint64_to_string self) (uint64_to_string other))
       (map_option Uint64 (checked_add (u64 self) (u64 other)))"

definition uint64_checked_sub :: "uint64 \<Rightarrow> uint64 \<Rightarrow> (overflow_error, uint64) result" where
  "uint64_checked_sub self other =
     ok_or (overflow_error_new OpSub (uint64_to_string self) (uint64_to_string other))
       (map_option Uint64 (checked_sub (u64 self) (u64 other)))"

definition uint64_checked_mul :: "uint64 \<Rightarrow> uint64 \<Rightarrow> (overflow_error, uint64) result" where
  "uint64_checked_mul self other =
     ok_or (overflow_error_new OpMul (uint64_to_string self) (uint64_to_string other))
       (map_option Uint64 (checked_mul (u64 self) (u64 other)))"

definition uint64_checked_div :: "uint64 \<Rightarrow> uint64 \<Rightarrow> (divide_by_zero_error, uint64) result" where
  "uint64_checked_div self other =
     ok_or (divide_by_zero_error_new (uint64_to_string self)) (map_option Uint64 (checked_div (u64 self) (u64 other)))"

definition uint64_checked_div_euclid :: "uint64 \<Rightarrow> uint64 \<Rightarrow> (divide_by_zero_error, uint64) result" where
  "uint64_checked_div_euclid self other =
     ok_or (divide_by_zero_error_new (uint64_to_string self)) (map_option Uint64 (checked_div (u64 self) (u64 other)))"

definition uint64_checked_rem :: "uint64 \<Rightarrow> uint64 \<Rightarrow> (divide_by_zero_error, uint64) result" where
  "uint64_checked_rem self other =
     ok_or (divide_by_zero_error_new (uint64_to_string self)) (map_option Uint64 (checked_rem (u64 self) (u64 other)))"

definition uint64_wrapping_add :: "uint64 \<Rightarrow> uint64 \<Rightarrow> uint64" where
  "uint64_wrapping_add self other = Uint64 (u64 self + u64 other)"

definition uint64_wrapping_sub :: "uint64 \<Rightarrow> uint64 \<Rightarrow> uint64" where
  "uint64_wrapping_sub self other = Uint64 (u64 self - u64 other)"

definition uint64_wrapping_mul :: "uint64 \<Rightarrow> uint64 \<Rightarrow> uint64" where
  "uint64_wrapping_mul self other = Uint64 (u64 self * u64 other)"

definition uint64_wrapping_pow :: "uint64 \<Rightarrow> u32 \<Rightarrow> uint64" where
  "uint64_wrapping_pow self other = Uint64 (wrapping_pow (u64 self) other)"

definition uint64_saturating_add :: "uint64 \<Rightarrow> uint64 \<Rightarrow> uint64" where
  "uint64_saturating_add self other = Uint64 (saturating_add (u64 self) (u64 other))"

definition uint64_saturating_sub :: "uint64 \<Rightarrow> uint64 \<Rightarrow> uint64" where
  "uint64_saturating_sub self other = Uint64 (saturating_sub (u64 self) (u64 other))"

definition uint64_saturating_mul :: "uint64 \<Rightarrow> uint64 \<Rightarrow> uint64" where
  "uint64_saturating_mul self other = Uint64 (saturating_mul (u64 self) (u64 other))"

definition uint64_saturating_pow :: "uint64 \<Rightarrow> u32 \<Rightarrow> uint64" where
  "uint64_saturating_pow self other = Uint64 (saturating_pow (u64 self) other)"

definition uint64_from_u32 :: "u32 \<Rightarrow> uint64" where
  "uint64_from_u32 val = Uint64 (ucast val)"

definition uint64_from_u16 :: "u16 \<Rightarrow> uint64" where
  "uint64_from_u16 val = Uint64 (ucast val)"

definition uint64_from_u8 :: "u8 \<Rightarrow> uint64" where
  "uint64_from_u8 val = Uint64 (ucast val)"

definition uint64_try_from_str :: "string \<Rightarrow> uint64 std_result" where
  "uint64_try_from_str val =
     (case parse_word val of
        Inr u \<Rightarrow> Inr (Uint64 u)
      | Inl e \<Rightarrow> Inl (GenericErr (''Parsing u64: '' @ show_int_error e)))"

definition uint64_add :: "uint64 \<Rightarrow> uint64 \<Rightarrow> uint64 outcome" where
  "uint64_add self rhs = omap Uint64 (unwrap (checked_add (u64 self) (u64 rhs)))"

definition uint64_div :: "uint64 \<Rightarrow> uint64 \<Rightarrow> uint64 outcome" where
  "uint64_div self rhs = omap Uint64 (unwrap (checked_div (u64 self) (u64 rhs)))"

definition uint64_rem :: "uint64 \<Rightarrow> uint64 \<Rightarrow> uint64 outcome" where
  "uint64_rem self rhs =
     omap Uint64 (expect ''attempt to calculate the remainder with a divisor of zero''
       (checked_rem (u64 self) (u64 rhs)))"

definition uint64_shr :: "uint64 \<Rightarrow> u32 \<Rightarrow> uint64 outcome" where
  "uint64_shr self rhs = omap Uint64 (unwrap (checked_shr (u64 self) rhs))"

definition uint64_add_assign :: "uint64 \<Rightarrow> uint64 \<Rightarrow> uint64 outcome" where
  "uint64_add_assign self rhs = omap Uint64 (unwrap (checked_add (u64 self) (u64 rhs)))"

definition uint64_div_assign :: "uint64 \<Rightarrow> uint64 \<Rightarrow> uint64 outcome" where
  "uint64_div_assign self rhs = omap Uint64 (unwrap (checked_div (u64 self) (u64 rhs)))"

definition uint64_shr_assign :: "uint64 \<Rightarrow> u32 \<Rightarrow> uint64 outcome" where
  "uint64_shr_assign self rhs = omap Uint64 (unwrap (checked_shr (u64 self) rhs))"

definition uint64_visit_str :: "string \<Rightarrow> (string, uint64) result" where
  "uint64_visit_str v =
     (case parse_word v of
        Inr u \<Rightarrow> Inr (Uint64 u)
      | Inl e \<Rightarrow> Inl (''invalid Uint64 '' @ [CHR 0x27] @ v @ [CHR 0x27] @ '' - '' @ show_int_error e))"

definition uint64_sum :: "uint64 list \<Rightarrow> uint64 outcome" where
  "uint64_sum xs = foldl (\<lambda>acc x. obind acc (\<lambda>a. uint64_add a x)) (Done uint64_zero) xs"

section \<open>Uint128\<close>

datatype uint128 = Uint128 (u128: "128 word")

abbreviation val128 :: "uint128 \<Rightarrow> nat" where
  "val128 x \<equiv> unat (u128 x)"

definition uint128_MAX :: "uint128" where
  "uint128_MAX = Uint128 (- 1)"

definition uint128_new :: "128 word \<Rightarrow> uint128" where
  "uint128_new value = Uint128 value"

definition uint128_zero :: "uint128" where
  "uint128_zero = Uint128 0"

definition uint128_to_be_bytes :: "uint128 \<Rightarrow> bytes" where
  "uint128_to_be_bytes self = to_be_bytes (u128 self)"

definition uint128_to_le_bytes :: "uint128 \<Rightarrow> bytes" where
  "uint128_to_le_bytes self = to_le_bytes (u128 self)"

definition uint128_is_zero :: "uint128 \<Rightarrow> bool" where
  "uint128_is_zero self \<longleftrightarrow> u128 self = 0"

definition uint128_to_string :: "uint128 \<Rightarrow> string" where
  "uint128_to_string self = to_string (u128 self)"

definition uint128_checked_add :: "uint128 \<Rightarrow> uint128 \<Rightarrow> (overflow_error, uint128) result" where
  "uint128_checked_add self other =
     ok_or (overflow_error_new OpAdd (uint128_to_string self) (uint128_to_string other))
       (map_option Uint128 (checked_add (u128 self) (u128 other)))"

definition uint128_checked_sub :: "uint128 \<Rightarrow> uint128 \<Rightarrow> (overflow_error, uint128) result" where
  "uint128_checked_sub self other =
     ok_or (overflow_error_new OpSub (uint128_to_string self) (uint128_to_string other))
       (map_option Uint128 (checked_sub (u128 self) (u128 other)))"

definition uint128_checked_mul :: "uint128 \<Rightarrow> uint128 \<Rightarrow> (overflow_error, uint128) result" where
  "uint128_checked_mul self other =
     ok_or (overflow_error_new OpMul (uint128_to_string self) (uint128_to_string other))
       (map_option Uint128 (checked_mul (u128 self) (u128 other)))"

definition uint128_checked_pow :: "uint128 \<Rightarrow> u32 \<Rightarrow> (overflow_error, uint128) result" where
  "uint128_checked_pow self exp =
     ok_or (overflow_error_new OpPow (uint128_to_string self) (to_string exp))
       (map_option Uint128 (checked_pow (u128 self) exp))"

definition uint128_checked_div :: "uint128 \<Rightarrow> uint128 \<Rightarrow> (divide_by_zero_error, uint128) result" where
  "uint128_checked_div self other =
     ok_or (divide_by_zero_error_new (uint128_to_string self)) (map_option Uint128 (checked_div (u128 self) (u128 other)))"

definition uint128_checked_div_euclid :: "uint128 \<Rightarrow> uint128 \<Rightarrow> (divide_by_zero_error, uint128) result" where
  "uint128_checked_div_euclid self other =
     ok_or (divide_by_zero_error_new (uint128_to_string self)) (map_option Uint128 (checked_div (u128 self) (u128 other)))"

definition uint128_checked_rem :: "uint128 \<Rightarrow> uint128 \<Rightarrow> (divide_by_zero_error, uint128) result" where
  "uint128_checked_rem self other =
     ok_or (divide_by_zero_error_new (uint128_to_string self)) (map_option Uint128 (checked_rem (u128 self) (u128 other)))"

definition uint128_wrapping_add :: "uint128 \<Rightarrow> uint128 \<Rightarrow> uint128" where
  "uint128_wrapping_add self other = Uint128 (u128 self + u128 other)"

definition uint128_wrapping_sub :: "uint128 \<Rightarrow> uint128 \<Rightarrow> uint128" where
  "uint128_wrapping_sub self other = Uint128 (u128 self - u128 other)"

definition uint128_wrapping_mul :: "uint128 \<Rightarrow> uint128 \<Rightarrow> uint128" where
  "uint128_wrapping_mul self other = Uint128 (u128 self * u128 other)"

definition uint128_wrapping_pow :: "uint128 \<Rightarrow> u32 \<Rightarrow> uint128" where
  "uint128_wrapping_pow self other = Uint128 (wrapping_pow (u128 self) other)"

definition uint128_saturating_add :: "uint128 \<Rightarrow> uint128 \<Rightarrow> uint128" where
  "uint128_saturating_add self other = Uint128 (saturating_add (u128 self) (u128 other))"

definition uint128_saturating_sub :: "uint128 \<Rightarrow> uint128 \<Rightarrow> uint128" where
  "uint128_saturating_sub self other = Uint128 (saturating_sub (u128 self) (u128 other))"

definition uint128_saturating_mul :: "uint128 \<Rightarrow> uint128 \<Rightarrow> uint128" where
  "uint128_saturating_mul self other = Uint128 (saturating_mul (u128 self) (u128 other))"

definition uint128_saturating_pow :: "uint128 \<Rightarrow> u32 \<Rightarrow> uint128" where
  "uint128_saturating_pow self other = Uint128 (saturating_pow (u128 self) other)"

definition uint128_from_uint64 :: "uint64 \<Rightarrow> uint128" where
  "uint128_from_uint64 val = Uint128 (ucast (u64 val))"

definition uint128_from_u128 :: "u128 \<Rightarrow> uint128" where
  "uint128_from_u128 val = Uint128 val"

definition uint128_from_u64 :: "u64 \<Rightarrow> uint128" where
  "uint128_from_u64 val = Uint128 (ucast val)"

definition uint128_from_u32 :: "u32 \<Rightarrow> uint128" where
  "uint128_from_u32 val = Uint128 (ucast val)"

definition uint128_from_u16 :: "u16 \<Rightarrow> uint128" where
  "uint128_from_u16 val = Uint128 (ucast val)"

definition uint128_from_u8 :: "u8 \<Rightarrow> uint128" where
  "uint128_from_u8 val = Uint128 (ucast val)"

definition uint64_try_from_uint128 :: "uint128 \<Rightarrow> (conversion_overflow_error, uint64) result" where
  "uint64_try_from_uint128 value =
     map_ok Uint64 (ok_or (conversion_overflow_error_new ''Uint128'' ''Uint64'' (uint128_to_string value))
       (try_into_word (u128 value)))"

definition uint128_from_str :: "string \<Rightarrow> uint128 std_result" where
  "uint128_from_str val =
     (case parse_word val of
        Inr u \<Rightarrow> Inr (Uint128 u)
      | Inl e \<Rightarrow> Inl (GenericErr (''Parsing u128: '' @ show_int_error e)))"

definition uint128_add :: "uint128 \<Rightarrow> uint128 \<Rightarrow> uint128 outcome" where
  "uint128_add self rhs =
     omap Uint128 (expect ''attempt to add with overflow'' (checked_add (u128 self) (u128 rhs)))"

definition uint128_sub :: "uint128 \<Rightarrow> uint128 \<Rightarrow> uint128 outcome" where
  "uint128_sub self rhs =
     omap Uint128 (expect ''attempt to subtract with overflow'' (checked_sub (u128 self) (u128 rhs)))"

definition uint128_mul :: "uint128 \<Rightarrow> uint128 \<Rightarrow> uint128 outcome" where
  "uint128_mul self rhs =
     omap Uint128 (expect ''attempt to multiply with overflow'' (checked_mul (u128 self) (u128 rhs)))"

definition uint128_div :: "uint128 \<Rightarrow> uint128 \<Rightarrow> uint128 outcome" where
  "uint128_div self rhs =
     omap Uint128 (expect ''attempt to divide by zero'' (checked_div (u128 self) (u128 rhs)))"

definition uint128_shr :: "uint128 \<Rightarrow> u32 \<Rightarrow> uint128 outcome" where
  "uint128_shr self rhs =
     omap Uint128 (expect ''attempt to shift right with overflow'' (checked_shr (u128 self) rhs))"

definition uint128_add_assign :: "uint128 \<Rightarrow> uint128 \<Rightarrow> uint128 outcome" where
  "uint128_add_assign self rhs = uint128_add self rhs"

definition uint128_sub_assign :: "uint128 \<Rightarrow> uint128 \<Rightarrow> uint128 outcome" where
  "uint128_sub_assign self rhs = uint128_sub self rhs"

definition uint128_mul_assign :: "uint128 \<Rightarrow> uint128 \<Rightarrow> uint128 outcome" where
  "uint128_mul_assign self rhs = uint128_mul self rhs"

definition uint128_div_assign :: "uint128 \<Rightarrow> uint128 \<Rightarrow> uint128 outcome" where
  "uint128_div_assign self rhs = uint128_div self rhs"

definition uint128_rem :: "uint128 \<Rightarrow> uint128 \<Rightarrow> uint128 outcome" where
  "uint128_rem self rhs =
     omap Uint128 (expect ''attempt to calculate the remainder with a divisor of zero''
       (checked_rem (u128 self) (u128 rhs)))"

definition uint128_shr_assign :: "uint128 \<Rightarrow> u32 \<Rightarrow> uint128 outcome" where
  "uint128_shr_assign self rhs = uint128_shr self rhs"

definition uint128_visit_str :: "string \<Rightarrow> (string, uint128) result" where
  "uint128_visit_str v =
     (case parse_word v of
        Inr u \<Rightarrow> Inr (Uint128 u)
      | Inl e \<Rightarrow> Inl (''invalid Uint128 '' @ [CHR 0x27] @ v @ [CHR 0x27] @ '' - '' @ show_int_error e))"

definition uint128_sum :: "uint128 list \<Rightarrow> uint128 outcome" where
  "uint128_sum xs = foldl (\<lambda>acc x. obind acc (\<lambda>a. uint128_add a x)) (Done uint128_zero) xs"

section \<open>Uint64 products through Uint128\<close>

definition uint64_full_mul :: "uint64 \<Rightarrow> u64 \<Rightarrow> uint128 outcome" where
  "uint64_full_mul self rhs =
     unwrap_ok (uint128_checked_mul (uint128_from_u64 (u64 self)) (uint128_from_u64 rhs))"

definition uint64_multiply_ratio :: "uint64 \<Rightarrow> u64 \<Rightarrow> u64 \<Rightarrow> uint64 outcome" where
  "uint64_multiply_ratio self numerator denominator =
     (if denominator = 0 then Panic ''Denominator must not be zero''
      else obind (uint64_full_mul self numerator) (\<lambda>product.
           obind (uint128_div product (uint128_from_u64 denominator)) (\<lambda>quotient.
           expect_ok ''multiplication overflow'' (uint64_try_from_uint128 quotient))))"

instantiation uint64 :: linorder
begin

definition less_eq_uint64 :: "uint64 \<Rightarrow> uint64 \<Rightarrow> bool" where
  "a \<le> b \<longleftrightarrow> u64 a \<le> u64 b"

definition less_uint64 :: "uint64 \<Rightarrow> uint64 \<Rightarrow> bool" where
  "a < b \<longleftrightarrow> u64 a < u64 b"

instance
  by standard (auto simp: less_eq_uint64_def less_uint64_def intro: uint64.expand)

end

instantiation uint128 :: linorder
begin

definition less_eq_uint128 :: "uint128 \<Rightarrow> uint128 \<Rightarrow> bool" where
  "a \<le> b \<longleftrightarrow> u128 a \<le> u128 b"

definition less_uint128 :: "uint128 \<Rightarrow> uint128 \<Rightarrow> bool" where
  "a < b \<longleftrightarrow> u128 a < u128 b"

instance
  by standard (auto simp: less_eq_uint128_def less_uint128_def intro: uint128.expand)

end
section \<open>Facts about both types\<close>

lemma val64_lt: "val64 x < 2 ^ 64"
  using unat_lt [of "u64 x"] by simp

lemma val128_lt: "val128 x < 2 ^ 128"
  using unat_lt [of "u128 x"] by simp

lemma uint64_eq_iff: "a = b \<longleftrightarrow> val64 a = val64 b"
  by (cases a; cases b) (simp add: word_unat_eq_iff)

lemma uint128_eq_iff: "a = b \<longleftrightarrow> val128 a = val128 b"
  by (cases a; cases b) (simp add: word_unat_eq_iff)

lemma uint64_le_iff: "a \<le> b \<longleftrightarrow> val64 a \<le> val64 b" "a < b \<longleftrightarrow> val64 a < val64 b"
  by (simp_all add: less_eq_uint64_def less_uint64_def word_le_nat_alt word_less_nat_alt)

lemma uint128_le_iff: "a \<le> b \<longleftrightarrow> val128 a \<le> val128 b" "a < b \<longleftrightarrow> val128 a < val128 b"
  by (simp_all add: less_eq_uint128_def less_uint128_def word_le_nat_alt word_less_nat_alt)

lemma map_option_Uint64_iff: "map_option Uint64 x = Some c \<longleftrightarrow> x = Some (u64 c)"
  by (cases x; cases c) auto

lemma map_option_Uint128_iff: "map_option Uint128 x = Some c \<longleftrightarrow> x = Some (u128 c)"
  by (cases x; cases c) auto

lemma omap_Uint64_iff: "omap Uint64 x = Done c \<longleftrightarrow> x = Done (u64 c)"
  by (cases x; cases c) auto

lemma omap_Uint128_iff: "omap Uint128 x = Done c \<longleftrightarrow> x = Done (u128 c)"
  by (cases x; cases c) auto

lemmas newtype_iff =
  map_option_Uint64_iff map_option_Uint128_iff omap_Uint64_iff omap_Uint128_iff
  unwrap_eq_Done_iff unwrap_ok_eq_Done_iff ok_or_eq_Ok_iff expect_eq_Done_iff expect_ok_eq_Done_iff

text \<open>The value of a successful operation is the exact value.\<close>

lemma uint64_checked_iff:
  "uint64_checked_add a b = Inr c \<longleftrightarrow> val64 c = val64 a + val64 b"
  "uint64_checked_sub a b = Inr c \<longleftrightarrow> val64 b \<le> val64 a \<and> val64 c = val64 a - val64 b"
  "uint64_checked_mul a b = Inr c \<longleftrightarrow> val64 c = val64 a * val64 b"
  "uint64_checked_div a b = Inr c \<longleftrightarrow> val64 b \<noteq> 0 \<and> val64 c = val64 a div val64 b"
  "uint64_checked_div_euclid a b = Inr c \<longleftrightarrow> val64 b \<noteq> 0 \<and> val64 c = val64 a div val64 b"
  "uint64_checked_rem a b = Inr c \<longleftrightarrow> val64 b \<noteq> 0 \<and> val64 c = val64 a mod val64 b"
  by (simp_all add: uint64_checked_add_def uint64_checked_sub_def uint64_checked_mul_def
      uint64_checked_div_def uint64_checked_div_euclid_def uint64_checked_rem_def
      newtype_iff checked_Some_iff del: map_option_eq_Some)

lemma uint64_op_iff:
  "uint64_add a b = Done c \<longleftrightarrow> val64 c = val64 a + val64 b"
  "uint64_div a b = Done c \<longleftrightarrow> val64 b \<noteq> 0 \<and> val64 c = val64 a div val64 b"
  "uint64_rem a b = Done c \<longleftrightarrow> val64 b \<noteq> 0 \<and> val64 c = val64 a mod val64 b"
  "uint64_shr a n = Done c \<longleftrightarrow> unat n < 64 \<and> val64 c = val64 a div 2 ^ unat n"
  by (simp_all add: uint64_add_def uint64_div_def uint64_rem_def uint64_shr_def
      newtype_iff checked_Some_iff del: map_option_eq_Some)

lemma uint128_checked_iff:
  "uint128_checked_add a b = Inr c \<longleftrightarrow> val128 c = val128 a + val128 b"
  "uint128_checked_sub a b = Inr c \<longleftrightarrow> val128 b \<le> val128 a \<and> val128 c = val128 a - val128 b"
  "uint128_checked_mul a b = Inr c \<longleftrightarrow> val128 c = val128 a * val128 b"
  "uint128_checked_pow a e = Inr c \<longleftrightarrow> val128 c = val128 a ^ unat e"
  "uint128_checked_div a b = Inr c \<longleftrightarrow> val128 b \<noteq> 0 \<and> val128 c = val128 a div val128 b"
  "uint128_checked_div_euclid a b = Inr c \<longleftrightarrow> val128 b \<noteq> 0 \<and> val128 c = val128 a div val128 b"
  "uint128_checked_rem a b = Inr c \<longleftrightarrow> val128 b \<noteq> 0 \<and> val128 c = val128 a mod val128 b"
  by (simp_all add: uint128_checked_add_def uint128_checked_sub_def uint128_checked_mul_def
      uint128_checked_pow_def uint128_checked_div_def uint128_checked_div_euclid_def
      uint128_checked_rem_def newtype_iff checked_Some_iff del: map_option_eq_Some)

lemma uint128_op_iff:
  "uint128_add a b = Done c \<longleftrightarrow> val128 c = val128 a + val128 b"
  "uint128_sub a b = Done c \<longleftrightarrow> val128 b \<le> val128 a \<and> val128 c = val128 a - val128 b"
  "uint128_mul a b = Done c \<longleftrightarrow> val128 c = val128 a * val128 b"
  "uint128_div a b = Done c \<longleftrightarrow> val128 b \<noteq> 0 \<and> val128 c = val128 a div val128 b"
  "uint128_rem a b = Done c \<longleftrightarrow> val128 b \<noteq> 0 \<and> val128 c = val128 a mod val128 b"
  "uint128_shr a n = Done c \<longleftrightarrow> unat n < 128 \<and> val128 c = val128 a div 2 ^ unat n"
  by (simp_all add: uint128_add_def uint128_sub_def uint128_mul_def uint128_div_def uint128_rem_def
      uint128_shr_def newtype_iff checked_Some_iff del: map_option_eq_Some)

end
