(* ===== verification/Isqrt.thy ===== *)
theory Isqrt
  imports Uint64_128
begin

text \<open>
  The generic integer square root of \<open>packages/std/src/math/isqrt.rs\<close>. The Rust function is
  generic over the operators of its integer type, so the model takes them as a record; the loop
  is a partial function, since for arbitrary operators nothing says that it ends. The locale
  \<open>unsigned_int\<close> states what the operators of an unsigned integer type promise; in it the
  loop is shown to end, never to panic, and to compute the integer square root.
\<close>

section \<open>The algorithm\<close>

record 'i unsigned_ops =
  u_add :: "'i \<Rightarrow> 'i \<Rightarrow> 'i outcome"
  u_div :: "'i \<Rightarrow> 'i \<Rightarrow> 'i outcome"
  u_shr :: "'i \<Rightarrow> u32 \<Rightarrow> 'i outcome"
  u_less :: "'i \<Rightarrow> 'i \<Rightarrow> bool"
  u_from_u8 :: "u8 \<Rightarrow> 'i"

text \<open>\<open>(x0 + self / x0) >> 1\<close>\<close>

definition isqrt_step :: "'i unsigned_ops \<Rightarrow> 'i \<Rightarrow> 'i \<Rightarrow> 'i outcome" where
  "isqrt_step U self x0 =
     obind (u_div U self x0) (\<lambda>q. obind (u_add U x0 q) (\<lambda>s. u_shr U s 1))"

partial_function (option) isqrt_loop :: "'i unsigned_ops \<Rightarrow> 'i \<Rightarrow> 'i \<Rightarrow> 'i \<Rightarrow> 'i outcome option"
where
  "isqrt_loop U self x0 x1 =
     (if u_less U x1 x0
      then (case isqrt_step U self x1 of
              Panic m \<Rightarrow> Some (Panic m)
            | Done x1' \<Rightarrow> isqrt_loop U self x1 x1')
      else Some (Done x0))"

definition isqrt :: "'i unsigned_ops \<Rightarrow> 'i \<Rightarrow> 'i outcome option" where
  "isqrt U self =
     (case u_shr U self 1 of
        Panic m \<Rightarrow> Some (Panic m)
      | Done x0 \<Rightarrow>
          if u_less U (u_from_u8 U 0) x0
          then (case isqrt_step U self x0 of
                  Panic m \<Rightarrow> Some (Panic m)
                | Done x1 \<Rightarrow> isqrt_loop U self x0 x1)
          else Some (Done self))"

section \<open>Newton iteration on the natural numbers\<close>

lemma newton_step_upper:
  fixes n x :: nat
  assumes "0 < x"
  shows "n < ((x + n div x) div 2 + 1)\<^sup>2"
proof -
  define q where "q = n div x + 1"
  define y where "y = (x + n div x) div 2 + 1"
  have "n < x * q"
    using assms dividend_less_times_div [of x n] by (simp add: q_def)
  moreover have "x + q \<le> 2 * y" by (simp add: q_def y_def)
  then have "(x + q) * (x + q) \<le> (2 * y) * (2 * y)" by (intro mult_mono) auto
  moreover have "4 * (x * q) \<le> (x + q) * (x + q)"
  proof -
    have "(0 :: int) \<le> (int x - int q)\<^sup>2" by simp
    then have "int (4 * (x * q)) \<le> int ((x + q) * (x + q))"
      by (simp add: power2_eq_square algebra_simps)
    then show ?thesis by (simp only: of_nat_le_iff)
  qed
  ultimately have "n < y * y" by (simp add: algebra_simps)
  then show ?thesis by (simp add: y_def power2_eq_square)
qed

lemma newton_exit:
  fixes n x :: nat
  assumes "0 < x" "x \<le> (x + n div x) div 2"
  shows "x\<^sup>2 \<le> n"
proof -
  have "x \<le> n div x" using assms(2) by linarith
  then have "x * x \<le> x * (n div x)" by (rule mult_le_mono2)
  also have "\<dots> \<le> n" by simp
  finally show ?thesis by (simp add: power2_eq_square)
qed

lemma newton_start: "2 \<le> n \<Longrightarrow> n < (n div 2 + 1)\<^sup>2" for n :: nat
proof (cases "4 \<le> n")
  case True
  then have "4 * n \<le> n * n" by simp
  also have "n * n < (2 * (n div 2 + 1)) * (2 * (n div 2 + 1))"
    by (intro mult_strict_mono) auto
  finally show ?thesis by (simp add: power2_eq_square)
next
  case False
  moreover assume "2 \<le> n"
  ultimately have "n = 2 \<or> n = 3" by auto
  then show ?thesis by (auto simp: power2_eq_square)
qed

lemma newton_sum_bound:
  fixes n x :: nat
  assumes "0 < x" "x \<le> n div 2" "n < (x + 1)\<^sup>2"
  shows "x + n div x \<le> max n 4"
proof (cases "x = 1")
  case True
  with assms(3) show ?thesis by (simp add: power2_eq_square)
next
  case False
  with assms(1) have "2 \<le> x" by simp
  then have "n div x \<le> n div 2" by (rule div_le_mono2 [rotated]) simp
  with assms(2) show ?thesis by linarith
qed

section \<open>What an unsigned integer type promises\<close>

locale unsigned_int =
  fixes U :: "'i unsigned_ops" and val :: "'i \<Rightarrow> nat" and bits :: nat
  assumes val_less: "val a < 2 ^ bits"
    and add_ok: "val a + val b < 2 ^ bits \<Longrightarrow> \<exists>c. u_add U a b = Done c \<and> val c = val a + val b"
    and div_ok: "val b \<noteq> 0 \<Longrightarrow> \<exists>c. u_div U a b = Done c \<and> val c = val a div val b"
    and shr_ok: "unat n < bits \<Longrightarrow> \<exists>c. u_shr U a n = Done c \<and> val c = val a div 2 ^ unat n"
    and less_iff: "u_less U a b \<longleftrightarrow> val a < val b"
    and from_u8: "val (u_from_u8 U k) = unat k"
    and bits_ge: "3 \<le> bits"
begin

lemma four_less: "4 < (2 :: nat) ^ bits"
  using power_increasing [OF bits_ge, of "2 :: nat"] by simp

lemma step_ok:
  assumes "0 < val x" "val x \<le> val n div 2" "val n < (val x + 1)\<^sup>2"
  shows "\<exists>y. isqrt_step U n x = Done y \<and> val y = (val x + val n div val x) div 2"
proof -
  obtain q where q: "u_div U n x = Done q" "val q = val n div val x"
    using div_ok [of x n] assms(1) by auto
  have "val x + val q < 2 ^ bits"
    using newton_sum_bound [OF assms] val_less [of n] four_less q(2) by simp
  then obtain s where s: "u_add U x q = Done s" "val s = val x + val q"
    using add_ok by blast
  obtain y where "u_shr U s 1 = Done y" "val y = val s div 2"
    using shr_ok [of 1 s] bits_ge by auto
  with q s show ?thesis by (simp add: isqrt_step_def)
qed

lemma loop_ok:
  assumes "0 < val x0" "val x0 \<le> val n div 2" "val n < (val x0 + 1)\<^sup>2"
    and "val x1 = (val x0 + val n div val x0) div 2"
  shows "\<exists>r. isqrt_loop U n x0 x1 = Some (Done r) \<and> (val r)\<^sup>2 \<le> val n \<and> val n < (val r + 1)\<^sup>2"
  using assms
proof (induction "val x0" arbitrary: x0 x1 rule: less_induct)
  case less
  show ?case
  proof (cases "val x1 < val x0")
    case True
    have upper: "val n < (val x1 + 1)\<^sup>2"
      using newton_step_upper [OF less.prems(1), of "val n"] less.prems(4) by simp
    moreover have "2 \<le> val n" using less.prems(1,2) by linarith
    ultimately have pos: "0 < val x1" by (cases "val x1") (auto simp: power2_eq_square)
    have le: "val x1 \<le> val n div 2" using True less.prems(2) by simp
    obtain y where y: "isqrt_step U n x1 = Done y" "val y = (val x1 + val n div val x1) div 2"
      using step_ok [OF pos le upper] by blast
    from less.hyps [OF True pos le upper y(2)] show ?thesis
      using True y(1) by (simp add: isqrt_loop.simps [of U n x0 x1] less_iff)
  next
    case False
    then have "(val x0)\<^sup>2 \<le> val n" using newton_exit less.prems(1,4) by simp
    with False less.prems(3) show ?thesis
      by (simp add: isqrt_loop.simps [of U n x0 x1] less_iff)
  qed
qed

lemma isqrt_ok:
  "\<exists>r. isqrt U n = Some (Done r) \<and> (val r)\<^sup>2 \<le> val n \<and> val n < (val r + 1)\<^sup>2"
proof -
  obtain x0 where x0: "u_shr U n 1 = Done x0" "val x0 = val n div 2"
    using shr_ok [of 1 n] bits_ge by auto
  show ?thesis
  proof (cases "0 < val x0")
    case True
    then have "2 \<le> val n" using x0(2) by linarith
    then have upper: "val n < (val x0 + 1)\<^sup>2" using newton_start x0(2) by simp
    then obtain x1 where x1: "isqrt_step U n x0 = Done x1"
      "val x1 = (val x0 + val n div val x0) div 2"
      using step_ok [OF True] x0(2) by auto
    from loop_ok [OF True _ upper x1(2)] show ?thesis
      using True x0 x1(1) by (simp add: isqrt_def less_iff from_u8)
  next
    case False
    then have "val n = 0 \<or> val n = 1" using x0(2) by linarith
    then show ?thesis
      using False x0 by (auto simp: isqrt_def less_iff from_u8 power2_eq_square)
  qed
qed

end

section \<open>The wrappers as unsigned integer types\<close>

definition uint64_unsigned :: "uint64 unsigned_ops" where
  "uint64_unsigned = \<lparr>u_add = uint64_add, u_div = uint64_div, u_shr = uint64_shr,
     u_less = (<), u_from_u8 = uint64_from_u8\<rparr>"

definition uint128_unsigned :: "uint128 unsigned_ops" where
  "uint128_unsigned = \<lparr>u_add = uint128_add, u_div = uint128_div, u_shr = uint128_shr,
     u_less = (<), u_from_u8 = uint128_from_u8\<rparr>"

lemma ex_val64: "n < 2 ^ 64 \<Longrightarrow> \<exists>c. val64 c = n"
  by (rule exI [of _ "Uint64 (word_of_nat n)"]) (simp add: unat_of_nat)

lemma ex_val128: "n < 2 ^ 128 \<Longrightarrow> \<exists>c. val128 c = n"
  by (rule exI [of _ "Uint128 (word_of_nat n)"]) (simp add: unat_of_nat)

interpretation uint64_int: unsigned_int uint64_unsigned val64 64
proof
  fix a b :: uint64 and n :: u32 and k :: u8
  show "val64 a < 2 ^ 64" by (rule val64_lt)
  show "val64 a + val64 b < 2 ^ 64 \<Longrightarrow>
      \<exists>c. u_add uint64_unsigned a b = Done c \<and> val64 c = val64 a + val64 b"
    by (simp add: uint64_unsigned_def uint64_op_iff ex_val64)
  have "val64 a div m < 2 ^ 64" for m
    using div_le_dividend [of "val64 a" m] val64_lt [of a] by (rule le_less_trans)
  then show "val64 b \<noteq> 0 \<Longrightarrow> \<exists>c. u_div uint64_unsigned a b = Done c \<and> val64 c = val64 a div val64 b"
    "unat n < 64 \<Longrightarrow> \<exists>c. u_shr uint64_unsigned a n = Done c \<and> val64 c = val64 a div 2 ^ unat n"
    by (simp_all add: uint64_unsigned_def uint64_op_iff ex_val64)
  show "u_less uint64_unsigned a b \<longleftrightarrow> val64 a < val64 b"
    by (simp add: uint64_unsigned_def uint64_le_iff)
  show "val64 (u_from_u8 uint64_unsigned k) = unat k"
    by (simp add: uint64_unsigned_def uint64_from_u8_def unat_ucast_widen)
qed simp

interpretation uint128_int: unsigned_int uint128_unsigned val128 128
proof
  fix a b :: uint128 and n :: u32 and k :: u8
  show "val128 a < 2 ^ 128" by (rule val128_lt)
  show "val128 a + val128 b < 2 ^ 128 \<Longrightarrow>
      \<exists>c. u_add uint128_unsigned a b = Done c \<and> val128 c = val128 a + val128 b"
    by (simp add: uint128_unsigned_def uint128_op_iff ex_val128)
  have "val128 a div m < 2 ^ 128" for m
    using div_le_dividend [of "val128 a" m] val128_lt [of a] by (rule le_less_trans)
  then show "val128 b \<noteq> 0 \<Longrightarrow> \<exists>c. u_div uint128_unsigned a b = Done c \<and> val128 c = val128 a div val128 b"
    "unat n < 128 \<Longrightarrow> \<exists>c. u_shr uint128_unsigned a n = Done c \<and> val128 c = val128 a div 2 ^ unat n"
    by (simp_all add: uint128_unsigned_def uint128_op_iff ex_val128)
  show "u_less uint128_unsigned a b \<longleftrightarrow> val128 a < val128 b"
    by (simp add: uint128_unsigned_def uint128_le_iff)
  show "val128 (u_from_u8 uint128_unsigned k) = unat k"
    by (simp add: uint128_unsigned_def uint128_from_u8_def unat_ucast_widen)
qed simp

end
