(* ===== verification/Wide_Uint.thy ===== *)
theory Wide_Uint
  imports Isqrt
begin

text \<open>
  The wide integers \<open>Uint256\<close> and \<open>Uint512\<close> of \<open>packages/std/src/math/uint256.rs\<close> and
  \<open>uint512.rs\<close>, and the products of Uint128 and Uint256 that go through them. Their inner
  types U256 and U512 are generated by the macro of the crate uint, which is not part of the
  repository. What the source shows of them is their representation, an array of 64-bit words with
  the least significant word first, and the names of the functions it calls; the model takes those
  functions as a record (\<open>uint_crate\<close>), and the locale \<open>uint_crate_laws\<close> states what the
  code relies on: that they compute exactly and report overflow.
\<close>

section \<open>Arrays of 64-bit words\<close>

primrec val_limbs :: "u64 list \<Rightarrow> nat" where
  "val_limbs [] = 0"
| "val_limbs (w # ws) = unat w + 2 ^ 64 * val_limbs ws"

primrec limbs_of :: "nat \<Rightarrow> nat \<Rightarrow> u64 list" where
  "limbs_of 0 n = []"
| "limbs_of (Suc k) n = word_of_nat n # limbs_of k (n div 2 ^ 64)"

lemma val_limbs_less: "val_limbs ws < 2 ^ (64 * length ws)"
proof (induction ws)
  case (Cons w ws)
  have "unat w < 2 ^ 64" using unat_lt [of w] by simp
  with Cons have "unat w + 2 ^ 64 * val_limbs ws < 2 ^ 64 * 2 ^ (64 * length ws)" by simp
  also have "\<dots> = 2 ^ (64 * length (w # ws))" by (simp add: power_add)
  finally show ?case by simp
qed simp

lemma val_limbs_inj: "length ws = length vs \<Longrightarrow> val_limbs ws = val_limbs vs \<Longrightarrow> ws = vs"
proof (induction ws vs rule: list_induct2)
  case (Cons w ws v vs)
  have less: "unat w < 2 ^ 64" "unat v < 2 ^ 64" using unat_lt [of w] unat_lt [of v] by simp_all
  have eq: "unat w + 2 ^ 64 * val_limbs ws = unat v + 2 ^ 64 * val_limbs vs"
    using Cons.prems by simp
  have "(unat w + 2 ^ 64 * val_limbs ws) mod 2 ^ 64 = (unat v + 2 ^ 64 * val_limbs vs) mod 2 ^ 64"
    by (simp only: eq)
  then have "unat w = unat v" using less by (simp del: power_numeral)
  with eq have "val_limbs ws = val_limbs vs" by simp
  with Cons.IH \<open>unat w = unat v\<close> show ?case by (simp add: word_unat_eq_iff)
qed simp

lemma length_limbs_of [simp]: "length (limbs_of k n) = k"
  by (induction k arbitrary: n) auto

lemma val_limbs_of: "n < 2 ^ (64 * k) \<Longrightarrow> val_limbs (limbs_of k n) = n"
proof (induction k arbitrary: n)
  case (Suc k)
  then have "n < 2 ^ (64 * k) * 2 ^ 64" by (simp add: power_add mult.commute)
  then have "n div 2 ^ 64 < 2 ^ (64 * k)" by (simp add: less_mult_imp_div_less)
  with Suc.IH have "val_limbs (limbs_of k (n div 2 ^ 64)) = n div 2 ^ 64" by blast
  then show ?case by (simp add: unat_of_nat)
qed simp

lemma val_limbs_bytes: "val_limbs ws = nat_of_le (concat (map to_le_bytes ws))"
  by (induction ws) (simp_all add: nat_of_le_append nat_of_le_to_le_bytes)

text \<open>The bytes \<open>data[i], \<dots>, data[i + 7]\<close> as they are listed in the constructors.\<close>

definition le_limb :: "bytes \<Rightarrow> nat \<Rightarrow> u64" where
  "le_limb data i = from_le_bytes (map (\<lambda>k. data ! k) [i..<i + 8])"

definition be_limb :: "bytes \<Rightarrow> nat \<Rightarrow> u64" where
  "be_limb data i = from_le_bytes (map (\<lambda>k. data ! k) (rev [i..<i + 8]))"

lemma map_nth_slice: "j \<le> length xs \<Longrightarrow> map (\<lambda>k. xs ! k) [i..<j] = drop i (take j xs)"
  by (rule nth_equalityI) auto

lemma to_le_bytes_le_limb: "i + 8 \<le> length data \<Longrightarrow> to_le_bytes (le_limb data i) = take 8 (drop i data)"
  by (simp add: le_limb_def to_from_le_bytes map_nth_slice take_drop add.commute)

lemma be_limb_le_limb:
  assumes "i + 8 \<le> length data"
  shows "be_limb data i = le_limb (rev data) (length data - (i + 8))"
proof -
  have "map (\<lambda>k. data ! k) (rev [i..<i + 8]) = rev (drop i (take (i + 8) data))"
    using assms by (simp add: map_nth_slice flip: rev_map)
  also have "\<dots> = drop (length data - (i + 8)) (take (length data - i) (rev data))"
    using assms by (simp add: rev_drop rev_take min_absorb2 min_absorb1 drop_take)
  also have "\<dots> = map (\<lambda>k. rev data ! k) [length data - (i + 8)..<length data - (i + 8) + 8]"
    using assms by (subst map_nth_slice) auto
  finally show ?thesis by (simp add: be_limb_def le_limb_def)
qed

section \<open>The integers of the crate uint\<close>

datatype u256 = U256 u64 u64 u64 u64

datatype u512 = U512 u64 u64 u64 u64 u64 u64 u64 u64

fun val_u256 :: "u256 \<Rightarrow> nat" where
  "val_u256 (U256 w0 w1 w2 w3) = val_limbs [w0, w1, w2, w3]"

fun val_u512 :: "u512 \<Rightarrow> nat" where
  "val_u512 (U512 w0 w1 w2 w3 w4 w5 w6 w7) = val_limbs [w0, w1, w2, w3, w4, w5, w6, w7]"

text \<open>
  The functions of the crate that the source calls. An error of \<open>from_dec_str\<close> is the text
  its \<open>Display\<close> gives.
\<close>

record 'u uint_crate =
  uc_MAX :: 'u
  uc_zero :: 'u
  uc_is_zero :: "'u \<Rightarrow> bool"
  uc_less :: "'u \<Rightarrow> 'u \<Rightarrow> bool"
  uc_checked_add :: "'u \<Rightarrow> 'u \<Rightarrow> 'u option"
  uc_checked_sub :: "'u \<Rightarrow> 'u \<Rightarrow> 'u option"
  uc_checked_mul :: "'u \<Rightarrow> 'u \<Rightarrow> 'u option"
  uc_checked_div :: "'u \<Rightarrow> 'u \<Rightarrow> 'u option"
  uc_checked_rem :: "'u \<Rightarrow> 'u \<Rightarrow> 'u option"
  uc_checked_pow :: "'u \<Rightarrow> 'u \<Rightarrow> 'u option"
  uc_rem :: "'u \<Rightarrow> 'u \<Rightarrow> 'u outcome"
  uc_shr :: "'u \<Rightarrow> u32 \<Rightarrow> 'u"
  uc_shl :: "'u \<Rightarrow> u32 \<Rightarrow> 'u"
  uc_saturating_add :: "'u \<Rightarrow> 'u \<Rightarrow> 'u"
  uc_saturating_sub :: "'u \<Rightarrow> 'u \<Rightarrow> 'u"
  uc_saturating_mul :: "'u \<Rightarrow> 'u \<Rightarrow> 'u"
  uc_from_u128 :: "u128 \<Rightarrow> 'u"
  uc_from_u64 :: "u64 \<Rightarrow> 'u"
  uc_from_u32 :: "u32 \<Rightarrow> 'u"
  uc_from_u16 :: "u16 \<Rightarrow> 'u"
  uc_from_u8 :: "u8 \<Rightarrow> 'u"
  uc_try_into_u128 :: "'u \<Rightarrow> u128 option"
  uc_from_dec_str :: "string \<Rightarrow> (string, 'u) result"
  uc_to_string :: "'u \<Rightarrow> string"

text \<open>
  What the crate documents: the operations are those of the integers from 0 to the maximum,
  a checked operation returns nothing exactly when its result is outside that range, and decimal
  strings are read and written without loss. What \<open>from_dec_str\<close> does with an empty string
  is left open.
\<close>

locale limb_rep =
  fixes val :: "'u \<Rightarrow> nat" and bits :: nat
  assumes rep_less: "val a < 2 ^ bits"
    and rep_inj: "val a = val b \<Longrightarrow> a = b"
    and rep_surj: "n < 2 ^ bits \<Longrightarrow> \<exists>a. val a = n"

locale uint_crate_laws = limb_rep +
  fixes C :: "'u uint_crate"
  assumes val_MAX: "val (uc_MAX C) = 2 ^ bits - 1"
    and val_zero: "val (uc_zero C) = 0"
    and is_zero_iff: "uc_is_zero C a \<longleftrightarrow> val a = 0"
    and uc_less_iff: "uc_less C a b \<longleftrightarrow> val a < val b"
    and checked_add_iff: "uc_checked_add C a b = Some c \<longleftrightarrow> val c = val a + val b"
    and checked_sub_iff: "uc_checked_sub C a b = Some c \<longleftrightarrow> val b \<le> val a \<and> val c = val a - val b"
    and checked_mul_iff: "uc_checked_mul C a b = Some c \<longleftrightarrow> val c = val a * val b"
    and checked_div_iff: "uc_checked_div C a b = Some c \<longleftrightarrow> val b \<noteq> 0 \<and> val c = val a div val b"
    and checked_rem_iff: "uc_checked_rem C a b = Some c \<longleftrightarrow> val b \<noteq> 0 \<and> val c = val a mod val b"
    and checked_pow_iff: "uc_checked_pow C a b = Some c \<longleftrightarrow> val c = val a ^ val b"
    and rem_iff: "uc_rem C a b = Done c \<longleftrightarrow> val b \<noteq> 0 \<and> val c = val a mod val b"
    and val_shr: "unat n < bits \<Longrightarrow> val (uc_shr C a n) = val a div 2 ^ unat n"
    and val_shl: "unat n < bits \<Longrightarrow> val (uc_shl C a n) = val a * 2 ^ unat n mod 2 ^ bits"
    and val_saturating_add: "val (uc_saturating_add C a b) = min (val a + val b) (2 ^ bits - 1)"
    and val_saturating_sub: "val (uc_saturating_sub C a b) = val a - val b"
    and val_saturating_mul: "val (uc_saturating_mul C a b) = min (val a * val b) (2 ^ bits - 1)"
    and val_from_u128: "val (uc_from_u128 C n128) = unat n128"
    and val_from_u64: "val (uc_from_u64 C n64) = unat n64"
    and val_from_u32: "val (uc_from_u32 C n32) = unat n32"
    and val_from_u16: "val (uc_from_u16 C n16) = unat n16"
    and val_from_u8: "val (uc_from_u8 C n8) = unat n8"
    and try_into_u128_iff: "uc_try_into_u128 C a = Some n128 \<longleftrightarrow> unat n128 = val a"
    and from_dec_str_iff:
      "s \<noteq> [] \<Longrightarrow> uc_from_dec_str C s = Inr a \<longleftrightarrow> (\<forall>c \<in> set s. is_digit c) \<and> digits_val 0 s = val a"
    and to_string_eq: "uc_to_string C a = show_nat (val a)"

text \<open>The locale can be realised: exact arithmetic on the represented numbers.\<close>

definition exact_crate :: "(nat \<Rightarrow> 'u) \<Rightarrow> ('u \<Rightarrow> nat) \<Rightarrow> nat \<Rightarrow> 'u uint_crate" where
  "exact_crate mk val bits =
     (let fit = (\<lambda>n. if n < 2 ^ bits then Some (mk n) else None); sat = (\<lambda>n. mk (min n (2 ^ bits - 1)))
      in \<lparr>uc_MAX = mk (2 ^ bits - 1), uc_zero = mk 0,
          uc_is_zero = (\<lambda>a. val a = 0), uc_less = (\<lambda>a b. val a < val b),
          uc_checked_add = (\<lambda>a b. fit (val a + val b)),
          uc_checked_sub = (\<lambda>a b. if val b \<le> val a then Some (mk (val a - val b)) else None),
          uc_checked_mul = (\<lambda>a b. fit (val a * val b)),
          uc_checked_div = (\<lambda>a b. if val b = 0 then None else Some (mk (val a div val b))),
          uc_checked_rem = (\<lambda>a b. if val b = 0 then None else Some (mk (val a mod val b))),
          uc_checked_pow = (\<lambda>a b. fit (val a ^ val b)),
          uc_rem = (\<lambda>a b. if val b = 0 then Panic ''division by zero'' else Done (mk (val a mod val b))),
          uc_shr = (\<lambda>a n. mk (val a div 2 ^ unat n)),
          uc_shl = (\<lambda>a n. mk (val a * 2 ^ unat n mod 2 ^ bits)),
          uc_saturating_add = (\<lambda>a b. sat (val a + val b)),
          uc_saturating_sub = (\<lambda>a b. mk (val a - val b)),
          uc_saturating_mul = (\<lambda>a b. sat (val a * val b)),
          uc_from_u128 = (\<lambda>n. mk (unat n)), uc_from_u64 = (\<lambda>n. mk (unat n)),
          uc_from_u32 = (\<lambda>n. mk (unat n)), uc_from_u16 = (\<lambda>n. mk (unat n)),
          uc_from_u8 = (\<lambda>n. mk (unat n)),
          uc_try_into_u128 = (\<lambda>a. if val a < 2 ^ 128 then Some (word_of_nat (val a)) else None),
          uc_from_dec_str = (\<lambda>s. if (\<forall>c \<in> set s. is_digit c)
             then (if digits_val 0 s < 2 ^ bits then Inr (mk (digits_val 0 s)) else Inl ''Arithmetic overflow'')
             else Inl ''Invalid character''),
          uc_to_string = (\<lambda>a. show_nat (val a))\<rparr>)"

lemma exact_crate_laws:
  assumes mk: "\<And>n. n < 2 ^ bits \<Longrightarrow> val (mk n) = n" and rep: "limb_rep val bits" and bits: "128 \<le> bits"
  shows "uint_crate_laws val bits (exact_crate mk val bits)"
proof -
  have less: "val a < 2 ^ bits" for a by (rule limb_rep.rep_less [OF rep])
  have eq: "mk n = a \<longleftrightarrow> n = val a" if "n < 2 ^ bits" for n a
    using mk [OF that] limb_rep.rep_inj [OF rep] by metis
  have le: "val (mk n) = n" if "n \<le> val a" for n a
    using that less [of a] mk by (meson le_less_trans)
  have eq_le: "mk n = c \<longleftrightarrow> val c = n" if "n \<le> val a" for n a c
    using eq [of n c] le_less_trans [OF that less] by auto
  have word: "val (mk (unat w)) = unat w" if "LENGTH('l) \<le> 128" for w :: "'l::len word"
  proof (rule mk)
    have "unat w < 2 ^ LENGTH('l)" by (rule unat_lt)
    also have "(2 :: nat) ^ LENGTH('l) \<le> 2 ^ bits" using that bits by (intro power_increasing) auto
    finally show "unat w < 2 ^ bits" .
  qed
  have fit: "(if n < 2 ^ bits then Some (mk n) else None) = Some c \<longleftrightarrow> val c = n" for n c
    using eq [of n c] less [of c] by auto
  have sat: "val (mk (min n (2 ^ bits - 1))) = min n (2 ^ bits - 1)" for n
    by (rule mk) (simp add: min_less_iff_disj)
  have small: "(if val a < 2 ^ 128 then Some (word_of_nat (val a)) else None) = Some w \<longleftrightarrow> unat w = val a"
    for a and w :: u128
    using unat_eq_lt [of w "val a"] by (auto simp: unat_of_nat word_unat_eq_iff)
  have mod_le: "val a mod val b \<le> val a" for a b by simp
  show ?thesis
    unfolding uint_crate_laws_def uint_crate_laws_axioms_def exact_crate_def Let_def uint_crate.simps
      fit sat small
    by (auto simp: rep mk word eq less le [OF div_le_dividend] le [OF diff_le_self]
        eq_le [OF div_le_dividend] eq_le [OF mod_le] eq_le [OF diff_le_self])
qed

lemma length_4E: "length xs = 4 \<Longrightarrow> \<exists>a b c d. xs = [a, b, c, d]"
  by (auto simp: length_Suc_conv numeral_eq_Suc)

lemma length_8E: "length xs = 8 \<Longrightarrow> \<exists>a b c d e f g h. xs = [a, b, c, d, e, f, g, h]"
  by (auto simp: length_Suc_conv numeral_eq_Suc)

definition u256_of_nat :: "nat \<Rightarrow> u256" where
  "u256_of_nat n = (case limbs_of 4 n of [a, b, c, d] \<Rightarrow> U256 a b c d)"

definition u512_of_nat :: "nat \<Rightarrow> u512" where
  "u512_of_nat n =
     (case limbs_of 8 n of [a, b, c, d, e, f, g, h] \<Rightarrow> U512 a b c d e f g h)"

lemma val_u256_of_nat:
  assumes "n < 2 ^ 256"
  shows "val_u256 (u256_of_nat n) = n"
proof -
  obtain a b c d where "limbs_of 4 n = [a, b, c, d]"
    using length_4E [OF length_limbs_of] by blast
  moreover have "val_limbs (limbs_of 4 n) = n" using assms by (intro val_limbs_of) simp
  ultimately show ?thesis by (simp add: u256_of_nat_def del: val_limbs.simps)
qed

lemma val_u512_of_nat:
  assumes "n < 2 ^ 512"
  shows "val_u512 (u512_of_nat n) = n"
proof -
  obtain a b c d e f g h where "limbs_of 8 n = [a, b, c, d, e, f, g, h]"
    using length_8E [OF length_limbs_of] by blast
  moreover have "val_limbs (limbs_of 8 n) = n" using assms by (intro val_limbs_of) simp
  ultimately show ?thesis by (simp add: u512_of_nat_def del: val_limbs.simps)
qed

lemma val_u256_bytes:
  "val_u256 (U256 w0 w1 w2 w3) = nat_of_le (to_le_bytes w0 @ to_le_bytes w1 @ to_le_bytes w2 @ to_le_bytes w3)"
  using val_limbs_bytes [of "[w0, w1, w2, w3]"] by simp

lemma val_u512_bytes:
  "val_u512 (U512 w0 w1 w2 w3 w4 w5 w6 w7) =
   nat_of_le (to_le_bytes w0 @ to_le_bytes w1 @ to_le_bytes w2 @ to_le_bytes w3 @
     to_le_bytes w4 @ to_le_bytes w5 @ to_le_bytes w6 @ to_le_bytes w7)"
  using val_limbs_bytes [of "[w0, w1, w2, w3, w4, w5, w6, w7]"] by simp

interpretation rep256: limb_rep val_u256 256
proof
  show "val_u256 a < 2 ^ 256" for a
    by (cases a) (use val_limbs_less [of "[_, _, _, _]"] in \<open>simp del: val_limbs.simps\<close>)
  show "val_u256 a = val_u256 b \<Longrightarrow> a = b" for a b
    by (cases a; cases b) (force simp del: val_limbs.simps dest: val_limbs_inj [rotated])
  show "n < 2 ^ 256 \<Longrightarrow> \<exists>a. val_u256 a = n" for n
    using val_u256_of_nat by blast
qed

interpretation rep512: limb_rep val_u512 512
proof
  show "val_u512 a < 2 ^ 512" for a
    by (cases a) (use val_limbs_less [of "[_, _, _, _, _, _, _, _]"] in \<open>simp del: val_limbs.simps\<close>)
  show "val_u512 a = val_u512 b \<Longrightarrow> a = b" for a b
    by (cases a; cases b) (force simp del: val_limbs.simps dest: val_limbs_inj [rotated])
  show "n < 2 ^ 512 \<Longrightarrow> \<exists>a. val_u512 a = n" for n
    using val_u512_of_nat by blast
qed

definition exact_u256 :: "u256 uint_crate" where
  "exact_u256 = exact_crate u256_of_nat val_u256 256"

definition exact_u512 :: "u512 uint_crate" where
  "exact_u512 = exact_crate u512_of_nat val_u512 512"

interpretation exact256: uint_crate_laws val_u256 256 exact_u256
  unfolding exact_u256_def
  by (rule exact_crate_laws) (simp_all add: val_u256_of_nat rep256.limb_rep_axioms del: power_numeral)

interpretation exact512: uint_crate_laws val_u512 512 exact_u512
  unfolding exact_u512_def
  by (rule exact_crate_laws) (simp_all add: val_u512_of_nat rep512.limb_rep_axioms del: power_numeral)

section \<open>Uint256\<close>

datatype uint256 = Uint256 (inner256: u256)

abbreviation val256 :: "uint256 \<Rightarrow> nat" where
  "val256 x \<equiv> val_u256 (inner256 x)"

definition uint256_MAX :: "u256 uint_crate \<Rightarrow> uint256" where
  "uint256_MAX C = Uint256 (uc_MAX C)"

definition uint256_zero :: "u256 uint_crate \<Rightarrow> uint256" where
  "uint256_zero C = Uint256 (uc_zero C)"

definition uint256_from_be_bytes :: "bytes \<Rightarrow> uint256" where
  "uint256_from_be_bytes data =
     Uint256 (U256 (be_limb data 24) (be_limb data 16) (be_limb data 8) (be_limb data 0))"

definition uint256_from_le_bytes :: "bytes \<Rightarrow> uint256" where
  "uint256_from_le_bytes data =
     Uint256 (U256 (le_limb data 0) (le_limb data 8) (le_limb data 16) (le_limb data 24))"

definition uint256_new :: "bytes \<Rightarrow> uint256" where
  "uint256_new value = uint256_from_be_bytes value"

definition uint256_from_uint128 :: "uint128 \<Rightarrow> uint256" where
  "uint256_from_uint128 num = uint256_from_le_bytes (uint128_to_le_bytes num @ replicate 16 0)"

definition uint256_to_be_bytes :: "uint256 \<Rightarrow> bytes" where
  "uint256_to_be_bytes self =
     (case inner256 self of U256 w0 w1 w2 w3 \<Rightarrow>
        to_be_bytes w3 @ to_be_bytes w2 @ to_be_bytes w1 @ to_be_bytes w0)"

definition uint256_to_le_bytes :: "uint256 \<Rightarrow> bytes" where
  "uint256_to_le_bytes self =
     (case inner256 self of U256 w0 w1 w2 w3 \<Rightarrow>
        to_le_bytes w0 @ to_le_bytes w1 @ to_le_bytes w2 @ to_le_bytes w3)"

definition uint256_to_string :: "u256 uint_crate \<Rightarrow> uint256 \<Rightarrow> string" where
  "uint256_to_string C self = uc_to_string C (inner256 self)"

definition uint256_is_zero :: "u256 uint_crate \<Rightarrow> uint256 \<Rightarrow> bool" where
  "uint256_is_zero C self \<longleftrightarrow> uc_is_zero C (inner256 self)"

definition uint256_checked_add :: "u256 uint_crate \<Rightarrow> uint256 \<Rightarrow> uint256 \<Rightarrow> (overflow_error, uint256) result" where
  "uint256_checked_add C self other =
     ok_or (overflow_error_new OpAdd (uint256_to_string C self) (uint256_to_string C other))
       (map_option Uint256 (uc_checked_add C (inner256 self) (inner256 other)))"

definition uint256_checked_sub :: "u256 uint_crate \<Rightarrow> uint256 \<Rightarrow> uint256 \<Rightarrow> (overflow_error, uint256) result" where
  "uint256_checked_sub C self other =
     ok_or (overflow_error_new OpSub (uint256_to_string C self) (uint256_to_string C other))
       (map_option Uint256 (uc_checked_sub C (inner256 self) (inner256 other)))"

definition uint256_checked_mul :: "u256 uint_crate \<Rightarrow> uint256 \<Rightarrow> uint256 \<Rightarrow> (overflow_error, uint256) result" where
  "uint256_checked_mul C self other =
     ok_or (overflow_error_new OpMul (uint256_to_string C self) (uint256_to_string C other))
       (map_option Uint256 (uc_checked_mul C (inner256 self) (inner256 other)))"

definition uint256_checked_div :: "u256 uint_crate \<Rightarrow> uint256 \<Rightarrow> uint256 \<Rightarrow> (divide_by_zero_error, uint256) result" where
  "uint256_checked_div C self other =
     ok_or (divide_by_zero_error_new (uint256_to_string C self))
       (map_option Uint256 (uc_checked_div C (inner256 self) (inner256 other)))"

definition uint256_checked_rem :: "u256 uint_crate \<Rightarrow> uint256 \<Rightarrow> uint256 \<Rightarrow> (divide_by_zero_error, uint256) result" where
  "uint256_checked_rem C self other =
     ok_or (divide_by_zero_error_new (uint256_to_string C self))
       (map_option Uint256 (uc_checked_rem C (inner256 self) (inner256 other)))"

definition uint256_checked_pow :: "u256 uint_crate \<Rightarrow> uint256 \<Rightarrow> u32 \<Rightarrow> (overflow_error, uint256) result" where
  "uint256_checked_pow C self exp =
     ok_or (overflow_error_new OpPow (uint256_to_string C self) (to_string exp))
       (map_option Uint256 (uc_checked_pow C (inner256 self) (uc_from_u32 C exp)))"

definition uint256_pow :: "u256 uint_crate \<Rightarrow> uint256 \<Rightarrow> u32 \<Rightarrow> uint256 outcome" where
  "uint256_pow C self exp =
     expect_ok ''attempt to raise to a power with overflow'' (uint256_checked_pow C self exp)"

definition uint256_checked_shr :: "u256 uint_crate \<Rightarrow> uint256 \<Rightarrow> u32 \<Rightarrow> (overflow_error, uint256) result" where
  "uint256_checked_shr C self other =
     (if 256 \<le> other then Inl (overflow_error_new OpShr (uint256_to_string C self) (to_string other))
      else Inr (Uint256 (uc_shr C (inner256 self) other)))"

definition uint256_checked_shl :: "u256 uint_crate \<Rightarrow> uint256 \<Rightarrow> u32 \<Rightarrow> (overflow_error, uint256) result" where
  "uint256_checked_shl C self other =
     (if 256 \<le> other then Inl (overflow_error_new OpShl (uint256_to_string C self) (to_string other))
      else Inr (Uint256 (uc_shl C (inner256 self) other)))"

definition uint256_saturating_add :: "u256 uint_crate \<Rightarrow> uint256 \<Rightarrow> uint256 \<Rightarrow> uint256" where
  "uint256_saturating_add C self other = Uint256 (uc_saturating_add C (inner256 self) (inner256 other))"

definition uint256_saturating_sub :: "u256 uint_crate \<Rightarrow> uint256 \<Rightarrow> uint256 \<Rightarrow> uint256" where
  "uint256_saturating_sub C self other = Uint256 (uc_saturating_sub C (inner256 self) (inner256 other))"

definition uint256_saturating_mul :: "u256 uint_crate \<Rightarrow> uint256 \<Rightarrow> uint256 \<Rightarrow> uint256" where
  "uint256_saturating_mul C self other = Uint256 (uc_saturating_mul C (inner256 self) (inner256 other))"

definition uint256_from_u128 :: "u256 uint_crate \<Rightarrow> u128 \<Rightarrow> uint256" where
  "uint256_from_u128 C val = Uint256 (uc_from_u128 C val)"

definition uint256_from_u64 :: "u256 uint_crate \<Rightarrow> u64 \<Rightarrow> uint256" where
  "uint256_from_u64 C val = Uint256 (uc_from_u64 C val)"

definition uint256_from_u32 :: "u256 uint_crate \<Rightarrow> u32 \<Rightarrow> uint256" where
  "uint256_from_u32 C val = Uint256 (uc_from_u32 C val)"

definition uint256_from_u16 :: "u256 uint_crate \<Rightarrow> u16 \<Rightarrow> uint256" where
  "uint256_from_u16 C val = Uint256 (uc_from_u16 C val)"

definition uint256_from_u8 :: "u256 uint_crate \<Rightarrow> u8 \<Rightarrow> uint256" where
  "uint256_from_u8 C val = Uint256 (uc_from_u8 C val)"

definition uint256_from_uint128_trait :: "u256 uint_crate \<Rightarrow> uint128 \<Rightarrow> uint256" where
  "uint256_from_uint128_trait C val = uint256_from_u128 C (u128 val)"

definition uint256_from_uint64 :: "u256 uint_crate \<Rightarrow> uint64 \<Rightarrow> uint256" where
  "uint256_from_uint64 C val = uint256_from_u64 C (u64 val)"

definition uint128_try_from_uint256 :: "u256 uint_crate \<Rightarrow> uint256 \<Rightarrow> (conversion_overflow_error, uint128) result" where
  "uint128_try_from_uint256 C value =
     map_ok uint128_new (ok_or (conversion_overflow_error_new ''Uint256'' ''Uint128'' (uint256_to_string C value))
       (uc_try_into_u128 C (inner256 value)))"

definition uint256_from_str :: "u256 uint_crate \<Rightarrow> string \<Rightarrow> uint256 std_result" where
  "uint256_from_str C s =
     (if s = [] then Inl (GenericErr ''Parsing u256: received empty string'')
      else case uc_from_dec_str C s of
        Inr u \<Rightarrow> Inr (Uint256 u)
      | Inl e \<Rightarrow> Inl (GenericErr (''Parsing u256: '' @ e)))"

definition uint256_try_from_str :: "u256 uint_crate \<Rightarrow> string \<Rightarrow> uint256 std_result" where
  "uint256_try_from_str C val = uint256_from_str C val"

definition uint256_add :: "u256 uint_crate \<Rightarrow> uint256 \<Rightarrow> uint256 \<Rightarrow> uint256 outcome" where
  "uint256_add C self rhs =
     omap Uint256 (expect ''attempt to add with overflow'' (uc_checked_add C (inner256 self) (inner256 rhs)))"

definition uint256_sub :: "u256 uint_crate \<Rightarrow> uint256 \<Rightarrow> uint256 \<Rightarrow> uint256 outcome" where
  "uint256_sub C self rhs =
     omap Uint256 (expect ''attempt to subtract with overflow'' (uc_checked_sub C (inner256 self) (inner256 rhs)))"

definition uint256_div :: "u256 uint_crate \<Rightarrow> uint256 \<Rightarrow> uint256 \<Rightarrow> uint256 outcome" where
  "uint256_div C self rhs =
     omap Uint256 (expect ''attempt to divide by zero'' (uc_checked_div C (inner256 self) (inner256 rhs)))"

definition uint256_mul :: "u256 uint_crate \<Rightarrow> uint256 \<Rightarrow> uint256 \<Rightarrow> uint256 outcome" where
  "uint256_mul C self rhs =
     omap Uint256 (expect ''attempt to multiply with overflow'' (uc_checked_mul C (inner256 self) (inner256 rhs)))"

definition uint256_rem :: "u256 uint_crate \<Rightarrow> uint256 \<Rightarrow> uint256 \<Rightarrow> uint256 outcome" where
  "uint256_rem C self rhs = omap Uint256 (uc_rem C (inner256 self) (inner256 rhs))"

definition uint256_shr :: "u256 uint_crate \<Rightarrow> uint256 \<Rightarrow> u32 \<Rightarrow> uint256 outcome" where
  "uint256_shr C self rhs =
     expect_ok (''right shift error: '' @ to_string rhs @
         '' is larger or equal than the number of bits in Uint256'')
       (uint256_checked_shr C self rhs)"

definition uint256_shl :: "u256 uint_crate \<Rightarrow> uint256 \<Rightarrow> u32 \<Rightarrow> uint256 outcome" where
  "uint256_shl C self rhs =
     expect_ok (''left shift error: '' @ to_string rhs @
         '' is larger or equal than the number of bits in Uint256'')
       (uint256_checked_shl C self rhs)"

definition uint256_add_assign :: "u256 uint_crate \<Rightarrow> uint256 \<Rightarrow> uint256 \<Rightarrow> uint256 outcome" where
  "uint256_add_assign C self rhs = uint256_add C self rhs"

definition uint256_sub_assign :: "u256 uint_crate \<Rightarrow> uint256 \<Rightarrow> uint256 \<Rightarrow> uint256 outcome" where
  "uint256_sub_assign C self rhs = uint256_sub C self rhs"

definition uint256_mul_assign :: "u256 uint_crate \<Rightarrow> uint256 \<Rightarrow> uint256 \<Rightarrow> uint256 outcome" where
  "uint256_mul_assign C self rhs = uint256_mul C self rhs"

definition uint256_div_assign :: "u256 uint_crate \<Rightarrow> uint256 \<Rightarrow> uint256 \<Rightarrow> uint256 outcome" where
  "uint256_div_assign C self rhs = uint256_div C self rhs"

definition uint256_shr_assign :: "u256 uint_crate \<Rightarrow> uint256 \<Rightarrow> u32 \<Rightarrow> uint256 outcome" where
  "uint256_shr_assign C self rhs = uint256_shr C self rhs"

definition uint256_sum :: "u256 uint_crate \<Rightarrow> uint256 list \<Rightarrow> uint256 outcome" where
  "uint256_sum C xs = foldl (\<lambda>acc x. obind acc (\<lambda>a. uint256_add C a x)) (Done (uint256_zero C)) xs"

section \<open>Uint512\<close>

datatype uint512 = Uint512 (inner512: u512)

abbreviation val512 :: "uint512 \<Rightarrow> nat" where
  "val512 x \<equiv> val_u512 (inner512 x)"

definition uint512_MAX :: "u512 uint_crate \<Rightarrow> uint512" where
  "uint512_MAX C = Uint512 (uc_MAX C)"

definition uint512_zero :: "u512 uint_crate \<Rightarrow> uint512" where
  "uint512_zero C = Uint512 (uc_zero C)"

definition uint512_from_be_bytes :: "bytes \<Rightarrow> uint512" where
  "uint512_from_be_bytes data =
     Uint512 (U512 (be_limb data 56) (be_limb data 48) (be_limb data 40) (be_limb data 32)
       (be_limb data 24) (be_limb data 16) (be_limb data 8) (be_limb data 0))"

definition uint512_from_le_bytes :: "bytes \<Rightarrow> uint512" where
  "uint512_from_le_bytes data =
     Uint512 (U512 (le_limb data 0) (le_limb data 8) (le_limb data 16) (le_limb data 24)
       (le_limb data 32) (le_limb data 40) (le_limb data 48) (le_limb data 56))"

definition uint512_new :: "bytes \<Rightarrow> uint512" where
  "uint512_new value = uint512_from_be_bytes value"

definition uint512_from_uint256 :: "uint256 \<Rightarrow> uint512" where
  "uint512_from_uint256 num = uint512_from_le_bytes (uint256_to_le_bytes num @ replicate 32 0)"

definition uint512_to_be_bytes :: "uint512 \<Rightarrow> bytes" where
  "uint512_to_be_bytes self =
     (case inner512 self of U512 w0 w1 w2 w3 w4 w5 w6 w7 \<Rightarrow>
        to_be_bytes w7 @ to_be_bytes w6 @ to_be_bytes w5 @ to_be_bytes w4 @
        to_be_bytes w3 @ to_be_bytes w2 @ to_be_bytes w1 @ to_be_bytes w0)"

definition uint512_to_le_bytes :: "uint512 \<Rightarrow> bytes" where
  "uint512_to_le_bytes self =
     (case inner512 self of U512 w0 w1 w2 w3 w4 w5 w6 w7 \<Rightarrow>
        to_le_bytes w0 @ to_le_bytes w1 @ to_le_bytes w2 @ to_le_bytes w3 @
        to_le_bytes w4 @ to_le_bytes w5 @ to_le_bytes w6 @ to_le_bytes w7)"

definition uint512_to_string :: "u512 uint_crate \<Rightarrow> uint512 \<Rightarrow> string" where
  "uint512_to_string C self = uc_to_string C (inner512 self)"

definition uint512_is_zero :: "u512 uint_crate \<Rightarrow> uint512 \<Rightarrow> bool" where
  "uint512_is_zero C self \<longleftrightarrow> uc_is_zero C (inner512 self)"

definition uint512_checked_add :: "u512 uint_crate \<Rightarrow> uint512 \<Rightarrow> uint512 \<Rightarrow> (overflow_error, uint512) result" where
  "uint512_checked_add C self other =
     ok_or (overflow_error_new OpAdd (uint512_to_string C self) (uint512_to_string C other))
       (map_option Uint512 (uc_checked_add C (inner512 self) (inner512 other)))"

definition uint512_checked_sub :: "u512 uint_crate \<Rightarrow> uint512 \<Rightarrow> uint512 \<Rightarrow> (overflow_error, uint512) result" where
  "uint512_checked_sub C self other =
     ok_or (overflow_error_new OpSub (uint512_to_string C self) (uint512_to_string C other))
       (map_option Uint512 (uc_checked_sub C (inner512 self) (inner512 other)))"

definition uint512_checked_mul :: "u512 uint_crate \<Rightarrow> uint512 \<Rightarrow> uint512 \<Rightarrow> (overflow_error, uint512) result" where
  "uint512_checked_mul C self other =
     ok_or (overflow_error_new OpMul (uint512_to_string C self) (uint512_to_string C other))
       (map_option Uint512 (uc_checked_mul C (inner512 self) (inner512 other)))"

definition uint512_checked_div :: "u512 uint_crate \<Rightarrow> uint512 \<Rightarrow> uint512 \<Rightarrow> (divide_by_zero_error, uint512) result" where
  "uint512_checked_div C self other =
     ok_or (divide_by_zero_error_new (uint512_to_string C self))
       (map_option Uint512 (uc_checked_div C (inner512 self) (inner512 other)))"

definition uint512_checked_rem :: "u512 uint_crate \<Rightarrow> uint512 \<Rightarrow> uint512 \<Rightarrow> (divide_by_zero_error, uint512) result" where
  "uint512_checked_rem C self other =
     ok_or (divide_by_zero_error_new (uint512_to_string C self))
       (map_option Uint512 (uc_checked_rem C (inner512 self) (inner512 other)))"

definition uint512_checked_shr :: "u512 uint_crate \<Rightarrow> uint512 \<Rightarrow> u32 \<Rightarrow> (overflow_error, uint512) result" where
  "uint512_checked_shr C self other =
     (if 512 \<le> other then Inl (overflow_error_new OpShr (uint512_to_string C self) (to_string other))
      else Inr (Uint512 (uc_shr C (inner512 self) other)))"

definition uint512_saturating_add :: "u512 uint_crate \<Rightarrow> uint512 \<Rightarrow> uint512 \<Rightarrow> uint512" where
  "uint512_saturating_add C self other = Uint512 (uc_saturating_add C (inner512 self) (inner512 other))"

definition uint512_saturating_sub :: "u512 uint_crate \<Rightarrow> uint512 \<Rightarrow> uint512 \<Rightarrow> uint512" where
  "uint512_saturating_sub C self other = Uint512 (uc_saturating_sub C (inner512 self) (inner512 other))"

definition uint512_saturating_mul :: "u512 uint_crate \<Rightarrow> uint512 \<Rightarrow> uint512 \<Rightarrow> uint512" where
  "uint512_saturating_mul C self other = Uint512 (uc_saturating_mul C (inner512 self) (inner512 other))"

definition uint512_from_uint256_trait :: "uint256 \<Rightarrow> uint512" where
  "uint512_from_uint256_trait val = uint512_from_be_bytes (replicate 32 0 @ uint256_to_be_bytes val)"

definition uint512_from_u128 :: "u512 uint_crate \<Rightarrow> u128 \<Rightarrow> uint512" where
  "uint512_from_u128 C val = Uint512 (uc_from_u128 C val)"

definition uint512_from_u64 :: "u512 uint_crate \<Rightarrow> u64 \<Rightarrow> uint512" where
  "uint512_from_u64 C val = Uint512 (uc_from_u64 C val)"

definition uint512_from_u32 :: "u512 uint_crate \<Rightarrow> u32 \<Rightarrow> uint512" where
  "uint512_from_u32 C val = Uint512 (uc_from_u32 C val)"

definition uint512_from_u16 :: "u512 uint_crate \<Rightarrow> u16 \<Rightarrow> uint512" where
  "uint512_from_u16 C val = Uint512 (uc_from_u16 C val)"

definition uint512_from_u8 :: "u512 uint_crate \<Rightarrow> u8 \<Rightarrow> uint512" where
  "uint512_from_u8 C val = Uint512 (uc_from_u8 C val)"

definition uint512_from_uint128 :: "u512 uint_crate \<Rightarrow> uint128 \<Rightarrow> uint512" where
  "uint512_from_uint128 C val = uint512_from_u128 C (u128 val)"

definition uint512_from_uint64 :: "u512 uint_crate \<Rightarrow> uint64 \<Rightarrow> uint512" where
  "uint512_from_uint64 C val = uint512_from_u64 C (u64 val)"

definition uint256_try_from_uint512 :: "u512 uint_crate \<Rightarrow> uint512 \<Rightarrow> (conversion_overflow_error, uint256) result" where
  "uint256_try_from_uint512 C value =
     (let bytes = uint512_to_be_bytes value; first_bytes = take 32 bytes; last_bytes = drop 32 bytes
      in if first_bytes \<noteq> replicate 32 0
         then Inl (conversion_overflow_error_new ''Uint512'' ''Uint256'' (uint512_to_string C value))
         else Inr (uint256_from_be_bytes last_bytes))"

definition uint128_try_from_uint512 :: "u512 uint_crate \<Rightarrow> uint512 \<Rightarrow> (conversion_overflow_error, uint128) result" where
  "uint128_try_from_uint512 C value =
     map_ok uint128_new (ok_or (conversion_overflow_error_new ''Uint512'' ''Uint128'' (uint512_to_string C value))
       (uc_try_into_u128 C (inner512 value)))"

definition uint512_from_str :: "u512 uint_crate \<Rightarrow> string \<Rightarrow> uint512 std_result" where
  "uint512_from_str C s =
     (case uc_from_dec_str C s of
        Inr u \<Rightarrow> Inr (Uint512 u)
      | Inl e \<Rightarrow> Inl (GenericErr (''Parsing u512: '' @ e)))"

definition uint512_try_from_str :: "u512 uint_crate \<Rightarrow> string \<Rightarrow> uint512 std_result" where
  "uint512_try_from_str C val = uint512_from_str C val"

definition uint512_add :: "u512 uint_crate \<Rightarrow> uint512 \<Rightarrow> uint512 \<Rightarrow> uint512 outcome" where
  "uint512_add C self rhs =
     omap Uint512 (unwrap (uc_checked_add C (inner512 self) (inner512 rhs)))"

definition uint512_sub :: "u512 uint_crate \<Rightarrow> uint512 \<Rightarrow> uint512 \<Rightarrow> uint512 outcome" where
  "uint512_sub C self rhs =
     omap Uint512 (unwrap (uc_checked_sub C (inner512 self) (inner512 rhs)))"

definition uint512_div :: "u512 uint_crate \<Rightarrow> uint512 \<Rightarrow> uint512 \<Rightarrow> uint512 outcome" where
  "uint512_div C self rhs =
     omap Uint512 (unwrap (uc_checked_div C (inner512 self) (inner512 rhs)))"

definition uint512_mul :: "u512 uint_crate \<Rightarrow> uint512 \<Rightarrow> uint512 \<Rightarrow> uint512 outcome" where
  "uint512_mul C self rhs =
     omap Uint512 (unwrap (uc_checked_mul C (inner512 self) (inner512 rhs)))"

definition uint512_rem :: "u512 uint_crate \<Rightarrow> uint512 \<Rightarrow> uint512 \<Rightarrow> uint512 outcome" where
  "uint512_rem C self rhs = omap Uint512 (uc_rem C (inner512 self) (inner512 rhs))"

definition uint512_shr :: "u512 uint_crate \<Rightarrow> uint512 \<Rightarrow> u32 \<Rightarrow> uint512 outcome" where
  "uint512_shr C self rhs =
     expect_ok (''right shift error: '' @ to_string rhs @
         '' is larger or equal than the number of bits in Uint512'')
       (uint512_checked_shr C self rhs)"

definition uint512_add_assign :: "u512 uint_crate \<Rightarrow> uint512 \<Rightarrow> uint512 \<Rightarrow> uint512 outcome" where
  "uint512_add_assign C self rhs =
     omap Uint512 (unwrap (uc_checked_add C (inner512 self) (inner512 rhs)))"

definition uint512_sub_assign :: "u512 uint_crate \<Rightarrow> uint512 \<Rightarrow> uint512 \<Rightarrow> uint512 outcome" where
  "uint512_sub_assign C self rhs =
     omap Uint512 (unwrap (uc_checked_sub C (inner512 self) (inner512 rhs)))"

definition uint512_mul_assign :: "u512 uint_crate \<Rightarrow> uint512 \<Rightarrow> uint512 \<Rightarrow> uint512 outcome" where
  "uint512_mul_assign C self rhs =
     omap Uint512 (unwrap (uc_checked_mul C (inner512 self) (inner512 rhs)))"

definition uint512_div_assign :: "u512 uint_crate \<Rightarrow> uint512 \<Rightarrow> uint512 \<Rightarrow> uint512 outcome" where
  "uint512_div_assign C self rhs =
     omap Uint512 (unwrap (uc_checked_div C (inner512 self) (inner512 rhs)))"

definition uint512_shr_assign :: "u512 uint_crate \<Rightarrow> uint512 \<Rightarrow> u32 \<Rightarrow> uint512 outcome" where
  "uint512_shr_assign C self rhs = uint512_shr C self rhs"

definition uint512_sum :: "u512 uint_crate \<Rightarrow> uint512 list \<Rightarrow> uint512 outcome" where
  "uint512_sum C xs = foldl (\<lambda>acc x. obind acc (\<lambda>a. uint512_add C a x)) (Done (uint512_zero C)) xs"

section \<open>Products that cannot overflow\<close>

definition uint128_full_mul :: "u256 uint_crate \<Rightarrow> uint128 \<Rightarrow> u128 \<Rightarrow> uint256 outcome" where
  "uint128_full_mul C self rhs =
     unwrap_ok (uint256_checked_mul C (uint256_from_u128 C (u128 self)) (uint256_from_u128 C rhs))"

definition uint128_multiply_ratio :: "u256 uint_crate \<Rightarrow> uint128 \<Rightarrow> u128 \<Rightarrow> u128 \<Rightarrow> uint128 outcome"
where
  "uint128_multiply_ratio C self numerator denominator =
     (if denominator = 0 then Panic ''Denominator must not be zero''
      else obind (uint128_full_mul C self numerator) (\<lambda>product.
           obind (uint256_div C product (uint256_from_u128 C denominator)) (\<lambda>quotient.
           expect_ok ''multiplication overflow'' (uint128_try_from_uint256 C quotient))))"

definition uint256_full_mul :: "u512 uint_crate \<Rightarrow> uint256 \<Rightarrow> uint256 \<Rightarrow> uint512 outcome" where
  "uint256_full_mul D self rhs =
     unwrap_ok (uint512_checked_mul D (uint512_from_uint256_trait self) (uint512_from_uint256_trait rhs))"

definition uint256_multiply_ratio ::
  "u256 uint_crate \<Rightarrow> u512 uint_crate \<Rightarrow> uint256 \<Rightarrow> uint256 \<Rightarrow> uint256 \<Rightarrow> uint256 outcome" where
  "uint256_multiply_ratio C D self numerator denominator =
     (if uint256_is_zero C denominator then Panic ''Denominator must not be zero''
      else obind (uint256_full_mul D self numerator) (\<lambda>product.
           obind (uint512_div D product (uint512_from_uint256_trait denominator)) (\<lambda>quotient.
           expect_ok ''multiplication overflow'' (uint256_try_from_uint512 D quotient))))"

definition uint256_unsigned :: "u256 uint_crate \<Rightarrow> uint256 unsigned_ops" where
  "uint256_unsigned C = \<lparr>u_add = uint256_add C, u_div = uint256_div C, u_shr = uint256_shr C,
     u_less = (\<lambda>a b. uc_less C (inner256 a) (inner256 b)), u_from_u8 = uint256_from_u8 C\<rparr>"

definition uint512_unsigned :: "u512 uint_crate \<Rightarrow> uint512 unsigned_ops" where
  "uint512_unsigned C = \<lparr>u_add = uint512_add C, u_div = uint512_div C, u_shr = uint512_shr C,
     u_less = (\<lambda>a b. uc_less C (inner512 a) (inner512 b)), u_from_u8 = uint512_from_u8 C\<rparr>"


section \<open>Byte conversions\<close>

lemma val_uint256_to_le_bytes:
  "nat_of_le (uint256_to_le_bytes a) = val256 a" "length (uint256_to_le_bytes a) = 32"
  by (cases a; cases "inner256 a"; simp add: uint256_to_le_bytes_def val_u256_bytes del: val_u256.simps)+

lemma val_uint512_to_le_bytes:
  "nat_of_le (uint512_to_le_bytes a) = val512 a" "length (uint512_to_le_bytes a) = 64"
  by (cases a; cases "inner512 a"; simp add: uint512_to_le_bytes_def val_u512_bytes del: val_u512.simps)+

lemma uint256_to_be_bytes_rev: "uint256_to_be_bytes a = rev (uint256_to_le_bytes a)"
  by (cases a; cases "inner256 a")
    (simp add: uint256_to_be_bytes_def uint256_to_le_bytes_def to_be_bytes_def)

lemma uint512_to_be_bytes_rev: "uint512_to_be_bytes a = rev (uint512_to_le_bytes a)"
  by (cases a; cases "inner512 a")
    (simp add: uint512_to_be_bytes_def uint512_to_le_bytes_def to_be_bytes_def)

lemma uint256_from_be_bytes_rev:
  "length bs = 32 \<Longrightarrow> uint256_from_be_bytes bs = uint256_from_le_bytes (rev bs)"
  by (simp add: uint256_from_be_bytes_def uint256_from_le_bytes_def be_limb_le_limb)

lemma uint512_from_be_bytes_rev:
  "length bs = 64 \<Longrightarrow> uint512_from_be_bytes bs = uint512_from_le_bytes (rev bs)"
  by (simp add: uint512_from_be_bytes_def uint512_from_le_bytes_def be_limb_le_limb)

lemma take_8_split: "take 8 (drop i xs) @ drop (8 + i) xs = drop i xs"
  by (metis append_take_drop_id drop_drop)

lemma uint256_to_from_le_bytes:
  assumes "length bs = 32"
  shows "uint256_to_le_bytes (uint256_from_le_bytes bs) = bs"
  using assms take_8_split [of 0 bs] take_8_split [of 8 bs] take_8_split [of 16 bs] take_8_split [of 24 bs]
  by (simp add: uint256_to_le_bytes_def uint256_from_le_bytes_def to_le_bytes_le_limb)

lemma uint512_to_from_le_bytes:
  assumes "length bs = 64"
  shows "uint512_to_le_bytes (uint512_from_le_bytes bs) = bs"
  using assms take_8_split [of 0 bs] take_8_split [of 8 bs] take_8_split [of 16 bs] take_8_split [of 24 bs]
    take_8_split [of 32 bs] take_8_split [of 40 bs] take_8_split [of 48 bs] take_8_split [of 56 bs]
  by (simp add: uint512_to_le_bytes_def uint512_from_le_bytes_def to_le_bytes_le_limb)

lemma val_uint256_from_le_bytes: "length bs = 32 \<Longrightarrow> val256 (uint256_from_le_bytes bs) = nat_of_le bs"
  by (metis uint256_to_from_le_bytes val_uint256_to_le_bytes(1))

lemma val_uint512_from_le_bytes: "length bs = 64 \<Longrightarrow> val512 (uint512_from_le_bytes bs) = nat_of_le bs"
  by (metis uint512_to_from_le_bytes val_uint512_to_le_bytes(1))

lemma uint256_eq_iff: "a = b \<longleftrightarrow> val256 a = val256 b"
  by (cases a; cases b) (auto intro: rep256.rep_inj)

lemma uint512_eq_iff: "a = b \<longleftrightarrow> val512 a = val512 b"
  by (cases a; cases b) (auto intro: rep512.rep_inj)

lemma val256_lt: "val256 a < 2 ^ 256"
  by (rule rep256.rep_less)

lemma val512_lt: "val512 a < 2 ^ 512"
  by (rule rep512.rep_less)

lemma ex_val256: "n < 2 ^ 256 \<Longrightarrow> \<exists>c. val256 c = n"
  by (metis rep256.rep_surj uint256.sel)

lemma ex_val512: "n < 2 ^ 512 \<Longrightarrow> \<exists>c. val512 c = n"
  by (metis rep512.rep_surj uint512.sel)

lemma val_uint256_from_uint128: "val256 (uint256_from_uint128 a) = val128 a"
  by (simp add: uint256_from_uint128_def val_uint256_from_le_bytes uint128_to_le_bytes_def
      nat_of_le_append nat_of_le_to_le_bytes)

lemma val_uint512_from_uint256: "val512 (uint512_from_uint256 a) = val256 a"
  by (simp add: uint512_from_uint256_def val_uint512_from_le_bytes val_uint256_to_le_bytes nat_of_le_append)

lemma uint512_from_uint256_agree: "uint512_from_uint256_trait a = uint512_from_uint256 a"
  by (simp add: uint512_from_uint256_trait_def uint512_from_uint256_def uint512_from_be_bytes_rev
      uint256_to_be_bytes_rev val_uint256_to_le_bytes)

lemma nat_of_le_eq_0: "nat_of_le bs = 0 \<Longrightarrow> bs = replicate (length bs) 0"
  by (induction bs) (auto simp: unat_eq_0)

lemma uint256_try_from_uint512_iff:
  "uint256_try_from_uint512 D a = Inr c \<longleftrightarrow> val256 c = val512 a"
proof -
  define bs where "bs = uint512_to_le_bytes a"
  have len: "length bs = 64" by (simp add: bs_def val_uint512_to_le_bytes)
  have val: "val512 a = nat_of_le (take 32 bs) + 256 ^ 32 * nat_of_le (drop 32 bs)"
    using val_uint512_to_le_bytes(1) [of a] nat_of_le_append [of "take 32 bs" "drop 32 bs"] len
    by (simp add: bs_def min_def)
  have "rev (drop 32 bs) = replicate 32 0 \<longleftrightarrow> drop 32 bs = replicate 32 0"
    by (metis rev_replicate rev_rev_ident)
  then have eq: "uint256_try_from_uint512 D a = Inr c \<longleftrightarrow>
      drop 32 bs = replicate 32 0 \<and> c = uint256_from_le_bytes (take 32 bs)"
    using len by (auto simp: uint256_try_from_uint512_def Let_def uint512_to_be_bytes_rev take_rev drop_rev
        uint256_from_be_bytes_rev simp flip: bs_def)
  have "nat_of_le (take 32 bs) < 256 ^ 32" using nat_of_le_less [of "take 32 bs"] len by (simp add: min_def)
  moreover have "val256 c < 256 ^ 32" using val256_lt [of c] by simp
  moreover have "nat_of_le (drop 32 bs) \<noteq> 0 \<longleftrightarrow> drop 32 bs \<noteq> replicate 32 0"
    using nat_of_le_eq_0 [of "drop 32 bs"] len by auto
  ultimately show ?thesis
    unfolding eq val using len by (auto simp: uint256_eq_iff val_uint256_from_le_bytes)
qed

section \<open>The operations are exact\<close>

lemma map_option_wide_iff:
  "map_option Uint256 x = Some c \<longleftrightarrow> x = Some (inner256 c)"
  "map_option Uint512 y = Some d \<longleftrightarrow> y = Some (inner512 d)"
  "omap Uint256 p = Done c \<longleftrightarrow> p = Done (inner256 c)"
  "omap Uint512 q = Done d \<longleftrightarrow> q = Done (inner512 d)"
  by (auto simp: omap_eq_Done_iff)

lemmas wide_iff = map_option_wide_iff newtype_iff

locale crate256 = uint_crate_laws val_u256 256 C for C :: "u256 uint_crate"
begin

lemma uint256_checked_iff:
  "uint256_checked_add C a b = Inr c \<longleftrightarrow> val256 c = val256 a + val256 b"
  "uint256_checked_sub C a b = Inr c \<longleftrightarrow> val256 b \<le> val256 a \<and> val256 c = val256 a - val256 b"
  "uint256_checked_mul C a b = Inr c \<longleftrightarrow> val256 c = val256 a * val256 b"
  "uint256_checked_div C a b = Inr c \<longleftrightarrow> val256 b \<noteq> 0 \<and> val256 c = val256 a div val256 b"
  "uint256_checked_rem C a b = Inr c \<longleftrightarrow> val256 b \<noteq> 0 \<and> val256 c = val256 a mod val256 b"
  "uint256_checked_pow C a e = Inr c \<longleftrightarrow> val256 c = val256 a ^ unat e"
  by (simp_all add: uint256_checked_add_def uint256_checked_sub_def uint256_checked_mul_def
      uint256_checked_div_def uint256_checked_rem_def uint256_checked_pow_def wide_iff
      checked_add_iff checked_sub_iff checked_mul_iff checked_div_iff checked_rem_iff checked_pow_iff
      val_from_u32 del: map_option_eq_Some)

lemma uint256_checked_shift_iff:
  "uint256_checked_shr C a n = Inr c \<longleftrightarrow> unat n < 256 \<and> val256 c = val256 a div 2 ^ unat n"
  "uint256_checked_shl C a n = Inr c \<longleftrightarrow> unat n < 256 \<and> val256 c = val256 a * 2 ^ unat n mod 2 ^ 256"
  by (auto simp: uint256_checked_shr_def uint256_checked_shl_def uint256_eq_iff val_shr val_shl
      word_le_nat_alt not_le simp del: power_numeral)

lemma uint256_op_iff:
  "uint256_add C a b = Done c \<longleftrightarrow> val256 c = val256 a + val256 b"
  "uint256_sub C a b = Done c \<longleftrightarrow> val256 b \<le> val256 a \<and> val256 c = val256 a - val256 b"
  "uint256_mul C a b = Done c \<longleftrightarrow> val256 c = val256 a * val256 b"
  "uint256_div C a b = Done c \<longleftrightarrow> val256 b \<noteq> 0 \<and> val256 c = val256 a div val256 b"
  "uint256_rem C a b = Done c \<longleftrightarrow> val256 b \<noteq> 0 \<and> val256 c = val256 a mod val256 b"
  "uint256_pow C a n = Done c \<longleftrightarrow> val256 c = val256 a ^ unat n"
  "uint256_shr C a n = Done c \<longleftrightarrow> unat n < 256 \<and> val256 c = val256 a div 2 ^ unat n"
  "uint256_shl C a n = Done c \<longleftrightarrow> unat n < 256 \<and> val256 c = val256 a * 2 ^ unat n mod 2 ^ 256"
  by (simp_all add: uint256_add_def uint256_sub_def uint256_mul_def uint256_div_def uint256_rem_def
      uint256_pow_def uint256_shr_def uint256_shl_def wide_iff uint256_checked_iff uint256_checked_shift_iff
      checked_add_iff checked_sub_iff checked_mul_iff checked_div_iff rem_iff
      del: map_option_eq_Some power_numeral)

lemma val_uint256_from:
  "val256 (uint256_from_u128 C a) = unat a" "val256 (uint256_from_u64 C b) = unat b"
  "val256 (uint256_from_u32 C c) = unat c" "val256 (uint256_from_u16 C d) = unat d"
  "val256 (uint256_from_u8 C e) = unat e" "val256 (uint256_zero C) = 0"
  "val256 (uint256_MAX C) = 2 ^ 256 - 1"
  by (simp_all add: uint256_from_u128_def uint256_from_u64_def uint256_from_u32_def uint256_from_u16_def
      uint256_from_u8_def uint256_zero_def uint256_MAX_def val_from_u128 val_from_u64 val_from_u32
      val_from_u16 val_from_u8 val_zero val_MAX)

lemma uint256_is_zero_iff: "uint256_is_zero C a \<longleftrightarrow> val256 a = 0"
  by (simp add: uint256_is_zero_def is_zero_iff)

lemma uint128_try_from_uint256_iff:
  "uint128_try_from_uint256 C a = Inr c \<longleftrightarrow> val128 c = val256 a"
  by (cases c)
    (auto simp: uint128_try_from_uint256_def uint128_new_def map_ok_eq_Ok_iff ok_or_eq_Ok_iff try_into_u128_iff)

lemma uint256_from_str_iff:
  "uint256_from_str C s = Inr a \<longleftrightarrow>
   s \<noteq> [] \<and> (\<forall>c \<in> set s. is_digit c) \<and> digits_val 0 s = val256 a"
  using from_dec_str_iff [of s "inner256 a"]
  by (cases a) (auto simp: uint256_from_str_def split: sum.splits)

lemma uint128_full_mul_eq:
  "\<exists>c. uint128_full_mul C a b = Done c \<and> val256 c = val128 a * unat b"
proof -
  have "val128 a * unat b < 2 ^ 128 * 2 ^ 128"
    using val128_lt [of a] unat_lt [of b] by (intro mult_strict_mono) auto
  then have "val128 a * unat b < 2 ^ 256" by (simp flip: power_add)
  then show ?thesis
    using ex_val256 [of "val128 a * unat b"]
    by (simp add: uint128_full_mul_def unwrap_ok_eq_Done_iff uint256_checked_iff val_uint256_from)
qed

lemma uint128_multiply_ratio_iff:
  "uint128_multiply_ratio C a n d = Done c \<longleftrightarrow> unat d \<noteq> 0 \<and> val128 c = val128 a * unat n div unat d"
proof -
  obtain p where p: "uint128_full_mul C a n = Done p" "val256 p = val128 a * unat n"
    using uint128_full_mul_eq by blast
  have "val256 p div unat d < 2 ^ 256" by (meson div_le_dividend le_less_trans val256_lt)
  then obtain q where "val256 q = val256 p div unat d" using ex_val256 by blast
  then show ?thesis
    by (auto simp: uint128_multiply_ratio_def p obind_eq_Done_iff uint256_op_iff val_uint256_from
        expect_ok_eq_Done_iff uint128_try_from_uint256_iff unat_eq_0)
qed

end

sublocale crate256 \<subseteq> sqrt256: unsigned_int "uint256_unsigned C" val256 256
proof
  fix a b :: uint256 and n :: u32 and k :: u8
  show "val256 a < 2 ^ 256" by (rule val256_lt)
  show "val256 a + val256 b < 2 ^ 256 \<Longrightarrow>
      \<exists>c. u_add (uint256_unsigned C) a b = Done c \<and> val256 c = val256 a + val256 b"
    by (simp add: uint256_unsigned_def uint256_op_iff ex_val256 del: power_numeral)
  have "val256 a div m < 2 ^ 256" for m
    using div_le_dividend [of "val256 a" m] val256_lt [of a] by (rule le_less_trans)
  then show "val256 b \<noteq> 0 \<Longrightarrow> \<exists>c. u_div (uint256_unsigned C) a b = Done c \<and> val256 c = val256 a div val256 b"
    "unat n < 256 \<Longrightarrow> \<exists>c. u_shr (uint256_unsigned C) a n = Done c \<and> val256 c = val256 a div 2 ^ unat n"
    by (simp_all add: uint256_unsigned_def uint256_op_iff ex_val256 del: power_numeral)
  show "u_less (uint256_unsigned C) a b \<longleftrightarrow> val256 a < val256 b"
    by (simp add: uint256_unsigned_def uc_less_iff)
  show "val256 (u_from_u8 (uint256_unsigned C) k) = unat k"
    by (simp add: uint256_unsigned_def val_uint256_from)
qed simp

locale crate512 = uint_crate_laws val_u512 512 D for D :: "u512 uint_crate"
begin

lemma uint512_checked_iff:
  "uint512_checked_add D a b = Inr c \<longleftrightarrow> val512 c = val512 a + val512 b"
  "uint512_checked_sub D a b = Inr c \<longleftrightarrow> val512 b \<le> val512 a \<and> val512 c = val512 a - val512 b"
  "uint512_checked_mul D a b = Inr c \<longleftrightarrow> val512 c = val512 a * val512 b"
  "uint512_checked_div D a b = Inr c \<longleftrightarrow> val512 b \<noteq> 0 \<and> val512 c = val512 a div val512 b"
  "uint512_checked_rem D a b = Inr c \<longleftrightarrow> val512 b \<noteq> 0 \<and> val512 c = val512 a mod val512 b"
  by (simp_all add: uint512_checked_add_def uint512_checked_sub_def uint512_checked_mul_def
      uint512_checked_div_def uint512_checked_rem_def wide_iff
      checked_add_iff checked_sub_iff checked_mul_iff checked_div_iff checked_rem_iff
      del: map_option_eq_Some)

lemma uint512_op_iff:
  "uint512_add D a b = Done c \<longleftrightarrow> val512 c = val512 a + val512 b"
  "uint512_sub D a b = Done c \<longleftrightarrow> val512 b \<le> val512 a \<and> val512 c = val512 a - val512 b"
  "uint512_mul D a b = Done c \<longleftrightarrow> val512 c = val512 a * val512 b"
  "uint512_div D a b = Done c \<longleftrightarrow> val512 b \<noteq> 0 \<and> val512 c = val512 a div val512 b"
  "uint512_rem D a b = Done c \<longleftrightarrow> val512 b \<noteq> 0 \<and> val512 c = val512 a mod val512 b"
  by (simp_all add: uint512_add_def uint512_sub_def uint512_mul_def uint512_div_def uint512_rem_def
      wide_iff checked_add_iff checked_sub_iff checked_mul_iff checked_div_iff rem_iff
      del: map_option_eq_Some)

lemma uint512_shr_iff:
  "uint512_shr D a n = Done c \<longleftrightarrow> unat n < 512 \<and> val512 c = val512 a div 2 ^ unat n"
  by (auto simp: uint512_shr_def uint512_checked_shr_def uint512_eq_iff val_shr word_le_nat_alt not_le
      expect_ok_eq_Done_iff)

lemma uint256_full_mul_eq: "\<exists>c. uint256_full_mul D a b = Done c \<and> val512 c = val256 a * val256 b"
proof -
  have "val256 a * val256 b < 2 ^ 256 * 2 ^ 256"
    using val256_lt [of a] val256_lt [of b] by (intro mult_strict_mono) auto
  then have "val256 a * val256 b < 2 ^ 512" by (simp flip: power_add)
  then show ?thesis
    using ex_val512 [of "val256 a * val256 b"]
    by (simp add: uint256_full_mul_def unwrap_ok_eq_Done_iff uint512_checked_iff
        uint512_from_uint256_agree val_uint512_from_uint256)
qed

lemma uint512_div_full_mul:
  assumes "val256 d \<noteq> 0" "val512 e = val256 d"
  shows "obind (uint256_full_mul D a b) (\<lambda>p. obind (uint512_div D p e) f) = Done c \<longleftrightarrow>
    (\<exists>q. val512 q = val256 a * val256 b div val256 d \<and> f q = Done c)"
proof -
  obtain p where p: "uint256_full_mul D a b = Done p" "val512 p = val256 a * val256 b"
    using uint256_full_mul_eq by blast
  show ?thesis using assms by (simp add: p obind_eq_Done_iff uint512_op_iff)
qed

end

sublocale crate512 \<subseteq> sqrt512: unsigned_int "uint512_unsigned D" val512 512
proof
  fix a b :: uint512 and n :: u32 and k :: u8
  show "val512 a < 2 ^ 512" by (rule val512_lt)
  show "val512 a + val512 b < 2 ^ 512 \<Longrightarrow>
      \<exists>c. u_add (uint512_unsigned D) a b = Done c \<and> val512 c = val512 a + val512 b"
    by (simp add: uint512_unsigned_def uint512_op_iff ex_val512 del: power_numeral)
  have "val512 a div m < 2 ^ 512" for m
    using div_le_dividend [of "val512 a" m] val512_lt [of a] by (rule le_less_trans)
  then show "val512 b \<noteq> 0 \<Longrightarrow> \<exists>c. u_div (uint512_unsigned D) a b = Done c \<and> val512 c = val512 a div val512 b"
    "unat n < 512 \<Longrightarrow> \<exists>c. u_shr (uint512_unsigned D) a n = Done c \<and> val512 c = val512 a div 2 ^ unat n"
    by (simp_all add: uint512_unsigned_def uint512_op_iff uint512_shr_iff ex_val512 del: power_numeral)
  show "u_less (uint512_unsigned D) a b \<longleftrightarrow> val512 a < val512 b"
    by (simp add: uint512_unsigned_def uc_less_iff)
  show "val512 (u_from_u8 (uint512_unsigned D) k) = unat k"
    by (simp add: uint512_unsigned_def uint512_from_u8_def val_from_u8)
qed simp

text \<open>The square roots, stated outside the interface of the loop.\<close>

context crate256
begin

lemma uint256_isqrt_ok:
  "\<exists>r. isqrt (uint256_unsigned C) n = Some (Done r) \<and> (val256 r)\<^sup>2 \<le> val256 n \<and> val256 n < (val256 r + 1)\<^sup>2"
  by (rule sqrt256.isqrt_ok)

end

context crate512
begin

lemma uint512_isqrt_ok:
  "\<exists>r. isqrt (uint512_unsigned D) n = Some (Done r) \<and> (val512 r)\<^sup>2 \<le> val512 n \<and> val512 n < (val512 r + 1)\<^sup>2"
  by (rule sqrt512.isqrt_ok)

end

interpretation ref256: crate256 exact_u256
  by (simp add: crate256_def exact256.uint_crate_laws_axioms)

interpretation ref512: crate512 exact_u512
  by (simp add: crate512_def exact512.uint_crate_laws_axioms)

text \<open>\<open>Uint256::multiply_ratio\<close> is exact on the intermediate product.\<close>

lemma uint256_multiply_ratio_iff:
  assumes "crate256 C" "crate512 D"
  shows "uint256_multiply_ratio C D a n d = Done c \<longleftrightarrow>
    val256 d \<noteq> 0 \<and> val256 c = val256 a * val256 n div val256 d"
proof (cases "val256 d = 0")
  case False
  have "val256 a * val256 n div val256 d < 2 ^ 512"
    using crate512.uint256_full_mul_eq [OF assms(2), of a n] val512_lt
    by (metis div_le_dividend le_less_trans)
  then obtain q where "val512 q = val256 a * val256 n div val256 d" using ex_val512 by blast
  then show ?thesis
    using False
    by (auto simp: uint256_multiply_ratio_def crate256.uint256_is_zero_iff [OF assms(1)]
        crate512.uint512_div_full_mul [OF assms(2) False val_uint512_from_uint256]
        uint512_from_uint256_agree expect_ok_eq_Done_iff uint256_try_from_uint512_iff)
qed (simp add: uint256_multiply_ratio_def crate256.uint256_is_zero_iff [OF assms(1)])

end
