(* ===== verification/Decimal_Spec.thy ===== *)
theory Decimal_Spec
  imports Wide_Uint
begin

text \<open>
  What Decimal and Decimal256 have in common, stated on exact numbers: a decimal with 18
  fractional digits is the number of its atomic units, printed and read as a decimal string. The
  string functions of the standard library that both types use are here as well. The theories
  Decimal and Decimal256 show that the code implements these functions.
\<close>

section \<open>String functions of the standard library\<close>

text \<open>\<open>str::split\<close> at a character: one part more than there are separators.\<close>

fun split_char :: "char \<Rightarrow> string \<Rightarrow> string list" where
  "split_char d [] = [[]]"
| "split_char d (c # cs) =
     (if c = d then [] # split_char d cs
      else (case split_char d cs of [] \<Rightarrow> [[c]] | p # ps \<Rightarrow> (c # p) # ps))"

text \<open>The format \<open>{:0>padding$}\<close> and \<open>trim_end_matches('0')\<close>.\<close>

definition pad_zeros :: "nat \<Rightarrow> string \<Rightarrow> string" where
  "pad_zeros n s = replicate (n - length s) CHR ''0'' @ s"

definition trim_end_zeros :: "string \<Rightarrow> string" where
  "trim_end_zeros s = rev (dropWhile (\<lambda>c. c = CHR ''0'') (rev s))"

lemma split_char_nonempty [simp]: "split_char d s \<noteq> []"
  by (induction s) (auto split: list.splits)

lemma split_char_single: "d \<notin> set w \<Longrightarrow> split_char d w = [w]"
  by (induction w) auto

lemma split_char_eq_single_iff: "split_char d s = [w] \<longleftrightarrow> s = w \<and> d \<notin> set w"
proof
  show "split_char d s = [w] \<Longrightarrow> s = w \<and> d \<notin> set w"
  proof (induction s arbitrary: w)
    case (Cons c cs)
    then show ?case by (cases "split_char d cs") (auto split: if_splits)
  qed simp
qed (auto simp: split_char_single)

lemma split_char_append: "d \<notin> set w \<Longrightarrow> split_char d (w @ d # s) = w # split_char d s"
  by (induction w) auto

lemma split_char_eq_pair_iff:
  "split_char d s = [w, f] \<longleftrightarrow> s = w @ d # f \<and> d \<notin> set w \<and> d \<notin> set f"
proof
  show "split_char d s = [w, f] \<Longrightarrow> s = w @ d # f \<and> d \<notin> set w \<and> d \<notin> set f"
  proof (induction s arbitrary: w)
    case (Cons c cs)
    then show ?case
      by (cases "split_char d cs") (auto simp: split_char_eq_single_iff split: if_splits)
  qed simp
qed (auto simp: split_char_append split_char_eq_single_iff)

lemma trim_end_zeros_decomp: "\<exists>k. s = trim_end_zeros s @ replicate k CHR ''0''"
proof -
  have "s = rev (takeWhile (\<lambda>c. c = CHR ''0'') (rev s) @ dropWhile (\<lambda>c. c = CHR ''0'') (rev s))"
    by simp
  then have "s = trim_end_zeros s @ rev (takeWhile (\<lambda>c. c = CHR ''0'') (rev s))"
    by (simp only: rev_append trim_end_zeros_def)
  moreover have "takeWhile (\<lambda>c. c = CHR ''0'') (rev s) =
      replicate (length (takeWhile (\<lambda>c. c = CHR ''0'') (rev s))) CHR ''0''"
    by (rule replicate_eqI) (auto dest: set_takeWhileD)
  ultimately show ?thesis by (metis rev_replicate)
qed

section \<open>Decimal strings\<close>

abbreviation dec_unit :: nat where
  "dec_unit \<equiv> 10 ^ 18"

text \<open>The string of a number of atomic units.\<close>

definition dec_show :: "nat \<Rightarrow> string" where
  "dec_show n =
     (if n mod dec_unit = 0 then show_nat (n div dec_unit)
      else show_nat (n div dec_unit) @ ''.'' @ trim_end_zeros (pad_zeros 18 (show_nat (n mod dec_unit))))"

text \<open>
  The strings that denote \<open>n\<close> atomic units when integers are read by the relation \<open>P\<close>:
  a whole part, or a whole part and at most 18 fractional digits.
\<close>

definition dec_denotes :: "(string \<Rightarrow> nat \<Rightarrow> bool) \<Rightarrow> string \<Rightarrow> nat \<Rightarrow> bool" where
  "dec_denotes P s n \<longleftrightarrow>
     (CHR ''.'' \<notin> set s \<and> (\<exists>w. P s w \<and> n = w * dec_unit)) \<or>
     (\<exists>ws fs w f. s = ws @ CHR ''.'' # fs \<and> CHR ''.'' \<notin> set ws \<and> CHR ''.'' \<notin> set fs \<and>
        P ws w \<and> P fs f \<and> length fs \<le> 18 \<and> n = w * dec_unit + f * 10 ^ (18 - length fs))"

lemma dec_denotes_split:
  "dec_denotes P s n \<longleftrightarrow>
     (case split_char CHR ''.'' s of
        [] \<Rightarrow> False
      | ws # ps \<Rightarrow> (case ps of
            [] \<Rightarrow> \<exists>w. P ws w \<and> n = w * dec_unit
          | fs # qs \<Rightarrow> qs = [] \<and>
              (\<exists>w f. P ws w \<and> P fs f \<and> length fs \<le> 18 \<and> n = w * dec_unit + f * 10 ^ (18 - length fs))))"
proof -
  have "dec_denotes P s n \<longleftrightarrow> (\<exists>ws. split_char CHR ''.'' s = [ws] \<and> (\<exists>w. P ws w \<and> n = w * dec_unit)) \<or>
      (\<exists>ws fs. split_char CHR ''.'' s = [ws, fs] \<and>
        (\<exists>w f. P ws w \<and> P fs f \<and> length fs \<le> 18 \<and> n = w * dec_unit + f * 10 ^ (18 - length fs)))"
    unfolding dec_denotes_def split_char_eq_single_iff split_char_eq_pair_iff by blast
  then show ?thesis by (auto split: list.splits)
qed

text \<open>
  Two ways to write an integer: a non-empty string of digits, and the same after an optional plus sign,
  which the integer parser of the standard library allows.
\<close>

definition digits_denote :: "string \<Rightarrow> nat \<Rightarrow> bool" where
  "digits_denote s n \<longleftrightarrow> s \<noteq> [] \<and> (\<forall>c \<in> set s. is_digit c) \<and> digits_val 0 s = n"

definition plus_digits_denote :: "string \<Rightarrow> nat \<Rightarrow> bool" where
  "plus_digits_denote s n \<longleftrightarrow> digits_denote s n \<or> (\<exists>ds. s = CHR ''+'' # ds \<and> digits_denote ds n)"

lemma plus_not_digit [simp]: "\<not> is_digit CHR ''+''"
  by (simp add: is_digit_def)

lemma parse_uint_eq_Ok_iff: "parse_uint k s = Inr n \<longleftrightarrow> plus_digits_denote s n \<and> n < 2 ^ k"
proof -
  have digits: "parse_digits k 0 t = Inr n \<longleftrightarrow> (\<forall>c \<in> set t. is_digit c) \<and> digits_val 0 t = n \<and> n < 2 ^ k" for t
    by (rule parse_digits_eq_Ok_iff) simp
  show ?thesis
    by (cases s) (auto simp: parse_uint_def plus_digits_denote_def digits_denote_def digits simp del: digits_val_simps parse_digits.simps)
qed

lemma plus_digits_denote_unsigned: "CHR ''+'' \<notin> set s \<Longrightarrow> plus_digits_denote s n \<longleftrightarrow> digits_denote s n"
  by (auto simp: plus_digits_denote_def)

text \<open>The two parts of a string are not larger than the number it denotes.\<close>

lemma dec_denotes_parse_iff:
  assumes "n < 2 ^ k"
  shows "dec_denotes (\<lambda>t m. parse_uint k t = Inr m) s n \<longleftrightarrow> dec_denotes plus_digits_denote s n"
proof -
  have part: "w < 2 ^ k" "f < 2 ^ k" if "n = w * dec_unit + f * 10 ^ j" for w f j
  proof -
    have "w * 1 \<le> w * dec_unit" "f * 1 \<le> f * 10 ^ j" by (intro mult_le_mono2; simp)+
    then show "w < 2 ^ k" "f < 2 ^ k" using assms that by linarith+
  qed
  have whole: "w < 2 ^ k" if "n = w * dec_unit" for w
    using part(1) [of w 0 0] that by simp
  show ?thesis
    unfolding dec_denotes_def parse_uint_eq_Ok_iff using part whole by blast
qed

lemma dec_denotes_mono:
  assumes "dec_denotes P s n" "\<And>t m. set t \<subseteq> set s \<Longrightarrow> P t m \<Longrightarrow> Q t m"
  shows "dec_denotes Q s n"
proof (cases "CHR ''.'' \<in> set s")
  case True
  then obtain ws fs w f where parts: "s = ws @ CHR ''.'' # fs" "CHR ''.'' \<notin> set ws" "CHR ''.'' \<notin> set fs"
    "P ws w" "P fs f" "length fs \<le> 18" "n = w * dec_unit + f * 10 ^ (18 - length fs)"
    using assms(1) unfolding dec_denotes_def by blast
  then have "Q ws w" "Q fs f" by (auto intro!: assms(2))
  with parts show ?thesis unfolding dec_denotes_def by blast
next
  case False
  then show ?thesis using assms unfolding dec_denotes_def by fastforce
qed

lemma dec_denotes_unsigned:
  assumes "CHR ''+'' \<notin> set s"
  shows "dec_denotes plus_digits_denote s n \<longleftrightarrow> dec_denotes digits_denote s n"
proof -
  have same: "plus_digits_denote t m \<longleftrightarrow> digits_denote t m" if "set t \<subseteq> set s" for t m
    using assms that by (intro plus_digits_denote_unsigned) blast
  show ?thesis
  proof
    show "dec_denotes digits_denote s n" if "dec_denotes plus_digits_denote s n"
      by (rule dec_denotes_mono [OF that]) (simp add: same)
    show "dec_denotes plus_digits_denote s n" if "dec_denotes digits_denote s n"
      by (rule dec_denotes_mono [OF that]) (simp add: same)
  qed
qed

lemma digit_list_no_dot: "(\<And>c. c \<in> set s \<Longrightarrow> \<exists>d < 10. c = digit_char d) \<Longrightarrow> CHR ''.'' \<notin> set s"
  using digit_char_simps(4) by metis

lemma zero_char: "CHR ''0'' = digit_char 0"
  using digit_char_simps(5) [of 0] by simp

lemma digits_val_zeros [simp]: "digits_val 0 (replicate k CHR ''0'') = 0"
  by (induction k) (simp_all add: digit_val_def)

lemma length_show_nat: "n < 10 ^ k \<Longrightarrow> 0 < k \<Longrightarrow> length (show_nat n) \<le> k"
proof (induction k arbitrary: n)
  case (Suc k)
  show ?case
  proof (cases "n < 10")
    case False
    then have "0 < k" using Suc.prems(1) by (cases k) auto
    moreover have "n div 10 < 10 ^ k" using Suc.prems(1) by (simp add: less_mult_imp_div_less)
    ultimately show ?thesis using Suc.IH False by (subst show_nat.simps) simp
  qed (simp add: show_nat.simps)
qed simp

text \<open>A printed decimal denotes the number it was printed from.\<close>

lemma dec_show_denotes:
  assumes digits: "\<And>s. s \<noteq> [] \<Longrightarrow> (\<And>c. c \<in> set s \<Longrightarrow> \<exists>d < 10. c = digit_char d) \<Longrightarrow>
      digits_val 0 s \<le> max n dec_unit \<Longrightarrow> P s (digits_val 0 s)"
  shows "dec_denotes P (dec_show n) n"
proof (cases "n mod dec_unit = 0")
  case True
  have "P (show_nat (n div dec_unit)) (n div dec_unit)"
    using digits [of "show_nat (n div dec_unit)"] show_nat_digits
    by (simp add: div_le_dividend le_max_iff_disj del: power_numeral)
  moreover have "CHR ''.'' \<notin> set (show_nat (n div dec_unit))"
    by (rule digit_list_no_dot) (rule show_nat_digits)
  moreover have "n = n div dec_unit * dec_unit" using True by (metis add.right_neutral div_mult_mod_eq)
  ultimately show ?thesis using True by (auto simp: dec_denotes_def dec_show_def simp del: power_numeral)
next
  case False
  define ws where "ws = show_nat (n div dec_unit)"
  define ps where "ps = pad_zeros 18 (show_nat (n mod dec_unit))"
  define fs where "fs = trim_end_zeros ps"
  have len: "length ps = 18"
    using length_show_nat [of "n mod dec_unit" 18] by (simp add: ps_def pad_zeros_def)
  obtain k where k: "ps = fs @ replicate k CHR ''0''"
    using trim_end_zeros_decomp fs_def by blast
  have kl: "k = 18 - length fs" "length fs \<le> 18" using len k by auto
  have ps_digits: "c \<in> set ps \<Longrightarrow> \<exists>d < 10. c = digit_char d" for c
    using show_nat_digits zero_char by (auto simp: ps_def pad_zeros_def intro: exI [of _ 0])
  then have fs_digits: "c \<in> set fs \<Longrightarrow> \<exists>d < 10. c = digit_char d" for c using k by auto
  have "digits_val 0 ps = n mod dec_unit" by (simp add: ps_def pad_zeros_def)
  then have val: "digits_val 0 fs * 10 ^ (18 - length fs) = n mod dec_unit"
    using digits_val_acc [of "digits_val 0 fs" "replicate k CHR ''0''"] by (simp add: k kl)
  have "fs \<noteq> []" using val False by auto
  moreover have "digits_val 0 fs \<le> n mod dec_unit" unfolding val [symmetric] by simp
  then have "digits_val 0 fs \<le> max n dec_unit"
    using mod_less_eq_dividend [of n dec_unit] by (meson le_max_iff_disj order_trans)
  ultimately have "P fs (digits_val 0 fs)" using digits fs_digits by blast
  moreover have "P ws (n div dec_unit)"
    using digits [of ws] show_nat_digits by (simp add: ws_def div_le_dividend le_max_iff_disj del: power_numeral)
  moreover have "CHR ''.'' \<notin> set ws" "CHR ''.'' \<notin> set fs"
    using digit_list_no_dot show_nat_digits fs_digits by (auto simp: ws_def)
  moreover have "n = n div dec_unit * dec_unit + digits_val 0 fs * 10 ^ (18 - length fs)"
    unfolding val by (rule div_mult_mod_eq [symmetric])
  moreover have "dec_show n = ws @ CHR ''.'' # fs"
    using False by (simp add: dec_show_def ws_def fs_def ps_def del: power_numeral)
  ultimately show ?thesis unfolding dec_denotes_def using kl(2) by blast
qed

end
