(* ===== verification/Decimal.thy ===== *)
theory Decimal
  imports Decimal_Spec
begin

text \<open>
  \<open>Decimal\<close> of \<open>packages/std/src/math/decimal.rs\<close>: a fixed-point number with 18
  fractional digits in a Uint128. Its product goes through Uint256, so the operations that use it
  take the functions of the crate uint as an argument.
\<close>

section \<open>The code\<close>

datatype decimal = Decimal (atomics: uint128)

abbreviation valD :: "decimal \<Rightarrow> nat" where
  "valD d \<equiv> val128 (atomics d)"

datatype decimal_range_exceeded = DecimalRangeExceeded

definition decimal_fractional :: uint128 where
  "decimal_fractional = uint128_new 1000000000000000000"

definition decimal_fractional_squared :: uint128 where
  "decimal_fractional_squared = uint128_new 1000000000000000000000000000000000000"

definition decimal_places :: nat where
  "decimal_places = 18"

definition decimal_MAX :: decimal where
  "decimal_MAX = Decimal uint128_MAX"

definition decimal_one :: decimal where
  "decimal_one = Decimal decimal_fractional"

definition decimal_zero :: decimal where
  "decimal_zero = Decimal uint128_zero"

definition decimal_percent :: "u64 \<Rightarrow> decimal" where
  "decimal_percent x = Decimal (uint128_from_u128 (ucast x * 10000000000000000))"

definition decimal_permille :: "u64 \<Rightarrow> decimal" where
  "decimal_permille x = Decimal (uint128_from_u128 (ucast x * 1000000000000000))"

definition decimal_from_atomics :: "uint128 \<Rightarrow> u32 \<Rightarrow> (decimal_range_exceeded, decimal) result outcome" where
  "decimal_from_atomics atoms places =
     (let TEN = uint128_new 10 in
      if places < 18 then
        obind (unwrap_ok (uint128_checked_pow TEN (18 - places))) (\<lambda>factor.
        Done (map_ok Decimal (map_err (\<lambda>_. DecimalRangeExceeded) (uint128_checked_mul atoms factor))))
      else if places = 18 then Done (Inr (Decimal atoms))
      else case uint128_checked_pow TEN (places - 18) of
             Inr factor \<Rightarrow> omap (\<lambda>q. Inr (Decimal q)) (unwrap_ok (uint128_checked_div atoms factor))
           | Inl _ \<Rightarrow> Done (Inr (Decimal uint128_zero)))"

definition decimal_from_ratio :: "u256 uint_crate \<Rightarrow> uint128 \<Rightarrow> uint128 \<Rightarrow> decimal outcome" where
  "decimal_from_ratio C numerator denominator =
     (if uint128_is_zero denominator then Panic ''Denominator must not be zero''
      else omap Decimal (uint128_multiply_ratio C numerator (u128 decimal_fractional) (u128 denominator)))"

definition decimal_is_zero :: "decimal \<Rightarrow> bool" where
  "decimal_is_zero self \<longleftrightarrow> uint128_is_zero (atomics self)"

text \<open>
  The square root. The outer option says whether the loop of the integer square root ends.
\<close>

definition decimal_sqrt_with_precision :: "decimal \<Rightarrow> u32 \<Rightarrow> decimal option outcome option" where
  "decimal_sqrt_with_precision self precision =
     (let inner_mul = wrapping_pow (100 :: u128) precision in
      case result_ok (uint128_checked_mul (atomics self) (uint128_from_u128 inner_mul)) of
        None \<Rightarrow> Some (Done None)
      | Some inner \<Rightarrow>
          let outer_mul = wrapping_pow (10 :: u128) (9 - precision) in
          map_option (\<lambda>root. obind root (\<lambda>r.
              omap (\<lambda>p. Some (Decimal p)) (unwrap_ok (uint128_checked_mul r (uint128_from_u128 outer_mul)))))
            (isqrt uint128_unsigned inner))"

fun decimal_sqrt_find :: "decimal \<Rightarrow> u32 list \<Rightarrow> decimal outcome option" where
  "decimal_sqrt_find self [] = Some (unwrap None)"
| "decimal_sqrt_find self (i # is) =
     (case decimal_sqrt_with_precision self i of
        None \<Rightarrow> None
      | Some (Panic m) \<Rightarrow> Some (Panic m)
      | Some (Done None) \<Rightarrow> decimal_sqrt_find self is
      | Some (Done (Some d)) \<Rightarrow> Some (Done d))"

definition decimal_sqrt :: "decimal \<Rightarrow> decimal outcome option" where
  "decimal_sqrt self = decimal_sqrt_find self (map word_of_nat (rev [0..<decimal_places div 2 + 1]))"

definition decimal_numerator :: "decimal \<Rightarrow> uint128" where
  "decimal_numerator self = atomics self"

definition decimal_denominator :: "decimal \<Rightarrow> uint128" where
  "decimal_denominator self = decimal_fractional"

definition decimal_inv :: "decimal \<Rightarrow> decimal option outcome" where
  "decimal_inv self =
     (if decimal_is_zero self then Done None
      else omap (\<lambda>q. Some (Decimal q)) (uint128_div decimal_fractional_squared (atomics self)))"

text \<open>Reading a decimal string; the fractional part is added by a function of its own.\<close>

definition decimal_add_fractional :: "uint128 \<Rightarrow> string \<Rightarrow> uint128 std_result outcome" where
  "decimal_add_fractional atoms fractional_part =
     orbind (Done (map_err (\<lambda>_. GenericErr ''Error parsing fractional'') (uint128_from_str fractional_part)))
       (\<lambda>fractional.
     if decimal_places < length fractional_part
     then Done (Inl (GenericErr (''Cannot parse more than '' @ show_nat decimal_places @ '' fractional digits'')))
     else
       let exp = decimal_places - length fractional_part;
           fractional_factor = uint128_from_u128 (wrapping_pow 10 (word_of_nat exp))
       in obind (unwrap_ok (uint128_checked_mul fractional fractional_factor)) (\<lambda>summand.
          Done (map_err (\<lambda>_. GenericErr ''Value too big'') (uint128_checked_add atoms summand))))"

definition decimal_from_str :: "string \<Rightarrow> decimal std_result outcome" where
  "decimal_from_str input =
     (let parts = split_char CHR ''.'' input; whole_part = hd parts in
      orbind (Done (map_err (\<lambda>_. GenericErr ''Error parsing whole'') (uint128_from_str whole_part))) (\<lambda>whole.
      orbind (Done (map_err (\<lambda>_. GenericErr ''Value too big'') (uint128_checked_mul whole decimal_fractional)))
        (\<lambda>whole_atoms.
      orbind (case tl parts of
                [] \<Rightarrow> Done (Inr whole_atoms)
              | fractional_part # _ \<Rightarrow> decimal_add_fractional whole_atoms fractional_part) (\<lambda>atoms.
      if 2 < length parts then Done (Inl (GenericErr ''Unexpected number of dots''))
      else Done (Inr (Decimal atoms))))))"

definition decimal_to_string :: "decimal \<Rightarrow> string outcome" where
  "decimal_to_string self =
     obind (uint128_div (atomics self) decimal_fractional) (\<lambda>whole.
     obind (unwrap_ok (uint128_checked_rem (atomics self) decimal_fractional)) (\<lambda>fractional.
     if uint128_is_zero fractional then Done (uint128_to_string whole)
     else
       let fractional_string = pad_zeros decimal_places (uint128_to_string fractional)
       in Done (uint128_to_string whole @ ''.'' @ trim_end_zeros fractional_string)))"

definition decimal_add :: "decimal \<Rightarrow> decimal \<Rightarrow> decimal outcome" where
  "decimal_add self other = omap Decimal (uint128_add (atomics self) (atomics other))"

definition decimal_sub :: "decimal \<Rightarrow> decimal \<Rightarrow> decimal outcome" where
  "decimal_sub self other = omap Decimal (uint128_sub (atomics self) (atomics other))"

definition decimal_mul :: "u256 uint_crate \<Rightarrow> decimal \<Rightarrow> decimal \<Rightarrow> decimal outcome" where
  "decimal_mul C self other =
     obind (uint128_full_mul C (decimal_numerator self) (u128 (decimal_numerator other))) (\<lambda>product.
     obind (uint256_div C product (uint256_from_uint128 decimal_fractional)) (\<lambda>result_as_uint256.
     case uint128_try_from_uint256 C result_as_uint256 of
       Inr result \<Rightarrow> Done (Decimal result)
     | Inl _ \<Rightarrow> Panic ''attempt to multiply with overflow''))"

definition uint128_mul_decimal :: "u256 uint_crate \<Rightarrow> uint128 \<Rightarrow> decimal \<Rightarrow> uint128 outcome" where
  "uint128_mul_decimal C self rhs =
     (if uint128_is_zero self \<or> decimal_is_zero rhs then Done uint128_zero
      else uint128_multiply_ratio C self (u128 (atomics rhs)) (u128 decimal_fractional))"

definition decimal_mul_uint128 :: "u256 uint_crate \<Rightarrow> decimal \<Rightarrow> uint128 \<Rightarrow> uint128 outcome" where
  "decimal_mul_uint128 C self rhs = uint128_mul_decimal C rhs self"

definition decimal_div_uint128 :: "decimal \<Rightarrow> uint128 \<Rightarrow> decimal outcome" where
  "decimal_div_uint128 self rhs = omap Decimal (uint128_div (atomics self) rhs)"

definition decimal_div_assign :: "decimal \<Rightarrow> uint128 \<Rightarrow> decimal outcome" where
  "decimal_div_assign self rhs = omap Decimal (uint128_div_assign (atomics self) rhs)"

definition decimal_sum :: "decimal list \<Rightarrow> decimal outcome" where
  "decimal_sum xs = foldl (\<lambda>acc x. obind acc (\<lambda>a. decimal_add a x)) (Done decimal_zero) xs"

section \<open>Facts about the code\<close>

lemma valD_lt: "valD d < 2 ^ 128"
  by (rule val128_lt)

lemma decimal_eq_iff: "a = b \<longleftrightarrow> valD a = valD b"
  by (cases a; cases b) (simp add: uint128_eq_iff)

lemma ex_valD: "n < 2 ^ 128 \<Longrightarrow> \<exists>d. valD d = n"
  by (metis decimal.sel ex_val128)

lemma omap_Decimal_iff: "omap Decimal x = Done c \<longleftrightarrow> x = Done (atomics c)"
  by (auto simp: omap_eq_Done_iff)

lemma val_decimal_fractional [simp]: "val128 decimal_fractional = dec_unit"
  by (simp add: decimal_fractional_def uint128_new_def)

lemma val_decimal_fractional_squared [simp]: "val128 decimal_fractional_squared = dec_unit * dec_unit"
  by (simp add: decimal_fractional_squared_def uint128_new_def)

lemma val_uint128_zero [simp]: "val128 uint128_zero = 0"
  by (simp add: uint128_zero_def)

lemma uint128_is_zero_iff: "uint128_is_zero a \<longleftrightarrow> val128 a = 0"
  by (simp add: uint128_is_zero_def unat_eq_0)

lemma uint128_from_str_iff: "uint128_from_str s = Inr a \<longleftrightarrow> parse_uint 128 s = Inr (val128 a)"
  using parse_word_Ok_iff [of s "u128 a"]
  by (cases a) (auto simp: uint128_from_str_def split: sum.splits)

lemma wrapping_pow_exact:
  "unat b ^ unat e < 2 ^ LENGTH('a) \<Longrightarrow> unat (wrapping_pow (b :: 'a::len word) e) = unat b ^ unat e"
  by (simp add: wrapping_pow_def unat_pow_exact)

lemma pow_le_18: "k \<le> 18 \<Longrightarrow> (10 :: nat) ^ k < 2 ^ 128"
proof -
  assume "k \<le> 18"
  then have "(10 :: nat) ^ k \<le> 10 ^ 18" by (intro power_increasing) auto
  then show ?thesis by simp
qed

subsection \<open>Constructors\<close>

lemma decimal_percent_val: "valD (decimal_percent x) * 100 = unat x * dec_unit"
proof -
  have "unat (ucast x :: u128) * unat (10000000000000000 :: u128) < 2 ^ LENGTH(128)"
    using unat_lt [of x] by (simp add: unat_ucast_widen)
  then have "unat (ucast x * 10000000000000000 :: u128) = unat x * 10000000000000000"
    by (subst unat_mul_exact) (simp_all add: unat_ucast_widen)
  then show ?thesis by (simp add: decimal_percent_def uint128_from_u128_def unat_ucast_widen)
qed

lemma decimal_permille_val: "valD (decimal_permille x) * 1000 = unat x * dec_unit"
proof -
  have "unat (ucast x :: u128) * unat (1000000000000000 :: u128) < 2 ^ LENGTH(128)"
    using unat_lt [of x] by (simp add: unat_ucast_widen)
  then have "unat (ucast x * 1000000000000000 :: u128) = unat x * 1000000000000000"
    by (subst unat_mul_exact) (simp_all add: unat_ucast_widen)
  then show ?thesis by (simp add: decimal_permille_def uint128_from_u128_def unat_ucast_widen)
qed

lemma checked_pow_ten:
  "uint128_checked_pow (uint128_new 10) e = Inr f \<longleftrightarrow> val128 f = 10 ^ unat e"
  by (simp add: uint128_checked_iff uint128_new_def)

lemma decimal_from_atomics_small:
  assumes "unat p \<le> 18"
  shows "\<exists>r. decimal_from_atomics a p = Done r \<and>
    (\<forall>d. r = Inr d \<longleftrightarrow> valD d = val128 a * 10 ^ (18 - unat p))"
proof (cases "p = 18")
  case True
  then show ?thesis by (auto simp: decimal_from_atomics_def decimal_eq_iff)
next
  case False
  then have less: "p < 18" using assms by (simp add: word_less_nat_alt word_unat_eq_iff)
  then have sub: "unat (18 - p) = 18 - unat p" by (simp add: unat_sub less_imp_le)
  obtain f where f: "val128 f = 10 ^ unat (18 - p)"
    using ex_val128 pow_le_18 [of "18 - unat p"] by (auto simp: sub)
  then have "uint128_checked_pow (uint128_new 10) (18 - p) = Inr f" by (simp add: checked_pow_ten)
  with less have "decimal_from_atomics a p =
      Done (map_ok Decimal (map_err (\<lambda>_. DecimalRangeExceeded) (uint128_checked_mul a f)))"
    by (simp add: decimal_from_atomics_def)
  then show ?thesis
    by (auto simp: map_ok_eq_Ok_iff map_err_eq_Ok_iff uint128_checked_iff decimal_eq_iff f sub
        intro: exI [of _ "atomics _"])
qed

lemma decimal_from_atomics_large:
  assumes "18 < unat p"
  shows "\<exists>d. decimal_from_atomics a p = Done (Inr d) \<and> valD d = val128 a div 10 ^ (unat p - 18)"
proof -
  have sub: "unat (p - 18) = unat p - 18" using assms by (simp add: unat_sub word_le_nat_alt)
  have branch: "\<not> p < 18" "p \<noteq> 18" using assms by (auto simp: word_less_nat_alt)
  show ?thesis
  proof (cases "uint128_checked_pow (uint128_new 10) (p - 18)")
    case (Inl e)
    then have "\<not> 10 ^ (unat p - 18) < (2 :: nat) ^ 128"
      using ex_val128 checked_pow_ten [of "p - 18"] sub by fastforce
    then have "val128 a < 10 ^ (unat p - 18)" using val128_lt [of a] by linarith
    then show ?thesis using branch Inl by (simp add: decimal_from_atomics_def)
  next
    case (Inr f)
    then have f: "val128 f = 10 ^ (unat p - 18)" by (simp add: checked_pow_ten sub)
    have "val128 a div val128 f < 2 ^ 128" by (meson div_le_dividend le_less_trans val128_lt)
    then obtain q where q: "val128 q = val128 a div val128 f" using ex_val128 by blast
    then have "uint128_checked_div a f = Inr q" by (simp add: uint128_checked_iff f)
    with branch Inr have "decimal_from_atomics a p = Done (Inr (Decimal q))"
      by (simp add: decimal_from_atomics_def)
    with q f show ?thesis by simp
  qed
qed

subsection \<open>Arithmetic\<close>

lemma decimal_add_iff: "decimal_add a b = Done c \<longleftrightarrow> valD c = valD a + valD b"
  by (simp add: decimal_add_def omap_Decimal_iff uint128_op_iff)

lemma decimal_sub_iff: "decimal_sub a b = Done c \<longleftrightarrow> valD b \<le> valD a \<and> valD c = valD a - valD b"
  by (simp add: decimal_sub_def omap_Decimal_iff uint128_op_iff)

lemma decimal_div_uint128_iff: "decimal_div_uint128 a n = Done c \<longleftrightarrow> val128 n \<noteq> 0 \<and> valD c = valD a div val128 n"
  by (simp add: decimal_div_uint128_def omap_Decimal_iff uint128_op_iff)

lemma decimal_inv_eq:
  "decimal_inv d = Done None \<longleftrightarrow> valD d = 0"
  "decimal_inv d = Done (Some e) \<longleftrightarrow> valD d \<noteq> 0 \<and> valD e = dec_unit * dec_unit div valD d"
  by (cases e; auto simp: decimal_inv_def decimal_is_zero_def uint128_is_zero_iff omap_eq_Done_iff
      uint128_op_iff simp del: power_numeral)+

context crate256
begin

lemma decimal_from_ratio_iff:
  "decimal_from_ratio C n d = Done c \<longleftrightarrow> val128 d \<noteq> 0 \<and> valD c = val128 n * dec_unit div val128 d"
  by (auto simp: decimal_from_ratio_def omap_Decimal_iff uint128_multiply_ratio_iff uint128_is_zero_iff
      simp del: power_numeral)

lemma decimal_mul_iff: "decimal_mul C a b = Done c \<longleftrightarrow> valD c = valD a * valD b div dec_unit"
proof -
  obtain p where p: "uint128_full_mul C (atomics a) (u128 (atomics b)) = Done p" "val256 p = valD a * valD b"
    using uint128_full_mul_eq by blast
  have "val256 p div dec_unit < 2 ^ 256" by (meson div_le_dividend le_less_trans val256_lt)
  then obtain q where q: "uint256_div C p (uint256_from_uint128 decimal_fractional) = Done q"
    "val256 q = valD a * valD b div dec_unit"
    using ex_val256 by (auto simp: uint256_op_iff val_uint256_from_uint128 p(2) simp del: power_numeral)
  have "uint128_try_from_uint256 C q = Inr (atomics c) \<longleftrightarrow> valD c = val256 q"
    by (simp add: uint128_try_from_uint256_iff)
  then show ?thesis
    by (cases c) (auto simp: decimal_mul_def decimal_numerator_def p(1) q split: sum.splits)
qed

lemma uint128_mul_decimal_iff:
  "uint128_mul_decimal C u d = Done c \<longleftrightarrow> val128 c = val128 u * valD d div dec_unit"
  by (auto simp: uint128_mul_decimal_def uint128_is_zero_iff decimal_is_zero_def uint128_multiply_ratio_iff
      uint128_eq_iff simp del: power_numeral)

end

subsection \<open>Square root\<close>

lemma decimal_sqrt_with_precision_None:
  assumes "unat p \<le> 9" "2 ^ 128 \<le> valD d * 100 ^ unat p"
  shows "decimal_sqrt_with_precision d p = Some (Done None)"
proof -
  have "(100 :: nat) ^ unat p \<le> 100 ^ 9" using assms(1) by (intro power_increasing) auto
  then have "val128 (uint128_from_u128 (wrapping_pow 100 p)) = 100 ^ unat p"
    by (simp add: uint128_from_u128_def wrapping_pow_exact)
  then have "uint128_checked_mul (atomics d) (uint128_from_u128 (wrapping_pow 100 p)) \<noteq> Inr c" for c
    using assms(2) val128_lt [of c] by (simp add: uint128_checked_iff)
  then have "result_ok (uint128_checked_mul (atomics d) (uint128_from_u128 (wrapping_pow 100 p))) = None"
    by (cases "uint128_checked_mul (atomics d) (uint128_from_u128 (wrapping_pow 100 p))") auto
  then show ?thesis by (simp add: decimal_sqrt_with_precision_def)
qed

lemma decimal_sqrt_with_precision_Some:
  assumes "unat p \<le> 9" "valD d * 100 ^ unat p < 2 ^ 128"
  shows "\<exists>e r. decimal_sqrt_with_precision d p = Some (Done (Some e)) \<and> valD e = r * 10 ^ (9 - unat p) \<and>
    r\<^sup>2 \<le> valD d * 100 ^ unat p \<and> valD d * 100 ^ unat p < (r + 1)\<^sup>2"
proof -
  have "(100 :: nat) ^ unat p \<le> 100 ^ 9" using assms(1) by (intro power_increasing) auto
  then have im: "val128 (uint128_from_u128 (wrapping_pow 100 p)) = 100 ^ unat p"
    by (simp add: uint128_from_u128_def wrapping_pow_exact)
  obtain inner where inner: "uint128_checked_mul (atomics d) (uint128_from_u128 (wrapping_pow 100 p)) = Inr inner"
    "val128 inner = valD d * 100 ^ unat p"
    using ex_val128 [OF assms(2)] by (auto simp: uint128_checked_iff im)
  obtain r where r: "isqrt uint128_unsigned inner = Some (Done r)"
    "(val128 r)\<^sup>2 \<le> val128 inner" "val128 inner < (val128 r + 1)\<^sup>2"
    using uint128_int.isqrt_ok by blast
  have sub: "unat (9 - p) = 9 - unat p" using assms(1) by (simp add: unat_sub word_le_nat_alt)
  have ten: "(10 :: nat) ^ (9 - unat p) \<le> 10 ^ 9" by (intro power_increasing) auto
  then have om: "val128 (uint128_from_u128 (wrapping_pow 10 (9 - p))) = 10 ^ (9 - unat p)"
    by (simp add: uint128_from_u128_def wrapping_pow_exact sub)
  have "(val128 r)\<^sup>2 < (2 ^ 64)\<^sup>2" using r(2) val128_lt [of inner] by simp
  then have "val128 r < 2 ^ 64" by (rule power_less_imp_less_base) simp
  then have "val128 r * 10 ^ (9 - unat p) < 2 ^ 64 * 2 ^ 64"
    using ten by (intro mult_less_le_imp_less) auto
  then obtain s where "uint128_checked_mul r (uint128_from_u128 (wrapping_pow 10 (9 - p))) = Inr s"
    "val128 s = val128 r * 10 ^ (9 - unat p)"
    using ex_val128 [of "val128 r * 10 ^ (9 - unat p)"] by (auto simp: uint128_checked_iff om)
  then have "decimal_sqrt_with_precision d p = Some (Done (Some (Decimal s)))"
    using inner(1) r(1) by (simp add: decimal_sqrt_with_precision_def Let_def)
  with r(2,3) inner(2) \<open>val128 s = _\<close> show ?thesis by auto
qed

text \<open>The result is the one for the highest precision that does not overflow.\<close>

lemma decimal_sqrt_find_ok:
  assumes "k \<in> set ps" "valD d * 100 ^ unat k < 2 ^ 128" "\<forall>p \<in> set ps. unat p \<le> 9"
    and "sorted_wrt (\<lambda>p q. unat q \<le> unat p) ps"
  shows "\<exists>p e r. decimal_sqrt_find d ps = Some (Done e) \<and> p \<in> set ps \<and> valD e = r * 10 ^ (9 - unat p) \<and>
    r\<^sup>2 \<le> valD d * 100 ^ unat p \<and> valD d * 100 ^ unat p < (r + 1)\<^sup>2 \<and> valD d * 100 ^ unat p < 2 ^ 128 \<and>
    (\<forall>q \<in> set ps. valD d * 100 ^ unat q < 2 ^ 128 \<longrightarrow> unat q \<le> unat p)"
  using assms
proof (induction ps)
  case (Cons p ps)
  show ?case
  proof (cases "valD d * 100 ^ unat p < 2 ^ 128")
    case True
    with Cons.prems decimal_sqrt_with_precision_Some [of p d] show ?thesis by fastforce
  next
    case False
    then have none: "decimal_sqrt_with_precision d p = Some (Done None)"
      using Cons.prems decimal_sqrt_with_precision_None by simp
    have "k \<noteq> p" using False Cons.prems by auto
    with Cons obtain q e r where "decimal_sqrt_find d ps = Some (Done e)" "q \<in> set ps"
      "valD e = r * 10 ^ (9 - unat q)" "r\<^sup>2 \<le> valD d * 100 ^ unat q" "valD d * 100 ^ unat q < (r + 1)\<^sup>2"
      "valD d * 100 ^ unat q < 2 ^ 128"
      "\<forall>q' \<in> set ps. valD d * 100 ^ unat q' < 2 ^ 128 \<longrightarrow> unat q' \<le> unat q"
      by auto
    with none False show ?thesis by (intro exI [of _ q] exI [of _ e] exI [of _ r]) auto
  qed
qed simp

lemma decimal_sqrt_precision:
  "\<exists>p e r. p \<le> 9 \<and> decimal_sqrt d = Some (Done e) \<and> valD e = r * 10 ^ (9 - p) \<and>
    r\<^sup>2 \<le> valD d * 100 ^ p \<and> valD d * 100 ^ p < (r + 1)\<^sup>2 \<and> valD d * 100 ^ p < 2 ^ 128 \<and>
    (\<forall>q \<le> 9. valD d * 100 ^ q < 2 ^ 128 \<longrightarrow> q \<le> p)"
proof -
  define ps :: "u32 list" where "ps = map word_of_nat (rev [0..<10])"
  have ps: "ps = [9, 8, 7, 6, 5, 4, 3, 2, 1, 0]" by (simp add: ps_def upt_rec)
  have sorted: "0 \<in> set ps" "\<forall>p \<in> set ps. unat p \<le> 9" "sorted_wrt (\<lambda>p q. unat q \<le> unat p) ps"
    by (simp_all add: ps)
  have zero: "valD d * 100 ^ unat (0 :: u32) < 2 ^ 128" using valD_lt [of d] by simp
  have "\<exists>w \<in> set ps. unat w = q" if "q \<le> 9" for q
    using that by (intro bexI [of _ "word_of_nat q"]) (auto simp: ps_def unat_of_nat)
  moreover obtain p e r where "decimal_sqrt_find d ps = Some (Done e)" "p \<in> set ps"
    "valD e = r * 10 ^ (9 - unat p)" "r\<^sup>2 \<le> valD d * 100 ^ unat p" "valD d * 100 ^ unat p < (r + 1)\<^sup>2"
    "valD d * 100 ^ unat p < 2 ^ 128" "\<forall>q \<in> set ps. valD d * 100 ^ unat q < 2 ^ 128 \<longrightarrow> unat q \<le> unat p"
    using decimal_sqrt_find_ok [OF sorted(1) zero sorted(2,3)] by blast
  moreover have "unat p \<le> 9" using \<open>p \<in> set ps\<close> by (auto simp: ps)
  moreover have "decimal_sqrt d = decimal_sqrt_find d ps"
    by (simp add: decimal_sqrt_def decimal_places_def ps_def)
  ultimately show ?thesis by metis
qed

subsection \<open>Strings\<close>

lemma decimal_to_string_eq: "decimal_to_string d = Done (dec_show (valD d))"
proof -
  have "valD d div dec_unit < 2 ^ 128" "valD d mod dec_unit < 2 ^ 128"
    by (meson div_le_dividend mod_less_eq_dividend le_less_trans valD_lt)+
  then obtain q r where "val128 q = valD d div dec_unit" "val128 r = valD d mod dec_unit"
    using ex_val128 by metis
  moreover from this have "uint128_div (atomics d) decimal_fractional = Done q"
    "uint128_checked_rem (atomics d) decimal_fractional = Inr r"
    by (simp_all add: uint128_op_iff uint128_checked_iff)
  ultimately show ?thesis
    by (simp add: decimal_to_string_def dec_show_def uint128_is_zero_iff uint128_to_string_def to_string_def
        decimal_places_def)
qed

lemma parse_uint_fraction_bound:
  "parse_uint n s = Inr f \<Longrightarrow> f < 10 ^ length s"
proof -
  have bound: "(\<forall>c \<in> set s. is_digit c) \<Longrightarrow> digits_val 0 s < 10 ^ length s" for s
  proof (induction s rule: rev_induct)
    case (snoc c cs)
    then have "digit_val c < 10" "digits_val 0 cs + 1 \<le> 10 ^ length cs"
      by (auto simp: is_digit_def digit_val_def)
    then show ?case by simp
  qed simp
  assume "parse_uint n s = Inr f"
  then obtain ds where ds: "parse_digits n 0 ds = Inr f" "length ds \<le> length s"
    by (auto simp: parse_uint_def simp del: parse_digits.simps(2) split: list.splits if_splits)
  then have "f < 10 ^ length ds" using bound [of ds] by (simp add: parse_digits_eq_Ok_iff)
  also have "(10 :: nat) ^ length ds \<le> 10 ^ length s" using ds(2) by (intro power_increasing) auto
  finally show ?thesis .
qed

lemma decimal_add_fractional_ok:
  "\<exists>r. decimal_add_fractional a s = Done r \<and>
   (\<forall>b. r = Inr b \<longleftrightarrow> (\<exists>f. parse_uint 128 s = Inr f \<and> length s \<le> 18 \<and> val128 b = val128 a + f * 10 ^ (18 - length s)))"
proof (cases "uint128_from_str s")
  case (Inl e)
  then have "parse_uint 128 s \<noteq> Inr f" for f
    using uint128_from_str_iff [of s] ex_val128 parse_uint_less [of 128 s f] by fastforce
  with Inl show ?thesis by (auto simp: decimal_add_fractional_def)
next
  case (Inr fr)
  then have fr: "parse_uint 128 s = Inr (val128 fr)" by (simp add: uint128_from_str_iff)
  show ?thesis
  proof (cases "length s \<le> 18")
    case True
    have le: "(10 :: nat) ^ (18 - length s) \<le> 10 ^ 18" by (intro power_increasing) auto
    then have factor: "val128 (uint128_from_u128 (wrapping_pow 10 (word_of_nat (18 - length s)))) = 10 ^ (18 - length s)"
      by (simp add: uint128_from_u128_def wrapping_pow_exact unat_of_nat)
    have "val128 fr < 10 ^ length s" using parse_uint_fraction_bound [OF fr] .
    then have "val128 fr * 10 ^ (18 - length s) < 10 ^ length s * 10 ^ (18 - length s)" by simp
    also have "\<dots> = 10 ^ 18" using True by (simp flip: power_add)
    finally have "val128 fr * 10 ^ (18 - length s) < 2 ^ 128" by simp
    then obtain m where m: "val128 m = val128 fr * 10 ^ (18 - length s)" using ex_val128 by blast
    then have "uint128_checked_mul fr (uint128_from_u128 (wrapping_pow 10 (word_of_nat (18 - length s)))) = Inr m"
      by (simp add: uint128_checked_iff factor)
    with True Inr have "decimal_add_fractional a s =
        Done (map_err (\<lambda>_. GenericErr ''Value too big'') (uint128_checked_add a m))"
      by (simp add: decimal_add_fractional_def decimal_places_def Let_def)
    then show ?thesis using True fr m by (auto simp: map_err_eq_Ok_iff uint128_checked_iff)
  next
    case False
    with Inr show ?thesis by (simp add: decimal_add_fractional_def decimal_places_def)
  qed
qed

text \<open>Reading never panics, and it accepts exactly the decimal strings in range.\<close>

lemma decimal_from_str_ok:
  "\<exists>r. decimal_from_str s = Done r \<and>
   (\<forall>d. r = Inr d \<longleftrightarrow> dec_denotes (\<lambda>t n. parse_uint 128 t = Inr n) s (valD d))"
proof (cases "uint128_from_str (hd (split_char CHR ''.'' s))")
  case (Inl e)
  then have "\<nexists>n. parse_uint 128 (hd (split_char CHR ''.'' s)) = Inr n"
    using uint128_from_str_iff ex_val128 parse_uint_less by (metis Inl_Inr_False)
  then have "\<not> dec_denotes (\<lambda>t n. parse_uint 128 t = Inr n) s m" for m
    by (auto simp: dec_denotes_split split: list.splits)
  with Inl show ?thesis by (simp add: decimal_from_str_def Let_def)
next
  case (Inr w)
  obtain p ps where parts: "split_char CHR ''.'' s = p # ps" by (cases "split_char CHR ''.'' s") auto
  have w: "parse_uint 128 p = Inr (val128 w)" using Inr parts by (simp add: uint128_from_str_iff)
  show ?thesis
  proof (cases "uint128_checked_mul w decimal_fractional")
    case (Inl e)
    then have big: "\<not> val128 w * dec_unit < 2 ^ 128"
      using ex_val128 uint128_checked_iff(3) [of w decimal_fractional] by fastforce
    have "\<not> dec_denotes (\<lambda>t n. parse_uint 128 t = Inr n) s (valD d)" for d
      using big valD_lt [of d] w
      by (auto simp: dec_denotes_split parts split: list.splits)
    with Inr Inl show ?thesis by (simp add: decimal_from_str_def Let_def)
  next
    case (Inr a)
    then have a: "val128 a = val128 w * dec_unit" by (simp add: uint128_checked_iff)
    show ?thesis
    proof (cases ps)
      case Nil
      with \<open>uint128_from_str _ = Inr w\<close> Inr parts have "decimal_from_str s = Done (Inr (Decimal a))"
        by (simp add: decimal_from_str_def Let_def)
      then show ?thesis using Nil parts w a by (auto simp: dec_denotes_split decimal_eq_iff)
    next
      case (Cons f qs)
      obtain r where r: "decimal_add_fractional a f = Done r"
        "\<forall>b. r = Inr b \<longleftrightarrow> (\<exists>n. parse_uint 128 f = Inr n \<and> length f \<le> 18 \<and> val128 b = val128 a + n * 10 ^ (18 - length f))"
        using decimal_add_fractional_ok by blast
      have "decimal_from_str s = orbind (Done r) (\<lambda>b. if qs \<noteq> [] then Done (Inl (GenericErr ''Unexpected number of dots''))
          else Done (Inr (Decimal b)))"
        using \<open>uint128_from_str _ = Inr w\<close> Inr parts Cons r(1) by (auto simp: decimal_from_str_def Let_def)
      then show ?thesis
        using r(2) w a by (cases r) (auto simp: dec_denotes_split parts Cons decimal_eq_iff uint128_eq_iff)
    qed
  qed
qed

lemma decimal_from_to_string: "obind (decimal_to_string d) decimal_from_str = Done (Inr d)"
proof -
  have "dec_denotes (\<lambda>t n. parse_uint 128 t = Inr n) (dec_show (valD d)) (valD d)"
  proof (rule dec_show_denotes)
    fix s assume "s \<noteq> []" "\<And>c. c \<in> set s \<Longrightarrow> \<exists>d < 10. c = digit_char d" "digits_val 0 s \<le> max (valD d) dec_unit"
    then show "parse_uint 128 s = Inr (digits_val 0 s)"
      using valD_lt [of d] by (intro parse_uint_digits) auto
  qed
  then show ?thesis using decimal_from_str_ok [of "dec_show (valD d)"] by (auto simp: decimal_to_string_eq)
qed

end
