(* ===== verification/Decimal256.thy ===== *)
theory Decimal256
  imports Decimal
begin

text \<open>
  \<open>Decimal256\<close> of \<open>packages/std/src/math/decimal256.rs\<close>: a fixed-point number with 18
  fractional digits in a Uint256, with products in Uint512. \<open>C\<close> and \<open>D\<close> are the 256-bit
  and the 512-bit integers of the crate uint.
\<close>

section \<open>The code\<close>

datatype decimal256 = Decimal256 (atomics256: uint256)

abbreviation valE :: "decimal256 \<Rightarrow> nat" where
  "valE d \<equiv> val256 (atomics256 d)"

datatype decimal256_range_exceeded = Decimal256RangeExceeded

definition decimal256_places :: nat where
  "decimal256_places = 18"

definition decimal256_fractional :: uint256 where
  "decimal256_fractional = uint256_from_be_bytes
     [0, 0, 0, 0, 0, 0, 0, 0, 0, 0, 0, 0, 0, 0, 0, 0, 0, 0, 0, 0, 0, 0, 0, 0, 13, 224, 182,
      179, 167, 100, 0, 0]"

definition decimal256_fractional_squared :: uint256 where
  "decimal256_fractional_squared = uint256_from_be_bytes
     [0, 0, 0, 0, 0, 0, 0, 0, 0, 0, 0, 0, 0, 0, 0, 0, 0, 192, 151, 206, 123, 201, 7, 21, 179,
      75, 159, 16, 0, 0, 0, 0]"

definition decimal256_MAX :: "u256 uint_crate \<Rightarrow> decimal256" where
  "decimal256_MAX C = Decimal256 (uint256_MAX C)"

definition decimal256_one :: decimal256 where
  "decimal256_one = Decimal256 decimal256_fractional"

definition decimal256_zero :: "u256 uint_crate \<Rightarrow> decimal256" where
  "decimal256_zero C = Decimal256 (uint256_zero C)"

definition decimal256_percent :: "u256 uint_crate \<Rightarrow> u64 \<Rightarrow> decimal256 outcome" where
  "decimal256_percent C x =
     omap Decimal256 (uint256_mul C (uint256_from_u64 C x) (uint256_from_u128 C 10000000000000000))"

definition decimal256_permille :: "u256 uint_crate \<Rightarrow> u64 \<Rightarrow> decimal256 outcome" where
  "decimal256_permille C x =
     omap Decimal256 (uint256_mul C (uint256_from_u64 C x) (uint256_from_u128 C 1000000000000000))"

definition decimal256_from_atomics :: "u256 uint_crate \<Rightarrow> uint256 \<Rightarrow> u32 \<Rightarrow> (decimal256_range_exceeded, decimal256) result outcome" where
  "decimal256_from_atomics C atoms places =
     (let ten = uint256_from_u64 C 10 in
      if places < 18 then
        obind (unwrap_ok (uint256_checked_pow C ten (18 - places))) (\<lambda>factor.
        Done (map_ok Decimal256 (map_err (\<lambda>_. Decimal256RangeExceeded) (uint256_checked_mul C atoms factor))))
      else if places = 18 then Done (Inr (Decimal256 atoms))
      else case uint256_checked_pow C ten (places - 18) of
             Inr factor \<Rightarrow> omap (\<lambda>q. Inr (Decimal256 q)) (unwrap_ok (uint256_checked_div C atoms factor))
           | Inl _ \<Rightarrow> Done (Inr (Decimal256 (uint256_zero C))))"

definition decimal256_from_ratio :: "u256 uint_crate \<Rightarrow> u512 uint_crate \<Rightarrow> uint256 \<Rightarrow> uint256 \<Rightarrow> decimal256 outcome" where
  "decimal256_from_ratio C D numerator denominator =
     (if uint256_is_zero C denominator then Panic ''Denominator must not be zero''
      else omap Decimal256 (uint256_multiply_ratio C D numerator decimal256_fractional denominator))"

definition decimal256_is_zero :: "u256 uint_crate \<Rightarrow> decimal256 \<Rightarrow> bool" where
  "decimal256_is_zero C self \<longleftrightarrow> uint256_is_zero C (atomics256 self)"

text \<open>\<open>Uint256::pow\<close> panics on overflow. The outer option says whether the loop of the integer square root ends.\<close>

definition decimal256_sqrt_with_precision :: "u256 uint_crate \<Rightarrow> decimal256 \<Rightarrow> u32 \<Rightarrow> decimal256 option outcome option" where
  "decimal256_sqrt_with_precision C self precision =
     (case uint256_pow C (uint256_from_u128 C 100) precision of
        Panic m \<Rightarrow> Some (Panic m)
      | Done inner_mul \<Rightarrow>
        (case result_ok (uint256_checked_mul C (atomics256 self) inner_mul) of
           None \<Rightarrow> Some (Done None)
         | Some inner \<Rightarrow>
           (case uint256_pow C (uint256_from_u128 C 10) (9 - precision) of
              Panic m \<Rightarrow> Some (Panic m)
            | Done outer_mul \<Rightarrow>
                map_option (\<lambda>root. obind root (\<lambda>r.
                    omap (\<lambda>p. Some (Decimal256 p)) (unwrap_ok (uint256_checked_mul C r outer_mul))))
                  (isqrt (uint256_unsigned C) inner))))"

fun decimal256_sqrt_find :: "u256 uint_crate \<Rightarrow> decimal256 \<Rightarrow> u32 list \<Rightarrow> decimal256 outcome option" where
  "decimal256_sqrt_find C self [] = Some (unwrap None)"
| "decimal256_sqrt_find C self (i # is) =
     (case decimal256_sqrt_with_precision C self i of
        None \<Rightarrow> None
      | Some (Panic m) \<Rightarrow> Some (Panic m)
      | Some (Done None) \<Rightarrow> decimal256_sqrt_find C self is
      | Some (Done (Some d)) \<Rightarrow> Some (Done d))"

definition decimal256_sqrt :: "u256 uint_crate \<Rightarrow> decimal256 \<Rightarrow> decimal256 outcome option" where
  "decimal256_sqrt C self = decimal256_sqrt_find C self (map word_of_nat (rev [0..<decimal256_places div 2 + 1]))"

definition decimal256_numerator :: "decimal256 \<Rightarrow> uint256" where
  "decimal256_numerator self = atomics256 self"

definition decimal256_denominator :: "decimal256 \<Rightarrow> uint256" where
  "decimal256_denominator self = decimal256_fractional"

definition decimal256_inv :: "u256 uint_crate \<Rightarrow> decimal256 \<Rightarrow> decimal256 option outcome" where
  "decimal256_inv C self =
     (if decimal256_is_zero C self then Done None
      else omap (\<lambda>q. Some (Decimal256 q)) (uint256_div C decimal256_fractional_squared (atomics256 self)))"

definition decimal256_add_fractional :: "u256 uint_crate \<Rightarrow> uint256 \<Rightarrow> string \<Rightarrow> uint256 std_result outcome" where
  "decimal256_add_fractional C atoms fractional_part =
     orbind (Done (map_err (\<lambda>_. GenericErr ''Error parsing fractional'') (uint256_from_str C fractional_part)))
       (\<lambda>fractional.
     if decimal256_places < length fractional_part
     then Done (Inl (GenericErr (''Cannot parse more than '' @ show_nat decimal256_places @ '' fractional digits'')))
     else
       let exp = decimal256_places - length fractional_part
       in obind (uint256_pow C (uint256_from_u128 C 10) (word_of_nat exp)) (\<lambda>fractional_factor.
          obind (unwrap_ok (uint256_checked_mul C fractional fractional_factor)) (\<lambda>summand.
          Done (map_err (\<lambda>_. GenericErr ''Value too big'') (uint256_checked_add C atoms summand)))))"

definition decimal256_from_str :: "u256 uint_crate \<Rightarrow> string \<Rightarrow> decimal256 std_result outcome" where
  "decimal256_from_str C input =
     (let parts = split_char CHR ''.'' input; whole_part = hd parts in
      orbind (Done (map_err (\<lambda>_. GenericErr ''Error parsing whole'') (uint256_from_str C whole_part))) (\<lambda>whole.
      orbind (Done (map_err (\<lambda>_. GenericErr ''Value too big'') (uint256_checked_mul C whole decimal256_fractional)))
        (\<lambda>whole_atoms.
      orbind (case tl parts of
                [] \<Rightarrow> Done (Inr whole_atoms)
              | fractional_part # _ \<Rightarrow> decimal256_add_fractional C whole_atoms fractional_part) (\<lambda>atoms.
      if 2 < length parts then Done (Inl (GenericErr ''Unexpected number of dots''))
      else Done (Inr (Decimal256 atoms))))))"

definition decimal256_to_string :: "u256 uint_crate \<Rightarrow> decimal256 \<Rightarrow> string outcome" where
  "decimal256_to_string C self =
     obind (uint256_div C (atomics256 self) decimal256_fractional) (\<lambda>whole.
     obind (unwrap_ok (uint256_checked_rem C (atomics256 self) decimal256_fractional)) (\<lambda>fractional.
     if uint256_is_zero C fractional then Done (uint256_to_string C whole)
     else
       let fractional_string = pad_zeros decimal256_places (uint256_to_string C fractional)
       in Done (uint256_to_string C whole @ ''.'' @ trim_end_zeros fractional_string)))"

definition decimal256_add :: "u256 uint_crate \<Rightarrow> decimal256 \<Rightarrow> decimal256 \<Rightarrow> decimal256 outcome" where
  "decimal256_add C self other = omap Decimal256 (uint256_add C (atomics256 self) (atomics256 other))"

definition decimal256_sub :: "u256 uint_crate \<Rightarrow> decimal256 \<Rightarrow> decimal256 \<Rightarrow> decimal256 outcome" where
  "decimal256_sub C self other = omap Decimal256 (uint256_sub C (atomics256 self) (atomics256 other))"

definition decimal256_mul :: "u512 uint_crate \<Rightarrow> decimal256 \<Rightarrow> decimal256 \<Rightarrow> decimal256 outcome" where
  "decimal256_mul D self other =
     obind (uint256_full_mul D (decimal256_numerator self) (decimal256_numerator other)) (\<lambda>product.
     obind (uint512_div D product (uint512_from_uint256 decimal256_fractional)) (\<lambda>result_as_uint512.
     case uint256_try_from_uint512 D result_as_uint512 of
       Inr result \<Rightarrow> Done (Decimal256 result)
     | Inl _ \<Rightarrow> Panic ''attempt to multiply with overflow''))"

definition uint256_mul_decimal256 :: "u256 uint_crate \<Rightarrow> u512 uint_crate \<Rightarrow> uint256 \<Rightarrow> decimal256 \<Rightarrow> uint256 outcome" where
  "uint256_mul_decimal256 C D self rhs =
     (if uint256_is_zero C self \<or> decimal256_is_zero C rhs then Done (uint256_zero C)
      else uint256_multiply_ratio C D self (atomics256 rhs) decimal256_fractional)"

definition decimal256_mul_uint256 :: "u256 uint_crate \<Rightarrow> u512 uint_crate \<Rightarrow> decimal256 \<Rightarrow> uint256 \<Rightarrow> uint256 outcome" where
  "decimal256_mul_uint256 C D self rhs = uint256_mul_decimal256 C D rhs self"

definition decimal256_div_uint256 :: "u256 uint_crate \<Rightarrow> decimal256 \<Rightarrow> uint256 \<Rightarrow> decimal256 outcome" where
  "decimal256_div_uint256 C self rhs = omap Decimal256 (uint256_div C (atomics256 self) rhs)"

definition decimal256_div_assign :: "u256 uint_crate \<Rightarrow> decimal256 \<Rightarrow> uint256 \<Rightarrow> decimal256 outcome" where
  "decimal256_div_assign C self rhs = omap Decimal256 (uint256_div_assign C (atomics256 self) rhs)"

definition decimal256_sum :: "u256 uint_crate \<Rightarrow> decimal256 list \<Rightarrow> decimal256 outcome" where
  "decimal256_sum C xs = foldl (\<lambda>acc x. obind acc (\<lambda>a. decimal256_add C a x)) (Done (decimal256_zero C)) xs"

section \<open>Facts about the code\<close>

lemma decimal256_eq_iff: "a = b \<longleftrightarrow> valE a = valE b"
  by (cases a; cases b) (simp add: uint256_eq_iff)

lemma ex_valE: "n < 2 ^ 256 \<Longrightarrow> \<exists>d. valE d = n"
  by (metis decimal256.sel ex_val256)

lemma omap_Decimal256_iff: "omap Decimal256 x = Done c \<longleftrightarrow> x = Done (atomics256 c)"
  by (auto simp: omap_eq_Done_iff)

lemma val_decimal256_fractional [simp]: "val256 decimal256_fractional = dec_unit"
  unfolding decimal256_fractional_def
  by (subst uint256_from_be_bytes_rev, simp, subst val_uint256_from_le_bytes) (simp_all add: nat_of_le.simps)

lemma val_decimal256_fractional_squared [simp]: "val256 decimal256_fractional_squared = dec_unit * dec_unit"
  unfolding decimal256_fractional_squared_def
  by (subst uint256_from_be_bytes_rev, simp, subst val_uint256_from_le_bytes) (simp_all add: nat_of_le.simps)

lemma digits_val_bound: "(\<forall>c \<in> set s. is_digit c) \<Longrightarrow> digits_val 0 s < 10 ^ length s"
proof (induction s rule: rev_induct)
  case (snoc c cs)
  then have "digit_val c < 10" "digits_val 0 cs + 1 \<le> 10 ^ length cs"
    by (auto simp: is_digit_def digit_val_def)
  then show ?case by simp
qed simp

lemma digits_denote_bound: "digits_denote s n \<Longrightarrow> n < 10 ^ length s"
  using digits_val_bound by (auto simp: digits_denote_def)

lemma pow_bound_256: "k \<le> 18 \<Longrightarrow> (10 :: nat) ^ k < 2 ^ 256" "k \<le> 9 \<Longrightarrow> (100 :: nat) ^ k < 2 ^ 256"
proof -
  show "(10 :: nat) ^ k < 2 ^ 256" if "k \<le> 18"
    using power_increasing [OF that, of "10 :: nat"] by simp
  show "(100 :: nat) ^ k < 2 ^ 256" if "k \<le> 9"
    using power_increasing [OF that, of "100 :: nat"] by simp
qed

context crate256
begin

lemma pow_Done: "unat b ^ unat e < 2 ^ 256 \<Longrightarrow> \<exists>f. uint256_pow C (uint256_from_u128 C b) e = Done f \<and> val256 f = unat b ^ unat e"
  using ex_val256 by (simp add: uint256_op_iff val_uint256_from)

lemma decimal256_percent_val:
  "\<exists>d. decimal256_percent C x = Done d \<and> valE d * 100 = unat x * dec_unit"
  "\<exists>d. decimal256_permille C x = Done d \<and> valE d * 1000 = unat x * dec_unit"
proof -
  have "unat x * k < 2 ^ 256" if "k \<le> 10000000000000000" for k
  proof -
    have "unat x * k \<le> 2 ^ 64 * 10000000000000000" using unat_lt [of x] that by (intro mult_le_mono) simp_all
    then show ?thesis by simp
  qed
  then have "\<exists>q. val256 q = unat x * 10000000000000000" "\<exists>q. val256 q = unat x * 1000000000000000"
    using ex_val256 by simp_all
  then obtain q r where "val256 q = unat x * 10000000000000000" "val256 r = unat x * 1000000000000000" by blast
  then have "decimal256_percent C x = Done (Decimal256 q) \<and> valE (Decimal256 q) * 100 = unat x * dec_unit"
    "decimal256_permille C x = Done (Decimal256 r) \<and> valE (Decimal256 r) * 1000 = unat x * dec_unit"
    by (simp_all add: decimal256_percent_def decimal256_permille_def omap_Decimal256_iff uint256_op_iff val_uint256_from)
  then show "\<exists>d. decimal256_percent C x = Done d \<and> valE d * 100 = unat x * dec_unit"
    "\<exists>d. decimal256_permille C x = Done d \<and> valE d * 1000 = unat x * dec_unit" by blast+
qed

lemma decimal256_checked_pow_ten:
  "uint256_checked_pow C (uint256_from_u64 C 10) e = Inr f \<longleftrightarrow> val256 f = 10 ^ unat e"
  by (simp add: uint256_checked_iff val_uint256_from)

lemma decimal256_from_atomics_small:
  assumes "unat p \<le> 18"
  shows "\<exists>r. decimal256_from_atomics C a p = Done r \<and>
    (\<forall>d. r = Inr d \<longleftrightarrow> valE d = val256 a * 10 ^ (18 - unat p))"
proof (cases "p = 18")
  case True
  then show ?thesis by (auto simp: decimal256_from_atomics_def decimal256_eq_iff)
next
  case False
  then have less: "p < 18" using assms by (simp add: word_less_nat_alt word_unat_eq_iff)
  then have sub: "unat (18 - p) = 18 - unat p" by (simp add: unat_sub less_imp_le)
  obtain f where f: "val256 f = 10 ^ unat (18 - p)"
    using ex_val256 pow_bound_256(1) [of "18 - unat p"] by (auto simp: sub)
  then have "uint256_checked_pow C (uint256_from_u64 C 10) (18 - p) = Inr f" by (simp add: decimal256_checked_pow_ten)
  with less have "decimal256_from_atomics C a p =
      Done (map_ok Decimal256 (map_err (\<lambda>_. Decimal256RangeExceeded) (uint256_checked_mul C a f)))"
    by (simp add: decimal256_from_atomics_def)
  then show ?thesis
    by (auto simp: map_ok_eq_Ok_iff map_err_eq_Ok_iff uint256_checked_iff decimal256_eq_iff f sub
        intro: exI [of _ "atomics256 _"])
qed

lemma decimal256_from_atomics_large:
  assumes "18 < unat p"
  shows "\<exists>d. decimal256_from_atomics C a p = Done (Inr d) \<and> valE d = val256 a div 10 ^ (unat p - 18)"
proof -
  have sub: "unat (p - 18) = unat p - 18" using assms by (simp add: unat_sub word_le_nat_alt)
  have branch: "\<not> p < 18" "p \<noteq> 18" using assms by (auto simp: word_less_nat_alt)
  show ?thesis
  proof (cases "uint256_checked_pow C (uint256_from_u64 C 10) (p - 18)")
    case (Inl e)
    then have "\<not> 10 ^ (unat p - 18) < (2 :: nat) ^ 256"
      using ex_val256 decimal256_checked_pow_ten [of "p - 18"] sub by (metis Inl_Inr_False)
    then have "val256 a < 10 ^ (unat p - 18)" using val256_lt [of a] by linarith
    then show ?thesis using branch Inl by (simp add: decimal256_from_atomics_def val_uint256_from)
  next
    case (Inr f)
    then have f: "val256 f = 10 ^ (unat p - 18)" by (simp add: decimal256_checked_pow_ten sub)
    have "val256 a div val256 f < 2 ^ 256" by (meson div_le_dividend le_less_trans val256_lt)
    then obtain q where q: "val256 q = val256 a div val256 f" using ex_val256 by blast
    then have "uint256_checked_div C a f = Inr q" by (simp add: uint256_checked_iff f)
    with branch Inr have "decimal256_from_atomics C a p = Done (Inr (Decimal256 q))"
      by (simp add: decimal256_from_atomics_def)
    with q f show ?thesis by simp
  qed
qed

lemma decimal256_op_iff:
  "decimal256_add C a b = Done c \<longleftrightarrow> valE c = valE a + valE b"
  "decimal256_sub C a b = Done c \<longleftrightarrow> valE b \<le> valE a \<and> valE c = valE a - valE b"
  "decimal256_div_uint256 C a n = Done c \<longleftrightarrow> val256 n \<noteq> 0 \<and> valE c = valE a div val256 n"
  by (simp_all add: decimal256_add_def decimal256_sub_def decimal256_div_uint256_def omap_Decimal256_iff uint256_op_iff)

lemma decimal256_inv_eq:
  "decimal256_inv C d = Done None \<longleftrightarrow> valE d = 0"
  "decimal256_inv C d = Done (Some e) \<longleftrightarrow> valE d \<noteq> 0 \<and> valE e = dec_unit * dec_unit div valE d"
  by (cases e; auto simp: decimal256_inv_def decimal256_is_zero_def uint256_is_zero_iff omap_eq_Done_iff
      uint256_op_iff simp del: power_numeral)+

subsection \<open>Square root\<close>

lemma decimal256_sqrt_with_precision_None:
  assumes "unat p \<le> 9" "2 ^ 256 \<le> valE d * 100 ^ unat p"
  shows "decimal256_sqrt_with_precision C d p = Some (Done None)"
proof -
  obtain f where f: "uint256_pow C (uint256_from_u128 C 100) p = Done f" "val256 f = 100 ^ unat p"
    using pow_Done [of 100 p] pow_bound_256(2) [OF assms(1)] by auto
  have "uint256_checked_mul C (atomics256 d) f \<noteq> Inr c" for c
    using assms(2) val256_lt [of c] f(2) by (simp add: uint256_checked_iff)
  then have "result_ok (uint256_checked_mul C (atomics256 d) f) = None"
    by (cases "uint256_checked_mul C (atomics256 d) f") auto
  then show ?thesis using f(1) by (simp add: decimal256_sqrt_with_precision_def)
qed

lemma decimal256_sqrt_with_precision_Some:
  assumes "unat p \<le> 9" "valE d * 100 ^ unat p < 2 ^ 256"
  shows "\<exists>e r. decimal256_sqrt_with_precision C d p = Some (Done (Some e)) \<and> valE e = r * 10 ^ (9 - unat p) \<and>
    r\<^sup>2 \<le> valE d * 100 ^ unat p \<and> valE d * 100 ^ unat p < (r + 1)\<^sup>2"
proof -
  obtain f where f: "uint256_pow C (uint256_from_u128 C 100) p = Done f" "val256 f = 100 ^ unat p"
    using pow_Done [of 100 p] pow_bound_256(2) [OF assms(1)] by auto
  obtain inner where inner: "uint256_checked_mul C (atomics256 d) f = Inr inner" "val256 inner = valE d * 100 ^ unat p"
    using ex_val256 [OF assms(2)] by (auto simp: uint256_checked_iff f(2))
  obtain r where r: "isqrt (uint256_unsigned C) inner = Some (Done r)"
    "(val256 r)\<^sup>2 \<le> val256 inner" "val256 inner < (val256 r + 1)\<^sup>2"
    using uint256_isqrt_ok by blast
  have sub: "unat (9 - p) = 9 - unat p" using assms(1) by (simp add: unat_sub word_le_nat_alt)
  have ten: "(10 :: nat) ^ (9 - unat p) \<le> 10 ^ 9" by (intro power_increasing) auto
  obtain g where g: "uint256_pow C (uint256_from_u128 C 10) (9 - p) = Done g" "val256 g = 10 ^ (9 - unat p)"
    using pow_Done [of 10 "9 - p"] pow_bound_256(1) [of "9 - unat p"] by (auto simp: sub)
  have "(val256 r)\<^sup>2 < (2 ^ 128)\<^sup>2" using r(2) val256_lt [of inner] by simp
  then have "val256 r < 2 ^ 128" by (rule power_less_imp_less_base) simp
  then have "val256 r * 10 ^ (9 - unat p) < 2 ^ 128 * 2 ^ 128"
    using ten by (intro mult_less_le_imp_less) auto
  then obtain s where s: "uint256_checked_mul C r g = Inr s" "val256 s = val256 r * 10 ^ (9 - unat p)"
    using ex_val256 [of "val256 r * 10 ^ (9 - unat p)"] by (auto simp: uint256_checked_iff g(2))
  then have "decimal256_sqrt_with_precision C d p = Some (Done (Some (Decimal256 s)))"
    using inner(1) r(1) f(1) g(1) by (simp add: decimal256_sqrt_with_precision_def)
  with r(2,3) inner(2) s(2) show ?thesis by auto
qed

lemma decimal256_sqrt_find_ok:
  assumes "k \<in> set ps" "valE d * 100 ^ unat k < 2 ^ 256" "\<forall>p \<in> set ps. unat p \<le> 9"
    and "sorted_wrt (\<lambda>p q. unat q \<le> unat p) ps"
  shows "\<exists>p e r. decimal256_sqrt_find C d ps = Some (Done e) \<and> p \<in> set ps \<and> valE e = r * 10 ^ (9 - unat p) \<and>
    r\<^sup>2 \<le> valE d * 100 ^ unat p \<and> valE d * 100 ^ unat p < (r + 1)\<^sup>2 \<and> valE d * 100 ^ unat p < 2 ^ 256 \<and>
    (\<forall>q \<in> set ps. valE d * 100 ^ unat q < 2 ^ 256 \<longrightarrow> unat q \<le> unat p)"
  using assms
proof (induction ps)
  case (Cons p ps)
  show ?case
  proof (cases "valE d * 100 ^ unat p < 2 ^ 256")
    case True
    with Cons.prems decimal256_sqrt_with_precision_Some [of p d] show ?thesis by fastforce
  next
    case False
    then have none: "decimal256_sqrt_with_precision C d p = Some (Done None)"
      using Cons.prems decimal256_sqrt_with_precision_None by simp
    have "k \<noteq> p" using False Cons.prems by auto
    with Cons obtain q e r where "decimal256_sqrt_find C d ps = Some (Done e)" "q \<in> set ps"
      "valE e = r * 10 ^ (9 - unat q)" "r\<^sup>2 \<le> valE d * 100 ^ unat q" "valE d * 100 ^ unat q < (r + 1)\<^sup>2"
      "valE d * 100 ^ unat q < 2 ^ 256"
      "\<forall>q' \<in> set ps. valE d * 100 ^ unat q' < 2 ^ 256 \<longrightarrow> unat q' \<le> unat q"
      by auto
    with none False show ?thesis by (intro exI [of _ q] exI [of _ e] exI [of _ r]) auto
  qed
qed simp

lemma decimal256_sqrt_precision:
  "\<exists>p e r. p \<le> 9 \<and> decimal256_sqrt C d = Some (Done e) \<and> valE e = r * 10 ^ (9 - p) \<and>
    r\<^sup>2 \<le> valE d * 100 ^ p \<and> valE d * 100 ^ p < (r + 1)\<^sup>2 \<and> valE d * 100 ^ p < 2 ^ 256 \<and>
    (\<forall>q \<le> 9. valE d * 100 ^ q < 2 ^ 256 \<longrightarrow> q \<le> p)"
proof -
  define ps :: "u32 list" where "ps = map word_of_nat (rev [0..<10])"
  have ps: "ps = [9, 8, 7, 6, 5, 4, 3, 2, 1, 0]" by (simp add: ps_def upt_rec)
  have sorted: "0 \<in> set ps" "\<forall>p \<in> set ps. unat p \<le> 9" "sorted_wrt (\<lambda>p q. unat q \<le> unat p) ps"
    by (simp_all add: ps)
  have zero: "valE d * 100 ^ unat (0 :: u32) < 2 ^ 256" using val256_lt [of "atomics256 d"] by simp
  have "\<exists>w \<in> set ps. unat w = q" if "q \<le> 9" for q
    using that by (intro bexI [of _ "word_of_nat q"]) (auto simp: ps_def unat_of_nat)
  moreover obtain p e r where "decimal256_sqrt_find C d ps = Some (Done e)" "p \<in> set ps"
    "valE e = r * 10 ^ (9 - unat p)" "r\<^sup>2 \<le> valE d * 100 ^ unat p" "valE d * 100 ^ unat p < (r + 1)\<^sup>2"
    "valE d * 100 ^ unat p < 2 ^ 256" "\<forall>q \<in> set ps. valE d * 100 ^ unat q < 2 ^ 256 \<longrightarrow> unat q \<le> unat p"
    using decimal256_sqrt_find_ok [OF sorted(1) zero sorted(2,3)] by blast
  moreover have "unat p \<le> 9" using \<open>p \<in> set ps\<close> by (auto simp: ps)
  moreover have "decimal256_sqrt C d = decimal256_sqrt_find C d ps"
    by (simp add: decimal256_sqrt_def decimal256_places_def ps_def)
  ultimately show ?thesis by metis
qed

subsection \<open>Strings\<close>

lemma decimal256_to_string_eq: "decimal256_to_string C d = Done (dec_show (valE d))"
proof -
  have "valE d div dec_unit < 2 ^ 256" "valE d mod dec_unit < 2 ^ 256"
    by (meson div_le_dividend mod_less_eq_dividend le_less_trans val256_lt)+
  then obtain q r where "val256 q = valE d div dec_unit" "val256 r = valE d mod dec_unit"
    using ex_val256 by metis
  moreover from this have "uint256_div C (atomics256 d) decimal256_fractional = Done q"
    "uint256_checked_rem C (atomics256 d) decimal256_fractional = Inr r"
    by (simp_all add: uint256_op_iff uint256_checked_iff)
  ultimately show ?thesis
    by (simp add: decimal256_to_string_def dec_show_def uint256_is_zero_iff uint256_to_string_def to_string_eq
        decimal256_places_def)
qed

lemma uint256_from_str_Ok_iff: "uint256_from_str C s = Inr a \<longleftrightarrow> digits_denote s (val256 a)"
  by (auto simp: uint256_from_str_iff digits_denote_def)

lemma uint256_from_str_Err: "uint256_from_str C s = Inl e \<Longrightarrow> digits_denote s n \<Longrightarrow> 2 ^ 256 \<le> n"
  using ex_val256 [of n] uint256_from_str_Ok_iff by (metis Inl_Inr_False not_less)

lemma decimal256_add_fractional_ok:
  "\<exists>r. decimal256_add_fractional C a s = Done r \<and>
   (\<forall>b. r = Inr b \<longleftrightarrow> (\<exists>f. digits_denote s f \<and> length s \<le> 18 \<and> val256 b = val256 a + f * 10 ^ (18 - length s)))"
proof (cases "uint256_from_str C s")
  case (Inl e)
  have "\<not> (digits_denote s f \<and> length s \<le> 18)" for f
    using uint256_from_str_Err [OF Inl] digits_denote_bound pow_bound_256(1) by (meson not_less order.strict_trans)
  with Inl show ?thesis by (auto simp: decimal256_add_fractional_def)
next
  case (Inr fr)
  then have fr: "digits_denote s (val256 fr)" by (simp add: uint256_from_str_Ok_iff)
  show ?thesis
  proof (cases "length s \<le> 18")
    case True
    have "unat (word_of_nat (18 - length s) :: u32) = 18 - length s" by (simp add: unat_of_nat)
    then obtain g where g: "uint256_pow C (uint256_from_u128 C 10) (word_of_nat (18 - length s)) = Done g"
      "val256 g = 10 ^ (18 - length s)"
      using pow_Done [of 10 "word_of_nat (18 - length s)"] pow_bound_256(1) [of "18 - length s"] by auto
    have "val256 fr * 10 ^ (18 - length s) < 10 ^ length s * 10 ^ (18 - length s)"
      using digits_denote_bound [OF fr] by simp
    also have "\<dots> = 10 ^ 18" using True by (simp flip: power_add)
    finally have "val256 fr * 10 ^ (18 - length s) < 2 ^ 256" by simp
    then obtain m where m: "val256 m = val256 fr * 10 ^ (18 - length s)" using ex_val256 by blast
    then have "uint256_checked_mul C fr g = Inr m" by (simp add: uint256_checked_iff g(2))
    with True Inr g(1) have "decimal256_add_fractional C a s =
        Done (map_err (\<lambda>_. GenericErr ''Value too big'') (uint256_checked_add C a m))"
      by (simp add: decimal256_add_fractional_def decimal256_places_def Let_def)
    then show ?thesis using True fr m by (auto simp: map_err_eq_Ok_iff uint256_checked_iff digits_denote_def)
  next
    case False
    with Inr show ?thesis by (simp add: decimal256_add_fractional_def decimal256_places_def)
  qed
qed

lemma decimal256_from_str_ok:
  "\<exists>r. decimal256_from_str C s = Done r \<and> (\<forall>d. r = Inr d \<longleftrightarrow> dec_denotes digits_denote s (valE d))"
proof (cases "uint256_from_str C (hd (split_char CHR ''.'' s))")
  case (Inl e)
  have "\<not> dec_denotes digits_denote s (valE d)" for d
    using uint256_from_str_Err [OF Inl] val256_lt [of "atomics256 d"]
    by (fastforce simp: dec_denotes_split split: list.splits)
  with Inl show ?thesis by (simp add: decimal256_from_str_def Let_def)
next
  case (Inr w)
  obtain p ps where parts: "split_char CHR ''.'' s = p # ps" by (cases "split_char CHR ''.'' s") auto
  have w: "digits_denote p n \<longleftrightarrow> n = val256 w" for n
    using Inr parts by (auto simp: uint256_from_str_Ok_iff digits_denote_def)
  show ?thesis
  proof (cases "uint256_checked_mul C w decimal256_fractional")
    case (Inl e)
    then have big: "\<not> val256 w * dec_unit < 2 ^ 256"
      using ex_val256 uint256_checked_iff(3) [of w decimal256_fractional] by fastforce
    have "\<not> dec_denotes digits_denote s (valE d)" for d
      using big val256_lt [of "atomics256 d"] w by (auto simp: dec_denotes_split parts split: list.splits)
    with Inr Inl show ?thesis by (simp add: decimal256_from_str_def Let_def)
  next
    case (Inr a)
    then have a: "val256 a = val256 w * dec_unit" by (simp add: uint256_checked_iff)
    show ?thesis
    proof (cases ps)
      case Nil
      with \<open>uint256_from_str C _ = Inr w\<close> Inr parts have "decimal256_from_str C s = Done (Inr (Decimal256 a))"
        by (simp add: decimal256_from_str_def Let_def)
      then show ?thesis using Nil parts w a by (auto simp: dec_denotes_split decimal256_eq_iff)
    next
      case (Cons f qs)
      obtain r where r: "decimal256_add_fractional C a f = Done r"
        "\<forall>b. r = Inr b \<longleftrightarrow> (\<exists>n. digits_denote f n \<and> length f \<le> 18 \<and> val256 b = val256 a + n * 10 ^ (18 - length f))"
        using decimal256_add_fractional_ok by blast
      have "decimal256_from_str C s = orbind (Done r) (\<lambda>b. if qs \<noteq> [] then Done (Inl (GenericErr ''Unexpected number of dots''))
          else Done (Inr (Decimal256 b)))"
        using \<open>uint256_from_str C _ = Inr w\<close> Inr parts Cons r(1) by (auto simp: decimal256_from_str_def Let_def)
      then show ?thesis
        using r(2) w a by (cases r) (auto simp: dec_denotes_split parts Cons decimal256_eq_iff uint256_eq_iff)
    qed
  qed
qed

lemma decimal256_from_to_string: "obind (decimal256_to_string C d) (decimal256_from_str C) = Done (Inr d)"
proof -
  have "dec_denotes digits_denote (dec_show (valE d)) (valE d)"
  proof (rule dec_show_denotes)
    fix s assume "s \<noteq> []" "\<And>c. c \<in> set s \<Longrightarrow> \<exists>d < 10. c = digit_char d" "digits_val 0 s \<le> max (valE d) dec_unit"
    then show "digits_denote s (digits_val 0 s)"
      using digit_char_simps(1) by (fastforce simp: digits_denote_def)
  qed
  then show ?thesis using decimal256_from_str_ok [of "dec_show (valE d)"] by (auto simp: decimal256_to_string_eq)
qed

end

section \<open>Products and ratios\<close>

lemma decimal256_mul_iff:
  assumes "crate512 D"
  shows "decimal256_mul D a b = Done c \<longleftrightarrow> valE c = valE a * valE b div dec_unit"
proof -
  obtain p where p: "uint256_full_mul D (atomics256 a) (atomics256 b) = Done p" "val512 p = valE a * valE b"
    using crate512.uint256_full_mul_eq [OF assms] by blast
  have "val512 p div dec_unit < 2 ^ 512" by (meson div_le_dividend le_less_trans val512_lt)
  then obtain q where q: "uint512_div D p (uint512_from_uint256 decimal256_fractional) = Done q"
    "val512 q = valE a * valE b div dec_unit"
    using ex_val512 by (auto simp: crate512.uint512_op_iff [OF assms] val_uint512_from_uint256 p(2) simp del: power_numeral)
  have "uint256_try_from_uint512 D q = Inr (atomics256 c) \<longleftrightarrow> valE c = val512 q"
    by (simp add: uint256_try_from_uint512_iff)
  then show ?thesis
    by (cases c) (auto simp: decimal256_mul_def decimal256_numerator_def p(1) q split: sum.splits)
qed

lemma decimal256_from_ratio_iff:
  assumes "crate256 C" "crate512 D"
  shows "decimal256_from_ratio C D n d = Done c \<longleftrightarrow> val256 d \<noteq> 0 \<and> valE c = val256 n * dec_unit div val256 d"
  by (auto simp: decimal256_from_ratio_def omap_Decimal256_iff uint256_multiply_ratio_iff [OF assms]
      crate256.uint256_is_zero_iff [OF assms(1)] simp del: power_numeral)

lemma uint256_mul_decimal256_iff:
  assumes "crate256 C" "crate512 D"
  shows "uint256_mul_decimal256 C D u d = Done c \<longleftrightarrow> val256 c = val256 u * valE d div dec_unit"
  by (auto simp: uint256_mul_decimal256_def decimal256_is_zero_def crate256.uint256_is_zero_iff [OF assms(1)]
      uint256_multiply_ratio_iff [OF assms] uint256_eq_iff crate256.val_uint256_from [OF assms(1)] simp del: power_numeral)

end
