(* ===== verification/Prefixed_Storage.thy ===== *)
theory Prefixed_Storage
  imports Storage
begin

text \<open>
  Namespacing of a storage, \<open>packages/storage/src\<close>: the length-prefixed keys of
  \<open>length_prefixed.rs\<close>, the raw accesses under a prefix of \<open>namespace_helpers.rs\<close> and the
  wrappers of \<open>prefixed_storage.rs\<close>. The wrapper of any storage that keeps the contract of
  the trait keeps it again, over the part of the map below the prefix.
\<close>

section \<open>length\_prefixed.rs\<close>

definition encode_length :: "bytes \<Rightarrow> bytes outcome" where
  "encode_length namespace =
     (if 0xFFFF < length namespace then Panic ''only supports namespaces up to length 0xFFFF''
      else let length_bytes = to_be_bytes (word_of_nat (length namespace) :: u32)
           in Done [length_bytes ! 2, length_bytes ! 3])"

definition to_length_prefixed :: "bytes \<Rightarrow> bytes outcome" where
  "to_length_prefixed namespace = obind (encode_length namespace) (\<lambda>out. Done (out @ namespace))"

fun to_length_prefixed_nested :: "bytes list \<Rightarrow> bytes outcome" where
  "to_length_prefixed_nested [] = Done []"
| "to_length_prefixed_nested (namespace # namespaces) =
     obind (encode_length namespace) (\<lambda>len.
     obind (to_length_prefixed_nested namespaces) (\<lambda>out. Done (len @ namespace @ out)))"

section \<open>namespace\_helpers.rs\<close>

definition get_with_prefix :: "'s storage_ops \<Rightarrow> 's \<Rightarrow> bytes \<Rightarrow> bytes \<Rightarrow> bytes option" where
  "get_with_prefix S storage namespace key = st_get S storage (namespace @ key)"

definition set_with_prefix :: "'s storage_ops \<Rightarrow> 's \<Rightarrow> bytes \<Rightarrow> bytes \<Rightarrow> bytes \<Rightarrow> 's outcome" where
  "set_with_prefix S storage namespace key value = st_set S storage (namespace @ key) value"

definition remove_with_prefix :: "'s storage_ops \<Rightarrow> 's \<Rightarrow> bytes \<Rightarrow> bytes \<Rightarrow> 's outcome" where
  "remove_with_prefix S storage namespace key = st_remove S storage (namespace @ key)"

text \<open>The slice \<open>key[namespace.len()..]\<close> panics for a key that is shorter than the namespace.\<close>

definition trim :: "bytes \<Rightarrow> bytes \<Rightarrow> bytes outcome" where
  "trim namespace key =
     (if length key < length namespace then Panic ''range start index out of range for slice''
      else Done (drop (length namespace) key))"

fun upper_bound_loop :: "nat \<Rightarrow> bytes \<Rightarrow> bytes" where
  "upper_bound_loop 0 copy = copy"
| "upper_bound_loop (Suc i) copy =
     (if copy ! i = 255 then upper_bound_loop i (copy[i := 0])
      else copy[i := copy ! i + 1])"

definition namespace_upper_bound :: "bytes \<Rightarrow> bytes" where
  "namespace_upper_bound input = upper_bound_loop (length input) input"

fun trim_all :: "bytes \<Rightarrow> kv list \<Rightarrow> kv list outcome" where
  "trim_all namespace [] = Done []"
| "trim_all namespace ((k, v) # rs) =
     obind (trim namespace k) (\<lambda>k'. obind (trim_all namespace rs) (\<lambda>rs'. Done ((k', v) # rs')))"

definition range_with_prefix ::
  "'s storage_ops \<Rightarrow> 's \<Rightarrow> bytes \<Rightarrow> bytes option \<Rightarrow> bytes option \<Rightarrow> order \<Rightarrow> kv list outcome" where
  "range_with_prefix S storage namespace start end ord =
     (let start' = (case start of Some s \<Rightarrow> namespace @ s | None \<Rightarrow> namespace);
          end' = (case end of Some e \<Rightarrow> namespace @ e | None \<Rightarrow> namespace_upper_bound namespace)
      in obind (st_range S storage (Some start') (Some end') ord) (\<lambda>base. trim_all namespace base))"

section \<open>prefixed\_storage.rs\<close>

record 's prefixed_storage =
  ps_storage :: 's
  ps_prefix :: bytes

definition prefixed_new :: "'s \<Rightarrow> bytes \<Rightarrow> 's prefixed_storage outcome" where
  "prefixed_new storage namespace =
     omap (\<lambda>p. \<lparr>ps_storage = storage, ps_prefix = p\<rparr>) (to_length_prefixed namespace)"

definition prefixed_multilevel :: "'s \<Rightarrow> bytes list \<Rightarrow> 's prefixed_storage outcome" where
  "prefixed_multilevel storage namespaces =
     omap (\<lambda>p. \<lparr>ps_storage = storage, ps_prefix = p\<rparr>) (to_length_prefixed_nested namespaces)"

definition prefixed_get :: "'s storage_ops \<Rightarrow> 's prefixed_storage \<Rightarrow> bytes \<Rightarrow> bytes option" where
  "prefixed_get S self key = get_with_prefix S (ps_storage self) (ps_prefix self) key"

definition prefixed_set :: "'s storage_ops \<Rightarrow> 's prefixed_storage \<Rightarrow> bytes \<Rightarrow> bytes \<Rightarrow> 's prefixed_storage outcome" where
  "prefixed_set S self key value =
     omap (\<lambda>s. self\<lparr>ps_storage := s\<rparr>) (set_with_prefix S (ps_storage self) (ps_prefix self) key value)"

definition prefixed_remove :: "'s storage_ops \<Rightarrow> 's prefixed_storage \<Rightarrow> bytes \<Rightarrow> 's prefixed_storage outcome" where
  "prefixed_remove S self key =
     omap (\<lambda>s. self\<lparr>ps_storage := s\<rparr>) (remove_with_prefix S (ps_storage self) (ps_prefix self) key)"

definition prefixed_range ::
  "'s storage_ops \<Rightarrow> 's prefixed_storage \<Rightarrow> bytes option \<Rightarrow> bytes option \<Rightarrow> order \<Rightarrow> kv list outcome" where
  "prefixed_range S self start end ord =
     range_with_prefix S (ps_storage self) (ps_prefix self) start end ord"

definition prefixed_ops :: "'s storage_ops \<Rightarrow> 's prefixed_storage storage_ops" where
  "prefixed_ops S = \<lparr>st_get = prefixed_get S, st_range = prefixed_range S,
     st_set = prefixed_set S, st_remove = prefixed_remove S\<rparr>"

text \<open>The read-only wrapper: writing is \<open>unimplemented!()\<close>.\<close>

definition readonly_prefixed_ops :: "'s storage_ops \<Rightarrow> 's prefixed_storage storage_ops" where
  "readonly_prefixed_ops S = \<lparr>st_get = prefixed_get S, st_range = prefixed_range S,
     st_set = (\<lambda>self key value. Panic ''not implemented''),
     st_remove = (\<lambda>self key. Panic ''not implemented'')\<rparr>"

section \<open>Length-prefixed keys\<close>

lemma encode_length_Done_iff:
  "encode_length ns = Done out \<longleftrightarrow>
   length ns \<le> 0xFFFF \<and> out = [word_of_nat (length ns div 256), word_of_nat (length ns mod 256)]"
proof -
  have "to_be_bytes (word_of_nat (length ns) :: u32) ! 2 = word_of_nat (length ns div 256)"
    "to_be_bytes (word_of_nat (length ns) :: u32) ! 3 = word_of_nat (length ns mod 256)"
    if "length ns \<le> 0xFFFF"
  proof -
    have "unat (word_of_nat (length ns) :: u32) = length ns" using that by (simp add: unat_of_nat)
    moreover have "length ns div 256 mod 256 = length ns div 256"
      using that by (intro mod_less) (simp add: div_less_iff_less_mult)
    ultimately show "to_be_bytes (word_of_nat (length ns) :: u32) ! 2 = word_of_nat (length ns div 256)"
      "to_be_bytes (word_of_nat (length ns) :: u32) ! 3 = word_of_nat (length ns mod 256)"
      unfolding to_be_bytes_u32 by (simp_all add: numeral_2_eq_2 numeral_3_eq_3)
  qed
  then show ?thesis by (auto simp: encode_length_def)
qed

lemma encode_length_inj:
  assumes "encode_length a = Done out" "encode_length b = Done out"
  shows "length a = length b"
proof -
  have "length a div 256 < 256" "length b div 256 < 256"
    using assms by (auto simp: encode_length_Done_iff div_less_iff_less_mult)
  then have "length a div 256 = length b div 256" "length a mod 256 = length b mod 256"
    using assms by (auto simp: encode_length_Done_iff word_of_byte_eq_iff)
  then show ?thesis by (metis div_mult_mod_eq)
qed

text \<open>The prefixes of two namespaces are never prefixes of each other: no two keys collide.\<close>

lemma length_prefixed_prefix_free:
  assumes "to_length_prefixed a = Done p" "to_length_prefixed b = Done q" "p @ xs = q @ ys"
  shows "a = b \<and> xs = ys"
proof -
  obtain l m where lm: "encode_length a = Done l" "p = l @ a" "encode_length b = Done m" "q = m @ b"
    using assms(1,2) by (auto simp: to_length_prefixed_def obind_eq_Done_iff)
  then have "length l = length m" by (auto simp: encode_length_Done_iff)
  then have "l = m" "a @ xs = b @ ys" using assms(3) lm by auto
  moreover from this have "length a = length b" using encode_length_inj lm by blast
  ultimately show ?thesis by simp
qed

lemma nested_length_prefixed:
  "to_length_prefixed_nested [a] = to_length_prefixed a"
  by (cases "encode_length a") (simp_all add: to_length_prefixed_def)

lemma nested_prefix_free:
  assumes "to_length_prefixed_nested as = Done p" "to_length_prefixed_nested bs = Done q"
    and "length as = length bs" "p @ xs = q @ ys"
  shows "as = bs \<and> xs = ys"
  using assms(3,1,2,4)
proof (induction as bs arbitrary: p q rule: list_induct2)
  case (Cons a as b bs)
  obtain l p' where p: "encode_length a = Done l" "to_length_prefixed_nested as = Done p'" "p = l @ a @ p'"
    using Cons.prems(1) by (auto simp: obind_eq_Done_iff)
  obtain m q' where q: "encode_length b = Done m" "to_length_prefixed_nested bs = Done q'" "q = m @ b @ q'"
    using Cons.prems(2) by (auto simp: obind_eq_Done_iff)
  have "to_length_prefixed a = Done (l @ a)" and "to_length_prefixed b = Done (m @ b)"
    using p(1) q(1) by (simp_all add: to_length_prefixed_def)
  moreover have "(l @ a) @ p' @ xs = (m @ b) @ q' @ ys"
    using Cons.prems(3) p(3) q(3) by simp
  ultimately have "a = b \<and> p' @ xs = q' @ ys"
    by (rule length_prefixed_prefix_free)
  with Cons.IH p q show ?case by blast
qed simp

section \<open>Ranges under a prefix\<close>

lemma upper_bound_loop_append:
  "i \<le> length xs \<Longrightarrow> upper_bound_loop i (xs @ ys) = upper_bound_loop i xs @ ys"
  by (induction i arbitrary: xs) (auto simp: nth_append list_update_append)

lemma namespace_upper_bound_snoc:
  "namespace_upper_bound (xs @ [b]) =
     (if b = 255 then namespace_upper_bound xs @ [0] else xs @ [b + 1])"
  by (simp add: namespace_upper_bound_def upper_bound_loop_append)

lemma length_upper_bound [simp]: "length (namespace_upper_bound ns) = length ns"
proof (induction ns rule: rev_induct)
  case Nil
  show ?case by (simp add: namespace_upper_bound_def)
qed (simp add: namespace_upper_bound_snoc)

lemma append_le_cancel [simp]: "ns @ s \<le> ns @ k \<longleftrightarrow> s \<le> k" for ns s k :: "'a::linorder list"
  by (induction ns) auto

lemma append_less_cancel [simp]: "ns @ s < ns @ k \<longleftrightarrow> s < k" for ns s k :: "'a::linorder list"
  by (induction ns) auto

lemma between_prefix:
  "ns \<le> k \<Longrightarrow> k < ns @ e \<Longrightarrow> prefix ns k" for ns :: "'a::linorder list"
proof (induction ns arbitrary: k)
  case (Cons n ns)
  then show ?case by (cases k) (auto split: if_splits)
qed simp

lemma prefix_le: "prefix ns k \<Longrightarrow> ns \<le> k" for ns :: "'a::linorder list"
  using append_le_cancel [of ns "[]"] by (auto simp: prefix_def)

text \<open>
  For a namespace whose last byte is not 255, the keys from the namespace to its upper bound are
  those with the namespace as prefix.
\<close>

lemma upper_bound_prefix_iff:
  assumes "ns \<noteq> []" "last ns \<noteq> 255"
  shows "ns \<le> k \<and> k < namespace_upper_bound ns \<longleftrightarrow> prefix ns k"
proof -
  obtain xs b where ns: "ns = xs @ [b]" "b \<noteq> 255" using assms by (metis append_butlast_last_id)
  have up: "namespace_upper_bound ns = xs @ [b + 1]" using ns by (simp add: namespace_upper_bound_snoc)
  have "unat b \<noteq> 255" using ns(2) by (simp add: word_unat_eq_iff)
  moreover have "unat b < 256" using unat_lt [of b] by simp
  ultimately have "unat (b + 1) = unat b + 1" by (subst unat_add_exact) auto
  then have between: "b \<le> c \<and> c < b + 1 \<longleftrightarrow> c = b" for c
    by (auto simp: word_le_nat_alt word_less_nat_alt word_unat_eq_iff)
  show ?thesis
  proof
    assume k: "ns \<le> k \<and> k < namespace_upper_bound ns"
    then have "xs \<le> k" using ns prefix_le [of xs ns] by (auto intro: order_trans)
    with k up obtain ys where "k = xs @ ys" using between_prefix by (metis prefixE)
    with k ns up have "[b] \<le> ys" "ys < [b + 1]" by simp_all
    then obtain c zs where ys: "ys = c # zs" by (cases ys) auto
    with \<open>[b] \<le> ys\<close> \<open>ys < [b + 1]\<close> have "b \<le> c \<and> c < b + 1" by auto
    then have "c = b" using between by blast
    then show "prefix ns k" using \<open>k = xs @ ys\<close> ys ns by (simp add: prefix_def)
  next
    assume "prefix ns k"
    then obtain zs where "k = xs @ b # zs" using ns by (auto simp: prefix_def)
    moreover have "b < b + 1" using between [of b] by simp
    ultimately show "ns \<le> k \<and> k < namespace_upper_bound ns" using ns up by simp
  qed
qed

lemma trim_all_Done:
  "trim_all ns (map (\<lambda>(k, v). (ns @ k, v)) rs) = Done rs"
  by (induction rs) (auto simp: trim_def)

lemma prefix_range_iff:
  assumes "ns \<noteq> []" "last ns \<noteq> 255"
  shows "in_range (Some (case start of Some s \<Rightarrow> ns @ s | None \<Rightarrow> ns))
      (Some (case end of Some e \<Rightarrow> ns @ e | None \<Rightarrow> namespace_upper_bound ns)) k \<longleftrightarrow>
    (\<exists>j. k = ns @ j \<and> in_range start end j)" (is "in_range (Some ?s) (Some ?e) k \<longleftrightarrow> _")
proof
  assume "in_range (Some ?s) (Some ?e) k"
  then have k: "?s \<le> k" "k < ?e" by (simp_all add: in_range_def)
  have "ns \<le> k" using k(1) prefix_le [of ns "ns @ _"] by (cases start) (auto intro: order_trans)
  then have "prefix ns k"
    using k(2) between_prefix upper_bound_prefix_iff [OF assms] by (cases "end") auto
  then obtain j where "k = ns @ j" by (auto simp: prefix_def)
  with k show "\<exists>j. k = ns @ j \<and> in_range start end j"
    by (auto simp: in_range_def split: option.splits)
next
  assume "\<exists>j. k = ns @ j \<and> in_range start end j"
  then show "in_range (Some ?s) (Some ?e) k"
    using upper_bound_prefix_iff [OF assms, of k]
    by (auto simp: in_range_def prefix_def split: option.splits)
qed

context key_value_store
begin

lemma range_with_prefix_keys:
  assumes "valid s" and keys: "\<And>k. view s k \<noteq> None \<Longrightarrow>
      in_range (Some (case start of Some s \<Rightarrow> ns @ s | None \<Rightarrow> ns))
        (Some (case end of Some e \<Rightarrow> ns @ e | None \<Rightarrow> namespace_upper_bound ns)) k \<longleftrightarrow>
      (\<exists>j. k = ns @ j \<and> in_range start end j)"
  shows "\<exists>rs. range_with_prefix S s ns start end ord = Done rs \<and>
    range_spec (\<lambda>k. view s (ns @ k)) start end ord rs"
proof -
  define s' where "s' = (case start of Some s \<Rightarrow> ns @ s | None \<Rightarrow> ns)"
  define e' where "e' = (case end of Some e \<Rightarrow> ns @ e | None \<Rightarrow> namespace_upper_bound ns)"
  obtain bs where bs: "st_range S s (Some s') (Some e') ord = Done bs"
    "range_spec (view s) (Some s') (Some e') ord bs"
    using range_view [OF assms(1)] by blast
  have in_bs: "(k, v) \<in> set bs \<longleftrightarrow> view s k = Some v \<and> (\<exists>j. k = ns @ j \<and> in_range start end j)" for k v
    using bs(2) keys [of k] by (auto simp: range_spec_def s'_def e'_def)
  define rs where "rs = map (\<lambda>(k, v). (drop (length ns) k, v)) bs"
  have bs_eq: "bs = map (\<lambda>(k, v). (ns @ k, v)) rs"
    unfolding rs_def map_map by (rule map_idI [symmetric]) (auto simp: in_bs)
  have "(k, v) \<in> set rs \<longleftrightarrow> (ns @ k, v) \<in> set bs" for k v
    unfolding bs_eq by (induction rs) auto
  then have in_rs: "set rs = {(k, v). (ns @ k, v) \<in> set bs}" by auto
  have "set rs = {(k, v). view s (ns @ k) = Some v \<and> in_range start end k}"
    unfolding in_rs by (auto simp: in_bs)
  moreover have "ordered_by ord (map fst rs)"
  proof -
    have "map fst bs = map ((@) ns) (map fst rs)" unfolding bs_eq by (induction rs) auto
    then show ?thesis
      using bs(2) by (cases ord) (simp_all add: range_spec_def ordered_by_def sorted_wrt_map)
  qed
  moreover have "range_with_prefix S s ns start end ord = Done rs"
    using bs(1) by (simp add: range_with_prefix_def s'_def e'_def bs_eq trim_all_Done)
  ultimately show ?thesis by (auto simp: range_spec_def)
qed

lemma range_with_prefix_view:
  assumes "valid s" "ns \<noteq> []" "last ns \<noteq> 255"
  shows "\<exists>rs. range_with_prefix S s ns start end ord = Done rs \<and>
    range_spec (\<lambda>k. view s (ns @ k)) start end ord rs"
  by (rule range_with_prefix_keys [OF assms(1) prefix_range_iff [OF assms(2,3)]])

end

definition prefixed_inv :: "('s \<Rightarrow> bool) \<Rightarrow> 's prefixed_storage \<Rightarrow> bool" where
  "prefixed_inv valid p \<longleftrightarrow> valid (ps_storage p) \<and> ps_prefix p \<noteq> [] \<and> last (ps_prefix p) \<noteq> 255"

definition prefixed_view :: "('s \<Rightarrow> bytes \<rightharpoonup> bytes) \<Rightarrow> 's prefixed_storage \<Rightarrow> bytes \<rightharpoonup> bytes" where
  "prefixed_view view p k = view (ps_storage p) (ps_prefix p @ k)"

context key_value_store
begin

lemma prefixed_store: "key_value_store (prefixed_ops S) (prefixed_inv valid) (prefixed_view view)"
proof
  fix p :: "'s prefixed_storage" and k v start "end" ord
  assume p: "prefixed_inv valid p"
  then have valid: "valid (ps_storage p)" by (simp add: prefixed_inv_def)
  show "st_get (prefixed_ops S) p k = prefixed_view view p k"
    by (simp add: prefixed_ops_def prefixed_get_def get_with_prefix_def prefixed_view_def get_view [OF valid])
  show "\<exists>t. st_set (prefixed_ops S) p k v = Done t \<and> prefixed_inv valid t \<and>
      prefixed_view view t = (prefixed_view view p)(k \<mapsto> v)" if "v \<noteq> []"
    using set_view [OF valid that, of "ps_prefix p @ k"] p
    by (auto simp: prefixed_ops_def prefixed_set_def set_with_prefix_def prefixed_inv_def prefixed_view_def fun_eq_iff)
  show "panics (st_set (prefixed_ops S) p k [])"
    using set_empty [OF valid, of "ps_prefix p @ k"]
    by (cases "st_set S (ps_storage p) (ps_prefix p @ k) []")
      (auto simp: prefixed_ops_def prefixed_set_def set_with_prefix_def)
  show "\<exists>t. st_remove (prefixed_ops S) p k = Done t \<and> prefixed_inv valid t \<and>
      prefixed_view view t = (prefixed_view view p)(k := None)"
    using remove_view [OF valid, of "ps_prefix p @ k"] p
    by (auto simp: prefixed_ops_def prefixed_remove_def remove_with_prefix_def prefixed_inv_def prefixed_view_def
        fun_eq_iff)
  show "\<exists>rs. st_range (prefixed_ops S) p start end ord = Done rs \<and> range_spec (prefixed_view view p) start end ord rs"
    using range_with_prefix_view [OF valid, of "ps_prefix p"] p
    by (auto simp: prefixed_ops_def prefixed_range_def prefixed_inv_def prefixed_view_def [abs_def])
qed

end

interpretation prefixed_memory: key_value_store "prefixed_ops memory_ops" "prefixed_inv memory_inv"
  "prefixed_view (\<lambda>s. btree_get (ms_data s))"
  by (rule memory.prefixed_store)

text \<open>The prefix of a namespace keeps the invariant unless the namespace ends in 255.\<close>

lemma prefixed_new_inv:
  assumes "I s" "prefixed_new s ns = Done p" "ns = [] \<or> last ns \<noteq> 255"
  shows "prefixed_inv I p" "ps_storage p = s"
  using assms by (auto simp: prefixed_new_def omap_eq_Done_iff to_length_prefixed_def obind_eq_Done_iff
      encode_length_Done_iff prefixed_inv_def)

section \<open>Namespaces that end in 255\<close>

text \<open>
  The upper bound of such a namespace keeps the zeros of its carry. The shorter keys below the bound do
  not belong to the namespace, and trimming one of them panics.
\<close>

lemma upper_bound_carry:
  "b \<noteq> 255 \<Longrightarrow> namespace_upper_bound (xs @ [b] @ replicate n 255) = xs @ [b + 1] @ replicate n 0"
proof (induction n)
  case (Suc n)
  then show ?case
    using namespace_upper_bound_snoc [of "xs @ [b] @ replicate n 255" 255] by (simp flip: replicate_append_same)
qed (simp add: namespace_upper_bound_snoc)

lemma replicate_max_le_iff: "replicate n (255 :: u8) \<le> ys \<longleftrightarrow> prefix (replicate n 255) ys"
proof (induction n arbitrary: ys)
  case (Suc n)
  have "\<not> (255 :: u8) < c" for c using unat_lt [of c] by (simp add: word_less_nat_alt)
  then show ?case using Suc by (cases ys) auto
qed simp

lemma less_replicate_zero_iff: "ys < replicate n (0 :: u8) \<longleftrightarrow> (\<exists>j < n. ys = replicate j 0)"
proof (induction n arbitrary: ys)
  case (Suc n)
  show ?case
  proof (cases ys)
    case (Cons c zs)
    have "\<exists>j < Suc n. c # zs = replicate j 0" if "c = 0" "j < n" "zs = replicate j 0" for j
      using that by (intro exI [of _ "Suc j"]) simp
    then show ?thesis using Cons Suc by (auto simp: word_less_nat_alt Cons_replicate_eq)
  qed auto
qed simp

lemma carry_range_iff:
  fixes xs :: bytes
  assumes "b \<noteq> 255" and ns: "ns = xs @ [b] @ replicate n 255"
  shows "ns \<le> k \<and> k < namespace_upper_bound ns \<longleftrightarrow>
    prefix ns k \<or> (\<exists>j < n. k = xs @ [b + 1] @ replicate j 0)"
proof -
  have "unat b \<noteq> 255" using assms(1) by (simp add: word_unat_eq_iff)
  moreover have "unat b < 256" using unat_lt [of b] by simp
  ultimately have b: "unat (b + 1) = unat b + 1" by (subst unat_add_exact) auto
  then have between: "b \<le> c \<and> c \<le> b + 1 \<longleftrightarrow> c = b \<or> c = b + 1" "b < b + 1" for c
    by (auto simp: word_le_nat_alt word_less_nat_alt word_unat_eq_iff)
  have up: "namespace_upper_bound ns = xs @ [b + 1] @ replicate n 0"
    unfolding ns using assms(1) by (rule upper_bound_carry)
  have tail: "b # replicate n 255 \<le> ys \<and> ys < (b + 1) # replicate n 0 \<longleftrightarrow>
      prefix (b # replicate n 255) ys \<or> (\<exists>j < n. ys = (b + 1) # replicate j 0)" for ys
  proof (cases ys)
    case (Cons c zs)
    have "b \<noteq> b + 1" using between(2) by simp
    then show ?thesis
      using between(1) [of c] between(2)
      by (auto simp: Cons replicate_max_le_iff less_replicate_zero_iff)
  qed auto
  show ?thesis
  proof
    assume k: "ns \<le> k \<and> k < namespace_upper_bound ns"
    then have "xs \<le> k" using ns prefix_le [of xs ns] by (auto intro: order_trans)
    with k up obtain ys where ys: "k = xs @ ys" using between_prefix by (metis prefixE)
    with k ns up have "b # replicate n 255 \<le> ys \<and> ys < (b + 1) # replicate n 0" by simp
    with tail show "prefix ns k \<or> (\<exists>j < n. k = xs @ [b + 1] @ replicate j 0)" by (auto simp: ys ns)
  next
    assume "prefix ns k \<or> (\<exists>j < n. k = xs @ [b + 1] @ replicate j 0)"
    then obtain ys where ys: "k = xs @ ys" "prefix (b # replicate n 255) ys \<or> (\<exists>j < n. ys = (b + 1) # replicate j 0)"
      by (auto simp: ns prefix_def)
    then have "b # replicate n 255 \<le> ys \<and> ys < (b + 1) # replicate n 0" using tail by blast
    with ys(1) show "ns \<le> k \<and> k < namespace_upper_bound ns" unfolding up by (simp add: ns)
  qed
qed
lemma trim_all_panics_iff: "panics (trim_all ns rs) \<longleftrightarrow> (\<exists>(k, v) \<in> set rs. length k < length ns)"
proof (induction rs)
  case (Cons e rs)
  then show ?case
    by (cases e; cases "trim_all ns rs") (auto simp: trim_def)
qed simp

lemma carry_prefix_range_iff:
  fixes xs :: bytes
  assumes "b \<noteq> 255" and ns: "ns = xs @ [b] @ replicate n 255"
  shows "in_range (Some (case start of Some s \<Rightarrow> ns @ s | None \<Rightarrow> ns))
      (Some (case end of Some e \<Rightarrow> ns @ e | None \<Rightarrow> namespace_upper_bound ns)) k \<longleftrightarrow>
    (\<exists>j. k = ns @ j \<and> in_range start end j) \<or> (end = None \<and> (\<exists>j < n. k = xs @ [b + 1] @ replicate j 0))"
    (is "in_range (Some ?s) (Some ?e) k \<longleftrightarrow> ?own \<or> ?other")
proof
  assume "in_range (Some ?s) (Some ?e) k"
  then have k: "?s \<le> k" "k < ?e" by (simp_all add: in_range_def)
  have "ns \<le> k" using k(1) prefix_le [of ns "ns @ _"] by (cases start) (auto intro: order_trans)
  then have "prefix ns k \<or> ?other"
    using k(2) between_prefix carry_range_iff [OF assms] by (cases "end") auto
  moreover have "?own" if "prefix ns k"
    using that k by (auto simp: prefix_def in_range_def split: option.splits)
  ultimately show "?own \<or> ?other" by blast
next
  assume "?own \<or> ?other"
  then show "in_range (Some ?s) (Some ?e) k"
  proof
    assume ?own
    then obtain j where j: "k = ns @ j" "in_range start end j" by blast
    moreover from this have "k < namespace_upper_bound ns" using carry_range_iff [OF assms, of k] by (simp add: prefix_def)
    ultimately show ?thesis using prefix_le [of ns k] by (simp add: in_range_def split: option.splits)
  next
    assume other: ?other
    then have "k < namespace_upper_bound ns" "ns \<le> k" "\<not> prefix ns k"
      using carry_range_iff [OF assms, of k] by (auto simp: ns dest: prefix_length_le)
    then show ?thesis
      using other between_prefix [of ns k] by (auto simp: in_range_def not_less [symmetric] split: option.splits)
  qed
qed

context key_value_store
begin

lemma range_with_prefix_carry:
  fixes xs :: bytes
  assumes "valid s" "b \<noteq> 255" and ns: "ns = xs @ [b] @ replicate n 255"
  shows "if end = None \<and> (\<exists>j < n. view s (xs @ [b + 1] @ replicate j 0) \<noteq> None)
    then panics (range_with_prefix S s ns start end ord)
    else \<exists>rs. range_with_prefix S s ns start end ord = Done rs \<and>
      range_spec (\<lambda>k. view s (ns @ k)) start end ord rs"
proof (cases "end = None \<and> (\<exists>j < n. view s (xs @ [b + 1] @ replicate j 0) \<noteq> None)")
  case True
  then obtain j v where j: "j < n" "view s (xs @ [b + 1] @ replicate j 0) = Some v" by blast
  define s' where "s' = (case start of Some s \<Rightarrow> ns @ s | None \<Rightarrow> ns)"
  obtain bs where bs: "st_range S s (Some s') (Some (namespace_upper_bound ns)) ord = Done bs"
    "range_spec (view s) (Some s') (Some (namespace_upper_bound ns)) ord bs"
    using range_view [OF assms(1)] by blast
  have "in_range (Some s') (Some (namespace_upper_bound ns)) (xs @ [b + 1] @ replicate j 0)"
    using carry_prefix_range_iff [OF assms(2) ns, of start None "xs @ [b + 1] @ replicate j 0"] j(1)
    by (auto simp: s'_def)
  then have "(xs @ [b + 1] @ replicate j 0, v) \<in> set bs" using bs(2) j(2) by (simp add: range_spec_def)
  then have "panics (trim_all ns bs)" using j(1) by (force simp: trim_all_panics_iff ns)
  then show ?thesis using True bs(1) by (simp add: range_with_prefix_def s'_def)
next
  case False
  then show ?thesis
    using carry_prefix_range_iff [OF assms(2) ns, of start "end"]
    by (subst if_not_P) (auto intro!: range_with_prefix_keys [OF assms(1)])
qed

end

lemma prefixed_new_storage: "prefixed_new s ns = Done p \<Longrightarrow> ps_storage p = s"
  by (auto simp: prefixed_new_def omap_eq_Done_iff)

end
