(* ===== verification/Typed_Storage.thy ===== *)
theory Typed_Storage
  imports Prefixed_Storage Rust_Strings
begin

text \<open>
  The typed wrappers of \<open>packages/storage/src\<close>: \<open>type_helpers.rs\<close>, \<open>singleton.rs\<close>,
  \<open>bucket.rs\<close> and \<open>sequence.rs\<close>, with \<open>to_vec\<close> and \<open>from_slice\<close> of
  \<open>packages/std/src/serde.rs\<close>. The JSON functions of the crate serde-json-wasm are an argument,
  the record \<open>json\<close>; the locale \<open>json_codec\<close> states that a value that is written is read
  back. A wrapper borrows the storage mutably: it is a record of the storage and its key, and its
  methods are programs over that record.
\<close>

section \<open>serde.rs\<close>

record 'a json =
  json_to_vec :: "'a \<Rightarrow> (string, bytes) result"
  json_from_slice :: "bytes \<Rightarrow> (string, 'a) result"
  type_name :: string

definition to_vec :: "'a json \<Rightarrow> 'a \<Rightarrow> bytes std_result" where
  "to_vec J data = map_err (\<lambda>e. SerializeErr (type_name J) e) (json_to_vec J data)"

definition from_slice :: "'a json \<Rightarrow> bytes \<Rightarrow> 'a std_result" where
  "from_slice J value = map_err (\<lambda>e. ParseErr (type_name J) e) (json_from_slice J value)"

text \<open>The JSON of a value is never empty and reading it gives the value.\<close>

locale json_codec =
  fixes J :: "'a json"
  assumes json_total: "\<exists>b. json_to_vec J x = Inr b"
    and json_nonempty: "json_to_vec J x = Inr b \<Longrightarrow> b \<noteq> []"
    and json_roundtrip: "json_to_vec J x = Inr b \<Longrightarrow> json_from_slice J b = Inr x"
begin

lemma to_vec_Ok: "\<exists>b. to_vec J x = Inr b \<and> b \<noteq> [] \<and> from_slice J b = Inr x"
  using json_total [of x] json_nonempty json_roundtrip
  by (auto simp: to_vec_def from_slice_def)

end

section \<open>type\_helpers.rs\<close>

definition may_deserialize :: "'a json \<Rightarrow> bytes option \<Rightarrow> 'a option std_result" where
  "may_deserialize J value =
     (case value of Some data \<Rightarrow> map_ok Some (from_slice J data) | None \<Rightarrow> Inr None)"

definition must_deserialize :: "'a json \<Rightarrow> bytes option \<Rightarrow> 'a std_result" where
  "must_deserialize J value =
     (case value of Some data \<Rightarrow> from_slice J data | None \<Rightarrow> Inl (NotFound (type_name J)))"

definition deserialize_kv :: "'a json \<Rightarrow> kv \<Rightarrow> (bytes \<times> 'a) std_result" where
  "deserialize_kv J kv = (case kv of (k, v) \<Rightarrow> map_ok (\<lambda>t. (k, t)) (from_slice J v))"

section \<open>singleton.rs\<close>

record 's singleton =
  sg_storage :: 's
  sg_key :: bytes

definition singleton_new :: "'s \<Rightarrow> bytes \<Rightarrow> 's singleton outcome" where
  "singleton_new storage key =
     omap (\<lambda>k. \<lparr>sg_storage = storage, sg_key = k\<rparr>) (to_length_prefixed key)"

definition singleton_save :: "'s storage_ops \<Rightarrow> 'a json \<Rightarrow> 'a \<Rightarrow> ('s singleton, std_error, unit) prog" where
  "singleton_save S J data self =
     (case to_vec J data of
        Inl e \<Rightarrow> Done (Inl e, self)
      | Inr b \<Rightarrow> omap (\<lambda>s. (Inr (), self\<lparr>sg_storage := s\<rparr>)) (st_set S (sg_storage self) (sg_key self) b))"

definition singleton_remove :: "'s storage_ops \<Rightarrow> 's singleton \<Rightarrow> 's singleton outcome" where
  "singleton_remove S self =
     omap (\<lambda>s. self\<lparr>sg_storage := s\<rparr>) (st_remove S (sg_storage self) (sg_key self))"

definition singleton_load :: "'s storage_ops \<Rightarrow> 'a json \<Rightarrow> 's singleton \<Rightarrow> 'a std_result" where
  "singleton_load S J self = must_deserialize J (st_get S (sg_storage self) (sg_key self))"

definition singleton_may_load :: "'s storage_ops \<Rightarrow> 'a json \<Rightarrow> 's singleton \<Rightarrow> 'a option std_result" where
  "singleton_may_load S J self = may_deserialize J (st_get S (sg_storage self) (sg_key self))"

text \<open>
  The error type of the action is any type with a conversion from \<open>StdError\<close>. The action may
  panic, and besides the new value it returns what it assigned to the variables it captured.
\<close>

definition singleton_update ::
  "'s storage_ops \<Rightarrow> 'a json \<Rightarrow> (std_error \<Rightarrow> 'e) \<Rightarrow> ('a \<Rightarrow> ('e, 'a \<times> 'x) result outcome) \<Rightarrow>
    ('s singleton, 'e, 'a \<times> 'x) prog" where
  "singleton_update S J from_std action =
     pbind (pmap_err from_std (\<lambda>self. Done (singleton_load S J self, self))) (\<lambda>input.
     pbind (\<lambda>self. omap (\<lambda>r. (r, self)) (action input)) (\<lambda>(output, captured).
     pbind (pmap_err from_std (singleton_save S J output)) (\<lambda>_. preturn (output, captured))))"

section \<open>bucket.rs\<close>

record 's bucket =
  bk_storage :: 's
  bk_prefix :: bytes

definition bucket_new :: "'s \<Rightarrow> bytes \<Rightarrow> 's bucket outcome" where
  "bucket_new storage namespace =
     omap (\<lambda>p. \<lparr>bk_storage = storage, bk_prefix = p\<rparr>) (to_length_prefixed namespace)"

definition bucket_multilevel :: "'s \<Rightarrow> bytes list \<Rightarrow> 's bucket outcome" where
  "bucket_multilevel storage namespaces =
     omap (\<lambda>p. \<lparr>bk_storage = storage, bk_prefix = p\<rparr>) (to_length_prefixed_nested namespaces)"

definition bucket_save :: "'s storage_ops \<Rightarrow> 'a json \<Rightarrow> bytes \<Rightarrow> 'a \<Rightarrow> ('s bucket, std_error, unit) prog" where
  "bucket_save S J key data self =
     (case to_vec J data of
        Inl e \<Rightarrow> Done (Inl e, self)
      | Inr b \<Rightarrow> omap (\<lambda>s. (Inr (), self\<lparr>bk_storage := s\<rparr>))
                   (set_with_prefix S (bk_storage self) (bk_prefix self) key b))"

definition bucket_remove :: "'s storage_ops \<Rightarrow> bytes \<Rightarrow> 's bucket \<Rightarrow> 's bucket outcome" where
  "bucket_remove S key self =
     omap (\<lambda>s. self\<lparr>bk_storage := s\<rparr>) (remove_with_prefix S (bk_storage self) (bk_prefix self) key)"

definition bucket_load :: "'s storage_ops \<Rightarrow> 'a json \<Rightarrow> bytes \<Rightarrow> 's bucket \<Rightarrow> 'a std_result" where
  "bucket_load S J key self = must_deserialize J (get_with_prefix S (bk_storage self) (bk_prefix self) key)"

definition bucket_may_load :: "'s storage_ops \<Rightarrow> 'a json \<Rightarrow> bytes \<Rightarrow> 's bucket \<Rightarrow> 'a option std_result" where
  "bucket_may_load S J key self = may_deserialize J (get_with_prefix S (bk_storage self) (bk_prefix self) key)"

definition bucket_range ::
  "'s storage_ops \<Rightarrow> 'a json \<Rightarrow> bytes option \<Rightarrow> bytes option \<Rightarrow> order \<Rightarrow> 's bucket \<Rightarrow>
    (bytes \<times> 'a) std_result list outcome" where
  "bucket_range S J start end ord self =
     omap (map (deserialize_kv J)) (range_with_prefix S (bk_storage self) (bk_prefix self) start end ord)"

definition bucket_update ::
  "'s storage_ops \<Rightarrow> 'a json \<Rightarrow> (std_error \<Rightarrow> 'e) \<Rightarrow> bytes \<Rightarrow> ('a option \<Rightarrow> ('e, 'a \<times> 'x) result outcome) \<Rightarrow>
    ('s bucket, 'e, 'a \<times> 'x) prog" where
  "bucket_update S J from_std key action =
     pbind (pmap_err from_std (\<lambda>self. Done (bucket_may_load S J key self, self))) (\<lambda>input.
     pbind (\<lambda>self. omap (\<lambda>r. (r, self)) (action input)) (\<lambda>(output, captured).
     pbind (pmap_err from_std (bucket_save S J key output)) (\<lambda>_. preturn (output, captured))))"

section \<open>sequence.rs\<close>

definition sequence :: "'s \<Rightarrow> bytes \<Rightarrow> 's singleton outcome" where
  "sequence storage key = singleton_new storage key"

definition currval :: "'s storage_ops \<Rightarrow> u64 json \<Rightarrow> 's singleton \<Rightarrow> u64 std_result" where
  "currval S J seq = map_ok (\<lambda>v. case v of Some n \<Rightarrow> n | None \<Rightarrow> 0) (singleton_may_load S J seq)"

text \<open>The addition is a plain one: it panics on overflow, as overflow checks are on.\<close>

definition nextval :: "'s storage_ops \<Rightarrow> u64 json \<Rightarrow> ('s singleton, std_error, u64) prog" where
  "nextval S J =
     pbind (\<lambda>seq. Done (currval S J seq, seq)) (\<lambda>cur.
     pbind (plift_out (expect ''attempt to add with overflow'' (checked_add cur 1))) (\<lambda>val.
     pbind (singleton_save S J val) (\<lambda>_. preturn val)))"

text \<open>The values of a number of successive calls.\<close>

fun nextvals :: "'s storage_ops \<Rightarrow> u64 json \<Rightarrow> nat \<Rightarrow> ('s singleton, std_error, u64 list) prog" where
  "nextvals S J 0 = preturn []"
| "nextvals S J (Suc k) = pbind (nextval S J) (\<lambda>x. pbind (nextvals S J k) (\<lambda>xs. preturn (x # xs)))"

section \<open>Facts about the wrappers\<close>

lemma singleton_save_Done_iff:
  "singleton_save S J x self = Done (Inr (), self') \<longleftrightarrow>
   (\<exists>b s. to_vec J x = Inr b \<and> st_set S (sg_storage self) (sg_key self) b = Done s \<and> self' = self\<lparr>sg_storage := s\<rparr>)"
  by (auto simp: singleton_save_def omap_eq_Done_iff split: sum.splits)

lemma singleton_new_Done_iff:
  "singleton_new s key = Done sg \<longleftrightarrow> to_length_prefixed key = Done (sg_key sg) \<and> sg_storage sg = s"
  by (cases sg) (auto simp: singleton_new_def omap_eq_Done_iff)

lemma bucket_new_Done_iff:
  "bucket_new s ns = Done bk \<longleftrightarrow> to_length_prefixed ns = Done (bk_prefix bk) \<and> bk_storage bk = s"
  by (cases bk) (auto simp: bucket_new_def omap_eq_Done_iff)

text \<open>What a successful update read and wrote.\<close>

lemma pmap_err_id: "pmap_err id m s = m s"
proof (cases "m s")
  case (Done x)
  obtain r t where "x = (r, t)" by fastforce
  with Done show ?thesis by (cases r) (simp_all add: pmap_err_def)
qed (simp add: pmap_err_def)

lemma bucket_update_Ok:
  assumes "bucket_update S J id key action bk = Done (Inr (out, x), bk')"
  shows "\<exists>i b s. bucket_may_load S J key bk = Inr i \<and> action i = Done (Inr (out, x)) \<and> to_vec J out = Inr b \<and>
    st_set S (bk_storage bk) (bk_prefix bk @ key) b = Done s \<and> bk' = bk\<lparr>bk_storage := s\<rparr>"
  using assms
  by (auto simp: bucket_update_def pbind_eq_Ok_iff pmap_err_id omap_eq_Done_iff bucket_save_def set_with_prefix_def
      split: sum.splits)

lemma singleton_update_Ok:
  assumes "singleton_update S J id action sg = Done (Inr (out, x), sg')"
  shows "\<exists>i b s. singleton_load S J sg = Inr i \<and> action i = Done (Inr (out, x)) \<and> to_vec J out = Inr b \<and>
    st_set S (sg_storage sg) (sg_key sg) b = Done s \<and> sg' = sg\<lparr>sg_storage := s\<rparr>"
  using assms
  by (auto simp: singleton_update_def pbind_eq_Ok_iff pmap_err_id omap_eq_Done_iff singleton_save_def
      split: sum.splits)

text \<open>A storage with the contract of the trait and a codec for the stored type.\<close>

locale typed_store = key_value_store S valid view + json_codec J
  for S :: "'s storage_ops" and valid view and J :: "'a json"
begin

lemma save_Done:
  assumes "valid (sg_storage sg)"
  shows "\<exists>sg'. singleton_save S J x sg = Done (Inr (), sg') \<and> valid (sg_storage sg') \<and> sg_key sg' = sg_key sg \<and>
    singleton_load S J sg' = Inr x \<and> singleton_may_load S J sg' = Inr (Some x) \<and>
    (\<forall>k. k \<noteq> sg_key sg \<longrightarrow> st_get S (sg_storage sg') k = st_get S (sg_storage sg) k)"
proof -
  obtain b where b: "to_vec J x = Inr b" "b \<noteq> []" "from_slice J b = Inr x" using to_vec_Ok by blast
  obtain t where t: "st_set S (sg_storage sg) (sg_key sg) b = Done t" using set_Done [OF assms b(2)] by blast
  note get = get_after_set [OF assms t]
  show ?thesis
    using b t get
    by (auto simp: singleton_save_def singleton_load_def singleton_may_load_def must_deserialize_def
        may_deserialize_def)
qed

lemma remove_may_load:
  assumes "valid (sg_storage sg)"
  shows "\<exists>sg'. singleton_remove S sg = Done sg' \<and> valid (sg_storage sg') \<and>
    singleton_may_load S J sg' = Inr None \<and> singleton_load S J sg' = Inl (NotFound (type_name J))"
proof -
  obtain t where t: "st_remove S (sg_storage sg) (sg_key sg) = Done t" using remove_Done [OF assms] by blast
  note get = get_after_remove [OF assms t]
  show ?thesis
    using t get by (auto simp: singleton_remove_def singleton_load_def singleton_may_load_def
        must_deserialize_def may_deserialize_def)
qed

lemma bucket_save_Done:
  assumes "valid (bk_storage bk)"
  shows "\<exists>bk'. bucket_save S J key x bk = Done (Inr (), bk') \<and> valid (bk_storage bk') \<and> bk_prefix bk' = bk_prefix bk \<and>
    (\<forall>k. st_get S (bk_storage bk') k =
      (if k = bk_prefix bk @ key then result_ok (to_vec J x) else st_get S (bk_storage bk) k))"
proof -
  obtain b where b: "to_vec J x = Inr b" "b \<noteq> []" "from_slice J b = Inr x" using to_vec_Ok by blast
  obtain t where t: "st_set S (bk_storage bk) (bk_prefix bk @ key) b = Done t"
    using set_Done [OF assms b(2)] by blast
  note get = get_after_set [OF assms t]
  show ?thesis using b t get by (auto simp: bucket_save_def set_with_prefix_def)
qed

lemma may_deserialize_saved: "may_deserialize J (result_ok (to_vec J x)) = Inr (Some x)"
  using to_vec_Ok [of x] by (auto simp: may_deserialize_def)

end

locale sequence_store = typed_store S valid view J
  for S :: "'s storage_ops" and valid view and J :: "u64 json"
begin

lemma nextval_step:
  assumes "valid (sg_storage sg)" "currval S J sg = Inr n" "unat n + 1 < 2 ^ 64"
  shows "\<exists>sg'. nextval S J sg = Done (Inr (n + 1), sg') \<and> valid (sg_storage sg') \<and> currval S J sg' = Inr (n + 1)"
proof -
  have "checked_add n 1 = Some (n + 1)" using assms(3) by (simp add: checked_add_def)
  moreover obtain sg' where "singleton_save S J (n + 1) sg = Done (Inr (), sg')" "valid (sg_storage sg')"
    "singleton_may_load S J sg' = Inr (Some (n + 1))"
    using save_Done [OF assms(1)] by blast
  ultimately show ?thesis
    using assms(2) by (simp add: nextval_def pbind_def plift_out_def currval_def)
qed

lemma nextvals_steps:
  assumes "valid (sg_storage sg)" "currval S J sg = Inr n" "unat n + k < 2 ^ 64"
  shows "\<exists>sg'. nextvals S J k sg = Done (Inr (map (\<lambda>i. n + 1 + word_of_nat i) [0..<k]), sg') \<and>
    valid (sg_storage sg') \<and> currval S J sg' = Inr (n + word_of_nat k)"
  using assms
proof (induction k arbitrary: n sg)
  case (Suc k)
  obtain sg1 where sg1: "nextval S J sg = Done (Inr (n + 1), sg1)" "valid (sg_storage sg1)" "currval S J sg1 = Inr (n + 1)"
    using nextval_step [OF Suc.prems(1,2)] Suc.prems(3) by auto
  have "unat (n + 1) = unat n + 1" using Suc.prems(3) by (subst unat_add_exact) simp_all
  then obtain sg2 where "nextvals S J k sg1 = Done (Inr (map (\<lambda>i. n + 1 + 1 + word_of_nat i) [0..<k]), sg2)"
    "valid (sg_storage sg2)" "currval S J sg2 = Inr (n + 1 + word_of_nat k)"
    using Suc.IH [OF sg1(2,3)] Suc.prems(3) by auto
  moreover have "map (\<lambda>i. n + 1 + word_of_nat i) [0..<Suc k] = (n + 1) # map (\<lambda>i. n + 1 + 1 + word_of_nat i) [0..<k]"
    unfolding map_upt_Suc by (simp add: add.assoc)
  ultimately show ?case using sg1(1) by (simp add: pbind_def add.assoc del: upt_Suc)
qed simp

lemma nextval_overflow:
  assumes "currval S J sg = Inr (- 1)"
  shows "nextval S J sg = Panic ''attempt to add with overflow''"
  using assms by (simp add: nextval_def pbind_def plift_out_def checked_add_def unat_max_word)

end

section \<open>JSON numbers\<close>

text \<open>The JSON of an unsigned integer is its decimal digits.\<close>

definition u64_json :: "u64 json" where
  "u64_json = \<lparr>json_to_vec = (\<lambda>n. Inr (ascii (to_string n))),
     json_from_slice = (\<lambda>bs. map_err (\<lambda>_. ''Invalid number'') (parse_word (from_ascii bs))),
     type_name = ''u64''\<rparr>"

interpretation memory_sequence: sequence_store memory_ops memory_inv "\<lambda>s. btree_get (ms_data s)" u64_json
proof
  show "\<exists>b. json_to_vec u64_json x = Inr b" for x by (simp add: u64_json_def)
  show "json_to_vec u64_json x = Inr b \<Longrightarrow> b \<noteq> []" for x b
    by (auto simp: u64_json_def to_string_def)
  show "json_to_vec u64_json x = Inr b \<Longrightarrow> json_from_slice u64_json b = Inr x" for x b
    by (auto simp: u64_json_def parse_word_to_string)
qed

end
