(* ===== verification/Std_Results.thy ===== *)
theory Std_Results
  imports Wide_Uint Typed_Storage
begin

text \<open>
  The data that contracts receive and return, from \<open>packages/std/src\<close>: \<open>timestamp.rs\<close>,
  \<open>coins.rs\<close>, \<open>types.rs\<close>, the messages and responses of \<open>results/\<close> and the
  timeouts of \<open>ibc.rs\<close>. Addresses and other strings are Isabelle strings, \<open>Binary\<close> is a
  list of bytes. Plain arithmetic panics on overflow, as contracts are built with overflow checks.
\<close>

section \<open>Time\<close>

datatype timestamp = Timestamp (ts_nanos: uint64)

definition plain_add :: "'a::len word \<Rightarrow> 'a word \<Rightarrow> 'a word outcome" where
  "plain_add a b = expect ''attempt to add with overflow'' (checked_add a b)"

definition plain_sub :: "'a::len word \<Rightarrow> 'a word \<Rightarrow> 'a word outcome" where
  "plain_sub a b = expect ''attempt to subtract with overflow'' (checked_sub a b)"

definition plain_mul :: "'a::len word \<Rightarrow> 'a word \<Rightarrow> 'a word outcome" where
  "plain_mul a b = expect ''attempt to multiply with overflow'' (checked_mul a b)"

definition timestamp_from_nanos :: "u64 \<Rightarrow> timestamp" where
  "timestamp_from_nanos nanos_since_epoch = Timestamp (uint64_new nanos_since_epoch)"

definition timestamp_from_seconds :: "u64 \<Rightarrow> timestamp outcome" where
  "timestamp_from_seconds seconds_since_epoch =
     omap (\<lambda>n. Timestamp (uint64_new n)) (plain_mul seconds_since_epoch 1000000000)"

definition timestamp_plus_nanos :: "timestamp \<Rightarrow> u64 \<Rightarrow> timestamp outcome" where
  "timestamp_plus_nanos self addition =
     omap (\<lambda>n. Timestamp (uint64_new n)) (plain_add (u64 (ts_nanos self)) addition)"

definition timestamp_plus_seconds :: "timestamp \<Rightarrow> u64 \<Rightarrow> timestamp outcome" where
  "timestamp_plus_seconds self addition =
     obind (plain_mul addition 1000000000) (timestamp_plus_nanos self)"

definition timestamp_minus_nanos :: "timestamp \<Rightarrow> u64 \<Rightarrow> timestamp outcome" where
  "timestamp_minus_nanos self subtrahend =
     omap (\<lambda>n. Timestamp (uint64_new n)) (plain_sub (u64 (ts_nanos self)) subtrahend)"

definition timestamp_minus_seconds :: "timestamp \<Rightarrow> u64 \<Rightarrow> timestamp outcome" where
  "timestamp_minus_seconds self subtrahend =
     obind (plain_mul subtrahend 1000000000) (timestamp_minus_nanos self)"

definition timestamp_nanos :: "timestamp \<Rightarrow> u64" where
  "timestamp_nanos self = u64 (ts_nanos self)"

definition timestamp_seconds :: "timestamp \<Rightarrow> u64" where
  "timestamp_seconds self = u64 (ts_nanos self) div 1000000000"

definition timestamp_subsec_nanos :: "timestamp \<Rightarrow> u64" where
  "timestamp_subsec_nanos self = u64 (ts_nanos self) mod 1000000000"

text \<open>The format \<open>{}.{:09}\<close>.\<close>

definition timestamp_to_string :: "timestamp \<Rightarrow> string" where
  "timestamp_to_string self =
     (let frac = to_string (timestamp_subsec_nanos self)
      in to_string (timestamp_seconds self) @ ''.'' @ replicate (9 - length frac) CHR ''0'' @ frac)"

section \<open>Coins\<close>

record coin =
  denom :: string
  amount :: uint128

definition coin_new :: "u128 \<Rightarrow> string \<Rightarrow> coin" where
  "coin_new amt den = \<lparr>denom = den, amount = uint128_new amt\<rparr>"

definition coins :: "u128 \<Rightarrow> string \<Rightarrow> coin list" where
  "coins amt den = [coin_new amt den]"

definition coin_to_string :: "coin \<Rightarrow> string" where
  "coin_to_string c = uint128_to_string (amount c) @ denom c"

definition has_coins :: "coin list \<Rightarrow> coin \<Rightarrow> bool" where
  "has_coins cs required =
     (case find (\<lambda>c. denom c = denom required) cs of
        Some m \<Rightarrow> amount required \<le> amount m
      | None \<Rightarrow> False)"

section \<open>The call\<close>

record block_info =
  bi_height :: u64
  bi_time :: timestamp
  bi_chain_id :: string

record env_info =
  env_block :: block_info
  env_transaction :: "u32 option"
  env_contract :: string

record message_info =
  mi_sender :: string
  mi_funds :: "coin list"

section \<open>IBC timeouts\<close>

record ibc_timeout_block =
  tb_revision :: u64
  tb_height :: u64

definition timeout_block_is_zero :: "ibc_timeout_block \<Rightarrow> bool" where
  "timeout_block_is_zero self \<longleftrightarrow> tb_revision self = 0 \<and> tb_height self = 0"

datatype ordering = Less | Equal | Greater

definition u64_cmp :: "u64 \<Rightarrow> u64 \<Rightarrow> ordering" where
  "u64_cmp a b = (if a < b then Less else if a = b then Equal else Greater)"

definition timeout_block_cmp :: "ibc_timeout_block \<Rightarrow> ibc_timeout_block \<Rightarrow> ordering" where
  "timeout_block_cmp self other =
     (case u64_cmp (tb_revision self) (tb_revision other) of
        Equal \<Rightarrow> u64_cmp (tb_height self) (tb_height other)
      | r \<Rightarrow> r)"

record ibc_timeout =
  to_block :: "ibc_timeout_block option"
  to_timestamp :: "timestamp option"

definition timeout_with_block :: "ibc_timeout_block \<Rightarrow> ibc_timeout" where
  "timeout_with_block b = \<lparr>to_block = Some b, to_timestamp = None\<rparr>"

definition timeout_with_timestamp :: "timestamp \<Rightarrow> ibc_timeout" where
  "timeout_with_timestamp t = \<lparr>to_block = None, to_timestamp = Some t\<rparr>"

definition timeout_with_both :: "ibc_timeout_block \<Rightarrow> timestamp \<Rightarrow> ibc_timeout" where
  "timeout_with_both b t = \<lparr>to_block = Some b, to_timestamp = Some t\<rparr>"

section \<open>Messages\<close>

datatype ibc_msg =
    IbcTransfer string string coin ibc_timeout
  | IbcSendPacket string bytes ibc_timeout
  | IbcCloseChannel string

datatype bank_msg =
    BankSend (to_address: string) (send_amount: "coin list")
  | BankBurn "coin list"

datatype staking_msg =
    Delegate string coin
  | Undelegate string coin
  | Redelegate string string coin

datatype distribution_msg =
    SetWithdrawAddress string
  | WithdrawDelegatorReward string

datatype wasm_msg =
    WasmExecute string bytes "coin list"
  | WasmInstantiate "string option" u64 bytes "coin list" string
  | WasmMigrate string u64 bytes
  | WasmUpdateAdmin string string
  | WasmClearAdmin string

datatype vote_option = VoteYes | VoteNo | VoteAbstain | VoteNoWithVeto

datatype gov_msg = GovVote u64 vote_option

datatype 'c cosmos_msg =
    MsgBank bank_msg
  | MsgCustom 'c
  | MsgStaking staking_msg
  | MsgDistribution distribution_msg
  | MsgStargate string bytes
  | MsgIbc ibc_msg
  | MsgWasm wasm_msg
  | MsgGov gov_msg

definition wasm_instantiate :: "'a json \<Rightarrow> u64 \<Rightarrow> 'a \<Rightarrow> coin list \<Rightarrow> string \<Rightarrow> wasm_msg std_result" where
  "wasm_instantiate J code_id msg funds label =
     rbind (to_vec J msg) (\<lambda>payload. Inr (WasmInstantiate None code_id payload funds label))"

definition wasm_execute :: "'a json \<Rightarrow> string \<Rightarrow> 'a \<Rightarrow> coin list \<Rightarrow> wasm_msg std_result" where
  "wasm_execute J contract_addr msg funds =
     rbind (to_vec J msg) (\<lambda>payload. Inr (WasmExecute contract_addr payload funds))"

datatype reply_on = ReplyAlways | ReplyError | ReplySuccess | ReplyNever

record 'c sub_msg =
  sm_id :: u64
  sm_msg :: "'c cosmos_msg"
  sm_gas_limit :: "u64 option"
  sm_reply_on :: reply_on

definition UNUSED_MSG_ID :: u64 where
  "UNUSED_MSG_ID = 0"

definition sub_msg_new :: "'c cosmos_msg \<Rightarrow> 'c sub_msg" where
  "sub_msg_new msg = \<lparr>sm_id = UNUSED_MSG_ID, sm_msg = msg, sm_gas_limit = None, sm_reply_on = ReplyNever\<rparr>"

definition sub_msg_reply_on :: "'c cosmos_msg \<Rightarrow> u64 \<Rightarrow> reply_on \<Rightarrow> 'c sub_msg" where
  "sub_msg_reply_on msg msg_id reply_on = \<lparr>sm_id = msg_id, sm_msg = msg, sm_gas_limit = None, sm_reply_on = reply_on\<rparr>"

definition reply_on_success :: "'c cosmos_msg \<Rightarrow> u64 \<Rightarrow> 'c sub_msg" where
  "reply_on_success msg msg_id = sub_msg_reply_on msg msg_id ReplySuccess"

definition reply_on_error :: "'c cosmos_msg \<Rightarrow> u64 \<Rightarrow> 'c sub_msg" where
  "reply_on_error msg msg_id = sub_msg_reply_on msg msg_id ReplyError"

definition reply_always :: "'c cosmos_msg \<Rightarrow> u64 \<Rightarrow> 'c sub_msg" where
  "reply_always msg msg_id = sub_msg_reply_on msg msg_id ReplyAlways"

definition with_gas_limit :: "'c sub_msg \<Rightarrow> u64 \<Rightarrow> 'c sub_msg" where
  "with_gas_limit self limit = self\<lparr>sm_gas_limit := Some limit\<rparr>"

section \<open>Responses\<close>

text \<open>The check of the key in \<open>Attribute::new\<close> is in debug builds only; contracts are release builds.\<close>

record attribute =
  attr_key :: string
  attr_value :: string

definition attribute_new :: "string \<Rightarrow> string \<Rightarrow> attribute" where
  "attribute_new key val = \<lparr>attr_key = key, attr_value = val\<rparr>"

record event =
  ev_type :: string
  ev_attributes :: "attribute list"

definition event_new :: "string \<Rightarrow> event" where
  "event_new ty = \<lparr>ev_type = ty, ev_attributes = []\<rparr>"

definition event_add_attribute :: "event \<Rightarrow> string \<Rightarrow> string \<Rightarrow> event" where
  "event_add_attribute self key val =
     self\<lparr>ev_attributes := ev_attributes self @ [\<lparr>attr_key = key, attr_value = val\<rparr>]\<rparr>"

record 'c response =
  r_messages :: "'c sub_msg list"
  r_attributes :: "attribute list"
  r_events :: "event list"
  r_data :: "bytes option"

definition response_new :: "'c response" where
  "response_new = \<lparr>r_messages = [], r_attributes = [], r_events = [], r_data = None\<rparr>"

definition add_attribute :: "string \<Rightarrow> string \<Rightarrow> 'c response \<Rightarrow> 'c response" where
  "add_attribute key val self = self\<lparr>r_attributes := r_attributes self @ [attribute_new key val]\<rparr>"

definition add_submessage :: "'c sub_msg \<Rightarrow> 'c response \<Rightarrow> 'c response" where
  "add_submessage msg self = self\<lparr>r_messages := r_messages self @ [msg]\<rparr>"

definition add_message :: "'c cosmos_msg \<Rightarrow> 'c response \<Rightarrow> 'c response" where
  "add_message msg self = self\<lparr>r_messages := r_messages self @ [sub_msg_new msg]\<rparr>"

definition add_event :: "event \<Rightarrow> 'c response \<Rightarrow> 'c response" where
  "add_event ev self = self\<lparr>r_events := r_events self @ [ev]\<rparr>"

definition add_attributes :: "attribute list \<Rightarrow> 'c response \<Rightarrow> 'c response" where
  "add_attributes attrs self = self\<lparr>r_attributes := r_attributes self @ attrs\<rparr>"

definition add_submessages :: "'c sub_msg list \<Rightarrow> 'c response \<Rightarrow> 'c response" where
  "add_submessages msgs self = self\<lparr>r_messages := r_messages self @ msgs\<rparr>"

definition add_messages :: "'c cosmos_msg list \<Rightarrow> 'c response \<Rightarrow> 'c response" where
  "add_messages msgs self = add_submessages (map sub_msg_new msgs) self"

definition add_events :: "event list \<Rightarrow> 'c response \<Rightarrow> 'c response" where
  "add_events evs self = self\<lparr>r_events := r_events self @ evs\<rparr>"

definition set_data :: "bytes \<Rightarrow> 'c response \<Rightarrow> 'c response" where
  "set_data d self = self\<lparr>r_data := Some d\<rparr>"

datatype 'a contract_result = ContractOk 'a | ContractErr string

datatype system_error =
    InvalidRequest string bytes
  | InvalidResponse string bytes
  | NoSuchContract string
  | SystemUnknown
  | UnsupportedRequest string

datatype 'a system_result = SystemOk 'a | SystemErr system_error

type_synonym querier_result = "bytes contract_result system_result"

section \<open>Facts\<close>

text \<open>Messages are appended in the order of the calls; adding a list is adding its members.\<close>

lemma add_messages_fold: "add_messages msgs r = fold add_message msgs r"
proof (induction msgs arbitrary: r)
  case (Cons m msgs)
  have "add_messages (m # msgs) r = add_messages msgs (add_message m r)"
    by (simp add: add_messages_def add_submessages_def add_message_def)
  with Cons.IH show ?case by simp
qed (simp add: add_messages_def add_submessages_def)

text \<open>Adding and subtracting time are exact or panic.\<close>

lemma timestamp_plus_nanos_iff:
  "timestamp_plus_nanos t n = Done t' \<longleftrightarrow> val64 (ts_nanos t') = val64 (ts_nanos t) + unat n"
  by (cases t'; cases "ts_nanos t'")
    (auto simp: timestamp_plus_nanos_def plain_add_def omap_eq_Done_iff expect_eq_Done_iff rust_simps uint64_new_def)

lemma timestamp_minus_nanos_iff:
  "timestamp_minus_nanos t n = Done t' \<longleftrightarrow>
   unat n \<le> val64 (ts_nanos t) \<and> val64 (ts_nanos t') = val64 (ts_nanos t) - unat n"
  by (cases t'; cases "ts_nanos t'")
    (auto simp: timestamp_minus_nanos_def plain_sub_def omap_eq_Done_iff expect_eq_Done_iff rust_simps uint64_new_def)

text \<open>The order on timeout blocks is lexicographic, hence total.\<close>

lemma timeout_block_cmp_Less_iff:
  "timeout_block_cmp a b = Less \<longleftrightarrow>
   tb_revision a < tb_revision b \<or> (tb_revision a = tb_revision b \<and> tb_height a < tb_height b)"
  by (auto simp: timeout_block_cmp_def u64_cmp_def)

lemma timeout_block_cmp_Equal_iff: "timeout_block_cmp a b = Equal \<longleftrightarrow> a = b"
  by (cases a; cases b) (auto simp: timeout_block_cmp_def u64_cmp_def)

lemma timeout_block_cmp_Greater_iff: "timeout_block_cmp a b = Greater \<longleftrightarrow> timeout_block_cmp b a = Less"
  by (cases a; cases b) (auto simp: timeout_block_cmp_def u64_cmp_def)

end
