(* ===== verification/Contract_Queue.thy ===== *)
theory Contract_Queue
  imports Std_Results
begin

text \<open>
  The contract \<open>contracts/queue\<close>: a queue of 32-bit integers that uses the raw storage, one
  entry under a one-byte key per item. The storage and the JSON codecs are parameters; what is
  proved holds for every storage that keeps the contract of the trait. The abstract specification is
  a list, to which items are appended and from whose front they are taken.
\<close>

section \<open>Data\<close>

type_synonym i32 = "32 word"

datatype item = Item (item_value: i32)

datatype queue_execute_msg = Enqueue i32 | Dequeue

datatype queue_query_msg = Count | Sum | Reducer | ListKeys

record list_response =
  lr_empty :: "u32 list"
  lr_early :: "u32 list"
  lr_late :: "u32 list"

text \<open>The codecs of the responses.\<close>

record queue_codecs =
  item_json :: "item json"
  count_json :: "u32 json"
  sum_json :: "i32 json"
  reducer_json :: "(i32 \<times> i32) list json"
  list_json :: "list_response json"

definition FIRST_KEY :: u8 where
  "FIRST_KEY = 0"

section \<open>Execution\<close>

definition queue_instantiate :: "('s, std_error, unit response) prog" where
  "queue_instantiate = preturn response_new"

text \<open>\<open>key[0]\<close> panics on an empty key.\<close>

definition first_byte :: "bytes \<Rightarrow> u8 outcome" where
  "first_byte key =
     (case key of [] \<Rightarrow> Panic ''index out of bounds: the len is 0 but the index is 0'' | b # _ \<Rightarrow> Done b)"

definition enqueue :: "'s storage_ops \<Rightarrow> item json \<Rightarrow> i32 \<Rightarrow> ('s, std_error, unit) prog" where
  "enqueue S J v s =
     obind (st_range S s None None Descending) (\<lambda>items.
     obind (case items of
              [] \<Rightarrow> Done FIRST_KEY
            | (key, _) # _ \<Rightarrow> obind (first_byte key) (\<lambda>b. plain_add b 1)) (\<lambda>new_key.
     case to_vec J (Item v) of
       Inl e \<Rightarrow> Done (Inl e, s)
     | Inr new_value \<Rightarrow> omap (\<lambda>s'. (Inr (), s')) (st_set S s [new_key] new_value)))"

definition handle_enqueue :: "'s storage_ops \<Rightarrow> item json \<Rightarrow> i32 \<Rightarrow> ('s, std_error, unit response) prog" where
  "handle_enqueue S J v = pbind (enqueue S J v) (\<lambda>_. preturn response_new)"

definition handle_dequeue :: "'s storage_ops \<Rightarrow> ('s, std_error, unit response) prog" where
  "handle_dequeue S s =
     obind (st_range S s None None Ascending) (\<lambda>items.
     case items of
       [] \<Rightarrow> Done (Inr response_new, s)
     | (key, val) # _ \<Rightarrow>
         omap (\<lambda>s'. (Inr (response_new\<lparr>r_data := Some val\<rparr>), s')) (st_remove S s key))"

definition queue_execute ::
  "'s storage_ops \<Rightarrow> item json \<Rightarrow> queue_execute_msg \<Rightarrow> ('s, std_error, unit response) prog" where
  "queue_execute S J msg = (case msg of Enqueue v \<Rightarrow> handle_enqueue S J v | Dequeue \<Rightarrow> handle_dequeue S)"

fun remove_keys :: "'s storage_ops \<Rightarrow> bytes list \<Rightarrow> 's \<Rightarrow> 's outcome" where
  "remove_keys S [] s = Done s"
| "remove_keys S (key # keys) s = obind (st_remove S s key) (remove_keys S keys)"

definition queue_migrate :: "'s storage_ops \<Rightarrow> item json \<Rightarrow> ('s, std_error, unit response) prog" where
  "queue_migrate S J s =
     obind (st_range S s None None Ascending) (\<lambda>items.
     obind (remove_keys S (map fst items) s)
       (pbind (enqueue S J 100) (\<lambda>_.
        pbind (enqueue S J 101) (\<lambda>_.
        pbind (enqueue S J 102) (\<lambda>_. preturn response_new)))))"

section \<open>Queries\<close>

definition i32_add :: "i32 \<Rightarrow> i32 \<Rightarrow> i32 outcome" where
  "i32_add a b =
     (let r = sint a + sint b in
      if - (2 ^ 31) \<le> r \<and> r < 2 ^ 31 then Done (word_of_int r) else Panic ''attempt to add with overflow'')"

fun i32_sum :: "i32 \<Rightarrow> i32 list \<Rightarrow> i32 outcome" where
  "i32_sum acc [] = Done acc"
| "i32_sum acc (v # vs) = obind (i32_add acc v) (\<lambda>acc'. i32_sum acc' vs)"

fun collect_ok :: "('e, 'a) result list \<Rightarrow> ('e, 'a list) result" where
  "collect_ok [] = Inr []"
| "collect_ok (r # rs) = rbind r (\<lambda>x. map_ok ((#) x) (collect_ok rs))"

definition query_count :: "'s storage_ops \<Rightarrow> 's \<Rightarrow> u32 outcome" where
  "query_count S s = omap (\<lambda>items. word_of_nat (length items)) (st_range S s None None Ascending)"

definition query_sum :: "'s storage_ops \<Rightarrow> item json \<Rightarrow> 's \<Rightarrow> i32 std_result outcome" where
  "query_sum S J s =
     obind (st_range S s None None Ascending) (\<lambda>items.
     case collect_ok (map (\<lambda>(_, v). from_slice J v) items) of
       Inl e \<Rightarrow> Done (Inl e)
     | Inr vals \<Rightarrow> omap Inr (i32_sum 0 (map item_value vals)))"

text \<open>The inner iterator of the reducer: an item that does not parse panics.\<close>

fun expect_items :: "item json \<Rightarrow> kv list \<Rightarrow> i32 list outcome" where
  "expect_items J [] = Done []"
| "expect_items J ((_, v) # items) =
     obind (expect_ok ''error in item'' (from_slice J v)) (\<lambda>x. omap ((#) (item_value x)) (expect_items J items))"

fun reducer_loop :: "'s storage_ops \<Rightarrow> item json \<Rightarrow> 's \<Rightarrow> kv list \<Rightarrow> (i32 \<times> i32) list \<Rightarrow> (i32 \<times> i32) list std_result outcome" where
  "reducer_loop S J s [] out = Done (Inr out)"
| "reducer_loop S J s ((_, v) # items) out =
     (case from_slice J v of
        Inl e \<Rightarrow> Done (Inl e)
      | Inr val \<Rightarrow>
          let my_val = item_value val in
          obind (st_range S s None None Ascending) (\<lambda>all.
          obind (expect_items J all) (\<lambda>vals.
          obind (i32_sum 0 (filter (\<lambda>v. sint my_val < sint v) vals)) (\<lambda>total.
          reducer_loop S J s items (out @ [(my_val, total)])))))"

definition query_reducer :: "'s storage_ops \<Rightarrow> item json \<Rightarrow> 's \<Rightarrow> (i32 \<times> i32) list std_result outcome" where
  "query_reducer S J s = obind (st_range S s None None Ascending) (\<lambda>items. reducer_loop S J s items [])"

fun first_bytes :: "kv list \<Rightarrow> u32 list outcome" where
  "first_bytes [] = Done []"
| "first_bytes ((k, _) # items) = obind (first_byte k) (\<lambda>b. omap ((#) (ucast b)) (first_bytes items))"

definition query_list :: "'s storage_ops \<Rightarrow> 's \<Rightarrow> list_response outcome" where
  "query_list S s =
     obind (obind (st_range S s (Some (ascii ''large'')) (Some (ascii ''larger'')) Ascending) first_bytes) (\<lambda>none.
     obind (obind (st_range S s None (Some [0x20]) Ascending) first_bytes) (\<lambda>early.
     omap (\<lambda>late. \<lparr>lr_empty = none, lr_early = early, lr_late = late\<rparr>)
       (obind (st_range S s (Some [0x20]) None Ascending) first_bytes)))"

definition queue_query :: "'s storage_ops \<Rightarrow> queue_codecs \<Rightarrow> queue_query_msg \<Rightarrow> 's \<Rightarrow> bytes std_result outcome" where
  "queue_query S Js msg s =
     (case msg of
        Count \<Rightarrow> omap (to_vec (count_json Js)) (query_count S s)
      | Sum \<Rightarrow> omap (\<lambda>r. rbind r (to_vec (sum_json Js))) (query_sum S (item_json Js) s)
      | Reducer \<Rightarrow> omap (\<lambda>r. rbind r (to_vec (reducer_json Js))) (query_reducer S (item_json Js) s)
      | ListKeys \<Rightarrow> omap (to_vec (list_json Js)) (query_list S s))"

section \<open>The abstract queue\<close>

fun fifo :: "queue_execute_msg list \<Rightarrow> i32 list \<Rightarrow> i32 option list \<times> i32 list" where
  "fifo [] xs = ([], xs)"
| "fifo (Enqueue v # ms) xs = fifo ms (xs @ [v])"
| "fifo (Dequeue # ms) [] = (let (out, ys) = fifo ms [] in (None # out, ys))"
| "fifo (Dequeue # ms) (x # xs) = (let (out, ys) = fifo ms xs in (Some x # out, ys))"

text \<open>The contract on a list of messages; the data of the responses to \<open>Dequeue\<close> is collected.\<close>

fun queue_run :: "'s storage_ops \<Rightarrow> item json \<Rightarrow> queue_execute_msg list \<Rightarrow> ('s, std_error, bytes option list) prog" where
  "queue_run S J [] = preturn []"
| "queue_run S J (m # ms) =
     pbind (queue_execute S J m) (\<lambda>res.
     pbind (queue_run S J ms) (\<lambda>out.
     preturn (case m of Dequeue \<Rightarrow> r_data res # out | Enqueue _ \<Rightarrow> out)))"

fun enqueues :: "queue_execute_msg list \<Rightarrow> nat" where
  "enqueues [] = 0"
| "enqueues (Enqueue _ # ms) = Suc (enqueues ms)"
| "enqueues (Dequeue # ms) = enqueues ms"

definition encode_item :: "item json \<Rightarrow> i32 \<Rightarrow> bytes option" where
  "encode_item J v = result_ok (to_vec J (Item v))"

section \<open>Ranges after a change at an end\<close>

lemma range_spec_append:
  assumes "range_spec m None None Ascending rs" "\<And>j. j \<in> fst ` set rs \<Longrightarrow> j < k"
  shows "range_spec (m(k \<mapsto> v)) None None Ascending (rs @ [(k, v)])"
proof -
  have rs: "set rs = {(j, w). m j = Some w}" "sorted_wrt (<) (map fst rs)"
    using assms(1) by (simp_all add: range_spec_def ordered_by_def in_range_def)
  have "m k = None"
  proof (rule ccontr)
    assume "m k \<noteq> None"
    then obtain w where "(k, w) \<in> set rs" using rs(1) by auto
    then have "k \<in> fst ` set rs" by force
    then show False using assms(2) by blast
  qed
  then have "set (rs @ [(k, v)]) = {(j, w). (m(k \<mapsto> v)) j = Some w}" using rs(1) by (auto split: if_splits)
  moreover have "sorted_wrt (<) (map fst (rs @ [(k, v)]))"
    using rs(2) assms(2) by (auto simp: sorted_wrt_append)
  ultimately show ?thesis by (simp add: range_spec_def ordered_by_def in_range_def)
qed

lemma range_spec_tl:
  assumes "range_spec m None None Ascending ((k, v) # rs)"
  shows "range_spec (m(k := None)) None None Ascending rs"
proof -
  have rs: "set ((k, v) # rs) = {(j, w). m j = Some w}" "sorted_wrt (<) (k # map fst rs)"
    using assms by (simp_all add: range_spec_def ordered_by_def in_range_def)
  have k: "k \<notin> fst ` set rs" using rs(2) by auto
  have "set rs = {(j, w). (m(k := None)) j = Some w}"
  proof (intro set_eqI, clarify)
    fix j w
    have "(j, w) \<in> set rs \<longleftrightarrow> j \<noteq> k \<and> (j, w) \<in> set ((k, v) # rs)" using k by force
    then show "(j, w) \<in> set rs \<longleftrightarrow> (j, w) \<in> {(j, w). (m(k := None)) j = Some w}" unfolding rs(1) by auto
  qed
  with rs(2) show ?thesis by (simp add: range_spec_def ordered_by_def in_range_def)
qed

section \<open>The contract refines the abstract queue\<close>

text \<open>Removing the keys of a range over everything empties the storage.\<close>

context key_value_store
begin

lemma remove_keys_empty:
  assumes "valid s" "range_spec (view s) None None Ascending rs"
  shows "\<exists>s'. remove_keys S (map fst rs) s = Done s' \<and> valid s' \<and> view s' = Map.empty"
  using assms
proof (induction rs arbitrary: s)
  case Nil
  then have "view s k = None" for k by (cases "view s k") (auto simp: range_spec_def in_range_def)
  then show ?case using Nil by auto
next
  case (Cons kv rs)
  obtain k v where kv: "kv = (k, v)" by fastforce
  obtain t where t: "st_remove S s k = Done t" "valid t" "view t = (view s)(k := None)"
    using remove_view [OF Cons.prems(1)] by blast
  have "range_spec (view t) None None Ascending rs"
    using range_spec_tl Cons.prems(2) unfolding t(3) kv by blast
  from Cons.IH [OF t(2) this] t(1) kv show ?case by simp
qed

end

text \<open>
  The storage holds the queue \<open>xs\<close>: its entries have one-byte keys and hold the encoded items in
  order, and \<open>room\<close> more items fit before the key overflows.
\<close>

locale queue_store = typed_store S valid view J
  for S :: "'s storage_ops" and valid view and J :: "item json"
begin

definition holds :: "'s \<Rightarrow> kv list \<Rightarrow> i32 list \<Rightarrow> nat \<Rightarrow> bool" where
  "holds s rs xs room \<longleftrightarrow> valid s \<and> range_spec (view s) None None Ascending rs \<and>
     map (Some \<circ> snd) rs = map (encode_item J) xs \<and>
     (\<forall>k \<in> fst ` set rs. \<exists>b. k = [b] \<and> unat b + room < 256) \<and> room \<le> 256"

lemma holdsD:
  assumes "holds s rs xs room"
  shows "st_range S s None None Ascending = Done rs" "st_range S s None None Descending = Done (rev rs)"
    "length rs = length xs"
proof -
  have valid: "valid s" and spec: "range_spec (view s) None None Ascending rs"
    using assms by (simp_all add: holds_def)
  obtain qs where "st_range S s None None Ascending = Done qs" "range_spec (view s) None None Ascending qs"
    using range_view [OF valid] by blast
  then show "st_range S s None None Ascending = Done rs" using range_spec_unique [OF spec] by simp
  obtain qs where "st_range S s None None Descending = Done qs" "range_spec (view s) None None Descending qs"
    using range_view [OF valid] by blast
  then show "st_range S s None None Descending = Done (rev rs)"
    using range_spec_unique [OF range_spec_rev [OF spec]] by simp
  show "length rs = length xs" using assms map_eq_imp_length_eq by (auto simp: holds_def)
qed

lemma next_key:
  assumes "holds s rs xs (Suc room)"
  shows "\<exists>b. (case rev rs of [] \<Rightarrow> Done FIRST_KEY | (key, _) # _ \<Rightarrow> obind (first_byte key) (\<lambda>b. plain_add b 1)) = Done b \<and>
    (\<forall>j \<in> fst ` set rs. j < [b]) \<and> unat b + room < 256"
proof (cases rs rule: rev_cases)
  case Nil
  then show ?thesis using assms by (simp add: FIRST_KEY_def holds_def)
next
  case (snoc qs kv)
  obtain k v where kv: "kv = (k, v)" by fastforce
  obtain b where b: "k = [b]" "unat b + Suc room < 256" using assms snoc kv by (auto simp: holds_def)
  have succ: "unat (b + 1) = unat b + 1" using b(2) by (subst unat_add_exact) simp_all
  have sorted: "sorted_wrt (<) (map fst rs)" and one: "\<And>j. j \<in> fst ` set rs \<Longrightarrow> \<exists>c. j = [c]"
    using assms by (auto simp: holds_def range_spec_def ordered_by_def)
  have "j < [b + 1]" if j: "j \<in> fst ` set rs" for j
  proof -
    obtain c where c: "j = [c]" using one [OF j] by blast
    have "c \<le> b" using j sorted c b(1) snoc kv by (fastforce simp: sorted_wrt_append)
    then show ?thesis using c succ by (simp add: word_le_nat_alt word_less_nat_alt)
  qed
  moreover have "plain_add b 1 = Done (b + 1)"
    using b(2) by (simp add: plain_add_def checked_add_def)
  ultimately show ?thesis using snoc kv b succ by (intro exI [of _ "b + 1"]) (auto simp: first_byte_def)
qed

lemma enqueue_holds:
  assumes "holds s rs xs (Suc room)"
  shows "\<exists>s' rs'. enqueue S J v s = Done (Inr (), s') \<and> holds s' rs' (xs @ [v]) room"
proof -
  obtain b where b: "(case rev rs of [] \<Rightarrow> Done FIRST_KEY | (key, _) # _ \<Rightarrow> obind (first_byte key) (\<lambda>b. plain_add b 1)) = Done b"
    "\<And>j. j \<in> fst ` set rs \<Longrightarrow> j < [b]" "unat b + room < 256"
    using next_key [OF assms] by blast
  have valid: "valid s" and spec: "range_spec (view s) None None Ascending rs" using assms by (simp_all add: holds_def)
  obtain e where e: "to_vec J (Item v) = Inr e" "e \<noteq> []" using to_vec_Ok by blast
  obtain t where t: "st_set S s [b] e = Done t" "valid t" "view t = (view s)([b] \<mapsto> e)"
    using set_view [OF valid e(2)] by blast
  have "holds t (rs @ [([b], e)]) (xs @ [v]) room"
    using assms t(2) e(1) b(3) range_spec_append [OF spec b(2)] unfolding holds_def t(3)
    by (fastforce simp: encode_item_def)
  moreover have "enqueue S J v s = Done (Inr (), t)"
    using b(1) e(1) t(1) by (simp add: enqueue_def holdsD(2) [OF assms])
  ultimately show ?thesis by blast
qed

lemma dequeue_holds:
  assumes "holds s rs xs room"
  shows "\<exists>res s' rs'. handle_dequeue S s = Done (Inr res, s') \<and> holds s' rs' (tl xs) room \<and>
    r_data res = (case xs of [] \<Rightarrow> None | x # _ \<Rightarrow> encode_item J x)"
proof (cases rs)
  case Nil
  then have "xs = []" using holdsD(3) [OF assms] by simp
  then show ?thesis using Nil assms holdsD(1) [OF assms] by (auto simp: handle_dequeue_def response_new_def)
next
  case (Cons kv rs')
  obtain k v where kv: "kv = (k, v)" by fastforce
  obtain x ys where xs: "xs = x # ys" using holdsD(3) [OF assms] Cons by (cases xs) auto
  have valid: "valid s" and spec: "range_spec (view s) None None Ascending ((k, v) # rs')"
    using assms Cons kv by (simp_all add: holds_def)
  obtain t where t: "st_remove S s k = Done t" "valid t" "view t = (view s)(k := None)"
    using remove_view [OF valid] by blast
  have "holds t rs' ys room"
    using assms t(2) range_spec_tl [OF spec] unfolding holds_def t(3) Cons kv xs by simp
  moreover have "encode_item J x = Some v" using assms by (simp add: holds_def Cons kv xs)
  moreover have "handle_dequeue S s = Done (Inr (response_new\<lparr>r_data := Some v\<rparr>), t)"
    using t(1) by (simp add: handle_dequeue_def holdsD(1) [OF assms] Cons kv)
  ultimately show ?thesis using xs by auto
qed

lemma queue_run_fifo:
  assumes "holds s rs xs room" "enqueues ms \<le> room"
  shows "\<exists>s' rs'. queue_run S J ms s =
      Done (Inr (map (\<lambda>x. Option.bind x (encode_item J)) (fst (fifo ms xs))), s') \<and>
    holds s' rs' (snd (fifo ms xs)) (room - enqueues ms)"
  using assms
proof (induction ms arbitrary: s rs xs room)
  case (Cons m ms)
  show ?case
  proof (cases m)
    case (Enqueue v)
    then obtain room' where room: "room = Suc room'" using Cons.prems(2) by (cases room) auto
    obtain s1 rs1 where step: "enqueue S J v s = Done (Inr (), s1)" "holds s1 rs1 (xs @ [v]) room'"
      using enqueue_holds Cons.prems(1) room by blast
    from Cons.IH [OF step(2)] Cons.prems(2) Enqueue room step(1) show ?thesis
      by (auto simp: queue_execute_def handle_enqueue_def pbind_def)
  next
    case Dequeue
    obtain res s1 rs1 where step: "handle_dequeue S s = Done (Inr res, s1)" "holds s1 rs1 (tl xs) room"
      "r_data res = (case xs of [] \<Rightarrow> None | x # _ \<Rightarrow> encode_item J x)"
      using dequeue_holds [OF Cons.prems(1)] by blast
    obtain s2 rs2 where "queue_run S J ms s1 = Done (Inr (map (\<lambda>x. Option.bind x (encode_item J)) (fst (fifo ms (tl xs)))), s2)"
      "holds s2 rs2 (snd (fifo ms (tl xs))) (room - enqueues ms)"
      using Cons.IH [OF step(2)] Cons.prems(2) Dequeue by auto
    with step(1,3) Dequeue show ?thesis
      by (cases xs) (auto simp: queue_execute_def pbind_def split: prod.splits)
  qed
qed (auto simp: preturn_def)

lemma holds_empty: "valid s \<Longrightarrow> view s = Map.empty \<Longrightarrow> holds s [] [] 256"
  by (simp add: holds_def range_spec_def ordered_by_def)

text \<open>With the key 255 in use the next item cannot be stored.\<close>

lemma enqueue_full:
  assumes "holds s (rs @ [([255], w)]) xs room"
  shows "enqueue S J v s = Panic ''attempt to add with overflow''"
  using holdsD(2) [OF assms] by (simp add: enqueue_def first_byte_def plain_add_def checked_add_def)

lemma enqueue_blocked:
  assumes "valid s" "view s [255] = Some w" "\<And>k. k \<in> dom (view s) \<Longrightarrow> \<exists>b. k = [b]"
  shows "enqueue S J v s = Panic ''attempt to add with overflow''"
proof -
  obtain qs where qs: "st_range S s None None Descending = Done qs" "range_spec (view s) None None Descending qs"
    using range_view [OF assms(1)] by blast
  have entries: "set qs = {(k, v). view s k = Some v}" and sorted: "sorted_wrt (>) (map fst qs)"
    using qs(2) by (simp_all add: range_spec_def ordered_by_def in_range_def)
  have mem: "([255], w) \<in> set qs" using entries assms(2) by simp
  then obtain k u rs where Cons: "qs = (k, u) # rs" by (cases qs) auto
  then obtain b where b: "k = [b]" using assms(3) entries by (metis (mono_tags, lifting) domI list.set_intros(1) mem_Collect_eq case_prodD)
  have "[255] \<le> k" using mem Cons sorted by force
  then have "255 \<le> b" using b by auto
  then have "b = 255" using unat_lt [of b] by (simp add: word_le_nat_alt word_unat_eq_iff)
  then show ?thesis
    using qs(1) Cons b by (simp add: enqueue_def first_byte_def plain_add_def checked_add_def)
qed

lemma holds_items:
  assumes "holds s rs xs room"
  shows "map (\<lambda>(_, v). from_slice J v) rs = map (Inr \<circ> Item) xs"
proof -
  have "map (Some \<circ> snd) rs = map (encode_item J) xs" using assms by (simp add: holds_def)
  then show ?thesis
  proof (induction rs arbitrary: xs)
    case (Cons kv rs)
    then obtain x ys where xs: "xs = x # ys" "encode_item J x = Some (snd kv)" by (cases xs) auto
    then have "from_slice J (snd kv) = Inr (Item x)"
      using to_vec_Ok [of "Item x"] by (auto simp: encode_item_def)
    with xs Cons show ?case by (auto simp: split_def)
  qed simp
qed

lemma query_count_holds: "holds s rs xs room \<Longrightarrow> query_count S s = Done (word_of_nat (length xs))"
  using holdsD(1,3) by (simp add: query_count_def)

lemma collect_ok_map: "collect_ok (map (\<lambda>x. Inr (f x)) xs) = Inr (map f xs)"
  by (induction xs) auto

lemma query_sum_holds: "holds s rs xs room \<Longrightarrow> query_sum S J s = omap Inr (i32_sum 0 xs)"
  using holdsD(1) holds_items
  by (simp add: query_sum_def collect_ok_map comp_def)

lemma expect_items_holds: "map (\<lambda>(_, v). from_slice J v) rs = map (Inr \<circ> Item) xs \<Longrightarrow> expect_items J rs = Done xs"
proof (induction rs arbitrary: xs)
  case (Cons kv rs)
  then show ?case by (cases xs; cases kv) auto
qed simp

lemma reducer_loop_holds:
  assumes "holds s rs xs room" "\<And>x. x \<in> set ys \<Longrightarrow> i32_sum 0 (filter (\<lambda>v. sint x < sint v) xs) = Done (f x)"
    and "map (\<lambda>(_, v). from_slice J v) qs = map (Inr \<circ> Item) ys"
  shows "reducer_loop S J s qs out = Done (Inr (out @ map (\<lambda>x. (x, f x)) ys))"
  using assms(2,3)
proof (induction qs arbitrary: ys out)
  case (Cons kv qs)
  then obtain y zs where ys: "ys = y # zs" by (cases ys) auto
  then have "reducer_loop S J s qs (out @ [(y, f y)]) = Done (Inr ((out @ [(y, f y)]) @ map (\<lambda>x. (x, f x)) zs))"
    using Cons.prems by (intro Cons.IH) auto
  with Cons.prems ys show ?case
    by (cases kv) (simp add: holdsD(1) [OF assms(1)] expect_items_holds [OF holds_items [OF assms(1)]])
qed simp

lemma query_reducer_holds:
  assumes "holds s rs xs room" "\<And>x. x \<in> set xs \<Longrightarrow> i32_sum 0 (filter (\<lambda>v. sint x < sint v) xs) = Done (f x)"
  shows "query_reducer S J s = Done (Inr (map (\<lambda>x. (x, f x)) xs))"
  using reducer_loop_holds [OF assms holds_items [OF assms(1)]]
  by (simp add: query_reducer_def holdsD(1) [OF assms(1)])

text \<open>The migration empties the storage and leaves the three new items.\<close>

lemma migrate_holds:
  assumes "valid s"
  shows "\<exists>s' rs. queue_migrate S J s = Done (Inr response_new, s') \<and> holds s' rs [100, 101, 102] 253"
proof -
  obtain rs where rs: "st_range S s None None Ascending = Done rs" "range_spec (view s) None None Ascending rs"
    using range_view [OF assms] by blast
  obtain t where t: "remove_keys S (map fst rs) s = Done t" "valid t" "view t = Map.empty"
    using remove_keys_empty [OF assms rs(2)] by blast
  have "holds t [] [] (Suc 255)" using holds_empty [OF t(2,3)] by simp
  then obtain t1 rs1 where t1: "enqueue S J 100 t = Done (Inr (), t1)" "holds t1 rs1 [100] (Suc 254)"
    using enqueue_holds by fastforce
  then obtain t2 rs2 where t2: "enqueue S J 101 t1 = Done (Inr (), t2)" "holds t2 rs2 [100, 101] (Suc 253)"
    using enqueue_holds [of t1 rs1 "[100]" 254 101] by auto
  then obtain t3 rs3 where "enqueue S J 102 t2 = Done (Inr (), t3)" "holds t3 rs3 [100, 101, 102] 253"
    using enqueue_holds [of t2 rs2 "[100, 101]" 253 102] by auto
  with t1 t2 t(1) rs(1) show ?thesis by (auto simp: queue_migrate_def pbind_def)
qed

end

section \<open>Items as JSON\<close>

definition show_i32 :: "i32 \<Rightarrow> string" where
  "show_i32 v = (if sint v < 0 then CHR ''-'' # to_string (- v) else to_string v)"

definition parse_i32 :: "string \<Rightarrow> (string, i32) result" where
  "parse_i32 s =
     (if take 1 s = ''-''
      then rbind (map_err (\<lambda>_. ''Invalid number'') (parse_word (tl s))) (\<lambda>m.
             if 0 < m \<and> sint (- m) < 0 then Inr (- m) else Inl ''Invalid number'')
      else rbind (map_err (\<lambda>_. ''Invalid number'') (parse_word s)) (\<lambda>m.
             if 0 \<le> sint m then Inr m else Inl ''Invalid number''))"

definition item_json_codec :: "item json" where
  "item_json_codec =
     \<lparr>json_to_vec = (\<lambda>x. Inr (ascii (''{\"value\":'' @ show_i32 (item_value x) @ ''}''))),
      json_from_slice = (\<lambda>bs. let s = from_ascii bs in
        if take 9 s = ''{\"value\":'' \<and> s \<noteq> [] \<and> last s = CHR ''}''
        then map_ok Item (parse_i32 (butlast (drop 9 s))) else Inl ''Expected value''),
      type_name = ''queue::contract::Item''\<rparr>"

lemma take_1_to_string: "take 1 (to_string n) \<noteq> ''-''"
proof -
  have "hd (to_string n) \<in> set (to_string n)" by (simp add: to_string_def)
  then obtain d where "d < 10" "hd (to_string n) = digit_char d"
    unfolding to_string_def using show_nat_digits by blast
  moreover have "\<not> is_digit CHR ''-''" by (simp add: is_digit_def)
  ultimately have "hd (to_string n) \<noteq> CHR ''-''" using digit_char_simps(1) by metis
  then show ?thesis by (cases "to_string n") auto
qed

lemma parse_show_i32: "parse_i32 (show_i32 v) = Inr v"
proof (cases "sint v < 0")
  case True
  then have "v \<noteq> 0" by auto
  then have "0 < - v" by (simp add: word_gt_0)
  with True show ?thesis by (simp add: parse_i32_def show_i32_def parse_word_to_string)
qed (simp add: parse_i32_def show_i32_def parse_word_to_string take_1_to_string del: One_nat_def)

interpretation queue_memory: queue_store memory_ops memory_inv "\<lambda>s. btree_get (ms_data s)" item_json_codec
proof
  show "\<exists>b. json_to_vec item_json_codec x = Inr b" for x by (simp add: item_json_codec_def)
  show "json_to_vec item_json_codec x = Inr b \<Longrightarrow> b \<noteq> []" for x b
    by (auto simp: item_json_codec_def ascii_def)
  show "json_to_vec item_json_codec x = Inr b \<Longrightarrow> json_from_slice item_json_codec b = Inr x" for x b
    by (cases x) (auto simp: item_json_codec_def Let_def from_ascii_ascii parse_show_i32 butlast_append)
qed

end
