(* ===== verification/Std_Query.thy ===== *)
theory Std_Query
  imports Std_Results Decimal
begin

text \<open>
  Queries of a contract to the chain: the request and response types of
  \<open>packages/std/src/query\<close> and the \<open>QuerierWrapper\<close> of \<open>traits.rs\<close>. The querier
  itself and the JSON codecs are parameters, as is the text of a \<open>SystemError\<close>. The texts of
  \<open>StdError\<close>, which become part of error messages, are those of the \<open>error\<close> attributes
  in \<open>errors/\<close>.
\<close>

section \<open>The text of errors\<close>

fun show_overflow_operation :: "overflow_operation \<Rightarrow> string" where
  "show_overflow_operation OpAdd = ''Add''"
| "show_overflow_operation OpSub = ''Sub''"
| "show_overflow_operation OpMul = ''Mul''"
| "show_overflow_operation OpPow = ''Pow''"
| "show_overflow_operation OpShr = ''Shr''"
| "show_overflow_operation OpShl = ''Shl''"

definition show_overflow_error :: "overflow_error \<Rightarrow> string" where
  "show_overflow_error e =
     ''Cannot '' @ show_overflow_operation (operation e) @ '' with '' @ operand1 e @ '' and '' @ operand2 e"

definition show_divide_by_zero_error :: "divide_by_zero_error \<Rightarrow> string" where
  "show_divide_by_zero_error e = ''Cannot devide '' @ operand e @ '' by zero''"

fun show_verification_error :: "verification_error \<Rightarrow> string" where
  "show_verification_error VBatchErr = ''Batch error''"
| "show_verification_error VGenericErr = ''Generic error''"
| "show_verification_error VInvalidHashFormat = ''Invalid hash format''"
| "show_verification_error VInvalidSignatureFormat = ''Invalid signature format''"
| "show_verification_error VInvalidPubkeyFormat = ''Invalid public key format''"
| "show_verification_error VInvalidRecoveryParam = ''Invalid recovery parameter. Supported values: 0 and 1.''"
| "show_verification_error (VUnknownErr error_code) = ''Unknown error: '' @ to_string error_code"

fun show_recover_pubkey_error :: "recover_pubkey_error \<Rightarrow> string" where
  "show_recover_pubkey_error RInvalidHashFormat = ''Invalid hash format''"
| "show_recover_pubkey_error RInvalidSignatureFormat = ''Invalid signature format''"
| "show_recover_pubkey_error RInvalidRecoveryParam = ''Invalid recovery parameter. Supported values: 0 and 1.''"
| "show_recover_pubkey_error (RUnknownErr error_code) = ''Unknown error: '' @ to_string error_code"

fun show_std_error :: "std_error \<Rightarrow> string" where
  "show_std_error (VerificationErr source) = ''Verification error: '' @ show_verification_error source"
| "show_std_error (RecoverPubkeyErr source) = ''Recover pubkey error: '' @ show_recover_pubkey_error source"
| "show_std_error (GenericErr msg) = ''Generic error: '' @ msg"
| "show_std_error (InvalidBase64 msg) = ''Invalid Base64 string: '' @ msg"
| "show_std_error (InvalidDataSize expected actual) =
     ''Invalid data size: expected='' @ to_string expected @ '' actual='' @ to_string actual"
| "show_std_error (InvalidUtf8 msg) = ''Cannot decode UTF8 bytes into string: '' @ msg"
| "show_std_error (NotFound kind) = kind @ '' not found''"
| "show_std_error (ParseErr target msg) = ''Error parsing into type '' @ target @ '': '' @ msg"
| "show_std_error (SerializeErr source msg) = ''Error serializing type '' @ source @ '': '' @ msg"
| "show_std_error (Overflow source) = ''Overflow: '' @ show_overflow_error source"
| "show_std_error (DivideByZero source) = ''Divide by zero: '' @ show_divide_by_zero_error source"
| "show_std_error (ConversionOverflow source) = ''Conversion error: ''"

section \<open>Requests\<close>

datatype bank_query = Balance string string | AllBalances string

datatype staking_query =
    BondedDenom
  | AllDelegations string
  | DelegationOf string string
  | AllValidators
  | ValidatorAt string

datatype ibc_query = PortId | ListChannels "string option" | ChannelOf string "string option"

datatype wasm_query = Smart string bytes | Raw string bytes | ContractInfo string

datatype 'c query_request =
    QueryBank bank_query
  | QueryCustom 'c
  | QueryStaking staking_query
  | QueryStargate string bytes
  | QueryIbc ibc_query
  | QueryWasm wasm_query

section \<open>Responses\<close>

datatype balance_response = BalanceResponse (br_amount: coin)

datatype all_balance_response = AllBalanceResponse (abr_amount: "coin list")

datatype bonded_denom_response = BondedDenomResponse (bdr_denom: string)

record delegation =
  dl_delegator :: string
  dl_validator :: string
  dl_amount :: coin

datatype all_delegations_response = AllDelegationsResponse (adr_delegations: "delegation list")

record full_delegation =
  fd_delegator :: string
  fd_validator :: string
  fd_amount :: coin
  fd_can_redelegate :: coin
  fd_accumulated_rewards :: "coin list"

definition delegation_from_full :: "full_delegation \<Rightarrow> delegation" where
  "delegation_from_full full =
     \<lparr>dl_delegator = fd_delegator full, dl_validator = fd_validator full, dl_amount = fd_amount full\<rparr>"

datatype delegation_response = DelegationResponse (dr_delegation: "full_delegation option")

record validator =
  va_address :: string
  va_commission :: decimal
  va_max_commission :: decimal
  va_max_change_rate :: decimal

datatype all_validators_response = AllValidatorsResponse (avr_validators: "validator list")

datatype validator_response = ValidatorResponse (vr_validator: "validator option")

record contract_info_response =
  ci_code_id :: u64
  ci_creator :: string
  ci_admin :: "string option"
  ci_pinned :: bool
  ci_ibc_port :: "string option"

definition contract_info_response_new :: "u64 \<Rightarrow> string \<Rightarrow> contract_info_response" where
  "contract_info_response_new code_id creator =
     \<lparr>ci_code_id = code_id, ci_creator = creator, ci_admin = None, ci_pinned = False, ci_ibc_port = None\<rparr>"

section \<open>QuerierWrapper\<close>

record 'c querier =
  raw_query :: "bytes \<Rightarrow> querier_result"
  show_system_error :: "system_error \<Rightarrow> string"
  request_json :: "'c query_request json"

text \<open>The codecs of the responses.\<close>

record response_codecs =
  balance_json :: "balance_response json"
  all_balance_json :: "all_balance_response json"
  bonded_denom_json :: "bonded_denom_response json"
  all_delegations_json :: "all_delegations_response json"
  delegation_json :: "delegation_response json"
  all_validators_json :: "all_validators_response json"
  validator_json :: "validator_response json"

definition query_bytes :: "'c querier \<Rightarrow> 'c query_request \<Rightarrow> bytes std_result" where
  "query_bytes Q request =
     rbind (map_err (\<lambda>e. GenericErr (''Serializing QueryRequest: '' @ show_std_error e)) (to_vec (request_json Q) request)) (\<lambda>raw.
     case raw_query Q raw of
       SystemErr system_err \<Rightarrow> Inl (GenericErr (''Querier system error: '' @ show_system_error Q system_err))
     | SystemOk (ContractErr contract_err) \<Rightarrow> Inl (GenericErr (''Querier contract error: '' @ contract_err))
     | SystemOk (ContractOk val) \<Rightarrow> Inr val)"

definition query :: "'c querier \<Rightarrow> 'u json \<Rightarrow> 'c query_request \<Rightarrow> 'u std_result" where
  "query Q J request = rbind (query_bytes Q request) (from_slice J)"

definition query_balance :: "'c querier \<Rightarrow> response_codecs \<Rightarrow> string \<Rightarrow> string \<Rightarrow> coin std_result" where
  "query_balance Q R address den =
     map_ok br_amount (query Q (balance_json R) (QueryBank (Balance address den)))"

definition query_all_balances :: "'c querier \<Rightarrow> response_codecs \<Rightarrow> string \<Rightarrow> coin list std_result" where
  "query_all_balances Q R address = map_ok abr_amount (query Q (all_balance_json R) (QueryBank (AllBalances address)))"

definition query_wasm_smart :: "'c querier \<Rightarrow> 'm json \<Rightarrow> 'u json \<Rightarrow> string \<Rightarrow> 'm \<Rightarrow> 'u std_result" where
  "query_wasm_smart Q JM JU contract_addr msg =
     rbind (to_vec JM msg) (\<lambda>m. query Q JU (QueryWasm (Smart contract_addr m)))"

definition query_wasm_raw :: "'c querier \<Rightarrow> string \<Rightarrow> bytes \<Rightarrow> bytes option std_result" where
  "query_wasm_raw Q contract_addr key =
     map_ok (\<lambda>val. if val = [] then None else Some val) (query_bytes Q (QueryWasm (Raw contract_addr key)))"

definition query_all_validators :: "'c querier \<Rightarrow> response_codecs \<Rightarrow> validator list std_result" where
  "query_all_validators Q R = map_ok avr_validators (query Q (all_validators_json R) (QueryStaking AllValidators))"

definition query_validator :: "'c querier \<Rightarrow> response_codecs \<Rightarrow> string \<Rightarrow> validator option std_result" where
  "query_validator Q R address = map_ok vr_validator (query Q (validator_json R) (QueryStaking (ValidatorAt address)))"

definition query_bonded_denom :: "'c querier \<Rightarrow> response_codecs \<Rightarrow> string std_result" where
  "query_bonded_denom Q R = map_ok bdr_denom (query Q (bonded_denom_json R) (QueryStaking BondedDenom))"

definition query_all_delegations :: "'c querier \<Rightarrow> response_codecs \<Rightarrow> string \<Rightarrow> delegation list std_result" where
  "query_all_delegations Q R delegator =
     map_ok adr_delegations (query Q (all_delegations_json R) (QueryStaking (AllDelegations delegator)))"

definition query_delegation :: "'c querier \<Rightarrow> response_codecs \<Rightarrow> string \<Rightarrow> string \<Rightarrow> full_delegation option std_result" where
  "query_delegation Q R delegator validator =
     map_ok dr_delegation (query Q (delegation_json R) (QueryStaking (DelegationOf delegator validator)))"

section \<open>A query is answered by the chain\<close>

text \<open>
  With codecs that invert each other, a query returns what the chain answered, and every error of
  the chain or of the other contract is reported as such.
\<close>

lemma query_answer:
  assumes "json_codec (request_json Q)" "json_codec J"
    and "\<And>raw. to_vec (request_json Q) request = Inr raw \<Longrightarrow> raw_query Q raw = SystemOk (ContractOk b)"
    and "to_vec J x = Inr b"
  shows "query Q J request = Inr x"
proof -
  obtain raw where "to_vec (request_json Q) request = Inr raw"
    using json_codec.to_vec_Ok [OF assms(1)] by blast
  moreover have "from_slice J b = Inr x" using json_codec.to_vec_Ok [OF assms(2), of x] assms(4) by auto
  ultimately show ?thesis using assms(3) by (simp add: query_def query_bytes_def)
qed

end
