(* ===== verification/Std_Ibc.thy ===== *)
theory Std_Ibc
  imports Std_Results
begin

text \<open>
  \<open>packages/std/src/ibc.rs\<close> beyond the timeouts of theory Std_Results: channels, packets, the messages
  of the IBC entry points and their two responses; and the rest of \<open>results/\<close>: replies, the wrappers of
  results that cross the boundary, events. \<open>non_exhaustive\<close> structs are records, and a conversion by
  \<open>Into\<close> is applied at the call.
\<close>

section \<open>Timeouts, channels and packets\<close>

definition timeout_block :: "ibc_timeout \<Rightarrow> ibc_timeout_block option" where
  "timeout_block self = to_block self"

definition timeout_timestamp :: "ibc_timeout \<Rightarrow> timestamp option" where
  "timeout_timestamp self = to_timestamp self"

definition timeout_from_timestamp :: "timestamp \<Rightarrow> ibc_timeout" where
  "timeout_from_timestamp t = timeout_with_timestamp t"

definition timeout_from_block :: "ibc_timeout_block \<Rightarrow> ibc_timeout" where
  "timeout_from_block original = timeout_with_block original"

record ibc_endpoint =
  ep_port_id :: string
  ep_channel_id :: string

datatype ibc_order = Unordered | Ordered

record ibc_channel =
  ch_endpoint :: ibc_endpoint
  ch_counterparty_endpoint :: ibc_endpoint
  ch_order :: ibc_order
  ch_version :: string
  ch_connection_id :: string

definition ibc_channel_new ::
  "ibc_endpoint \<Rightarrow> ibc_endpoint \<Rightarrow> ibc_order \<Rightarrow> string \<Rightarrow> string \<Rightarrow> ibc_channel" where
  "ibc_channel_new endpoint counterparty_endpoint ord version connection_id =
     \<lparr>ch_endpoint = endpoint, ch_counterparty_endpoint = counterparty_endpoint, ch_order = ord,
      ch_version = version, ch_connection_id = connection_id\<rparr>"

record ibc_packet =
  pk_data :: bytes
  pk_src :: ibc_endpoint
  pk_dest :: ibc_endpoint
  pk_sequence :: u64
  pk_timeout :: ibc_timeout

definition ibc_packet_new :: "bytes \<Rightarrow> ibc_endpoint \<Rightarrow> ibc_endpoint \<Rightarrow> u64 \<Rightarrow> ibc_timeout \<Rightarrow> ibc_packet" where
  "ibc_packet_new data src dest seq timeout =
     \<lparr>pk_data = data, pk_src = src, pk_dest = dest, pk_sequence = seq, pk_timeout = timeout\<rparr>"

datatype ibc_acknowledgement = IbcAcknowledgement (ack_data: bytes)

definition acknowledgement_new :: "bytes \<Rightarrow> ibc_acknowledgement" where
  "acknowledgement_new data = IbcAcknowledgement data"

definition acknowledgement_encode_json :: "'a json \<Rightarrow> 'a \<Rightarrow> ibc_acknowledgement std_result" where
  "acknowledgement_encode_json J data = rbind (to_vec J data) (\<lambda>bytes. Inr (IbcAcknowledgement bytes))"

section \<open>Messages of the entry points\<close>

datatype ibc_channel_open_msg = OpenInit ibc_channel | OpenTry ibc_channel string

fun open_channel :: "ibc_channel_open_msg \<Rightarrow> ibc_channel" where
  "open_channel (OpenInit channel) = channel"
| "open_channel (OpenTry channel _) = channel"

fun open_counterparty_version :: "ibc_channel_open_msg \<Rightarrow> string option" where
  "open_counterparty_version (OpenTry _ counterparty_version) = Some counterparty_version"
| "open_counterparty_version _ = None"

fun channel_from_open :: "ibc_channel_open_msg \<Rightarrow> ibc_channel" where
  "channel_from_open (OpenInit channel) = channel"
| "channel_from_open (OpenTry channel _) = channel"

definition open_new_init :: "ibc_channel \<Rightarrow> ibc_channel_open_msg" where
  "open_new_init channel = OpenInit channel"

definition open_new_try :: "ibc_channel \<Rightarrow> string \<Rightarrow> ibc_channel_open_msg" where
  "open_new_try channel counterparty_version = OpenTry channel counterparty_version"

datatype ibc_channel_connect_msg = OpenAck ibc_channel string | OpenConfirm ibc_channel

fun connect_channel :: "ibc_channel_connect_msg \<Rightarrow> ibc_channel" where
  "connect_channel (OpenAck channel _) = channel"
| "connect_channel (OpenConfirm channel) = channel"

fun connect_counterparty_version :: "ibc_channel_connect_msg \<Rightarrow> string option" where
  "connect_counterparty_version (OpenAck _ counterparty_version) = Some counterparty_version"
| "connect_counterparty_version _ = None"

fun channel_from_connect :: "ibc_channel_connect_msg \<Rightarrow> ibc_channel" where
  "channel_from_connect (OpenAck channel _) = channel"
| "channel_from_connect (OpenConfirm channel) = channel"

definition connect_new_ack :: "ibc_channel \<Rightarrow> string \<Rightarrow> ibc_channel_connect_msg" where
  "connect_new_ack channel counterparty_version = OpenAck channel counterparty_version"

definition connect_new_confirm :: "ibc_channel \<Rightarrow> ibc_channel_connect_msg" where
  "connect_new_confirm channel = OpenConfirm channel"

datatype ibc_channel_close_msg = CloseInit ibc_channel | CloseConfirm ibc_channel

fun close_channel :: "ibc_channel_close_msg \<Rightarrow> ibc_channel" where
  "close_channel (CloseInit channel) = channel"
| "close_channel (CloseConfirm channel) = channel"

fun channel_from_close :: "ibc_channel_close_msg \<Rightarrow> ibc_channel" where
  "channel_from_close (CloseInit channel) = channel"
| "channel_from_close (CloseConfirm channel) = channel"

definition close_new_init :: "ibc_channel \<Rightarrow> ibc_channel_close_msg" where
  "close_new_init channel = CloseInit channel"

definition close_new_confirm :: "ibc_channel \<Rightarrow> ibc_channel_close_msg" where
  "close_new_confirm channel = CloseConfirm channel"

datatype ibc_packet_receive_msg = IbcPacketReceiveMsg (receive_packet: ibc_packet)

definition packet_receive_new :: "ibc_packet \<Rightarrow> ibc_packet_receive_msg" where
  "packet_receive_new packet = IbcPacketReceiveMsg packet"

record ibc_packet_ack_msg =
  pa_acknowledgement :: ibc_acknowledgement
  pa_original_packet :: ibc_packet

definition packet_ack_new :: "ibc_acknowledgement \<Rightarrow> ibc_packet \<Rightarrow> ibc_packet_ack_msg" where
  "packet_ack_new acknowledgement original_packet =
     \<lparr>pa_acknowledgement = acknowledgement, pa_original_packet = original_packet\<rparr>"

datatype ibc_packet_timeout_msg = IbcPacketTimeoutMsg (timeout_packet: ibc_packet)

definition packet_timeout_new :: "ibc_packet \<Rightarrow> ibc_packet_timeout_msg" where
  "packet_timeout_new packet = IbcPacketTimeoutMsg packet"

section \<open>Responses\<close>

record 'c ibc_basic_response =
  ib_messages :: "'c sub_msg list"
  ib_attributes :: "attribute list"
  ib_events :: "event list"

definition ibc_basic_new :: "'c ibc_basic_response" where
  "ibc_basic_new = \<lparr>ib_messages = [], ib_attributes = [], ib_events = []\<rparr>"

definition ibc_basic_add_attribute :: "string \<Rightarrow> string \<Rightarrow> 'c ibc_basic_response \<Rightarrow> 'c ibc_basic_response" where
  "ibc_basic_add_attribute key val self = self\<lparr>ib_attributes := ib_attributes self @ [attribute_new key val]\<rparr>"

definition ibc_basic_add_message :: "'c cosmos_msg \<Rightarrow> 'c ibc_basic_response \<Rightarrow> 'c ibc_basic_response" where
  "ibc_basic_add_message msg self = self\<lparr>ib_messages := ib_messages self @ [sub_msg_new msg]\<rparr>"

definition ibc_basic_add_submessage :: "'c sub_msg \<Rightarrow> 'c ibc_basic_response \<Rightarrow> 'c ibc_basic_response" where
  "ibc_basic_add_submessage msg self = self\<lparr>ib_messages := ib_messages self @ [msg]\<rparr>"

definition ibc_basic_add_event :: "event \<Rightarrow> 'c ibc_basic_response \<Rightarrow> 'c ibc_basic_response" where
  "ibc_basic_add_event ev self = self\<lparr>ib_events := ib_events self @ [ev]\<rparr>"

definition ibc_basic_add_attributes :: "attribute list \<Rightarrow> 'c ibc_basic_response \<Rightarrow> 'c ibc_basic_response" where
  "ibc_basic_add_attributes attrs self = self\<lparr>ib_attributes := ib_attributes self @ attrs\<rparr>"

definition ibc_basic_add_submessages :: "'c sub_msg list \<Rightarrow> 'c ibc_basic_response \<Rightarrow> 'c ibc_basic_response" where
  "ibc_basic_add_submessages msgs self = self\<lparr>ib_messages := ib_messages self @ msgs\<rparr>"

definition ibc_basic_add_messages :: "'c cosmos_msg list \<Rightarrow> 'c ibc_basic_response \<Rightarrow> 'c ibc_basic_response" where
  "ibc_basic_add_messages msgs self = ibc_basic_add_submessages (map sub_msg_new msgs) self"

definition ibc_basic_add_events :: "event list \<Rightarrow> 'c ibc_basic_response \<Rightarrow> 'c ibc_basic_response" where
  "ibc_basic_add_events evs self = self\<lparr>ib_events := ib_events self @ evs\<rparr>"

record 'c ibc_receive_response =
  ir_acknowledgement :: bytes
  ir_messages :: "'c sub_msg list"
  ir_attributes :: "attribute list"
  ir_events :: "event list"

definition ibc_receive_new :: "'c ibc_receive_response" where
  "ibc_receive_new = \<lparr>ir_acknowledgement = [], ir_messages = [], ir_attributes = [], ir_events = []\<rparr>"

definition ibc_receive_set_ack :: "bytes \<Rightarrow> 'c ibc_receive_response \<Rightarrow> 'c ibc_receive_response" where
  "ibc_receive_set_ack ack self = self\<lparr>ir_acknowledgement := ack\<rparr>"

definition ibc_receive_add_attribute :: "string \<Rightarrow> string \<Rightarrow> 'c ibc_receive_response \<Rightarrow> 'c ibc_receive_response" where
  "ibc_receive_add_attribute key val self = self\<lparr>ir_attributes := ir_attributes self @ [attribute_new key val]\<rparr>"

definition ibc_receive_add_message :: "'c cosmos_msg \<Rightarrow> 'c ibc_receive_response \<Rightarrow> 'c ibc_receive_response" where
  "ibc_receive_add_message msg self = self\<lparr>ir_messages := ir_messages self @ [sub_msg_new msg]\<rparr>"

definition ibc_receive_add_submessage :: "'c sub_msg \<Rightarrow> 'c ibc_receive_response \<Rightarrow> 'c ibc_receive_response" where
  "ibc_receive_add_submessage msg self = self\<lparr>ir_messages := ir_messages self @ [msg]\<rparr>"

definition ibc_receive_add_event :: "event \<Rightarrow> 'c ibc_receive_response \<Rightarrow> 'c ibc_receive_response" where
  "ibc_receive_add_event ev self = self\<lparr>ir_events := ir_events self @ [ev]\<rparr>"

definition ibc_receive_add_attributes :: "attribute list \<Rightarrow> 'c ibc_receive_response \<Rightarrow> 'c ibc_receive_response" where
  "ibc_receive_add_attributes attrs self = self\<lparr>ir_attributes := ir_attributes self @ attrs\<rparr>"

definition ibc_receive_add_submessages :: "'c sub_msg list \<Rightarrow> 'c ibc_receive_response \<Rightarrow> 'c ibc_receive_response" where
  "ibc_receive_add_submessages msgs self = self\<lparr>ir_messages := ir_messages self @ msgs\<rparr>"

definition ibc_receive_add_messages :: "'c cosmos_msg list \<Rightarrow> 'c ibc_receive_response \<Rightarrow> 'c ibc_receive_response" where
  "ibc_receive_add_messages msgs self = ibc_receive_add_submessages (map sub_msg_new msgs) self"

definition ibc_receive_add_events :: "event list \<Rightarrow> 'c ibc_receive_response \<Rightarrow> 'c ibc_receive_response" where
  "ibc_receive_add_events evs self = self\<lparr>ir_events := ir_events self @ evs\<rparr>"

section \<open>Replies and results\<close>

record sub_msg_execution_response =
  sr_events :: "event list"
  sr_data :: "bytes option"

datatype sub_msg_result = SubMsgOk sub_msg_execution_response | SubMsgErr string

record reply =
  rp_id :: u64
  rp_result :: sub_msg_result

fun sub_msg_into_result :: "sub_msg_result \<Rightarrow> (string, sub_msg_execution_response) result" where
  "sub_msg_into_result (SubMsgOk val) = Inr val"
| "sub_msg_into_result (SubMsgErr err) = Inl err"

fun sub_msg_from_result :: "('e \<Rightarrow> string) \<Rightarrow> ('e, sub_msg_execution_response) result \<Rightarrow> sub_msg_result" where
  "sub_msg_from_result show (Inr val) = SubMsgOk val"
| "sub_msg_from_result show (Inl err) = SubMsgErr (show err)"

definition sub_msg_unwrap :: "sub_msg_result \<Rightarrow> sub_msg_execution_response outcome" where
  "sub_msg_unwrap self = unwrap_ok (sub_msg_into_result self)"

fun unwrap_err :: "('e, 'a) result \<Rightarrow> 'e outcome" where
  "unwrap_err (Inl e) = Done e"
| "unwrap_err (Inr x) = Panic ''called Result::unwrap_err() on an Ok value''"

definition sub_msg_unwrap_err :: "sub_msg_result \<Rightarrow> string outcome" where
  "sub_msg_unwrap_err self = unwrap_err (sub_msg_into_result self)"

fun sub_msg_is_ok :: "sub_msg_result \<Rightarrow> bool" where
  "sub_msg_is_ok (SubMsgOk _) = True"
| "sub_msg_is_ok _ = False"

fun sub_msg_is_err :: "sub_msg_result \<Rightarrow> bool" where
  "sub_msg_is_err (SubMsgErr _) = True"
| "sub_msg_is_err _ = False"

fun contract_into_result :: "'a contract_result \<Rightarrow> (string, 'a) result" where
  "contract_into_result (ContractOk val) = Inr val"
| "contract_into_result (ContractErr err) = Inl err"

fun contract_from_result :: "('e \<Rightarrow> string) \<Rightarrow> ('e, 'a) result \<Rightarrow> 'a contract_result" where
  "contract_from_result show (Inr val) = ContractOk val"
| "contract_from_result show (Inl err) = ContractErr (show err)"

definition contract_unwrap :: "'a contract_result \<Rightarrow> 'a outcome" where
  "contract_unwrap self = unwrap_ok (contract_into_result self)"

definition contract_unwrap_err :: "'a contract_result \<Rightarrow> string outcome" where
  "contract_unwrap_err self = unwrap_err (contract_into_result self)"

fun contract_is_ok :: "'a contract_result \<Rightarrow> bool" where
  "contract_is_ok (ContractOk _) = True"
| "contract_is_ok _ = False"

fun contract_is_err :: "'a contract_result \<Rightarrow> bool" where
  "contract_is_err (ContractErr _) = True"
| "contract_is_err _ = False"

fun system_into_result :: "'a system_result \<Rightarrow> (system_error, 'a) result" where
  "system_into_result (SystemOk val) = Inr val"
| "system_into_result (SystemErr err) = Inl err"

fun system_from_result :: "(system_error, 'a) result \<Rightarrow> 'a system_result" where
  "system_from_result (Inr val) = SystemOk val"
| "system_from_result (Inl err) = SystemErr err"

definition system_unwrap :: "'a system_result \<Rightarrow> 'a outcome" where
  "system_unwrap self = unwrap_ok (system_into_result self)"

definition system_unwrap_err :: "'a system_result \<Rightarrow> system_error outcome" where
  "system_unwrap_err self = unwrap_err (system_into_result self)"

text \<open>\<open>Display\<close> of a system error; \<open>from_utf8_lossy\<close> is a parameter.\<close>

fun show_system_err :: "(bytes \<Rightarrow> string) \<Rightarrow> system_error \<Rightarrow> string" where
  "show_system_err lossy (InvalidRequest err request) = ''Cannot parse request: '' @ err @ '' in: '' @ lossy request"
| "show_system_err lossy (InvalidResponse err response) = ''Cannot parse response: '' @ err @ '' in: '' @ lossy response"
| "show_system_err lossy (NoSuchContract addr) = ''No such contract: '' @ addr"
| "show_system_err lossy SystemUnknown = ''Unknown system error''"
| "show_system_err lossy (UnsupportedRequest kind) = ''Unsupported query type: '' @ kind"

definition event_add_attributes :: "event \<Rightarrow> attribute list \<Rightarrow> event" where
  "event_add_attributes self attrs = self\<lparr>ev_attributes := ev_attributes self @ attrs\<rparr>"

definition attribute_from_pair :: "string \<times> string \<Rightarrow> attribute" where
  "attribute_from_pair kv = (case kv of (k, v) \<Rightarrow> attribute_new k v)"

definition attribute_eq_pair :: "attribute \<Rightarrow> string \<times> string \<Rightarrow> bool" where
  "attribute_eq_pair self kv = (case kv of (k, v) \<Rightarrow> (attr_key self, attr_value self) = (k, v))"

definition attr :: "string \<Rightarrow> string \<Rightarrow> attribute" where
  "attr key val = attribute_new key val"

section \<open>The builders\<close>

text \<open>
  The three responses share their builders: each appends to one list and leaves the others alone, and
  adding a list is adding its members one by one.
\<close>

locale response_builder =
  fixes messages :: "'r \<Rightarrow> 'c sub_msg list" and attributes :: "'r \<Rightarrow> attribute list" and events :: "'r \<Rightarrow> event list"
    and add_sub :: "'c sub_msg \<Rightarrow> 'r \<Rightarrow> 'r" and add_msg :: "'c cosmos_msg \<Rightarrow> 'r \<Rightarrow> 'r"
    and add_subs :: "'c sub_msg list \<Rightarrow> 'r \<Rightarrow> 'r" and add_msgs :: "'c cosmos_msg list \<Rightarrow> 'r \<Rightarrow> 'r"
    and add_attrs :: "attribute list \<Rightarrow> 'r \<Rightarrow> 'r" and add_evs :: "event list \<Rightarrow> 'r \<Rightarrow> 'r"
  assumes sub_messages: "messages (add_subs ms r) = messages r @ ms" "messages (add_attrs as r) = messages r"
      "messages (add_evs es r) = messages r"
    and sub_attributes: "attributes (add_subs ms r) = attributes r" "attributes (add_attrs as r) = attributes r @ as"
      "attributes (add_evs es r) = attributes r"
    and sub_events: "events (add_subs ms r) = events r" "events (add_attrs as r) = events r"
      "events (add_evs es r) = events r @ es"
    and one_sub: "add_sub m r = add_subs [m] r" and one_msg: "add_msg c r = add_subs [sub_msg_new c] r"
    and more_subs: "add_subs (ms @ ms') r = add_subs ms' (add_subs ms r)" "add_subs [] r = r"
    and msgs_subs: "add_msgs cs r = add_subs (map sub_msg_new cs) r"
begin

lemma add_subs_fold: "add_subs ms r = fold add_sub ms r"
proof (induction ms arbitrary: r)
  case (Cons m ms)
  have "add_subs (m # ms) r = add_subs ms (add_sub m r)" using more_subs(1) [of "[m]" ms r] by (simp add: one_sub)
  with Cons.IH show ?case by simp
qed (simp add: more_subs(2))

lemma add_msgs_fold: "add_msgs cs r = fold add_msg cs r"
proof (induction cs arbitrary: r)
  case (Cons c cs)
  have "add_msgs (c # cs) r = add_msgs cs (add_msg c r)"
    using more_subs(1) [of "[sub_msg_new c]" "map sub_msg_new cs" r] by (simp add: msgs_subs one_msg)
  with Cons.IH show ?case by simp
qed (simp add: msgs_subs more_subs(2))

text \<open>A message that was added is in the response, whatever is added later.\<close>

lemma message_stays: "m \<in> set (messages (add_subs ms (add_attrs as (add_evs es (add_sub m r)))))"
  by (simp add: sub_messages one_sub)

end

interpretation plain: response_builder r_messages r_attributes r_events add_submessage add_message add_submessages add_messages
    add_attributes add_events
  by unfold_locales (simp_all add: add_submessage_def add_message_def add_submessages_def add_messages_def
      add_attributes_def add_events_def)

interpretation basic: response_builder ib_messages ib_attributes ib_events ibc_basic_add_submessage ibc_basic_add_message
    ibc_basic_add_submessages ibc_basic_add_messages ibc_basic_add_attributes ibc_basic_add_events
  by unfold_locales (simp_all add: ibc_basic_add_submessage_def ibc_basic_add_message_def ibc_basic_add_submessages_def
      ibc_basic_add_messages_def ibc_basic_add_attributes_def ibc_basic_add_events_def)

interpretation receive: response_builder ir_messages ir_attributes ir_events ibc_receive_add_submessage ibc_receive_add_message
    ibc_receive_add_submessages ibc_receive_add_messages ibc_receive_add_attributes ibc_receive_add_events
  by unfold_locales (simp_all add: ibc_receive_add_submessage_def ibc_receive_add_message_def ibc_receive_add_submessages_def
      ibc_receive_add_messages_def ibc_receive_add_attributes_def ibc_receive_add_events_def)

text \<open>What crosses the boundary comes back: the wrappers are the results with the error as text.\<close>

lemma result_roundtrips:
  "contract_into_result (contract_from_result show r) = map_err show r"
  "contract_from_result (\<lambda>e. e) (contract_into_result c) = c"
  "sub_msg_into_result (sub_msg_from_result show s) = map_err show s"
  "sub_msg_from_result (\<lambda>e. e) (sub_msg_into_result m) = m"
  "system_into_result (system_from_result q) = q"
  by (cases r; cases c; cases s; cases m; cases q; simp)+

end
