(* ===== verification/Contract_Deps.thy ===== *)
theory Contract_Deps
  imports Std_Query Std_Ibc
begin

text \<open>
  What a contract gets from the environment: the trait \<open>Api\<close> of \<open>packages/std/src/traits.rs\<close> and the
  dependencies of \<open>deps.rs\<close>, and the accesses of the contracts to singletons and buckets of
  \<open>packages/storage\<close> with what they do to the map that the storage holds.
\<close>

section \<open>Dependencies\<close>

record contract_api =
  addr_validate :: "string \<Rightarrow> string std_result"
  addr_canonicalize :: "string \<Rightarrow> bytes std_result"
  addr_humanize :: "bytes \<Rightarrow> string std_result"
  api_secp256k1_verify :: "bytes \<Rightarrow> bytes \<Rightarrow> bytes \<Rightarrow> (verification_error, bool) result"
  api_secp256k1_recover_pubkey :: "bytes \<Rightarrow> bytes \<Rightarrow> u8 \<Rightarrow> (recover_pubkey_error, bytes) result"
  api_ed25519_verify :: "bytes \<Rightarrow> bytes \<Rightarrow> bytes \<Rightarrow> (verification_error, bool) result"
  api_ed25519_batch_verify :: "bytes list \<Rightarrow> bytes list \<Rightarrow> bytes list \<Rightarrow> (verification_error, bool) result"

text \<open>The dependencies without the storage, which is the state of a program.\<close>

record 'c deps =
  dp_api :: contract_api
  dp_querier :: "'c querier"
  dp_responses :: response_codecs

text \<open>A computation that may panic or fail, without an effect on the storage.\<close>

definition lift_or :: "('e, 'a) result outcome \<Rightarrow> ('s, 'e, 'a) prog" where
  "lift_or m s = omap (\<lambda>r. (r, s)) m"

section \<open>Access to the storage\<close>

definition with_singleton :: "bytes \<Rightarrow> ('s singleton, 'e, 'a) prog \<Rightarrow> ('s, 'e, 'a) prog" where
  "with_singleton key p s =
     obind (singleton_new s key) (\<lambda>sg. omap (\<lambda>(r, sg'). (r, sg_storage sg')) (p sg))"

definition with_bucket :: "bytes \<Rightarrow> ('s bucket, 'e, 'a) prog \<Rightarrow> ('s, 'e, 'a) prog" where
  "with_bucket namespace p s =
     obind (bucket_new s namespace) (\<lambda>bk. omap (\<lambda>(r, bk'). (r, bk_storage bk')) (p bk))"

definition load_item :: "'s storage_ops \<Rightarrow> 'a json \<Rightarrow> bytes \<Rightarrow> ('s, std_error, 'a) prog" where
  "load_item S J key = with_singleton key (\<lambda>sg. Done (singleton_load S J sg, sg))"

definition save_item :: "'s storage_ops \<Rightarrow> 'a json \<Rightarrow> bytes \<Rightarrow> 'a \<Rightarrow> ('s, std_error, unit) prog" where
  "save_item S J key x = with_singleton key (singleton_save S J x)"

definition remove_item :: "'s storage_ops \<Rightarrow> bytes \<Rightarrow> ('s, 'e, unit) prog" where
  "remove_item S key = with_singleton key (\<lambda>sg. omap (\<lambda>sg'. (Inr (), sg')) (singleton_remove S sg))"

definition load_at :: "'s storage_ops \<Rightarrow> 'a json \<Rightarrow> bytes \<Rightarrow> bytes \<Rightarrow> ('s, std_error, 'a) prog" where
  "load_at S J namespace key = with_bucket namespace (\<lambda>bk. Done (bucket_load S J key bk, bk))"

definition save_at :: "'s storage_ops \<Rightarrow> 'a json \<Rightarrow> bytes \<Rightarrow> bytes \<Rightarrow> 'a \<Rightarrow> ('s, std_error, unit) prog" where
  "save_at S J namespace key x = with_bucket namespace (bucket_save S J key x)"

definition remove_at :: "'s storage_ops \<Rightarrow> bytes \<Rightarrow> bytes \<Rightarrow> ('s, 'e, unit) prog" where
  "remove_at S namespace key = with_bucket namespace (\<lambda>bk. omap (\<lambda>bk'. (Inr (), bk')) (bucket_remove S key bk))"

definition update_at :: "'s storage_ops \<Rightarrow> 'a json \<Rightarrow> bytes \<Rightarrow> bytes \<Rightarrow> ('a option \<Rightarrow> 'a std_result) \<Rightarrow> ('s, std_error, 'a) prog" where
  "update_at S J namespace key action =
     pbind (with_bucket namespace (bucket_update S J id key (\<lambda>i. Done (map_ok (\<lambda>x. (x, ())) (action i))))) (\<lambda>(x, _). preturn x)"

section \<open>What the accesses do to the storage\<close>

lemma lift_or_eq_Done_iff: "lift_or m s = Done (r, t) \<longleftrightarrow> m = Done r \<and> t = s"
  by (cases m) (auto simp: lift_or_def)

lemma with_singleton_eq_Done_iff:
  "to_length_prefixed key = Done K \<Longrightarrow>
   with_singleton key p s = Done (r, s') \<longleftrightarrow> (\<exists>sg. p \<lparr>sg_storage = s, sg_key = K\<rparr> = Done (r, sg) \<and> s' = sg_storage sg)"
  by (auto simp: with_singleton_def singleton_new_def omap_eq_Done_iff)

lemma with_bucket_eq_Done_iff:
  "to_length_prefixed ns = Done P \<Longrightarrow>
   with_bucket ns p s = Done (r, s') \<longleftrightarrow> (\<exists>bk. p \<lparr>bk_storage = s, bk_prefix = P\<rparr> = Done (r, bk) \<and> s' = bk_storage bk)"
  by (auto simp: with_bucket_def bucket_new_def omap_eq_Done_iff)

lemma load_item_eq_Done_iff:
  "to_length_prefixed key = Done K \<Longrightarrow>
   load_item S J key s = Done (r, s') \<longleftrightarrow> must_deserialize J (st_get S s K) = r \<and> s' = s"
  by (auto simp: load_item_def with_singleton_eq_Done_iff singleton_load_def)

lemma save_item_eq_Ok_iff:
  "to_length_prefixed key = Done K \<Longrightarrow>
   save_item S J key x s = Done (Inr u, s') \<longleftrightarrow> (\<exists>b. to_vec J x = Inr b \<and> st_set S s K b = Done s')"
  by (auto simp: save_item_def with_singleton_eq_Done_iff singleton_save_Done_iff)

lemma bucket_updated:
  assumes "to_length_prefixed ns = Done P"
    and "with_bucket ns (bucket_update S J id key action) s = Done (Inr (out, x), s')"
  shows "\<exists>i b. may_deserialize J (st_get S s (P @ key)) = Inr i \<and> action i = Done (Inr (out, x)) \<and>
    to_vec J out = Inr b \<and> st_set S s (P @ key) b = Done s'"
proof -
  obtain bk where bk: "bucket_update S J id key action \<lparr>bk_storage = s, bk_prefix = P\<rparr> = Done (Inr (out, x), bk)"
    "s' = bk_storage bk"
    using assms by (auto simp: with_bucket_eq_Done_iff)
  from bucket_update_Ok [OF bk(1)] bk(2) show ?thesis by (auto simp: bucket_may_load_def get_with_prefix_def)
qed

lemma singleton_save_Err_iff: "singleton_save S J x self = Done (Inl e, self') \<longleftrightarrow> to_vec J x = Inl e \<and> self' = self"
  by (cases "to_vec J x") (auto simp: singleton_save_def omap_eq_Done_iff)

text \<open>
  The accesses as equations on a storage that keeps the contract of the trait. A saved value is written as
  some bytes from which it is read back.
\<close>

lemmas access_defs = load_item_def save_item_def remove_item_def load_at_def save_at_def remove_at_def
  with_singleton_def with_bucket_def singleton_new_def bucket_new_def singleton_load_def singleton_save_def
  singleton_remove_def bucket_load_def bucket_save_def bucket_remove_def get_with_prefix_def set_with_prefix_def
  remove_with_prefix_def

context key_value_store
begin

lemma load_item_view:
  assumes "valid s" "to_length_prefixed key = Done K"
  shows "load_item S J key s = Done (must_deserialize J (view s K), s)"
  using assms by (simp add: access_defs get_view)

lemma load_at_view:
  assumes "valid s" "to_length_prefixed ns = Done P"
  shows "load_at S J ns key s = Done (must_deserialize J (view s (P @ key)), s)"
  using assms by (simp add: access_defs get_view)

lemma save_item_view:
  assumes "valid s" "to_length_prefixed key = Done K" "json_codec J"
  shows "\<exists>b t. from_slice J b = Inr x \<and> save_item S J key x s = Done (Inr (), t) \<and> valid t \<and> view t = (view s)(K \<mapsto> b)"
proof -
  obtain b where b: "to_vec J x = Inr b" "b \<noteq> []" "from_slice J b = Inr x" using json_codec.to_vec_Ok [OF assms(3)] by blast
  obtain t where "st_set S s K b = Done t \<and> valid t \<and> view t = (view s)(K \<mapsto> b)" using set_view [OF assms(1) b(2)] by blast
  with b assms(2) show ?thesis by (intro exI [of _ b] exI [of _ t]) (simp add: access_defs)
qed

lemma save_at_view:
  assumes "valid s" "to_length_prefixed ns = Done P" "json_codec J"
  shows "\<exists>b t. from_slice J b = Inr x \<and> save_at S J ns key x s = Done (Inr (), t) \<and> valid t \<and> view t = (view s)(P @ key \<mapsto> b)"
proof -
  obtain b where b: "to_vec J x = Inr b" "b \<noteq> []" "from_slice J b = Inr x" using json_codec.to_vec_Ok [OF assms(3)] by blast
  obtain t where "st_set S s (P @ key) b = Done t \<and> valid t \<and> view t = (view s)(P @ key \<mapsto> b)"
    using set_view [OF assms(1) b(2)] by blast
  with b assms(2) show ?thesis by (intro exI [of _ b] exI [of _ t]) (simp add: access_defs)
qed

lemma remove_item_view:
  assumes "valid s" "to_length_prefixed key = Done K"
  shows "\<exists>t. remove_item S key s = Done (Inr (), t) \<and> valid t \<and> view t = (view s)(K := None)"
  using remove_view [OF assms(1), of K] assms(2) by (auto simp: access_defs)

lemma remove_at_view:
  assumes "valid s" "to_length_prefixed ns = Done P"
  shows "\<exists>t. remove_at S ns key s = Done (Inr (), t) \<and> valid t \<and> view t = (view s)(P @ key := None)"
  using remove_view [OF assms(1), of "P @ key"] assms(2) by (auto simp: access_defs)

text \<open>An update is refused, without an effect, by the stored data or by the action; or it writes the new value.\<close>

lemma update_at_Err:
  assumes "valid s" "to_length_prefixed ns = Done P" "rbind (may_deserialize J (view s (P @ key))) action = Inl e"
  shows "update_at S J ns key action s = Done (Inl e, s)"
  using assms
  by (cases "may_deserialize J (view s (P @ key))")
    (simp_all add: update_at_def with_bucket_def bucket_new_def bucket_update_def pbind_def pmap_err_def
      bucket_may_load_def get_with_prefix_def get_view)

lemma update_at_Ok:
  assumes "valid s" "to_length_prefixed ns = Done P" "json_codec J"
    and "rbind (may_deserialize J (view s (P @ key))) action = Inr x"
  shows "\<exists>b t. from_slice J b = Inr x \<and> update_at S J ns key action s = Done (Inr x, t) \<and> valid t \<and>
    view t = (view s)(P @ key \<mapsto> b)"
proof -
  obtain i where i: "may_deserialize J (view s (P @ key)) = Inr i" "action i = Inr x"
    using assms(4) by (auto simp: rbind_eq_Ok_iff)
  obtain b where b: "to_vec J x = Inr b" "b \<noteq> []" "from_slice J b = Inr x" using json_codec.to_vec_Ok [OF assms(3)] by blast
  obtain t where "st_set S s (P @ key) b = Done t \<and> valid t \<and> view t = (view s)(P @ key \<mapsto> b)"
    using set_view [OF assms(1) b(2)] by blast
  with i b assms(1,2) show ?thesis
    by (intro exI [of _ b] exI [of _ t])
      (simp add: update_at_def with_bucket_def bucket_new_def bucket_update_def pbind_def pmap_err_def
        bucket_may_load_def get_with_prefix_def get_view bucket_save_def set_with_prefix_def)
qed

lemma update_item_Err:
  assumes "valid s" "to_length_prefixed key = Done K" "must_deserialize J (view s K) = Inr x" "action x = Done (Inl e)"
  shows "with_singleton key (singleton_update S J from_std action) s = Done (Inl e, s)"
  using assms by (simp add: with_singleton_def singleton_new_def singleton_update_def pbind_def pmap_err_def singleton_load_def get_view)

lemma update_item_Ok:
  assumes "valid s" "to_length_prefixed key = Done K" "json_codec J" "must_deserialize J (view s K) = Inr x"
    and "action x = Done (Inr (y, u))"
  shows "\<exists>b t. from_slice J b = Inr y \<and> with_singleton key (singleton_update S J from_std action) s = Done (Inr (y, u), t) \<and>
    valid t \<and> view t = (view s)(K \<mapsto> b)"
proof -
  obtain b where b: "to_vec J y = Inr b" "b \<noteq> []" "from_slice J b = Inr y" using json_codec.to_vec_Ok [OF assms(3)] by blast
  obtain t where "st_set S s K b = Done t \<and> valid t \<and> view t = (view s)(K \<mapsto> b)" using set_view [OF assms(1) b(2)] by blast
  with b assms(1,2,4,5) show ?thesis
    by (intro exI [of _ b] exI [of _ t])
      (simp add: with_singleton_def singleton_new_def singleton_update_def pbind_def pmap_err_def singleton_load_def
        singleton_save_def get_view)
qed

end

end
