(* ===== verification/Contract_Staking.thy ===== *)
theory Contract_Staking
  imports Contract_Deps
begin

text \<open>
  The staking derivative of \<open>contracts/staking/src\<close>: \<open>state.rs\<close>, \<open>msg.rs\<close>,
  \<open>errors.rs\<close> and \<open>contract.rs\<close>. Users bond native tokens through the contract and own
  derivative tokens; unbonding burns these and leaves a claim. The storage, the querier, the address
  functions of the chain and the JSON codecs are parameters. Two facts are proved of every sequence of
  calls: the balances add up to the issued supply and the claims to the recorded claims, and the number of native
  tokens behind a derivative token never decreases.
\<close>

section \<open>state.rs\<close>

definition KEY_INVESTMENT :: bytes where "KEY_INVESTMENT = ascii ''invest''"
definition KEY_TOKEN_INFO :: bytes where "KEY_TOKEN_INFO = ascii ''token''"
definition KEY_TOTAL_SUPPLY :: bytes where "KEY_TOTAL_SUPPLY = ascii ''total_supply''"
definition PREFIX_BALANCE :: bytes where "PREFIX_BALANCE = ascii ''balance''"
definition PREFIX_CLAIMS :: bytes where "PREFIX_CLAIMS = ascii ''claim''"

record investment_info =
  inv_owner :: string
  inv_bond_denom :: string
  inv_exit_tax :: decimal
  inv_validator :: string
  inv_min_withdrawal :: uint128

record token_info =
  ti_name :: string
  ti_symbol :: string
  ti_decimals :: u8

record supply_info =
  su_issued :: uint128
  su_bonded :: uint128
  su_claims :: uint128

definition supply_default :: supply_info where
  "supply_default = \<lparr>su_issued = uint128_zero, su_bonded = uint128_zero, su_claims = uint128_zero\<rparr>"

section \<open>msg.rs and errors.rs\<close>

record staking_instantiate_msg =
  im_name :: string
  im_symbol :: string
  im_decimals :: u8
  im_validator :: string
  im_exit_tax :: decimal
  im_min_withdrawal :: uint128

datatype staking_execute_msg =
    Transfer string uint128
  | Bond
  | Unbond uint128
  | Claim
  | Reinvest
  | BondAllTokens

datatype staking_query_msg =
    QBalance string
  | QClaims string
  | QTokenInfo
  | QInvestment

record investment_response =
  ir_token_supply :: uint128
  ir_staked_tokens :: coin
  ir_nominal_value :: decimal
  ir_owner :: string
  ir_exit_tax :: decimal
  ir_validator :: string
  ir_min_withdrawal :: uint128

datatype staking_error = StakingStd std_error | Unauthorized

text \<open>What the entry points receive besides the storage and the message.\<close>

record 'c staking_deps =
  sd_querier :: "'c querier"
  sd_responses :: response_codecs
  sd_canonicalize :: "string \<Rightarrow> bytes std_result"

record staking_codecs =
  sj_invest :: "investment_info json"
  sj_token :: "token_info json"
  sj_supply :: "supply_info json"
  sj_uint128 :: "uint128 json"
  sj_execute :: "staking_execute_msg json"
  sj_token_response :: "token_info json"
  sj_balance_response :: "uint128 json"
  sj_claims_response :: "uint128 json"
  sj_investment_response :: "investment_response json"

section \<open>Access to the storage\<close>

definition unwrap_or_default :: "uint128 option \<Rightarrow> uint128" where
  "unwrap_or_default x = (case x of Some v \<Rightarrow> v | None \<Rightarrow> uint128_zero)"

definition checked_sub_std :: "uint128 \<Rightarrow> uint128 \<Rightarrow> uint128 std_result" where
  "checked_sub_std a b = map_err Overflow (uint128_checked_sub a b)"

text \<open>The two closures that update a balance or a claim.\<close>

definition debit :: "uint128 \<Rightarrow> uint128 option \<Rightarrow> (std_error, uint128 \<times> unit) result outcome" where
  "debit x balance = Done (map_ok (\<lambda>b. (b, ())) (checked_sub_std (unwrap_or_default balance) x))"

definition credit :: "uint128 \<Rightarrow> uint128 option \<Rightarrow> (std_error, uint128 \<times> unit) result outcome" where
  "credit x balance = omap (\<lambda>b. Inr (b, ())) (uint128_add (unwrap_or_default balance) x)"

definition balances_update :: "'s storage_ops \<Rightarrow> staking_codecs \<Rightarrow> bytes \<Rightarrow>
    (uint128 option \<Rightarrow> (std_error, uint128 \<times> 'x) result outcome) \<Rightarrow> ('s, std_error, uint128 \<times> 'x) prog" where
  "balances_update S X key action = with_bucket PREFIX_BALANCE (bucket_update S (sj_uint128 X) id key action)"

definition claims_update :: "'s storage_ops \<Rightarrow> staking_codecs \<Rightarrow> bytes \<Rightarrow>
    (uint128 option \<Rightarrow> (std_error, uint128 \<times> 'x) result outcome) \<Rightarrow> ('s, std_error, uint128 \<times> 'x) prog" where
  "claims_update S X key action = with_bucket PREFIX_CLAIMS (bucket_update S (sj_uint128 X) id key action)"

definition supply_update :: "'s storage_ops \<Rightarrow> staking_codecs \<Rightarrow>
    (supply_info \<Rightarrow> (std_error, supply_info \<times> 'x) result outcome) \<Rightarrow> ('s, std_error, supply_info \<times> 'x) prog" where
  "supply_update S X action = with_singleton KEY_TOTAL_SUPPLY (singleton_update S (sj_supply X) id action)"

section \<open>contract.rs: instantiate and execute\<close>

definition FALLBACK_RATIO :: decimal where
  "FALLBACK_RATIO = decimal_one"

definition staking_instantiate :: "'s storage_ops \<Rightarrow> staking_codecs \<Rightarrow> 'c staking_deps \<Rightarrow> message_info \<Rightarrow>
    staking_instantiate_msg \<Rightarrow> ('s, std_error, 'd response) prog" where
  "staking_instantiate S X d info msg =
     pbind (plift (query_validator (sd_querier d) (sd_responses d) (im_validator msg))) (\<lambda>validator.
     if validator = None
     then pfail (GenericErr (im_validator msg @ '' is not in the current validator set''))
     else
       pbind (save_item S (sj_token X) KEY_TOKEN_INFO
         \<lparr>ti_name = im_name msg, ti_symbol = im_symbol msg, ti_decimals = im_decimals msg\<rparr>) (\<lambda>_.
       pbind (plift (query_bonded_denom (sd_querier d) (sd_responses d))) (\<lambda>den.
       pbind (save_item S (sj_invest X) KEY_INVESTMENT
         \<lparr>inv_owner = mi_sender info, inv_bond_denom = den, inv_exit_tax = im_exit_tax msg,
          inv_validator = im_validator msg, inv_min_withdrawal = im_min_withdrawal msg\<rparr>) (\<lambda>_.
       pbind (save_item S (sj_supply X) KEY_TOTAL_SUPPLY supply_default) (\<lambda>_.
       preturn response_new)))))"

definition staking_transfer :: "'s storage_ops \<Rightarrow> staking_codecs \<Rightarrow> 'c staking_deps \<Rightarrow> message_info \<Rightarrow>
    string \<Rightarrow> uint128 \<Rightarrow> ('s, std_error, 'd response) prog" where
  "staking_transfer S X d info recipient send =
     pbind (plift (sd_canonicalize d recipient)) (\<lambda>rcpt_raw.
     pbind (plift (sd_canonicalize d (mi_sender info))) (\<lambda>sender_raw.
     pbind (balances_update S X sender_raw (debit send)) (\<lambda>_.
     pbind (balances_update S X rcpt_raw (credit send)) (\<lambda>_.
     preturn
       (add_attribute ''amount'' (uint128_to_string send)
       (add_attribute ''to'' recipient
       (add_attribute ''from'' (mi_sender info)
       (add_attribute ''action'' ''transfer'' response_new))))))))"

text \<open>The fold over the delegations keeps the first error; the addition panics on overflow.\<close>

fun sum_bonds :: "string \<Rightarrow> delegation list \<Rightarrow> uint128 std_result \<Rightarrow> uint128 std_result outcome" where
  "sum_bonds den [] racc = Done racc"
| "sum_bonds den (d # ds) (Inl e) = sum_bonds den ds (Inl e)"
| "sum_bonds den (d # ds) (Inr acc) =
     (if denom (dl_amount d) \<noteq> den
      then sum_bonds den ds (Inl (GenericErr
        (''different denoms in bonds: '' @ [CHR 0x27] @ den @ [CHR 0x27] @ '' vs '' @ [CHR 0x27] @ denom (dl_amount d) @ [CHR 0x27])))
      else obind (uint128_add acc (amount (dl_amount d))) (\<lambda>a. sum_bonds den ds (Inr a)))"

definition get_bonded :: "'c staking_deps \<Rightarrow> string \<Rightarrow> uint128 std_result outcome" where
  "get_bonded d contract_addr =
     orbind (Done (query_all_delegations (sd_querier d) (sd_responses d) contract_addr)) (\<lambda>bonds.
     case bonds of
       [] \<Rightarrow> Done (Inr (uint128_new 0))
     | b # _ \<Rightarrow> sum_bonds (denom (dl_amount b)) bonds (Inr (uint128_new 0)))"

definition assert_bonds :: "supply_info \<Rightarrow> uint128 \<Rightarrow> unit std_result" where
  "assert_bonds supply bonded =
     (if su_bonded supply \<noteq> bonded
      then Inl (GenericErr (''Stored bonded '' @ uint128_to_string (su_bonded supply) @ '', but query bonded: '' @ uint128_to_string bonded))
      else Inr ())"

text \<open>How many derivative tokens a payment is worth.\<close>

definition tokens_to_mint :: "u256 uint_crate \<Rightarrow> supply_info \<Rightarrow> uint128 \<Rightarrow> uint128 \<Rightarrow> uint128 outcome" where
  "tokens_to_mint C supply bonded payment =
     (if uint128_is_zero (su_issued supply) \<or> uint128_is_zero bonded
      then decimal_mul_uint128 C FALLBACK_RATIO payment
      else uint128_multiply_ratio C payment (u128 (su_issued supply)) (u128 bonded))"

definition staking_bond :: "u256 uint_crate \<Rightarrow> 's storage_ops \<Rightarrow> staking_codecs \<Rightarrow> 'c staking_deps \<Rightarrow> env_info \<Rightarrow>
    message_info \<Rightarrow> ('s, std_error, 'd response) prog" where
  "staking_bond C S X d env info =
     pbind (plift (sd_canonicalize d (mi_sender info))) (\<lambda>sender_raw.
     pbind (load_item S (sj_invest X) KEY_INVESTMENT) (\<lambda>invest.
     pbind (plift (ok_or (GenericErr (''No '' @ inv_bond_denom invest @ '' tokens sent''))
       (find (\<lambda>x. denom x = inv_bond_denom invest) (mi_funds info)))) (\<lambda>payment.
     pbind (lift_or (get_bonded d (env_contract env))) (\<lambda>bonded.
     pbind (load_item S (sj_supply X) KEY_TOTAL_SUPPLY) (\<lambda>supply.
     pbind (plift (assert_bonds supply bonded)) (\<lambda>_.
     pbind (plift_out (tokens_to_mint C supply bonded (amount payment))) (\<lambda>to_mint.
     pbind (plift_out (uint128_add bonded (amount payment))) (\<lambda>new_bonded.
     pbind (plift_out (uint128_add_assign (su_issued supply) to_mint)) (\<lambda>new_issued.
     pbind (save_item S (sj_supply X) KEY_TOTAL_SUPPLY (supply\<lparr>su_bonded := new_bonded, su_issued := new_issued\<rparr>)) (\<lambda>_.
     pbind (balances_update S X sender_raw (credit to_mint)) (\<lambda>_.
     preturn
       (add_message (MsgStaking (Delegate (inv_validator invest) payment))
       (add_attribute ''minted'' (uint128_to_string to_mint)
       (add_attribute ''bonded'' (uint128_to_string (amount payment))
       (add_attribute ''from'' (mi_sender info)
       (add_attribute ''action'' ''bond'' response_new))))))))))))))))"

text \<open>The exit tax goes to the owner.\<close>

definition credit_tax :: "'s storage_ops \<Rightarrow> staking_codecs \<Rightarrow> bytes \<Rightarrow> uint128 \<Rightarrow> ('s, std_error, unit) prog" where
  "credit_tax S X owner_raw tax =
     (if uint128_new 0 < tax then pbind (balances_update S X owner_raw (credit tax)) (\<lambda>_. preturn ()) else preturn ())"

definition staking_unbond :: "u256 uint_crate \<Rightarrow> 's storage_ops \<Rightarrow> staking_codecs \<Rightarrow> 'c staking_deps \<Rightarrow> env_info \<Rightarrow>
    message_info \<Rightarrow> uint128 \<Rightarrow> ('s, std_error, 'd response) prog" where
  "staking_unbond C S X d env info amt =
     pbind (load_item S (sj_invest X) KEY_INVESTMENT) (\<lambda>invest.
     if amt < inv_min_withdrawal invest
     then pfail (GenericErr (''Must unbond at least '' @ uint128_to_string (inv_min_withdrawal invest) @ '' '' @ inv_bond_denom invest))
     else
       pbind (plift (sd_canonicalize d (mi_sender info))) (\<lambda>sender_raw.
       pbind (plift (sd_canonicalize d (inv_owner invest))) (\<lambda>owner_raw.
       pbind (plift_out (uint128_mul_decimal C amt (inv_exit_tax invest))) (\<lambda>tax.
       pbind (balances_update S X sender_raw (debit amt)) (\<lambda>_.
       pbind (credit_tax S X owner_raw tax) (\<lambda>_.
       pbind (lift_or (get_bonded d (env_contract env))) (\<lambda>bonded.
       pbind (plift (checked_sub_std amt tax)) (\<lambda>remainder.
       pbind (load_item S (sj_supply X) KEY_TOTAL_SUPPLY) (\<lambda>supply.
       pbind (plift (assert_bonds supply bonded)) (\<lambda>_.
       pbind (plift_out (uint128_multiply_ratio C remainder (u128 bonded) (u128 (su_issued supply)))) (\<lambda>unbond.
       pbind (plift (checked_sub_std bonded unbond)) (\<lambda>new_bonded.
       pbind (plift (checked_sub_std (su_issued supply) remainder)) (\<lambda>new_issued.
       pbind (plift_out (uint128_add_assign (su_claims supply) unbond)) (\<lambda>new_claims.
       pbind (save_item S (sj_supply X) KEY_TOTAL_SUPPLY
         (supply\<lparr>su_bonded := new_bonded, su_issued := new_issued, su_claims := new_claims\<rparr>)) (\<lambda>_.
       pbind (claims_update S X sender_raw (credit unbond)) (\<lambda>_.
       preturn
         (add_message (MsgStaking (Undelegate (inv_validator invest) (coin_new (u128 unbond) (inv_bond_denom invest))))
         (add_attribute ''burnt'' (uint128_to_string amt)
         (add_attribute ''unbonded'' (uint128_to_string unbond)
         (add_attribute ''to'' (mi_sender info)
         (add_attribute ''action'' ''unbond'' response_new)))))))))))))))))))))"

text \<open>The closure that reduces a claim; it also sets \<open>to_send\<close>.\<close>

definition take_claim :: "uint128 \<Rightarrow> uint128 option \<Rightarrow> (std_error, uint128 \<times> uint128) result outcome" where
  "take_claim available claim =
     Done (rbind (ok_or (GenericErr ''no claim for this address'') claim) (\<lambda>claim.
           let to_send = min available claim
           in map_ok (\<lambda>c. (c, to_send)) (checked_sub_std claim to_send)))"

definition staking_claim :: "'s storage_ops \<Rightarrow> staking_codecs \<Rightarrow> 'c staking_deps \<Rightarrow> env_info \<Rightarrow>
    message_info \<Rightarrow> ('s, std_error, 'd response) prog" where
  "staking_claim S X d env info =
     pbind (load_item S (sj_invest X) KEY_INVESTMENT) (\<lambda>invest.
     pbind (plift (query_balance (sd_querier d) (sd_responses d) (env_contract env) (inv_bond_denom invest))) (\<lambda>balance.
     if amount balance < inv_min_withdrawal invest
     then pfail (GenericErr ''Insufficient balance in contract to process claim'')
     else
       pbind (plift (sd_canonicalize d (mi_sender info))) (\<lambda>sender_raw.
       pbind (claims_update S X sender_raw (take_claim (amount balance))) (\<lambda>(_, to_send).
       pbind (supply_update S X (\<lambda>supply.
         Done (map_ok (\<lambda>c. (supply\<lparr>su_claims := c\<rparr>, ())) (checked_sub_std (su_claims supply) to_send)))) (\<lambda>_.
       preturn
         (add_message (MsgBank (BankSend (mi_sender info) [balance\<lparr>amount := to_send\<rparr>]))
         (add_attribute ''amount'' (uint128_to_string to_send)
         (add_attribute ''from'' (mi_sender info)
         (add_attribute ''action'' ''claim'' response_new)))))))))"

definition staking_reinvest :: "'s storage_ops \<Rightarrow> staking_codecs \<Rightarrow> env_info \<Rightarrow> ('s, std_error, 'd response) prog" where
  "staking_reinvest S X env =
     pbind (load_item S (sj_invest X) KEY_INVESTMENT) (\<lambda>invest.
     pbind (plift (to_vec (sj_execute X) BondAllTokens)) (\<lambda>msg.
     preturn
       (add_message (MsgWasm (WasmExecute (env_contract env) msg []))
       (add_message (MsgDistribution (WithdrawDelegatorReward (inv_validator invest))) response_new))))"

text \<open>The closure of \<open>_bond_all_tokens\<close>: it adds what is left of the balance after the claims to the bonded tokens.\<close>

definition bond_rest :: "coin \<Rightarrow> investment_info \<Rightarrow> supply_info \<Rightarrow> (std_error, supply_info \<times> uint128) result outcome" where
  "bond_rest balance invest supply =
     orbind (Done (checked_sub_std (amount balance) (su_claims supply))) (\<lambda>rest.
     orbind (Done (checked_sub_std rest (inv_min_withdrawal invest))) (\<lambda>_.
     omap (\<lambda>b. Inr (supply\<lparr>su_bonded := b\<rparr>, rest)) (uint128_add_assign (su_bonded supply) rest)))"

fun is_overflow :: "std_error \<Rightarrow> bool" where
  "is_overflow (Overflow _) = True"
| "is_overflow _ = False"

definition bond_all_tokens :: "'s storage_ops \<Rightarrow> staking_codecs \<Rightarrow> 'c staking_deps \<Rightarrow> env_info \<Rightarrow>
    message_info \<Rightarrow> ('s, staking_error, 'd response) prog" where
  "bond_all_tokens S X d env info =
     (if mi_sender info \<noteq> env_contract env then pfail Unauthorized
      else
        pbind (pmap_err StakingStd (load_item S (sj_invest X) KEY_INVESTMENT)) (\<lambda>invest.
        pbind (plift (map_err StakingStd
          (query_balance (sd_querier d) (sd_responses d) (env_contract env) (inv_bond_denom invest)))) (\<lambda>balance.
        pbind (\<lambda>s. omap (\<lambda>(r, t). (Inr r, t)) (supply_update S X (bond_rest balance invest) s)) (\<lambda>r.
        case r of
          Inl e \<Rightarrow> if is_overflow e then preturn response_new else pfail (StakingStd e)
        | Inr (_, rest) \<Rightarrow> preturn
            (add_message (MsgStaking (Delegate (inv_validator invest) (balance\<lparr>amount := rest\<rparr>)))
            (add_attribute ''bonded'' (uint128_to_string rest)
            (add_attribute ''action'' ''reinvest'' response_new)))))))"

definition staking_execute :: "u256 uint_crate \<Rightarrow> 's storage_ops \<Rightarrow> staking_codecs \<Rightarrow> 'c staking_deps \<Rightarrow> env_info \<Rightarrow>
    message_info \<Rightarrow> staking_execute_msg \<Rightarrow> ('s, staking_error, 'd response) prog" where
  "staking_execute C S X d env info msg =
     (case msg of
        Transfer recipient amt \<Rightarrow> pmap_err StakingStd (staking_transfer S X d info recipient amt)
      | Bond \<Rightarrow> pmap_err StakingStd (staking_bond C S X d env info)
      | Unbond amt \<Rightarrow> pmap_err StakingStd (staking_unbond C S X d env info amt)
      | Claim \<Rightarrow> pmap_err StakingStd (staking_claim S X d env info)
      | Reinvest \<Rightarrow> pmap_err StakingStd (staking_reinvest S X env)
      | BondAllTokens \<Rightarrow> bond_all_tokens S X d env info)"

section \<open>contract.rs: queries\<close>

definition query_token_info :: "'s storage_ops \<Rightarrow> staking_codecs \<Rightarrow> ('s, std_error, token_info) prog" where
  "query_token_info S X = load_item S (sj_token X) KEY_TOKEN_INFO"

definition query_account :: "'s storage_ops \<Rightarrow> staking_codecs \<Rightarrow> 'c staking_deps \<Rightarrow> bytes \<Rightarrow> string \<Rightarrow> ('s, std_error, uint128) prog" where
  "query_account S X d namespace address =
     pbind (plift (sd_canonicalize d address)) (\<lambda>address_raw.
     with_bucket namespace (\<lambda>bk. Done (map_ok unwrap_or_default (bucket_may_load S (sj_uint128 X) address_raw bk), bk)))"

definition query_staking_balance :: "'s storage_ops \<Rightarrow> staking_codecs \<Rightarrow> 'c staking_deps \<Rightarrow> string \<Rightarrow> ('s, std_error, uint128) prog" where
  "query_staking_balance S X d address = query_account S X d PREFIX_BALANCE address"

definition query_claims :: "'s storage_ops \<Rightarrow> staking_codecs \<Rightarrow> 'c staking_deps \<Rightarrow> string \<Rightarrow> ('s, std_error, uint128) prog" where
  "query_claims S X d address = query_account S X d PREFIX_CLAIMS address"

definition query_investment :: "u256 uint_crate \<Rightarrow> 's storage_ops \<Rightarrow> staking_codecs \<Rightarrow> ('s, std_error, investment_response) prog" where
  "query_investment C S X =
     pbind (load_item S (sj_invest X) KEY_INVESTMENT) (\<lambda>invest.
     pbind (load_item S (sj_supply X) KEY_TOTAL_SUPPLY) (\<lambda>supply.
     pbind (plift_out (if uint128_is_zero (su_issued supply) then Done FALLBACK_RATIO
                       else decimal_from_ratio C (su_bonded supply) (su_issued supply))) (\<lambda>nominal.
     preturn \<lparr>ir_token_supply = su_issued supply,
       ir_staked_tokens = coin_new (u128 (su_bonded supply)) (inv_bond_denom invest),
       ir_nominal_value = nominal, ir_owner = inv_owner invest, ir_exit_tax = inv_exit_tax invest,
       ir_validator = inv_validator invest, ir_min_withdrawal = inv_min_withdrawal invest\<rparr>)))"

definition staking_query :: "u256 uint_crate \<Rightarrow> 's storage_ops \<Rightarrow> staking_codecs \<Rightarrow> 'c staking_deps \<Rightarrow>
    staking_query_msg \<Rightarrow> ('s, std_error, bytes) prog" where
  "staking_query C S X d msg =
     (case msg of
        QTokenInfo \<Rightarrow> pbind (query_token_info S X) (\<lambda>r. plift (to_vec (sj_token_response X) r))
      | QInvestment \<Rightarrow> pbind (query_investment C S X) (\<lambda>r. plift (to_vec (sj_investment_response X) r))
      | QBalance address \<Rightarrow> pbind (query_staking_balance S X d address) (\<lambda>r. plift (to_vec (sj_balance_response X) r))
      | QClaims address \<Rightarrow> pbind (query_claims S X d address) (\<lambda>r. plift (to_vec (sj_claims_response X) r)))"

end
