(* ===== verification/Staking_Ledger.thy ===== *)
theory Staking_Ledger
  imports Contract_Staking
begin

text \<open>
  The accounts of the staking contract of Contract_Staking. \<open>total\<close> adds up the amounts stored under a
  prefix; each access to the storage is described by what it does to the two totals and to the recorded supply, and
  from these descriptions follow the invariant of the contract and the growth of the value of a derivative token.
\<close>

section \<open>Totals\<close>

definition account :: "uint128 json \<Rightarrow> bytes \<Rightarrow> (bytes \<rightharpoonup> bytes) \<Rightarrow> bytes \<Rightarrow> nat" where
  "account J p m k = (case may_deserialize J (m (p @ k)) of Inr (Some v) \<Rightarrow> val128 v | _ \<Rightarrow> 0)"

definition total :: "uint128 json \<Rightarrow> bytes \<Rightarrow> (bytes \<rightharpoonup> bytes) \<Rightarrow> nat" where
  "total J p m = (\<Sum>k | m (p @ k) \<noteq> None. account J p m k)"

lemma finite_accounts: "finite (dom m) \<Longrightarrow> finite {k. m (p @ k) \<noteq> None}"
  by (rule finite_imageD [of "(@) p"], rule finite_subset [of _ "dom m"]) (auto intro: inj_onI)

lemma total_superset:
  assumes "finite A" "{k. m (p @ k) \<noteq> None} \<subseteq> A"
  shows "total J p m = (\<Sum>k \<in> A. account J p m k)"
  unfolding total_def
  by (rule sum.mono_neutral_left) (use assms in \<open>auto simp: account_def may_deserialize_def\<close>)

lemma total_update:
  assumes "finite (dom m)" "from_slice J b = Inr v"
  shows "total J p (m(p @ k \<mapsto> b)) + account J p m k = total J p m + val128 v"
proof -
  define A where "A = {j. m (p @ j) \<noteq> None}"
  define m' where "m' = m(p @ k \<mapsto> b)"
  have fin: "finite A" using finite_accounts [OF assms(1)] by (simp add: A_def)
  have "total J p m' = (\<Sum>j \<in> insert k A. account J p m' j)"
    by (rule total_superset) (use fin in \<open>auto simp: A_def m'_def\<close>)
  moreover have "total J p m = (\<Sum>j \<in> insert k A. account J p m j)"
    by (rule total_superset) (use fin in \<open>auto simp: A_def\<close>)
  moreover have "(\<Sum>j \<in> A - {k}. account J p m' j) = (\<Sum>j \<in> A - {k}. account J p m j)"
    by (rule sum.cong) (auto simp: account_def m'_def)
  moreover have "account J p m' k = val128 v"
    using assms(2) by (simp add: account_def m'_def may_deserialize_def)
  ultimately show ?thesis
    using fin by (simp add: sum.insert_remove m'_def)
qed

lemma account_le_total: "finite (dom m) \<Longrightarrow> account J p m k \<le> total J p m"
proof -
  assume "finite (dom m)"
  then have fin: "finite (insert k {j. m (p @ j) \<noteq> None})" using finite_accounts by simp
  have "total J p m = (\<Sum>j \<in> insert k {j. m (p @ j) \<noteq> None}. account J p m j)"
    by (rule total_superset [OF fin]) auto
  then show ?thesis using member_le_sum [OF _ _ fin, of k "account J p m"] by simp
qed

lemma total_other: "(\<And>k. K \<noteq> p @ k) \<Longrightarrow> total J p (m(K := v)) = total J p m"
proof -
  assume "\<And>k. K \<noteq> p @ k"
  then have "(m(K := v)) (p @ k) = m (p @ k)" for k by (simp add: eq_commute)
  then show ?thesis unfolding total_def account_def by presburger
qed

section \<open>The keys of the contract\<close>

definition balance_prefix :: bytes where "balance_prefix = [0, 7] @ PREFIX_BALANCE"
definition claims_prefix :: bytes where "claims_prefix = [0, 5] @ PREFIX_CLAIMS"
definition supply_key :: bytes where "supply_key = [0, 12] @ KEY_TOTAL_SUPPLY"
definition invest_key :: bytes where "invest_key = [0, 6] @ KEY_INVESTMENT"
definition token_key :: bytes where "token_key = [0, 5] @ KEY_TOKEN_INFO"

lemmas key_defs = balance_prefix_def claims_prefix_def supply_key_def invest_key_def token_key_def
  PREFIX_BALANCE_def PREFIX_CLAIMS_def KEY_TOTAL_SUPPLY_def KEY_INVESTMENT_def KEY_TOKEN_INFO_def ascii_def

lemma encoded_keys:
  "to_length_prefixed PREFIX_BALANCE = Done balance_prefix"
  "to_length_prefixed PREFIX_CLAIMS = Done claims_prefix"
  "to_length_prefixed KEY_TOTAL_SUPPLY = Done supply_key"
  "to_length_prefixed KEY_INVESTMENT = Done invest_key"
  "to_length_prefixed KEY_TOKEN_INFO = Done token_key"
  by (simp_all add: to_length_prefixed_def obind_eq_Done_iff encode_length_Done_iff key_defs)

lemma distinct_keys [simp]:
  "balance_prefix @ k \<noteq> claims_prefix @ j" "claims_prefix @ j \<noteq> balance_prefix @ k"
  "supply_key \<noteq> balance_prefix @ k" "supply_key \<noteq> claims_prefix @ k"
  "balance_prefix @ k \<noteq> supply_key" "claims_prefix @ k \<noteq> supply_key"
  "invest_key \<noteq> balance_prefix @ k" "invest_key \<noteq> claims_prefix @ k" "invest_key \<noteq> supply_key" "supply_key \<noteq> invest_key"
  "token_key \<noteq> balance_prefix @ k" "token_key \<noteq> claims_prefix @ k" "token_key \<noteq> supply_key" "supply_key \<noteq> token_key"
  "token_key \<noteq> invest_key" "invest_key \<noteq> token_key" "balance_prefix @ k \<noteq> invest_key" "balance_prefix @ k \<noteq> token_key"
  "claims_prefix @ k \<noteq> invest_key" "claims_prefix @ k \<noteq> token_key"
  by (simp_all add: key_defs)

section \<open>What the accesses do to the storage\<close>

lemma supply_updated:
  assumes "supply_update S X action s = Done (Inr (out, x), s')"
  shows "\<exists>i b. must_deserialize (sj_supply X) (st_get S s supply_key) = Inr i \<and> action i = Done (Inr (out, x)) \<and>
    to_vec (sj_supply X) out = Inr b \<and> st_set S s supply_key b = Done s'"
proof -
  obtain sg where sg: "singleton_update S (sj_supply X) id action \<lparr>sg_storage = s, sg_key = supply_key\<rparr> = Done (Inr (out, x), sg)"
    "s' = sg_storage sg"
    using assms by (auto simp: supply_update_def with_singleton_eq_Done_iff [OF encoded_keys(3)])
  from singleton_update_Ok [OF sg(1)] sg(2) show ?thesis by (auto simp: singleton_load_def)
qed

text \<open>An update that fails leaves the storage as it was.\<close>

lemma supply_update_Err:
  assumes "supply_update S X action s = Done (Inl e, s')"
  shows "s' = s"
proof -
  obtain sg where sg: "singleton_update S (sj_supply X) id action \<lparr>sg_storage = s, sg_key = supply_key\<rparr> = Done (Inl e, sg)"
    "s' = sg_storage sg"
    using assms by (auto simp: supply_update_def with_singleton_eq_Done_iff [OF encoded_keys(3)])
  then have "sg = \<lparr>sg_storage = s, sg_key = supply_key\<rparr>"
    by (auto simp: singleton_update_def pbind_eq_Done_iff pmap_err_id omap_eq_Done_iff singleton_save_Err_iff)
  then show ?thesis using sg(2) by simp
qed

text \<open>The recorded supply and the two totals.\<close>

definition supply_at :: "staking_codecs \<Rightarrow> (bytes \<rightharpoonup> bytes) \<Rightarrow> supply_info std_result" where
  "supply_at X m = must_deserialize (sj_supply X) (m supply_key)"

definition balances_total :: "staking_codecs \<Rightarrow> (bytes \<rightharpoonup> bytes) \<Rightarrow> nat" where
  "balances_total X m = total (sj_uint128 X) balance_prefix m"

definition claims_total :: "staking_codecs \<Rightarrow> (bytes \<rightharpoonup> bytes) \<Rightarrow> nat" where
  "claims_total X m = total (sj_uint128 X) claims_prefix m"

lemmas books_defs = supply_at_def balances_total_def claims_total_def

lemma val_unwrap_or_default:
  "may_deserialize J (m (p @ k)) = Inr i \<Longrightarrow> val128 (unwrap_or_default i) = account J p m k"
  by (cases i) (auto simp: unwrap_or_default_def account_def)

lemma checked_sub_std_iff:
  "checked_sub_std a b = Inr c \<longleftrightarrow> val128 b \<le> val128 a \<and> val128 c = val128 a - val128 b"
  by (simp add: checked_sub_std_def map_err_eq_Ok_iff uint128_checked_iff)

lemma credit_Ok_iff: "credit x i = Done (Inr (out, u)) \<longleftrightarrow> val128 out = val128 (unwrap_or_default i) + val128 x"
  by (auto simp: credit_def omap_eq_Done_iff uint128_op_iff)

lemma debit_Ok_iff:
  "debit x i = Done (Inr (out, u)) \<longleftrightarrow> val128 x \<le> val128 (unwrap_or_default i) \<and> val128 out = val128 (unwrap_or_default i) - val128 x"
  by (auto simp: debit_def map_ok_eq_Ok_iff checked_sub_std_iff)

lemma take_claim_Ok:
  "take_claim avail i = Done (Inr (out, sent)) \<Longrightarrow>
   \<exists>c. i = Some c \<and> val128 sent = min (val128 avail) (val128 c) \<and> val128 out + val128 sent = val128 c"
  by (cases i) (auto simp: take_claim_def Let_def map_ok_eq_Ok_iff checked_sub_std_iff min_def uint128_le_iff split: if_splits)

locale staking_store = key_value_store S valid view + bal: json_codec "sj_uint128 X" + sup: json_codec "sj_supply X" + crate256 C
  for S :: "'s storage_ops" and valid view and X :: staking_codecs and C :: "u256 uint_crate"
begin

lemma finite_view:
  assumes "valid s"
  shows "finite (dom (view s))"
proof -
  obtain rs where "range_spec (view s) None None Ascending rs" using range_view [OF assms] by blast
  then have "dom (view s) = fst ` set rs" by (force simp: range_spec_def in_range_def)
  then show ?thesis by simp
qed

lemma set_Ok:
  assumes "valid s" "st_set S s k v = Done t"
  shows "valid t" "view t = (view s)(k \<mapsto> v)"
proof -
  have "v \<noteq> []" using assms set_empty by (metis panics.simps(2))
  then show "valid t" "view t = (view s)(k \<mapsto> v)" using set_view [OF assms(1), of v k] assms by auto
qed

lemma save_supply:
  assumes "valid s" "save_item S (sj_supply X) KEY_TOTAL_SUPPLY sp s = Done (Inr u, s')"
  shows "valid s'" "supply_at X (view s') = Inr sp"
    "balances_total X (view s') = balances_total X (view s)" "claims_total X (view s') = claims_total X (view s)"
proof -
  obtain b where b: "to_vec (sj_supply X) sp = Inr b" "st_set S s supply_key b = Done s'"
    using assms(2) by (auto simp: save_item_eq_Ok_iff [OF encoded_keys(3)])
  have "from_slice (sj_supply X) b = Inr sp" using sup.to_vec_Ok [of sp] b(1) by auto
  then show "valid s'" "supply_at X (view s') = Inr sp"
    "balances_total X (view s') = balances_total X (view s)" "claims_total X (view s') = claims_total X (view s)"
    using set_Ok [OF assms(1) b(2)] by (simp_all add: books_defs must_deserialize_def total_other)
qed

lemma balances_updated:
  assumes "valid s" "balances_update S X key action s = Done (Inr (out, x), s')"
  shows "\<exists>i. action i = Done (Inr (out, x)) \<and> val128 (unwrap_or_default i) \<le> balances_total X (view s) \<and>
    balances_total X (view s') + val128 (unwrap_or_default i) = balances_total X (view s) + val128 out"
    and "valid s'" "supply_at X (view s') = supply_at X (view s)" "claims_total X (view s') = claims_total X (view s)"
proof -
  obtain i b where ib: "may_deserialize (sj_uint128 X) (view s (balance_prefix @ key)) = Inr i"
    "action i = Done (Inr (out, x))" "to_vec (sj_uint128 X) out = Inr b" "st_set S s (balance_prefix @ key) b = Done s'"
    using bucket_updated [OF encoded_keys(1) assms(2) [unfolded balances_update_def]] get_view [OF assms(1)] by auto
  have b: "from_slice (sj_uint128 X) b = Inr out" using bal.to_vec_Ok [of out] ib(3) by auto
  note set = set_Ok [OF assms(1) ib(4)]
  from set show "valid s'" "supply_at X (view s') = supply_at X (view s)" "claims_total X (view s') = claims_total X (view s)"
    by (simp_all add: books_defs total_other)
  have "balances_total X (view s') + val128 (unwrap_or_default i) = balances_total X (view s) + val128 out"
    using total_update [OF finite_view [OF assms(1)] b] val_unwrap_or_default [of _ "view s", OF ib(1)]
    by (simp add: books_defs set(2))
  moreover have "val128 (unwrap_or_default i) \<le> balances_total X (view s)"
    using account_le_total [OF finite_view [OF assms(1)]] val_unwrap_or_default [of _ "view s", OF ib(1)]
    by (simp add: books_defs)
  ultimately show "\<exists>i. action i = Done (Inr (out, x)) \<and> val128 (unwrap_or_default i) \<le> balances_total X (view s) \<and>
    balances_total X (view s') + val128 (unwrap_or_default i) = balances_total X (view s) + val128 out"
    using ib(2) by blast
qed

lemma claims_updated:
  assumes "valid s" "claims_update S X key action s = Done (Inr (out, x), s')"
  shows "\<exists>i. action i = Done (Inr (out, x)) \<and>
    claims_total X (view s') + val128 (unwrap_or_default i) = claims_total X (view s) + val128 out"
    and "valid s'" "supply_at X (view s') = supply_at X (view s)" "balances_total X (view s') = balances_total X (view s)"
proof -
  obtain i b where ib: "may_deserialize (sj_uint128 X) (view s (claims_prefix @ key)) = Inr i"
    "action i = Done (Inr (out, x))" "to_vec (sj_uint128 X) out = Inr b" "st_set S s (claims_prefix @ key) b = Done s'"
    using bucket_updated [OF encoded_keys(2) assms(2) [unfolded claims_update_def]] get_view [OF assms(1)] by auto
  have b: "from_slice (sj_uint128 X) b = Inr out" using bal.to_vec_Ok [of out] ib(3) by auto
  note set = set_Ok [OF assms(1) ib(4)]
  from set show "valid s'" "supply_at X (view s') = supply_at X (view s)" "balances_total X (view s') = balances_total X (view s)"
    by (simp_all add: books_defs total_other)
  have "claims_total X (view s') + val128 (unwrap_or_default i) = claims_total X (view s) + val128 out"
    using total_update [OF finite_view [OF assms(1)] b] val_unwrap_or_default [of _ "view s", OF ib(1)]
    by (simp add: books_defs set(2))
  with ib(2) show "\<exists>i. action i = Done (Inr (out, x)) \<and>
    claims_total X (view s') + val128 (unwrap_or_default i) = claims_total X (view s) + val128 out" by blast
qed

end

section \<open>The books after a call\<close>

text \<open>
  A call moves the totals together with the recorded supply, and a derivative token is worth no less afterwards:
  the ratio of bonded to issued tokens does not decrease.
\<close>

definition books_step :: "staking_codecs \<Rightarrow> (bytes \<rightharpoonup> bytes) \<Rightarrow> (bytes \<rightharpoonup> bytes) \<Rightarrow> bool" where
  "books_step X m m' \<longleftrightarrow>
     (\<exists>sp sp'. supply_at X m = Inr sp \<and> supply_at X m' = Inr sp' \<and>
       balances_total X m' + val128 (su_issued sp) = balances_total X m + val128 (su_issued sp') \<and>
       claims_total X m' + val128 (su_claims sp) = claims_total X m + val128 (su_claims sp') \<and>
       (0 < val128 (su_issued sp) \<longrightarrow>
         val128 (su_bonded sp) * val128 (su_issued sp') \<le> val128 (su_bonded sp') * val128 (su_issued sp)))"

lemma books_step_same:
  "supply_at X m = Inr sp \<Longrightarrow> supply_at X m' = Inr sp \<Longrightarrow> balances_total X m' = balances_total X m \<Longrightarrow>
   claims_total X m' = claims_total X m \<Longrightarrow> books_step X m m'"
  by (simp add: books_step_def)

lemma mul_div_le: "c * (a * b div c) \<le> a * b" for a b c :: nat
  by (metis mult.commute div_times_less_eq_dividend)

lemma assert_bonds_iff: "assert_bonds sp b = Inr u \<longleftrightarrow> su_bonded sp = b"
  by (simp add: assert_bonds_def)

lemma val_FALLBACK_RATIO: "valD FALLBACK_RATIO = dec_unit"
  by (simp add: FALLBACK_RATIO_def decimal_one_def)

lemma settled:
  "(case r of Inl e \<Rightarrow> if is_overflow e then preturn x else pfail (g e) | Inr (_, rest) \<Rightarrow> preturn (f rest)) t =
     Done (Inr res, s') \<Longrightarrow> t = s'"
  by (auto split: sum.splits if_splits)

context staking_store
begin

lemma transfer_books:
  assumes "valid s" "supply_at X (view s) = Inr sp" "staking_transfer S X d info recipient send s = Done (Inr res, s')"
  shows "valid s' \<and> books_step X (view s) (view s')"
proof -
  obtain a b o1 t o2 where u1: "balances_update S X a (debit send) s = Done (Inr (o1, ()), t)"
    and u2: "balances_update S X b (credit send) t = Done (Inr (o2, ()), s')"
    using assms(3) by (auto simp: staking_transfer_def pbind_eq_Ok_iff)
  note t = balances_updated [OF assms(1) u1]
  note s' = balances_updated [OF t(2) u2]
  have "balances_total X (view s') = balances_total X (view s)"
    using t(1) s'(1) by (auto simp: debit_Ok_iff credit_Ok_iff)
  then show ?thesis using t s' assms(2) by (auto intro!: books_step_same)
qed

lemma tokens_to_mint_fair:
  assumes "tokens_to_mint C sp (su_bonded sp) payment = Done mint" "0 < val128 (su_issued sp)"
  shows "val128 (su_bonded sp) * val128 mint \<le> val128 payment * val128 (su_issued sp)"
  using assms mul_div_le [of "val128 (su_bonded sp)" "val128 payment" "val128 (su_issued sp)"]
  by (auto simp: tokens_to_mint_def uint128_is_zero_iff uint128_multiply_ratio_iff split: if_splits)

lemma bond_books:
  assumes "valid s" "staking_bond C S X d env info s = Done (Inr res, s')"
  shows "valid s' \<and> books_step X (view s) (view s')"
proof -
  obtain sp payment mint nb ni a o1 t where sp: "supply_at X (view s) = Inr sp"
    and mint: "tokens_to_mint C sp (su_bonded sp) payment = Done mint"
    and nb: "val128 nb = val128 (su_bonded sp) + val128 payment" "val128 ni = val128 (su_issued sp) + val128 mint"
    and save: "save_item S (sj_supply X) KEY_TOTAL_SUPPLY (sp\<lparr>su_bonded := nb, su_issued := ni\<rparr>) s = Done (Inr (), t)"
    and upd: "balances_update S X a (credit mint) t = Done (Inr (o1, ()), s')"
    using assms(2) get_view [OF assms(1)]
    by (auto simp: staking_bond_def pbind_eq_Ok_iff lift_or_eq_Done_iff load_item_eq_Done_iff encoded_keys
        assert_bonds_iff plift_out_eq_Done_iff uint128_op_iff uint128_add_assign_def supply_at_def)
  note t = save_supply [OF assms(1) save]
  note s' = balances_updated [OF t(1) upd]
  have "balances_total X (view s') = balances_total X (view s) + val128 mint"
    using s'(1) t(3) by (auto simp: credit_Ok_iff)
  moreover have "0 < val128 (su_issued sp) \<Longrightarrow>
      val128 (su_bonded sp) * val128 ni \<le> val128 nb * val128 (su_issued sp)"
    using tokens_to_mint_fair [OF mint] by (simp add: nb algebra_simps)
  ultimately have "books_step X (view s) (view s')"
    unfolding books_step_def using sp s'(3,4) t(2,4) nb
    by (intro exI [of _ sp] exI [of _ "sp\<lparr>su_bonded := nb, su_issued := ni\<rparr>"]) simp
  then show ?thesis using s'(2) by simp
qed

lemma unbond_fair:
  assumes "uint128_multiply_ratio C remainder (u128 bonded) (u128 issued) = Done unbond"
    and "val128 remainder \<le> val128 issued" "val128 unbond \<le> val128 bonded"
  shows "val128 bonded * (val128 issued - val128 remainder) \<le> (val128 bonded - val128 unbond) * val128 issued"
proof -
  have "val128 issued * val128 unbond \<le> val128 remainder * val128 bonded"
    using assms(1) mul_div_le [of "val128 issued" "val128 remainder" "val128 bonded"]
    by (simp add: uint128_multiply_ratio_iff)
  then show ?thesis by (simp add: diff_mult_distrib2 diff_mult_distrib mult.commute)
qed

lemma credit_tax_books:
  assumes "valid s" "credit_tax S X w tax s = Done (Inr u, s')"
  shows "valid s'" "supply_at X (view s') = supply_at X (view s)" "claims_total X (view s') = claims_total X (view s)"
    "balances_total X (view s') = balances_total X (view s) + val128 tax"
proof -
  have "valid s' \<and> supply_at X (view s') = supply_at X (view s) \<and> claims_total X (view s') = claims_total X (view s) \<and>
      balances_total X (view s') = balances_total X (view s) + val128 tax"
  proof (cases "uint128_new 0 < tax")
    case True
    then obtain out where "balances_update S X w (credit tax) s = Done (Inr (out, ()), s')"
      using assms(2) by (auto simp: credit_tax_def pbind_eq_Ok_iff)
    from balances_updated [OF assms(1) this] show ?thesis by (auto simp: credit_Ok_iff)
  next
    case False
    then have "val128 tax = 0" by (simp add: uint128_le_iff uint128_new_def)
    with False assms show ?thesis by (simp add: credit_tax_def)
  qed
  then show "valid s'" "supply_at X (view s') = supply_at X (view s)" "claims_total X (view s') = claims_total X (view s)"
    "balances_total X (view s') = balances_total X (view s) + val128 tax" by simp_all
qed

lemma unbond_books:
  assumes "valid s" "staking_unbond C S X d env info amt s = Done (Inr res, s')"
  shows "valid s' \<and> books_step X (view s) (view s')"
proof -
  obtain invest a w tax o1 t1 t2 rem sp unbond nb ni nc t3 o2 where
    u1: "balances_update S X a (debit amt) s = Done (Inr (o1, ()), t1)"
    and u2: "credit_tax S X w tax t1 = Done (Inr (), t2)"
    and rem: "val128 tax \<le> val128 amt" "val128 rem = val128 amt - val128 tax"
    and sp: "must_deserialize (sj_supply X) (st_get S t2 supply_key) = Inr sp"
    and ratio: "uint128_multiply_ratio C rem (u128 (su_bonded sp)) (u128 (su_issued sp)) = Done unbond"
    and nb: "val128 unbond \<le> val128 (su_bonded sp)" "val128 nb = val128 (su_bonded sp) - val128 unbond"
    and ni: "val128 rem \<le> val128 (su_issued sp)" "val128 ni = val128 (su_issued sp) - val128 rem"
    and nc: "val128 nc = val128 (su_claims sp) + val128 unbond"
    and save: "save_item S (sj_supply X) KEY_TOTAL_SUPPLY (sp\<lparr>su_bonded := nb, su_issued := ni, su_claims := nc\<rparr>) t2 = Done (Inr (), t3)"
    and u3: "claims_update S X a (credit unbond) t3 = Done (Inr (o2, ()), s')"
    using assms(2)
    by (auto simp: staking_unbond_def pbind_eq_Ok_iff lift_or_eq_Done_iff load_item_eq_Done_iff encoded_keys
        assert_bonds_iff plift_out_eq_Done_iff uint128_op_iff uint128_add_assign_def checked_sub_std_iff
        split: if_splits)
  note t1 = balances_updated [OF assms(1) u1]
  have debit: "balances_total X (view t1) + val128 amt = balances_total X (view s)"
    using t1(1) by (auto simp: debit_Ok_iff)
  have t2: "valid t2" "supply_at X (view t2) = supply_at X (view s)" "claims_total X (view t2) = claims_total X (view s)"
    "balances_total X (view t2) + val128 rem = balances_total X (view s)"
    using credit_tax_books [OF t1(2) u2] t1(3,4) debit rem by simp_all
  have sp: "supply_at X (view t2) = Inr sp" using sp get_view [OF t2(1)] by (simp add: supply_at_def)
  note t3 = save_supply [OF t2(1) save]
  note s' = claims_updated [OF t3(1) u3]
  have "claims_total X (view s') = claims_total X (view s) + val128 unbond"
    using s'(1) t3(4) t2(3) by (auto simp: credit_Ok_iff)
  moreover have "balances_total X (view s') + val128 rem = balances_total X (view s)" using s'(4) t3(3) t2(4) by simp
  ultimately have "books_step X (view s) (view s')"
    unfolding books_step_def using sp t2(2) s'(3) t3(2) nb ni nc unbond_fair [OF ratio ni(1) nb(1)]
    by (intro exI [of _ sp] exI [of _ "sp\<lparr>su_bonded := nb, su_issued := ni, su_claims := nc\<rparr>"]) simp
  then show ?thesis using s'(2) by simp
qed

lemma claim_books:
  assumes "valid s" "staking_claim S X d env info s = Done (Inr res, s')"
  shows "valid s' \<and> books_step X (view s) (view s')"
proof -
  obtain a avail o1 sent t o2 where u1: "claims_update S X a (take_claim avail) s = Done (Inr (o1, sent), t)"
    and u2: "supply_update S X (\<lambda>supply.
         Done (map_ok (\<lambda>c. (supply\<lparr>su_claims := c\<rparr>, ())) (checked_sub_std (su_claims supply) sent))) t = Done (Inr (o2, ()), s')"
    using assms(2)
    by (auto simp: staking_claim_def pbind_eq_Ok_iff load_item_eq_Done_iff [OF encoded_keys(4)] split: if_splits)
  note t = claims_updated [OF assms(1) u1]
  obtain sp c b where sp: "must_deserialize (sj_supply X) (st_get S t supply_key) = Inr sp"
    and c: "val128 sent \<le> val128 (su_claims sp)" "val128 c = val128 (su_claims sp) - val128 sent" "o2 = sp\<lparr>su_claims := c\<rparr>"
    and b: "to_vec (sj_supply X) o2 = Inr b" "st_set S t supply_key b = Done s'"
    using supply_updated [OF u2] by (auto simp: map_ok_eq_Ok_iff checked_sub_std_iff)
  have save: "save_item S (sj_supply X) KEY_TOTAL_SUPPLY o2 t = Done (Inr (), s')"
    using b by (simp add: save_item_eq_Ok_iff [OF encoded_keys(3)])
  note s' = save_supply [OF t(2) save]
  have "supply_at X (view s) = Inr sp" using sp get_view [OF t(2)] t(3) by (simp add: supply_at_def)
  moreover have "claims_total X (view t) + val128 sent = claims_total X (view s)"
    using t(1) take_claim_Ok by (fastforce simp: unwrap_or_default_def)
  ultimately have "books_step X (view s) (view s')"
    unfolding books_step_def using s' t(3,4) c by (intro exI [of _ sp] exI [of _ o2]) auto
  then show ?thesis using s'(1) by simp
qed

lemma bond_all_tokens_books:
  assumes "valid s" "supply_at X (view s) = Inr sp0" "bond_all_tokens S X d env info s = Done (Inr res, s')"
  shows "valid s' \<and> books_step X (view s) (view s')"
proof -
  obtain balance invest r where u: "supply_update S X (bond_rest balance invest) s = Done (r, s')"
    using assms(3)
    by (auto simp: bond_all_tokens_def pbind_eq_Ok_iff pmap_err_eq_Ok_iff load_item_eq_Done_iff encoded_keys
        omap_eq_Done_iff split: if_splits dest!: settled)
  show ?thesis
  proof (cases r)
    case (Inl e)
    with u have "s' = s" using supply_update_Err by fast
    then show ?thesis using assms by (simp add: books_step_same)
  next
    case (Inr y)
    obtain o2 rest where y: "y = (o2, rest)" by fastforce
    obtain sp b nb where sp: "must_deserialize (sj_supply X) (st_get S s supply_key) = Inr sp"
      and nb: "val128 nb = val128 (su_bonded sp) + val128 rest" "o2 = sp\<lparr>su_bonded := nb\<rparr>"
      and b: "to_vec (sj_supply X) o2 = Inr b" "st_set S s supply_key b = Done s'"
      using supply_updated [OF u [unfolded Inr y]]
      by (auto simp: bond_rest_def orbind_eq_Ok_iff omap_eq_Done_iff uint128_add_assign_def uint128_op_iff)
    have save: "save_item S (sj_supply X) KEY_TOTAL_SUPPLY o2 s = Done (Inr (), s')"
      using b by (simp add: save_item_eq_Ok_iff [OF encoded_keys(3)])
    note s' = save_supply [OF assms(1) save]
    have "supply_at X (view s) = Inr sp" using sp get_view [OF assms(1)] by (simp add: supply_at_def)
    then have "books_step X (view s) (view s')"
      unfolding books_step_def using s' nb by (intro exI [of _ sp] exI [of _ o2]) auto
    then show ?thesis using s'(1) by simp
  qed
qed

end

section \<open>Every reachable state\<close>

text \<open>
  The states of the contract: it is instantiated on an empty storage and then called by anybody, in any order
  and with any state of the chain. The chain discards the writes of a call that fails.
\<close>

inductive staking_reachable :: "u256 uint_crate \<Rightarrow> 's storage_ops \<Rightarrow> staking_codecs \<Rightarrow> 's \<Rightarrow> 's \<Rightarrow> bool"
  for C S X s0 where
  instantiated: "staking_instantiate S X (d :: unit staking_deps) info msg s0 = Done (Inr (res :: unit response), s) \<Longrightarrow>
    staking_reachable C S X s0 s"
| executed: "staking_reachable C S X s0 s \<Longrightarrow>
    staking_execute C S X (d :: unit staking_deps) env info msg s = Done (Inr (res :: unit response), s') \<Longrightarrow>
    staking_reachable C S X s0 s'"

definition solvent :: "staking_codecs \<Rightarrow> (bytes \<rightharpoonup> bytes) \<Rightarrow> bool" where
  "solvent X m \<longleftrightarrow>
     (\<exists>sp. supply_at X m = Inr sp \<and> balances_total X m = val128 (su_issued sp) \<and> claims_total X m = val128 (su_claims sp))"

lemma books_step_solvent: "books_step X m m' \<Longrightarrow> solvent X m \<Longrightarrow> solvent X m'"
  by (auto simp: books_step_def solvent_def)

context staking_store
begin

lemma reinvest_books: "staking_reinvest S X env s = Done (Inr res, s') \<Longrightarrow> s' = s"
  by (auto simp: staking_reinvest_def pbind_eq_Ok_iff load_item_eq_Done_iff encoded_keys)

lemma execute_books:
  assumes "valid s" "supply_at X (view s) = Inr sp" "staking_execute C S X d env info msg s = Done (Inr res, s')"
  shows "valid s' \<and> books_step X (view s) (view s')"
proof (cases msg)
  case (Transfer recipient amt)
  then show ?thesis using transfer_books [OF assms(1,2)] assms(3) by (simp add: staking_execute_def pmap_err_eq_Ok_iff)
next
  case Bond
  then show ?thesis using bond_books [OF assms(1)] assms(3) by (simp add: staking_execute_def pmap_err_eq_Ok_iff)
next
  case (Unbond amt)
  then show ?thesis using unbond_books [OF assms(1)] assms(3) by (simp add: staking_execute_def pmap_err_eq_Ok_iff)
next
  case Claim
  then show ?thesis using claim_books [OF assms(1)] assms(3) by (simp add: staking_execute_def pmap_err_eq_Ok_iff)
next
  case Reinvest
  then have "s' = s" using reinvest_books assms(3) by (simp add: staking_execute_def pmap_err_eq_Ok_iff)
  then show ?thesis using assms(1,2) by (simp add: books_step_same)
next
  case BondAllTokens
  then show ?thesis using bond_all_tokens_books [OF assms(1,2)] assms(3) by (simp add: staking_execute_def)
qed

lemma instantiate_books:
  assumes "valid s" "view s = Map.empty" "staking_instantiate S X d info msg s = Done (Inr res, s')"
  shows "valid s' \<and> solvent X (view s')"
proof -
  obtain ti ii t1 t2 b1 b2 where b: "to_vec (sj_token X) ti = Inr b1" "st_set S s token_key b1 = Done t1"
    "to_vec (sj_invest X) ii = Inr b2" "st_set S t1 invest_key b2 = Done t2"
    and save: "save_item S (sj_supply X) KEY_TOTAL_SUPPLY supply_default t2 = Done (Inr (), s')"
    using assms(3)
    by (auto simp: staking_instantiate_def pbind_eq_Ok_iff save_item_eq_Ok_iff [OF encoded_keys(4)]
        save_item_eq_Ok_iff [OF encoded_keys(5)] split: if_splits)
  note t1 = set_Ok [OF assms(1) b(2)]
  note t2 = set_Ok [OF t1(1) b(4)]
  note s' = save_supply [OF t2(1) save]
  have "total J p (view s) = 0" for J p by (simp add: total_def assms(2))
  then have "balances_total X (view s') = 0" "claims_total X (view s') = 0"
    using s'(3,4) by (simp_all add: t1(2) t2(2) books_defs total_other)
  then show ?thesis using s'(1,2) by (simp add: solvent_def supply_default_def)
qed

lemma reachable_solvent:
  assumes "valid s0" "view s0 = Map.empty" "staking_reachable C S X s0 s"
  shows "valid s \<and> solvent X (view s)"
  using assms(3)
proof (induction rule: staking_reachable.induct)
  case (instantiated d info msg res s)
  then show ?case using instantiate_books [OF assms(1,2)] by blast
next
  case (executed s d env info msg res s')
  then obtain sp where "valid s" "supply_at X (view s) = Inr sp" "solvent X (view s)" by (auto simp: solvent_def)
  with executed.hyps(2) show ?case using execute_books books_step_solvent by blast
qed

end

section \<open>A claim is paid\<close>

lemma bucket_update_runs:
  assumes "to_length_prefixed ns = Done P" "may_deserialize J (st_get S s (P @ key)) = Inr i"
    and "action i = Done (Inr (out, x))" "to_vec J out = Inr b" "st_set S s (P @ key) b = Done s'"
  shows "with_bucket ns (bucket_update S J id key action) s = Done (Inr (out, x), s')"
  using assms
  by (simp add: with_bucket_def bucket_new_def bucket_update_def pbind_def pmap_err_id bucket_may_load_def
      get_with_prefix_def bucket_save_def set_with_prefix_def)

lemma supply_update_runs:
  assumes "must_deserialize (sj_supply X) (st_get S s supply_key) = Inr i" "action i = Done (Inr (out, x))"
    and "to_vec (sj_supply X) out = Inr b" "st_set S s supply_key b = Done s'"
  shows "supply_update S X action s = Done (Inr (out, x), s')"
  using assms encoded_keys(3)
  by (simp add: supply_update_def with_singleton_def singleton_new_def singleton_update_def pbind_def pmap_err_id
      singleton_load_def singleton_save_def)

lemma ex_checked_sub: "val128 b \<le> val128 a \<Longrightarrow> \<exists>c. checked_sub_std a b = Inr c \<and> val128 c = val128 a - val128 b"
proof -
  assume le: "val128 b \<le> val128 a"
  have "val128 (Uint128 (u128 a - u128 b)) = val128 a - val128 b"
    using le by (simp add: unat_sub word_le_nat_alt)
  then show ?thesis using le checked_sub_std_iff by blast
qed

context staking_store
begin

lemma claim_pays:
  assumes valid: "valid s" and solvent: "solvent X (view s)"
    and invest: "must_deserialize (sj_invest X) (view s invest_key) = Inr invest"
    and balance: "query_balance (sd_querier d) (sd_responses d) (env_contract env) (inv_bond_denom invest) = Inr balance"
    and min: "inv_min_withdrawal invest \<le> amount balance"
    and sender: "sd_canonicalize d (mi_sender info) = Inr a"
    and owed: "may_deserialize (sj_uint128 X) (view s (claims_prefix @ a)) = Inr (Some owed)"
  shows "\<exists>res s'. staking_claim S X d env info s = Done (Inr res, s') \<and>
    map sm_msg (r_messages res) = [MsgBank (BankSend (mi_sender info) [balance\<lparr>amount := min (amount balance) owed\<rparr>])] \<and>
    account (sj_uint128 X) claims_prefix (view s') a = val128 owed - val128 (min (amount balance) owed)"
proof -
  define sent where "sent = min (amount balance) owed"
  have sent: "val128 sent \<le> val128 owed" by (simp add: sent_def min_def uint128_le_iff)
  then obtain out where out: "checked_sub_std owed sent = Inr out" "val128 out = val128 owed - val128 sent"
    using ex_checked_sub by blast
  obtain b where b: "to_vec (sj_uint128 X) out = Inr b" "b \<noteq> []" "from_slice (sj_uint128 X) b = Inr out"
    using bal.to_vec_Ok by blast
  obtain t where t: "st_set S s (claims_prefix @ a) b = Done t" "valid t" "view t = (view s)(claims_prefix @ a \<mapsto> b)"
    using set_view [OF valid b(2)] by blast
  have taken: "take_claim (amount balance) (Some owed) = Done (Inr (out, sent))"
    using out(1) unfolding take_claim_def sent_def by (simp add: Let_def)
  have u1: "claims_update S X a (take_claim (amount balance)) s = Done (Inr (out, sent), t)"
    unfolding claims_update_def
    by (rule bucket_update_runs [OF encoded_keys(2)])
      (use owed taken b(1) t(1) get_view [OF valid] in simp_all)
  obtain sp where sp: "supply_at X (view s) = Inr sp" "claims_total X (view s) = val128 (su_claims sp)"
    using solvent by (auto simp: solvent_def)
  have "val128 owed \<le> claims_total X (view s)"
    using account_le_total [OF finite_view [OF valid], of "sj_uint128 X" claims_prefix a] owed
    by (simp add: account_def claims_total_def)
  then have "val128 sent \<le> val128 (su_claims sp)" using sent sp(2) by simp
  then obtain c where c: "checked_sub_std (su_claims sp) sent = Inr c" using ex_checked_sub by blast
  obtain b' where b': "to_vec (sj_supply X) (sp\<lparr>su_claims := c\<rparr>) = Inr b'" "b' \<noteq> []" using sup.to_vec_Ok by blast
  obtain s' where s': "st_set S t supply_key b' = Done s'" "view s' = (view t)(supply_key \<mapsto> b')"
    using set_view [OF t(2) b'(2)] by blast
  have u2: "supply_update S X (\<lambda>supply. Done (map_ok (\<lambda>c. (supply\<lparr>su_claims := c\<rparr>, ()))
      (checked_sub_std (su_claims supply) sent))) t = Done (Inr (sp\<lparr>su_claims := c\<rparr>, ()), s')"
    by (rule supply_update_runs [where i = sp])
      (use sp(1) c b'(1) s'(1) t(3) get_view [OF t(2)] in \<open>simp_all add: supply_at_def\<close>)
  have "load_item S (sj_invest X) KEY_INVESTMENT s = Done (Inr invest, s)"
    using invest get_view [OF valid] by (simp add: load_item_eq_Done_iff [OF encoded_keys(4)])
  moreover have "\<not> amount balance < inv_min_withdrawal invest" using min by (simp add: not_less)
  moreover have "account (sj_uint128 X) claims_prefix (view s') a = val128 out"
    using b(3) by (simp add: account_def s'(2) t(3) may_deserialize_def)
  ultimately show ?thesis
    using balance sender u1 u2 out(2) sent_def
    by (simp add: staking_claim_def pbind_def add_message_def add_attribute_def response_new_def sub_msg_new_def)
qed

end

section \<open>Instantiating and bonding succeed\<close>

context staking_store
begin

lemma save_runs:
  assumes "valid s" "to_length_prefixed key = Done K" "to_vec J x = Inr b" "b \<noteq> []"
  shows "\<exists>t. save_item S J key x s = Done (Inr (), t) \<and> valid t \<and> view t = (view s)(K \<mapsto> b)"
  using set_view [OF assms(1,4), of K] assms(3) by (auto simp: save_item_eq_Ok_iff [OF assms(2)])

lemma instantiate_runs:
  assumes "valid s" and "query_validator (sd_querier d) (sd_responses d) (im_validator msg) = Inr (Some v)"
    and "query_bonded_denom (sd_querier d) (sd_responses d) = Inr den"
    and "to_vec (sj_token X) \<lparr>ti_name = im_name msg, ti_symbol = im_symbol msg, ti_decimals = im_decimals msg\<rparr> = Inr bt" "bt \<noteq> []"
    and "to_vec (sj_invest X) \<lparr>inv_owner = mi_sender info, inv_bond_denom = den, inv_exit_tax = im_exit_tax msg,
          inv_validator = im_validator msg, inv_min_withdrawal = im_min_withdrawal msg\<rparr> = Inr bi" "bi \<noteq> []"
  shows "\<exists>bs s'. to_vec (sj_supply X) supply_default = Inr bs \<and>
    staking_instantiate S X d info msg s = Done (Inr response_new, s') \<and> valid s' \<and>
    view s' = (view s)(token_key \<mapsto> bt, invest_key \<mapsto> bi, supply_key \<mapsto> bs)"
proof -
  obtain bs where bs: "to_vec (sj_supply X) supply_default = Inr bs" "bs \<noteq> []" using sup.to_vec_Ok by blast
  obtain t1 where t1: "save_item S (sj_token X) KEY_TOKEN_INFO
      \<lparr>ti_name = im_name msg, ti_symbol = im_symbol msg, ti_decimals = im_decimals msg\<rparr> s = Done (Inr (), t1)"
    "valid t1" "view t1 = (view s)(token_key \<mapsto> bt)"
    using save_runs [OF assms(1) encoded_keys(5) assms(4,5)] by blast
  obtain t2 where t2: "save_item S (sj_invest X) KEY_INVESTMENT
      \<lparr>inv_owner = mi_sender info, inv_bond_denom = den, inv_exit_tax = im_exit_tax msg,
       inv_validator = im_validator msg, inv_min_withdrawal = im_min_withdrawal msg\<rparr> t1 = Done (Inr (), t2)"
    "valid t2" "view t2 = (view t1)(invest_key \<mapsto> bi)"
    using save_runs [OF t1(2) encoded_keys(4) assms(6,7)] by blast
  obtain t3 where t3: "save_item S (sj_supply X) KEY_TOTAL_SUPPLY supply_default t2 = Done (Inr (), t3)"
    "valid t3" "view t3 = (view t2)(supply_key \<mapsto> bs)"
    using save_runs [OF t2(2) encoded_keys(3) bs] by blast
  show ?thesis
    using assms(2,3) bs(1) t1 t2 t3 by (simp add: staking_instantiate_def pbind_def)
qed

lemma bond_runs:
  assumes valid: "valid s" and sender: "sd_canonicalize d (mi_sender info) = Inr a"
    and invest: "must_deserialize (sj_invest X) (view s invest_key) = Inr invest"
    and payment: "find (\<lambda>x. denom x = inv_bond_denom invest) (mi_funds info) = Some payment"
    and sp: "supply_at X (view s) = Inr sp" and bonded: "get_bonded d (env_contract env) = Done (Inr (su_bonded sp))"
    and mint: "tokens_to_mint C sp (su_bonded sp) (amount payment) = Done mint"
    and nb: "uint128_add (su_bonded sp) (amount payment) = Done nb" and ni: "uint128_add (su_issued sp) mint = Done ni"
    and i: "may_deserialize (sj_uint128 X) (view s (balance_prefix @ a)) = Inr i"
    and out: "uint128_add (unwrap_or_default i) mint = Done out"
  shows "\<exists>res s'. staking_bond C S X d env info s = Done (Inr res, s') \<and> valid s' \<and>
    supply_at X (view s') = Inr (sp\<lparr>su_bonded := nb, su_issued := ni\<rparr>) \<and> view s' invest_key = view s invest_key \<and>
    may_deserialize (sj_uint128 X) (view s' (balance_prefix @ a)) = Inr (Some out)"
proof -
  define sp' where "sp' = sp\<lparr>su_bonded := nb, su_issued := ni\<rparr>"
  obtain b where b: "to_vec (sj_supply X) sp' = Inr b" "b \<noteq> []" "from_slice (sj_supply X) b = Inr sp'"
    using sup.to_vec_Ok by blast
  obtain t where t: "save_item S (sj_supply X) KEY_TOTAL_SUPPLY sp' s = Done (Inr (), t)" "valid t"
    "view t = (view s)(supply_key \<mapsto> b)"
    using save_runs [OF valid encoded_keys(3) b(1,2)] by blast
  obtain bm where bm: "to_vec (sj_uint128 X) out = Inr bm" "bm \<noteq> []" "from_slice (sj_uint128 X) bm = Inr out"
    using bal.to_vec_Ok by blast
  obtain s' where s': "st_set S t (balance_prefix @ a) bm = Done s'" "valid s'" "view s' = (view t)(balance_prefix @ a \<mapsto> bm)"
    using set_view [OF t(2) bm(2)] by blast
  have "credit mint i = Done (Inr (out, ()))" using out by (simp add: credit_def)
  moreover have "may_deserialize (sj_uint128 X) (st_get S t (balance_prefix @ a)) = Inr i"
    using i t(3) get_view [OF t(2)] by simp
  ultimately have upd: "balances_update S X a (credit mint) t = Done (Inr (out, ()), s')"
    unfolding balances_update_def by (intro bucket_update_runs [OF encoded_keys(1)]) (use bm(1) s'(1) in simp_all)
  have "load_item S (sj_invest X) KEY_INVESTMENT s = Done (Inr invest, s)"
    "load_item S (sj_supply X) KEY_TOTAL_SUPPLY s = Done (Inr sp, s)"
    using invest sp(1) get_view [OF valid] by (simp_all add: load_item_eq_Done_iff encoded_keys supply_at_def)
  then have "\<exists>res. staking_bond C S X d env info s = Done (Inr res, s')"
    using sender payment mint nb ni bonded t(1) upd
    by (simp add: staking_bond_def pbind_def lift_or_def assert_bonds_def plift_out_def sp'_def uint128_add_assign_def)
  moreover have "supply_at X (view s') = Inr sp'" "view s' invest_key = view s invest_key"
    "may_deserialize (sj_uint128 X) (view s' (balance_prefix @ a)) = Inr (Some out)"
    using b(3) bm(3) by (simp_all add: supply_at_def s'(3) t(3) must_deserialize_def may_deserialize_def)
  ultimately show ?thesis using s'(2) unfolding sp'_def by blast
qed

lemma mint_one_to_one:
  "val128 (su_issued sp) = 0 \<Longrightarrow> tokens_to_mint C sp bonded payment = Done payment"
  by (simp add: tokens_to_mint_def uint128_is_zero_iff decimal_mul_uint128_def uint128_mul_decimal_iff val_FALLBACK_RATIO)

end

section \<open>The contract on the memory storage\<close>

text \<open>
  The JSON of the two types the invariant depends on: an amount is a string of digits, the supply an object of
  three amounts.
\<close>

definition json_field :: "string \<Rightarrow> string \<Rightarrow> (string \<times> string) option" where
  "json_field label s =
     (if take (length label) s = label
      then Some (takeWhile is_digit (drop (length label) s), dropWhile is_digit (drop (length label) s)) else None)"

definition field_amount :: "string \<Rightarrow> (string, uint128) result" where
  "field_amount s = map_err (\<lambda>_. ''Invalid number'') (map_ok Uint128 (parse_word s))"

definition uint128_codec :: "uint128 json" where
  "uint128_codec =
     \<lparr>json_to_vec = (\<lambda>x. Inr (ascii (''\"'' @ uint128_to_string x @ ''\"''))),
      json_from_slice = (\<lambda>bs. case json_field ''\"'' (from_ascii bs) of
         Some (digits, r) \<Rightarrow> if r = ''\"'' then field_amount digits else Inl ''Expected string''
       | None \<Rightarrow> Inl ''Expected string''),
      type_name = ''cosmwasm_std::math::uint128::Uint128''\<rparr>"

definition supply_codec :: "supply_info json" where
  "supply_codec =
     \<lparr>json_to_vec = (\<lambda>x. Inr (ascii (''{\"issued\":\"'' @ uint128_to_string (su_issued x) @ ''\",\"bonded\":\"'' @
        uint128_to_string (su_bonded x) @ ''\",\"claims\":\"'' @ uint128_to_string (su_claims x) @ ''\"}''))),
      json_from_slice = (\<lambda>bs. case json_field ''{\"issued\":\"'' (from_ascii bs) of
         None \<Rightarrow> Inl ''Expected issued''
       | Some (i, r) \<Rightarrow> (case json_field ''\",\"bonded\":\"'' r of
         None \<Rightarrow> Inl ''Expected bonded''
       | Some (b, r) \<Rightarrow> (case json_field ''\",\"claims\":\"'' r of
         None \<Rightarrow> Inl ''Expected claims''
       | Some (c, r) \<Rightarrow> if r = ''\"}'' then
           rbind (field_amount i) (\<lambda>i. rbind (field_amount b) (\<lambda>b. rbind (field_amount c) (\<lambda>c.
             Inr \<lparr>su_issued = i, su_bonded = b, su_claims = c\<rparr>)))
           else Inl ''Expected end of object''))),
      type_name = ''staking::state::Supply''\<rparr>"

lemma json_field_amount:
  assumes "\<not> is_digit c"
  shows "json_field label (label @ uint128_to_string x @ c # r) = Some (uint128_to_string x, c # r)"
proof -
  have "is_digit d" if "d \<in> set (uint128_to_string x)" for d
    using that show_nat_digits digit_char_simps(1) by (fastforce simp: uint128_to_string_def to_string_def)
  then show ?thesis using assms by (simp add: json_field_def takeWhile_append dropWhile_append)
qed

lemma field_amount_to_string [simp]: "field_amount (uint128_to_string x) = Inr x"
  by (cases x) (simp add: field_amount_def uint128_to_string_def parse_word_to_string)

lemma uint128_json_codec: "json_codec uint128_codec"
proof
  show "\<exists>b. json_to_vec uint128_codec x = Inr b" for x by (simp add: uint128_codec_def)
  show "json_to_vec uint128_codec x = Inr b \<Longrightarrow> b \<noteq> []" for x b by (auto simp: uint128_codec_def)
  show "json_to_vec uint128_codec x = Inr b \<Longrightarrow> json_from_slice uint128_codec b = Inr x" for x b
    using json_field_amount [of "CHR 0x22" "''\"''" x "[]"] by (auto simp: uint128_codec_def is_digit_def)
qed

lemma supply_json_codec: "json_codec supply_codec"
proof
  show "\<exists>b. json_to_vec supply_codec x = Inr b" for x by (simp add: supply_codec_def)
  show "json_to_vec supply_codec x = Inr b \<Longrightarrow> b \<noteq> []" for x b by (auto simp: supply_codec_def)
  show "json_to_vec supply_codec x = Inr b \<Longrightarrow> json_from_slice supply_codec b = Inr x" for x b
    using json_field_amount [of "CHR 0x22" "''{\"issued\":\"''" "su_issued x"]
      json_field_amount [of "CHR 0x22" "''\",\"bonded\":\"''" "su_bonded x"]
      json_field_amount [of "CHR 0x22" "''\",\"claims\":\"''" "su_claims x" "''}''"]
    by (auto simp: supply_codec_def is_digit_def)
qed

text \<open>Codecs that use these two for the types they are for; the others are arbitrary.\<close>

definition ledger_codecs :: "staking_codecs \<Rightarrow> staking_codecs" where
  "ledger_codecs X = X\<lparr>sj_uint128 := uint128_codec, sj_supply := supply_codec\<rparr>"

interpretation staking_memory: staking_store memory_ops memory_inv "\<lambda>s. btree_get (ms_data s)" "ledger_codecs X" exact_u256 for X
proof (rule staking_store.intro)
  show "json_codec (sj_uint128 (ledger_codecs X))" "json_codec (sj_supply (ledger_codecs X))"
    by (simp_all add: ledger_codecs_def uint128_json_codec supply_json_codec)
qed unfold_locales

section \<open>An example chain\<close>

text \<open>A chain with one validator and no delegations, on which somebody instantiates the contract and bonds five tokens.\<close>

definition answer_json :: "'a \<Rightarrow> 'a json" where
  "answer_json x = \<lparr>json_to_vec = (\<lambda>_. Inr [1]), json_from_slice = (\<lambda>_. Inr x), type_name = ''value''\<rparr>"

definition example_invest :: investment_info where
  "example_invest = \<lparr>inv_owner = ''owner'', inv_bond_denom = ''ustake'', inv_exit_tax = decimal_zero,
     inv_validator = ''validator'', inv_min_withdrawal = uint128_zero\<rparr>"

definition example_token :: token_info where
  "example_token = \<lparr>ti_name = ''Derivative'', ti_symbol = ''DRV'', ti_decimals = 6\<rparr>"

definition example_codecs :: staking_codecs where
  "example_codecs = ledger_codecs
     \<lparr>sj_invest = answer_json example_invest, sj_token = answer_json example_token, sj_supply = answer_json supply_default,
      sj_uint128 = answer_json uint128_zero, sj_execute = answer_json BondAllTokens,
      sj_token_response = answer_json example_token, sj_balance_response = answer_json uint128_zero,
      sj_claims_response = answer_json uint128_zero,
      sj_investment_response = answer_json \<lparr>ir_token_supply = uint128_zero, ir_staked_tokens = coin_new 0 ''ustake'',
        ir_nominal_value = decimal_one, ir_owner = ''owner'', ir_exit_tax = decimal_zero, ir_validator = ''validator'',
        ir_min_withdrawal = uint128_zero\<rparr>\<rparr>"

definition example_deps :: "delegation list \<Rightarrow> unit staking_deps" where
  "example_deps bonds =
     \<lparr>sd_querier = \<lparr>raw_query = (\<lambda>_. SystemOk (ContractOk [1])), show_system_error = (\<lambda>_. ''error''),
        request_json = answer_json (QueryStaking BondedDenom)\<rparr>,
      sd_responses = \<lparr>balance_json = answer_json (BalanceResponse (coin_new 7 ''ustake'')),
        all_balance_json = answer_json (AllBalanceResponse []), bonded_denom_json = answer_json (BondedDenomResponse ''ustake''),
        all_delegations_json = answer_json (AllDelegationsResponse bonds), delegation_json = answer_json (DelegationResponse None),
        all_validators_json = answer_json (AllValidatorsResponse []),
        validator_json = answer_json (ValidatorResponse (Some \<lparr>va_address = ''validator'', va_commission = decimal_zero,
          va_max_commission = decimal_zero, va_max_change_rate = decimal_zero\<rparr>))\<rparr>,
      sd_canonicalize = (\<lambda>a. Inr (ascii a))\<rparr>"

definition example_env :: env_info where
  "example_env = \<lparr>env_block = \<lparr>bi_height = 1, bi_time = timestamp_from_nanos 0, bi_chain_id = ''chain''\<rparr>,
     env_transaction = None, env_contract = ''contract''\<rparr>"

definition example_info :: message_info where
  "example_info = \<lparr>mi_sender = ''owner'', mi_funds = [coin_new 5 ''ustake'']\<rparr>"

definition example_msg :: staking_instantiate_msg where
  "example_msg = \<lparr>im_name = ''Derivative'', im_symbol = ''DRV'', im_decimals = 6, im_validator = ''validator'',
     im_exit_tax = decimal_zero, im_min_withdrawal = uint128_zero\<rparr>"

definition example_bond_5 :: delegation where
  "example_bond_5 = \<lparr>dl_delegator = ''contract'', dl_validator = ''validator'', dl_amount = coin_new 5 ''ustake''\<rparr>"

interpretation example: staking_store memory_ops memory_inv "\<lambda>s. btree_get (ms_data s)" example_codecs exact_u256
  unfolding example_codecs_def by (rule staking_memory.staking_store_axioms)

lemma example_answers:
  "\<exists>v. query_validator (sd_querier (example_deps bonds)) (sd_responses (example_deps bonds)) a = Inr (Some v)"
  "query_bonded_denom (sd_querier (example_deps bonds)) (sd_responses (example_deps bonds)) = Inr ''ustake''"
  "query_all_delegations (sd_querier (example_deps bonds)) (sd_responses (example_deps bonds)) a = Inr bonds"
  "query_balance (sd_querier (example_deps bonds)) (sd_responses (example_deps bonds)) a den = Inr (coin_new 7 ''ustake'')"
  "sd_canonicalize (example_deps bonds) a = Inr (ascii a)"
  by (simp_all add: query_validator_def query_bonded_denom_def query_all_delegations_def query_balance_def
      query_def query_bytes_def example_deps_def answer_json_def to_vec_def from_slice_def)

lemma example_bonded:
  "get_bonded (example_deps []) a = Done (Inr (uint128_new 0))"
  "get_bonded (example_deps [example_bond_5]) a = Done (Inr (uint128_new 5))"
proof -
  have "uint128_add (uint128_new 0) (uint128_new 5) = Done (uint128_new 5)" by (simp add: uint128_op_iff uint128_new_def)
  then show "get_bonded (example_deps []) a = Done (Inr (uint128_new 0))"
    "get_bonded (example_deps [example_bond_5]) a = Done (Inr (uint128_new 5))"
    by (simp_all add: get_bonded_def example_answers example_bond_5_def coin_new_def)
qed

lemma example_instantiate:
  "\<exists>s. staking_instantiate memory_ops example_codecs (example_deps []) example_info example_msg memory_storage_new =
      Done (Inr (response_new :: unit response), s) \<and> memory_inv s \<and>
    supply_at example_codecs (btree_get (ms_data s)) = Inr supply_default \<and>
    must_deserialize (sj_invest example_codecs) (btree_get (ms_data s) invest_key) = Inr example_invest \<and>
    btree_get (ms_data s) (balance_prefix @ a) = None"
proof -
  obtain v where v: "query_validator (sd_querier (example_deps [])) (sd_responses (example_deps [])) (im_validator example_msg) = Inr (Some v)"
    using example_answers(1) by blast
  have codecs: "to_vec (sj_token example_codecs) x = Inr [1]" "to_vec (sj_invest example_codecs) y = Inr [1]" for x y
    by (simp_all add: example_codecs_def ledger_codecs_def answer_json_def to_vec_def)
  obtain bs s where bs: "to_vec (sj_supply example_codecs) supply_default = Inr bs"
    and s: "staking_instantiate memory_ops example_codecs (example_deps []) example_info example_msg memory_storage_new =
      Done (Inr (response_new :: unit response), s)" "memory_inv s"
      "btree_get (ms_data s) = (btree_get (ms_data memory_storage_new))(token_key \<mapsto> [1], invest_key \<mapsto> [1], supply_key \<mapsto> bs)"
    using example.instantiate_runs [OF memory_new_empty(1) v example_answers(2) codecs(1) _ codecs(2)] by blast
  have "from_slice (sj_supply example_codecs) bs = Inr supply_default"
    using bs example.sup.to_vec_Ok [of supply_default] by auto
  with s show ?thesis
    by (auto simp: supply_at_def must_deserialize_def memory_storage_new_def example_codecs_def ledger_codecs_def
        answer_json_def from_slice_def)
qed

text \<open>The first bond mints one token for each native token.\<close>

lemma example_bond:
  "\<exists>s s' res sp. staking_reachable exact_u256 memory_ops example_codecs memory_storage_new s \<and>
    staking_execute exact_u256 memory_ops example_codecs (example_deps []) example_env example_info Bond s =
      Done (Inr (res :: unit response), s') \<and> memory_inv s' \<and>
    supply_at example_codecs (btree_get (ms_data s')) = Inr sp \<and> su_issued sp = uint128_new 5 \<and> su_bonded sp = uint128_new 5 \<and>
    must_deserialize (sj_invest example_codecs) (btree_get (ms_data s') invest_key) = Inr example_invest \<and>
    may_deserialize (sj_uint128 example_codecs) (btree_get (ms_data s') (balance_prefix @ ascii ''owner'')) = Inr (Some (uint128_new 5))"
proof -
  obtain s where s: "staking_instantiate memory_ops example_codecs (example_deps []) example_info example_msg memory_storage_new =
      Done (Inr (response_new :: unit response), s)" "memory_inv s"
    "supply_at example_codecs (btree_get (ms_data s)) = Inr supply_default"
    "must_deserialize (sj_invest example_codecs) (btree_get (ms_data s) invest_key) = Inr example_invest"
    "btree_get (ms_data s) (balance_prefix @ ascii ''owner'') = None"
    using example_instantiate by blast
  have reach: "staking_reachable exact_u256 memory_ops example_codecs memory_storage_new s"
    using s(1) by (rule instantiated)
  have args: "sd_canonicalize (example_deps []) (mi_sender example_info) = Inr (ascii ''owner'')"
    "find (\<lambda>x. denom x = inv_bond_denom example_invest) (mi_funds example_info) = Some (coin_new 5 ''ustake'')"
    "get_bonded (example_deps []) (env_contract example_env) = Done (Inr (su_bonded supply_default))"
    "uint128_add (su_bonded supply_default) (amount (coin_new 5 ''ustake'')) = Done (uint128_new 5)"
    "uint128_add (su_issued supply_default) (amount (coin_new 5 ''ustake'')) = Done (uint128_new 5)"
    "may_deserialize (sj_uint128 example_codecs) (btree_get (ms_data s) (balance_prefix @ ascii ''owner'')) = Inr None"
    "uint128_add (unwrap_or_default None) (amount (coin_new 5 ''ustake'')) = Done (uint128_new 5)"
    by (simp_all add: example_answers example_bonded example_info_def example_invest_def coin_new_def supply_default_def
        uint128_new_def uint128_op_iff uint128_zero_def unwrap_or_default_def may_deserialize_def s(5))
  have "tokens_to_mint exact_u256 supply_default (su_bonded supply_default) (amount (coin_new 5 ''ustake'')) =
      Done (amount (coin_new 5 ''ustake''))"
    by (rule example.mint_one_to_one) (simp add: supply_default_def)
  note run = example.bond_runs [OF s(2) args(1) s(4) args(2) s(3) args(3) this args(4-7)]
  with reach s(4) show ?thesis by (fastforce simp: staking_execute_def pmap_err_eq_Ok_iff)
qed

text \<open>A second bond, with five tokens already bonded, mints at the current ratio.\<close>

lemma example_second_bond:
  "\<exists>s s' res sp. memory_inv s \<and> supply_at example_codecs (btree_get (ms_data s)) = Inr sp \<and> val128 (su_issued sp) = 5 \<and>
    staking_execute exact_u256 memory_ops example_codecs (example_deps [example_bond_5]) example_env example_info Bond s =
      Done (Inr (res :: unit response), s')"
proof -
  obtain s sp where s: "memory_inv s" "supply_at example_codecs (btree_get (ms_data s)) = Inr sp"
    "su_issued sp = uint128_new 5" "su_bonded sp = uint128_new 5"
    "must_deserialize (sj_invest example_codecs) (btree_get (ms_data s) invest_key) = Inr example_invest"
    "may_deserialize (sj_uint128 example_codecs) (btree_get (ms_data s) (balance_prefix @ ascii ''owner'')) = Inr (Some (uint128_new 5))"
    using example_bond by blast
  have args: "sd_canonicalize (example_deps [example_bond_5]) (mi_sender example_info) = Inr (ascii ''owner'')"
    "find (\<lambda>x. denom x = inv_bond_denom example_invest) (mi_funds example_info) = Some (coin_new 5 ''ustake'')"
    "get_bonded (example_deps [example_bond_5]) (env_contract example_env) = Done (Inr (su_bonded sp))"
    "tokens_to_mint exact_u256 sp (su_bonded sp) (amount (coin_new 5 ''ustake'')) = Done (uint128_new 5)"
    "uint128_add (su_bonded sp) (amount (coin_new 5 ''ustake'')) = Done (uint128_new 10)"
    "uint128_add (su_issued sp) (uint128_new 5) = Done (uint128_new 10)"
    "uint128_add (unwrap_or_default (Some (uint128_new 5))) (uint128_new 5) = Done (uint128_new 10)"
    by (simp_all add: example_answers example_bonded example_info_def example_invest_def coin_new_def s(3,4)
        uint128_new_def uint128_op_iff unwrap_or_default_def tokens_to_mint_def uint128_is_zero_iff ref256.uint128_multiply_ratio_iff)
  note run = example.bond_runs [OF s(1) args(1) s(5) args(2) s(2) args(3-6) s(6) args(7)]
  with s show ?thesis by (fastforce simp: staking_execute_def pmap_err_eq_Ok_iff uint128_new_def)
qed

text \<open>A state in which the owner has a claim of three tokens.\<close>

definition example_supply :: supply_info where
  "example_supply = \<lparr>su_issued = uint128_zero, su_bonded = uint128_zero, su_claims = uint128_new 3\<rparr>"

lemma example_claim_state:
  "\<exists>s. memory_inv s \<and> solvent example_codecs (btree_get (ms_data s)) \<and>
    must_deserialize (sj_invest example_codecs) (btree_get (ms_data s) invest_key) = Inr example_invest \<and>
    may_deserialize (sj_uint128 example_codecs) (btree_get (ms_data s) (claims_prefix @ ascii ''owner'')) = Inr (Some (uint128_new 3))"
proof -
  obtain b where b: "to_vec (sj_supply example_codecs) example_supply = Inr b" "b \<noteq> []"
    "from_slice (sj_supply example_codecs) b = Inr example_supply"
    using example.sup.to_vec_Ok by blast
  obtain c where c: "to_vec (sj_uint128 example_codecs) (uint128_new 3) = Inr c" "c \<noteq> []"
    "from_slice (sj_uint128 example_codecs) c = Inr (uint128_new 3)"
    using example.bal.to_vec_Ok by blast
  obtain t where t: "memory_inv t" "btree_get (ms_data t) = Map.empty(supply_key \<mapsto> b)"
    using memory.set_view [OF memory_new_empty(1) b(2), of supply_key] unfolding memory_new_empty(2) by blast
  obtain u where u: "memory_inv u" "btree_get (ms_data u) = Map.empty(supply_key \<mapsto> b, claims_prefix @ ascii ''owner'' \<mapsto> c)"
    using memory.set_view [OF t(1) c(2), of "claims_prefix @ ascii ''owner''"] unfolding t(2) by blast
  obtain s where s: "memory_inv s"
    "btree_get (ms_data s) = Map.empty(supply_key \<mapsto> b, claims_prefix @ ascii ''owner'' \<mapsto> c, invest_key \<mapsto> [1])"
    using memory.set_view [OF u(1), of "[1]" invest_key] unfolding u(2) by blast
  have "total (sj_uint128 example_codecs) claims_prefix (Map.empty(claims_prefix @ ascii ''owner'' \<mapsto> c)) = 3"
    using total_update [OF _ c(3), of Map.empty claims_prefix "ascii ''owner''"]
    by (simp add: total_def account_def may_deserialize_def uint128_new_def)
  moreover have "Map.empty(supply_key \<mapsto> b, claims_prefix @ ascii ''owner'' \<mapsto> c) =
      Map.empty(claims_prefix @ ascii ''owner'' \<mapsto> c, supply_key \<mapsto> b)"
    by (rule fun_upd_twist) simp
  ultimately have "claims_total example_codecs (btree_get (ms_data s)) = 3"
    unfolding claims_total_def s(2) by (simp add: total_other)
  moreover have "balances_total example_codecs (btree_get (ms_data s)) = 0"
    unfolding balances_total_def s(2) by (simp add: total_other) (simp add: total_def)
  ultimately have "solvent example_codecs (btree_get (ms_data s))"
    using b(3) by (simp add: solvent_def supply_at_def must_deserialize_def s(2) example_supply_def uint128_new_def)
  moreover have "must_deserialize (sj_invest example_codecs) (btree_get (ms_data s) invest_key) = Inr example_invest"
    by (simp add: s(2) must_deserialize_def example_codecs_def ledger_codecs_def answer_json_def from_slice_def)
  ultimately show ?thesis using s(1) c(3) by (auto simp: s(2) may_deserialize_def)
qed

end
