(* ===== verification/VM_Compatibility.thy ===== *)
theory VM_Compatibility
  imports VM_Imports Decimal_Spec "HOL-Library.Char_ord"
begin

text \<open>
  What the virtual machine checks before it accepts a contract: \<open>limited.rs\<close>, \<open>features.rs\<close>,
  \<open>static_analysis.rs\<close>, \<open>compatibility.rs\<close> and \<open>checksum.rs\<close> of \<open>packages/vm/src\<close>. The wasm
  parser (parity_wasm) and SHA-256 are parameters. A \<open>HashSet\<close> of strings is a set, a
  \<open>BTreeSet\<close> its sorted list of elements.
\<close>

section \<open>Length-limited text\<close>

definition quote :: string where
  "quote = [CHR 0x22]"

fun limited_push :: "nat \<Rightarrow> string list \<Rightarrow> bool \<Rightarrow> string \<Rightarrow> nat list \<Rightarrow> string \<times> nat list" where
  "limited_push max_length [] first out lengths_stack = (out, lengths_stack)"
| "limited_push max_length (element # iter) first out lengths_stack =
     (let out' = out @ (if first then quote else '', '' @ quote) @ element @ quote;
          lengths_stack' = length out # lengths_stack
      in if length out' > max_length then (out', lengths_stack')
         else limited_push max_length iter False out' lengths_stack')"

definition skipped_text :: "nat \<Rightarrow> nat \<Rightarrow> string" where
  "skipped_text remaining skipped =
     (if remaining = 0 then ''... '' @ show_nat skipped @ '' elements''
      else '', ... '' @ show_nat skipped @ '' more'')"

fun limited_hide :: "nat \<Rightarrow> nat \<Rightarrow> string \<Rightarrow> string \<Rightarrow> nat list \<Rightarrow> string outcome" where
  "limited_hide max_length elements_count closing out [] =
     Panic ''Cannot remove hide enough elements to fit in length limit.''"
| "limited_hide max_length elements_count closing out (previous_length # lengths_stack) =
     (let skipped = elements_count - length lengths_stack;
          remaining = elements_count - skipped;
          txt = skipped_text remaining skipped
      in if previous_length + length txt + length closing \<le> max_length
         then Done (take previous_length out @ txt @ closing)
         else limited_hide max_length elements_count closing out lengths_stack)"

definition collection_to_string_limited :: "string list \<Rightarrow> nat \<Rightarrow> string \<Rightarrow> string \<Rightarrow> string outcome" where
  "collection_to_string_limited iter max_length start closing =
     (case limited_push max_length iter True start [] of
        (out, lengths_stack) \<Rightarrow>
          if length out + length closing \<le> max_length then Done (out @ closing)
          else limited_hide max_length (length iter) closing out lengths_stack)"

definition btree_to_string_limited :: "string list \<Rightarrow> nat \<Rightarrow> string outcome" where
  "btree_to_string_limited self max_length = collection_to_string_limited self max_length ''{'' ''}''"

definition hash_to_string_limited :: "string set \<Rightarrow> nat \<Rightarrow> string outcome" where
  "hash_to_string_limited self max_length = btree_to_string_limited (sorted_list_of_set self) max_length"

definition vec_to_string_limited :: "string list \<Rightarrow> nat \<Rightarrow> string outcome" where
  "vec_to_string_limited self max_length = collection_to_string_limited self max_length ''['' '']''"

text \<open>
  The reference: the longest beginning of the collection that fits together with the number of
  elements left out.
\<close>

fun render_elements :: "bool \<Rightarrow> string list \<Rightarrow> string" where
  "render_elements first [] = []"
| "render_elements first (x # xs) =
     (if first then quote else '', '' @ quote) @ x @ quote @ render_elements False xs"

definition render_first :: "string \<Rightarrow> string list \<Rightarrow> nat \<Rightarrow> string" where
  "render_first start xs k = start @ render_elements True (take k xs)"

definition shortened :: "string \<Rightarrow> string \<Rightarrow> string list \<Rightarrow> nat \<Rightarrow> string" where
  "shortened start closing xs k = render_first start xs k @ skipped_text k (length xs - k) @ closing"

definition limited_spec :: "string list \<Rightarrow> nat \<Rightarrow> string \<Rightarrow> string \<Rightarrow> string option" where
  "limited_spec xs m start closing =
     (let whole = render_first start xs (length xs) @ closing in
      if length whole \<le> m then Some whole
      else map_option (shortened start closing xs)
        (find (\<lambda>k. length (shortened start closing xs k) \<le> m) (rev [0..<length xs])))"

section \<open>Static analysis\<close>

definition REQUIRED_IBC_EXPORTS :: "string list" where
  "REQUIRED_IBC_EXPORTS =
     [''ibc_channel_open'', ''ibc_channel_connect'', ''ibc_channel_close'', ''ibc_packet_receive'',
      ''ibc_packet_ack'', ''ibc_packet_timeout'']"

text \<open>
  What is read of a module of parity_wasm: the memory, export and import section, each of which
  may be absent.
\<close>

datatype wasm_item = WasmFunction u32 | WasmTable | WasmMemory | WasmGlobal

record memory_limits =
  limits_initial :: u32
  limits_maximum :: "u32 option"

record import_entry =
  ie_module :: string
  ie_field :: string
  ie_external :: wasm_item

record 'm wasm_parser =
  wp_deserialize_buffer :: "bytes \<Rightarrow> (string, 'm) result"
  wp_memory_section :: "'m \<Rightarrow> memory_limits list option"
  wp_export_section :: "'m \<Rightarrow> (string \<times> wasm_item) list option"
  wp_import_section :: "'m \<Rightarrow> import_entry list option"

definition deserialize_wasm :: "'m wasm_parser \<Rightarrow> bytes \<Rightarrow> 'm vm_result" where
  "deserialize_wasm P wasm_code =
     map_err (\<lambda>err. VmStaticValidationErr
         (''Wasm bytecode could not be deserialized. Deserialization error: '' @ quote @ err @ quote))
       (wp_deserialize_buffer P wasm_code)"

text \<open>The trait \<open>ExportInfo\<close>: a function from an optional prefixfix to the names.\<close>

type_synonym export_info = "string option \<Rightarrow> string set"

definition starts_with :: "string \<Rightarrow> string \<Rightarrow> bool" where
  "starts_with name pre = (take (length pre) name = pre)"

definition parity_exported_function_names :: "'m wasm_parser \<Rightarrow> 'm \<Rightarrow> export_info" where
  "parity_exported_function_names P module pre =
     (case wp_export_section P module of
        None \<Rightarrow> {}
      | Some entries \<Rightarrow>
          set (filter (\<lambda>name. case pre of Some required_prefix \<Rightarrow> starts_with name required_prefix | None \<Rightarrow> True)
            (map fst (filter (\<lambda>entry. case snd entry of WasmFunction _ \<Rightarrow> True | _ \<Rightarrow> False) entries))))"

text \<open>The same for a compiled module of wasmer, which lists its exported functions.\<close>

definition wasmer_exported_function_names :: "string list \<Rightarrow> export_info" where
  "wasmer_exported_function_names functions pre =
     set (List.map_filter
       (\<lambda>name. case pre of
          Some required_prefix \<Rightarrow> if starts_with name required_prefix then Some name else None
        | None \<Rightarrow> Some name) functions)"

definition has_ibc_entry_points :: "export_info \<Rightarrow> bool" where
  "has_ibc_entry_points module =
     (let available_exports = module None in list_all (\<lambda>required. required \<in> available_exports) REQUIRED_IBC_EXPORTS)"

section \<open>Features\<close>

definition REQUIRES_PREFIX :: string where
  "REQUIRES_PREFIX = ''requires_''"

text \<open>The length in bytes of the white space character at the start of a string, 0 if there is none.\<close>

fun white_space_at :: "bytes \<Rightarrow> nat" where
  "white_space_at [] = 0"
| "white_space_at (b # bs) =
     (if (9 \<le> b \<and> b \<le> 13) \<or> b = 32 then 1
      else case bs of
        [] \<Rightarrow> 0
      | c # cs \<Rightarrow>
          if b = 0xC2 \<and> (c = 0x85 \<or> c = 0xA0) then 2
          else case cs of
            [] \<Rightarrow> 0
          | d # _ \<Rightarrow>
              if (b = 0xE1 \<and> c = 0x9A \<and> d = 0x80) \<or>
                 (b = 0xE2 \<and> c = 0x80 \<and> ((0x80 \<le> d \<and> d \<le> 0x8A) \<or> d = 0xA8 \<or> d = 0xA9 \<or> d = 0xAF)) \<or>
                 (b = 0xE2 \<and> c = 0x81 \<and> d = 0x9F) \<or> (b = 0xE3 \<and> c = 0x80 \<and> d = 0x80)
              then 3 else 0)"

function trim_start_bytes :: "bytes \<Rightarrow> bytes" where
  "trim_start_bytes bs =
     (if white_space_at bs = 0 then bs else trim_start_bytes (drop (white_space_at bs) bs))"
  by pat_completeness auto
termination
proof (relation "measure length")
  show "(drop (white_space_at bs) bs, bs) \<in> measure length" if "white_space_at bs \<noteq> 0" for bs
    using that by (cases bs) auto
qed simp

text \<open>A white space character at the end: the last one, two or three bytes.\<close>

definition white_space_end :: "bytes \<Rightarrow> nat" where
  "white_space_end bs =
     (if bs \<noteq> [] \<and> white_space_at (drop (length bs - 1) bs) = 1 then 1
      else if 2 \<le> length bs \<and> white_space_at (drop (length bs - 2) bs) = 2 then 2
      else if 3 \<le> length bs \<and> white_space_at (drop (length bs - 3) bs) = 3 then 3
      else 0)"

function trim_end_bytes :: "bytes \<Rightarrow> bytes" where
  "trim_end_bytes bs =
     (if white_space_end bs = 0 then bs else trim_end_bytes (take (length bs - white_space_end bs) bs))"
  by pat_completeness auto
termination
proof (relation "measure length")
  show "(take (length bs - white_space_end bs) bs, bs) \<in> measure length" if "white_space_end bs \<noteq> 0" for bs
    using that by (auto simp: white_space_end_def split: if_splits)
qed simp

definition str_trim :: "string \<Rightarrow> string" where
  "str_trim s = from_ascii (trim_end_bytes (trim_start_bytes (ascii s)))"

definition features_from_csv :: "string \<Rightarrow> string set" where
  "features_from_csv csv = set (filter (\<lambda>f. f \<noteq> []) (map str_trim (split_char (CHR '','') csv)))"

definition required_features_from_module :: "export_info \<Rightarrow> string set" where
  "required_features_from_module module =
     (drop (length REQUIRES_PREFIX)) `
       Set.filter (\<lambda>name. length REQUIRES_PREFIX < length name) (module (Some REQUIRES_PREFIX))"

section \<open>Compatibility\<close>

definition SUPPORTED_IMPORTS :: "string list" where
  "SUPPORTED_IMPORTS =
     [''env.db_read'', ''env.db_write'', ''env.db_remove'', ''env.addr_validate'', ''env.addr_canonicalize'',
      ''env.addr_humanize'', ''env.secp256k1_verify'', ''env.secp256k1_recover_pubkey'', ''env.ed25519_verify'',
      ''env.ed25519_batch_verify'', ''env.debug'', ''env.query_chain'', ''env.db_scan'', ''env.db_next'']"

definition REQUIRED_EXPORTS :: "string list" where
  "REQUIRED_EXPORTS = [''allocate'', ''deallocate'', ''instantiate'']"

definition INTERFACE_VERSION_PREFIX :: string where
  "INTERFACE_VERSION_PREFIX = ''interface_version_''"

definition SUPPORTED_INTERFACE_VERSION :: string where
  "SUPPORTED_INTERFACE_VERSION = ''interface_version_8''"

definition MEMORY_LIMIT :: u32 where
  "MEMORY_LIMIT = 512"

text \<open>The debug format of a list of strings without characters to escape.\<close>

definition debug_strings :: "string list \<Rightarrow> string" where
  "debug_strings xs = ''['' @ render_elements True xs @ '']''"

definition check_wasm_memories :: "'m wasm_parser \<Rightarrow> 'm \<Rightarrow> unit vm_result" where
  "check_wasm_memories P module =
     (case wp_memory_section P module of
        None \<Rightarrow> Inl (VmStaticValidationErr (''Wasm contract doesn'' @ [CHR 0x27] @ ''t have a memory section''))
      | Some memories \<Rightarrow>
          if length memories \<noteq> 1
          then Inl (VmStaticValidationErr ''Wasm contract must contain exactly one memory'')
          else
            let limits = hd memories in
            if limits_initial limits > MEMORY_LIMIT
            then Inl (VmStaticValidationErr (''Wasm contract memory'' @ [CHR 0x27] @
              ''s minimum must not exceed '' @ show_nat (unat MEMORY_LIMIT) @ '' pages.''))
            else if limits_maximum limits \<noteq> None
            then Inl (VmStaticValidationErr (''Wasm contract memory'' @ [CHR 0x27] @
              ''s maximum must be unset. The host will set it for you.''))
            else Inr ())"

definition readme_link :: string where
  "readme_link = '' (see https://github.com/CosmWasm/cosmwasm/blob/main/packages/vm/README.md)''"

text \<open>
  The iterator over the set gives its elements in some order; the check asks only whether there
  is none, one or more, and uses the element when it is the only one.
\<close>

definition check_interface_version :: "'m wasm_parser \<Rightarrow> 'm \<Rightarrow> unit vm_result" where
  "check_interface_version P module =
     (case sorted_list_of_set (parity_exported_function_names P module (Some INTERFACE_VERSION_PREFIX)) of
        [] \<Rightarrow> Inl (VmStaticValidationErr ''Wasm contract missing a required marker export: interface_version_*'')
      | [version] \<Rightarrow>
          if version = SUPPORTED_INTERFACE_VERSION then Inr ()
          else if version = ''interface_version_6'' then Inl (VmStaticValidationErr
            (''Wasm contract has incompatible CosmWasm 0.15 marker export interface_version_6'' @ readme_link))
          else if version = ''interface_version_5'' then Inl (VmStaticValidationErr
            (''Wasm contract has incompatible CosmWasm 0.14 marker export interface_version_5'' @ readme_link))
          else Inl (VmStaticValidationErr
            (''Wasm contract has unknown interface_version_* marker export'' @ readme_link))
      | _ \<Rightarrow> Inl (VmStaticValidationErr
          ''Wasm contract contains more than one marker export: interface_version_*''))"

fun check_required_exports :: "string set \<Rightarrow> string list \<Rightarrow> unit vm_result" where
  "check_required_exports available_exports [] = Inr ()"
| "check_required_exports available_exports (required_export # rest) =
     (if required_export \<notin> available_exports
      then Inl (VmStaticValidationErr (''Wasm contract doesn'' @ [CHR 0x27] @ ''t have required export: '' @
        quote @ required_export @ quote @ ''. Exports required by VM: '' @ debug_strings REQUIRED_EXPORTS @ ''.''))
      else check_required_exports available_exports rest)"

definition check_wasm_exports :: "'m wasm_parser \<Rightarrow> 'm \<Rightarrow> unit vm_result" where
  "check_wasm_exports P module =
     check_required_exports (parity_exported_function_names P module None) REQUIRED_EXPORTS"

definition full_import_name :: "import_entry \<Rightarrow> string" where
  "full_import_name ie = ie_module ie @ ''.'' @ ie_field ie"

fun check_imports_loop :: "string list \<Rightarrow> string list \<Rightarrow> import_entry list \<Rightarrow> unit vm_result outcome" where
  "check_imports_loop supported_imports names [] = Done (Inr ())"
| "check_imports_loop supported_imports names (required_import # rest) =
     (let full_name = full_import_name required_import in
      if full_name \<notin> set supported_imports
      then obind (btree_to_string_limited names 200) (\<lambda>required_names.
        Done (Inl (VmStaticValidationErr (''Wasm contract requires unsupported import: '' @ quote @ full_name @ quote @
          ''. Required imports: '' @ required_names @ ''. Available imports: '' @ debug_strings supported_imports @ ''.''))))
      else case ie_external required_import of
        WasmFunction _ \<Rightarrow> check_imports_loop supported_imports names rest
      | _ \<Rightarrow> Done (Inl (VmStaticValidationErr (''Wasm contract requires non-function import: '' @ quote @ full_name @
          quote @ ''. Right now, all supported imports are functions.''))))"

definition check_wasm_imports :: "'m wasm_parser \<Rightarrow> 'm \<Rightarrow> string list \<Rightarrow> unit vm_result outcome" where
  "check_wasm_imports P module supported_imports =
     (let required_imports = (case wp_import_section P module of None \<Rightarrow> [] | Some entries \<Rightarrow> entries);
          required_import_names = sorted_list_of_set (set (map full_import_name required_imports))
      in check_imports_loop supported_imports required_import_names required_imports)"

definition check_wasm_features :: "'m wasm_parser \<Rightarrow> 'm \<Rightarrow> string set \<Rightarrow> unit vm_result outcome" where
  "check_wasm_features P module supported_features =
     (let required_features = required_features_from_module (parity_exported_function_names P module) in
      if \<not> required_features \<subseteq> supported_features
      then obind (btree_to_string_limited (sorted_list_of_set (required_features - supported_features)) 200)
        (\<lambda>unsupported. Done (Inl (VmStaticValidationErr
           (''Wasm contract requires unsupported features: '' @ unsupported))))
      else Done (Inr ()))"

definition check_wasm :: "'m wasm_parser \<Rightarrow> bytes \<Rightarrow> string set \<Rightarrow> unit vm_result outcome" where
  "check_wasm P wasm_code supported_features =
     orbind (Done (deserialize_wasm P wasm_code)) (\<lambda>module.
     orbind (Done (check_wasm_memories P module)) (\<lambda>_.
     orbind (Done (check_interface_version P module)) (\<lambda>_.
     orbind (Done (check_wasm_exports P module)) (\<lambda>_.
     orbind (check_wasm_imports P module SUPPORTED_IMPORTS) (\<lambda>_.
     check_wasm_features P module supported_features)))))"

section \<open>Checksums\<close>

datatype checksum = Checksum bytes

fun checksum_bytes :: "checksum \<Rightarrow> bytes" where
  "checksum_bytes (Checksum data) = data"

definition checksum_generate :: "(bytes \<Rightarrow> bytes) \<Rightarrow> bytes \<Rightarrow> checksum" where
  "checksum_generate sha256 wasm = Checksum (sha256 wasm)"

definition hex_digit :: "nat \<Rightarrow> char" where
  "hex_digit n = (if n < 10 then char_of (48 + n) else char_of (87 + n))"

definition checksum_to_hex :: "checksum \<Rightarrow> string" where
  "checksum_to_hex self =
     concat (map (\<lambda>byte. [hex_digit (unat byte div 16), hex_digit (unat byte mod 16)]) (checksum_bytes self))"

definition checksum_try_from :: "bytes \<Rightarrow> checksum vm_result" where
  "checksum_try_from data =
     (if length data \<noteq> 32 then Inl (VmCacheErr ''Checksum not of length 32'') else Inr (Checksum data))"

section \<open>Length-limited text keeps its limit\<close>

lemma render_elements_append:
  "render_elements first (xs @ ys) = render_elements first xs @ render_elements (first \<and> xs = []) ys"
  by (induction xs arbitrary: first) auto

lemma render_first_Suc:
  assumes "k < length xs"
  shows "render_first start xs (Suc k) =
    render_first start xs k @ (if k = 0 then quote else '', '' @ quote) @ xs ! k @ quote"
proof -
  have "take k xs = [] \<longleftrightarrow> k = 0" using assms by auto
  then show ?thesis using assms by (simp add: render_first_def take_Suc_conv_app_nth render_elements_append)
qed

lemma render_first_le:
  assumes "j \<le> k"
  obtains rest where "render_first start xs k = render_first start xs j @ rest"
proof
  have "take k xs = take j xs @ take (k - j) (drop j xs)" using assms by (metis le_add_diff_inverse take_add)
  then show "render_first start xs k = render_first start xs j @
      render_elements (True \<and> take j xs = []) (take (k - j) (drop j xs))"
    by (simp add: render_first_def render_elements_append del: append_take_drop_id)
qed

lemma render_first_mono: "j \<le> k \<Longrightarrow> length (render_first start xs j) \<le> length (render_first start xs k)"
  by (rule render_first_le [of j k start xs]) simp_all

lemma take_render_first: "j \<le> k \<Longrightarrow> take (length (render_first start xs j)) (render_first start xs k) = render_first start xs j"
  by (rule render_first_le [of j k start xs]) simp_all

lemma limited_push_stops:
  assumes "k \<le> length xs"
  shows "\<exists>k' \<le> length xs. limited_push m (drop k xs) (k = 0) (render_first start xs k)
      (map (\<lambda>j. length (render_first start xs j)) (rev [0..<k])) =
    (render_first start xs k', map (\<lambda>j. length (render_first start xs j)) (rev [0..<k'])) \<and>
    (k' = length xs \<or> m < length (render_first start xs k'))"
  using assms
proof (induction "length xs - k" arbitrary: k)
  case 0
  then show ?case by (intro exI [of _ k]) simp
next
  case (Suc n)
  then have k: "k < length xs" by simp
  from k have d: "drop k xs = xs ! k # drop (Suc k) xs" by (simp add: Cons_nth_drop_Suc)
  show ?case
  proof (cases "m < length (render_first start xs (Suc k))")
    case True
    then show ?thesis
      using k by (intro exI [of _ "Suc k"]) (simp add: d render_first_Suc Let_def)
  next
    case False
    have "n = length xs - Suc k" using Suc.hyps by simp
    from Suc.hyps(1) [OF this] k False show ?thesis by (simp add: d render_first_Suc Let_def)
  qed
qed

lemma limited_hide_find:
  assumes "k' \<le> length xs" "k \<le> k'"
  shows "limited_hide m (length xs) closing (render_first start xs k')
      (map (\<lambda>j. length (render_first start xs j)) (rev [0..<k])) =
    (case find (\<lambda>j. length (shortened start closing xs j) \<le> m) (rev [0..<k]) of
       None \<Rightarrow> Panic ''Cannot remove hide enough elements to fit in length limit.''
     | Some j \<Rightarrow> Done (shortened start closing xs j))"
  using assms(2)
proof (induction k)
  case 0
  then show ?case by simp
next
  case (Suc k)
  then have "length xs - (length xs - k) = k" "k \<le> k'" using assms(1) by simp_all
  then show ?case
    using Suc by (simp add: Let_def shortened_def take_render_first add.assoc)
qed

lemma find_rev_upt:
  assumes "k' \<le> n" "\<And>j. k' \<le> j \<Longrightarrow> j < n \<Longrightarrow> \<not> P j"
  shows "find P (rev [0..<n]) = find P (rev [0..<k'])"
  using assms
proof (induction n)
  case (Suc n)
  then show ?case by (cases "k' = Suc n") simp_all
qed simp

lemma collection_to_string_limited_eq:
  "collection_to_string_limited xs m start closing =
    (case limited_spec xs m start closing of
       None \<Rightarrow> Panic ''Cannot remove hide enough elements to fit in length limit.''
     | Some s \<Rightarrow> Done s)"
proof -
  let ?R = "render_first start xs" and ?n = "length xs"
  let ?fits = "\<lambda>j. length (shortened start closing xs j) \<le> m"
  obtain k' where k': "k' \<le> ?n"
    and push: "limited_push m xs True start [] = (?R k', map (\<lambda>j. length (?R j)) (rev [0..<k']))"
    and stop: "k' = ?n \<or> m < length (?R k')"
    using limited_push_stops [of 0 xs m start] by (auto simp: render_first_def)
  have big: "length (?R k') + length closing \<le> m \<longleftrightarrow> length (?R ?n) + length closing \<le> m"
    using stop render_first_mono [OF k', of start xs] by auto
  have "find ?fits (rev [0..<?n]) = find ?fits (rev [0..<k'])"
  proof (rule find_rev_upt [OF k'])
    fix j assume "k' \<le> j" "j < ?n"
    then show "\<not> ?fits j"
      using stop render_first_mono [of k' j start xs] by (auto simp: shortened_def)
  qed
  moreover have "k' = ?n" if "length (?R k') + length closing \<le> m" using stop that by auto
  ultimately show ?thesis
    using big limited_hide_find [OF k' order_refl, where m = m and closing = closing and start = start]
    by (auto simp: collection_to_string_limited_def push limited_spec_def Let_def split: option.splits)
qed

lemma limited_spec_bounded: "limited_spec xs m start closing = Some s \<Longrightarrow> length s \<le> m"
  by (auto simp: limited_spec_def Let_def find_Some_iff split: if_splits)

lemma limited_spec_defined:
  assumes "length (shortened start closing xs 0) \<le> m"
  shows "limited_spec xs m start closing \<noteq> None"
proof (cases "xs = []")
  case True
  then show ?thesis using assms by (simp add: limited_spec_def shortened_def)
next
  case False
  then have "find (\<lambda>k. length (shortened start closing xs k) \<le> m) (rev [0..<length xs]) \<noteq> None"
    using assms by (auto simp: find_None_iff)
  then show ?thesis by (auto simp: limited_spec_def Let_def)
qed

lemma btree_to_string_limited_200:
  assumes "length xs < 10 ^ 180"
  obtains s where "btree_to_string_limited xs 200 = Done s" "length s \<le> 200"
proof -
  have "length (show_nat (length xs)) \<le> 180" using assms by (intro length_show_nat) simp_all
  then have "limited_spec xs 200 ''{'' ''}'' \<noteq> None"
    by (intro limited_spec_defined) (simp add: shortened_def render_first_def skipped_text_def)
  then obtain s where "limited_spec xs 200 ''{'' ''}'' = Some s" by blast
  with that [of s] show thesis
    by (simp add: btree_to_string_limited_def collection_to_string_limited_eq limited_spec_bounded)
qed

section \<open>Which modules are accepted\<close>

definition exported_functions :: "'m wasm_parser \<Rightarrow> 'm \<Rightarrow> string set" where
  "exported_functions P module =
     {name. \<exists>entries i. wp_export_section P module = Some entries \<and> (name, WasmFunction i) \<in> set entries}"

lemma is_function_iff: "(case x of WasmFunction _ \<Rightarrow> True | _ \<Rightarrow> False) \<longleftrightarrow> (\<exists>i. x = WasmFunction i)"
  by (cases x) auto

lemma exported_function_names_eq:
  "parity_exported_function_names P module None = exported_functions P module"
  "parity_exported_function_names P module (Some pre) = {name \<in> exported_functions P module. starts_with name pre}"
  by (cases "wp_export_section P module";
      force simp: parity_exported_function_names_def exported_functions_def is_function_iff)+

lemma finite_exported_functions [simp]: "finite (exported_functions P module)"
  unfolding exported_function_names_eq(1) [symmetric] parity_exported_function_names_def
  by (simp split: option.splits)

lemma check_wasm_memories_Ok_iff:
  "check_wasm_memories P module = Inr () \<longleftrightarrow>
    (\<exists>limits. wp_memory_section P module = Some [limits] \<and> unat (limits_initial limits) \<le> 512 \<and>
      limits_maximum limits = None)"
  by (auto simp: check_wasm_memories_def MEMORY_LIMIT_def Let_def word_less_nat_alt length_Suc_conv
      split: option.splits if_splits)

lemma check_interface_version_Ok_iff:
  "check_interface_version P module = Inr () \<longleftrightarrow>
    {name \<in> exported_functions P module. starts_with name ''interface_version_''} = {''interface_version_8''}"
proof -
  let ?V = "{name \<in> exported_functions P module. starts_with name ''interface_version_''}"
  have fin: "finite ?V" by simp
  define vs where "vs = sorted_list_of_set ?V"
  have "check_interface_version P module = Inr () \<longleftrightarrow> vs = [''interface_version_8'']"
    unfolding check_interface_version_def exported_function_names_eq INTERFACE_VERSION_PREFIX_def
      SUPPORTED_INTERFACE_VERSION_def vs_def [symmetric]
    by (simp split: list.splits)
  also have "\<dots> \<longleftrightarrow> ?V = {''interface_version_8''}"
  proof
    assume "vs = [''interface_version_8'']"
    then have "set vs = {''interface_version_8''}" by simp
    then show "?V = {''interface_version_8''}" unfolding vs_def using set_sorted_list_of_set [OF fin] by metis
  next
    assume "?V = {''interface_version_8''}"
    then have "vs = sorted_list_of_set {''interface_version_8''}" unfolding vs_def by (rule arg_cong)
    also have "\<dots> = [''interface_version_8'']" by simp
    finally show "vs = [''interface_version_8'']" .
  qed
  finally show ?thesis .
qed

lemma check_required_exports_Ok_iff: "check_required_exports A rs = Inr () \<longleftrightarrow> set rs \<subseteq> A"
  by (induction rs) auto

lemma check_wasm_exports_Ok_iff:
  "check_wasm_exports P module = Inr () \<longleftrightarrow>
    {''allocate'', ''deallocate'', ''instantiate''} \<subseteq> exported_functions P module"
  by (simp add: check_wasm_exports_def check_required_exports_Ok_iff REQUIRED_EXPORTS_def exported_function_names_eq)

lemma check_imports_loop_Ok_iff:
  "check_imports_loop available names entries = Done (Inr ()) \<longleftrightarrow>
    (\<forall>ie \<in> set entries. full_import_name ie \<in> set available \<and> (\<exists>i. ie_external ie = WasmFunction i))"
  by (induction entries) (auto simp: Let_def obind_eq_Done_iff split: wasm_item.splits)

lemma check_imports_loop_no_panic:
  assumes "length names < 10 ^ 180"
  shows "\<not> panics (check_imports_loop available names entries)"
proof -
  obtain s where "btree_to_string_limited names 200 = Done s" using btree_to_string_limited_200 [OF assms] by blast
  then show ?thesis by (induction entries) (auto simp: Let_def split: wasm_item.splits)
qed

definition imported_entries :: "'m wasm_parser \<Rightarrow> 'm \<Rightarrow> import_entry set" where
  "imported_entries P module = {ie. \<exists>entries. wp_import_section P module = Some entries \<and> ie \<in> set entries}"

lemma check_wasm_imports_Ok_iff:
  "check_wasm_imports P module available = Done (Inr ()) \<longleftrightarrow>
    (\<forall>ie \<in> imported_entries P module. full_import_name ie \<in> set available \<and> (\<exists>i. ie_external ie = WasmFunction i))"
  by (cases "wp_import_section P module")
    (simp_all add: check_wasm_imports_def check_imports_loop_Ok_iff imported_entries_def Let_def)

lemma required_features_eq:
  "required_features_from_module (parity_exported_function_names P module) =
    {f. f \<noteq> [] \<and> ''requires_'' @ f \<in> exported_functions P module}"
proof -
  have "f \<in> required_features_from_module (parity_exported_function_names P module)"
    if "f \<noteq> []" "''requires_'' @ f \<in> exported_functions P module" for f
  proof -
    have "''requires_'' @ f \<in> Set.filter (\<lambda>name. length REQUIRES_PREFIX < length name)
        (parity_exported_function_names P module (Some REQUIRES_PREFIX))"
      using that by (simp add: exported_function_names_eq starts_with_def REQUIRES_PREFIX_def)
    then show ?thesis unfolding required_features_from_module_def by (rule rev_image_eqI) (simp add: REQUIRES_PREFIX_def)
  qed
  moreover have "f \<noteq> [] \<and> ''requires_'' @ f \<in> exported_functions P module"
    if "f \<in> required_features_from_module (parity_exported_function_names P module)" for f
  proof -
    from that obtain n where n: "f = drop (length REQUIRES_PREFIX) n" "length REQUIRES_PREFIX < length n"
      "n \<in> exported_functions P module" "starts_with n REQUIRES_PREFIX"
      unfolding required_features_from_module_def exported_function_names_eq by auto
    then have "''requires_'' @ f = n" by (metis REQUIRES_PREFIX_def append_take_drop_id starts_with_def)
    with n show ?thesis by auto
  qed
  ultimately show ?thesis by blast
qed

lemma check_wasm_features_Ok_iff:
  "check_wasm_features P module available = Done (Inr ()) \<longleftrightarrow>
    (\<forall>f. f \<noteq> [] \<longrightarrow> ''requires_'' @ f \<in> exported_functions P module \<longrightarrow> f \<in> available)"
  by (auto simp: check_wasm_features_def required_features_eq Let_def obind_eq_Done_iff)

text \<open>A module is accepted when it is all of this; every condition is a check of \<open>check_wasm\<close>.\<close>

definition module_accepted :: "'m wasm_parser \<Rightarrow> string set \<Rightarrow> 'm \<Rightarrow> bool" where
  "module_accepted P features module \<longleftrightarrow>
     (\<exists>limits. wp_memory_section P module = Some [limits] \<and> unat (limits_initial limits) \<le> 512 \<and>
        limits_maximum limits = None) \<and>
     {name \<in> exported_functions P module. starts_with name ''interface_version_''} = {''interface_version_8''} \<and>
     {''allocate'', ''deallocate'', ''instantiate''} \<subseteq> exported_functions P module \<and>
     (\<forall>ie \<in> imported_entries P module.
        full_import_name ie \<in> set SUPPORTED_IMPORTS \<and> (\<exists>i. ie_external ie = WasmFunction i)) \<and>
     (\<forall>f. f \<noteq> [] \<longrightarrow> ''requires_'' @ f \<in> exported_functions P module \<longrightarrow> f \<in> features)"

lemma check_wasm_Ok_iff:
  "check_wasm P wasm_code features = Done (Inr ()) \<longleftrightarrow>
    (\<exists>module. wp_deserialize_buffer P wasm_code = Inr module \<and> module_accepted P features module)"
proof -
  have "check_wasm P wasm_code features = Done (Inr ()) \<longleftrightarrow>
    (\<exists>module. wp_deserialize_buffer P wasm_code = Inr module \<and> check_wasm_memories P module = Inr () \<and>
      check_interface_version P module = Inr () \<and> check_wasm_exports P module = Inr () \<and>
      check_wasm_imports P module SUPPORTED_IMPORTS = Done (Inr ()) \<and>
      check_wasm_features P module features = Done (Inr ()))"
    unfolding check_wasm_def deserialize_wasm_def orbind_eq_Ok_iff by (auto simp: map_err_eq_Ok_iff)
  then show ?thesis
    by (simp only: check_wasm_memories_Ok_iff check_interface_version_Ok_iff check_wasm_exports_Ok_iff
      check_wasm_imports_Ok_iff check_wasm_features_Ok_iff module_accepted_def)
qed

lemma orbind_no_panic: "\<not> panics m \<Longrightarrow> (\<And>x. m = Done (Inr x) \<Longrightarrow> \<not> panics (f x)) \<Longrightarrow> \<not> panics (orbind m f)"
  by (cases "(m, f)" rule: orbind.cases) auto

definition section_sizes :: "'m wasm_parser \<Rightarrow> 'm \<Rightarrow> nat" where
  "section_sizes P module =
     (case wp_export_section P module of None \<Rightarrow> 0 | Some es \<Rightarrow> length es) +
     (case wp_import_section P module of None \<Rightarrow> 0 | Some es \<Rightarrow> length es)"

lemma length_sorted_list_of_set_le: "length (sorted_list_of_set (set xs)) \<le> length xs"
  by (simp add: card_length)

lemma check_wasm_imports_no_panic:
  assumes "section_sizes P module < 10 ^ 180"
  shows "\<not> panics (check_wasm_imports P module available)"
proof (cases "wp_import_section P module")
  case (Some es)
  have "length (sorted_list_of_set (set (map full_import_name es))) \<le> length es"
    using length_sorted_list_of_set_le [of "map full_import_name es"] by simp
  then have "length (sorted_list_of_set (set (map full_import_name es))) < 10 ^ 180"
    using assms Some by (simp add: section_sizes_def)
  with Some show ?thesis unfolding check_wasm_imports_def Let_def by (simp add: check_imports_loop_no_panic del: set_map)
qed (simp add: check_wasm_imports_def)

lemma check_wasm_features_no_panic:
  assumes "section_sizes P module < 10 ^ 180"
  shows "\<not> panics (check_wasm_features P module available)"
proof -
  let ?F = "required_features_from_module (parity_exported_function_names P module) - available"
  have "card (exported_functions P module) \<le> section_sizes P module"
  proof (cases "wp_export_section P module")
    case (Some es)
    then have "exported_functions P module \<subseteq> fst ` set es" by (force simp: exported_functions_def)
    then have "card (exported_functions P module) \<le> card (fst ` set es)" by (intro card_mono) simp_all
    also have "\<dots> \<le> length es" using card_length [of "map fst es"] by simp
    finally have "card (exported_functions P module) \<le> length es" .
    with Some show ?thesis by (simp add: section_sizes_def)
  qed (simp add: exported_functions_def)
  moreover have "?F \<subseteq> drop 9 ` exported_functions P module"
    unfolding required_features_eq
  proof
    fix f assume "f \<in> {f. f \<noteq> [] \<and> ''requires_'' @ f \<in> exported_functions P module} - available"
    then show "f \<in> drop 9 ` exported_functions P module" by (intro image_eqI [of _ _ "''requires_'' @ f"]) simp_all
  qed
  then have "card ?F \<le> card (exported_functions P module)"
    by (meson card_image_le card_mono finite_exported_functions finite_imageI order_trans)
  ultimately have "length (sorted_list_of_set ?F) < 10 ^ 180" using assms by simp
  then obtain s where "btree_to_string_limited (sorted_list_of_set ?F) 200 = Done s"
    using btree_to_string_limited_200 by blast
  then show ?thesis by (simp add: check_wasm_features_def Let_def)
qed

lemma check_wasm_no_panic:
  assumes "\<And>module. wp_deserialize_buffer P wasm_code = Inr module \<Longrightarrow> section_sizes P module < 10 ^ 180"
  shows "\<not> panics (check_wasm P wasm_code features)"
  unfolding check_wasm_def deserialize_wasm_def
  by (intro orbind_no_panic check_wasm_imports_no_panic check_wasm_features_no_panic assms)
    (simp_all add: map_err_eq_Ok_iff)

section \<open>Checksums name files uniquely\<close>

lemma hex_digit_inj: "a < 16 \<Longrightarrow> b < 16 \<Longrightarrow> hex_digit a = hex_digit b \<Longrightarrow> a = b"
proof -
  assume "a < 16" "b < 16" "hex_digit a = hex_digit b"
  then have "(of_char (hex_digit a) :: nat) = of_char (hex_digit b)" "a < 16" "b < 16" by simp_all
  then show "a = b" by (auto simp: hex_digit_def split: if_splits)
qed

lemma hex_bytes_inj:
  "concat (map (\<lambda>byte. [hex_digit (unat byte div 16), hex_digit (unat byte mod 16)]) xs) =
   concat (map (\<lambda>byte. [hex_digit (unat byte div 16), hex_digit (unat byte mod 16)]) ys) \<Longrightarrow> xs = ys"
  for xs ys :: bytes
proof (induction xs arbitrary: ys)
  case Nil
  then show ?case by (cases ys) auto
next
  case (Cons x xs)
  then obtain y zs where ys: "ys = y # zs" by (cases ys) auto
  have "unat x < 256" "unat y < 256" using unsigned_less [of x] unsigned_less [of y] by simp_all
  then have "unat x div 16 = unat y div 16" "unat x mod 16 = unat y mod 16"
    using Cons.prems by (auto simp: ys intro!: hex_digit_inj)
  then have "unat x = unat y" by (metis div_mult_mod_eq)
  with Cons ys show ?case by (simp add: word_unat_eq_iff)
qed

lemma checksum_to_hex_inj: "checksum_to_hex c = checksum_to_hex d \<Longrightarrow> c = d"
  unfolding checksum_to_hex_def by (cases c; cases d) (auto dest: hex_bytes_inj)

lemma length_checksum_to_hex: "length (checksum_to_hex c) = 2 * length (checksum_bytes c)"
proof -
  have "length (concat (map (\<lambda>b. [f b, g b]) xs)) = 2 * length xs" for f g :: "u8 \<Rightarrow> char" and xs
    by (induction xs) auto
  then show ?thesis by (simp add: checksum_to_hex_def)
qed

lemma checksum_bytes_roundtrip: "checksum_try_from bs = Inr c \<longleftrightarrow> length bs = 32 \<and> checksum_bytes c = bs"
  by (cases c) (auto simp: checksum_try_from_def)

end
