(* ===== verification/VM_Instance.thy ===== *)
theory VM_Instance
  imports VM_Safety VM_Compatibility Std_Results
begin

text \<open>
  Instances and entry point calls: \<open>size.rs\<close>, \<open>serde.rs\<close>, \<open>instance.rs\<close>, \<open>calls.rs\<close> and
  \<open>wasm_backend/{store,limiting_tunables}.rs\<close> of \<open>packages/vm/src\<close>. An instance is its environment:
  the operations are programs on the record \<open>context_data\<close>. Linking and starting a module is
  wasmer's, the argument \<open>instantiate_module\<close>; JSON is a codec with failing operations.
\<close>

section \<open>Sizes and memory limits\<close>

text \<open>\<open>usize\<close> is 64 bits wide, and the products wrap in a release build.\<close>

datatype size_of = Size (size_bytes: u64)

definition size_kilo :: "u64 \<Rightarrow> size_of" where
  "size_kilo n = Size (n * 1000)"

definition size_kibi :: "u64 \<Rightarrow> size_of" where
  "size_kibi n = Size (n * 1024)"

definition size_mega :: "u64 \<Rightarrow> size_of" where
  "size_mega n = Size (n * 1000 * 1000)"

definition size_mebi :: "u64 \<Rightarrow> size_of" where
  "size_mebi n = Size (n * 1024 * 1024)"

definition size_giga :: "u64 \<Rightarrow> size_of" where
  "size_giga n = Size (n * 1000 * 1000 * 1000)"

definition size_gibi :: "u64 \<Rightarrow> size_of" where
  "size_gibi n = Size (n * 1024 * 1024 * 1024)"

definition MAX_WASM_MEMORY :: u64 where
  "MAX_WASM_MEMORY = 4 * 1024 * 1024 * 1024"

definition WASM_PAGE_SIZE :: u64 where
  "WASM_PAGE_SIZE = 65536"

definition limit_to_pages :: "size_of \<Rightarrow> u32 outcome" where
  "limit_to_pages limit =
     (let capped = min (size_bytes limit) MAX_WASM_MEMORY in
      expect ''Value must be <= 4 GiB/64KiB, i.e. fit in uint32. This is a bug.''
        (try_into_word (capped div WASM_PAGE_SIZE)))"

text \<open>The memory type a module asks for, and the tunables that limit it.\<close>

record memory_type =
  mt_minimum :: u32
  mt_maximum :: "u32 option"

definition adjust_memory :: "u32 \<Rightarrow> memory_type \<Rightarrow> memory_type" where
  "adjust_memory limit requested =
     (if mt_maximum requested = None then requested\<lparr>mt_maximum := Some limit\<rparr> else requested)"

definition validate_memory :: "u32 \<Rightarrow> memory_type \<Rightarrow> (string, unit) result" where
  "validate_memory limit ty =
     (if mt_minimum ty > limit then Inl ''Minimum exceeds the allowed memory limit''
      else case mt_maximum ty of
        Some maximum \<Rightarrow> if maximum > limit then Inl ''Maximum exceeds the allowed memory limit'' else Inr ()
      | None \<Rightarrow> Inl ''Maximum unset'')"

definition memory_style :: "(memory_type \<Rightarrow> 'y) \<Rightarrow> u32 \<Rightarrow> memory_type \<Rightarrow> 'y" where
  "memory_style base_style limit memory = base_style (adjust_memory limit memory)"

definition create_host_memory ::
  "(memory_type \<Rightarrow> 'y \<Rightarrow> (string, 'mem) result) \<Rightarrow> u32 \<Rightarrow> memory_type \<Rightarrow> 'y \<Rightarrow> (string, 'mem) result" where
  "create_host_memory base_create limit ty style =
     (let adjusted = adjust_memory limit ty in
      rbind (validate_memory limit adjusted) (\<lambda>_. base_create adjusted style))"

definition create_vm_memory ::
  "(memory_type \<Rightarrow> 'y \<Rightarrow> 'l \<Rightarrow> (string, 'mem) result) \<Rightarrow> u32 \<Rightarrow> memory_type \<Rightarrow> 'y \<Rightarrow> 'l \<Rightarrow> (string, 'mem) result" where
  "create_vm_memory base_create limit ty style vm_definition_location =
     (let adjusted = adjust_memory limit ty in
      rbind (validate_memory limit adjusted) (\<lambda>_. base_create adjusted style vm_definition_location))"

section \<open>JSON with a limit\<close>

record 'a serde =
  sd_type_name :: string
  sd_to_vec :: "'a \<Rightarrow> (string, bytes) result"
  sd_from_slice :: "bytes \<Rightarrow> (string, 'a) result"

definition vm_from_slice :: "'a serde \<Rightarrow> bytes \<Rightarrow> nat \<Rightarrow> 'a vm_result" where
  "vm_from_slice S data deserialization_limit =
     (if length data > deserialization_limit
      then Inl (VmDeserializationLimitExceeded (length data) deserialization_limit)
      else map_err (\<lambda>e. VmParseErr (sd_type_name S) e) (sd_from_slice S data))"

definition vm_to_vec :: "'a serde \<Rightarrow> 'a \<Rightarrow> bytes vm_result" where
  "vm_to_vec S data = map_err (\<lambda>e. VmSerializeErr (sd_type_name S) e) (sd_to_vec S data)"

section \<open>Instances\<close>

record gas_report =
  gr_limit :: u64
  gr_remaining :: u64
  gr_used_externally :: u64
  gr_used_internally :: u64

record instance_options =
  io_gas_limit :: u64
  io_print_debug :: bool

text \<open>
  The imports, each with the types of its arguments and result. wasmer checks the types when it
  links a module, so other arguments do not occur.
\<close>

definition bad_signature :: string where
  "bad_signature = ''native function called with arguments of other types''"

definition native_unit1 :: "(u32 \<Rightarrow> ('s, 'q, 'w, unit) vm_prog) \<Rightarrow> wasm_val list \<Rightarrow> ('s, 'q, 'w, wasm_val list) vm_prog" where
  "native_unit1 f args = (case args of [I32 a] \<Rightarrow> pbind (f a) (\<lambda>_. preturn []) | _ \<Rightarrow> ppanic bad_signature)"

definition native_unit2 ::
  "(u32 \<Rightarrow> u32 \<Rightarrow> ('s, 'q, 'w, unit) vm_prog) \<Rightarrow> wasm_val list \<Rightarrow> ('s, 'q, 'w, wasm_val list) vm_prog" where
  "native_unit2 f args = (case args of [I32 a, I32 b] \<Rightarrow> pbind (f a b) (\<lambda>_. preturn []) | _ \<Rightarrow> ppanic bad_signature)"

definition native1 :: "(u32 \<Rightarrow> ('s, 'q, 'w, u32) vm_prog) \<Rightarrow> wasm_val list \<Rightarrow> ('s, 'q, 'w, wasm_val list) vm_prog" where
  "native1 f args = (case args of [I32 a] \<Rightarrow> pbind (f a) (\<lambda>r. preturn [I32 r]) | _ \<Rightarrow> ppanic bad_signature)"

definition native2 ::
  "(u32 \<Rightarrow> u32 \<Rightarrow> ('s, 'q, 'w, u32) vm_prog) \<Rightarrow> wasm_val list \<Rightarrow> ('s, 'q, 'w, wasm_val list) vm_prog" where
  "native2 f args = (case args of [I32 a, I32 b] \<Rightarrow> pbind (f a b) (\<lambda>r. preturn [I32 r]) | _ \<Rightarrow> ppanic bad_signature)"

definition native3 ::
  "(u32 \<Rightarrow> u32 \<Rightarrow> u32 \<Rightarrow> ('s, 'q, 'w, 'a) vm_prog) \<Rightarrow> ('a \<Rightarrow> wasm_val) \<Rightarrow> wasm_val list \<Rightarrow>
    ('s, 'q, 'w, wasm_val list) vm_prog" where
  "native3 f out args =
     (case args of [I32 a, I32 b, I32 c] \<Rightarrow> pbind (f a b c) (\<lambda>r. preturn [out r]) | _ \<Rightarrow> ppanic bad_signature)"

definition env_imports ::
  "('s, 'q, 'w, 'r) host \<Rightarrow> (string \<times> (wasm_val list \<Rightarrow> ('s, 'q, 'w, wasm_val list) vm_prog)) list" where
  "env_imports H =
     [(''db_read'', native1 (do_db_read H)),
      (''db_write'', native_unit2 (do_db_write H)),
      (''db_remove'', native_unit1 (do_db_remove H)),
      (''addr_validate'', native1 (do_addr_validate H)),
      (''addr_canonicalize'', native2 (do_addr_canonicalize H)),
      (''addr_humanize'', native2 (do_addr_humanize H)),
      (''secp256k1_verify'', native3 (do_secp256k1_verify H) I32),
      (''secp256k1_recover_pubkey'', native3 (do_secp256k1_recover_pubkey H) I64),
      (''ed25519_verify'', native3 (do_ed25519_verify H) I32),
      (''ed25519_batch_verify'', native3 (do_ed25519_batch_verify H) I32),
      (''debug'', native_unit1 (do_debug H)),
      (''query_chain'', native1 (do_query_chain H)),
      (''db_scan'', native3 (\<lambda>a b c. do_db_scan H a b (sint c)) I32),
      (''db_next'', native1 (do_db_next H))]"

text \<open>
  \<open>Instance::from_module\<close>: the import object maps namespaces to exports, a later registration of
  a namespace replaces an earlier one, and the instance starts with the gas limit and the backend.
\<close>

type_synonym ('s, 'q, 'w) import_object =
  "string \<rightharpoonup> (string \<times> (wasm_val list \<Rightarrow> ('s, 'q, 'w, wasm_val list) vm_prog)) list"

definition import_object ::
  "('s, 'q, 'w, 'r) host \<Rightarrow> (string \<times> (string \<times> (wasm_val list \<Rightarrow> ('s, 'q, 'w, wasm_val list) vm_prog)) list) list
    \<Rightarrow> ('s, 'q, 'w) import_object" where
  "import_object H extra_imports =
     foldl (\<lambda>obj (namespace, exports_obj). obj(namespace \<mapsto> exports_obj)) [''env'' \<mapsto> env_imports H] extra_imports"

definition instance_from_module ::
  "('s, 'q, 'w, 'r) host \<Rightarrow> ('m \<Rightarrow> ('s, 'q, 'w) import_object \<Rightarrow> (string, 'w) result) \<Rightarrow> 'm \<Rightarrow> 's \<Rightarrow> 'q \<Rightarrow> u64 \<Rightarrow>
    (string \<times> (string \<times> (wasm_val list \<Rightarrow> ('s, 'q, 'w, wasm_val list) vm_prog)) list) list \<Rightarrow>
    ('s, 'q, 'w) context_data vm_result outcome" where
  "instance_from_module H instantiate_module module storage querier limit extra_imports =
     (let env = context_data_new limit;
          import_obj = import_object H extra_imports
      in orbind (Done (map_err (\<lambda>original. VmInstantiationErr (''Error instantiating module: '' @ original))
                        (instantiate_module module import_obj)))
           (\<lambda>wasmer_instance.
              omap (\<lambda>env. Inr (move_in storage querier env))
                (set_gas_left H limit (set_wasm_instance (Some wasmer_instance) env))))"

text \<open>\<open>Instance::from_code\<close>; compiling is wasmer's.\<close>

definition instance_from_code ::
  "('s, 'q, 'w, 'r) host \<Rightarrow> (bytes \<Rightarrow> size_of option \<Rightarrow> 'm vm_result) \<Rightarrow>
    ('m \<Rightarrow> ('s, 'q, 'w) import_object \<Rightarrow> (string, 'w) result) \<Rightarrow> bytes \<Rightarrow> 's \<Rightarrow> 'q \<Rightarrow> instance_options \<Rightarrow> size_of option \<Rightarrow>
    ('s, 'q, 'w) context_data vm_result outcome" where
  "instance_from_code H compile instantiate_module code storage querier options memory_limit =
     orbind (Done (compile code memory_limit)) (\<lambda>module.
     instance_from_module H instantiate_module module storage querier (io_gas_limit options) [])"

definition instance_recycle :: "('s, 'q, 'w) context_data \<Rightarrow> ('s \<times> 'q) option" where
  "instance_recycle env =
     (case fst (move_out env) of (Some storage, Some querier) \<Rightarrow> Some (storage, querier) | _ \<Rightarrow> None)"

definition instance_required_features :: "('w \<Rightarrow> string list) \<Rightarrow> 'w \<Rightarrow> string set" where
  "instance_required_features functions w =
     required_features_from_module (wasmer_exported_function_names (functions w))"

definition instance_memory_pages :: "('s, 'q, 'w, 'r) host \<Rightarrow> ('s, 'q, 'w) context_data \<Rightarrow> nat outcome" where
  "instance_memory_pages H env =
     (case cd_wasm_instance env of
        None \<Rightarrow> Panic no_instance
      | Some w \<Rightarrow>
          if \<not> we_has_memory (h_engine H) w then Panic ''A contract must have exactly one exported memory.''
          else Done (we_mem_bytes (h_engine H) w div 65536))"

definition instance_create_gas_report :: "('s, 'q, 'w, 'r) host \<Rightarrow> ('s, 'q, 'w) context_data \<Rightarrow> gas_report outcome" where
  "instance_create_gas_report H env =
     (let state = cd_gas_state env in
      omap (\<lambda>gas_left.
        \<lparr>gr_limit = gas_limit state, gr_remaining = gas_left, gr_used_externally = externally_used_gas state,
         gr_used_internally =
           saturating_sub (saturating_sub (gas_limit state) (externally_used_gas state)) gas_left\<rparr>)
      (get_gas_left H env))"

definition instance_with_storage :: "('s \<Rightarrow> ('a vm_result \<times> 's) outcome) \<Rightarrow> ('s, 'q, 'w, 'a) vm_prog" where
  "instance_with_storage func = pbind (with_storage_from_context func) plift"

definition instance_with_querier :: "('q \<Rightarrow> 'a vm_result) \<Rightarrow> ('s, 'q, 'w, 'a) vm_prog" where
  "instance_with_querier func = pbind (with_querier_from_context func) plift"

definition instance_allocate :: "('s, 'q, 'w, 'r) host \<Rightarrow> nat \<Rightarrow> ('s, 'q, 'w, u32) vm_prog" where
  "instance_allocate H len =
     pbind (plift (to_u32 len)) (\<lambda>n.
     pbind (call_function1 H ''allocate'' [I32 n]) (\<lambda>ret.
     pbind (plift (ref_to_u32 H ret)) (\<lambda>ptr.
     if ptr = 0 then pfail (VmCommunicationErr ZeroAddress) else preturn ptr)))"

definition instance_deallocate :: "('s, 'q, 'w, 'r) host \<Rightarrow> u32 \<Rightarrow> ('s, 'q, 'w, unit) vm_prog" where
  "instance_deallocate H ptr = call_function0 H ''deallocate'' [I32 ptr]"

definition instance_read_memory :: "('s, 'q, 'w, 'r) host \<Rightarrow> u32 \<Rightarrow> nat \<Rightarrow> ('s, 'q, 'w, bytes) vm_prog" where
  "instance_read_memory H region_ptr max_length = env_read_region H region_ptr max_length"

definition instance_write_memory :: "('s, 'q, 'w, 'r) host \<Rightarrow> u32 \<Rightarrow> bytes \<Rightarrow> ('s, 'q, 'w, unit) vm_prog" where
  "instance_write_memory H region_ptr data = env_write_region H region_ptr data"

section \<open>Raw calls\<close>

definition read_limit_result :: nat where
  "read_limit_result = 64 * (1024 * 1024)"

definition deserialization_limit_result :: nat where
  "deserialization_limit_result = 256 * 1024"

fun write_args :: "('s, 'q, 'w, 'r) host \<Rightarrow> bytes list \<Rightarrow> ('s, 'q, 'w, wasm_val list) vm_prog" where
  "write_args H [] = preturn []"
| "write_args H (arg # args) =
     pbind (instance_allocate H (length arg)) (\<lambda>region_ptr.
     pbind (instance_write_memory H region_ptr arg) (\<lambda>_.
     pbind (write_args H args) (\<lambda>arg_region_ptrs.
     preturn (I32 region_ptr # arg_region_ptrs))))"

definition call_raw :: "('s, 'q, 'w, 'r) host \<Rightarrow> string \<Rightarrow> bytes list \<Rightarrow> nat \<Rightarrow> ('s, 'q, 'w, bytes) vm_prog" where
  "call_raw H name args result_max_length =
     pbind (write_args H args) (\<lambda>arg_region_ptrs.
     pbind (call_function1 H name arg_region_ptrs) (\<lambda>result.
     pbind (plift (ref_to_u32 H result)) (\<lambda>res_region_ptr.
     pbind (instance_read_memory H res_region_ptr result_max_length) (\<lambda>data.
     pbind (instance_deallocate H res_region_ptr) (\<lambda>_.
     preturn data)))))"

text \<open>Setting the mode of the storage, then the call.\<close>

definition with_readonly :: "bool \<Rightarrow> ('s, 'q, 'w, 'a) vm_prog \<Rightarrow> ('s, 'q, 'w, 'a) vm_prog" where
  "with_readonly readonly p env = p (set_storage_readonly readonly env)"

definition call_instantiate_raw :: "('s, 'q, 'w, 'r) host \<Rightarrow> bytes \<Rightarrow> bytes \<Rightarrow> bytes \<Rightarrow> ('s, 'q, 'w, bytes) vm_prog" where
  "call_instantiate_raw H env info msg =
     with_readonly False (call_raw H ''instantiate'' [env, info, msg] read_limit_result)"

definition call_execute_raw :: "('s, 'q, 'w, 'r) host \<Rightarrow> bytes \<Rightarrow> bytes \<Rightarrow> bytes \<Rightarrow> ('s, 'q, 'w, bytes) vm_prog" where
  "call_execute_raw H env info msg =
     with_readonly False (call_raw H ''execute'' [env, info, msg] read_limit_result)"

definition call_migrate_raw :: "('s, 'q, 'w, 'r) host \<Rightarrow> bytes \<Rightarrow> bytes \<Rightarrow> ('s, 'q, 'w, bytes) vm_prog" where
  "call_migrate_raw H env msg = with_readonly False (call_raw H ''migrate'' [env, msg] read_limit_result)"

definition call_sudo_raw :: "('s, 'q, 'w, 'r) host \<Rightarrow> bytes \<Rightarrow> bytes \<Rightarrow> ('s, 'q, 'w, bytes) vm_prog" where
  "call_sudo_raw H env msg = with_readonly False (call_raw H ''sudo'' [env, msg] read_limit_result)"

definition call_reply_raw :: "('s, 'q, 'w, 'r) host \<Rightarrow> bytes \<Rightarrow> bytes \<Rightarrow> ('s, 'q, 'w, bytes) vm_prog" where
  "call_reply_raw H env msg = with_readonly False (call_raw H ''reply'' [env, msg] read_limit_result)"

definition call_query_raw :: "('s, 'q, 'w, 'r) host \<Rightarrow> bytes \<Rightarrow> bytes \<Rightarrow> ('s, 'q, 'w, bytes) vm_prog" where
  "call_query_raw H env msg = with_readonly True (call_raw H ''query'' [env, msg] read_limit_result)"

definition call_ibc_channel_open_raw :: "('s, 'q, 'w, 'r) host \<Rightarrow> bytes \<Rightarrow> bytes \<Rightarrow> ('s, 'q, 'w, bytes) vm_prog" where
  "call_ibc_channel_open_raw H env msg =
     with_readonly False (call_raw H ''ibc_channel_open'' [env, msg] read_limit_result)"

definition call_ibc_channel_connect_raw :: "('s, 'q, 'w, 'r) host \<Rightarrow> bytes \<Rightarrow> bytes \<Rightarrow> ('s, 'q, 'w, bytes) vm_prog" where
  "call_ibc_channel_connect_raw H env msg =
     with_readonly False (call_raw H ''ibc_channel_connect'' [env, msg] read_limit_result)"

definition call_ibc_channel_close_raw :: "('s, 'q, 'w, 'r) host \<Rightarrow> bytes \<Rightarrow> bytes \<Rightarrow> ('s, 'q, 'w, bytes) vm_prog" where
  "call_ibc_channel_close_raw H env msg =
     with_readonly False (call_raw H ''ibc_channel_close'' [env, msg] read_limit_result)"

definition call_ibc_packet_receive_raw :: "('s, 'q, 'w, 'r) host \<Rightarrow> bytes \<Rightarrow> bytes \<Rightarrow> ('s, 'q, 'w, bytes) vm_prog" where
  "call_ibc_packet_receive_raw H env msg =
     with_readonly False (call_raw H ''ibc_packet_receive'' [env, msg] read_limit_result)"

definition call_ibc_packet_ack_raw :: "('s, 'q, 'w, 'r) host \<Rightarrow> bytes \<Rightarrow> bytes \<Rightarrow> ('s, 'q, 'w, bytes) vm_prog" where
  "call_ibc_packet_ack_raw H env msg =
     with_readonly False (call_raw H ''ibc_packet_ack'' [env, msg] read_limit_result)"

definition call_ibc_packet_timeout_raw :: "('s, 'q, 'w, 'r) host \<Rightarrow> bytes \<Rightarrow> bytes \<Rightarrow> ('s, 'q, 'w, bytes) vm_prog" where
  "call_ibc_packet_timeout_raw H env msg =
     with_readonly False (call_raw H ''ibc_packet_timeout'' [env, msg] read_limit_result)"

section \<open>Calls with typed arguments and results\<close>

text \<open>\<open>'e\<close> is \<open>Env\<close>, \<open>'i\<close> is \<open>MessageInfo\<close>, \<open>'m\<close> the message of the call and \<open>'x\<close> its result.\<close>

definition call_instantiate ::
  "('s, 'q, 'w, 'r) host \<Rightarrow> 'e serde \<Rightarrow> 'i serde \<Rightarrow> 'x contract_result serde \<Rightarrow> 'e \<Rightarrow> 'i \<Rightarrow> bytes \<Rightarrow>
    ('s, 'q, 'w, 'x contract_result) vm_prog" where
  "call_instantiate H Se Si Sx env info msg =
     pbind (plift (vm_to_vec Se env)) (\<lambda>env.
     pbind (plift (vm_to_vec Si info)) (\<lambda>info.
     pbind (call_instantiate_raw H env info msg) (\<lambda>data.
     plift (vm_from_slice Sx data deserialization_limit_result))))"

definition call_execute ::
  "('s, 'q, 'w, 'r) host \<Rightarrow> 'e serde \<Rightarrow> 'i serde \<Rightarrow> 'x contract_result serde \<Rightarrow> 'e \<Rightarrow> 'i \<Rightarrow> bytes \<Rightarrow>
    ('s, 'q, 'w, 'x contract_result) vm_prog" where
  "call_execute H Se Si Sx env info msg =
     pbind (plift (vm_to_vec Se env)) (\<lambda>env.
     pbind (plift (vm_to_vec Si info)) (\<lambda>info.
     pbind (call_execute_raw H env info msg) (\<lambda>data.
     plift (vm_from_slice Sx data deserialization_limit_result))))"

definition call_migrate ::
  "('s, 'q, 'w, 'r) host \<Rightarrow> 'e serde \<Rightarrow> 'x contract_result serde \<Rightarrow> 'e \<Rightarrow> bytes \<Rightarrow> ('s, 'q, 'w, 'x contract_result) vm_prog" where
  "call_migrate H Se Sx env msg =
     pbind (plift (vm_to_vec Se env)) (\<lambda>env.
     pbind (call_migrate_raw H env msg) (\<lambda>data.
     plift (vm_from_slice Sx data deserialization_limit_result)))"

definition call_sudo ::
  "('s, 'q, 'w, 'r) host \<Rightarrow> 'e serde \<Rightarrow> 'x contract_result serde \<Rightarrow> 'e \<Rightarrow> bytes \<Rightarrow> ('s, 'q, 'w, 'x contract_result) vm_prog" where
  "call_sudo H Se Sx env msg =
     pbind (plift (vm_to_vec Se env)) (\<lambda>env.
     pbind (call_sudo_raw H env msg) (\<lambda>data.
     plift (vm_from_slice Sx data deserialization_limit_result)))"

definition call_reply ::
  "('s, 'q, 'w, 'r) host \<Rightarrow> 'e serde \<Rightarrow> 'm serde \<Rightarrow> 'x contract_result serde \<Rightarrow> 'e \<Rightarrow> 'm \<Rightarrow>
    ('s, 'q, 'w, 'x contract_result) vm_prog" where
  "call_reply H Se Sm Sx env msg =
     pbind (plift (vm_to_vec Se env)) (\<lambda>env.
     pbind (plift (vm_to_vec Sm msg)) (\<lambda>msg.
     pbind (call_reply_raw H env msg) (\<lambda>data.
     plift (vm_from_slice Sx data deserialization_limit_result))))"

text \<open>The answer of a query must itself be JSON; \<open>json_value\<close> parses it as a JSON document.\<close>

definition call_query ::
  "('s, 'q, 'w, 'r) host \<Rightarrow> 'e serde \<Rightarrow> bytes contract_result serde \<Rightarrow> (bytes \<Rightarrow> (string, unit) result) \<Rightarrow> 'e \<Rightarrow> bytes \<Rightarrow>
    ('s, 'q, 'w, bytes contract_result) vm_prog" where
  "call_query H Se Sx json_value env msg =
     pbind (plift (vm_to_vec Se env)) (\<lambda>env.
     pbind (call_query_raw H env msg) (\<lambda>data.
     pbind (plift (vm_from_slice Sx data deserialization_limit_result)) (\<lambda>result.
     pbind (case result of
              ContractOk binary_response \<Rightarrow>
                plift (map_err (\<lambda>e. VmGenericErr (''Query response must be valid JSON. '' @ e)) (json_value binary_response))
            | ContractErr _ \<Rightarrow> preturn ()) (\<lambda>_.
     preturn result))))"

definition call_ibc_channel_open ::
  "('s, 'q, 'w, 'r) host \<Rightarrow> 'e serde \<Rightarrow> 'm serde \<Rightarrow> unit contract_result serde \<Rightarrow> 'e \<Rightarrow> 'm \<Rightarrow>
    ('s, 'q, 'w, unit contract_result) vm_prog" where
  "call_ibc_channel_open H Se Sm Sx env msg =
     pbind (plift (vm_to_vec Se env)) (\<lambda>env.
     pbind (plift (vm_to_vec Sm msg)) (\<lambda>msg.
     pbind (call_ibc_channel_open_raw H env msg) (\<lambda>data.
     plift (vm_from_slice Sx data deserialization_limit_result))))"

definition call_ibc_channel_connect ::
  "('s, 'q, 'w, 'r) host \<Rightarrow> 'e serde \<Rightarrow> 'm serde \<Rightarrow> 'x contract_result serde \<Rightarrow> 'e \<Rightarrow> 'm \<Rightarrow>
    ('s, 'q, 'w, 'x contract_result) vm_prog" where
  "call_ibc_channel_connect H Se Sm Sx env msg =
     pbind (plift (vm_to_vec Se env)) (\<lambda>env.
     pbind (plift (vm_to_vec Sm msg)) (\<lambda>msg.
     pbind (call_ibc_channel_connect_raw H env msg) (\<lambda>data.
     plift (vm_from_slice Sx data deserialization_limit_result))))"

definition call_ibc_channel_close ::
  "('s, 'q, 'w, 'r) host \<Rightarrow> 'e serde \<Rightarrow> 'm serde \<Rightarrow> 'x contract_result serde \<Rightarrow> 'e \<Rightarrow> 'm \<Rightarrow>
    ('s, 'q, 'w, 'x contract_result) vm_prog" where
  "call_ibc_channel_close H Se Sm Sx env msg =
     pbind (plift (vm_to_vec Se env)) (\<lambda>env.
     pbind (plift (vm_to_vec Sm msg)) (\<lambda>msg.
     pbind (call_ibc_channel_close_raw H env msg) (\<lambda>data.
     plift (vm_from_slice Sx data deserialization_limit_result))))"

definition call_ibc_packet_receive ::
  "('s, 'q, 'w, 'r) host \<Rightarrow> 'e serde \<Rightarrow> 'm serde \<Rightarrow> 'x contract_result serde \<Rightarrow> 'e \<Rightarrow> 'm \<Rightarrow>
    ('s, 'q, 'w, 'x contract_result) vm_prog" where
  "call_ibc_packet_receive H Se Sm Sx env msg =
     pbind (plift (vm_to_vec Se env)) (\<lambda>env.
     pbind (plift (vm_to_vec Sm msg)) (\<lambda>msg.
     pbind (call_ibc_packet_receive_raw H env msg) (\<lambda>data.
     plift (vm_from_slice Sx data deserialization_limit_result))))"

definition call_ibc_packet_ack ::
  "('s, 'q, 'w, 'r) host \<Rightarrow> 'e serde \<Rightarrow> 'm serde \<Rightarrow> 'x contract_result serde \<Rightarrow> 'e \<Rightarrow> 'm \<Rightarrow>
    ('s, 'q, 'w, 'x contract_result) vm_prog" where
  "call_ibc_packet_ack H Se Sm Sx env msg =
     pbind (plift (vm_to_vec Se env)) (\<lambda>env.
     pbind (plift (vm_to_vec Sm msg)) (\<lambda>msg.
     pbind (call_ibc_packet_ack_raw H env msg) (\<lambda>data.
     plift (vm_from_slice Sx data deserialization_limit_result))))"

definition call_ibc_packet_timeout ::
  "('s, 'q, 'w, 'r) host \<Rightarrow> 'e serde \<Rightarrow> 'm serde \<Rightarrow> 'x contract_result serde \<Rightarrow> 'e \<Rightarrow> 'm \<Rightarrow>
    ('s, 'q, 'w, 'x contract_result) vm_prog" where
  "call_ibc_packet_timeout H Se Sm Sx env msg =
     pbind (plift (vm_to_vec Se env)) (\<lambda>env.
     pbind (plift (vm_to_vec Sm msg)) (\<lambda>msg.
     pbind (call_ibc_packet_timeout_raw H env msg) (\<lambda>data.
     plift (vm_from_slice Sx data deserialization_limit_result))))"

section \<open>Limits\<close>

lemma limit_to_pages_eq:
  "limit_to_pages limit = Done (word_of_nat (min (unat (size_bytes limit)) (2 ^ 32) div 65536))"
  "min (unat (size_bytes limit)) (2 ^ 32) div 65536 \<le> 65536"
proof -
  have cap: "unat (min (size_bytes limit) MAX_WASM_MEMORY) = min (unat (size_bytes limit)) (2 ^ 32)"
    by (simp add: min_def MAX_WASM_MEMORY_def word_le_nat_alt)
  have le: "min (unat (size_bytes limit)) (2 ^ 32) div 65536 \<le> 65536"
    using div_le_mono [of "min (unat (size_bytes limit)) (2 ^ 32)" "2 ^ 32" 65536] by simp
  show "min (unat (size_bytes limit)) (2 ^ 32) div 65536 \<le> 65536" by (rule le)
  have pages: "unat (min (size_bytes limit) MAX_WASM_MEMORY div WASM_PAGE_SIZE) =
      min (unat (size_bytes limit)) (2 ^ 32) div 65536"
    by (simp add: unat_div cap WASM_PAGE_SIZE_def)
  have "try_into_word (min (size_bytes limit) MAX_WASM_MEMORY div WASM_PAGE_SIZE) =
      Some (word_of_nat (min (unat (size_bytes limit)) (2 ^ 32) div 65536) :: u32)"
    using le unfolding try_into_word_Some_iff pages by (simp add: unat_of_nat)
  then show "limit_to_pages limit = Done (word_of_nat (min (unat (size_bytes limit)) (2 ^ 32) div 65536))"
    by (simp add: limit_to_pages_def Let_def)
qed

text \<open>A memory is created only with a maximum, and within the limit.\<close>

lemma create_memory_limited:
  "create_host_memory base limit ty style = Inr m \<longleftrightarrow>
    mt_minimum ty \<le> limit \<and> (\<forall>n. mt_maximum ty = Some n \<longrightarrow> n \<le> limit) \<and>
    base \<lparr>mt_minimum = mt_minimum ty, mt_maximum = Some (case mt_maximum ty of None \<Rightarrow> limit | Some n \<Rightarrow> n)\<rparr> style = Inr m"
  by (cases ty) (auto simp: create_host_memory_def adjust_memory_def validate_memory_def Let_def
      split: option.splits if_splits)

lemma create_vm_memory_eq: "create_vm_memory base limit ty style loc = create_host_memory (\<lambda>t s. base t s loc) limit ty style"
  by (simp add: create_vm_memory_def create_host_memory_def)

section \<open>Linking\<close>

lemma supported_imports_eq: "SUPPORTED_IMPORTS = map (\<lambda>(name, _). ''env.'' @ name) (env_imports H)"
  by (simp add: SUPPORTED_IMPORTS_def env_imports_def)

lemma env_imports_names: "fst ` set (env_imports H) =
  {''db_read'', ''db_write'', ''db_remove'', ''addr_validate'', ''addr_canonicalize'', ''addr_humanize'',
   ''secp256k1_verify'', ''secp256k1_recover_pubkey'', ''ed25519_verify'', ''ed25519_batch_verify'', ''debug'',
   ''query_chain'', ''db_scan'', ''db_next''}"
  by (simp add: env_imports_def)

text \<open>No supported name has a dot of its own, so the two parts of a full name are determined.\<close>

lemma env_import_names_no_dot: "n \<in> fst ` set (env_imports H) \<Longrightarrow> CHR ''.'' \<notin> set n"
  unfolding env_imports_names by (elim insertE emptyE) simp_all

lemma full_import_name_supported:
  assumes "full_import_name ie \<in> set SUPPORTED_IMPORTS"
  shows "ie_module ie = ''env'' \<and> ie_field ie \<in> fst ` set (env_imports H)"
proof -
  obtain n where n: "n \<in> fst ` set (env_imports H)" "ie_module ie @ ''.'' @ ie_field ie = ''env'' @ ''.'' @ n"
    using assms by (force simp: supported_imports_eq [of H] full_import_name_def)
  then have dot: "CHR ''.'' \<notin> set n" using env_import_names_no_dot by blast
  from iffD1 [OF append_eq_append_conv2 n(2)] consider us where "ie_module ie = ''env'' @ us" "us @ ''.'' @ ie_field ie = ''.'' @ n"
    | us where "ie_module ie @ us = ''env''" "''.'' @ ie_field ie = us @ ''.'' @ n"
    by blast
  then show ?thesis
  proof cases
    case (1 us)
    have "us = []"
    proof (rule ccontr)
      assume "us \<noteq> []"
      then obtain v vs where "us = v # vs" by (cases us) auto
      with 1(2) have "n = vs @ ''.'' @ ie_field ie" by simp
      with dot show False by simp
    qed
    with 1 n(1) show ?thesis by simp
  next
    case (2 us)
    have "us = []"
    proof (rule ccontr)
      assume "us \<noteq> []"
      then have "hd us = CHR ''.''" "hd us \<in> set us" using 2(2) by (cases us; simp)+
      moreover have "set us \<subseteq> set ''env''" using 2(1) by (metis Un_upper2 set_append)
      ultimately show False by auto
    qed
    with 2 n(1) show ?thesis by simp
  qed
qed

lemma import_object_env: "''env'' \<notin> fst ` set extra \<Longrightarrow> import_object H extra ''env'' = Some (env_imports H)"
proof -
  have "foldl (\<lambda>obj (namespace, exports_obj). obj(namespace \<mapsto> exports_obj)) obj extra ''env'' = obj ''env''"
    if "''env'' \<notin> fst ` set extra" for obj :: "('a, 'b, 'c) import_object"
    using that by (induction extra arbitrary: obj) auto
  then show "''env'' \<notin> fst ` set extra \<Longrightarrow> import_object H extra ''env'' = Some (env_imports H)"
    by (simp add: import_object_def)
qed

text \<open>Calling an import is a step of the contract.\<close>

lemma native_step:
  "native1 f args env = Done (r, env') \<Longrightarrow> \<exists>a x. f a env = Done (x, env')"
  "native2 f2 args env = Done (r, env') \<Longrightarrow> \<exists>a b x. f2 a b env = Done (x, env')"
  "native_unit1 g args env = Done (r, env') \<Longrightarrow> \<exists>a x. g a env = Done (x, env')"
  "native_unit2 g2 args env = Done (r, env') \<Longrightarrow> \<exists>a b x. g2 a b env = Done (x, env')"
  "native3 f3 out args env = Done (r, env') \<Longrightarrow> \<exists>a b c x. f3 a b c env = Done (x, env')"
  by (auto simp: native1_def native2_def native_unit1_def native_unit2_def native3_def pbind_eq_Done_iff
      split: list.splits wasm_val.splits)

lemma env_import_step:
  assumes "(name, f) \<in> set (env_imports H)" "f args env = Done (r, env')"
  shows "import_step H env env'"
  using assms unfolding env_imports_def
  by (auto dest!: native_step intro: import_step.intros)

section \<open>Lifecycle and gas\<close>

lemma instance_from_module_Ok:
  assumes "instance_from_module H inst module storage querier limit extra = Done (Inr env)"
  shows "\<exists>w. inst module (import_object H extra) = Inr w \<and>
      env = \<lparr>cd_gas_state = gas_state_with_limit limit, cd_storage = Some storage, cd_storage_readonly = True,
        cd_querier = Some querier, cd_wasm_instance = Some (engine_set_gas_left (h_engine H) limit w)\<rparr>"
  using assms
  by (auto simp: instance_from_module_def orbind_eq_Ok_iff map_err_eq_Ok_iff omap_eq_Done_iff set_gas_left_def
      set_wasm_instance_def context_data_new_def move_in_def)

lemma instance_from_module_no_panic:
  "\<not> panics (instance_from_module H inst module storage querier limit extra)"
  by (cases "inst module (import_object H extra)")
    (auto simp: instance_from_module_def set_gas_left_def set_wasm_instance_def)

lemma gas_report_sums:
  fixes limit ext left :: u64
  assumes "unat ext + unat left \<le> unat limit"
  shows "unat (saturating_sub (saturating_sub limit ext) left) + unat ext + unat left = unat limit"
  using assms by (simp add: unat_saturating_sub)

context host_laws
begin

lemma confined_call_function0 [confined]: "confined_prog E sd (call_function0 H name args)"
  unfolding call_function0_def by (auto intro!: confined)

lemma confined_instance [confined]:
  "confined_prog E sd (instance_allocate H n)" "confined_prog E sd (instance_deallocate H p)"
  "confined_prog E sd (instance_read_memory H p n)" "confined_prog E sd (instance_write_memory H p d)"
  unfolding instance_allocate_def instance_deallocate_def instance_read_memory_def instance_write_memory_def
  by (auto intro!: confined)

lemma confined_write_args [confined]: "confined_prog E sd (write_args H args)"
proof (induction args)
  case Nil
  have "write_args H [] = preturn []" by (rule ext) simp
  then show ?case using confined_pure(1) by metis
next
  case (Cons a args)
  then show ?case by (auto intro!: confined)
qed

lemma confined_call_raw [confined]: "confined_prog E sd (call_raw H name args n)"
  unfolding call_raw_def by (auto intro!: confined)

end

section \<open>What a call may change\<close>

text \<open>
  A program that runs in a given mode: with read-only storage the stored data is the same after it,
  and in both modes the gas left does not grow.
\<close>

definition call_keeps :: "'w wasm_engine \<Rightarrow> ('s \<Rightarrow> 'd) \<Rightarrow> bool \<Rightarrow> ('s, 'q, 'w, 'a) vm_prog \<Rightarrow> bool" where
  "call_keeps E sd readonly p \<longleftrightarrow>
     (\<forall>env r env'. p env = Done (r, env') \<longrightarrow>
        (\<forall>w. cd_wasm_instance env = Some w \<longrightarrow>
           (\<exists>w'. cd_wasm_instance env' = Some w' \<and> engine_gas_left E w' \<le> engine_gas_left E w)) \<and>
        gas_limit (cd_gas_state env') = gas_limit (cd_gas_state env) \<and>
        (readonly \<longrightarrow> map_option sd (cd_storage env') = map_option sd (cd_storage env)))"

lemma call_keeps_with_readonly: "confined_prog E sd p \<Longrightarrow> call_keeps E sd readonly (with_readonly readonly p)"
  by (fastforce simp: call_keeps_def with_readonly_def confined_prog_def confined_def set_storage_readonly_def)

lemma call_keeps_lift_bind: "(\<And>x. call_keeps E sd b (f x)) \<Longrightarrow> call_keeps E sd b (pbind (plift r) f)"
  by (cases r) (simp_all add: call_keeps_def)

lemma call_keeps_bind_lift: "call_keeps E sd b p \<Longrightarrow> call_keeps E sd b (pbind p (\<lambda>x. plift (g x)))"
  by (auto simp: call_keeps_def pbind_eq_Done_iff)

lemma call_keeps_bind_pure:
  assumes "call_keeps E sd b p" and "\<And>x env r env'. f x env = Done (r, env') \<Longrightarrow> env' = env"
  shows "call_keeps E sd b (pbind p f)"
proof -
  have "\<exists>r'. p env = Done (r', env')" if "pbind p f env = Done (r, env')" for env r env'
    using that by (auto simp: pbind_eq_Done_iff dest: assms(2))
  then show ?thesis
    using assms(1) unfolding call_keeps_def by (intro allI impI) metis
qed

lemma call_query_pure:
  fixes env :: "('s, 'q, 'w) context_data"
  assumes "pbind (plift (vm_from_slice Sx data n)) (\<lambda>result.
     pbind (case result of ContractOk binary_response \<Rightarrow> plift (map_err h (json_value binary_response)) | ContractErr _ \<Rightarrow> preturn ())
       (\<lambda>_. preturn result)) env = Done (r, env')"
  shows "env' = env"
proof (cases "vm_from_slice Sx data n")
  case (Inr x)
  then show ?thesis using assms by (cases x) (auto simp: pbind_eq_Done_iff)
qed (use assms in simp)

context host_laws
begin

lemma call_raw_keeps: "call_keeps E sd readonly (with_readonly readonly (call_raw H name args n))"
  by (intro call_keeps_with_readonly confined)

lemma query_call_keeps: "call_keeps E sd True (call_query H Se Sx json_value env msg)"
  unfolding call_query_def call_query_raw_def
  by (intro call_keeps_lift_bind call_keeps_bind_pure [OF call_raw_keeps]) (rule call_query_pure)

lemma entry_calls_keep:
  "call_keeps E sd False (call_instantiate H Se Si Sx env info msg)"
  "call_keeps E sd False (call_execute H Se Si Sx env info msg)"
  "call_keeps E sd False (call_migrate H Se Sx env msg)"
  "call_keeps E sd False (call_sudo H Se Sx env msg)"
  "call_keeps E sd False (call_reply H Se Sm Sx env m)"
  "call_keeps E sd False (call_ibc_channel_open H Se Sm Su env m)"
  "call_keeps E sd False (call_ibc_channel_connect H Se Sm Sx env m)"
  "call_keeps E sd False (call_ibc_channel_close H Se Sm Sx env m)"
  "call_keeps E sd False (call_ibc_packet_receive H Se Sm Sx env m)"
  "call_keeps E sd False (call_ibc_packet_ack H Se Sm Sx env m)"
  "call_keeps E sd False (call_ibc_packet_timeout H Se Sm Sx env m)"
  unfolding call_instantiate_def call_execute_def call_migrate_def call_sudo_def call_reply_def
    call_ibc_channel_open_def call_ibc_channel_connect_def call_ibc_channel_close_def
    call_ibc_packet_receive_def call_ibc_packet_ack_def call_ibc_packet_timeout_def
    call_instantiate_raw_def call_execute_raw_def call_migrate_raw_def call_sudo_raw_def call_reply_raw_def
    call_ibc_channel_open_raw_def call_ibc_channel_connect_raw_def call_ibc_channel_close_raw_def
    call_ibc_packet_receive_raw_def call_ibc_packet_ack_raw_def call_ibc_packet_timeout_raw_def
  by (intro call_keeps_lift_bind call_keeps_bind_lift call_raw_keeps)+

end

text \<open>The length limits: raw data of a call, and what is parsed of it.\<close>

context wasm_engine_laws
begin

lemma call_raw_bound:
  assumes "h_engine H = E" "call_raw H name args n env = Done (Inr data, env')"
  shows "length data \<le> n"
  using assms read_region_bound
  by (auto simp: call_raw_def pbind_eq_Ok_iff instance_read_memory_def env_read_region_Ok_iff)

end

lemma vm_from_slice_Ok_iff:
  "vm_from_slice S data n = Inr x \<longleftrightarrow> length data \<le> n \<and> sd_from_slice S data = Inr x"
  by (auto simp: vm_from_slice_def map_err_eq_Ok_iff)

end
