(* ===== verification/VM_Cache.thy ===== *)
theory VM_Cache
  imports VM_Instance "HOL-Library.AList"
begin

text \<open>
  The module caches of the virtual machine: \<open>cache.rs\<close>, \<open>modules/*.rs\<close> and
  \<open>wasm_backend/{compile,store}.rs\<close> of \<open>packages/vm/src\<close>. Parameters are wasmer (compiling,
  writing and reading compiled modules), the clru crate and SHA-256. The file system is modelled as
  the standard library shows it, and any access to it can fail.
\<close>

section \<open>Files\<close>

type_synonym path = "string list"

datatype node = FileNode bytes | DirNode bool

text \<open>
  Each access takes the next fault of the disk: none, or an error message with the number of bytes
  a write has written before it failed.
\<close>

record disk =
  dk_nodes :: "path \<rightharpoonup> node"
  dk_faults :: "(nat \<times> string) option list"

definition next_fault :: "disk \<Rightarrow> (nat \<times> string) option \<times> disk" where
  "next_fault d =
     (case dk_faults d of [] \<Rightarrow> (None, d) | f # fs \<Rightarrow> (f, d\<lparr>dk_faults := fs\<rparr>))"

definition path_join :: "path \<Rightarrow> string \<Rightarrow> path" where
  "path_join p name = p @ [name]"

definition file_at :: "disk \<Rightarrow> path \<Rightarrow> bytes option" where
  "file_at d p = (case dk_nodes d p of Some (FileNode bs) \<Rightarrow> Some bs | _ \<Rightarrow> None)"

definition is_dir_at :: "disk \<Rightarrow> path \<Rightarrow> bool" where
  "is_dir_at d p = (case dk_nodes d p of Some (DirNode _) \<Rightarrow> True | _ \<Rightarrow> False)"

definition not_found :: string where
  "not_found = ''No such file or directory (os error 2)''"

definition fs_create_dir_all :: "path \<Rightarrow> disk \<Rightarrow> (string, unit) result \<times> disk" where
  "fs_create_dir_all p d =
     (case next_fault d of
        (Some (_, e), d) \<Rightarrow> (Inl e, d)
      | (None, d) \<Rightarrow>
          if list_ex (\<lambda>k. file_at d (take k p) \<noteq> None) [0..<Suc (length p)]
          then (Inl ''Not a directory (os error 20)'', d)
          else (Inr (), d\<lparr>dk_nodes := dk_nodes d ++
            (\<lambda>q. if dk_nodes d q = None \<and> q = take (length q) p then Some (DirNode False) else None)\<rparr>))"

text \<open>\<open>OpenOptions::new().write(true).create(true).open\<close>: an existing file is not truncated.\<close>

definition fs_open_write :: "path \<Rightarrow> disk \<Rightarrow> (string, unit) result \<times> disk" where
  "fs_open_write p d =
     (case next_fault d of
        (Some (_, e), d) \<Rightarrow> (Inl e, d)
      | (None, d) \<Rightarrow>
          (case dk_nodes d p of
             Some (FileNode _) \<Rightarrow> (Inr (), d)
           | Some (DirNode _) \<Rightarrow> (Inl ''Is a directory (os error 21)'', d)
           | None \<Rightarrow>
               if is_dir_at d (butlast p) then (Inr (), d\<lparr>dk_nodes := (dk_nodes d)(p \<mapsto> FileNode [])\<rparr>)
               else (Inl not_found, d)))"

text \<open>\<open>write_all\<close> on a file just opened writes from its start and leaves what lies beyond.\<close>

definition overwrite :: "bytes \<Rightarrow> bytes \<Rightarrow> bytes" where
  "overwrite data old = data @ drop (length data) old"

definition fs_write_all :: "path \<Rightarrow> bytes \<Rightarrow> disk \<Rightarrow> (string, unit) result \<times> disk" where
  "fs_write_all p data d =
     (case next_fault d of
        (fault, d) \<Rightarrow>
          (case file_at d p of
             None \<Rightarrow> (Inl ''Bad file descriptor (os error 9)'', d)
           | Some old \<Rightarrow>
               (case fault of
                  Some (k, e) \<Rightarrow> (Inl e, d\<lparr>dk_nodes := (dk_nodes d)(p \<mapsto> FileNode (overwrite (take k data) old))\<rparr>)
                | None \<Rightarrow> (Inr (), d\<lparr>dk_nodes := (dk_nodes d)(p \<mapsto> FileNode (overwrite data old))\<rparr>))))"

definition fs_open_read :: "path \<Rightarrow> disk \<Rightarrow> (string, unit) result \<times> disk" where
  "fs_open_read p d =
     (case next_fault d of
        (Some (_, e), d) \<Rightarrow> (Inl e, d)
      | (None, d) \<Rightarrow> (if dk_nodes d p = None then (Inl not_found, d) else (Inr (), d)))"

definition fs_read_to_end :: "path \<Rightarrow> disk \<Rightarrow> (string, bytes) result \<times> disk" where
  "fs_read_to_end p d =
     (case next_fault d of
        (Some (_, e), d) \<Rightarrow> (Inl e, d)
      | (None, d) \<Rightarrow>
          (case file_at d p of Some bs \<Rightarrow> (Inr bs, d) | None \<Rightarrow> (Inl ''Is a directory (os error 21)'', d)))"

section \<open>What is outside\<close>

text \<open>
  A store of wasmer is the limit on memory pages its tunables have. \<open>wm_module_new\<close> compiles, with
  the gatekeeper and the metering of the compile-time store. The error of reading a compiled module
  tells a missing file from the rest.
\<close>

type_synonym wasmer_store = "u32 option"

datatype deserialize_error = DeserializeNotFound | DeserializeIo string | DeserializeOther string

record 'm wasmer =
  wm_module_new :: "wasmer_store \<Rightarrow> bytes \<Rightarrow> (string, 'm) result"
  wm_serialize :: "'m \<Rightarrow> (string, bytes) result"
  wm_serialize_to_file :: "'m \<Rightarrow> path \<Rightarrow> disk \<Rightarrow> (string, unit) result \<times> disk"
  wm_deserialize_from_file :: "wasmer_store \<Rightarrow> path \<Rightarrow> disk \<Rightarrow> (deserialize_error, 'm) result \<times> disk"
  wm_size_of_val :: "'m \<Rightarrow> nat"

record 'm sized_module =
  sm_module :: 'm
  sm_size :: nat

record ('m, 'l) lru =
  lru_with_config :: "nat \<Rightarrow> nat \<Rightarrow> 'l"
  lru_put_with_weight :: "checksum \<Rightarrow> 'm sized_module \<Rightarrow> nat \<Rightarrow> 'l \<Rightarrow> (string, unit) result \<times> 'l"
  lru_get :: "checksum \<Rightarrow> 'l \<Rightarrow> 'm sized_module option \<times> 'l"
  lru_len :: "'l \<Rightarrow> nat"
  lru_weight :: "'l \<Rightarrow> nat"

record ('p, 'm, 'l) platform =
  pf_parser :: "'p wasm_parser"
  pf_wasmer :: "'m wasmer"
  pf_lru :: "('m, 'l) lru"
  pf_sha256 :: "bytes \<Rightarrow> bytes"

section \<open>Compiling\<close>

definition make_store :: "size_of option \<Rightarrow> wasmer_store outcome" where
  "make_store memory_limit =
     (case memory_limit of Some limit \<Rightarrow> omap Some (limit_to_pages limit) | None \<Rightarrow> Done None)"

definition compile :: "'m wasmer \<Rightarrow> bytes \<Rightarrow> size_of option \<Rightarrow> 'm vm_result outcome" where
  "compile W code memory_limit =
     obind (make_store memory_limit) (\<lambda>store.
     Done (map_err vm_error_from_compile (wm_module_new W store code)))"

section \<open>The version of compiled modules\<close>

definition EXPECTED_MODULE_HEADER_PREFIX :: bytes where
  "EXPECTED_MODULE_HEADER_PREFIX = ascii ''wasmer-universalWASMER'' @ [0, 0]"

definition current_wasmer_module_header :: "'m wasmer \<Rightarrow> bytes outcome" where
  "current_wasmer_module_header W =
     obind (compile W [0x00, 0x61, 0x73, 0x6d, 0x01, 0x00, 0x00, 0x00] None) (\<lambda>r.
     obind (unwrap_ok r) (\<lambda>module.
     Done (take (16 + 16) (case wm_serialize W module of Inr bytes \<Rightarrow> bytes | Inl _ \<Rightarrow> []))))"

definition current_wasmer_module_version :: "'m wasmer \<Rightarrow> u32 outcome" where
  "current_wasmer_module_version W =
     obind (current_wasmer_module_header W) (\<lambda>header.
     if take (length EXPECTED_MODULE_HEADER_PREFIX) header \<noteq> EXPECTED_MODULE_HEADER_PREFIX
     then Panic ''Wasmer module format changed. Please update the expected version accordingly and bump MODULE_SERIALIZATION_VERSION.''
     else
       let metadata = drop (length header - 16) header
       in Done (from_le_bytes (take 4 (drop 8 metadata))))"

section \<open>The cache\<close>

record stats =
  hits_pinned_memory_cache :: u32
  hits_memory_cache :: u32
  hits_fs_cache :: u32
  misses :: u32

record metrics =
  me_stats :: stats
  elements_pinned_memory_cache :: nat
  elements_memory_cache :: nat
  size_pinned_memory_cache :: nat
  size_memory_cache :: nat

record file_system_cache =
  fsc_base_path :: path
  fsc_wasmer_module_version :: u32

record cache_options =
  co_base_dir :: path
  co_supported_features :: "string set"
  co_memory_cache_size :: size_of
  co_instance_memory_limit :: size_of

text \<open>
  \<open>Cache\<close> with its \<open>CacheInner\<close>. The pinned modules are a hash map, here an association list with
  distinct keys; \<open>ch_disk\<close> is the file system the cache works on.
\<close>

record ('m, 'l) cache =
  ch_supported_features :: "string set"
  ch_wasm_path :: path
  ch_instance_memory_limit :: size_of
  ch_pinned :: "(checksum \<times> 'm sized_module) list"
  ch_memory :: "'l option"
  ch_fs_cache :: file_system_cache
  ch_stats :: stats
  ch_disk :: disk

type_synonym ('m, 'l, 'a) cache_prog = "(('m, 'l) cache, vm_error, 'a) prog"

text \<open>An access to the disk as a program on the cache; a failure becomes a cache error.\<close>

definition on_disk :: "string \<Rightarrow> (disk \<Rightarrow> (string, 'a) result \<times> disk) \<Rightarrow> ('m, 'l, 'a) cache_prog" where
  "on_disk what access ch =
     (case access (ch_disk ch) of (r, d) \<Rightarrow> Done (map_err (\<lambda>e. VmCacheErr (what @ e)) r, ch\<lparr>ch_disk := d\<rparr>))"

definition plift_both :: "('e, 'a) result outcome \<Rightarrow> ('s, 'e, 'a) prog" where
  "plift_both m s = omap (\<lambda>r. (r, s)) m"

subsection \<open>Pinned modules\<close>

definition pinned_store :: "checksum \<Rightarrow> 'm \<Rightarrow> nat \<Rightarrow> ('m, 'l, unit) cache_prog" where
  "pinned_store c module n =
     pmodify (\<lambda>ch. ch\<lparr>ch_pinned := AList.update c \<lparr>sm_module = module, sm_size = n\<rparr> (ch_pinned ch)\<rparr>)"

definition pinned_remove :: "checksum \<Rightarrow> ('m, 'l, unit) cache_prog" where
  "pinned_remove c = pmodify (\<lambda>ch. ch\<lparr>ch_pinned := AList.delete c (ch_pinned ch)\<rparr>)"

definition pinned_load :: "checksum \<Rightarrow> ('m, 'l, 'm option) cache_prog" where
  "pinned_load c = preads (\<lambda>ch. map_option sm_module (map_of (ch_pinned ch) c))"

definition pinned_has :: "checksum \<Rightarrow> ('m, 'l) cache \<Rightarrow> bool" where
  "pinned_has c ch = (map_of (ch_pinned ch) c \<noteq> None)"

definition pinned_len :: "('m, 'l) cache \<Rightarrow> nat" where
  "pinned_len ch = length (ch_pinned ch)"

definition pinned_size :: "('m, 'l) cache \<Rightarrow> nat" where
  "pinned_size ch = sum_list (map (\<lambda>(_, module). sm_size module) (ch_pinned ch))"

subsection \<open>Modules in memory\<close>

definition MINIMUM_MODULE_SIZE :: size_of where
  "MINIMUM_MODULE_SIZE = size_kibi 250"

definition in_memory_new :: "('m, 'l) lru \<Rightarrow> size_of \<Rightarrow> 'l option" where
  "in_memory_new L sz =
     (let preallocated_entries = size_bytes sz div size_bytes MINIMUM_MODULE_SIZE in
      if size_bytes sz > 0 then Some (lru_with_config L (unat (size_bytes sz)) (unat preallocated_entries)) else None)"

definition in_memory_store :: "('m, 'l) lru \<Rightarrow> checksum \<Rightarrow> 'm \<Rightarrow> nat \<Rightarrow> ('m, 'l, unit) cache_prog" where
  "in_memory_store L c module n ch =
     (case ch_memory ch of
        None \<Rightarrow> Done (Inr (), ch)
      | Some modules \<Rightarrow>
          (case lru_put_with_weight L c \<lparr>sm_module = module, sm_size = n\<rparr> n modules of
             (r, modules') \<Rightarrow> Done (map_err VmCacheErr r, ch\<lparr>ch_memory := Some modules'\<rparr>)))"

definition in_memory_load :: "('m, 'l) lru \<Rightarrow> checksum \<Rightarrow> ('m, 'l, 'm sized_module option) cache_prog" where
  "in_memory_load L c ch =
     (case ch_memory ch of
        None \<Rightarrow> Done (Inr None, ch)
      | Some modules \<Rightarrow>
          (case lru_get L c modules of (found, modules') \<Rightarrow> Done (Inr found, ch\<lparr>ch_memory := Some modules'\<rparr>)))"

definition in_memory_len :: "('m, 'l) lru \<Rightarrow> ('m, 'l) cache \<Rightarrow> nat" where
  "in_memory_len L ch = (case ch_memory ch of None \<Rightarrow> 0 | Some modules \<Rightarrow> lru_len L modules)"

definition in_memory_size :: "('m, 'l) lru \<Rightarrow> ('m, 'l) cache \<Rightarrow> nat" where
  "in_memory_size L ch = (case ch_memory ch of None \<Rightarrow> 0 | Some modules \<Rightarrow> lru_weight L modules)"

subsection \<open>Modules on disk\<close>

definition MODULE_SERIALIZATION_VERSION :: string where
  "MODULE_SERIALIZATION_VERSION = ''v3''"

text \<open>\<open>FileSystemCache::new\<close>; \<open>show_path\<close> is \<open>Path::display\<close>.\<close>

definition show_path :: "path \<Rightarrow> string" where
  "show_path p = concat (map (\<lambda>name. CHR ''/'' # name) p)"

definition fs_cache_new :: "'m wasmer \<Rightarrow> path \<Rightarrow> disk \<Rightarrow> ((string, file_system_cache) result \<times> disk) outcome" where
  "fs_cache_new W p d =
     omap (\<lambda>wasmer_module_version.
       let self = \<lparr>fsc_base_path = p, fsc_wasmer_module_version = wasmer_module_version\<rparr> in
       case dk_nodes d p of
         Some (DirNode readonly) \<Rightarrow>
           if \<not> readonly then (Inr self, d) else (Inl (''the supplied path is readonly: '' @ show_path p), d)
       | Some (FileNode _) \<Rightarrow> (Inl (''the supplied path already points to a file: '' @ show_path p), d)
       | None \<Rightarrow> (case fs_create_dir_all p d of (r, d') \<Rightarrow> (map_ok (\<lambda>_. self) r, d')))
     (current_wasmer_module_version W)"

definition latest_modules_path :: "file_system_cache \<Rightarrow> path" where
  "latest_modules_path self =
     path_join (fsc_base_path self)
       (MODULE_SERIALIZATION_VERSION @ ''-wasmer'' @ show_nat (unat (fsc_wasmer_module_version self)))"

definition fs_cache_load :: "'m wasmer \<Rightarrow> checksum \<Rightarrow> wasmer_store \<Rightarrow> ('m, 'l, 'm option) cache_prog" where
  "fs_cache_load W c store ch =
     (let file_path = path_join (latest_modules_path (ch_fs_cache ch)) (checksum_to_hex c) in
      case wm_deserialize_from_file W store file_path (ch_disk ch) of
        (Inr module, d) \<Rightarrow> Done (Inr (Some module), ch\<lparr>ch_disk := d\<rparr>)
      | (Inl DeserializeNotFound, d) \<Rightarrow> Done (Inr None, ch\<lparr>ch_disk := d\<rparr>)
      | (Inl (DeserializeIo e), d) \<Rightarrow> Done (Inl (VmCacheErr (''Error opening module file: '' @ e)), ch\<lparr>ch_disk := d\<rparr>)
      | (Inl (DeserializeOther e), d) \<Rightarrow> Done (Inl (VmCacheErr (''Error deserializing module: '' @ e)), ch\<lparr>ch_disk := d\<rparr>))"

definition fs_cache_store :: "'m wasmer \<Rightarrow> checksum \<Rightarrow> 'm \<Rightarrow> ('m, 'l, unit) cache_prog" where
  "fs_cache_store W c module =
     pbind (preads ch_fs_cache) (\<lambda>self.
     let modules_dir = latest_modules_path self in
     pbind (on_disk ''Error creating directory: '' (fs_create_dir_all modules_dir)) (\<lambda>_.
     on_disk ''Error writing module to disk: ''
       (wm_serialize_to_file W module (path_join modules_dir (checksum_to_hex c)))))"

subsection \<open>Wasm code on disk\<close>

definition save_wasm_to_disk :: "(bytes \<Rightarrow> bytes) \<Rightarrow> path \<Rightarrow> bytes \<Rightarrow> ('m, 'l, checksum) cache_prog" where
  "save_wasm_to_disk sha256 dir wasm =
     (let c = checksum_generate sha256 wasm;
          filepath = path_join dir (checksum_to_hex c)
      in pbind (on_disk ''Error opening Wasm file for writing: '' (fs_open_write filepath)) (\<lambda>_.
         pbind (on_disk ''Error writing Wasm file: '' (fs_write_all filepath wasm)) (\<lambda>_.
         preturn c)))"

definition load_wasm_from_disk :: "path \<Rightarrow> checksum \<Rightarrow> ('m, 'l, bytes) cache_prog" where
  "load_wasm_from_disk dir c =
     (let p = path_join dir (checksum_to_hex c) in
      pbind (on_disk ''Error opening Wasm file for reading: '' (fs_open_read p)) (\<lambda>_.
      on_disk ''Error reading Wasm file: '' (fs_read_to_end p)))"

subsection \<open>Operations\<close>

record analysis_report =
  ar_has_ibc_entry_points :: bool
  ar_required_features :: "string set"

fun create_dirs :: "path list \<Rightarrow> disk \<Rightarrow> unit vm_result \<times> disk" where
  "create_dirs [] d = (Inr (), d)"
| "create_dirs (p # ps) d =
     (case fs_create_dir_all p d of
        (Inl e, d') \<Rightarrow> (Inl (VmCacheErr (''Error creating directory '' @ show_path p @ '': '' @ e)), d')
      | (Inr _, d') \<Rightarrow> create_dirs ps d')"

definition cache_new :: "('p, 'm, 'l) platform \<Rightarrow> cache_options \<Rightarrow> disk \<Rightarrow> (('m, 'l) cache vm_result \<times> disk) outcome" where
  "cache_new F options d =
     (let state_path = path_join (co_base_dir options) ''state'';
          cache_path = path_join (co_base_dir options) ''cache'';
          wasm_path = path_join state_path ''wasm''
      in case create_dirs [state_path, cache_path, wasm_path] d of
           (Inl e, d) \<Rightarrow> Done (Inl e, d)
         | (Inr _, d) \<Rightarrow>
             obind (fs_cache_new (pf_wasmer F) (path_join cache_path ''modules'') d) (\<lambda>(r, d).
             case r of
               Inl e \<Rightarrow> Done (Inl (VmCacheErr (''Error file system cache: '' @ e)), d)
             | Inr fs_cache \<Rightarrow>
                 Done (Inr \<lparr>ch_supported_features = co_supported_features options, ch_wasm_path = wasm_path,
                   ch_instance_memory_limit = co_instance_memory_limit options, ch_pinned = [],
                   ch_memory = in_memory_new (pf_lru F) (co_memory_cache_size options), ch_fs_cache = fs_cache,
                   ch_stats = \<lparr>hits_pinned_memory_cache = 0, hits_memory_cache = 0, hits_fs_cache = 0, misses = 0\<rparr>,
                   ch_disk = d\<rparr>, d)))"

definition cache_stats :: "('m, 'l) cache \<Rightarrow> stats" where
  "cache_stats ch = ch_stats ch"

definition cache_metrics :: "('p, 'm, 'l) platform \<Rightarrow> ('m, 'l) cache \<Rightarrow> metrics" where
  "cache_metrics F ch =
     \<lparr>me_stats = ch_stats ch, elements_pinned_memory_cache = pinned_len ch,
      elements_memory_cache = in_memory_len (pf_lru F) ch, size_pinned_memory_cache = pinned_size ch,
      size_memory_cache = in_memory_size (pf_lru F) ch\<rparr>"

definition save_wasm :: "('p, 'm, 'l) platform \<Rightarrow> bytes \<Rightarrow> ('m, 'l, checksum) cache_prog" where
  "save_wasm F wasm =
     pbind (preads ch_supported_features) (\<lambda>supported_features.
     pbind (plift_both (check_wasm (pf_parser F) wasm supported_features)) (\<lambda>_.
     pbind (plift_both (compile (pf_wasmer F) wasm None)) (\<lambda>module.
     pbind (preads ch_wasm_path) (\<lambda>wasm_path.
     pbind (save_wasm_to_disk (pf_sha256 F) wasm_path wasm) (\<lambda>c.
     pbind (fs_cache_store (pf_wasmer F) c module) (\<lambda>_.
     preturn c))))))"

definition load_wasm :: "('p, 'm, 'l) platform \<Rightarrow> checksum \<Rightarrow> ('m, 'l, bytes) cache_prog" where
  "load_wasm F c =
     pbind (preads ch_wasm_path) (\<lambda>wasm_path.
     pbind (load_wasm_from_disk wasm_path c) (\<lambda>code.
     if checksum_generate (pf_sha256 F) code \<noteq> c then pfail VmIntegrityErr else preturn code))"

definition analyze :: "('p, 'm, 'l) platform \<Rightarrow> checksum \<Rightarrow> ('m, 'l, analysis_report) cache_prog" where
  "analyze F c =
     pbind (load_wasm F c) (\<lambda>wasm.
     pbind (plift (deserialize_wasm (pf_parser F) wasm)) (\<lambda>module.
     let exports = parity_exported_function_names (pf_parser F) module in
     preturn \<lparr>ar_has_ibc_entry_points = has_ibc_entry_points exports,
       ar_required_features = required_features_from_module exports\<rparr>))"

definition count_memory_hit :: "('m, 'l, unit) cache_prog" where
  "count_memory_hit = pmodify (\<lambda>ch. ch\<lparr>ch_stats := (ch_stats ch)\<lparr>hits_memory_cache := hits_memory_cache (ch_stats ch) + 1\<rparr>\<rparr>)"

definition count_pinned_hit :: "('m, 'l, unit) cache_prog" where
  "count_pinned_hit = pmodify (\<lambda>ch. ch\<lparr>ch_stats :=
     (ch_stats ch)\<lparr>hits_pinned_memory_cache := hits_pinned_memory_cache (ch_stats ch) + 1\<rparr>\<rparr>)"

definition count_fs_hit :: "('m, 'l, unit) cache_prog" where
  "count_fs_hit = pmodify (\<lambda>ch. ch\<lparr>ch_stats := (ch_stats ch)\<lparr>hits_fs_cache := hits_fs_cache (ch_stats ch) + 1\<rparr>\<rparr>)"

definition count_miss :: "('m, 'l, unit) cache_prog" where
  "count_miss = pmodify (\<lambda>ch. ch\<lparr>ch_stats := (ch_stats ch)\<lparr>misses := misses (ch_stats ch) + 1\<rparr>\<rparr>)"

definition pin :: "('p, 'm, 'l) platform \<Rightarrow> checksum \<Rightarrow> ('m, 'l, unit) cache_prog" where
  "pin F c =
     pbind (preads (pinned_has c)) (\<lambda>has.
     if has then preturn ()
     else
       pbind (in_memory_load (pf_lru F) c) (\<lambda>found.
       case found of
         Some module \<Rightarrow> pbind count_memory_hit (\<lambda>_. pinned_store c (sm_module module) (sm_size module))
       | None \<Rightarrow>
           pbind (preads ch_instance_memory_limit) (\<lambda>limit.
           pbind (plift_out (make_store (Some limit))) (\<lambda>store.
           pbind (fs_cache_load (pf_wasmer F) c store) (\<lambda>found.
           case found of
             Some module \<Rightarrow>
               pbind count_fs_hit (\<lambda>_. pinned_store c module (wm_size_of_val (pf_wasmer F) module))
           | None \<Rightarrow>
               pbind (load_wasm F c) (\<lambda>code.
               pbind (plift_both (compile (pf_wasmer F) code (Some limit))) (\<lambda>module.
               pbind (fs_cache_store (pf_wasmer F) c module) (\<lambda>_.
               pinned_store c module (wm_size_of_val (pf_wasmer F) module)))))))))"

definition unpin :: "checksum \<Rightarrow> ('m, 'l, unit) cache_prog" where
  "unpin c = pinned_remove c"

definition get_module :: "('p, 'm, 'l) platform \<Rightarrow> checksum \<Rightarrow> ('m, 'l, 'm) cache_prog" where
  "get_module F c =
     pbind (pinned_load c) (\<lambda>found.
     case found of
       Some module \<Rightarrow> pbind count_pinned_hit (\<lambda>_. preturn module)
     | None \<Rightarrow>
         pbind (in_memory_load (pf_lru F) c) (\<lambda>found.
         case found of
           Some module \<Rightarrow> pbind count_memory_hit (\<lambda>_. preturn (sm_module module))
         | None \<Rightarrow>
             pbind (preads ch_instance_memory_limit) (\<lambda>limit.
             pbind (plift_out (make_store (Some limit))) (\<lambda>store.
             pbind (fs_cache_load (pf_wasmer F) c store) (\<lambda>found.
             case found of
               Some module \<Rightarrow>
                 pbind count_fs_hit (\<lambda>_.
                 pbind (in_memory_store (pf_lru F) c module (wm_size_of_val (pf_wasmer F) module)) (\<lambda>_.
                 preturn module))
             | None \<Rightarrow>
                 pbind (load_wasm F c) (\<lambda>wasm.
                 pbind count_miss (\<lambda>_.
                 pbind (plift_both (compile (pf_wasmer F) wasm (Some limit))) (\<lambda>module.
                 pbind (fs_cache_store (pf_wasmer F) c module) (\<lambda>_.
                 pbind (in_memory_store (pf_lru F) c module (wm_size_of_val (pf_wasmer F) module)) (\<lambda>_.
                 preturn module))))))))))"

definition get_instance ::
  "('p, 'm, 'l) platform \<Rightarrow> ('s, 'q, 'w, 'r) host \<Rightarrow> ('m \<Rightarrow> ('s, 'q, 'w) import_object \<Rightarrow> (string, 'w) result) \<Rightarrow>
    checksum \<Rightarrow> 's \<Rightarrow> 'q \<Rightarrow> instance_options \<Rightarrow> ('m, 'l, ('s, 'q, 'w) context_data) cache_prog" where
  "get_instance F H instantiate_module c storage querier options =
     pbind (get_module F c) (\<lambda>module.
     plift_both (instance_from_module H instantiate_module module storage querier (io_gas_limit options) []))"

end
