(* ===== verification/Cache_Safety.thy ===== *)
theory Cache_Safety
  imports VM_Cache
begin

text \<open>
  What holds of the module cache after any sequence of operations and whatever accesses to the disk
  fail: every module it hands out was compiled from the code with the requested checksum and has
  the memory limit of the cache, code once saved is read back, and a pinned module stays available.
\<close>

section \<open>Invariants of programs\<close>

text \<open>
  \<open>keeps I p Q\<close>: from a state with the invariant, the program ends in one, also when it fails, and
  a value it returns satisfies \<open>Q\<close>.
\<close>

definition keeps :: "('s \<Rightarrow> bool) \<Rightarrow> ('s, 'e, 'a) prog \<Rightarrow> ('a \<Rightarrow> bool) \<Rightarrow> bool" where
  "keeps I p Q \<longleftrightarrow> (\<forall>s r s'. I s \<longrightarrow> p s = Done (r, s') \<longrightarrow> I s' \<and> (\<forall>x. r = Inr x \<longrightarrow> Q x))"

named_theorems keeps_rules \<open>programs that keep an invariant\<close>

lemma keepsD: "keeps I p Q \<Longrightarrow> I s \<Longrightarrow> p s = Done (r, s') \<Longrightarrow> I s'"
  "keeps I p Q \<Longrightarrow> I s \<Longrightarrow> p s = Done (Inr x, s') \<Longrightarrow> Q x"
  unfolding keeps_def by blast+

lemma keeps_bind: "keeps I p Q \<Longrightarrow> (\<And>x. Q x \<Longrightarrow> keeps I (f x) R) \<Longrightarrow> keeps I (pbind p f) R"
  unfolding keeps_def pbind_eq_Done_iff by blast

lemma keeps_weaken: "keeps I p Q \<Longrightarrow> (\<And>x. Q x \<Longrightarrow> R x) \<Longrightarrow> keeps I p R"
  unfolding keeps_def by blast

lemma keeps_pure:
  "Q x \<Longrightarrow> keeps I (preturn x) Q" "keeps I (pfail e) Q" "keeps I (ppanic msg) Q"
  "(\<And>x. r = Inr x \<Longrightarrow> Q x) \<Longrightarrow> keeps I (plift r) Q"
  "(\<And>x. m = Done (Inr x) \<Longrightarrow> Q x) \<Longrightarrow> keeps I (plift_both m) Q"
  "(\<And>x. out = Done x \<Longrightarrow> Q x) \<Longrightarrow> keeps I (plift_out out) Q"
  by (auto simp: keeps_def plift_both_def omap_eq_Done_iff plift_out_eq_Done_iff)

lemma keeps_reads: "(\<And>s. I s \<Longrightarrow> Q (g s)) \<Longrightarrow> keeps I (preads g) Q"
  by (auto simp: keeps_def)

lemma keeps_modify: "(\<And>s. I s \<Longrightarrow> I (h s)) \<Longrightarrow> keeps I (pmodify h) (\<lambda>_. True)"
  by (auto simp: keeps_def)

section \<open>What the code relies on\<close>

text \<open>
  wasmer: a module knows the code it was compiled from (\<open>code_of\<close>) and the limit of its store.
  Writing a compiled module changes only its file. \<open>artifact\<close> is the code in a file from which a
  module can be loaded; after a write, failed or not, that is the code of the new module or the file
  is as before, which is the assumption on the disk that \<open>Cache::new\<close> documents.
\<close>

locale wasmer_laws =
  fixes W :: "'m wasmer" and code_of :: "'m \<Rightarrow> bytes" and limit_of :: "'m \<Rightarrow> wasmer_store"
    and artifact :: "bytes \<Rightarrow> bytes option"
  assumes module_new: "wm_module_new W st code = Inr m \<Longrightarrow> code_of m = code \<and> limit_of m = st"
    and serialize_frame: "wm_serialize_to_file W m p d = (r, d') \<Longrightarrow> q \<noteq> p \<Longrightarrow> dk_nodes d' q = dk_nodes d q"
    and serialize_file: "wm_serialize_to_file W m p d = (r, d') \<Longrightarrow> file_at d' p = Some bs \<Longrightarrow>
      artifact bs = Some code \<Longrightarrow> code = code_of m \<or> file_at d p = Some bs"
    and deserialize_file: "wm_deserialize_from_file W st p d = (Inr m, d') \<Longrightarrow>
      \<exists>bs. file_at d p = Some bs \<and> artifact bs = Some (code_of m) \<and> limit_of m = st"
    and deserialize_disk: "wm_deserialize_from_file W st p d = (x, d') \<Longrightarrow> dk_nodes d' = dk_nodes d"

text \<open>clru: the cache holds only what was put into it.\<close>

locale lru_laws =
  fixes L :: "('m, 'l) lru" and entries :: "'l \<Rightarrow> checksum \<rightharpoonup> 'm sized_module"
  assumes lru_new: "entries (lru_with_config L cap n) c = None"
    and lru_put: "lru_put_with_weight L k v weight l = (r, l') \<Longrightarrow> entries l' c = Some u \<Longrightarrow>
      c = k \<and> u = v \<or> entries l c = Some u"
    and lru_get_found: "lru_get L k l = (Some u, l') \<Longrightarrow> entries l k = Some u"
    and lru_get_keeps: "lru_get L k l = (found, l') \<Longrightarrow> entries l' c = Some u \<Longrightarrow> entries l c = Some u"

section \<open>The disk\<close>

lemma next_fault_nodes [simp]: "next_fault d = (f, d') \<Longrightarrow> dk_nodes d' = dk_nodes d"
  by (auto simp: next_fault_def split: list.splits)

lemma file_at_cong: "dk_nodes d' p = dk_nodes d p \<Longrightarrow> file_at d' p = file_at d p"
  by (simp add: file_at_def)

lemma create_dir_all_files: "fs_create_dir_all p d = (r, d') \<Longrightarrow> file_at d' q = file_at d q"
  by (auto simp: fs_create_dir_all_def file_at_def map_add_def split: prod.splits option.splits if_splits dest!: next_fault_nodes)

lemma open_write_files:
  assumes "fs_open_write p d = (r, d')"
  shows "file_at d' q = file_at d q \<or> (q = p \<and> file_at d p = None \<and> file_at d' p = Some [])"
  using assms
  by (auto simp: fs_open_write_def file_at_def split: prod.splits option.splits node.splits if_splits dest!: next_fault_nodes)

lemma open_write_Ok: "fs_open_write p d = (Inr (), d') \<Longrightarrow> file_at d' p \<noteq> None"
  by (auto simp: fs_open_write_def file_at_def split: prod.splits option.splits node.splits if_splits)

lemma file_at_update:
  "dk_nodes d' = (dk_nodes d)(p \<mapsto> FileNode x) \<Longrightarrow> file_at d' q = (if q = p then Some x else file_at d q)"
  by (simp add: file_at_def)

lemma write_all_cases:
  assumes "fs_write_all p data d = (r, d')"
  obtains (no_file) "file_at d p = None" "dk_nodes d' = dk_nodes d" "r \<noteq> Inr ()"
    | (one) old k where "file_at d p = Some old" "r = Inr () \<Longrightarrow> take k data = data"
      "dk_nodes d' = (dk_nodes d)(p \<mapsto> FileNode (overwrite (take k data) old))"
proof -
  obtain fault d1 where d1: "next_fault d = (fault, d1)" by (cases "next_fault d")
  then have nodes: "dk_nodes d1 = dk_nodes d" by simp
  then have files: "file_at d1 p = file_at d p" by (simp add: file_at_def)
  show thesis
  proof (cases "file_at d p")
    case None
    then show thesis using assms nodes no_file by (auto simp: fs_write_all_def d1 files)
  next
    case (Some old)
    then show thesis
    proof (cases fault)
      case None
      with Some show thesis using assms nodes by (auto simp: fs_write_all_def d1 files intro!: one [of old "length data"])
    next
      case (Some f)
      with \<open>file_at d p = Some old\<close> show thesis
        using assms nodes by (cases f) (auto simp: fs_write_all_def d1 files intro!: one [of old "fst f"])
    qed
  qed
qed

lemma read_nodes:
  "fs_open_read p d = (r, d') \<Longrightarrow> dk_nodes d' = dk_nodes d"
  "fs_read_to_end p d = (x, d') \<Longrightarrow> dk_nodes d' = dk_nodes d"
  by (auto simp: fs_open_read_def fs_read_to_end_def split: prod.splits option.splits if_splits)

lemma read_to_end_Ok: "fs_read_to_end p d = (Inr bs, d') \<Longrightarrow> file_at d p = Some bs"
  by (auto simp: fs_read_to_end_def file_at_def split: prod.splits option.splits dest!: next_fault_nodes)

section \<open>Modules are authentic\<close>

definition modules_file :: "('m, 'l) cache \<Rightarrow> checksum \<Rightarrow> path" where
  "modules_file ch c = path_join (latest_modules_path (ch_fs_cache ch)) (checksum_to_hex c)"

definition wasm_file :: "('m, 'l) cache \<Rightarrow> checksum \<Rightarrow> path" where
  "wasm_file ch c = path_join (ch_wasm_path ch) (checksum_to_hex c)"

lemma path_join_eq_iff [simp]: "path_join p a = path_join q b \<longleftrightarrow> p = q \<and> a = b"
  by (auto simp: path_join_def)

locale cache_platform = wasmer_laws "pf_wasmer F" code_of limit_of artifact + lru_laws "pf_lru F" entries
  for F :: "('p, 'm, 'l) platform" and code_of :: "'m \<Rightarrow> bytes" and limit_of :: "'m \<Rightarrow> wasmer_store"
    and artifact :: "bytes \<Rightarrow> bytes option" and entries :: "'l \<Rightarrow> checksum \<rightharpoonup> 'm sized_module"
begin

definition of_checksum :: "checksum \<Rightarrow> bytes \<Rightarrow> bool" where
  "of_checksum c code \<longleftrightarrow> checksum_generate (pf_sha256 F) code = c"

definition authentic :: "size_of \<Rightarrow> checksum \<Rightarrow> 'm \<Rightarrow> bool" where
  "authentic limit c m \<longleftrightarrow> of_checksum c (code_of m) \<and> make_store (Some limit) = Done (limit_of m)"

definition artifacts_ok :: "('m, 'l) cache \<Rightarrow> bool" where
  "artifacts_ok ch \<longleftrightarrow>
     (\<forall>c bs code. file_at (ch_disk ch) (modules_file ch c) = Some bs \<longrightarrow> artifact bs = Some code \<longrightarrow> of_checksum c code)"

text \<open>The invariant, for a cache whose immutable parts are those of \<open>ch0\<close>.\<close>

definition cache_inv :: "('m, 'l) cache \<Rightarrow> ('m, 'l) cache \<Rightarrow> bool" where
  "cache_inv ch0 ch \<longleftrightarrow>
     ch_wasm_path ch = ch_wasm_path ch0 \<and> ch_fs_cache ch = ch_fs_cache ch0 \<and>
     ch_instance_memory_limit ch = ch_instance_memory_limit ch0 \<and>
     ch_wasm_path ch0 \<noteq> latest_modules_path (ch_fs_cache ch0) \<and>
     (\<forall>c sm. map_of (ch_pinned ch) c = Some sm \<longrightarrow> authentic (ch_instance_memory_limit ch0) c (sm_module sm)) \<and>
     (\<forall>l c sm. ch_memory ch = Some l \<longrightarrow> entries l c = Some sm \<longrightarrow>
        authentic (ch_instance_memory_limit ch0) c (sm_module sm)) \<and>
     artifacts_ok ch"

lemma artifacts_ok_cong:
  assumes "artifacts_ok ch" "ch_fs_cache ch' = ch_fs_cache ch"
    and "\<And>c. file_at (ch_disk ch') (modules_file ch c) = file_at (ch_disk ch) (modules_file ch c)"
  shows "artifacts_ok ch'"
proof -
  have "modules_file ch' = modules_file ch" using assms(2) by (simp add: modules_file_def fun_eq_iff)
  then show ?thesis using assms(1,3) by (simp add: artifacts_ok_def)
qed

lemma cache_inv_stats: "cache_inv ch0 ch \<Longrightarrow> cache_inv ch0 (ch\<lparr>ch_stats := st\<rparr>)"
  by (simp add: cache_inv_def artifacts_ok_def modules_file_def)

lemma keeps_counts:
  "keeps (cache_inv ch0) count_memory_hit (\<lambda>_. True)" "keeps (cache_inv ch0) count_pinned_hit (\<lambda>_. True)"
  "keeps (cache_inv ch0) count_fs_hit (\<lambda>_. True)" "keeps (cache_inv ch0) count_miss (\<lambda>_. True)"
  unfolding count_memory_hit_def count_pinned_hit_def count_fs_hit_def count_miss_def
  by (intro keeps_modify cache_inv_stats; assumption)+

lemma keeps_on_disk:
  assumes "\<And>d r d' ch. cache_inv ch0 ch \<Longrightarrow> access d = (r, d') \<Longrightarrow>
      (\<forall>c. file_at d' (modules_file ch0 c) = file_at d (modules_file ch0 c)) \<and> (\<forall>x. r = Inr x \<longrightarrow> Q x)"
  shows "keeps (cache_inv ch0) (on_disk what access) Q"
  unfolding keeps_def
proof (intro allI impI)
  fix ch r ch' assume inv: "cache_inv ch0 ch" and run: "on_disk what access ch = Done (r, ch')"
  obtain r1 d' where acc: "access (ch_disk ch) = (r1, d')" by fastforce
  then have r: "r = map_err (\<lambda>e. VmCacheErr (what @ e)) r1" and ch': "ch' = ch\<lparr>ch_disk := d'\<rparr>"
    using run by (auto simp: on_disk_def)
  have mf: "modules_file ch = modules_file ch0" using inv by (simp add: cache_inv_def modules_file_def fun_eq_iff)
  have "artifacts_ok ch'"
    using assms [OF inv acc] inv mf by (intro artifacts_ok_cong [of ch ch']) (auto simp: ch' cache_inv_def)
  then have "cache_inv ch0 ch'" using inv by (simp add: cache_inv_def ch')
  then show "cache_inv ch0 ch' \<and> (\<forall>x. r = Inr x \<longrightarrow> Q x)"
    using assms [OF inv acc] by (simp add: r map_err_eq_Ok_iff)
qed

lemma keeps_pinned_store:
  "authentic (ch_instance_memory_limit ch0) c m \<Longrightarrow> keeps (cache_inv ch0) (pinned_store c m n) (\<lambda>_. True)"
  unfolding pinned_store_def
  by (rule keeps_modify) (auto simp: cache_inv_def update_conv artifacts_ok_def modules_file_def)

lemma keeps_unpin: "keeps (cache_inv ch0) (unpin c) (\<lambda>_. True)"
  unfolding unpin_def pinned_remove_def
  by (rule keeps_modify) (auto simp: cache_inv_def delete_conv artifacts_ok_def modules_file_def split: if_splits)

lemma keeps_pinned_load:
  "keeps (cache_inv ch0) (pinned_load c) (\<lambda>found. \<forall>m. found = Some m \<longrightarrow> authentic (ch_instance_memory_limit ch0) c m)"
  unfolding pinned_load_def by (rule keeps_reads) (auto simp: cache_inv_def)

lemma keeps_in_memory_load:
  "keeps (cache_inv ch0) (in_memory_load (pf_lru F) c)
     (\<lambda>found. \<forall>sm. found = Some sm \<longrightarrow> authentic (ch_instance_memory_limit ch0) c (sm_module sm))"
  unfolding keeps_def in_memory_load_def
  by (auto simp: cache_inv_def artifacts_ok_def modules_file_def split: option.splits prod.splits
      dest: lru_get_found lru_get_keeps)

lemma keeps_in_memory_store:
  assumes "authentic (ch_instance_memory_limit ch0) c m"
  shows "keeps (cache_inv ch0) (in_memory_store (pf_lru F) c m n) (\<lambda>_. True)"
  unfolding keeps_def in_memory_store_def using assms
  by (auto simp: cache_inv_def artifacts_ok_def modules_file_def split: option.splits prod.splits dest!: lru_put)

end

context cache_platform
begin

lemma keeps_fs_cache_load:
  assumes "make_store (Some (ch_instance_memory_limit ch0)) = Done st"
  shows "keeps (cache_inv ch0) (fs_cache_load (pf_wasmer F) c st)
    (\<lambda>found. \<forall>m. found = Some m \<longrightarrow> authentic (ch_instance_memory_limit ch0) c m)"
  unfolding keeps_def
proof (intro allI impI)
  fix ch r ch' assume inv: "cache_inv ch0 ch" and run: "fs_cache_load (pf_wasmer F) c st ch = Done (r, ch')"
  obtain r1 d' where acc: "wm_deserialize_from_file (pf_wasmer F) st (modules_file ch c) (ch_disk ch) = (r1, d')"
    by fastforce
  have ch': "ch' = ch\<lparr>ch_disk := d'\<rparr>" and r: "\<And>m. r = Inr (Some m) \<Longrightarrow> r1 = Inr m"
    using run acc unfolding fs_cache_load_def modules_file_def Let_def
    by (cases r1; auto split: deserialize_error.splits)+
  have "artifacts_ok ch'"
    using inv deserialize_disk [OF acc] by (intro artifacts_ok_cong [of ch ch']) (auto simp: ch' cache_inv_def file_at_def)
  then have "cache_inv ch0 ch'" using inv by (simp add: cache_inv_def ch')
  moreover have "authentic (ch_instance_memory_limit ch0) c m" if found: "r = Inr (Some m)" for m
  proof -
    obtain bs where "file_at (ch_disk ch) (modules_file ch c) = Some bs" "artifact bs = Some (code_of m)" "limit_of m = st"
      using deserialize_file acc r [OF found] by blast
    then show ?thesis using inv assms by (auto simp: cache_inv_def artifacts_ok_def authentic_def)
  qed
  ultimately show "cache_inv ch0 ch' \<and> (\<forall>x. r = Inr x \<longrightarrow> (\<forall>m. x = Some m \<longrightarrow> authentic (ch_instance_memory_limit ch0) c m))"
    by blast
qed

lemma keeps_serialize:
  assumes "of_checksum c (code_of m)" "p = modules_file ch0 c"
  shows "keeps (cache_inv ch0) (on_disk what (wm_serialize_to_file (pf_wasmer F) m p)) (\<lambda>_. True)"
  unfolding keeps_def
proof (intro allI impI)
  fix ch r ch' assume inv: "cache_inv ch0 ch" and run: "on_disk what (wm_serialize_to_file (pf_wasmer F) m p) ch = Done (r, ch')"
  obtain r1 d' where acc: "wm_serialize_to_file (pf_wasmer F) m p (ch_disk ch) = (r1, d')" by fastforce
  have ch': "ch' = ch\<lparr>ch_disk := d'\<rparr>" using run acc by (simp add: on_disk_def)
  have mf: "modules_file ch' = modules_file ch0" "modules_file ch = modules_file ch0"
    using inv by (simp_all add: ch' cache_inv_def modules_file_def fun_eq_iff)
  have "of_checksum x code"
    if fl: "file_at d' (modules_file ch0 x) = Some bs" and art: "artifact bs = Some code" for x bs code
  proof (cases "x = c")
    case True
    with fl have "file_at d' p = Some bs" by (simp add: assms(2))
    from serialize_file [OF acc this art] show ?thesis
      using True inv assms art mf by (auto simp: cache_inv_def artifacts_ok_def)
  next
    case False
    then have "modules_file ch0 x \<noteq> p" using assms(2) checksum_to_hex_inj by (auto simp: modules_file_def)
    from file_at_cong [OF serialize_frame [OF acc this]] fl
    have "file_at (ch_disk ch) (modules_file ch x) = Some bs" by (simp add: mf)
    moreover have "artifacts_ok ch" using inv by (simp add: cache_inv_def)
    ultimately show ?thesis using art unfolding artifacts_ok_def by blast
  qed
  then have "artifacts_ok ch'" unfolding artifacts_ok_def mf by (simp add: ch')
  then show "cache_inv ch0 ch' \<and> (\<forall>x. r = Inr x \<longrightarrow> True)" using inv by (simp add: cache_inv_def ch')
qed

lemma keeps_fs_cache_store:
  assumes "of_checksum c (code_of m)"
  shows "keeps (cache_inv ch0) (fs_cache_store (pf_wasmer F) c m) (\<lambda>_. True)"
  unfolding fs_cache_store_def Let_def
  by (rule keeps_bind [where Q = "\<lambda>self. self = ch_fs_cache ch0"], rule keeps_reads, simp add: cache_inv_def,
      rule keeps_bind [where Q = "\<lambda>_. True"], rule keeps_on_disk, simp add: create_dir_all_files,
      rule keeps_serialize) (simp_all add: assms modules_file_def)

lemma keeps_reads_config:
  "keeps (cache_inv ch0) (preads ch_wasm_path) (\<lambda>p. p = ch_wasm_path ch0)"
  "keeps (cache_inv ch0) (preads ch_instance_memory_limit) (\<lambda>l. l = ch_instance_memory_limit ch0)"
  by (rule keeps_reads; simp add: cache_inv_def)+

lemma wasm_path_apart: "cache_inv ch0 ch \<Longrightarrow> modules_file ch0 c \<noteq> path_join (ch_wasm_path ch0) name"
  by (auto simp: cache_inv_def modules_file_def)

lemma keeps_load_wasm: "keeps (cache_inv ch0) (load_wasm F c) (of_checksum c)"
proof -
  have "keeps (cache_inv ch0) (load_wasm_from_disk dir c) (\<lambda>_. True)" for dir
    unfolding load_wasm_from_disk_def Let_def
    by (rule keeps_bind [where Q = "\<lambda>_. True"]; rule keeps_on_disk) (auto dest!: read_nodes simp: file_at_def)
  moreover have "keeps (cache_inv ch0)
      (if checksum_generate (pf_sha256 F) code \<noteq> c then pfail VmIntegrityErr else preturn code) (of_checksum c)" for code
    by (simp add: of_checksum_def keeps_pure del: prog_simps)
  ultimately show ?thesis
    unfolding load_wasm_def by (intro keeps_bind [OF keeps_reads_config(1)] keeps_bind [where Q = "\<lambda>_. True"])
qed

lemma keeps_save_wasm_to_disk:
  assumes "dir = ch_wasm_path ch0"
  shows "keeps (cache_inv ch0) (save_wasm_to_disk (pf_sha256 F) dir wasm) (\<lambda>c. of_checksum c wasm)"
  unfolding save_wasm_to_disk_def Let_def
proof (intro keeps_bind [where Q = "\<lambda>_. True"] keeps_on_disk keeps_pure)
  let ?p = "path_join dir (checksum_to_hex (checksum_generate (pf_sha256 F) wasm))"
  fix d r d' ch assume inv: "cache_inv ch0 ch"
  then have ne: "modules_file ch0 c \<noteq> ?p" for c using wasm_path_apart assms by simp
  show "(\<forall>c. file_at d' (modules_file ch0 c) = file_at d (modules_file ch0 c)) \<and> (\<forall>x. r = Inr x \<longrightarrow> True)"
    if "fs_open_write ?p d = (r, d')" using open_write_files [OF that] ne by blast
  show "(\<forall>c. file_at d' (modules_file ch0 c) = file_at d (modules_file ch0 c)) \<and> (\<forall>x. r = Inr x \<longrightarrow> True)"
    if "fs_write_all ?p wasm d = (r, d')"
    using that by (cases rule: write_all_cases) (use ne in \<open>auto simp: file_at_update file_at_def\<close>)
qed (simp add: of_checksum_def)

lemma compile_code: "compile (pf_wasmer F) code (Some limit) = Done (Inr m) \<Longrightarrow> of_checksum c code \<Longrightarrow> authentic limit c m"
  by (auto simp: compile_def obind_eq_Done_iff map_err_eq_Ok_iff authentic_def dest!: module_new)

lemma keeps_save_wasm: "keeps (cache_inv ch0) (save_wasm F wasm) (\<lambda>c. of_checksum c wasm)"
proof -
  have "code_of m = wasm" if "compile (pf_wasmer F) wasm None = Done (Inr m)" for m
    using that by (auto simp: compile_def make_store_def map_err_eq_Ok_iff dest!: module_new)
  then show ?thesis
    unfolding save_wasm_def
    by (intro keeps_bind [where p = "preads ch_supported_features" and Q = "\<lambda>_. True"] keeps_reads
        keeps_bind [where p = "plift_both (check_wasm _ _ _)" and Q = "\<lambda>_. True"]
        keeps_bind [where p = "plift_both (compile _ _ _)" and Q = "\<lambda>m. code_of m = wasm"] keeps_pure(5)
        keeps_bind [OF keeps_reads_config(1)] keeps_bind [OF keeps_save_wasm_to_disk]
        keeps_bind [OF keeps_fs_cache_store] keeps_pure(1)) simp_all
qed

lemma keeps_analyze: "keeps (cache_inv ch0) (analyze F c) (\<lambda>_. True)"
  unfolding analyze_def Let_def
  by (intro keeps_bind [OF keeps_load_wasm] keeps_bind [where p = "plift _" and Q = "\<lambda>_. True"] keeps_pure) simp_all

lemma keeps_make_store:
  "keeps (cache_inv ch0) (plift_out (make_store (Some limit))) (\<lambda>st. make_store (Some limit) = Done st)"
  by (rule keeps_pure(6))

lemma keeps_compile:
  "of_checksum c code \<Longrightarrow> keeps (cache_inv ch0) (plift_both (compile (pf_wasmer F) code (Some limit))) (authentic limit c)"
  by (rule keeps_pure(5)) (rule compile_code)

end

context cache_platform
begin

lemma keeps_option:
  assumes "\<And>m. found = Some m \<Longrightarrow> keeps I (f m) Q" "keeps I g Q"
  shows "keeps I (case found of Some m \<Rightarrow> f m | None \<Rightarrow> g) Q"
  using assms by (cases found) simp_all

lemma keeps_if: "keeps I p Q \<Longrightarrow> keeps I q Q \<Longrightarrow> keeps I (if b then p else q) Q"
  by simp

lemma authentic_checksum: "authentic limit c m \<Longrightarrow> of_checksum c (code_of m)"
  by (simp add: authentic_def)

lemma keeps_pin: "keeps (cache_inv ch0) (pin F c) (\<lambda>_. True)"
  unfolding pin_def
  by (rule keeps_bind [where Q = "\<lambda>_. True"], rule keeps_reads, simp, rule keeps_if, rule keeps_pure(1), simp,
      rule keeps_bind [OF keeps_in_memory_load], rule keeps_option,
      rule keeps_bind [OF keeps_counts(1)], rule keeps_pinned_store, blast,
      rule keeps_bind [OF keeps_reads_config(2)], clarify, rule keeps_bind [OF keeps_make_store],
      rule keeps_bind [OF keeps_fs_cache_load], assumption, rule keeps_option,
      rule keeps_bind [OF keeps_counts(3)], rule keeps_pinned_store, blast,
      rule keeps_bind [OF keeps_load_wasm], rule keeps_bind [OF keeps_compile], assumption,
      rule keeps_bind [OF keeps_fs_cache_store], erule authentic_checksum, erule keeps_pinned_store)

lemma keeps_get_module:
  "keeps (cache_inv ch0) (get_module F c) (authentic (ch_instance_memory_limit ch0) c)"
  unfolding get_module_def
  by (rule keeps_bind [OF keeps_pinned_load], rule keeps_option,
      rule keeps_bind [OF keeps_counts(2)], rule keeps_pure(1), blast,
      rule keeps_bind [OF keeps_in_memory_load], rule keeps_option,
      rule keeps_bind [OF keeps_counts(1)], rule keeps_pure(1), blast,
      rule keeps_bind [OF keeps_reads_config(2)], clarify, rule keeps_bind [OF keeps_make_store],
      rule keeps_bind [OF keeps_fs_cache_load], assumption, rule keeps_option,
      rule keeps_bind [OF keeps_counts(3)], rule keeps_bind [OF keeps_in_memory_store], blast,
      rule keeps_pure(1), blast,
      rule keeps_bind [OF keeps_load_wasm], rule keeps_bind [OF keeps_counts(4)],
      rule keeps_bind [OF keeps_compile], assumption,
      rule keeps_bind [OF keeps_fs_cache_store], erule authentic_checksum,
      rule keeps_bind [OF keeps_in_memory_store], assumption, rule keeps_pure(1), assumption)

end

section \<open>Sequences of operations\<close>

datatype cache_op =
    SaveWasm bytes | LoadWasm checksum | Analyze checksum | Pin checksum | Unpin checksum | GetModule checksum

definition pvoid :: "('s, 'e, 'a) prog \<Rightarrow> ('s, 'e, unit) prog" where
  "pvoid p = pbind p (\<lambda>_. preturn ())"

fun run_op :: "('p, 'm, 'l) platform \<Rightarrow> cache_op \<Rightarrow> ('m, 'l, unit) cache_prog" where
  "run_op F (SaveWasm wasm) = pvoid (save_wasm F wasm)"
| "run_op F (LoadWasm c) = pvoid (load_wasm F c)"
| "run_op F (Analyze c) = pvoid (analyze F c)"
| "run_op F (Pin c) = pin F c"
| "run_op F (Unpin c) = unpin c"
| "run_op F (GetModule c) = pvoid (get_module F c)"

text \<open>The operations in order; an error of one does not stop the next.\<close>

fun run_ops :: "('p, 'm, 'l) platform \<Rightarrow> cache_op list \<Rightarrow> ('m, 'l) cache \<Rightarrow> ('m, 'l) cache outcome" where
  "run_ops F [] ch = Done ch"
| "run_ops F (op # ops) ch = obind (run_op F op ch) (\<lambda>(_, ch'). run_ops F ops ch')"

lemma keeps_pvoid: "keeps I p Q \<Longrightarrow> keeps I (pvoid p) (\<lambda>_. True)"
  unfolding pvoid_def by (rule keeps_bind, assumption, rule keeps_pure(1), simp)

lemma run_ops_keep:
  assumes "run_ops F ops ch = Done ch'" "I ch" "\<And>op. op \<in> set ops \<Longrightarrow> keeps I (run_op F op) (\<lambda>_. True)"
  shows "I ch'"
  using assms
proof (induction ops arbitrary: ch)
  case (Cons op ops)
  then obtain r ch1 where step: "run_op F op ch = Done (r, ch1)" "run_ops F ops ch1 = Done ch'"
    by (auto simp: obind_eq_Done_iff)
  have "keeps I (run_op F op) (\<lambda>_. True)" using Cons.prems(3) by simp
  from keepsD(1) [OF this Cons.prems(2) step(1)] have "I ch1" .
  with Cons step show ?case by simp
qed simp

lemma fs_cache_new_base:
  assumes "fs_cache_new W p d = Done (Inr fs, d')"
  shows "fsc_base_path fs = p"
proof (cases "dk_nodes d p")
  case None
  obtain r d1 where "fs_create_dir_all p d = (r, d1)" by fastforce
  with None show ?thesis
    using assms by (cases r) (auto simp: fs_cache_new_def omap_eq_Done_iff)
next
  case (Some n)
  then show ?thesis using assms by (cases n) (auto simp: fs_cache_new_def omap_eq_Done_iff Let_def split: if_splits)
qed

context cache_platform
begin

lemma keeps_run_op: "keeps (cache_inv ch0) (run_op F op) (\<lambda>_. True)"
  by (cases op) (simp_all add: keeps_pvoid [OF keeps_save_wasm] keeps_pvoid [OF keeps_load_wasm]
      keeps_pvoid [OF keeps_analyze] keeps_pin keeps_unpin keeps_pvoid [OF keeps_get_module])

lemma cache_new_inv:
  assumes "cache_new F options d = Done (Inr ch, d')" "artifacts_ok ch"
  shows "cache_inv ch ch"
proof -
  let ?base = "co_base_dir options"
  obtain fs where fs: "fsc_base_path fs = path_join (path_join ?base ''cache'') ''modules''"
    and ch: "ch_wasm_path ch = path_join (path_join ?base ''state'') ''wasm''" "ch_pinned ch = []" "ch_fs_cache ch = fs"
      "ch_memory ch = in_memory_new (pf_lru F) (co_memory_cache_size options)"
    using assms(1) unfolding cache_new_def Let_def
    by (auto simp: obind_eq_Done_iff dest!: fs_cache_new_base split: prod.splits sum.splits)
  have "ch_wasm_path ch \<noteq> latest_modules_path (ch_fs_cache ch)"
    by (simp add: ch fs latest_modules_path_def path_join_def)
  moreover have "entries l c = None" if "ch_memory ch = Some l" for l c
    using that lru_new by (auto simp: ch in_memory_new_def Let_def split: if_splits)
  ultimately show ?thesis using assms(2) by (simp add: cache_inv_def ch(2))
qed

lemma authentic_limit: "authentic limit c m \<Longrightarrow>
  limit_of m = Some (word_of_nat (min (unat (size_bytes limit)) (2 ^ 32) div 65536))"
  by (simp add: authentic_def make_store_def limit_to_pages_eq)

theorem get_module_authentic:
  assumes "cache_new F options d = Done (Inr ch0, d')" "artifacts_ok ch0"
    and "run_ops F ops ch0 = Done ch" "get_module F c ch = Done (Inr m, ch')"
  shows "authentic (co_instance_memory_limit options) c m"
proof -
  have "cache_inv ch0 ch" by (rule run_ops_keep [OF assms(3) cache_new_inv [OF assms(1,2)] keeps_run_op])
  then have "authentic (ch_instance_memory_limit ch0) c m" using keepsD(2) [OF keeps_get_module _ assms(4)] by blast
  moreover have "ch_instance_memory_limit ch0 = co_instance_memory_limit options"
    using assms(1) unfolding cache_new_def Let_def
    by (auto simp: obind_eq_Done_iff split: prod.splits sum.splits)
  ultimately show ?thesis by simp
qed

end

section \<open>Saved code is read back\<close>

lemma overwrite_prefix: "prefix old w \<Longrightarrow> prefix (overwrite (take k w) old) w"
proof -
  assume "prefix old w"
  then obtain t where w: "w = old @ t" by (auto simp: prefix_def)
  show ?thesis
  proof (cases "length old \<le> k")
    case True
    then have "overwrite (take k w) old = take k w" by (simp add: overwrite_def w)
    then show ?thesis using take_is_prefix by metis
  next
    case False
    then have "overwrite (take k w) old = old" by (simp add: overwrite_def w)
    then show ?thesis by (simp add: w)
  qed
qed

lemma overwrite_all: "prefix old w \<Longrightarrow> overwrite w old = w"
  by (simp add: overwrite_def prefix_length_le)

lemma overwrite_self: "overwrite (take k w) w = w"
  by (cases "k \<le> length w") (simp_all add: overwrite_def min_def)

context cache_platform
begin

text \<open>
  For a set \<open>K\<close> of codes: a file in the directory of the wasm code is the beginning of the code with
  its checksum, and the codes of \<open>X\<close> are there as a whole.
\<close>

definition wasm_inv :: "('m, 'l) cache \<Rightarrow> bytes set \<Rightarrow> bytes set \<Rightarrow> ('m, 'l) cache \<Rightarrow> bool" where
  "wasm_inv ch0 K X ch \<longleftrightarrow>
     ch_wasm_path ch = ch_wasm_path ch0 \<and> ch_fs_cache ch = ch_fs_cache ch0 \<and>
     ch_wasm_path ch0 \<noteq> latest_modules_path (ch_fs_cache ch0) \<and>
     (\<forall>c bs. file_at (ch_disk ch) (wasm_file ch0 c) = Some bs \<longrightarrow> (\<exists>w \<in> K. of_checksum c w \<and> prefix bs w)) \<and>
     (\<forall>w \<in> X. file_at (ch_disk ch) (wasm_file ch0 (checksum_generate (pf_sha256 F) w)) = Some w)"

lemma wasm_inv_cong:
  assumes "wasm_inv ch0 K X ch" "ch_wasm_path ch' = ch_wasm_path ch" "ch_fs_cache ch' = ch_fs_cache ch"
    and "\<And>c. file_at (ch_disk ch') (wasm_file ch0 c) = file_at (ch_disk ch) (wasm_file ch0 c)"
  shows "wasm_inv ch0 K X ch'"
  using assms by (simp add: wasm_inv_def)

text \<open>Programs that do not touch those files.\<close>

definition untouched :: "('m, 'l) cache \<Rightarrow> ('m, 'l, 'a) cache_prog \<Rightarrow> bool" where
  "untouched ch0 p \<longleftrightarrow> (\<forall>K X. keeps (wasm_inv ch0 K X) p (\<lambda>_. True))"

lemma untouched_bind: "untouched ch0 p \<Longrightarrow> (\<And>x. untouched ch0 (f x)) \<Longrightarrow> untouched ch0 (pbind p f)"
  unfolding untouched_def by (blast intro: keeps_bind)

lemma untouched_pure:
  "untouched ch0 (preturn x)" "untouched ch0 (pfail e)" "untouched ch0 (plift r)" "untouched ch0 (plift_both m)"
  "untouched ch0 (plift_out out)" "untouched ch0 (preads g)"
  unfolding untouched_def by (auto intro!: keeps_pure keeps_reads simp del: prog_simps)

lemma untouched_branch:
  "untouched ch0 p \<Longrightarrow> untouched ch0 q \<Longrightarrow> untouched ch0 (if b then p else q)"
  "(\<And>m. untouched ch0 (f m)) \<Longrightarrow> untouched ch0 q \<Longrightarrow> untouched ch0 (case found of Some m \<Rightarrow> f m | None \<Rightarrow> q)"
  by (auto split: option.splits)

lemma untouchedI:
  assumes "\<And>ch r ch'. p ch = Done (r, ch') \<Longrightarrow> ch_wasm_path ch' = ch_wasm_path ch \<and> ch_fs_cache ch' = ch_fs_cache ch \<and>
    dk_nodes (ch_disk ch') = dk_nodes (ch_disk ch)"
  shows "untouched ch0 p"
  unfolding untouched_def keeps_def
proof (intro allI impI conjI)
  fix K X ch r ch' assume inv: "wasm_inv ch0 K X ch" and run: "p ch = Done (r, ch')"
  show "wasm_inv ch0 K X ch'"
    by (rule wasm_inv_cong [OF inv]) (use assms [OF run] in \<open>simp_all add: file_at_def\<close>)
qed simp

lemma untouched_simple:
  "untouched ch0 count_memory_hit" "untouched ch0 count_pinned_hit" "untouched ch0 count_fs_hit" "untouched ch0 count_miss"
  "untouched ch0 (pinned_store c m n)" "untouched ch0 (pinned_remove c)" "untouched ch0 (pinned_load c)"
  "untouched ch0 (in_memory_load (pf_lru F) c)" "untouched ch0 (in_memory_store (pf_lru F) c m n)"
  by (rule untouchedI;
      auto simp: count_memory_hit_def count_pinned_hit_def count_fs_hit_def count_miss_def pinned_store_def
        pinned_remove_def pinned_load_def in_memory_load_def in_memory_store_def split: option.splits prod.splits)+

lemma untouched_fs_cache_load: "untouched ch0 (fs_cache_load (pf_wasmer F) c st)"
  by (rule untouchedI)
    (auto simp: fs_cache_load_def Let_def dest!: deserialize_disk
      split: prod.splits sum.splits deserialize_error.splits)

lemma untouched_on_disk:
  assumes "\<And>d r d' c ch K X. wasm_inv ch0 K X ch \<Longrightarrow> access d = (r, d') \<Longrightarrow>
    file_at d' (wasm_file ch0 c) = file_at d (wasm_file ch0 c)"
  shows "untouched ch0 (on_disk what access)"
  unfolding untouched_def keeps_def
proof (intro allI impI conjI)
  fix K X ch r ch' assume inv: "wasm_inv ch0 K X ch" and run: "on_disk what access ch = Done (r, ch')"
  obtain r1 d' where acc: "access (ch_disk ch) = (r1, d')" by fastforce
  then have "ch' = ch\<lparr>ch_disk := d'\<rparr>" using run by (simp add: on_disk_def)
  then show "wasm_inv ch0 K X ch'" using assms [OF inv acc] by (intro wasm_inv_cong [OF inv]) simp_all
qed simp

lemma untouched_load_wasm: "untouched ch0 (load_wasm F c)"
  unfolding load_wasm_def load_wasm_from_disk_def Let_def
  by (intro untouched_bind untouched_pure untouched_branch untouched_on_disk)
    (auto dest!: read_nodes simp: file_at_def)

lemma untouched_fs_cache_store: "untouched ch0 (fs_cache_store (pf_wasmer F) c m)"
  unfolding untouched_def
proof (intro allI)
  fix K X
  have "untouched ch0 (on_disk what (fs_create_dir_all p))" for what p
    by (rule untouched_on_disk) (rule create_dir_all_files)
  then have dir: "keeps (wasm_inv ch0 K X) (on_disk what (fs_create_dir_all p)) (\<lambda>_. True)" for what p
    by (simp add: untouched_def)
  have "untouched ch0 (on_disk what (wm_serialize_to_file (pf_wasmer F) m (modules_file ch0 c)))" for what
  proof (rule untouched_on_disk)
    fix d r d' x ch K X
    assume "wasm_inv ch0 K X ch" and acc: "wm_serialize_to_file (pf_wasmer F) m (modules_file ch0 c) d = (r, d')"
    then have "wasm_file ch0 x \<noteq> modules_file ch0 c" by (auto simp: wasm_inv_def wasm_file_def modules_file_def)
    from file_at_cong [OF serialize_frame [OF acc this]]
    show "file_at d' (wasm_file ch0 x) = file_at d (wasm_file ch0 x)" .
  qed
  then have "keeps (wasm_inv ch0 K X) (on_disk what (wm_serialize_to_file (pf_wasmer F) m (modules_file ch0 c))) (\<lambda>_. True)" for what
    by (simp add: untouched_def)
  then show "keeps (wasm_inv ch0 K X) (fs_cache_store (pf_wasmer F) c m) (\<lambda>_. True)"
    unfolding fs_cache_store_def Let_def modules_file_def
    by (intro keeps_bind [where p = "preads ch_fs_cache" and Q = "\<lambda>self. self = ch_fs_cache ch0"] keeps_reads keeps_bind [OF dir])
      (simp_all add: wasm_inv_def)
qed

lemma untouched_run_op:
  assumes "\<And>w. op \<noteq> SaveWasm w"
  shows "untouched ch0 (run_op F op)"
proof (cases op)
  case (SaveWasm w)
  with assms show ?thesis by blast
qed (simp only: run_op.simps pvoid_def pin_def get_module_def analyze_def unpin_def Let_def;
    intro untouched_bind untouched_pure untouched_branch untouched_simple untouched_fs_cache_load
        untouched_fs_cache_store untouched_load_wasm)+

text \<open>Saving a code of \<open>K\<close>, when no two codes of \<open>K\<close> have the same checksum.\<close>

lemma save_wasm_to_disk_keeps:
  assumes inj: "inj_on (checksum_generate (pf_sha256 F)) K" and w: "w \<in> K" and X: "X \<subseteq> K"
    and inv: "wasm_inv ch0 K X ch" and dir: "dir = ch_wasm_path ch0"
    and run: "save_wasm_to_disk (pf_sha256 F) dir w ch = Done (r, ch')"
  shows "wasm_inv ch0 K X ch' \<and> (\<forall>c. r = Inr c \<longrightarrow> wasm_inv ch0 K (insert w X) ch')"
proof -
  let ?c = "checksum_generate (pf_sha256 F) w"
  define p where "p = wasm_file ch0 ?c"
  have p: "path_join dir (checksum_to_hex ?c) = p" by (simp add: p_def wasm_file_def dir)
  obtain r1 d1 where op: "fs_open_write p (ch_disk ch) = (r1, d1)" by fastforce
  have only: "wasm_file ch0 c = p \<longleftrightarrow> c = ?c" for c
    using checksum_to_hex_inj by (auto simp: p_def wasm_file_def)
  have pre: "prefix bs w" if f: "file_at (ch_disk ch) p = Some bs" for bs
  proof -
    obtain v where "v \<in> K" "of_checksum ?c v" "prefix bs v"
      using inv f unfolding wasm_inv_def p_def by blast
    then show ?thesis using inj w by (auto simp: of_checksum_def dest: inj_onD)
  qed
  have pre1: "prefix bs w" if "file_at d1 p = Some bs" for bs
    using open_write_files [OF op, of p] pre that by auto
  have inv1: "wasm_inv ch0 K X (ch\<lparr>ch_disk := d1\<rparr>)"
  proof -
    have "\<exists>v \<in> K. of_checksum c v \<and> prefix bs v" if "file_at d1 (wasm_file ch0 c) = Some bs" for c bs
    proof (cases "wasm_file ch0 c = p")
      case True
      with that pre1 only have "of_checksum c w" "prefix bs w" by (simp_all add: of_checksum_def)
      with w show ?thesis by blast
    next
      case False
      then show ?thesis using open_write_files [OF op, of "wasm_file ch0 c"] inv that by (simp add: wasm_inv_def)
    qed
    moreover have "file_at d1 (wasm_file ch0 (checksum_generate (pf_sha256 F) v)) = Some v" if "v \<in> X" for v
      using open_write_files [OF op, of "wasm_file ch0 (checksum_generate (pf_sha256 F) v)"] inv that
      by (auto simp: wasm_inv_def)
    ultimately show ?thesis using inv by (simp add: wasm_inv_def)
  qed
  show ?thesis
  proof (cases r1)
    case (Inl e)
    then have "r = Inl (VmCacheErr (''Error opening Wasm file for writing: '' @ e)) \<and> ch' = ch\<lparr>ch_disk := d1\<rparr>"
      using run by (simp add: save_wasm_to_disk_def Let_def p op on_disk_def pbind_def)
    then show ?thesis using inv1 by simp
  next
    case (Inr u)
    obtain r2 d2 where wr: "fs_write_all p w d1 = (r2, d2)" by fastforce
    have ch': "ch' = ch\<lparr>ch_disk := d2\<rparr>" and r: "\<And>c. r = Inr c \<Longrightarrow> r2 = Inr ()"
      using run by (cases r2; simp add: save_wasm_to_disk_def Let_def p op wr on_disk_def pbind_def Inr)+
    from Inr op obtain old where old: "file_at d1 p = Some old" using open_write_Ok by fastforce
    from wr show ?thesis
    proof (cases rule: write_all_cases)
      case no_file
      with old show ?thesis by simp
    next
      case (one old' k)
      then have k: "dk_nodes d2 = (dk_nodes d1)(p \<mapsto> FileNode (overwrite (take k w) old))" using old by simp
      note files = file_at_update [OF k]
      have "file_at d2 (wasm_file ch0 (checksum_generate (pf_sha256 F) v)) = Some v" if v: "v \<in> X" for v
      proof (cases "v = w")
        case True
        then have "old = w" using inv1 v old by (simp add: wasm_inv_def p_def)
        then show ?thesis using True by (simp add: files p_def overwrite_self)
      next
        case False
        then have "wasm_file ch0 (checksum_generate (pf_sha256 F) v) \<noteq> p"
          using inj w X v unfolding only by (auto dest: inj_onD)
        then show ?thesis using inv1 v by (simp add: files wasm_inv_def)
      qed
      moreover have "\<exists>v \<in> K. of_checksum c v \<and> prefix bs v" if "file_at d2 (wasm_file ch0 c) = Some bs" for c bs
      proof (cases "wasm_file ch0 c = p")
        case True
        then have "of_checksum c w" "prefix bs w"
          using that only overwrite_prefix [OF pre1 [OF old], of k] by (simp_all add: files of_checksum_def)
        with w show ?thesis by blast
      next
        case False
        then show ?thesis using inv1 that by (simp add: files wasm_inv_def)
      qed
      ultimately have "wasm_inv ch0 K X ch'" using inv1 by (simp add: wasm_inv_def ch')
      moreover have "file_at d2 p = Some w" if "r2 = Inr ()"
        using one(2) [OF that] overwrite_all [OF pre1 [OF old]] by (simp add: files)
      ultimately show ?thesis using r by (auto simp: wasm_inv_def ch' p_def)
    qed
  qed
qed

lemma save_wasm_keeps:
  assumes "inj_on (checksum_generate (pf_sha256 F)) K" "w \<in> K" "X \<subseteq> K"
    and inv: "wasm_inv ch0 K X ch" and run: "save_wasm F w ch = Done (r, ch')"
  shows "wasm_inv ch0 K X ch' \<and> (\<forall>c. r = Inr c \<longrightarrow> wasm_inv ch0 K (insert w X) ch' \<and> of_checksum c w)"
proof -
  have path: "ch_wasm_path ch = ch_wasm_path ch0" using inv by (simp add: wasm_inv_def)
  from run consider (early) e where "r = Inl e" "ch' = ch"
    | (failed) e where "save_wasm_to_disk (pf_sha256 F) (ch_wasm_path ch0) w ch = Done (Inl e, ch')" "r = Inl e"
    | (disk) c module ch1 where "save_wasm_to_disk (pf_sha256 F) (ch_wasm_path ch0) w ch = Done (Inr c, ch1)"
        "pbind (fs_cache_store (pf_wasmer F) c module) (\<lambda>_. preturn c) ch1 = Done (r, ch')"
    unfolding save_wasm_def by (fastforce simp: pbind_eq_Done_iff plift_both_def omap_eq_Done_iff path)
  then show ?thesis
  proof cases
    case early
    then show ?thesis using inv by simp
  next
    case failed
    then show ?thesis using save_wasm_to_disk_keeps [OF assms(1-3) inv refl] by blast
  next
    case disk
    have c: "of_checksum c w"
      using disk(1) by (auto simp: save_wasm_to_disk_def Let_def pbind_eq_Ok_iff of_checksum_def)
    from save_wasm_to_disk_keeps [OF assms(1-3) inv refl disk(1)]
    have inv1: "wasm_inv ch0 K X ch1" "wasm_inv ch0 K (insert w X) ch1" by simp_all
    have "untouched ch0 (pbind (fs_cache_store (pf_wasmer F) c module) (\<lambda>_. preturn c))"
      by (intro untouched_bind untouched_fs_cache_store untouched_pure)
    then have "wasm_inv ch0 K X ch'" "wasm_inv ch0 K (insert w X) ch'"
      using inv1 disk(2) unfolding untouched_def by (blast dest: keepsD(1))+
    moreover have "c' = c" if "r = Inr c'" for c' using disk(2) that by (auto simp: pbind_eq_Ok_iff)
    ultimately show ?thesis using c by blast
  qed
qed

lemma run_ops_wasm_inv:
  assumes "inj_on (checksum_generate (pf_sha256 F)) K" "X \<subseteq> K" "\<And>w. SaveWasm w \<in> set ops \<Longrightarrow> w \<in> K"
    and "run_ops F ops ch = Done ch'" "wasm_inv ch0 K X ch"
  shows "wasm_inv ch0 K X ch'"
proof (rule run_ops_keep [where I = "wasm_inv ch0 K X", OF assms(4,5)])
  fix op assume op: "op \<in> set ops"
  show "keeps (wasm_inv ch0 K X) (run_op F op) (\<lambda>_. True)"
  proof (cases "\<exists>w. op = SaveWasm w")
    case True
    then obtain w where w: "op = SaveWasm w" "w \<in> K" using op assms(3) by blast
    have "keeps (wasm_inv ch0 K X) (save_wasm F w) (\<lambda>_. True)"
      unfolding keeps_def using save_wasm_keeps [OF assms(1) w(2) assms(2)] by blast
    then show ?thesis using w(1) keeps_pvoid by fastforce
  next
    case False
    then show ?thesis using untouched_run_op unfolding untouched_def by blast
  qed
qed

end

lemma no_faults [simp]: "dk_faults d = [] \<Longrightarrow> next_fault d = (None, d)"
  by (simp add: next_fault_def)

lemma create_dirs_files: "create_dirs ps d = (r, d') \<Longrightarrow> file_at d' q = file_at d q"
proof (induction ps arbitrary: d)
  case (Cons p ps)
  obtain r1 d1 where d1: "fs_create_dir_all p d = (r1, d1)" by fastforce
  with Cons show ?case by (cases r1) (auto simp: create_dir_all_files)
qed simp

lemma fs_cache_new_files:
  assumes "fs_cache_new W p d = Done (r, d')"
  shows "file_at d' q = file_at d q"
proof (cases "dk_nodes d p")
  case None
  obtain r1 d1 where "fs_create_dir_all p d = (r1, d1)" by fastforce
  with None show ?thesis using assms by (auto simp: fs_cache_new_def omap_eq_Done_iff create_dir_all_files)
next
  case (Some n)
  then show ?thesis using assms by (cases n) (auto simp: fs_cache_new_def omap_eq_Done_iff Let_def split: if_splits)
qed

lemma cache_new_Ok:
  assumes "cache_new F options d = Done (Inr ch, d')"
  shows "file_at (ch_disk ch) q = file_at d q" "ch_wasm_path ch = co_base_dir options @ [''state'', ''wasm'']"
    "ch_wasm_path ch \<noteq> latest_modules_path (ch_fs_cache ch)"
proof -
  let ?base = "co_base_dir options"
  define ps where "ps = [path_join ?base ''state'', path_join ?base ''cache'', path_join (path_join ?base ''state'') ''wasm'']"
  obtain r1 d1 where dirs: "create_dirs ps d = (r1, d1)" by fastforce
  then obtain u where u: "r1 = Inr u" using assms by (cases r1) (simp_all add: cache_new_def Let_def ps_def del: create_dirs.simps)
  obtain r2 d2 where fs2: "fs_cache_new (pf_wasmer F) (path_join (path_join ?base ''cache'') ''modules'') d1 = Done (r2, d2)"
    using assms dirs u by (auto simp: cache_new_def Let_def ps_def obind_eq_Done_iff simp del: create_dirs.simps)
  then obtain fs where fs': "r2 = Inr fs"
    using assms dirs u by (cases r2) (simp_all add: cache_new_def Let_def ps_def del: create_dirs.simps)
  have ch: "ch_disk ch = d2" "ch_wasm_path ch = path_join (path_join ?base ''state'') ''wasm''" "ch_fs_cache ch = fs"
    using assms dirs u fs2 fs' by (auto simp: cache_new_def Let_def ps_def simp del: create_dirs.simps)
  note fs = fs2 [unfolded fs']
  show "file_at (ch_disk ch) q = file_at d q"
    using create_dirs_files [OF dirs] fs_cache_new_files [OF fs] by (simp add: ch)
  show "ch_wasm_path ch = ?base @ [''state'', ''wasm'']" by (simp add: ch path_join_def)
  show "ch_wasm_path ch \<noteq> latest_modules_path (ch_fs_cache ch)"
    using fs_cache_new_base [OF fs] by (simp add: ch latest_modules_path_def path_join_def)
qed

context cache_platform
begin

lemma load_wasm_saved:
  assumes "wasm_inv ch0 K (insert w X) ch" "of_checksum c w" "dk_faults (ch_disk ch) = []"
  shows "load_wasm F c ch = Done (Inr w, ch)"
proof -
  have c: "checksum_generate (pf_sha256 F) w = c" using assms(2) by (simp add: of_checksum_def)
  have f: "file_at (ch_disk ch) (path_join (ch_wasm_path ch) (checksum_to_hex c)) = Some w"
    using assms(1) by (simp add: wasm_inv_def wasm_file_def c)
  then have "dk_nodes (ch_disk ch) (path_join (ch_wasm_path ch) (checksum_to_hex c)) \<noteq> None"
    by (auto simp: file_at_def split: option.splits)
  then show ?thesis using f assms(3)
    by (simp add: load_wasm_def load_wasm_from_disk_def Let_def pbind_def on_disk_def fs_open_read_def fs_read_to_end_def c)
qed

theorem saved_then_loaded:
  assumes "cache_new F options d = Done (Inr ch0, d')"
    and "\<And>name. file_at d (co_base_dir options @ [''state'', ''wasm'', name]) = None"
    and "inj_on (checksum_generate (pf_sha256 F)) {v. SaveWasm v \<in> set (before @ SaveWasm w # after)}"
    and "run_ops F before ch0 = Done ch1" "save_wasm F w ch1 = Done (Inr c, ch2)" "run_ops F after ch2 = Done ch3"
    and "dk_faults (ch_disk ch3) = []"
  shows "load_wasm F c ch3 = Done (Inr w, ch3)"
proof -
  let ?K = "{v. SaveWasm v \<in> set (before @ SaveWasm w # after)}"
  have "wasm_inv ch0 ?K {} ch0"
    using cache_new_Ok [OF assms(1)] assms(2) by (simp add: wasm_inv_def wasm_file_def path_join_def)
  then have "wasm_inv ch0 ?K {} ch1" by (intro run_ops_wasm_inv [OF assms(3) _ _ assms(4)]) simp_all
  from save_wasm_keeps [OF assms(3) _ _ this assms(5)]
  have ch2: "wasm_inv ch0 ?K {w} ch2" "of_checksum c w" by simp_all
  have "wasm_inv ch0 ?K {w} ch3" by (rule run_ops_wasm_inv [OF assms(3) _ _ assms(6) ch2(1)]) simp_all
  then show ?thesis using load_wasm_saved ch2(2) assms(7) by blast
qed

end

section \<open>A pinned module stays\<close>

definition pinned_safe :: "checksum \<Rightarrow> ('m, 'l, 'a) cache_prog \<Rightarrow> bool" where
  "pinned_safe c p \<longleftrightarrow> (\<forall>sm. keeps (\<lambda>ch. map_of (ch_pinned ch) c = Some sm) p (\<lambda>_. True))"

lemma pinned_safe_bind: "pinned_safe c p \<Longrightarrow> (\<And>x. pinned_safe c (f x)) \<Longrightarrow> pinned_safe c (pbind p f)"
  unfolding pinned_safe_def by (blast intro: keeps_bind)

lemma pinned_safeI: "(\<And>ch r ch'. p ch = Done (r, ch') \<Longrightarrow> ch_pinned ch' = ch_pinned ch) \<Longrightarrow> pinned_safe c p"
  unfolding pinned_safe_def keeps_def by simp

lemma pinned_safe_branch:
  "pinned_safe c p \<Longrightarrow> pinned_safe c q \<Longrightarrow> pinned_safe c (if b then p else q)"
  "(\<And>m. pinned_safe c (f m)) \<Longrightarrow> pinned_safe c q \<Longrightarrow> pinned_safe c (case found of Some m \<Rightarrow> f m | None \<Rightarrow> q)"
  by (auto split: option.splits)

lemma pinned_safe_simple:
  "pinned_safe c (preturn x)" "pinned_safe c (pfail e)" "pinned_safe c (plift r)" "pinned_safe c (plift_both m)"
  "pinned_safe c (plift_out out)" "pinned_safe c (preads g)" "pinned_safe c (on_disk what access)"
  "pinned_safe c count_memory_hit" "pinned_safe c count_pinned_hit" "pinned_safe c count_fs_hit" "pinned_safe c count_miss"
  "pinned_safe c (pinned_load k)" "pinned_safe c (in_memory_load L k)" "pinned_safe c (in_memory_store L k sm n)"
  "pinned_safe c (fs_cache_load W k st)"
  by (rule pinned_safeI;
      auto simp: plift_both_def omap_eq_Done_iff plift_out_eq_Done_iff on_disk_def count_memory_hit_def count_pinned_hit_def
        count_fs_hit_def count_miss_def pinned_load_def in_memory_load_def in_memory_store_def fs_cache_load_def Let_def
        split: option.splits prod.splits sum.splits deserialize_error.splits)+

lemma pinned_safe_store: "k \<noteq> c \<Longrightarrow> pinned_safe c (pinned_store k m n)"
  by (auto simp: pinned_safe_def keeps_def pinned_store_def update_conv)

lemmas pinned_safe_rules = pinned_safe_bind pinned_safe_branch pinned_safe_simple

lemma pinned_safe_parts:
  "pinned_safe c (fs_cache_store W k m)" "pinned_safe c (load_wasm F k)" "pinned_safe c (save_wasm F w)"
  "pinned_safe c (analyze F k)" "pinned_safe c (get_module F k)"
  unfolding fs_cache_store_def load_wasm_def load_wasm_from_disk_def save_wasm_def save_wasm_to_disk_def analyze_def
    get_module_def Let_def
  by (intro pinned_safe_rules)+

lemma pinned_safe_pin: "pinned_safe c (pin F k)"
proof (cases "k = c")
  case True
  then show ?thesis by (auto simp: pinned_safe_def keeps_def pin_def pinned_has_def)
next
  case False
  then show ?thesis
    unfolding pin_def by (intro pinned_safe_rules pinned_safe_parts pinned_safe_store)
qed

lemma pinned_safe_unpin: "k \<noteq> c \<Longrightarrow> pinned_safe c (unpin k)"
  by (auto simp: pinned_safe_def keeps_def unpin_def pinned_remove_def delete_conv)

lemma pinned_safe_run_op:
  assumes "op \<noteq> Unpin c"
  shows "pinned_safe c (run_op F op)"
proof (cases op)
  case (Unpin k)
  then show ?thesis using assms pinned_safe_unpin by auto
next
  case (Pin k)
  then show ?thesis using pinned_safe_pin by auto
qed (simp only: run_op.simps pvoid_def; intro pinned_safe_bind pinned_safe_parts pinned_safe_simple)+

lemma pin_Ok_has:
  assumes "pin F c ch = Done (Inr (), ch')"
  shows "\<exists>sm. map_of (ch_pinned ch') c = Some sm"
proof -
  have stored: "\<exists>sm. map_of (ch_pinned ch2) c = Some sm" if "pinned_store c m n ch1 = Done (r, ch2)" for m n ch1 r ch2
    using that by (auto simp: pinned_store_def update_conv)
  show ?thesis
    using assms unfolding pin_def
    by (fastforce simp: pbind_eq_Ok_iff pinned_has_def dest: stored split: if_splits option.splits)
qed

lemma pinned_stays:
  assumes "pin F c ch = Done (Inr (), ch1)" "Unpin c \<notin> set ops" "run_ops F ops ch1 = Done ch2"
  shows "\<exists>sm. map_of (ch_pinned ch1) c = Some sm \<and> map_of (ch_pinned ch2) c = Some sm \<and>
    get_module F c ch2 = Done (Inr (sm_module sm), ch2\<lparr>ch_stats :=
      (ch_stats ch2)\<lparr>hits_pinned_memory_cache := hits_pinned_memory_cache (ch_stats ch2) + 1\<rparr>\<rparr>)"
proof -
  obtain sm where sm: "map_of (ch_pinned ch1) c = Some sm" using pin_Ok_has [OF assms(1)] by blast
  have "map_of (ch_pinned ch2) c = Some sm"
    by (rule run_ops_keep [where I = "\<lambda>ch. map_of (ch_pinned ch) c = Some sm", OF assms(3) sm])
      (metis pinned_safe_run_op pinned_safe_def assms(2))
  with sm show ?thesis
    by (simp add: get_module_def pinned_load_def count_pinned_hit_def)
qed

section \<open>A file that is too long stays\<close>

text \<open>
  Because the file is opened without truncating it, saving code over a longer file with its name
  succeeds and leaves the end of the old file, so that the code cannot be loaded.
\<close>

lemma save_over_longer_file:
  assumes "dk_faults (ch_disk ch) = []" "c = checksum_generate (pf_sha256 F) w"
    and "file_at (ch_disk ch) (path_join (ch_wasm_path ch) (checksum_to_hex c)) = Some old" "length w < length old"
    and "checksum_generate (pf_sha256 F) (w @ drop (length w) old) \<noteq> c"
  shows "\<exists>ch'. save_wasm_to_disk (pf_sha256 F) (ch_wasm_path ch) w ch = Done (Inr c, ch') \<and>
    load_wasm F c ch' = Done (Inl VmIntegrityErr, ch')"
proof -
  define p where "p = path_join (ch_wasm_path ch) (checksum_to_hex c)"
  define d' where "d' = (ch_disk ch)\<lparr>dk_nodes := (dk_nodes (ch_disk ch))(p \<mapsto> FileNode (w @ drop (length w) old))\<rparr>"
  have node: "dk_nodes (ch_disk ch) p = Some (FileNode old)"
    using assms(3) by (auto simp: p_def file_at_def split: option.splits node.splits)
  have "save_wasm_to_disk (pf_sha256 F) (ch_wasm_path ch) w ch = Done (Inr c, ch\<lparr>ch_disk := d'\<rparr>)"
    using node assms(1)
    by (simp add: save_wasm_to_disk_def Let_def assms(2) [symmetric] p_def [symmetric] pbind_def on_disk_def
        fs_open_write_def fs_write_all_def file_at_def overwrite_def d'_def)
  moreover have "load_wasm F c (ch\<lparr>ch_disk := d'\<rparr>) = Done (Inl VmIntegrityErr, ch\<lparr>ch_disk := d'\<rparr>)"
    using assms(1,5)
    by (simp add: load_wasm_def load_wasm_from_disk_def Let_def p_def [symmetric] pbind_def on_disk_def
        fs_open_read_def fs_read_to_end_def file_at_def d'_def)
  ultimately show ?thesis by blast
qed

end
