(* ===== verification/Cache_Example.thy ===== *)
theory Cache_Example
  imports Cache_Safety
begin

text \<open>
  A platform that satisfies the laws of \<open>Cache_Safety\<close>: compiled modules are files with a header and
  the code, the cache in memory evicts what was used longest ago, and one module is parsed.
\<close>

section \<open>Compiled modules\<close>

type_synonym plain_module = "bytes \<times> wasmer_store"

definition plain_file :: "plain_module \<Rightarrow> bytes" where
  "plain_file m = EXPECTED_MODULE_HEADER_PREFIX @ [1, 0, 0, 0, 0, 0, 0, 0] @ fst m"

definition plain_artifact :: "bytes \<Rightarrow> bytes option" where
  "plain_artifact bs = (if take 24 bs = EXPECTED_MODULE_HEADER_PREFIX then Some (drop 32 bs) else None)"

definition plain_wasmer :: "plain_module wasmer" where
  "plain_wasmer =
     \<lparr>wm_module_new = (\<lambda>st code. Inr (code, st)),
      wm_serialize = (\<lambda>m. Inr (plain_file m)),
      wm_serialize_to_file = (\<lambda>m p d. (Inr (), d\<lparr>dk_nodes := (dk_nodes d)(p \<mapsto> FileNode (plain_file m))\<rparr>)),
      wm_deserialize_from_file = (\<lambda>st p d.
        case file_at d p of
          None \<Rightarrow> (Inl DeserializeNotFound, d)
        | Some bs \<Rightarrow> (case plain_artifact bs of
            None \<Rightarrow> (Inl (DeserializeOther ''not a compiled module''), d)
          | Some code \<Rightarrow> (Inr (code, st), d))),
      wm_size_of_val = (\<lambda>m. length (fst m))\<rparr>"

lemma length_header [simp]: "length EXPECTED_MODULE_HEADER_PREFIX = 24"
  by (simp add: EXPECTED_MODULE_HEADER_PREFIX_def)

lemma plain_artifact_file [simp]: "plain_artifact (plain_file m) = Some (fst m)"
  by (simp add: plain_artifact_def plain_file_def)

interpretation plain: wasmer_laws plain_wasmer fst snd plain_artifact
proof
  fix m :: plain_module and p d r d' bs code
  assume run: "wm_serialize_to_file plain_wasmer m p d = (r, d')"
  show "dk_nodes d' q = dk_nodes d q" if "q \<noteq> p" for q using run that by (auto simp: plain_wasmer_def)
  show "code = fst m \<or> file_at d p = Some bs" if "file_at d' p = Some bs" "plain_artifact bs = Some code"
    using run that by (auto simp: plain_wasmer_def file_at_def)
qed (auto simp: plain_wasmer_def split: option.splits)

section \<open>A cache that evicts the least recently used\<close>

type_synonym 'm recent = "nat \<times> (checksum \<times> 'm sized_module) list"

fun fitting :: "nat \<Rightarrow> (checksum \<times> 'm sized_module) list \<Rightarrow> (checksum \<times> 'm sized_module) list" where
  "fitting room [] = []"
| "fitting room (e # es) = (if sm_size (snd e) \<le> room then e # fitting (room - sm_size (snd e)) es else [])"

definition recent_lru :: "('m, 'm recent) lru" where
  "recent_lru =
     \<lparr>lru_with_config = (\<lambda>cap _. (cap, [])),
      lru_put_with_weight = (\<lambda>c m weight (cap, es).
        if weight > cap then (Inl ''the module does not fit'', (cap, es))
        else (Inr (), (cap, fitting cap ((c, m) # AList.delete c es)))),
      lru_get = (\<lambda>c (cap, es).
        case map_of es c of None \<Rightarrow> (None, (cap, es)) | Some m \<Rightarrow> (Some m, (cap, (c, m) # AList.delete c es))),
      lru_len = (\<lambda>(cap, es). length es),
      lru_weight = (\<lambda>(cap, es). sum_list (map (sm_size \<circ> snd) es))\<rparr>"

lemma map_of_fitting: "map_of (fitting room es) c = Some m \<Longrightarrow> map_of es c = Some m"
  by (induction room es rule: fitting.induct) (auto split: if_splits)

lemma fitting_weight: "sum_list (map (sm_size \<circ> snd) (fitting room es)) \<le> room"
proof (induction room es rule: fitting.induct)
  case (2 room e es)
  show ?case
  proof (cases "sm_size (snd e) \<le> room")
    case True
    then show ?thesis using 2 by simp
  qed simp
qed simp

interpretation recent: lru_laws recent_lru "\<lambda>l. map_of (snd l)"
proof
  show "map_of (snd (lru_with_config recent_lru cap n)) c = None" for cap n c
    by (simp add: recent_lru_def)
  show "c = k \<and> u = v \<or> map_of (snd l) c = Some u"
    if "lru_put_with_weight recent_lru k v weight l = (r, l')" "map_of (snd l') c = Some u" for k v weight l r l' c u
    using that by (auto simp: recent_lru_def delete_conv split: if_splits prod.splits dest!: map_of_fitting)
  show "map_of (snd l) k = Some u" if "lru_get recent_lru k l = (Some u, l')" for k l u l'
    using that by (cases l) (auto simp: recent_lru_def split: option.splits)
  show "map_of (snd l) c = Some u"
    if "lru_get recent_lru k l = (found, l')" "map_of (snd l') c = Some u" for k l found l' c u
    using that by (cases l) (auto simp: recent_lru_def delete_conv split: option.splits if_splits)
qed

section \<open>One module\<close>

definition small_parser :: "unit wasm_parser" where
  "small_parser =
     \<lparr>wp_deserialize_buffer = (\<lambda>bs. if bs = [] then Inl ''empty'' else Inr ()),
      wp_memory_section = (\<lambda>_. Some [\<lparr>limits_initial = 16, limits_maximum = None\<rparr>]),
      wp_export_section = (\<lambda>_. Some [(''memory'', WasmMemory), (''allocate'', WasmFunction 0), (''deallocate'', WasmFunction 1),
        (''instantiate'', WasmFunction 2), (''interface_version_8'', WasmFunction 3), (''requires_staking'', WasmFunction 3)]),
      wp_import_section = (\<lambda>_. Some [\<lparr>ie_module = ''env'', ie_field = ''db_read'', ie_external = WasmFunction 0\<rparr>])\<rparr>"

definition pad_hash :: "bytes \<Rightarrow> bytes" where
  "pad_hash bs = take 32 (bs @ replicate 32 0)"

definition small_platform :: "(unit, plain_module, plain_module recent) platform" where
  "small_platform = \<lparr>pf_parser = small_parser, pf_wasmer = plain_wasmer, pf_lru = recent_lru, pf_sha256 = pad_hash\<rparr>"

interpretation small: cache_platform small_platform fst snd plain_artifact "\<lambda>l. map_of (snd l)"
proof -
  have "pf_wasmer small_platform = plain_wasmer" "pf_lru small_platform = recent_lru"
    by (simp_all add: small_platform_def)
  then show "cache_platform small_platform fst snd plain_artifact (\<lambda>l. map_of (snd l))"
    by (simp add: cache_platform_def plain.wasmer_laws_axioms recent.lru_laws_axioms)
qed

definition small_options :: cache_options where
  "small_options = \<lparr>co_base_dir = [''node''], co_supported_features = {''staking''},
     co_memory_cache_size = size_mebi 200, co_instance_memory_limit = size_mebi 32\<rparr>"

definition empty_disk :: disk where
  "empty_disk = \<lparr>dk_nodes = Map.empty, dk_faults = []\<rparr>"

lemma small_accepted: "check_wasm small_parser [0, 97] {''staking''} = Done (Inr ())"
proof -
  have names: "exported_functions small_parser () =
      {''allocate'', ''deallocate'', ''instantiate'', ''interface_version_8'', ''requires_staking''}"
    unfolding exported_function_names_eq(1) [symmetric]
    by (simp add: parity_exported_function_names_def small_parser_def)
  define xs where "xs = [''allocate'', ''deallocate'', ''instantiate'', ''interface_version_8'', ''requires_staking'']"
  have "exported_functions small_parser () = set xs" by (simp add: names xs_def)
  then have "{name \<in> exported_functions small_parser (). starts_with name ''interface_version_''} =
      set (filter (\<lambda>name. starts_with name ''interface_version_'') xs)" by simp
  also have "\<dots> = {''interface_version_8''}" by (simp add: xs_def starts_with_def)
  finally have version: "{name \<in> exported_functions small_parser (). starts_with name ''interface_version_''} =
      {''interface_version_8''}" .
  have "imported_entries small_parser () = {\<lparr>ie_module = ''env'', ie_field = ''db_read'', ie_external = WasmFunction 0\<rparr>}"
    by (simp add: imported_entries_def small_parser_def)
  then have linked: "\<forall>ie \<in> imported_entries small_parser ().
      full_import_name ie \<in> set SUPPORTED_IMPORTS \<and> (\<exists>i. ie_external ie = WasmFunction i)"
    by (simp add: full_import_name_def SUPPORTED_IMPORTS_def)
  have features: "f \<in> {''staking''}" if "''requires_'' @ f \<in> exported_functions small_parser ()" for f
    using that by (simp add: names)
  have "module_accepted small_parser {''staking''} ()"
    unfolding module_accepted_def version using linked features names
    by (intro conjI allI impI) (simp_all add: small_parser_def)
  then show ?thesis unfolding check_wasm_Ok_iff by (simp add: small_parser_def)
qed

definition small_cache :: "disk \<Rightarrow> (plain_module, plain_module recent) cache" where
  "small_cache d = \<lparr>ch_supported_features = {''staking''}, ch_wasm_path = [''node'', ''state'', ''wasm''],
     ch_instance_memory_limit = size_mebi 32, ch_pinned = [], ch_memory = Some (209715200, []),
     ch_fs_cache = \<lparr>fsc_base_path = [''node'', ''cache'', ''modules''], fsc_wasmer_module_version = 1\<rparr>,
     ch_stats = \<lparr>hits_pinned_memory_cache = 0, hits_memory_cache = 0, hits_fs_cache = 0, misses = 0\<rparr>, ch_disk = d\<rparr>"

lemma small_version: "current_wasmer_module_version plain_wasmer = Done 1"
  by (simp add: current_wasmer_module_version_def current_wasmer_module_header_def compile_def make_store_def
      plain_wasmer_def plain_file_def Let_def from_le_bytes_def)

lemma small_cache_simps [simp]:
  "ch_disk (small_cache d) = d" "(small_cache d)\<lparr>ch_disk := d'\<rparr> = small_cache d'"
  "ch_supported_features (small_cache d) = {''staking''}" "ch_wasm_path (small_cache d) = [''node'', ''state'', ''wasm'']"
  by (simp_all add: small_cache_def)

definition fresh_disk :: "disk \<Rightarrow> bool" where
  "fresh_disk d \<longleftrightarrow> dk_faults d = [] \<and> (\<forall>q n. dk_nodes d q = Some n \<longrightarrow> n = DirNode False)"

lemma fresh_no_file: "fresh_disk d \<Longrightarrow> file_at d q = None"
  by (cases "dk_nodes d q") (fastforce simp: fresh_disk_def file_at_def)+

lemma fresh_create_dir_all:
  assumes "fresh_disk d"
  obtains d' where "fs_create_dir_all p d = (Inr (), d')" "fresh_disk d'" "is_dir_at d' p"
    "\<And>q. is_dir_at d q \<Longrightarrow> is_dir_at d' q" "\<And>q. \<not> prefix q p \<Longrightarrow> dk_nodes d' q = dk_nodes d q"
proof -
  define d' where "d' = d\<lparr>dk_nodes := dk_nodes d ++
      (\<lambda>q. if dk_nodes d q = None \<and> q = take (length q) p then Some (DirNode False) else None)\<rparr>"
  have "fs_create_dir_all p d = (Inr (), d')"
    using assms fresh_no_file [OF assms] by (simp add: fs_create_dir_all_def d'_def list_ex_iff fresh_disk_def)
  moreover have "fresh_disk d'"
    using assms by (auto simp: fresh_disk_def d'_def map_add_def split: if_splits)
  moreover have "is_dir_at d' p"
    using assms by (cases "dk_nodes d p") (fastforce simp: is_dir_at_def d'_def map_add_def fresh_disk_def)+
  moreover have "is_dir_at d' q" if "is_dir_at d q" for q
    using that by (auto simp: is_dir_at_def d'_def map_add_def split: option.splits)
  moreover have "dk_nodes d' q = dk_nodes d q" if "\<not> prefix q p" for q
    using that by (auto simp: d'_def map_add_def) (metis take_is_prefix)
  ultimately show thesis by (rule that)
qed

lemma wasm_name_free: "\<not> prefix [''node'', ''state'', ''wasm'', name] p" if "p \<in> {[''node'', ''state''],
    [''node'', ''cache''], [''node'', ''state'', ''wasm''], [''node'', ''cache'', ''modules'']}"
  using that by auto

lemma small_new:
  "\<exists>d. cache_new small_platform small_options empty_disk = Done (Inr (small_cache d), d) \<and> fresh_disk d \<and>
     is_dir_at d [''node'', ''state'', ''wasm''] \<and> (\<forall>name. dk_nodes d [''node'', ''state'', ''wasm'', name] = None)"
proof -
  let ?free = "\<lambda>d. \<forall>name. dk_nodes d [''node'', ''state'', ''wasm'', name] = None"
  have step: "\<exists>d'. fs_create_dir_all p d = (Inr (), d') \<and> fresh_disk d' \<and> is_dir_at d' p \<and>
      (\<forall>q. is_dir_at d q \<longrightarrow> is_dir_at d' q) \<and> ?free d'"
    if "fresh_disk d" "?free d" and p: "p \<in> {[''node'', ''state''], [''node'', ''cache''], [''node'', ''state'', ''wasm''],
      [''node'', ''cache'', ''modules'']}" for p d
  proof (rule fresh_create_dir_all [OF that(1), of p])
    fix d' assume "fs_create_dir_all p d = (Inr (), d')" "fresh_disk d'" "is_dir_at d' p"
      "\<And>q. is_dir_at d q \<Longrightarrow> is_dir_at d' q" "\<And>q. \<not> prefix q p \<Longrightarrow> dk_nodes d' q = dk_nodes d q"
    then show ?thesis using that(2) wasm_name_free [OF p] by auto
  qed
  have "fresh_disk empty_disk" "?free empty_disk" by (simp_all add: fresh_disk_def empty_disk_def)
  then obtain d1 where d1: "fs_create_dir_all [''node'', ''state''] empty_disk = (Inr (), d1)" "fresh_disk d1" "?free d1"
    using step [of empty_disk "[''node'', ''state'']"] by auto
  then obtain d2 where d2: "fs_create_dir_all [''node'', ''cache''] d1 = (Inr (), d2)" "fresh_disk d2" "?free d2"
    using step [of d1 "[''node'', ''cache'']"] by auto
  then obtain d3 where d3: "fs_create_dir_all [''node'', ''state'', ''wasm''] d2 = (Inr (), d3)" "fresh_disk d3"
      "is_dir_at d3 [''node'', ''state'', ''wasm'']" "?free d3"
    using step [of d2 "[''node'', ''state'', ''wasm'']"] by auto
  obtain d where d: "fs_cache_new plain_wasmer [''node'', ''cache'', ''modules''] d3 =
      Done (Inr \<lparr>fsc_base_path = [''node'', ''cache'', ''modules''], fsc_wasmer_module_version = 1\<rparr>, d)"
      "fresh_disk d" "is_dir_at d [''node'', ''state'', ''wasm'']" "?free d"
  proof (cases "dk_nodes d3 [''node'', ''cache'', ''modules'']")
    case None
    obtain d where "fs_create_dir_all [''node'', ''cache'', ''modules''] d3 = (Inr (), d)" "fresh_disk d"
      "is_dir_at d [''node'', ''state'', ''wasm'']" "?free d"
      using step [of d3 "[''node'', ''cache'', ''modules'']"] d3(2-4) by auto
    with None that show thesis by (simp add: fs_cache_new_def small_version Let_def)
  next
    case (Some n)
    then have "n = DirNode False" using d3(2) by (auto simp: fresh_disk_def)
    with Some that d3 show thesis by (simp add: fs_cache_new_def small_version Let_def)
  qed
  show ?thesis
    by (intro exI [of _ d])
      (use d d1(1) d2(1) d3(1) in \<open>simp add: cache_new_def Let_def path_join_def small_options_def small_platform_def
        small_cache_def in_memory_new_def recent_lru_def size_mebi_def\<close>)
qed

lemma create_dir_all_ok:
  assumes "dk_faults d = []" "\<And>k. file_at d (take k p) = None"
  shows "\<exists>d'. fs_create_dir_all p d = (Inr (), d') \<and> dk_faults d' = []"
proof -
  have "\<not> list_ex (\<lambda>k. file_at d (take k p) \<noteq> None) [0..<Suc (length p)]"
    by (simp add: list_ex_iff assms(2) del: upt_Suc)
  then show ?thesis using assms(1) unfolding fs_create_dir_all_def by simp
qed

text \<open>Saving the module, then asking for it.\<close>

definition small_checksum :: checksum where
  "small_checksum = checksum_generate pad_hash [0, 97]"

lemma small_save:
  assumes d: "fresh_disk d" "is_dir_at d [''node'', ''state'', ''wasm'']" "dk_nodes d [''node'', ''state'', ''wasm'', name] = None"
    and name: "name = checksum_to_hex small_checksum"
  shows "\<exists>d'. save_wasm small_platform [0, 97] (small_cache d) = Done (Inr small_checksum, small_cache d') \<and>
    dk_faults d' = [] \<and> file_at d' (modules_file (small_cache d') small_checksum) = Some (plain_file ([0, 97], None))"
proof -
  define p where "p = [''node'', ''state'', ''wasm'', name]"
  define m where "m = [''node'', ''cache'', ''modules'', ''v3-wasmer1'']"
  define d2 where "d2 = d\<lparr>dk_nodes := (dk_nodes d)(p \<mapsto> FileNode [0, 97])\<rparr>"
  have faults: "dk_faults d = []" using d(1) by (simp add: fresh_disk_def)
  have one: "save_wasm_to_disk pad_hash [''node'', ''state'', ''wasm''] [0, 97] (small_cache d) =
      Done (Inr small_checksum, small_cache d2)"
    using d(2,3) faults
    by (simp add: save_wasm_to_disk_def Let_def small_checksum_def [symmetric] name [symmetric] path_join_def pbind_def
        on_disk_def fs_open_write_def fs_write_all_def file_at_def overwrite_def d2_def p_def)
  have "file_at d2 (take k m) = None" for k
  proof -
    have "take k m \<noteq> p" by (cases k; cases "k - 1"; cases "k - 2"; cases "k - 3") (auto simp: m_def p_def)
    then have "file_at d2 (take k m) = file_at d (take k m)" by (simp add: d2_def file_at_def)
    then show ?thesis using fresh_no_file [OF d(1)] by simp
  qed
  then obtain d3 where d3: "fs_create_dir_all m d2 = (Inr (), d3)" "dk_faults d3 = []"
    using create_dir_all_ok [of d2 m] faults by (auto simp: d2_def)
  define d4 where "d4 = d3\<lparr>dk_nodes := (dk_nodes d3)(path_join m name \<mapsto> FileNode (plain_file ([0, 97], None)))\<rparr>"
  have m: "latest_modules_path (ch_fs_cache (small_cache x)) = m" for x
    by (simp add: latest_modules_path_def small_cache_def MODULE_SERIALIZATION_VERSION_def path_join_def m_def show_nat.simps digit_char_def char_of_def bit_0)
  have "fs_cache_store plain_wasmer small_checksum ([0, 97], None) (small_cache d2) = Done (Inr (), small_cache d4)"
    using d3(1) m
    by (simp add: fs_cache_store_def Let_def pbind_def on_disk_def name [symmetric] plain_wasmer_def d4_def)
  moreover have "compile plain_wasmer [0, 97] None = Done (Inr ([0, 97], None))"
    by (simp add: compile_def make_store_def plain_wasmer_def)
  ultimately have "save_wasm small_platform [0, 97] (small_cache d) = Done (Inr small_checksum, small_cache d4)"
    using one small_accepted
    by (simp add: save_wasm_def small_platform_def pbind_def plift_both_def)
  moreover have "file_at d4 (modules_file (small_cache d4) small_checksum) = Some (plain_file ([0, 97], None))"
    by (simp add: modules_file_def m name [symmetric] file_at_def d4_def)
  ultimately show ?thesis using d3(2) by (auto simp: d4_def)
qed

lemma small_get_module:
  assumes "file_at d (modules_file (small_cache d) small_checksum) = Some (plain_file ([0, 97], None))"
  shows "\<exists>ch'. get_module small_platform small_checksum (small_cache d) = Done (Inr ([0, 97], Some 512), ch')"
proof -
  have store: "make_store (Some (size_mebi 32)) = Done (Some 512)"
    by (simp add: make_store_def limit_to_pages_eq size_mebi_def)
  have limit: "ch_instance_memory_limit (small_cache d) = size_mebi 32" by (simp add: small_cache_def)
  have memory: "in_memory_load recent_lru small_checksum (small_cache d) = Done (Inr None, small_cache d)"
    by (simp add: in_memory_load_def recent_lru_def small_cache_def)
  have load: "fs_cache_load plain_wasmer small_checksum (Some 512) (small_cache d) = Done (Inr (Some ([0, 97], Some 512)), small_cache d)"
    using assms by (simp add: fs_cache_load_def Let_def modules_file_def plain_wasmer_def)
  have "pinned_load small_checksum (small_cache d) = Done (Inr None, small_cache d)"
    by (simp add: pinned_load_def small_cache_def)
  then show ?thesis
    using store limit memory load
    by (simp add: get_module_def small_platform_def pbind_def plift_out_def count_fs_hit_def in_memory_store_def)
      (simp add: small_cache_def recent_lru_def plain_wasmer_def)
qed

end
