(* ===== verification/VM_Gatekeeper.thy ===== *)
theory VM_Gatekeeper
  imports VM_Errors
begin

text \<open>
  The gatekeeper of \<open>packages/vm/src/wasm_backend/gatekeeper.rs\<close>: a middleware that sees each
  operator of a function when the function is compiled and refuses those that are not enabled. An
  operator of wasmparser is its variant, here by name, with its debug text.
\<close>

section \<open>Operators\<close>

record wasm_operator =
  op_variant :: string
  op_debug :: string

text \<open>The patterns of \<open>feed\<close>, one list per arm.\<close>

definition BASIC_OPERATORS :: "string list" where
  "BASIC_OPERATORS =
     [''Unreachable'', ''Nop'', ''Block'', ''Loop'', ''If'', ''Else'', ''End'', ''Br'', ''BrIf'',
      ''BrTable'', ''Return'', ''Call'', ''CallIndirect'', ''Drop'', ''Select'', ''LocalGet'',
      ''LocalSet'', ''LocalTee'', ''GlobalGet'', ''GlobalSet'', ''I32Load'', ''I64Load'', ''I32Load8S'',
      ''I32Load8U'', ''I32Load16S'', ''I32Load16U'', ''I64Load8S'', ''I64Load8U'', ''I64Load16S'',
      ''I64Load16U'', ''I64Load32S'', ''I64Load32U'', ''I32Store'', ''I64Store'', ''I32Store8'',
      ''I32Store16'', ''I64Store8'', ''I64Store16'', ''I64Store32'', ''MemorySize'', ''MemoryGrow'',
      ''I32Const'', ''I64Const'', ''I32Eqz'', ''I32Eq'', ''I32Ne'', ''I32LtS'', ''I32LtU'', ''I32GtS'',
      ''I32GtU'', ''I32LeS'', ''I32LeU'', ''I32GeS'', ''I32GeU'', ''I64Eqz'', ''I64Eq'', ''I64Ne'',
      ''I64LtS'', ''I64LtU'', ''I64GtS'', ''I64GtU'', ''I64LeS'', ''I64LeU'', ''I64GeS'', ''I64GeU'',
      ''I32Clz'', ''I32Ctz'', ''I32Popcnt'', ''I32Add'', ''I32Sub'', ''I32Mul'', ''I32DivS'', ''I32DivU'',
      ''I32RemS'', ''I32RemU'', ''I32And'', ''I32Or'', ''I32Xor'', ''I32Shl'', ''I32ShrS'', ''I32ShrU'',
      ''I32Rotl'', ''I32Rotr'', ''I64Clz'', ''I64Ctz'', ''I64Popcnt'', ''I64Add'', ''I64Sub'', ''I64Mul'',
      ''I64DivS'', ''I64DivU'', ''I64RemS'', ''I64RemU'', ''I64And'', ''I64Or'', ''I64Xor'', ''I64Shl'',
      ''I64ShrS'', ''I64ShrU'', ''I64Rotl'', ''I64Rotr'', ''I32WrapI64'', ''I32Extend8S'',
      ''I32Extend16S'', ''I64Extend8S'', ''I64Extend16S'', ''I64ExtendI32S'', ''I64Extend32S'',
      ''I64ExtendI32U'']"

definition REFERENCE_OPERATORS :: "string list" where
  "REFERENCE_OPERATORS =
     [''RefNull'', ''RefIsNull'', ''RefFunc'', ''ReturnCall'', ''ReturnCallIndirect'', ''TypedSelect'',
      ''TableGet'', ''TableSet'', ''TableGrow'', ''TableSize'']"

definition THREAD_OPERATORS :: "string list" where
  "THREAD_OPERATORS =
     [''MemoryAtomicNotify'', ''MemoryAtomicWait32'', ''MemoryAtomicWait64'', ''AtomicFence'',
      ''I32AtomicLoad'', ''I64AtomicLoad'', ''I32AtomicLoad8U'', ''I32AtomicLoad16U'', ''I64AtomicLoad8U'',
      ''I64AtomicLoad16U'', ''I64AtomicLoad32U'', ''I32AtomicStore'', ''I64AtomicStore'',
      ''I32AtomicStore8'', ''I32AtomicStore16'', ''I64AtomicStore8'', ''I64AtomicStore16'',
      ''I64AtomicStore32'', ''I32AtomicRmwAdd'', ''I64AtomicRmwAdd'', ''I32AtomicRmw8AddU'',
      ''I32AtomicRmw16AddU'', ''I64AtomicRmw8AddU'', ''I64AtomicRmw16AddU'', ''I64AtomicRmw32AddU'',
      ''I32AtomicRmwSub'', ''I64AtomicRmwSub'', ''I32AtomicRmw8SubU'', ''I32AtomicRmw16SubU'',
      ''I64AtomicRmw8SubU'', ''I64AtomicRmw16SubU'', ''I64AtomicRmw32SubU'', ''I32AtomicRmwAnd'',
      ''I64AtomicRmwAnd'', ''I32AtomicRmw8AndU'', ''I32AtomicRmw16AndU'', ''I64AtomicRmw8AndU'',
      ''I64AtomicRmw16AndU'', ''I64AtomicRmw32AndU'', ''I32AtomicRmwOr'', ''I64AtomicRmwOr'',
      ''I32AtomicRmw8OrU'', ''I32AtomicRmw16OrU'', ''I64AtomicRmw8OrU'', ''I64AtomicRmw16OrU'',
      ''I64AtomicRmw32OrU'', ''I32AtomicRmwXor'', ''I64AtomicRmwXor'', ''I32AtomicRmw8XorU'',
      ''I32AtomicRmw16XorU'', ''I64AtomicRmw8XorU'', ''I64AtomicRmw16XorU'', ''I64AtomicRmw32XorU'',
      ''I32AtomicRmwXchg'', ''I64AtomicRmwXchg'', ''I32AtomicRmw8XchgU'', ''I32AtomicRmw16XchgU'',
      ''I64AtomicRmw8XchgU'', ''I64AtomicRmw16XchgU'', ''I64AtomicRmw32XchgU'', ''I32AtomicRmwCmpxchg'',
      ''I64AtomicRmwCmpxchg'', ''I32AtomicRmw8CmpxchgU'', ''I32AtomicRmw16CmpxchgU'',
      ''I64AtomicRmw8CmpxchgU'', ''I64AtomicRmw16CmpxchgU'', ''I64AtomicRmw32CmpxchgU'']"

definition SIMD_OPERATORS :: "string list" where
  "SIMD_OPERATORS =
     [''V128Load'', ''V128Store'', ''V128Const'', ''I8x16Splat'', ''I8x16ExtractLaneS'',
      ''I8x16ExtractLaneU'', ''I8x16ReplaceLane'', ''I16x8Splat'', ''I16x8ExtractLaneS'',
      ''I16x8ExtractLaneU'', ''I16x8ReplaceLane'', ''I32x4Splat'', ''I32x4ExtractLane'',
      ''I32x4ReplaceLane'', ''I64x2Splat'', ''I64x2ExtractLane'', ''I64x2ReplaceLane'', ''I8x16Eq'',
      ''I8x16Ne'', ''I8x16LtS'', ''I8x16LtU'', ''I8x16GtS'', ''I8x16GtU'', ''I8x16LeS'', ''I8x16LeU'',
      ''I8x16GeS'', ''I8x16GeU'', ''I16x8Eq'', ''I16x8Ne'', ''I16x8LtS'', ''I16x8LtU'', ''I16x8GtS'',
      ''I16x8GtU'', ''I16x8LeS'', ''I16x8LeU'', ''I16x8GeS'', ''I16x8GeU'', ''I32x4Eq'', ''I32x4Ne'',
      ''I32x4LtS'', ''I32x4LtU'', ''I32x4GtS'', ''I32x4GtU'', ''I32x4LeS'', ''I32x4LeU'', ''I32x4GeS'',
      ''I32x4GeU'', ''V128Not'', ''V128And'', ''V128AndNot'', ''V128Or'', ''V128Xor'', ''V128Bitselect'',
      ''I8x16Abs'', ''I8x16Neg'', ''V128AnyTrue'', ''I8x16AllTrue'', ''I8x16Bitmask'', ''I8x16Shl'',
      ''I8x16ShrS'', ''I8x16ShrU'', ''I8x16Add'', ''I8x16AddSatS'', ''I8x16AddSatU'', ''I8x16Sub'',
      ''I8x16SubSatS'', ''I8x16SubSatU'', ''I8x16MinS'', ''I8x16MinU'', ''I8x16MaxS'', ''I8x16MaxU'',
      ''I16x8Abs'', ''I16x8Neg'', ''I16x8AllTrue'', ''I16x8Bitmask'', ''I16x8Shl'', ''I16x8ShrS'',
      ''I16x8ShrU'', ''I16x8Add'', ''I16x8AddSatS'', ''I16x8AddSatU'', ''I16x8Sub'', ''I16x8SubSatS'',
      ''I16x8SubSatU'', ''I16x8Mul'', ''I16x8MinS'', ''I16x8MinU'', ''I16x8MaxS'', ''I16x8MaxU'',
      ''I32x4Abs'', ''I32x4Neg'', ''I32x4AllTrue'', ''I32x4Bitmask'', ''I32x4Shl'', ''I32x4ShrS'',
      ''I32x4ShrU'', ''I32x4Add'', ''I32x4Sub'', ''I32x4Mul'', ''I32x4MinS'', ''I32x4MinU'', ''I32x4MaxS'',
      ''I32x4MaxU'', ''I32x4DotI16x8S'', ''I64x2Neg'', ''I64x2Shl'', ''I64x2ShrS'', ''I64x2ShrU'',
      ''I64x2Add'', ''I64x2Sub'', ''I64x2Mul'', ''I8x16Swizzle'', ''I8x16Shuffle'', ''V128Load8Splat'',
      ''V128Load16Splat'', ''V128Load32Splat'', ''V128Load32Zero'', ''V128Load64Splat'',
      ''V128Load64Zero'', ''I8x16NarrowI16x8S'', ''I8x16NarrowI16x8U'', ''I16x8NarrowI32x4S'',
      ''I16x8NarrowI32x4U'', ''I16x8ExtendLowI8x16S'', ''I16x8ExtendHighI8x16S'', ''I16x8ExtendLowI8x16U'',
      ''I16x8ExtendHighI8x16U'', ''I32x4ExtendLowI16x8S'', ''I32x4ExtendHighI16x8S'',
      ''I32x4ExtendLowI16x8U'', ''I32x4ExtendHighI16x8U'', ''V128Load8x8S'', ''V128Load8x8U'',
      ''V128Load16x4S'', ''V128Load16x4U'', ''V128Load32x2S'', ''V128Load32x2U'',
      ''I8x16RoundingAverageU'', ''I16x8RoundingAverageU'', ''V128Load8Lane'', ''V128Load16Lane'',
      ''V128Load32Lane'', ''V128Load64Lane'', ''V128Store8Lane'', ''V128Store16Lane'', ''V128Store32Lane'',
      ''V128Store64Lane'', ''I64x2Eq'', ''I64x2Ne'', ''I64x2LtS'', ''I64x2GtS'', ''I64x2LeS'',
      ''I64x2GeS'', ''I8x16Popcnt'', ''I16x8ExtAddPairwiseI8x16S'', ''I16x8ExtAddPairwiseI8x16U'',
      ''I16x8Q15MulrSatS'', ''I16x8ExtMulLowI8x16S'', ''I16x8ExtMulHighI8x16S'', ''I16x8ExtMulLowI8x16U'',
      ''I16x8ExtMulHighI8x16U'', ''I32x4ExtAddPairwiseI16x8S'', ''I32x4ExtAddPairwiseI16x8U'',
      ''I32x4ExtMulLowI16x8S'', ''I32x4ExtMulHighI16x8S'', ''I32x4ExtMulLowI16x8U'',
      ''I32x4ExtMulHighI16x8U'', ''I64x2Abs'', ''I64x2AllTrue'', ''I64x2Bitmask'',
      ''I64x2ExtendLowI32x4S'', ''I64x2ExtendHighI32x4S'', ''I64x2ExtendLowI32x4U'',
      ''I64x2ExtendHighI32x4U'', ''I64x2ExtMulLowI32x4S'', ''I64x2ExtMulHighI32x4S'',
      ''I64x2ExtMulLowI32x4U'', ''I64x2ExtMulHighI32x4U'', ''I32x4TruncSatF64x2SZero'',
      ''I32x4TruncSatF64x2UZero'', ''F64x2ConvertLowI32x4S'', ''F64x2ConvertLowI32x4U'',
      ''F32x4DemoteF64x2Zero'', ''F64x2PromoteLowF32x4'']"

definition FLOAT_OPERATORS :: "string list" where
  "FLOAT_OPERATORS =
     [''F32Load'', ''F64Load'', ''F32Store'', ''F64Store'', ''F32Const'', ''F64Const'', ''F32Eq'',
      ''F32Ne'', ''F32Lt'', ''F32Gt'', ''F32Le'', ''F32Ge'', ''F64Eq'', ''F64Ne'', ''F64Lt'', ''F64Gt'',
      ''F64Le'', ''F64Ge'', ''F32Abs'', ''F32Neg'', ''F32Ceil'', ''F32Floor'', ''F32Trunc'',
      ''F32Nearest'', ''F32Sqrt'', ''F32Add'', ''F32Sub'', ''F32Mul'', ''F32Div'', ''F32Min'', ''F32Max'',
      ''F32Copysign'', ''F64Abs'', ''F64Neg'', ''F64Ceil'', ''F64Floor'', ''F64Trunc'', ''F64Nearest'',
      ''F64Sqrt'', ''F64Add'', ''F64Sub'', ''F64Mul'', ''F64Div'', ''F64Min'', ''F64Max'', ''F64Copysign'',
      ''I32TruncF32S'', ''I32TruncF32U'', ''I32TruncF64S'', ''I32TruncF64U'', ''I64TruncF32S'',
      ''I64TruncF32U'', ''I64TruncF64S'', ''I64TruncF64U'', ''F32ConvertI32S'', ''F32ConvertI32U'',
      ''F32ConvertI64S'', ''F32ConvertI64U'', ''F32DemoteF64'', ''F64ConvertI32S'', ''F64ConvertI32U'',
      ''F64ConvertI64S'', ''F64ConvertI64U'', ''F64PromoteF32'', ''I32ReinterpretF32'',
      ''I64ReinterpretF64'', ''F32ReinterpretI32'', ''F64ReinterpretI64'', ''I32TruncSatF32S'',
      ''I32TruncSatF32U'', ''I32TruncSatF64S'', ''I32TruncSatF64U'', ''I64TruncSatF32S'',
      ''I64TruncSatF32U'', ''I64TruncSatF64S'', ''I64TruncSatF64U'', ''F32x4Splat'', ''F32x4ExtractLane'',
      ''F32x4ReplaceLane'', ''F64x2Splat'', ''F64x2ExtractLane'', ''F64x2ReplaceLane'', ''F32x4Eq'',
      ''F32x4Ne'', ''F32x4Lt'', ''F32x4Gt'', ''F32x4Le'', ''F32x4Ge'', ''F64x2Eq'', ''F64x2Ne'',
      ''F64x2Lt'', ''F64x2Gt'', ''F64x2Le'', ''F64x2Ge'', ''F32x4Ceil'', ''F32x4Floor'', ''F32x4Trunc'',
      ''F32x4Nearest'', ''F64x2Ceil'', ''F64x2Floor'', ''F64x2Trunc'', ''F64x2Nearest'', ''F32x4Abs'',
      ''F32x4Neg'', ''F32x4Sqrt'', ''F32x4Add'', ''F32x4Sub'', ''F32x4Mul'', ''F32x4Div'', ''F32x4Min'',
      ''F32x4Max'', ''F32x4PMin'', ''F32x4PMax'', ''F64x2Abs'', ''F64x2Neg'', ''F64x2Sqrt'', ''F64x2Add'',
      ''F64x2Sub'', ''F64x2Mul'', ''F64x2Div'', ''F64x2Min'', ''F64x2Max'', ''F64x2PMin'', ''F64x2PMax'',
      ''I32x4TruncSatF32x4S'', ''I32x4TruncSatF32x4U'', ''F32x4ConvertI32x4S'', ''F32x4ConvertI32x4U'']"

definition BULK_MEMORY_OPERATORS :: "string list" where
  "BULK_MEMORY_OPERATORS =
     [''MemoryInit'', ''DataDrop'', ''MemoryCopy'', ''MemoryFill'', ''TableInit'', ''ElemDrop'',
      ''TableCopy'', ''TableFill'']"

definition EXCEPTION_OPERATORS :: "string list" where
  "EXCEPTION_OPERATORS =
     [''Try'', ''Catch'', ''Throw'', ''Rethrow'', ''Unwind'', ''Delegate'', ''CatchAll'']"

section \<open>The middleware\<close>

record gatekeeper_config =
  allow_floats :: bool
  allow_feature_bulk_memory_operations :: bool
  allow_feature_reference_types :: bool
  allow_feature_simd :: bool
  allow_feature_exception_handling :: bool
  allow_feature_threads :: bool

definition gatekeeper_default :: gatekeeper_config where
  "gatekeeper_default =
     \<lparr>allow_floats = False, allow_feature_bulk_memory_operations = False, allow_feature_reference_types = False,
      allow_feature_simd = False, allow_feature_exception_handling = False, allow_feature_threads = False\<rparr>"

definition generate_function_middleware :: "gatekeeper_config \<Rightarrow> gatekeeper_config" where
  "generate_function_middleware config = config"

record middleware_error =
  mw_name :: string
  mw_message :: string

definition MIDDLEWARE_NAME :: string where
  "MIDDLEWARE_NAME = ''Gatekeeper''"

text \<open>An arm that depends on a flag: push the operator or report it.\<close>

definition feed_if ::
  "bool \<Rightarrow> string \<Rightarrow> string \<Rightarrow> wasm_operator \<Rightarrow> (wasm_operator list, middleware_error, unit) prog" where
  "feed_if allowed before after operator =
     (if allowed then pmodify (\<lambda>state. state @ [operator])
      else pfail \<lparr>mw_name = MIDDLEWARE_NAME, mw_message = before @ op_debug operator @ after\<rparr>)"

text \<open>The match covers every variant of the enumeration, so that the last branch does not occur.\<close>

definition feed :: "gatekeeper_config \<Rightarrow> wasm_operator \<Rightarrow> (wasm_operator list, middleware_error, unit) prog" where
  "feed config operator =
     (let v = op_variant operator in
      if v \<in> set BASIC_OPERATORS then pmodify (\<lambda>state. state @ [operator])
      else if v \<in> set REFERENCE_OPERATORS then
        feed_if (allow_feature_reference_types config)
          ''Reference type operation detected: '' ''. Reference types are not supported.'' operator
      else if v \<in> set THREAD_OPERATORS then
        feed_if (allow_feature_threads config)
          ''Threads operator detected: '' ''. The Wasm Threads extension is not supported.'' operator
      else if v \<in> set SIMD_OPERATORS then
        feed_if (allow_feature_simd config)
          ''SIMD operator detected: '' ''. The Wasm SIMD extension is not supported.'' operator
      else if v \<in> set FLOAT_OPERATORS then
        feed_if (allow_floats config)
          ''Float operator detected: '' ''. The use of floats is not supported.'' operator
      else if v \<in> set BULK_MEMORY_OPERATORS then
        feed_if (allow_feature_bulk_memory_operations config)
          ''Bulk memory operation detected: '' ''. Bulk memory operations are not supported.'' operator
      else if v \<in> set EXCEPTION_OPERATORS then
        feed_if (allow_feature_exception_handling config)
          ''Exception handling operation detected: '' ''. Exception handling is not supported.'' operator
      else ppanic ''unreachable'')"

text \<open>The operators of a function in their order; the first error stops the compilation.\<close>

fun feed_all :: "gatekeeper_config \<Rightarrow> wasm_operator list \<Rightarrow> (wasm_operator list, middleware_error, unit) prog" where
  "feed_all config [] = preturn ()"
| "feed_all config (operator # operators) = pbind (feed config operator) (\<lambda>_. feed_all config operators)"

section \<open>What passes\<close>

lemma feed_if_Ok_iff: "feed_if b x y op s = Done (Inr (), t) \<longleftrightarrow> b \<and> t = s @ [op]"
  by (auto simp: feed_if_def)

lemma feed_default_Ok_iff:
  "feed gatekeeper_default op s = Done (Inr (), t) \<longleftrightarrow> op_variant op \<in> set BASIC_OPERATORS \<and> t = s @ [op]"
  by (auto simp: feed_def Let_def feed_if_Ok_iff gatekeeper_default_def)

lemma feed_all_default_Ok_iff:
  "feed_all gatekeeper_default ops s = Done (Inr (), t) \<longleftrightarrow>
    (\<forall>op \<in> set ops. op_variant op \<in> set BASIC_OPERATORS) \<and> t = s @ ops"
  by (induction ops arbitrary: s) (auto simp: pbind_eq_Ok_iff feed_default_Ok_iff)

fun has_infix :: "string \<Rightarrow> string \<Rightarrow> bool" where
  "has_infix p [] = (p = [])"
| "has_infix p (c # cs) = (take (length p) (c # cs) = p \<or> has_infix p cs)"

text \<open>
  The operators on integers, apart from the list in the code: control, variables and the size of the
  memory; the functions that exist for both integer types; and those of one type only.
\<close>

definition CONTROL_NAMES :: "string list" where
  "CONTROL_NAMES =
     [''Unreachable'', ''Nop'', ''Block'', ''Loop'', ''If'', ''Else'', ''End'', ''Br'', ''BrIf'', ''BrTable'',
      ''Return'', ''Call'', ''CallIndirect'', ''Drop'', ''Select'', ''LocalGet'', ''LocalSet'', ''LocalTee'',
      ''GlobalGet'', ''GlobalSet'', ''MemorySize'', ''MemoryGrow'']"

definition INTEGER_FUNCTIONS :: "string list" where
  "INTEGER_FUNCTIONS =
     [''Const'', ''Load'', ''Store'', ''Store8'', ''Store16'', ''Eqz'', ''Eq'', ''Ne'', ''Clz'', ''Ctz'', ''Popcnt'',
      ''Add'', ''Sub'', ''Mul'', ''And'', ''Or'', ''Xor'', ''Shl'', ''Rotl'', ''Rotr'', ''Extend8S'', ''Extend16S'']
     @ [f @ sign. f \<leftarrow> [''Load8'', ''Load16'', ''Lt'', ''Gt'', ''Le'', ''Ge'', ''Div'', ''Rem'', ''Shr''], sign \<leftarrow> [''S'', ''U'']]"

definition INTEGER_OPERATORS :: "string list" where
  "INTEGER_OPERATORS =
     CONTROL_NAMES @ [t @ f. t \<leftarrow> [''I32'', ''I64''], f \<leftarrow> INTEGER_FUNCTIONS]
     @ [''I32WrapI64'', ''I64Load32S'', ''I64Load32U'', ''I64Store32'', ''I64Extend32S'', ''I64ExtendI32S'', ''I64ExtendI32U'']"

definition EXTENSION_OPERATORS :: "string list" where
  "EXTENSION_OPERATORS =
     REFERENCE_OPERATORS @ THREAD_OPERATORS @ SIMD_OPERATORS @ FLOAT_OPERATORS @ BULK_MEMORY_OPERATORS @ EXCEPTION_OPERATORS"

text \<open>By its name an operator works on floats, on vectors or on shared memory.\<close>

definition beyond_integers :: "string \<Rightarrow> bool" where
  "beyond_integers v \<longleftrightarrow> list_ex (\<lambda>part. has_infix part v)
     [''F32'', ''F64'', ''V128'', ''8x16'', ''8x8'', ''16x8'', ''16x4'', ''32x4'', ''32x2'', ''64x2'', ''Atomic'']"

lemma basic_operators_integer: "set BASIC_OPERATORS = set INTEGER_OPERATORS"
proof -
  have "list_all (\<lambda>v. List.member INTEGER_OPERATORS v) BASIC_OPERATORS" by code_simp
  moreover have "list_all (\<lambda>v. List.member BASIC_OPERATORS v) INTEGER_OPERATORS" by code_simp
  ultimately show ?thesis by (auto simp: list_all_iff)
qed

lemma integer_operators_names: "list_all (\<lambda>v. \<not> beyond_integers v) INTEGER_OPERATORS"
  by code_simp

lemma extension_operators_names:
  "list_all beyond_integers THREAD_OPERATORS" "list_all beyond_integers SIMD_OPERATORS" "list_all beyond_integers FLOAT_OPERATORS"
  by code_simp+

lemma integer_operators_not_listed:
  "list_all (\<lambda>v. \<not> List.member INTEGER_OPERATORS v) (REFERENCE_OPERATORS @ BULK_MEMORY_OPERATORS @ EXCEPTION_OPERATORS)"
  by code_simp

lemma integer_operators_no_extension: "v \<in> set INTEGER_OPERATORS \<Longrightarrow> v \<notin> set EXTENSION_OPERATORS"
  using integer_operators_names extension_operators_names integer_operators_not_listed
  by (auto simp: EXTENSION_OPERATORS_def list_all_iff)

text \<open>An operator of an extension is refused with an error, and nothing is passed on.\<close>

lemma feed_default_extension:
  assumes "op_variant op \<in> set EXTENSION_OPERATORS"
  shows "\<exists>m. feed gatekeeper_default op out = Done (Inl \<lparr>mw_name = MIDDLEWARE_NAME, mw_message = m\<rparr>, out)"
proof -
  have "op_variant op \<notin> set BASIC_OPERATORS"
    using assms integer_operators_no_extension basic_operators_integer by blast
  then show ?thesis
    using assms by (auto simp: feed_def feed_if_def gatekeeper_default_def EXTENSION_OPERATORS_def Let_def)
qed

end
