(* ===== verification/Guest_Memory.thy ===== *)
theory Guest_Memory
  imports VM_Safety
begin

text \<open>
  The contract's view of its own memory: \<open>packages/std/src/memory.rs\<close> and the two exports
  \<open>allocate\<close> and \<open>deallocate\<close> of \<open>exports.rs\<close>. The code runs inside the same linear memory that
  the host reads and writes, so it is a program on the same state, the environment of the host: an
  import that fails traps and ends the run (\<open>Inl\<close>), and so does a panic. A \<open>usize\<close> and a pointer
  have 32 bits in the contract. The global allocator of Rust is not part of the repository: it is the
  record \<open>global_alloc\<close>, and the locale \<open>guest_heap\<close> states what it promises. What the contract's own
  instructions cost in gas is not part of the model.
\<close>

section \<open>The allocator, boxes and vectors\<close>

record 'w global_alloc =
  ga_alloc :: "u32 \<Rightarrow> u32 \<Rightarrow> 'w \<Rightarrow> (u32 \<times> 'w) option"
  ga_dealloc :: "u32 \<Rightarrow> u32 \<Rightarrow> u32 \<Rightarrow> 'w \<Rightarrow> 'w"

definition no_guest :: string where
  "no_guest = ''no instance''"

definition out_of_bounds :: string where
  "out_of_bounds = ''out of bounds memory access''"

definition oom :: string where
  "oom = ''memory allocation failed''"

definition in_guest :: "string \<Rightarrow> ('w \<Rightarrow> ('a \<times> 'w) option) \<Rightarrow> ('s, 'q, 'w, 'a) vm_prog" where
  "in_guest m f env =
     (case cd_wasm_instance env of
        None \<Rightarrow> Panic no_guest
      | Some w \<Rightarrow>
          (case f w of
             None \<Rightarrow> Panic m
           | Some (x, w') \<Rightarrow> Done (Inr x, env\<lparr>cd_wasm_instance := Some w'\<rparr>)))"

text \<open>Nothing is allocated for a size of zero: the pointer is then the alignment.\<close>

definition raw_alloc :: "'w global_alloc \<Rightarrow> u32 \<Rightarrow> u32 \<Rightarrow> ('s, 'q, 'w, u32) vm_prog" where
  "raw_alloc A n al = (if n = 0 then preturn al else in_guest oom (ga_alloc A n al))"

definition raw_dealloc :: "'w global_alloc \<Rightarrow> u32 \<Rightarrow> u32 \<Rightarrow> u32 \<Rightarrow> ('s, 'q, 'w, unit) vm_prog" where
  "raw_dealloc A p n al =
     (if n = 0 then preturn () else in_guest out_of_bounds (\<lambda>w. Some ((), ga_dealloc A p n al w)))"

definition load_bytes :: "'w wasm_engine \<Rightarrow> u32 \<Rightarrow> u32 \<Rightarrow> ('s, 'q, 'w, bytes) vm_prog" where
  "load_bytes E p n = in_guest out_of_bounds (\<lambda>w. map_option (\<lambda>bs. (bs, w)) (we_read_cells E w p n))"

definition store_bytes :: "'w wasm_engine \<Rightarrow> u32 \<Rightarrow> bytes \<Rightarrow> ('s, 'q, 'w, unit) vm_prog" where
  "store_bytes E p bs =
     in_guest out_of_bounds (\<lambda>w. map_option (\<lambda>w'. ((), w')) (we_write_cells E w p (word_of_nat (length bs)) bs))"

text \<open>A vector of bytes is its pointer, its length and its capacity; a slice is a pointer and a length.\<close>

record vec_u8 =
  vec_ptr :: u32
  vec_cap :: u32
  vec_len :: u32

record slice_u8 =
  sl_ptr :: u32
  sl_len :: u32

definition as_slice :: "vec_u8 \<Rightarrow> slice_u8" where
  "as_slice v = \<lparr>sl_ptr = vec_ptr v, sl_len = vec_len v\<rparr>"

definition vec_with_capacity :: "'w global_alloc \<Rightarrow> u32 \<Rightarrow> ('s, 'q, 'w, vec_u8) vm_prog" where
  "vec_with_capacity A n = pbind (raw_alloc A n 1) (\<lambda>p. preturn \<lparr>vec_ptr = p, vec_cap = n, vec_len = 0\<rparr>)"

definition vec_drop :: "'w global_alloc \<Rightarrow> vec_u8 \<Rightarrow> ('s, 'q, 'w, unit) vm_prog" where
  "vec_drop A v = raw_dealloc A (vec_ptr v) (vec_cap v) 1"

definition vec_bytes :: "'w wasm_engine \<Rightarrow> vec_u8 \<Rightarrow> ('s, 'q, 'w, bytes) vm_prog" where
  "vec_bytes E v = load_bytes E (vec_ptr v) (vec_len v)"

text \<open>A vector with the given content, as a function of the contract computes it.\<close>

definition vec_of :: "'w wasm_engine \<Rightarrow> 'w global_alloc \<Rightarrow> bytes \<Rightarrow> ('s, 'q, 'w, vec_u8) vm_prog" where
  "vec_of E A bs =
     pbind (vec_with_capacity A (word_of_nat (length bs))) (\<lambda>v.
     pbind (store_bytes E (vec_ptr v) bs) (\<lambda>_.
     preturn (v\<lparr>vec_len := word_of_nat (length bs)\<rparr>)))"

definition box_new :: "'w wasm_engine \<Rightarrow> 'w global_alloc \<Rightarrow> region \<Rightarrow> ('s, 'q, 'w, u32) vm_prog" where
  "box_new E A r =
     pbind (raw_alloc A 12 4) (\<lambda>p.
     pbind (store_bytes E p (region_bytes r)) (\<lambda>_. preturn p))"

definition box_read :: "'w wasm_engine \<Rightarrow> u32 \<Rightarrow> ('s, 'q, 'w, region) vm_prog" where
  "box_read E p = pbind (load_bytes E p 12) (\<lambda>bs. preturn (bytes_region bs))"

definition box_drop :: "'w global_alloc \<Rightarrow> u32 \<Rightarrow> ('s, 'q, 'w, unit) vm_prog" where
  "box_drop A p = raw_dealloc A p 12 4"

section \<open>The code\<close>

text \<open>
  A pointer to a \<open>Region\<close> is its address. The conversions of a pointer and of a length to 32 bits
  cannot fail here.
\<close>

definition build_region_from_components ::
  "'w wasm_engine \<Rightarrow> 'w global_alloc \<Rightarrow> u32 \<Rightarrow> u32 \<Rightarrow> u32 \<Rightarrow> ('s, 'q, 'w, u32) vm_prog" where
  "build_region_from_components E A offset capacity len =
     box_new E A \<lparr>reg_offset = offset, reg_capacity = capacity, reg_length = len\<rparr>"

definition guest_alloc :: "'w wasm_engine \<Rightarrow> 'w global_alloc \<Rightarrow> u32 \<Rightarrow> ('s, 'q, 'w, u32) vm_prog" where
  "guest_alloc E A n =
     pbind (vec_with_capacity A n) (\<lambda>data.
     build_region_from_components E A (vec_ptr data) (vec_cap data) 0)"

definition build_region :: "'w wasm_engine \<Rightarrow> 'w global_alloc \<Rightarrow> slice_u8 \<Rightarrow> ('s, 'q, 'w, u32) vm_prog" where
  "build_region E A data = build_region_from_components E A (sl_ptr data) (sl_len data) (sl_len data)"

definition release_buffer :: "'w wasm_engine \<Rightarrow> 'w global_alloc \<Rightarrow> vec_u8 \<Rightarrow> ('s, 'q, 'w, u32) vm_prog" where
  "release_buffer E A buffer = build_region E A (as_slice buffer)"

definition consume_region :: "'w wasm_engine \<Rightarrow> 'w global_alloc \<Rightarrow> u32 \<Rightarrow> ('s, 'q, 'w, vec_u8) vm_prog" where
  "consume_region E A ptr =
     (if ptr = 0 then ppanic ''Region pointer is null''
      else pbind (box_read E ptr) (\<lambda>region.
           if reg_offset region = 0 then ppanic ''Region starts at null pointer''
           else pbind (box_drop A ptr) (\<lambda>_.
                preturn \<lparr>vec_ptr = reg_offset region, vec_cap = reg_capacity region, vec_len = reg_length region\<rparr>)))"

definition get_optional_region_address :: "u32 option \<Rightarrow> u32" where
  "get_optional_region_address region = (case region of Some p \<Rightarrow> p | None \<Rightarrow> 0)"

definition export_allocate :: "'w wasm_engine \<Rightarrow> 'w global_alloc \<Rightarrow> u32 \<Rightarrow> ('s, 'q, 'w, u32) vm_prog" where
  "export_allocate E A n = guest_alloc E A n"

definition export_deallocate :: "'w wasm_engine \<Rightarrow> 'w global_alloc \<Rightarrow> u32 \<Rightarrow> ('s, 'q, 'w, unit) vm_prog" where
  "export_deallocate E A pointer = pbind (consume_region E A pointer) (vec_drop A)"

text \<open>A region that lives as long as a block of code: \<open>let key = build_region(..)\<close> up to the end of the scope.\<close>

definition with_region ::
  "'w wasm_engine \<Rightarrow> 'w global_alloc \<Rightarrow> slice_u8 \<Rightarrow> (u32 \<Rightarrow> ('s, 'q, 'w, 'a) vm_prog) \<Rightarrow> ('s, 'q, 'w, 'a) vm_prog" where
  "with_region E A data f =
     pbind (build_region E A data) (\<lambda>p. pbind (f p) (\<lambda>x. pbind (box_drop A p) (\<lambda>_. preturn x)))"

text \<open>The exports as the engine runs them when the host calls \<open>allocate\<close>: a panic is a trap.\<close>

definition run_allocate ::
  "'w wasm_engine \<Rightarrow> 'w global_alloc \<Rightarrow> u32 \<Rightarrow> ('s, 'q, 'w) context_data \<Rightarrow>
    (call_failure, wasm_val list) result \<times> ('s, 'q, 'w) context_data" where
  "run_allocate E A n env =
     (case export_allocate E A n env of
        Done (Inr p, env') \<Rightarrow> (Inr [I32 p], env')
      | Done (Inl e, env') \<Rightarrow> (Inl (RuntimeFailure ''unreachable''), env')
      | Panic m \<Rightarrow> (Inl (RuntimeFailure m), env))"

section \<open>What the allocator promises\<close>

text \<open>
  A block is an address and a size. \<open>kept\<close>: what the blocks hold is the same in both memories, and
  an address of the first is an address of the second.
\<close>

type_synonym block = "nat \<times> nat"

definition kept :: "'w wasm_engine \<Rightarrow> block set \<Rightarrow> 'w \<Rightarrow> 'w \<Rightarrow> bool" where
  "kept E B w w' \<longleftrightarrow>
     (\<forall>off. we_read_cells E w off 0 = Some [] \<longrightarrow> we_read_cells E w' off 0 = Some []) \<and>
     (\<forall>p n off len. (p, n) \<in> B \<longrightarrow> p \<le> unat off \<longrightarrow> unat off + unat len \<le> p + n \<longrightarrow>
        we_read_cells E w' off len = we_read_cells E w off len)"

definition separate :: "block set \<Rightarrow> block set \<Rightarrow> bool" where
  "separate X B \<longleftrightarrow> (\<forall>p n q m. (p, n) \<in> X \<longrightarrow> (q, m) \<in> B \<longrightarrow> q + m \<le> p \<or> p + n \<le> q)"

definition blk :: "u32 \<Rightarrow> u32 \<Rightarrow> block set" where
  "blk p n = (if n = 0 then {} else {(unat p, unat n)})"

lemma kept_refl [simp]: "kept E B w w"
  by (simp add: kept_def)

lemma kept_trans: "kept E B u v \<Longrightarrow> kept E B v w \<Longrightarrow> kept E B u w"
  by (auto simp: kept_def)

lemma kept_mono: "kept E B u v \<Longrightarrow> C \<subseteq> B \<Longrightarrow> kept E C u v"
  unfolding kept_def by blast

lemma keptD: "kept E B w w' \<Longrightarrow> (p, n) \<in> B \<Longrightarrow> p \<le> unat off \<Longrightarrow> unat off + unat len \<le> p + n \<Longrightarrow>
    we_read_cells E w' off len = we_read_cells E w off len"
  unfolding kept_def by blast

lemma separate_mono: "separate X B \<Longrightarrow> Y \<subseteq> X \<Longrightarrow> C \<subseteq> B \<Longrightarrow> separate Y C"
  unfolding separate_def by blast

lemma separate_Un [simp]:
  "separate (X \<union> Y) B \<longleftrightarrow> separate X B \<and> separate Y B" "separate X (B \<union> C) \<longleftrightarrow> separate X B \<and> separate X C"
  unfolding separate_def by blast+

lemma separate_insert:
  "separate (insert (p, n) X) B \<longleftrightarrow> separate {(p, n)} B \<and> separate X B"
  "separate X (insert (p, n) B) \<longleftrightarrow> separate X {(p, n)} \<and> separate X B"
  unfolding separate_def by blast+

lemma separate_notin: "separate {(p, n)} B \<Longrightarrow> 0 < n \<Longrightarrow> (p, n) \<notin> B"
  unfolding separate_def by force

lemma separate_empty [simp]: "separate {} B" "separate X {}"
  by (simp_all add: separate_def)

lemma separate_sym: "separate X B \<Longrightarrow> separate B X"
  unfolding separate_def by blast

text \<open>The memory of a wasm instance is a sequence of bytes, and a \<open>Region\<close> is three numbers in it.\<close>

locale byte_memory = wasm_engine_laws E for E :: "'w wasm_engine" +
  assumes deref_bytes: "4 dvd unat p \<Longrightarrow> we_deref_region E w p = map_option bytes_region (we_read_cells E w p 12)"
    and set_bytes: "4 dvd unat p \<Longrightarrow> we_set_region E w p r = we_write_cells E w p 12 (region_bytes r)"
    and write_apart: "we_write_cells E w off cap d = Some w' \<Longrightarrow>
      unat off + unat cap \<le> unat off2 \<or> unat off2 + unat len \<le> unat off \<Longrightarrow>
      we_read_cells E w' off2 len = we_read_cells E w off2 len"
    and write_defined: "we_read_cells E w off cap \<noteq> None \<Longrightarrow> length d \<le> unat cap \<Longrightarrow> we_write_cells E w off cap d \<noteq> None"
    and write_addresses: "we_write_cells E w off cap d = Some w' \<Longrightarrow>
      we_read_cells E w' off2 len = None \<longleftrightarrow> we_read_cells E w off2 len = None"
    and write_nothing: "we_write_cells E w off cap [] = Some w' \<Longrightarrow> w' = w"
begin

lemma write_kept:
  assumes "we_write_cells E w off cap d = Some w'" "separate {(unat off, unat cap)} B"
  shows "kept E B w w'"
proof -
  have "we_read_cells E w' o2 0 = Some []" if "we_read_cells E w o2 0 = Some []" for o2
    using write_addresses [OF assms(1), of o2 0] read_length [of w' o2 0] that
    by (cases "we_read_cells E w' o2 0") auto
  moreover have "we_read_cells E w' o2 len = we_read_cells E w o2 len"
    if "(p, n) \<in> B" "p \<le> unat o2" "unat o2 + unat len \<le> p + n" for p n o2 len
    using write_apart [OF assms(1), of o2 len] assms(2) that unfolding separate_def by force
  ultimately show ?thesis unfolding kept_def by blast
qed

lemma set_points_kept: "kept E B w (we_set_points E w g)"
  by (simp add: kept_def set_points_memory)

end

locale guest_heap = byte_memory E for E :: "'w wasm_engine" +
  fixes A :: "'w global_alloc" and heap_inv :: "'w \<Rightarrow> block set \<Rightarrow> bool"
  assumes heap_memory: "heap_inv w B \<Longrightarrow> we_has_memory E w \<and> we_read_cells E w 1 0 = Some []"
    and heap_block: "heap_inv w B \<Longrightarrow> (unat p, unat n) \<in> B \<Longrightarrow>
      p \<noteq> 0 \<and> unat p + unat n < 2 ^ 32 \<and> we_read_cells E w p n \<noteq> None"
    and alloc_law: "heap_inv w B \<Longrightarrow> n \<noteq> 0 \<Longrightarrow> al \<in> {1, 4} \<Longrightarrow> ga_alloc A n al w = Some (p, w') \<Longrightarrow>
      unat al dvd unat p \<and> heap_inv w' (insert (unat p, unat n) B) \<and> separate {(unat p, unat n)} B \<and> kept E B w w'"
    and dealloc_law: "heap_inv w (insert (unat p, unat n) B) \<Longrightarrow> (unat p, unat n) \<notin> B \<Longrightarrow>
      heap_inv (ga_dealloc A p n al w) B \<and> kept E B w (ga_dealloc A p n al w)"
    and write_law: "heap_inv w B \<Longrightarrow> (q, m) \<in> B \<Longrightarrow> q \<le> unat off \<Longrightarrow> unat off + unat cap \<le> q + m \<Longrightarrow>
      we_write_cells E w off cap d = Some w' \<Longrightarrow> heap_inv w' B"
    and points_law: "heap_inv (we_set_points E w g) B = heap_inv w B"
begin

lemma raw_alloc_spec:
  fixes env :: "('s, 'q, 'w) context_data"
  assumes "cd_wasm_instance env = Some w" "heap_inv w B" "al \<in> {1, 4}"
  shows "raw_alloc A n al env = Panic oom \<or>
    (\<exists>p w'. raw_alloc A n al env = Done (Inr p, env\<lparr>cd_wasm_instance := Some w'\<rparr>) \<and> unat al dvd unat p \<and> p \<noteq> 0 \<and>
       unat p + unat n < 2 ^ 32 \<and> heap_inv w' (blk p n \<union> B) \<and> separate (blk p n) B \<and> kept E B w w')"
proof (cases "n = 0")
  case True
  moreover have "env\<lparr>cd_wasm_instance := Some w\<rparr> = env" using assms(1) by (cases env) simp
  ultimately show ?thesis using assms(2,3)
    by (intro disjI2 exI [of _ al] exI [of _ w]) (auto simp: raw_alloc_def blk_def)
next
  case False
  show ?thesis
  proof (cases "ga_alloc A n al w")
    case None
    then show ?thesis using False assms(1) by (simp add: raw_alloc_def in_guest_def)
  next
    case (Some pw)
    obtain p w' where pw: "pw = (p, w')" by (cases pw)
    have laws: "unat al dvd unat p \<and> heap_inv w' (insert (unat p, unat n) B) \<and> separate {(unat p, unat n)} B \<and> kept E B w w'"
      using alloc_law [OF assms(2) False assms(3)] Some pw by blast
    then have "p \<noteq> 0 \<and> unat p + unat n < 2 ^ 32" using heap_block [of w' _ p n] by blast
    then show ?thesis using laws Some pw False assms(1)
      by (intro disjI2 exI [of _ p] exI [of _ w']) (simp add: raw_alloc_def in_guest_def blk_def)
  qed
qed

lemma store_spec:
  fixes env :: "('s, 'q, 'w) context_data"
  assumes "cd_wasm_instance env = Some w" "heap_inv w (insert (unat p, length bs) B)" "length bs < 2 ^ 32"
    and "separate {(unat p, length bs)} B"
  shows "\<exists>w'. store_bytes E p bs env = Done (Inr (), env\<lparr>cd_wasm_instance := Some w'\<rparr>) \<and>
    heap_inv w' (insert (unat p, length bs) B) \<and> kept E B w w' \<and>
    we_read_cells E w' p (word_of_nat (length bs)) = Some bs"
proof -
  define n :: u32 where "n = word_of_nat (length bs)"
  have n: "unat n = length bs" using assms(3) by (simp add: n_def unat_of_nat)
  obtain w' where w': "we_write_cells E w p n bs = Some w'"
    using heap_block [of w _ p n] write_defined [of w p n bs] assms(2) n by force
  have "heap_inv w' (insert (unat p, length bs) B)"
    using write_law [OF assms(2) _ _ _ w'] n by auto
  moreover have "kept E B w w'" using write_kept [OF w'] assms(4) n by simp
  moreover have "we_read_cells E w' p n = Some bs" using read_written [OF w'] n n_def by simp
  ultimately show ?thesis using w' assms(1)
    by (intro exI [of _ w']) (simp add: store_bytes_def in_guest_def n_def)
qed

lemma box_new_spec:
  fixes env :: "('s, 'q, 'w) context_data"
  assumes "cd_wasm_instance env = Some w" "heap_inv w B"
  shows "box_new E A r env = Panic oom \<or>
    (\<exists>p w'. box_new E A r env = Done (Inr p, env\<lparr>cd_wasm_instance := Some w'\<rparr>) \<and> 4 dvd unat p \<and> p \<noteq> 0 \<and>
       heap_inv w' (insert (unat p, 12) B) \<and> separate {(unat p, 12)} B \<and> kept E B w w' \<and>
       we_read_cells E w' p 12 = Some (region_bytes r))"
proof -
  consider "raw_alloc A 12 4 env = Panic oom" | p w' where
    "raw_alloc A 12 4 env = Done (Inr p, env\<lparr>cd_wasm_instance := Some w'\<rparr>)" "4 dvd unat p" "p \<noteq> 0"
    "heap_inv w' (insert (unat p, 12) B)" "separate {(unat p, 12)} B" "kept E B w w'"
    using raw_alloc_spec [OF assms, of 4 12] by (auto simp: blk_def)
  then show ?thesis
  proof cases
    case (2 p w')
    obtain w'' where "store_bytes E p (region_bytes r) (env\<lparr>cd_wasm_instance := Some w'\<rparr>) =
          Done (Inr (), env\<lparr>cd_wasm_instance := Some w''\<rparr>)"
      "heap_inv w'' (insert (unat p, 12) B)" "kept E B w' w''" "we_read_cells E w'' p 12 = Some (region_bytes r)"
      using store_spec [of "env\<lparr>cd_wasm_instance := Some w'\<rparr>" w' p "region_bytes r" B] 2 by auto
    with 2 show ?thesis by (auto simp: box_new_def pbind_def intro: kept_trans)
  qed (simp add: box_new_def pbind_def)
qed

text \<open>\<open>alloc\<close> returns a region of the given capacity in new memory.\<close>

lemma guest_alloc_spec:
  fixes env :: "('s, 'q, 'w) context_data"
  assumes "cd_wasm_instance env = Some w" "heap_inv w B"
  shows "guest_alloc E A n env = Panic oom \<or>
    (\<exists>p off w'. guest_alloc E A n env = Done (Inr p, env\<lparr>cd_wasm_instance := Some w'\<rparr>) \<and> 4 dvd unat p \<and> p \<noteq> 0 \<and>
       off \<noteq> 0 \<and> unat off + unat n < 2 ^ 32 \<and> heap_inv w' (insert (unat p, 12) (blk off n \<union> B)) \<and>
       separate {(unat p, 12)} (blk off n \<union> B) \<and> separate (blk off n) B \<and> kept E B w w' \<and>
       we_read_cells E w' p 12 = Some (region_bytes \<lparr>reg_offset = off, reg_capacity = n, reg_length = 0\<rparr>))"
proof -
  consider "raw_alloc A n 1 env = Panic oom" | off w' where
    "raw_alloc A n 1 env = Done (Inr off, env\<lparr>cd_wasm_instance := Some w'\<rparr>)" "off \<noteq> 0" "unat off + unat n < 2 ^ 32"
    "heap_inv w' (blk off n \<union> B)" "separate (blk off n) B" "kept E B w w'"
    using raw_alloc_spec [OF assms, of 1 n] by auto
  then show ?thesis
  proof cases
    case (2 off w')
    define r where "r = \<lparr>reg_offset = off, reg_capacity = n, reg_length = 0\<rparr>"
    consider "box_new E A r (env\<lparr>cd_wasm_instance := Some w'\<rparr>) = Panic oom" | p w'' where
      "box_new E A r (env\<lparr>cd_wasm_instance := Some w'\<rparr>) = Done (Inr p, env\<lparr>cd_wasm_instance := Some w''\<rparr>)"
      "4 dvd unat p" "p \<noteq> 0" "heap_inv w'' (insert (unat p, 12) (blk off n \<union> B))"
      "separate {(unat p, 12)} (blk off n \<union> B)" "kept E (blk off n \<union> B) w' w''"
      "we_read_cells E w'' p 12 = Some (region_bytes r)"
      using box_new_spec [of "env\<lparr>cd_wasm_instance := Some w'\<rparr>" w' "blk off n \<union> B" r] 2(4) by auto
    then show ?thesis
    proof cases
      case 1
      with 2 show ?thesis by (simp add: guest_alloc_def vec_with_capacity_def build_region_from_components_def pbind_def r_def)
    next
      case (2 p w'')
      have "kept E B w w''" by (rule kept_trans [OF \<open>kept E B w w'\<close> kept_mono [OF 2(6) Un_upper2]])
      moreover have "guest_alloc E A n env = Done (Inr p, env\<lparr>cd_wasm_instance := Some w''\<rparr>)"
        using 2(1) \<open>raw_alloc A n 1 env = _\<close>
        by (simp add: guest_alloc_def vec_with_capacity_def build_region_from_components_def pbind_def r_def)
      ultimately show ?thesis
        using 2(2-5,7) \<open>off \<noteq> 0\<close> \<open>unat off + unat n < _\<close> \<open>separate (blk off n) B\<close> unfolding r_def by blast
    qed
  qed (simp add: guest_alloc_def vec_with_capacity_def pbind_def)
qed

text \<open>\<open>consume_region\<close> frees the description of the region and hands out its data.\<close>

lemma consume_region_spec:
  fixes env :: "('s, 'q, 'w) context_data"
  assumes "cd_wasm_instance env = Some w" "heap_inv w (insert (unat p, 12) B)" "(unat p, 12) \<notin> B"
    and "we_read_cells E w p 12 = Some (region_bytes r)" "reg_offset r \<noteq> 0"
  shows "\<exists>w'. consume_region E A p env =
      Done (Inr \<lparr>vec_ptr = reg_offset r, vec_cap = reg_capacity r, vec_len = reg_length r\<rparr>, env\<lparr>cd_wasm_instance := Some w'\<rparr>) \<and>
    heap_inv w' B \<and> kept E B w w'"
proof -
  have p: "p \<noteq> 0" using heap_block [of w _ p 12] assms(2) by auto
  have "heap_inv (ga_dealloc A p 12 4 w) B \<and> kept E B w (ga_dealloc A p 12 4 w)"
    using dealloc_law [of w p 12 B 4] assms(2,3) by simp
  moreover have env: "env\<lparr>cd_wasm_instance := Some w\<rparr> = env" using assms(1) by (cases env) simp
  ultimately show ?thesis using p assms(1,4,5)
    by (intro exI [of _ "ga_dealloc A p 12 4 w"])
      (simp add: consume_region_def box_read_def box_drop_def raw_dealloc_def load_bytes_def in_guest_def pbind_def
        bytes_region_bytes)
qed

lemma box_drop_spec:
  fixes env :: "('s, 'q, 'w) context_data"
  assumes "cd_wasm_instance env = Some w" "heap_inv w (insert (unat p, 12) B)" "(unat p, 12) \<notin> B"
  shows "\<exists>w'. box_drop A p env = Done (Inr (), env\<lparr>cd_wasm_instance := Some w'\<rparr>) \<and> heap_inv w' B \<and> kept E B w w'"
  using dealloc_law [of w p 12 B 4] assms by (auto simp: box_drop_def raw_dealloc_def in_guest_def)

end

end
