(* ===== verification/Guest_Imports.thy ===== *)
theory Guest_Imports
  imports Guest_Memory Crypto Std_Query
begin

text \<open>
  \<open>packages/std/src/imports.rs\<close>: the storage, the API and the querier that a contract works with
  are stateless wrappers of the imports. Each builds regions for its arguments, calls the import and
  takes over the region that the host returns. The imports are the functions of the virtual machine
  itself (theory VM_Imports), so the two sides of the boundary meet in one model: the locale
  \<open>guest_host\<close> only says that the \<open>allocate\<close> the host calls is the one of this library.
\<close>

section \<open>Storage\<close>

definition external_get ::
  "('s, 'q, 'w, 'r) host \<Rightarrow> 'w global_alloc \<Rightarrow> slice_u8 \<Rightarrow> ('s, 'q, 'w, vec_u8 option) vm_prog" where
  "external_get H A key =
     with_region (h_engine H) A key (\<lambda>key_ptr.
     pbind (do_db_read H key_ptr) (\<lambda>read.
     if read = 0 then preturn None
     else pbind (consume_region (h_engine H) A read) (\<lambda>data. preturn (Some data))))"

definition empty_value :: string where
  "empty_value = ''TL;DR: Value must not be empty in Storage::set but in most cases you can use Storage::remove instead. Long story: Getting empty values from storage is not well supported at the moment. Some of our internal interfaces cannot differentiate between a non-existent key and an empty value. Right now, you cannot rely on the behaviour of empty values. To protect you from trouble later on, we stop here. Sorry for the inconvenience! We highly welcome you to contribute to CosmWasm, making this more solid one way or the other.''"

definition external_set ::
  "('s, 'q, 'w, 'r) host \<Rightarrow> 'w global_alloc \<Rightarrow> slice_u8 \<Rightarrow> slice_u8 \<Rightarrow> ('s, 'q, 'w, unit) vm_prog" where
  "external_set H A key value =
     (if sl_len value = 0 then ppanic empty_value
      else with_region (h_engine H) A key (\<lambda>key_ptr.
           with_region (h_engine H) A value (\<lambda>value_ptr. do_db_write H key_ptr value_ptr)))"

definition external_remove ::
  "('s, 'q, 'w, 'r) host \<Rightarrow> 'w global_alloc \<Rightarrow> slice_u8 \<Rightarrow> ('s, 'q, 'w, unit) vm_prog" where
  "external_remove H A key = with_region (h_engine H) A key (do_db_remove H)"

text \<open>An optional region, absent when the bound is.\<close>

definition with_optional_region ::
  "'w wasm_engine \<Rightarrow> 'w global_alloc \<Rightarrow> slice_u8 option \<Rightarrow> (u32 option \<Rightarrow> ('s, 'q, 'w, 'a) vm_prog) \<Rightarrow> ('s, 'q, 'w, 'a) vm_prog" where
  "with_optional_region E A bound f =
     (case bound of None \<Rightarrow> f None | Some data \<Rightarrow> with_region E A data (\<lambda>p. f (Some p)))"

record external_iterator =
  iterator_id :: u32

definition external_range ::
  "('s, 'q, 'w, 'r) host \<Rightarrow> 'w global_alloc \<Rightarrow> slice_u8 option \<Rightarrow> slice_u8 option \<Rightarrow> order \<Rightarrow>
    ('s, 'q, 'w, external_iterator) vm_prog" where
  "external_range H A start end ord =
     with_optional_region (h_engine H) A start (\<lambda>start_region.
     with_optional_region (h_engine H) A end (\<lambda>end_region.
     pbind (do_db_scan H (get_optional_region_address start_region) (get_optional_region_address end_region)
              (order_to_i32 ord)) (\<lambda>i.
     preturn \<lparr>iterator_id = i\<rparr>)))"

text \<open>
  \<open>decode_sections2\<close> consumes the vector: key and value are what it splits the bytes into.
\<close>

definition external_next ::
  "('s, 'q, 'w, 'r) host \<Rightarrow> 'w global_alloc \<Rightarrow> external_iterator \<Rightarrow> ('s, 'q, 'w, kv option) vm_prog" where
  "external_next H A self =
     pbind (do_db_next H (iterator_id self)) (\<lambda>next_result.
     pbind (consume_region (h_engine H) A next_result) (\<lambda>v.
     pbind (vec_bytes (h_engine H) v) (\<lambda>bytes.
     pbind (plift_out (decode_sections2 bytes)) (\<lambda>(key, value).
     if length key = 0 then preturn None else preturn (Some (key, value))))))"

section \<open>Addresses\<close>

definition CANONICAL_ADDRESS_BUFFER_LENGTH :: u32 where
  "CANONICAL_ADDRESS_BUFFER_LENGTH = 64"

definition HUMAN_ADDRESS_BUFFER_LENGTH :: u32 where
  "HUMAN_ADDRESS_BUFFER_LENGTH = 90"

text \<open>A string is the vector of its bytes; the result of the contract's function is the inner \<open>Result\<close>.\<close>

definition consume_string_region_written_by_vm ::
  "('s, 'q, 'w, 'r) host \<Rightarrow> 'w global_alloc \<Rightarrow> u32 \<Rightarrow> ('s, 'q, 'w, vec_u8) vm_prog" where
  "consume_string_region_written_by_vm H A from_ptr = consume_region (h_engine H) A from_ptr"

text \<open>The three functions report an error of the host in the same way.\<close>

definition host_error ::
  "('s, 'q, 'w, 'r) host \<Rightarrow> 'w global_alloc \<Rightarrow> string \<Rightarrow> u32 \<Rightarrow> ('s, 'q, 'w, 'a std_result) vm_prog" where
  "host_error H A name result =
     pbind (consume_string_region_written_by_vm H A result) (\<lambda>err.
     pbind (vec_bytes (h_engine H) err) (\<lambda>bytes.
     pbind (vec_drop A err) (\<lambda>_.
     preturn (Inl (GenericErr (name @ '' errored: '' @ from_ascii bytes))))))"

text \<open>\<open>Addr::unchecked(input)\<close> copies the string.\<close>

definition external_addr_validate ::
  "('s, 'q, 'w, 'r) host \<Rightarrow> 'w global_alloc \<Rightarrow> slice_u8 \<Rightarrow> ('s, 'q, 'w, string std_result) vm_prog" where
  "external_addr_validate H A input =
     (if 256 < sl_len input then preturn (Inl (GenericErr ''input too long for addr_validate''))
      else with_region (h_engine H) A input (\<lambda>source_ptr.
           pbind (do_addr_validate H source_ptr) (\<lambda>result.
           if result \<noteq> 0 then host_error H A ''addr_validate'' result
           else pbind (load_bytes (h_engine H) (sl_ptr input) (sl_len input)) (\<lambda>bytes.
                pbind (vec_of (h_engine H) A bytes) (\<lambda>addr.
                preturn (Inr (from_ascii bytes)))))))"

definition external_addr_canonicalize ::
  "('s, 'q, 'w, 'r) host \<Rightarrow> 'w global_alloc \<Rightarrow> slice_u8 \<Rightarrow> ('s, 'q, 'w, bytes std_result) vm_prog" where
  "external_addr_canonicalize H A input =
     (if 256 < sl_len input then preturn (Inl (GenericErr ''input too long for addr_canonicalize''))
      else with_region (h_engine H) A input (\<lambda>send_ptr.
           pbind (guest_alloc (h_engine H) A CANONICAL_ADDRESS_BUFFER_LENGTH) (\<lambda>canon.
           pbind (do_addr_canonicalize H send_ptr canon) (\<lambda>result.
           if result \<noteq> 0 then host_error H A ''addr_canonicalize'' result
           else pbind (consume_region (h_engine H) A canon) (\<lambda>out.
                pbind (vec_bytes (h_engine H) out) (\<lambda>bytes. preturn (Inr bytes)))))))"

definition external_addr_humanize ::
  "('s, 'q, 'w, 'r) host \<Rightarrow> 'w global_alloc \<Rightarrow> slice_u8 \<Rightarrow> ('s, 'q, 'w, string std_result) vm_prog" where
  "external_addr_humanize H A canonical =
     with_region (h_engine H) A canonical (\<lambda>send_ptr.
     pbind (guest_alloc (h_engine H) A HUMAN_ADDRESS_BUFFER_LENGTH) (\<lambda>human.
     pbind (do_addr_humanize H send_ptr human) (\<lambda>result.
     if result \<noteq> 0 then host_error H A ''addr_humanize'' result
     else pbind (consume_string_region_written_by_vm H A human) (\<lambda>address.
          pbind (vec_bytes (h_engine H) address) (\<lambda>bytes. preturn (Inr (from_ascii bytes)))))))"

section \<open>Signatures, debugging and queries\<close>

definition external_secp256k1_verify ::
  "('s, 'q, 'w, 'r) host \<Rightarrow> 'w global_alloc \<Rightarrow> slice_u8 \<Rightarrow> slice_u8 \<Rightarrow> slice_u8 \<Rightarrow>
    ('s, 'q, 'w, (verification_error, bool) result) vm_prog" where
  "external_secp256k1_verify H A message_hash signature public_key =
     with_region (h_engine H) A message_hash (\<lambda>hash_send_ptr.
     with_region (h_engine H) A signature (\<lambda>sig_send_ptr.
     with_region (h_engine H) A public_key (\<lambda>pubkey_send_ptr.
     pbind (do_secp256k1_verify H hash_send_ptr sig_send_ptr pubkey_send_ptr) (\<lambda>result.
     plift_out (external_secp256k1_verdict result)))))"

definition external_secp256k1_recover_pubkey ::
  "('s, 'q, 'w, 'r) host \<Rightarrow> 'w global_alloc \<Rightarrow> slice_u8 \<Rightarrow> slice_u8 \<Rightarrow> u8 \<Rightarrow>
    ('s, 'q, 'w, (recover_pubkey_error, vec_u8) result) vm_prog" where
  "external_secp256k1_recover_pubkey H A message_hash signature recover_param =
     with_region (h_engine H) A message_hash (\<lambda>hash_send_ptr.
     with_region (h_engine H) A signature (\<lambda>sig_send_ptr.
     pbind (do_secp256k1_recover_pubkey H hash_send_ptr sig_send_ptr (ucast recover_param)) (\<lambda>result.
     pbind (plift_out (external_recover_verdict result)) (\<lambda>verdict.
     case verdict of
       Inr pubkey_ptr \<Rightarrow> pbind (consume_region (h_engine H) A pubkey_ptr) (\<lambda>pubkey. preturn (Inr pubkey))
     | Inl err \<Rightarrow> preturn (Inl err)))))"

definition external_ed25519_verify ::
  "('s, 'q, 'w, 'r) host \<Rightarrow> 'w global_alloc \<Rightarrow> slice_u8 \<Rightarrow> slice_u8 \<Rightarrow> slice_u8 \<Rightarrow>
    ('s, 'q, 'w, (verification_error, bool) result) vm_prog" where
  "external_ed25519_verify H A message signature public_key =
     with_region (h_engine H) A message (\<lambda>msg_send_ptr.
     with_region (h_engine H) A signature (\<lambda>sig_send_ptr.
     with_region (h_engine H) A public_key (\<lambda>pubkey_send_ptr.
     pbind (do_ed25519_verify H msg_send_ptr sig_send_ptr pubkey_send_ptr) (\<lambda>result.
     plift_out (external_ed25519_verdict result)))))"

text \<open>The encoded sections are vectors of the contract, dropped at the end in the opposite order.\<close>

definition with_sections ::
  "('s, 'q, 'w, 'r) host \<Rightarrow> 'w global_alloc \<Rightarrow> bytes list \<Rightarrow> (u32 \<Rightarrow> ('s, 'q, 'w, 'a) vm_prog) \<Rightarrow> ('s, 'q, 'w, 'a) vm_prog" where
  "with_sections H A sections f =
     pbind (plift_out (std_encode_sections sections)) (\<lambda>bytes.
     pbind (vec_of (h_engine H) A bytes) (\<lambda>encoded.
     pbind (with_region (h_engine H) A (as_slice encoded) f) (\<lambda>x.
     pbind (vec_drop A encoded) (\<lambda>_. preturn x))))"

definition external_ed25519_batch_verify ::
  "('s, 'q, 'w, 'r) host \<Rightarrow> 'w global_alloc \<Rightarrow> bytes list \<Rightarrow> bytes list \<Rightarrow> bytes list \<Rightarrow>
    ('s, 'q, 'w, (verification_error, bool) result) vm_prog" where
  "external_ed25519_batch_verify H A messages signatures public_keys =
     with_sections H A messages (\<lambda>msgs_send_ptr.
     with_sections H A signatures (\<lambda>sigs_send_ptr.
     with_sections H A public_keys (\<lambda>pubkeys_send_ptr.
     pbind (do_ed25519_batch_verify H msgs_send_ptr sigs_send_ptr pubkeys_send_ptr) (\<lambda>result.
     plift_out (external_ed25519_verdict result)))))"

definition external_debug ::
  "('s, 'q, 'w, 'r) host \<Rightarrow> 'w global_alloc \<Rightarrow> slice_u8 \<Rightarrow> ('s, 'q, 'w, unit) vm_prog" where
  "external_debug H A message = with_region (h_engine H) A message (do_debug H)"

definition external_raw_query ::
  "('s, 'q, 'w, 'r) host \<Rightarrow> 'w global_alloc \<Rightarrow> querier_result json \<Rightarrow> slice_u8 \<Rightarrow> ('s, 'q, 'w, querier_result) vm_prog" where
  "external_raw_query H A J bin_request =
     with_region (h_engine H) A bin_request (\<lambda>request_ptr.
     pbind (do_query_chain H request_ptr) (\<lambda>response_ptr.
     pbind (consume_region (h_engine H) A response_ptr) (\<lambda>v.
     pbind (vec_bytes (h_engine H) v) (\<lambda>response.
     case from_slice J response of
       Inr res \<Rightarrow> pbind (vec_drop A v) (\<lambda>_. preturn res)
     | Inl parsing_err \<Rightarrow> preturn (SystemErr (InvalidResponse (show_std_error parsing_err) response))))))"

end
