(* ===== verification/Guest_Boundary.thy ===== *)
theory Guest_Boundary
  imports Guest_Imports
begin

text \<open>
  The two sides of the boundary together: what a contract's call of an import does, from the slice it
  passes to the vector it gets back. The locale \<open>guest_host\<close> joins the heap of the contract with the
  host whose calls of \<open>allocate\<close> run the library's export.
\<close>

section \<open>Slices\<close>

text \<open>A slice is in bounds, and it is empty or lies in a block that is in use.\<close>

definition slice_ok :: "'w wasm_engine \<Rightarrow> block set \<Rightarrow> 'w \<Rightarrow> slice_u8 \<Rightarrow> bytes \<Rightarrow> bool" where
  "slice_ok E B w sl bs \<longleftrightarrow>
     sl_ptr sl \<noteq> 0 \<and> unat (sl_ptr sl) + unat (sl_len sl) < 2 ^ 32 \<and>
     we_read_cells E w (sl_ptr sl) (sl_len sl) = Some bs \<and>
     (sl_len sl = 0 \<or> (\<exists>p n. (p, n) \<in> B \<and> p \<le> unat (sl_ptr sl) \<and> unat (sl_ptr sl) + unat (sl_len sl) \<le> p + n))"

text \<open>The vector that a call returns owns its block and holds the data.\<close>

definition vec_ok :: "'w wasm_engine \<Rightarrow> 'w \<Rightarrow> vec_u8 \<Rightarrow> bytes \<Rightarrow> bool" where
  "vec_ok E w v bs \<longleftrightarrow> vec_ptr v \<noteq> 0 \<and> vec_len v \<le> vec_cap v \<and> unat (vec_ptr v) + unat (vec_cap v) < 2 ^ 32 \<and>
     we_read_cells E w (vec_ptr v) (vec_len v) = Some bs"

abbreviation vec_block :: "vec_u8 \<Rightarrow> block set" where
  "vec_block v \<equiv> blk (vec_ptr v) (vec_cap v)"

lemma slice_ok_mono: "slice_ok E B w sl bs \<Longrightarrow> B \<subseteq> C \<Longrightarrow> slice_ok E C w sl bs"
  unfolding slice_ok_def by blast

text \<open>The environment after a step differs in the instance only.\<close>

definition same_context :: "('s, 'q, 'w) context_data \<Rightarrow> ('s, 'q, 'w) context_data \<Rightarrow> bool" where
  "same_context env env' \<longleftrightarrow> cd_storage env' = cd_storage env \<and> cd_querier env' = cd_querier env \<and>
     cd_storage_readonly env' = cd_storage_readonly env"

lemma same_context_instance [simp]:
  "same_context env (env\<lparr>cd_wasm_instance := x\<rparr>)" "same_context env env"
  "same_context (env\<lparr>cd_wasm_instance := x\<rparr>) env' = same_context env env'"
  by (simp_all add: same_context_def)

lemma same_context_trans: "same_context a b \<Longrightarrow> same_context b c \<Longrightarrow> same_context a c"
  by (simp add: same_context_def)

context byte_memory
begin

lemma slice_kept:
  assumes "slice_ok E B w sl bs" "kept E B w w'"
  shows "slice_ok E B w' sl bs"
proof (cases "sl_len sl = 0")
  case True
  then have "bs = []" using assms(1) read_length by (force simp: slice_ok_def)
  then show ?thesis using assms True by (auto simp: slice_ok_def kept_def)
next
  case False
  then obtain p n where "(p, n) \<in> B" "p \<le> unat (sl_ptr sl)" "unat (sl_ptr sl) + unat (sl_len sl) \<le> p + n"
    using assms(1) by (auto simp: slice_ok_def)
  then have "we_read_cells E w' (sl_ptr sl) (sl_len sl) = we_read_cells E w (sl_ptr sl) (sl_len sl)"
    using keptD [OF assms(2)] by blast
  then show ?thesis using assms(1) by (simp add: slice_ok_def)
qed

lemma slice_length: "slice_ok E B w sl bs \<Longrightarrow> length bs = unat (sl_len sl)"
  using read_length by (auto simp: slice_ok_def)

lemma vec_ok_slice:
  assumes "vec_ok E w v d"
  shows "slice_ok E (vec_block v) w (as_slice v) d"
proof -
  have "unat (vec_ptr v) + unat (vec_len v) < 2 ^ 32" "unat (vec_len v) \<le> unat (vec_cap v)"
    using assms by (auto simp: vec_ok_def word_le_nat_alt)
  moreover have "vec_len v = 0" if "vec_cap v = 0" using assms that by (simp add: vec_ok_def)
  ultimately show ?thesis using assms by (auto simp: slice_ok_def vec_ok_def as_slice_def blk_def)
qed

lemma vec_kept:
  assumes "vec_ok E w v d" "kept E (vec_block v \<union> B) w w'"
  shows "vec_ok E w' v d"
  using slice_kept [OF vec_ok_slice [OF assms(1)] kept_mono [OF assms(2) Un_upper1]] assms(1)
  by (simp add: vec_ok_def slice_ok_def as_slice_def)

text \<open>The host reads a region exactly when its length is within the limit.\<close>

lemma host_reads_box:
  assumes "4 dvd unat p" "we_read_cells E w p 12 = Some (region_bytes r)" "region_ok r"
    and "we_read_cells E w (reg_offset r) (reg_length r) = Some bs" "max_length < 2 ^ 32"
  shows "read_region E w p max_length =
    (if length bs \<le> max_length then Inr bs else Inl (VmCommunicationErr (RegionLengthTooBig (length bs) max_length)))"
proof -
  have "get_region E w p = Inr r"
    using deref_bytes [OF assms(1), of w] assms(2,3) validate_region_Ok_iff [of r]
    by (simp add: get_region_def bytes_region_bytes)
  then show ?thesis using assms(4,5) read_length [OF assms(4)]
    by (simp add: read_region_def to_u32_def word_less_nat_alt unat_of_nat not_less)
qed

lemma host_reads_slice:
  assumes "4 dvd unat p" "we_read_cells E w p 12 =
      Some (region_bytes \<lparr>reg_offset = sl_ptr sl, reg_capacity = sl_len sl, reg_length = sl_len sl\<rparr>)"
    and "slice_ok E B w sl bs" "max_length < 2 ^ 32"
  shows "read_region E w p max_length =
    (if length bs \<le> max_length then Inr bs else Inl (VmCommunicationErr (RegionLengthTooBig (length bs) max_length)))"
  using host_reads_box [OF assms(1,2)] assms(3,4) by (simp add: slice_ok_def region_ok_def)

end

locale guest_host = guest_heap E A heap_inv for E :: "'w wasm_engine" and A heap_inv +
  fixes H :: "('s, 'q, 'w, 'r) host"
  assumes host_engine: "h_engine H = E"
    and allocate_export: "h_call H ''allocate'' [I32 n] env = run_allocate E A n env"
begin

lemma gas_info_heap:
  assumes "process_gas_info H info env = Done (r, env')" "cd_wasm_instance env = Some w" "heap_inv w B"
  shows "\<exists>w'. cd_wasm_instance env' = Some w' \<and> heap_inv w' B \<and> kept E C w w' \<and> same_context env env'"
proof -
  obtain g where "cd_wasm_instance env' = Some (we_set_points E w g) \<and> same_context env env'"
    using assms(1,2)
    by (auto simp: process_gas_info_def obind_eq_Done_iff get_gas_left_def set_gas_left_def omap_eq_Done_iff Let_def
        host_engine engine_set_gas_left_def same_context_def split: if_splits)
  then show ?thesis using assms(3) points_law set_points_kept by blast
qed

lemma allocate_spec:
  assumes "call_function1 H ''allocate'' [I32 n] env = Done (Inr v, env')" "cd_wasm_instance env = Some w" "heap_inv w B"
  shows "\<exists>p off w'. v = I32 p \<and> env' = env\<lparr>cd_wasm_instance := Some w'\<rparr> \<and> 4 dvd unat p \<and> p \<noteq> 0 \<and>
       off \<noteq> 0 \<and> unat off + unat n < 2 ^ 32 \<and> heap_inv w' (insert (unat p, 12) (blk off n \<union> B)) \<and>
       separate {(unat p, 12)} (blk off n \<union> B) \<and> separate (blk off n) B \<and> kept E B w w' \<and>
       we_read_cells E w' p 12 = Some (region_bytes \<lparr>reg_offset = off, reg_capacity = n, reg_length = 0\<rparr>)"
proof -
  have run: "run_allocate E A n env = (Inr [v], env')"
    using call_function1_Ok [OF assms(1)] by (simp add: allocate_export)
  then obtain p where p: "export_allocate E A n env = Done (Inr p, env')" "v = I32 p"
    by (auto simp: run_allocate_def split: outcome.splits prod.splits sum.splits)
  then show ?thesis using guest_alloc_spec [OF assms(2,3), of n] by (auto simp: export_allocate_def)
qed

text \<open>
  What the host hands over is a new region with exactly the data; everything the contract had is
  untouched.
\<close>

lemma write_to_contract_heap:
  assumes "write_to_contract H d env = Done (Inr p, env')" "cd_wasm_instance env = Some w" "heap_inv w B"
  shows "\<exists>off n w'. cd_wasm_instance env' = Some w' \<and> same_context env env' \<and> p \<noteq> 0 \<and> 4 dvd unat p \<and> unat n = length d \<and>
       heap_inv w' (insert (unat p, 12) (blk off n \<union> B)) \<and> separate {(unat p, 12)} (blk off n \<union> B) \<and>
       separate (blk off n) B \<and> kept E B w w' \<and> off \<noteq> 0 \<and> unat off + unat n < 2 ^ 32 \<and>
       we_read_cells E w' p 12 = Some (region_bytes \<lparr>reg_offset = off, reg_capacity = n, reg_length = n\<rparr>) \<and>
       we_read_cells E w' off n = Some d"
proof -
  obtain n v u where n: "to_u32 (length d) = Inr n" and call: "call_function1 H ''allocate'' [I32 n] env = Done (Inr v, u)"
    and ref: "ref_to_u32 H v = Inr p" and wr: "env_write_region H p d u = Done (Inr (), env')"
    using assms(1) by (auto simp: write_to_contract_def pbind_eq_Ok_iff split: if_splits)
  obtain p0 off w1 where v: "v = I32 p0" "u = env\<lparr>cd_wasm_instance := Some w1\<rparr>" "4 dvd unat p0" "p0 \<noteq> 0"
    and off: "off \<noteq> 0" "unat off + unat n < 2 ^ 32" and inv: "heap_inv w1 (insert (unat p0, 12) (blk off n \<union> B))"
    and sep: "separate {(unat p0, 12)} (blk off n \<union> B)" "separate (blk off n) B" and k: "kept E B w w1"
    and box: "we_read_cells E w1 p0 12 = Some (region_bytes \<lparr>reg_offset = off, reg_capacity = n, reg_length = 0\<rparr>)"
    using allocate_spec [OF call assms(2,3)] by blast
  have p: "p0 = p" using ref v(1) by (simp add: ref_to_u32_def)
  have len: "unat n = length d" and nd: "n = word_of_nat (length d)" using n by (auto simp: to_u32_def unat_of_nat split: if_splits)
  define r where "r = \<lparr>reg_offset = off, reg_capacity = n, reg_length = 0\<rparr>"
  obtain w2 where w2: "write_region E p d w1 = (Inr (), w2)" "env' = env\<lparr>cd_wasm_instance := Some w2\<rparr>"
    using wr v(2) by (auto simp: env_write_region_Ok_iff host_engine)
  have "get_region E w1 p = Inr r"
    using deref_bytes [of p w1] v(3) box off validate_region_Ok_iff [of r]
    by (simp add: get_region_def bytes_region_bytes p r_def region_ok_def)
  then obtain wa where wa: "we_write_cells E w1 off n d = Some wa"
    "we_write_cells E wa p 12 (region_bytes \<lparr>reg_offset = off, reg_capacity = n, reg_length = n\<rparr>) = Some w2"
    using w2(1) v(3) len nd
    by (auto simp: write_region_def set_region_def set_bytes Let_def p r_def split: option.splits)
  define X where "X = blk off n"
  have kB: "kept E B w1 wa" and kbox: "heap_inv wa (insert (unat p, 12) (X \<union> B))"
  proof -
    have "wa = w1" if "n = 0" using write_nothing [of w1 off n wa] wa(1) that len by simp
    moreover have "kept E B w1 wa" if "n \<noteq> 0"
      using write_kept [OF wa(1)] sep(2) that by (simp add: blk_def)
    moreover have "heap_inv wa (insert (unat p, 12) (X \<union> B))" if "n \<noteq> 0"
      using write_law [OF inv _ _ _ wa(1), of "unat off" "unat n"] that by (simp add: blk_def p X_def)
    ultimately show "kept E B w1 wa" "heap_inv wa (insert (unat p, 12) (X \<union> B))"
      using inv p X_def by (cases "n = 0"; simp)+
  qed
  have inv2: "heap_inv w2 (insert (unat p, 12) (X \<union> B))" using write_law [OF kbox _ _ _ wa(2), of "unat p" 12] by simp
  have k2: "kept E (X \<union> B) wa w2" using write_kept [OF wa(2)] sep(1) p by (simp add: X_def)
  have "we_read_cells E w2 p 12 = Some (region_bytes \<lparr>reg_offset = off, reg_capacity = n, reg_length = n\<rparr>)"
    using read_written [OF wa(2)] by simp
  moreover have "we_read_cells E w2 off n = Some d"
  proof -
    have "we_read_cells E wa off n = Some d" using read_written [OF wa(1)] len nd by simp
    moreover have "d = []" if "n = 0" using that len by simp
    moreover have "(unat off, unat n) \<in> X \<union> B" if "n \<noteq> 0" using that by (simp add: X_def blk_def)
    ultimately show ?thesis using k2 keptD [OF k2, of "unat off" "unat n" off n] by (cases "n = 0") (auto simp: kept_def)
  qed
  moreover have "kept E B w w2" by (rule kept_trans [OF kept_trans [OF k kB] kept_mono [OF k2 Un_upper2]])
  ultimately show ?thesis using inv2 sep off v(3,4) w2(2) len unfolding X_def p
    by (intro exI [of _ off] exI [of _ n] exI [of _ w2]) simp
qed

text \<open>The contract takes the region over.\<close>

lemma receive_spec:
  assumes "write_to_contract H d env = Done (Inr p, env')" "cd_wasm_instance env = Some w" "heap_inv w B"
  shows "\<exists>v env''. consume_region E A p env' = Done (Inr v, env'') \<and> same_context env env'' \<and>
    (\<exists>w'. cd_wasm_instance env'' = Some w' \<and> heap_inv w' (vec_block v \<union> B) \<and> separate (vec_block v) B \<and>
       kept E B w w' \<and> vec_ok E w' v d \<and> vec_cap v = vec_len v)"
proof -
  obtain off n w1 where w1: "cd_wasm_instance env' = Some w1" "same_context env env'" "unat n = length d"
    "heap_inv w1 (insert (unat p, 12) (blk off n \<union> B))" "separate {(unat p, 12)} (blk off n \<union> B)"
    and sep: "separate (blk off n) B" and k: "kept E B w w1" and off: "off \<noteq> 0" "unat off + unat n < 2 ^ 32"
    and box: "we_read_cells E w1 p 12 = Some (region_bytes \<lparr>reg_offset = off, reg_capacity = n, reg_length = n\<rparr>)"
    and data: "we_read_cells E w1 off n = Some d"
    using write_to_contract_heap [OF assms] by blast
  have notin: "(unat p, 12) \<notin> blk off n \<union> B" using separate_notin [OF w1(5)] by simp
  obtain w2 where w2: "consume_region E A p env' =
      Done (Inr \<lparr>vec_ptr = off, vec_cap = n, vec_len = n\<rparr>, env'\<lparr>cd_wasm_instance := Some w2\<rparr>)"
    "heap_inv w2 (blk off n \<union> B)" "kept E (blk off n \<union> B) w1 w2"
    using consume_region_spec [OF w1(1,4) notin box] off(1) by auto
  have "we_read_cells E w2 off n = Some d"
    using data w1(3) w2(3) keptD [OF w2(3), of "unat off" "unat n" off n]
    by (cases "n = 0") (auto simp: kept_def blk_def)
  moreover have "kept E B w w2" by (rule kept_trans [OF k kept_mono [OF w2(3) Un_upper2]])
  ultimately show ?thesis
    using w2(1,2) w1(2) sep off
    by (intro exI [of _ "\<lparr>vec_ptr = off, vec_cap = n, vec_len = n\<rparr>"] exI [of _ "env'\<lparr>cd_wasm_instance := Some w2\<rparr>"])
      (auto simp: vec_ok_def same_context_def)
qed

text \<open>A region for a slice: the host reads the slice through it, within its limit.\<close>

lemma with_region_run:
  fixes env :: "('s, 'q, 'w) context_data"
  assumes "with_region E A sl f env = Done (Inr x, env')" "cd_wasm_instance env = Some w" "heap_inv w B" "slice_ok E B w sl bs"
  shows "\<exists>p w1 e2. f p (env\<lparr>cd_wasm_instance := Some w1\<rparr>) = Done (Inr x, e2) \<and> box_drop A p e2 = Done (Inr (), env') \<and>
    p \<noteq> 0 \<and> 4 dvd unat p \<and> heap_inv w1 (insert (unat p, 12) B) \<and> separate {(unat p, 12)} B \<and> kept E B w w1 \<and>
    slice_ok E B w1 sl bs \<and> we_read_cells E w1 p 12 =
      Some (region_bytes \<lparr>reg_offset = sl_ptr sl, reg_capacity = sl_len sl, reg_length = sl_len sl\<rparr>)"
proof -
  define r where "r = \<lparr>reg_offset = sl_ptr sl, reg_capacity = sl_len sl, reg_length = sl_len sl\<rparr>"
  obtain p e1 e2 where run: "box_new E A r env = Done (Inr p, e1)" "f p e1 = Done (Inr x, e2)" "box_drop A p e2 = Done (Inr (), env')"
    using assms(1) by (auto simp: with_region_def build_region_def build_region_from_components_def pbind_eq_Ok_iff r_def)
  obtain w1 where w1: "e1 = env\<lparr>cd_wasm_instance := Some w1\<rparr>" "4 dvd unat p" "p \<noteq> 0"
    "heap_inv w1 (insert (unat p, 12) B)" "separate {(unat p, 12)} B" "kept E B w w1"
    "we_read_cells E w1 p 12 = Some (region_bytes r)"
    using box_new_spec [OF assms(2,3), of r] run(1) by auto
  have "slice_ok E B w1 sl bs" using slice_kept [OF assms(4) w1(6)] .
  with run(2,3) w1 show ?thesis unfolding r_def by blast
qed

lemma box_drop_run:
  fixes e :: "('s, 'q, 'w) context_data"
  assumes "box_drop A p e = Done (Inr (), env')" "cd_wasm_instance e = Some w" "heap_inv w (insert (unat p, 12) C)"
    and "separate {(unat p, 12)} C"
  shows "\<exists>w'. env' = e\<lparr>cd_wasm_instance := Some w'\<rparr> \<and> heap_inv w' C \<and> kept E C w w'"
  using box_drop_spec [OF assms(2,3) separate_notin [OF assms(4)]] assms(1) by auto

lemma db_read_run:
  assumes "do_db_read H p env = Done (Inr q, env')" "cd_wasm_instance env = Some w" "heap_inv w B"
  shows "\<exists>key s v g u w'. read_region E w p MAX_LENGTH_DB_KEY = Inr key \<and> cd_storage env = Some s \<and>
    bs_get (h_storage H) s key = (Inr v, g) \<and> same_context env u \<and> cd_wasm_instance u = Some w' \<and> heap_inv w' B \<and> kept E B w w' \<and>
    (case v of None \<Rightarrow> q = 0 \<and> env' = u | Some d \<Rightarrow> write_to_contract H d u = Done (Inr q, env'))"
proof -
  obtain key where key: "read_region E w p MAX_LENGTH_DB_KEY = Inr key"
    and rest: "pbind (with_storage_from_context (\<lambda>store. Done (bs_get (h_storage H) store key, store))) (\<lambda>(result, gas_info).
        pbind (process_gas_info H gas_info) (\<lambda>_. pbind (plift (map_err vm_error_from_backend result)) (\<lambda>value.
          case value of Some out_data \<Rightarrow> write_to_contract H out_data | None \<Rightarrow> preturn 0))) env = Done (Inr q, env')"
    using assms(1,2) by (auto simp: do_db_read_def pbind_eq_Ok_iff [of "env_read_region _ _ _"] env_read_region_Ok_iff host_engine)
  obtain s r g v u x where s: "cd_storage env = Some s" "bs_get (h_storage H) s key = (r, g)"
    and gas: "process_gas_info H g (env\<lparr>cd_storage := Some s\<rparr>) = Done (Inr x, u)" and r: "map_err vm_error_from_backend r = Inr v"
    and v: "(case v of Some out_data \<Rightarrow> write_to_contract H out_data | None \<Rightarrow> preturn 0) u = Done (Inr q, env')"
    using rest by (auto simp: pbind_eq_Ok_iff with_storage_Ok_iff split: prod.splits)
  obtain w' where "cd_wasm_instance u = Some w'" "heap_inv w' B" "kept E B w w'" "same_context (env\<lparr>cd_storage := Some s\<rparr>) u"
    using gas_info_heap [OF gas, of w B B] assms(2,3) by auto
  moreover have "r = Inr v" using r by (simp add: map_err_eq_Ok_iff)
  moreover have "case v of None \<Rightarrow> q = 0 \<and> env' = u | Some d \<Rightarrow> write_to_contract H d u = Done (Inr q, env')"
    using v by (cases v) auto
  ultimately show ?thesis using key s by (auto simp: same_context_def)
qed

text \<open>
  \<open>ExternalStorage::get\<close>: the contract gets a vector with exactly the value that the storage holds for
  the key, and nothing it had in memory changes.
\<close>

lemma external_get_run:
  assumes "external_get H A key env = Done (Inr r, env')" "cd_wasm_instance env = Some w" "heap_inv w B"
    and "slice_ok E B w key k"
  shows "\<exists>s v g w'. cd_storage env = Some s \<and> bs_get (h_storage H) s k = (Inr v, g) \<and> length k \<le> MAX_LENGTH_DB_KEY \<and>
    same_context env env' \<and> cd_wasm_instance env' = Some w' \<and> kept E B w w' \<and>
    (case r of None \<Rightarrow> v = None \<and> heap_inv w' B
     | Some vec \<Rightarrow> (\<exists>d. v = Some d \<and> vec_ok E w' vec d) \<and> heap_inv w' (vec_block vec \<union> B) \<and> separate (vec_block vec) B)"
proof -
  obtain p w1 e2 where run: "pbind (do_db_read H p) (\<lambda>read. if read = 0 then preturn None
        else pbind (consume_region E A read) (\<lambda>data. preturn (Some data))) (env\<lparr>cd_wasm_instance := Some w1\<rparr>) = Done (Inr r, e2)"
    and drop: "box_drop A p e2 = Done (Inr (), env')" and p: "4 dvd unat p" "heap_inv w1 (insert (unat p, 12) B)" "separate {(unat p, 12)} B"
    and k1: "kept E B w w1" and sl: "slice_ok E B w1 key k" "we_read_cells E w1 p 12 =
      Some (region_bytes \<lparr>reg_offset = sl_ptr key, reg_capacity = sl_len key, reg_length = sl_len key\<rparr>)"
    using with_region_run [OF assms(1) [unfolded external_get_def host_engine] assms(2-4)] by blast
  obtain q u1 where read: "do_db_read H p (env\<lparr>cd_wasm_instance := Some w1\<rparr>) = Done (Inr q, u1)"
    and rest: "(if q = 0 then preturn None else pbind (consume_region E A q) (\<lambda>data. preturn (Some data))) u1 = Done (Inr r, e2)"
    using run by (auto simp: pbind_eq_Ok_iff)
  obtain key' s v g u w2 where db: "read_region E w1 p MAX_LENGTH_DB_KEY = Inr key'" "cd_storage env = Some s"
    "bs_get (h_storage H) s key' = (Inr v, g)" "same_context env u" "cd_wasm_instance u = Some w2"
    "heap_inv w2 (insert (unat p, 12) B)" "kept E (insert (unat p, 12) B) w1 w2"
    "case v of None \<Rightarrow> q = 0 \<and> u1 = u | Some d \<Rightarrow> write_to_contract H d u = Done (Inr q, u1)"
    using db_read_run [OF read _ p(2)] by auto
  have key': "key' = k" "length k \<le> MAX_LENGTH_DB_KEY"
    using db(1) host_reads_slice [OF p(1) sl(2) sl(1), of MAX_LENGTH_DB_KEY] by (auto simp: limit_defs split: if_splits)
  have k2: "kept E B w w2" by (rule kept_trans [OF k1 kept_mono [OF db(7) subset_insertI]])
  show ?thesis
  proof (cases v)
    case None
    then have e2: "r = None" "e2 = u" using db(8) rest by auto
    obtain w3 where "env' = u\<lparr>cd_wasm_instance := Some w3\<rparr>" "heap_inv w3 B" "kept E B w2 w3"
      using box_drop_run [OF drop [unfolded e2] db(5,6) p(3)] by blast
    then show ?thesis using None e2 db(2,3,4) key' k2 by (auto simp: same_context_def intro: kept_trans)
  next
    case (Some d)
    then have wr: "write_to_contract H d u = Done (Inr q, u1)" using db(8) by simp
    obtain vec e2' w3 where c: "consume_region E A q u1 = Done (Inr vec, e2')" "same_context u e2'" "cd_wasm_instance e2' = Some w3"
      "heap_inv w3 (vec_block vec \<union> insert (unat p, 12) B)" "separate (vec_block vec) (insert (unat p, 12) B)"
      "kept E (insert (unat p, 12) B) w2 w3" "vec_ok E w3 vec d"
      using receive_spec [OF wr db(5,6)] by blast
    have "q \<noteq> 0" using write_to_contract_heap [OF wr db(5,6)] by blast
    then have e2: "r = Some vec" "e2 = e2'" using rest c(1) by (auto simp: pbind_eq_Ok_iff)
    have sep: "separate {(unat p, 12)} (vec_block vec \<union> B)" "separate (vec_block vec) B"
      using separate_sym [OF separate_mono [OF c(5) order_refl, of "{(unat p, 12)}"]] separate_mono [OF c(5) order_refl, of B] p(3)
      by auto
    obtain w4 where w4: "env' = e2'\<lparr>cd_wasm_instance := Some w4\<rparr>" "heap_inv w4 (vec_block vec \<union> B)" "kept E (vec_block vec \<union> B) w3 w4"
      using box_drop_run [OF drop [unfolded e2] c(3) _ sep(1)] c(4) by auto
    have "vec_ok E w4 vec d" by (rule vec_kept [OF c(7) w4(3)])
    moreover have "kept E B w w4"
      by (rule kept_trans [OF kept_trans [OF k2 kept_mono [OF c(6) subset_insertI]] kept_mono [OF w4(3) Un_upper2]])
    ultimately show ?thesis using Some e2 db(2,3,4) key' c(2) w4 sep(2) by (auto simp: same_context_def)
  qed
qed

lemma update_storage_run:
  assumes "pbind (with_storage_from_context (\<lambda>store. Done (f store))) (\<lambda>(result, gas_info).
      pbind (process_gas_info H gas_info) (\<lambda>_. plift (map_err vm_error_from_backend result))) env = Done (Inr x, env')"
    and "cd_wasm_instance env = Some w" "heap_inv w B"
  shows "\<exists>s g s' w'. cd_storage env = Some s \<and> f s = ((Inr x, g), s') \<and> same_context (env\<lparr>cd_storage := Some s'\<rparr>) env' \<and>
    cd_wasm_instance env' = Some w' \<and> heap_inv w' B \<and> kept E B w w'"
proof -
  obtain s r g s' v where s: "cd_storage env = Some s" "f s = ((r, g), s')"
    and gas: "process_gas_info H g (env\<lparr>cd_storage := Some s'\<rparr>) = Done (Inr v, env')" and r: "map_err vm_error_from_backend r = Inr x"
    using assms(1) by (auto simp: pbind_eq_Ok_iff with_storage_Ok_iff split: prod.splits)
  obtain w' where "cd_wasm_instance env' = Some w'" "heap_inv w' B" "kept E B w w'" "same_context (env\<lparr>cd_storage := Some s'\<rparr>) env'"
    using gas_info_heap [OF gas, of w B B] assms(2,3) by auto
  moreover have "r = Inr x" using r by (simp add: map_err_eq_Ok_iff)
  ultimately show ?thesis using s by blast
qed

text \<open>\<open>ExternalStorage::set\<close>: the storage is updated at the key with the value, and only there.\<close>

lemma external_set_run:
  assumes "external_set H A key val env = Done (Inr (), env')" "cd_wasm_instance env = Some w" "heap_inv w B"
    and "slice_ok E B w key k" "slice_ok E B w val d"
  shows "\<exists>s g s' w'. d \<noteq> [] \<and> \<not> cd_storage_readonly env \<and> length k \<le> MAX_LENGTH_DB_KEY \<and> length d \<le> MAX_LENGTH_DB_VALUE \<and>
    cd_storage env = Some s \<and> bs_set (h_storage H) s k d = ((Inr (), g), s') \<and> same_context (env\<lparr>cd_storage := Some s'\<rparr>) env' \<and>
    cd_wasm_instance env' = Some w' \<and> heap_inv w' B \<and> kept E B w w'"
proof -
  have d: "sl_len val \<noteq> 0" using assms(1) by (auto simp: external_set_def)
  then have "d \<noteq> []" using slice_length [OF assms(5)] by (auto simp: unsigned_eq_0_iff)
  have set: "with_region E A key (\<lambda>kp. with_region E A val (do_db_write H kp)) env = Done (Inr (), env')"
    using assms(1) d by (simp add: external_set_def host_engine)
  obtain p w1 e2 where run1: "with_region E A val (do_db_write H p) (env\<lparr>cd_wasm_instance := Some w1\<rparr>) = Done (Inr (), e2)"
    and drop1: "box_drop A p e2 = Done (Inr (), env')" and p: "4 dvd unat p" "heap_inv w1 (insert (unat p, 12) B)" "separate {(unat p, 12)} B"
    and k1: "kept E B w w1" and key: "slice_ok E B w1 key k" "we_read_cells E w1 p 12 =
      Some (region_bytes \<lparr>reg_offset = sl_ptr key, reg_capacity = sl_len key, reg_length = sl_len key\<rparr>)"
    using with_region_run [OF set assms(2-4)] by blast
  define B1 where "B1 = insert (unat p, 12) B"
  have val1: "slice_ok E B1 w1 val d"
    using slice_ok_mono [OF slice_kept [OF assms(5) k1]] by (auto simp: B1_def)
  obtain q w2 e3 where run2: "do_db_write H p q (env\<lparr>cd_wasm_instance := Some w2\<rparr>) = Done (Inr (), e3)"
    and drop2: "box_drop A q e3 = Done (Inr (), e2)" and q: "4 dvd unat q" "heap_inv w2 (insert (unat q, 12) B1)" "separate {(unat q, 12)} B1"
    and k2: "kept E B1 w1 w2" and val: "slice_ok E B1 w2 val d" "we_read_cells E w2 q 12 =
      Some (region_bytes \<lparr>reg_offset = sl_ptr val, reg_capacity = sl_len val, reg_length = sl_len val\<rparr>)"
    using with_region_run [OF run1 _ p(2) [folded B1_def] val1] by auto
  have key2: "slice_ok E B w2 key k" using slice_kept [OF key(1) kept_mono [OF k2]] by (auto simp: B1_def)
  have box2: "we_read_cells E w2 p 12 = we_read_cells E w1 p 12" using keptD [OF k2, of "unat p" 12 p 12] by (simp add: B1_def)
  have ro: "\<not> cd_storage_readonly env" using run2 by (auto simp: do_db_write_def)
  obtain k' d' where rd: "read_region E w2 p MAX_LENGTH_DB_KEY = Inr k'" "read_region E w2 q MAX_LENGTH_DB_VALUE = Inr d'"
    and upd: "pbind (with_storage_from_context (\<lambda>store. Done (bs_set (h_storage H) store k' d'))) (\<lambda>(result, gas_info).
      pbind (process_gas_info H gas_info) (\<lambda>_. plift (map_err vm_error_from_backend result))) (env\<lparr>cd_wasm_instance := Some w2\<rparr>) =
      Done (Inr (), e3)"
    using run2 ro by (auto simp: do_db_write_def pbind_eq_Ok_iff [of "env_read_region _ _ _"] env_read_region_Ok_iff host_engine)
  have k': "k' = k" "length k \<le> MAX_LENGTH_DB_KEY"
    using rd(1) host_reads_slice [OF p(1) key(2) [folded box2] key2, of MAX_LENGTH_DB_KEY] by (auto simp: limit_defs split: if_splits)
  have d': "d' = d" "length d \<le> MAX_LENGTH_DB_VALUE"
    using rd(2) host_reads_slice [OF q(1) val(2,1), of MAX_LENGTH_DB_VALUE] by (auto simp: limit_defs split: if_splits)
  obtain s g s' w3 where s: "cd_storage env = Some s" "bs_set (h_storage H) s k d = ((Inr (), g), s')"
    "same_context (env\<lparr>cd_storage := Some s'\<rparr>) e3" "cd_wasm_instance e3 = Some w3" "heap_inv w3 (insert (unat q, 12) B1)"
    "kept E (insert (unat q, 12) B1) w2 w3"
    using update_storage_run [OF upd _ q(2)] k'(1) d'(1) by (auto simp: same_context_def)
  obtain w4 where w4: "e2 = e3\<lparr>cd_wasm_instance := Some w4\<rparr>" "heap_inv w4 B1" "kept E B1 w3 w4"
    using box_drop_run [OF drop2 s(4,5) q(3)] by blast
  obtain w5 where w5: "env' = e2\<lparr>cd_wasm_instance := Some w5\<rparr>" "heap_inv w5 B" "kept E B w4 w5"
    using box_drop_run [OF drop1 _ w4(2) [unfolded B1_def] p(3)] w4(1) by auto
  have sub: "B \<subseteq> B1" "B1 \<subseteq> insert (unat q, 12) B1" by (auto simp: B1_def)
  have "kept E B w1 w4" by (rule kept_mono [OF kept_trans [OF kept_trans [OF k2 kept_mono [OF s(6) sub(2)]] w4(3)] sub(1)])
  then have "kept E B w w5" by (rule kept_trans [OF kept_trans [OF k1] w5(3)])
  then show ?thesis using \<open>d \<noteq> []\<close> ro k'(2) d'(2) s(1,2,3) w4(1) w5(1,2) by (auto simp: same_context_def)
qed

lemma external_remove_run:
  assumes "external_remove H A key env = Done (Inr (), env')" "cd_wasm_instance env = Some w" "heap_inv w B" "slice_ok E B w key k"
  shows "\<exists>s g s' w'. \<not> cd_storage_readonly env \<and> length k \<le> MAX_LENGTH_DB_KEY \<and>
    cd_storage env = Some s \<and> bs_remove (h_storage H) s k = ((Inr (), g), s') \<and> same_context (env\<lparr>cd_storage := Some s'\<rparr>) env' \<and>
    cd_wasm_instance env' = Some w' \<and> heap_inv w' B \<and> kept E B w w'"
proof -
  obtain p w1 e2 where run: "do_db_remove H p (env\<lparr>cd_wasm_instance := Some w1\<rparr>) = Done (Inr (), e2)"
    and drop: "box_drop A p e2 = Done (Inr (), env')" and p: "4 dvd unat p" "heap_inv w1 (insert (unat p, 12) B)" "separate {(unat p, 12)} B"
    and k1: "kept E B w w1" and key: "slice_ok E B w1 key k" "we_read_cells E w1 p 12 =
      Some (region_bytes \<lparr>reg_offset = sl_ptr key, reg_capacity = sl_len key, reg_length = sl_len key\<rparr>)"
    using with_region_run [OF assms(1) [unfolded external_remove_def host_engine] assms(2-4)] by blast
  have ro: "\<not> cd_storage_readonly env" using run by (auto simp: do_db_remove_def)
  obtain k' where rd: "read_region E w1 p MAX_LENGTH_DB_KEY = Inr k'"
    and upd: "pbind (with_storage_from_context (\<lambda>store. Done (bs_remove (h_storage H) store k'))) (\<lambda>(result, gas_info).
      pbind (process_gas_info H gas_info) (\<lambda>_. plift (map_err vm_error_from_backend result))) (env\<lparr>cd_wasm_instance := Some w1\<rparr>) =
      Done (Inr (), e2)"
    using run ro by (auto simp: do_db_remove_def pbind_eq_Ok_iff [of "env_read_region _ _ _"] env_read_region_Ok_iff host_engine)
  have k': "k' = k" "length k \<le> MAX_LENGTH_DB_KEY"
    using rd host_reads_slice [OF p(1) key(2,1), of MAX_LENGTH_DB_KEY] by (auto simp: limit_defs split: if_splits)
  obtain s g s' w3 where s: "cd_storage env = Some s" "bs_remove (h_storage H) s k = ((Inr (), g), s')"
    "same_context (env\<lparr>cd_storage := Some s'\<rparr>) e2" "cd_wasm_instance e2 = Some w3" "heap_inv w3 (insert (unat p, 12) B)"
    "kept E (insert (unat p, 12) B) w1 w3"
    using update_storage_run [OF upd _ p(2)] k'(1) by (auto simp: same_context_def)
  obtain w4 where w4: "env' = e2\<lparr>cd_wasm_instance := Some w4\<rparr>" "heap_inv w4 B" "kept E B w3 w4"
    using box_drop_run [OF drop s(4,5) p(3)] by blast
  have "kept E B w w4" by (rule kept_trans [OF kept_trans [OF k1 kept_mono [OF s(6) subset_insertI]] w4(3)])
  then show ?thesis using ro k'(2) s(1,2,3) w4(1,2) by (auto simp: same_context_def)
qed

text \<open>
  \<open>ExternalIterator::next\<close>: the contract sees the record of the host's iterator. A record with an empty key
  is taken for the end of the iteration.
\<close>

lemma external_next_run:
  assumes "external_next H A it env = Done (Inr r, env')" "cd_wasm_instance env = Some w" "heap_inv w B"
  shows "\<exists>s n g s' w'. cd_storage env = Some s \<and> bs_next (h_storage H) s (iterator_id it) = ((Inr n, g), s') \<and>
    r = (case n of Some (k, v) \<Rightarrow> if k = [] then None else Some (k, v) | None \<Rightarrow> None) \<and>
    same_context (env\<lparr>cd_storage := Some s'\<rparr>) env' \<and> cd_wasm_instance env' = Some w' \<and> kept E B w w' \<and> (\<exists>C. heap_inv w' (C \<union> B))"
proof -
  obtain q u1 v u2 bs u3 k d where nx: "do_db_next H (iterator_id it) env = Done (Inr q, u1)"
    and con: "consume_region E A q u1 = Done (Inr v, u2)" and vb: "vec_bytes E v u2 = Done (Inr bs, u3)"
    and dec: "decode_sections2 bs = Done (k, d)" and r: "r = (if length k = 0 then None else Some (k, d))" "env' = u3"
    using assms(1) by (auto simp: external_next_def pbind_eq_Ok_iff host_engine plift_out_eq_Done_iff split: if_splits)
  obtain m g e0 where st: "with_storage_from_context (\<lambda>store. Done (bs_next (h_storage H) store (iterator_id it))) env = Done (Inr (m, g), e0)"
    and st': "pbind (process_gas_info H g) (\<lambda>_. pbind (plift (map_err vm_error_from_backend m)) (\<lambda>record.
       case (case record of Some kv \<Rightarrow> kv | None \<Rightarrow> ([], [])) of (key, val) \<Rightarrow>
         pbind (plift (vm_encode_sections [key, val])) (write_to_contract H))) e0 = Done (Inr q, u1)"
    using nx [unfolded do_db_next_def Let_def]
    by (simp only: pbind_eq_Ok_iff [of "with_storage_from_context _"] split_paired_Ex prod.case) blast
  obtain s s' where s: "cd_storage env = Some s" "bs_next (h_storage H) s (iterator_id it) = ((m, g), s')"
    "e0 = env\<lparr>cd_storage := Some s'\<rparr>"
    using st by (auto simp: with_storage_Ok_iff)
  obtain x e1 n where gas: "process_gas_info H g (env\<lparr>cd_storage := Some s'\<rparr>) = Done (Inr x, e1)"
    and m: "map_err vm_error_from_backend m = Inr n"
    and wr: "(case (case n of Some kv \<Rightarrow> kv | None \<Rightarrow> ([], [])) of (key, val) \<Rightarrow>
       pbind (plift (vm_encode_sections [key, val])) (write_to_contract H)) e1 = Done (Inr q, u1)"
    using st' s(3) by (auto simp: pbind_eq_Ok_iff [of "process_gas_info _ _"] pbind_eq_Ok_iff [of "plift (map_err _ _)"]
        simp del: vm_encode_sections.simps)
  obtain k0 d0 where kd: "(case n of Some kv \<Rightarrow> kv | None \<Rightarrow> ([], [])) = (k0, d0)" by fastforce
  obtain out where out: "vm_encode_sections [k0, d0] = Inr out" "write_to_contract H out e1 = Done (Inr q, u1)"
    using wr kd by (auto simp: pbind_eq_Ok_iff simp del: vm_encode_sections.simps)
  obtain w1 where w1: "cd_wasm_instance e1 = Some w1" "heap_inv w1 B" "kept E B w w1" "same_context (env\<lparr>cd_storage := Some s'\<rparr>) e1"
    using gas_info_heap [OF gas, of w B B] assms(2,3) by auto
  obtain w2 where w2: "same_context e1 u2" "cd_wasm_instance u2 = Some w2" "heap_inv w2 (vec_block v \<union> B)" "kept E B w1 w2" "vec_ok E w2 v out"
    using receive_spec [OF out(2) w1(1,2)] con by auto
  have "bs = out" "u3 = u2"
    using vb w2(2,5) by (auto simp: vec_bytes_def load_bytes_def in_guest_def vec_ok_def)
  moreover have "decode_sections2 out = Done (k0, d0)" by (rule decode_vm_sections2 [OF out(1)])
  ultimately have "k = k0" "d = d0" using dec by auto
  then have "r = (case n of Some (k, v) \<Rightarrow> if k = [] then None else Some (k, v) | None \<Rightarrow> None)"
    using r(1) kd by (cases n) auto
  moreover have "m = Inr n" using m by (simp add: map_err_eq_Ok_iff)
  ultimately show ?thesis
    using s(1,2) w1(4) w2 r(2) \<open>u3 = u2\<close> kept_trans [OF w1(3) w2(4)] by (auto simp: same_context_def)
qed

end

end
