(* ===== verification/Guest_Exports.thy ===== *)
theory Guest_Exports
  imports Guest_Boundary Std_Ibc
begin

text \<open>
  \<open>packages/std/src/exports.rs\<close>: the entry points that the host calls. Each takes over the regions of
  its arguments, parses them, runs the function of the contract and releases a region with the
  serialized result. The function of the contract is a parameter: a program of the guest. The
  dependencies it gets are the stateless wrappers of theory Guest_Imports, so it acts through the
  environment. JSON is a codec for each type, as in theory Typed_Storage; a vector that the
  serializer returns has the capacity of its length here.
\<close>

section \<open>Taking over the arguments\<close>

definition with_consumed ::
  "'w wasm_engine \<Rightarrow> 'w global_alloc \<Rightarrow> u32 \<Rightarrow> (bytes \<Rightarrow> ('s, 'q, 'w, 'a) vm_prog) \<Rightarrow> ('s, 'q, 'w, 'a) vm_prog" where
  "with_consumed E A ptr f =
     pbind (consume_region E A ptr) (\<lambda>v.
     pbind (vec_bytes E v) (\<lambda>bytes.
     pbind (f bytes) (\<lambda>x.
     pbind (vec_drop A v) (\<lambda>_. preturn x))))"

definition try_into_contract_result ::
  "'a std_result \<Rightarrow> ('a \<Rightarrow> ('s, 'q, 'w, 'b contract_result) vm_prog) \<Rightarrow> ('s, 'q, 'w, 'b contract_result) vm_prog" where
  "try_into_contract_result r f =
     (case r of Inr val \<Rightarrow> f val | Inl err \<Rightarrow> preturn (ContractErr (show_std_error err)))"

text \<open>The result of the function, converted by \<open>into()\<close>.\<close>

definition run_contract ::
  "('e \<Rightarrow> string) \<Rightarrow> ('s, 'q, 'w, ('e, 'a) result) vm_prog \<Rightarrow> ('s, 'q, 'w, 'a contract_result) vm_prog" where
  "run_contract show f = pbind f (\<lambda>r. preturn (contract_from_result show r))"

definition release_result ::
  "'w wasm_engine \<Rightarrow> 'w global_alloc \<Rightarrow> 'a json \<Rightarrow> ('s, 'q, 'w, 'a) vm_prog \<Rightarrow> ('s, 'q, 'w, u32) vm_prog" where
  "release_result E A J inner =
     pbind inner (\<lambda>res.
     pbind (plift_out (unwrap_ok (to_vec J res))) (\<lambda>bytes.
     pbind (vec_of E A bytes) (\<lambda>v. release_buffer E A v)))"

section \<open>The entry points\<close>

definition entry_instantiate_inner ::
  "'w wasm_engine \<Rightarrow> 'w global_alloc \<Rightarrow> env_info json \<Rightarrow> message_info json \<Rightarrow> 'm json \<Rightarrow> ('e \<Rightarrow> string) \<Rightarrow>
    (env_info \<Rightarrow> message_info \<Rightarrow> 'm \<Rightarrow> ('s, 'q, 'w, ('e, 'c response) result) vm_prog) \<Rightarrow> u32 \<Rightarrow> u32 \<Rightarrow> u32 \<Rightarrow>
    ('s, 'q, 'w, 'c response contract_result) vm_prog" where
  "entry_instantiate_inner E A JE JI JM show instantiate_fn env_ptr info_ptr msg_ptr =
     with_consumed E A env_ptr (\<lambda>env.
     with_consumed E A info_ptr (\<lambda>info.
     with_consumed E A msg_ptr (\<lambda>msg.
     try_into_contract_result (from_slice JE env) (\<lambda>env.
     try_into_contract_result (from_slice JI info) (\<lambda>info.
     try_into_contract_result (from_slice JM msg) (\<lambda>msg.
     run_contract show (instantiate_fn env info msg)))))))"

definition entry_instantiate ::
  "'w wasm_engine \<Rightarrow> 'w global_alloc \<Rightarrow> env_info json \<Rightarrow> message_info json \<Rightarrow> 'm json \<Rightarrow> 'c response contract_result json \<Rightarrow>
    ('e \<Rightarrow> string) \<Rightarrow> (env_info \<Rightarrow> message_info \<Rightarrow> 'm \<Rightarrow> ('s, 'q, 'w, ('e, 'c response) result) vm_prog) \<Rightarrow> u32 \<Rightarrow> u32 \<Rightarrow> u32 \<Rightarrow>
    ('s, 'q, 'w, u32) vm_prog" where
  "entry_instantiate E A JE JI JM JR show instantiate_fn env_ptr info_ptr msg_ptr =
     release_result E A JR (entry_instantiate_inner E A JE JI JM show instantiate_fn env_ptr info_ptr msg_ptr)"

definition entry_execute_inner ::
  "'w wasm_engine \<Rightarrow> 'w global_alloc \<Rightarrow> env_info json \<Rightarrow> message_info json \<Rightarrow> 'm json \<Rightarrow> ('e \<Rightarrow> string) \<Rightarrow>
    (env_info \<Rightarrow> message_info \<Rightarrow> 'm \<Rightarrow> ('s, 'q, 'w, ('e, 'c response) result) vm_prog) \<Rightarrow> u32 \<Rightarrow> u32 \<Rightarrow> u32 \<Rightarrow>
    ('s, 'q, 'w, 'c response contract_result) vm_prog" where
  "entry_execute_inner E A JE JI JM show execute_fn env_ptr info_ptr msg_ptr =
     with_consumed E A env_ptr (\<lambda>env.
     with_consumed E A info_ptr (\<lambda>info.
     with_consumed E A msg_ptr (\<lambda>msg.
     try_into_contract_result (from_slice JE env) (\<lambda>env.
     try_into_contract_result (from_slice JI info) (\<lambda>info.
     try_into_contract_result (from_slice JM msg) (\<lambda>msg.
     run_contract show (execute_fn env info msg)))))))"

definition entry_execute ::
  "'w wasm_engine \<Rightarrow> 'w global_alloc \<Rightarrow> env_info json \<Rightarrow> message_info json \<Rightarrow> 'm json \<Rightarrow> 'c response contract_result json \<Rightarrow>
    ('e \<Rightarrow> string) \<Rightarrow> (env_info \<Rightarrow> message_info \<Rightarrow> 'm \<Rightarrow> ('s, 'q, 'w, ('e, 'c response) result) vm_prog) \<Rightarrow> u32 \<Rightarrow> u32 \<Rightarrow> u32 \<Rightarrow>
    ('s, 'q, 'w, u32) vm_prog" where
  "entry_execute E A JE JI JM JR show execute_fn env_ptr info_ptr msg_ptr =
     release_result E A JR (entry_execute_inner E A JE JI JM show execute_fn env_ptr info_ptr msg_ptr)"

text \<open>
  The other entry points have no message info. The bodies of their inner functions differ in the types only:
  \<open>entry2_inner\<close> is this body, and each inner function is it at its types.
\<close>

definition entry2_inner ::
  "'w wasm_engine \<Rightarrow> 'w global_alloc \<Rightarrow> env_info json \<Rightarrow> 'm json \<Rightarrow> ('e \<Rightarrow> string) \<Rightarrow>
    (env_info \<Rightarrow> 'm \<Rightarrow> ('s, 'q, 'w, ('e, 'a) result) vm_prog) \<Rightarrow> u32 \<Rightarrow> u32 \<Rightarrow>
    ('s, 'q, 'w, 'a contract_result) vm_prog" where
  "entry2_inner E A JE JM show contract_fn env_ptr msg_ptr =
     with_consumed E A env_ptr (\<lambda>env.
     with_consumed E A msg_ptr (\<lambda>msg.
     try_into_contract_result (from_slice JE env) (\<lambda>env.
     try_into_contract_result (from_slice JM msg) (\<lambda>msg.
     run_contract show (contract_fn env msg)))))"

definition entry_migrate_inner ::
  "'w wasm_engine \<Rightarrow> 'w global_alloc \<Rightarrow> env_info json \<Rightarrow> 'm json \<Rightarrow> ('e \<Rightarrow> string) \<Rightarrow>
    (env_info \<Rightarrow> 'm \<Rightarrow> ('s, 'q, 'w, ('e, 'c response) result) vm_prog) \<Rightarrow> u32 \<Rightarrow> u32 \<Rightarrow> ('s, 'q, 'w, 'c response contract_result) vm_prog" where
  "entry_migrate_inner E A JE JM show migrate_fn = entry2_inner E A JE JM show migrate_fn"

definition entry_migrate ::
  "'w wasm_engine \<Rightarrow> 'w global_alloc \<Rightarrow> env_info json \<Rightarrow> 'm json \<Rightarrow> 'c response contract_result json \<Rightarrow> ('e \<Rightarrow> string) \<Rightarrow>
    (env_info \<Rightarrow> 'm \<Rightarrow> ('s, 'q, 'w, ('e, 'c response) result) vm_prog) \<Rightarrow> u32 \<Rightarrow> u32 \<Rightarrow> ('s, 'q, 'w, u32) vm_prog" where
  "entry_migrate E A JE JM JR show migrate_fn env_ptr msg_ptr =
     release_result E A JR (entry_migrate_inner E A JE JM show migrate_fn env_ptr msg_ptr)"

definition entry_sudo_inner ::
  "'w wasm_engine \<Rightarrow> 'w global_alloc \<Rightarrow> env_info json \<Rightarrow> 'm json \<Rightarrow> ('e \<Rightarrow> string) \<Rightarrow>
    (env_info \<Rightarrow> 'm \<Rightarrow> ('s, 'q, 'w, ('e, 'c response) result) vm_prog) \<Rightarrow> u32 \<Rightarrow> u32 \<Rightarrow> ('s, 'q, 'w, 'c response contract_result) vm_prog" where
  "entry_sudo_inner E A JE JM show sudo_fn = entry2_inner E A JE JM show sudo_fn"

definition entry_sudo ::
  "'w wasm_engine \<Rightarrow> 'w global_alloc \<Rightarrow> env_info json \<Rightarrow> 'm json \<Rightarrow> 'c response contract_result json \<Rightarrow> ('e \<Rightarrow> string) \<Rightarrow>
    (env_info \<Rightarrow> 'm \<Rightarrow> ('s, 'q, 'w, ('e, 'c response) result) vm_prog) \<Rightarrow> u32 \<Rightarrow> u32 \<Rightarrow> ('s, 'q, 'w, u32) vm_prog" where
  "entry_sudo E A JE JM JR show sudo_fn env_ptr msg_ptr =
     release_result E A JR (entry_sudo_inner E A JE JM show sudo_fn env_ptr msg_ptr)"

definition entry_reply_inner ::
  "'w wasm_engine \<Rightarrow> 'w global_alloc \<Rightarrow> env_info json \<Rightarrow> reply json \<Rightarrow> ('e \<Rightarrow> string) \<Rightarrow>
    (env_info \<Rightarrow> reply \<Rightarrow> ('s, 'q, 'w, ('e, 'c response) result) vm_prog) \<Rightarrow> u32 \<Rightarrow> u32 \<Rightarrow> ('s, 'q, 'w, 'c response contract_result) vm_prog" where
  "entry_reply_inner E A JE JM show reply_fn = entry2_inner E A JE JM show reply_fn"

definition entry_reply ::
  "'w wasm_engine \<Rightarrow> 'w global_alloc \<Rightarrow> env_info json \<Rightarrow> reply json \<Rightarrow> 'c response contract_result json \<Rightarrow> ('e \<Rightarrow> string) \<Rightarrow>
    (env_info \<Rightarrow> reply \<Rightarrow> ('s, 'q, 'w, ('e, 'c response) result) vm_prog) \<Rightarrow> u32 \<Rightarrow> u32 \<Rightarrow> ('s, 'q, 'w, u32) vm_prog" where
  "entry_reply E A JE JM JR show reply_fn env_ptr msg_ptr =
     release_result E A JR (entry_reply_inner E A JE JM show reply_fn env_ptr msg_ptr)"

definition entry_query_inner ::
  "'w wasm_engine \<Rightarrow> 'w global_alloc \<Rightarrow> env_info json \<Rightarrow> 'm json \<Rightarrow> ('e \<Rightarrow> string) \<Rightarrow>
    (env_info \<Rightarrow> 'm \<Rightarrow> ('s, 'q, 'w, ('e, bytes) result) vm_prog) \<Rightarrow> u32 \<Rightarrow> u32 \<Rightarrow> ('s, 'q, 'w, bytes contract_result) vm_prog" where
  "entry_query_inner E A JE JM show query_fn = entry2_inner E A JE JM show query_fn"

definition entry_query ::
  "'w wasm_engine \<Rightarrow> 'w global_alloc \<Rightarrow> env_info json \<Rightarrow> 'm json \<Rightarrow> bytes contract_result json \<Rightarrow> ('e \<Rightarrow> string) \<Rightarrow>
    (env_info \<Rightarrow> 'm \<Rightarrow> ('s, 'q, 'w, ('e, bytes) result) vm_prog) \<Rightarrow> u32 \<Rightarrow> u32 \<Rightarrow> ('s, 'q, 'w, u32) vm_prog" where
  "entry_query E A JE JM JR show query_fn env_ptr msg_ptr =
     release_result E A JR (entry_query_inner E A JE JM show query_fn env_ptr msg_ptr)"

definition entry_ibc_channel_open_inner ::
  "'w wasm_engine \<Rightarrow> 'w global_alloc \<Rightarrow> env_info json \<Rightarrow> ibc_channel_open_msg json \<Rightarrow> ('e \<Rightarrow> string) \<Rightarrow>
    (env_info \<Rightarrow> ibc_channel_open_msg \<Rightarrow> ('s, 'q, 'w, ('e, unit) result) vm_prog) \<Rightarrow> u32 \<Rightarrow> u32 \<Rightarrow> ('s, 'q, 'w, unit contract_result) vm_prog" where
  "entry_ibc_channel_open_inner E A JE JM show contract_fn = entry2_inner E A JE JM show contract_fn"

definition entry_ibc_channel_open ::
  "'w wasm_engine \<Rightarrow> 'w global_alloc \<Rightarrow> env_info json \<Rightarrow> ibc_channel_open_msg json \<Rightarrow> unit contract_result json \<Rightarrow> ('e \<Rightarrow> string) \<Rightarrow>
    (env_info \<Rightarrow> ibc_channel_open_msg \<Rightarrow> ('s, 'q, 'w, ('e, unit) result) vm_prog) \<Rightarrow> u32 \<Rightarrow> u32 \<Rightarrow> ('s, 'q, 'w, u32) vm_prog" where
  "entry_ibc_channel_open E A JE JM JR show contract_fn env_ptr msg_ptr =
     release_result E A JR (entry_ibc_channel_open_inner E A JE JM show contract_fn env_ptr msg_ptr)"

definition entry_ibc_channel_connect_inner ::
  "'w wasm_engine \<Rightarrow> 'w global_alloc \<Rightarrow> env_info json \<Rightarrow> ibc_channel_connect_msg json \<Rightarrow> ('e \<Rightarrow> string) \<Rightarrow>
    (env_info \<Rightarrow> ibc_channel_connect_msg \<Rightarrow> ('s, 'q, 'w, ('e, 'c ibc_basic_response) result) vm_prog) \<Rightarrow> u32 \<Rightarrow> u32 \<Rightarrow> ('s, 'q, 'w, 'c ibc_basic_response contract_result) vm_prog" where
  "entry_ibc_channel_connect_inner E A JE JM show contract_fn = entry2_inner E A JE JM show contract_fn"

definition entry_ibc_channel_connect ::
  "'w wasm_engine \<Rightarrow> 'w global_alloc \<Rightarrow> env_info json \<Rightarrow> ibc_channel_connect_msg json \<Rightarrow> 'c ibc_basic_response contract_result json \<Rightarrow> ('e \<Rightarrow> string) \<Rightarrow>
    (env_info \<Rightarrow> ibc_channel_connect_msg \<Rightarrow> ('s, 'q, 'w, ('e, 'c ibc_basic_response) result) vm_prog) \<Rightarrow> u32 \<Rightarrow> u32 \<Rightarrow> ('s, 'q, 'w, u32) vm_prog" where
  "entry_ibc_channel_connect E A JE JM JR show contract_fn env_ptr msg_ptr =
     release_result E A JR (entry_ibc_channel_connect_inner E A JE JM show contract_fn env_ptr msg_ptr)"

definition entry_ibc_channel_close_inner ::
  "'w wasm_engine \<Rightarrow> 'w global_alloc \<Rightarrow> env_info json \<Rightarrow> ibc_channel_close_msg json \<Rightarrow> ('e \<Rightarrow> string) \<Rightarrow>
    (env_info \<Rightarrow> ibc_channel_close_msg \<Rightarrow> ('s, 'q, 'w, ('e, 'c ibc_basic_response) result) vm_prog) \<Rightarrow> u32 \<Rightarrow> u32 \<Rightarrow> ('s, 'q, 'w, 'c ibc_basic_response contract_result) vm_prog" where
  "entry_ibc_channel_close_inner E A JE JM show contract_fn = entry2_inner E A JE JM show contract_fn"

definition entry_ibc_channel_close ::
  "'w wasm_engine \<Rightarrow> 'w global_alloc \<Rightarrow> env_info json \<Rightarrow> ibc_channel_close_msg json \<Rightarrow> 'c ibc_basic_response contract_result json \<Rightarrow> ('e \<Rightarrow> string) \<Rightarrow>
    (env_info \<Rightarrow> ibc_channel_close_msg \<Rightarrow> ('s, 'q, 'w, ('e, 'c ibc_basic_response) result) vm_prog) \<Rightarrow> u32 \<Rightarrow> u32 \<Rightarrow> ('s, 'q, 'w, u32) vm_prog" where
  "entry_ibc_channel_close E A JE JM JR show contract_fn env_ptr msg_ptr =
     release_result E A JR (entry_ibc_channel_close_inner E A JE JM show contract_fn env_ptr msg_ptr)"

definition entry_ibc_packet_receive_inner ::
  "'w wasm_engine \<Rightarrow> 'w global_alloc \<Rightarrow> env_info json \<Rightarrow> ibc_packet_receive_msg json \<Rightarrow> ('e \<Rightarrow> string) \<Rightarrow>
    (env_info \<Rightarrow> ibc_packet_receive_msg \<Rightarrow> ('s, 'q, 'w, ('e, 'c ibc_receive_response) result) vm_prog) \<Rightarrow> u32 \<Rightarrow> u32 \<Rightarrow> ('s, 'q, 'w, 'c ibc_receive_response contract_result) vm_prog" where
  "entry_ibc_packet_receive_inner E A JE JM show contract_fn = entry2_inner E A JE JM show contract_fn"

definition entry_ibc_packet_receive ::
  "'w wasm_engine \<Rightarrow> 'w global_alloc \<Rightarrow> env_info json \<Rightarrow> ibc_packet_receive_msg json \<Rightarrow> 'c ibc_receive_response contract_result json \<Rightarrow> ('e \<Rightarrow> string) \<Rightarrow>
    (env_info \<Rightarrow> ibc_packet_receive_msg \<Rightarrow> ('s, 'q, 'w, ('e, 'c ibc_receive_response) result) vm_prog) \<Rightarrow> u32 \<Rightarrow> u32 \<Rightarrow> ('s, 'q, 'w, u32) vm_prog" where
  "entry_ibc_packet_receive E A JE JM JR show contract_fn env_ptr msg_ptr =
     release_result E A JR (entry_ibc_packet_receive_inner E A JE JM show contract_fn env_ptr msg_ptr)"

definition entry_ibc_packet_ack_inner ::
  "'w wasm_engine \<Rightarrow> 'w global_alloc \<Rightarrow> env_info json \<Rightarrow> ibc_packet_ack_msg json \<Rightarrow> ('e \<Rightarrow> string) \<Rightarrow>
    (env_info \<Rightarrow> ibc_packet_ack_msg \<Rightarrow> ('s, 'q, 'w, ('e, 'c ibc_basic_response) result) vm_prog) \<Rightarrow> u32 \<Rightarrow> u32 \<Rightarrow> ('s, 'q, 'w, 'c ibc_basic_response contract_result) vm_prog" where
  "entry_ibc_packet_ack_inner E A JE JM show contract_fn = entry2_inner E A JE JM show contract_fn"

definition entry_ibc_packet_ack ::
  "'w wasm_engine \<Rightarrow> 'w global_alloc \<Rightarrow> env_info json \<Rightarrow> ibc_packet_ack_msg json \<Rightarrow> 'c ibc_basic_response contract_result json \<Rightarrow> ('e \<Rightarrow> string) \<Rightarrow>
    (env_info \<Rightarrow> ibc_packet_ack_msg \<Rightarrow> ('s, 'q, 'w, ('e, 'c ibc_basic_response) result) vm_prog) \<Rightarrow> u32 \<Rightarrow> u32 \<Rightarrow> ('s, 'q, 'w, u32) vm_prog" where
  "entry_ibc_packet_ack E A JE JM JR show contract_fn env_ptr msg_ptr =
     release_result E A JR (entry_ibc_packet_ack_inner E A JE JM show contract_fn env_ptr msg_ptr)"

definition entry_ibc_packet_timeout_inner ::
  "'w wasm_engine \<Rightarrow> 'w global_alloc \<Rightarrow> env_info json \<Rightarrow> ibc_packet_timeout_msg json \<Rightarrow> ('e \<Rightarrow> string) \<Rightarrow>
    (env_info \<Rightarrow> ibc_packet_timeout_msg \<Rightarrow> ('s, 'q, 'w, ('e, 'c ibc_basic_response) result) vm_prog) \<Rightarrow> u32 \<Rightarrow> u32 \<Rightarrow> ('s, 'q, 'w, 'c ibc_basic_response contract_result) vm_prog" where
  "entry_ibc_packet_timeout_inner E A JE JM show contract_fn = entry2_inner E A JE JM show contract_fn"

definition entry_ibc_packet_timeout ::
  "'w wasm_engine \<Rightarrow> 'w global_alloc \<Rightarrow> env_info json \<Rightarrow> ibc_packet_timeout_msg json \<Rightarrow> 'c ibc_basic_response contract_result json \<Rightarrow> ('e \<Rightarrow> string) \<Rightarrow>
    (env_info \<Rightarrow> ibc_packet_timeout_msg \<Rightarrow> ('s, 'q, 'w, ('e, 'c ibc_basic_response) result) vm_prog) \<Rightarrow> u32 \<Rightarrow> u32 \<Rightarrow> ('s, 'q, 'w, u32) vm_prog" where
  "entry_ibc_packet_timeout E A JE JM JR show contract_fn env_ptr msg_ptr =
     release_result E A JR (entry_ibc_packet_timeout_inner E A JE JM show contract_fn env_ptr msg_ptr)"

text \<open>The two shapes of the entry points.\<close>

lemma entry_point_shapes:
  "entry_instantiate E A JE JI JM JR show f = (\<lambda>ep ip mp. release_result E A JR (entry_execute_inner E A JE JI JM show f ep ip mp))"
  "entry_execute E A JE JI JM JR show f = (\<lambda>ep ip mp. release_result E A JR (entry_execute_inner E A JE JI JM show f ep ip mp))"
  "entry_migrate E A JE J3 R3 show f3 = (\<lambda>ep mp. release_result E A R3 (entry2_inner E A JE J3 show f3 ep mp))"
  "entry_sudo E A JE J4 R4 show f4 = (\<lambda>ep mp. release_result E A R4 (entry2_inner E A JE J4 show f4 ep mp))"
  "entry_reply E A JE J5 R5 show f5 = (\<lambda>ep mp. release_result E A R5 (entry2_inner E A JE J5 show f5 ep mp))"
  "entry_query E A JE J6 R6 show f6 = (\<lambda>ep mp. release_result E A R6 (entry2_inner E A JE J6 show f6 ep mp))"
  "entry_ibc_channel_open E A JE J7 R7 show f7 = (\<lambda>ep mp. release_result E A R7 (entry2_inner E A JE J7 show f7 ep mp))"
  "entry_ibc_channel_connect E A JE J8 R8 show f8 = (\<lambda>ep mp. release_result E A R8 (entry2_inner E A JE J8 show f8 ep mp))"
  "entry_ibc_channel_close E A JE J9 R9 show f9 = (\<lambda>ep mp. release_result E A R9 (entry2_inner E A JE J9 show f9 ep mp))"
  "entry_ibc_packet_receive E A JE J10 R10 show f10 = (\<lambda>ep mp. release_result E A R10 (entry2_inner E A JE J10 show f10 ep mp))"
  "entry_ibc_packet_ack E A JE J11 R11 show f11 = (\<lambda>ep mp. release_result E A R11 (entry2_inner E A JE J11 show f11 ep mp))"
  "entry_ibc_packet_timeout E A JE J12 R12 show f12 = (\<lambda>ep mp. release_result E A R12 (entry2_inner E A JE J12 show f12 ep mp))"
  by (simp_all add: fun_eq_iff
      entry_instantiate_def entry_instantiate_inner_def entry_execute_def entry_execute_inner_def entry_migrate_def
      entry_migrate_inner_def entry_sudo_def entry_sudo_inner_def entry_reply_def entry_reply_inner_def entry_query_def
      entry_query_inner_def entry_ibc_channel_open_def entry_ibc_channel_open_inner_def entry_ibc_channel_connect_def
      entry_ibc_channel_connect_inner_def entry_ibc_channel_close_def entry_ibc_channel_close_inner_def
      entry_ibc_packet_receive_def entry_ibc_packet_receive_inner_def entry_ibc_packet_ack_def
      entry_ibc_packet_ack_inner_def entry_ibc_packet_timeout_def entry_ibc_packet_timeout_inner_def)

section \<open>What the host gets back\<close>

text \<open>A region that was passed to the guest: its description and its data, in memory of the guest.\<close>

definition passed :: "'w wasm_engine \<Rightarrow> 'w \<Rightarrow> u32 \<Rightarrow> bytes \<Rightarrow> block set \<Rightarrow> bool" where
  "passed E w p bs C \<longleftrightarrow>
     (\<exists>v. C = insert (unat p, 12) (vec_block v) \<and> separate {(unat p, 12)} (vec_block v) \<and> vec_ok E w v bs \<and>
        we_read_cells E w p 12 =
          Some (region_bytes \<lparr>reg_offset = vec_ptr v, reg_capacity = vec_cap v, reg_length = vec_len v\<rparr>))"

context byte_memory
begin

lemma passed_kept:
  assumes "passed E w p bs C" "kept E C w w'"
  shows "passed E w' p bs C"
proof -
  obtain v where v: "C = insert (unat p, 12) (vec_block v)" "separate {(unat p, 12)} (vec_block v)" "vec_ok E w v bs"
    "we_read_cells E w p 12 = Some (region_bytes \<lparr>reg_offset = vec_ptr v, reg_capacity = vec_cap v, reg_length = vec_len v\<rparr>)"
    using assms(1) by (auto simp: passed_def)
  have "we_read_cells E w' p 12 = we_read_cells E w p 12"
    using keptD [OF assms(2), of "unat p" 12 p 12] v(1) by simp
  moreover have "vec_ok E w' v bs" by (rule vec_kept [OF v(3), of "{}"]) (use assms(2) v(1) in \<open>auto intro: kept_mono\<close>)
  ultimately show ?thesis using v by (auto simp: passed_def)
qed

end

text \<open>A program of the guest that only touches memory it allocated itself.\<close>

definition owns_memory :: "'w wasm_engine \<Rightarrow> ('w \<Rightarrow> block set \<Rightarrow> bool) \<Rightarrow> ('s, 'q, 'w, 'a) vm_prog \<Rightarrow> bool" where
  "owns_memory E heap_inv f \<longleftrightarrow> (\<forall>env w B x env'. cd_wasm_instance env = Some w \<longrightarrow> heap_inv w B \<longrightarrow> f env = Done (Inr x, env') \<longrightarrow>
     (\<exists>w' N. cd_wasm_instance env' = Some w' \<and> heap_inv w' (N \<union> B) \<and> separate N B \<and> kept E B w w'))"

text \<open>
  What an entry point promises. The host reads the serialized result from the region at \<open>p\<close>, with every
  limit that the result does not exceed, and the memory outside of the call is kept. The result is the text of
  the first argument that does not parse, and then the function of the contract was not called; or it is what
  the function returned on the parsed arguments, in the environment of the call.
\<close>

definition returned :: "'w wasm_engine \<Rightarrow> block set \<Rightarrow> 'w \<Rightarrow> 'a json \<Rightarrow> 'a \<Rightarrow> u32 \<Rightarrow> ('s, 'q, 'w) context_data \<Rightarrow> bool" where
  "returned E B w J res p env' \<longleftrightarrow>
     (\<exists>out w'. to_vec J res = Inr out \<and> cd_wasm_instance env' = Some w' \<and>
        (\<forall>limit. length out \<le> limit \<and> limit < 2 ^ 32 \<longrightarrow> read_region E w' p limit = Inr out \<and> kept E B w w'))"

definition refused :: "std_error \<Rightarrow> ('s, 'q, 'w) context_data \<Rightarrow> ('s, 'q, 'w) context_data \<Rightarrow> 'a contract_result \<Rightarrow> bool" where
  "refused err env env' res \<longleftrightarrow> res = ContractErr (show_std_error err) \<and> same_context env env'"

definition answered ::
  "('e \<Rightarrow> string) \<Rightarrow> ('s, 'q, 'w, ('e, 'a) result) vm_prog \<Rightarrow> ('s, 'q, 'w) context_data \<Rightarrow> ('s, 'q, 'w) context_data \<Rightarrow>
    'a contract_result \<Rightarrow> bool" where
  "answered show f env env' res \<longleftrightarrow>
     (\<exists>env1 r env2. same_context env env1 \<and> f env1 = Done (Inr r, env2) \<and> res = contract_from_result show r \<and>
        same_context env2 env')"

definition entry2_contract ::
  "'w wasm_engine \<Rightarrow> ('w \<Rightarrow> block set \<Rightarrow> bool) \<Rightarrow> env_info json \<Rightarrow> 'm json \<Rightarrow> 'a contract_result json \<Rightarrow> ('e \<Rightarrow> string) \<Rightarrow>
    (env_info \<Rightarrow> 'm \<Rightarrow> ('s, 'q, 'w, ('e, 'a) result) vm_prog) \<Rightarrow> (u32 \<Rightarrow> u32 \<Rightarrow> ('s, 'q, 'w, u32) vm_prog) \<Rightarrow> bool" where
  "entry2_contract E live JE JM JR show f entry \<longleftrightarrow>
     (\<forall>env w Ce Cm B ep mp ebs mbs p env'.
        (\<forall>e m. owns_memory E live (f e m)) \<and> cd_wasm_instance env = Some w \<and> live w (Ce \<union> (Cm \<union> B)) \<and>
        passed E w ep ebs Ce \<and> passed E w mp mbs Cm \<and> separate Ce (Cm \<union> B) \<and> separate Cm B \<and>
        entry ep mp env = Done (Inr p, env') \<longrightarrow>
        (\<exists>res. returned E B w JR res p env' \<and>
           (case (from_slice JE ebs, from_slice JM mbs) of
              (Inl err, _) \<Rightarrow> refused err env env' res
            | (Inr e, Inl err) \<Rightarrow> refused err env env' res
            | (Inr e, Inr m) \<Rightarrow> answered show (f e m) env env' res)))"

definition entry3_contract ::
  "'w wasm_engine \<Rightarrow> ('w \<Rightarrow> block set \<Rightarrow> bool) \<Rightarrow> env_info json \<Rightarrow> message_info json \<Rightarrow> 'm json \<Rightarrow> 'a contract_result json \<Rightarrow>
    ('e \<Rightarrow> string) \<Rightarrow> (env_info \<Rightarrow> message_info \<Rightarrow> 'm \<Rightarrow> ('s, 'q, 'w, ('e, 'a) result) vm_prog) \<Rightarrow>
    (u32 \<Rightarrow> u32 \<Rightarrow> u32 \<Rightarrow> ('s, 'q, 'w, u32) vm_prog) \<Rightarrow> bool" where
  "entry3_contract E live JE JI JM JR show f entry \<longleftrightarrow>
     (\<forall>env w Ce Ci Cm B ep ip mp ebs ibs mbs p env'.
        (\<forall>e i m. owns_memory E live (f e i m)) \<and> cd_wasm_instance env = Some w \<and> live w (Ce \<union> (Ci \<union> (Cm \<union> B))) \<and>
        passed E w ep ebs Ce \<and> passed E w ip ibs Ci \<and> passed E w mp mbs Cm \<and>
        separate Ce (Ci \<union> (Cm \<union> B)) \<and> separate Ci (Cm \<union> B) \<and> separate Cm B \<and>
        entry ep ip mp env = Done (Inr p, env') \<longrightarrow>
        (\<exists>res. returned E B w JR res p env' \<and>
           (case (from_slice JE ebs, from_slice JI ibs, from_slice JM mbs) of
              (Inl err, _, _) \<Rightarrow> refused err env env' res
            | (Inr e, Inl err, _) \<Rightarrow> refused err env env' res
            | (Inr e, Inr i, Inl err) \<Rightarrow> refused err env env' res
            | (Inr e, Inr i, Inr m) \<Rightarrow> answered show (f e i m) env env' res)))"

text \<open>
  \<open>body\<close> ran inside a call: in the environment \<open>env\<close> with another memory. Afterwards the call owns the
  blocks \<open>N\<close>, and the blocks \<open>B\<close> outside of the call are kept.
\<close>

definition ran_inside ::
  "'w wasm_engine \<Rightarrow> ('w \<Rightarrow> block set \<Rightarrow> bool) \<Rightarrow> block set \<Rightarrow> 'w \<Rightarrow> ('s, 'q, 'w, 'a) vm_prog \<Rightarrow> 'a \<Rightarrow>
    ('s, 'q, 'w) context_data \<Rightarrow> ('s, 'q, 'w) context_data \<Rightarrow> bool" where
  "ran_inside E live B w body x env env' \<longleftrightarrow>
     (\<exists>w1 e2 w' N. body (env\<lparr>cd_wasm_instance := Some w1\<rparr>) = Done (Inr x, e2) \<and> same_context e2 env' \<and>
        cd_wasm_instance env' = Some w' \<and> live w' (N \<union> B) \<and> separate N B \<and> kept E B w w')"

lemma in_guest_context: "in_guest m f env = Done (r, env') \<Longrightarrow>
  same_context env env' \<and> (\<exists>w. cd_wasm_instance env' = Some w)"
  by (auto simp: in_guest_def same_context_def split: option.splits prod.splits)

text \<open>Releasing a buffer, of whatever length, changes nothing but the instance.\<close>

lemma release_context:
  assumes "pbind (vec_of E A bytes) (release_buffer E A) env = Done (Inr p, env')" "cd_wasm_instance env = Some w"
  shows "same_context env env' \<and> (\<exists>w'. cd_wasm_instance env' = Some w')"
proof -
  obtain q u u2 u3 where "raw_alloc A (word_of_nat (length bytes)) 1 env = Done (Inr q, u)"
    "store_bytes E q bytes u = Done (Inr (), u2)"
    and box: "raw_alloc A 12 4 u2 = Done (Inr p, u3)" "store_bytes E p (region_bytes \<lparr>reg_offset = q,
      reg_capacity = word_of_nat (length bytes), reg_length = word_of_nat (length bytes)\<rparr>) u3 = Done (Inr (), env')"
    using assms(1) by (auto simp: vec_of_def vec_with_capacity_def release_buffer_def build_region_def
        build_region_from_components_def box_new_def as_slice_def pbind_eq_Ok_iff)
  then have "same_context env u" "same_context u u2" "same_context u2 u3" "same_context u3 env'"
    "\<exists>w'. cd_wasm_instance env' = Some w'"
    by (auto simp: raw_alloc_def store_bytes_def split: if_splits dest!: in_guest_context)
  then show ?thesis by (blast intro: same_context_trans)
qed

context guest_host
begin

lemma vec_drop_run:
  fixes env :: "('s, 'q, 'w) context_data"
  assumes "vec_drop A v env = Done (Inr (), env')" "cd_wasm_instance env = Some w" "heap_inv w (vec_block v \<union> B)"
    and "separate (vec_block v) B"
  shows "\<exists>w'. env' = env\<lparr>cd_wasm_instance := Some w'\<rparr> \<and> heap_inv w' B \<and> kept E B w w'"
proof (cases "vec_cap v = 0")
  case True
  moreover have "env\<lparr>cd_wasm_instance := Some w\<rparr> = env" using assms(2) by (cases env) simp
  ultimately show ?thesis using assms
    by (intro exI [of _ w]) (simp add: vec_drop_def raw_dealloc_def blk_def)
next
  case False
  then have "(unat (vec_ptr v), unat (vec_cap v)) \<notin> B"
    using separate_notin [of "unat (vec_ptr v)" "unat (vec_cap v)" B] assms(4) by (simp add: blk_def unat_gt_0)
  then show ?thesis using dealloc_law [of w "vec_ptr v" "vec_cap v" B 1] assms False
    by (auto simp: vec_drop_def raw_dealloc_def blk_def in_guest_def)
qed

lemma with_consumed_run:
  fixes env :: "('s, 'q, 'w) context_data"
  assumes "with_consumed E A p f env = Done (Inr x, env')" "cd_wasm_instance env = Some w" "heap_inv w (C \<union> B)"
    and "passed E w p bs C" "separate C B"
  shows "\<exists>v w1 e2. f bs (env\<lparr>cd_wasm_instance := Some w1\<rparr>) = Done (Inr x, e2) \<and> vec_drop A v e2 = Done (Inr (), env') \<and>
    heap_inv w1 (vec_block v \<union> B) \<and> separate (vec_block v) B \<and> kept E B w w1"
proof -
  obtain v where v: "C = insert (unat p, 12) (vec_block v)" "separate {(unat p, 12)} (vec_block v)" "vec_ok E w v bs"
    "we_read_cells E w p 12 = Some (region_bytes \<lparr>reg_offset = vec_ptr v, reg_capacity = vec_cap v, reg_length = vec_len v\<rparr>)"
    using assms(4) by (auto simp: passed_def)
  have sep: "separate {(unat p, 12)} (vec_block v \<union> B)" "separate (vec_block v) B"
    using v(1,2) separate_mono [OF assms(5), of "{(unat p, 12)}" B] separate_mono [OF assms(5), of "vec_block v" B] by auto
  obtain w1 where w1: "consume_region E A p env = Done (Inr v, env\<lparr>cd_wasm_instance := Some w1\<rparr>)"
    "heap_inv w1 (vec_block v \<union> B)" "kept E (vec_block v \<union> B) w w1"
    using consume_region_spec [OF assms(2) _ separate_notin [OF sep(1)] v(4)] assms(3) v(1,3)
    by (auto simp: vec_ok_def)
  have "vec_ok E w1 v bs" by (rule vec_kept [OF v(3) w1(3)])
  then have "vec_bytes E v (env\<lparr>cd_wasm_instance := Some w1\<rparr>) = Done (Inr bs, env\<lparr>cd_wasm_instance := Some w1\<rparr>)"
    by (simp add: vec_bytes_def load_bytes_def in_guest_def vec_ok_def)
  then obtain e2 where "f bs (env\<lparr>cd_wasm_instance := Some w1\<rparr>) = Done (Inr x, e2)" "vec_drop A v e2 = Done (Inr (), env')"
    using assms(1) w1(1) by (auto simp: with_consumed_def pbind_def [of "consume_region _ _ _"] pbind_def [of "vec_bytes _ _"]
        pbind_eq_Ok_iff)
  with w1 sep(2) show ?thesis using kept_mono [OF w1(3) Un_upper2] by blast
qed

text \<open>A vector with given bytes, in a block of its own.\<close>

lemma vec_of_run:
  fixes env :: "('s, 'q, 'w) context_data"
  assumes "vec_of E A bytes env = Done (Inr v, env')" "cd_wasm_instance env = Some w" "heap_inv w B" "length bytes < 2 ^ 32"
  shows "vec_cap v = word_of_nat (length bytes) \<and> vec_len v = word_of_nat (length bytes) \<and>
    (\<exists>w'. env' = env\<lparr>cd_wasm_instance := Some w'\<rparr> \<and> heap_inv w' (vec_block v \<union> B) \<and> separate (vec_block v) B \<and>
       kept E B w w' \<and> vec_ok E w' v bytes)"
proof -
  define n :: u32 where "n = word_of_nat (length bytes)"
  have n: "unat n = length bytes" using assms(4) by (simp add: n_def unat_of_nat)
  obtain q u where al: "raw_alloc A n 1 env = Done (Inr q, u)" and st: "store_bytes E q bytes u = Done (Inr (), env')"
    and v: "v = \<lparr>vec_ptr = q, vec_cap = n, vec_len = n\<rparr>"
    using assms(1) by (auto simp: vec_of_def vec_with_capacity_def pbind_eq_Ok_iff n_def)
  obtain w1 where w1: "u = env\<lparr>cd_wasm_instance := Some w1\<rparr>" "q \<noteq> 0" "unat q + unat n < 2 ^ 32" "heap_inv w1 (blk q n \<union> B)"
    "separate (blk q n) B" "kept E B w w1"
    using raw_alloc_spec [OF assms(2,3), of 1 n] al by auto
  obtain w2 where w2: "env' = env\<lparr>cd_wasm_instance := Some w2\<rparr>" "heap_inv w2 (blk q n \<union> B)" "kept E B w1 w2"
    "we_read_cells E w2 q n = Some bytes"
  proof (cases "n = 0")
    case True
    then have "bytes = []" using n by simp
    obtain w2 where wr: "we_write_cells E w1 q 0 [] = Some w2" "env' = env\<lparr>cd_wasm_instance := Some w2\<rparr>"
      using st w1(1) \<open>bytes = []\<close> by (auto simp: store_bytes_def in_guest_def split: option.splits)
    have "w2 = w1" by (rule write_nothing [OF wr(1)])
    moreover have "we_read_cells E w2 q 0 = Some []" using read_written [OF wr(1)] by simp
    ultimately show thesis using that [of w2] wr(2) w1(4) True \<open>bytes = []\<close> by simp
  next
    case False
    then have "blk q n \<union> B = insert (unat q, length bytes) B" "separate {(unat q, length bytes)} B"
      using n w1(5) by (auto simp: blk_def)
    then show thesis
      using that store_spec [of u w1 q bytes B] w1(1,4) st assms(4) n_def by auto
  qed
  have "vec_ok E w2 v bytes" using w1(2,3) w2(4) by (simp add: vec_ok_def v)
  then show ?thesis using w1(5) w2(1,2) kept_trans [OF w1(6) w2(3)] by (auto simp: v n_def)
qed

lemma release_run:
  fixes env :: "('s, 'q, 'w) context_data"
  assumes "pbind (vec_of E A bytes) (release_buffer E A) env = Done (Inr p, env')" "cd_wasm_instance env = Some w" "heap_inv w B"
    and "length bytes \<le> max_length" "max_length < 2 ^ 32"
  shows "\<exists>w'. env' = env\<lparr>cd_wasm_instance := Some w'\<rparr> \<and> read_region E w' p max_length = Inr bytes \<and> kept E B w w'"
proof -
  obtain v u where v: "vec_of E A bytes env = Done (Inr v, u)" and rel: "release_buffer E A v u = Done (Inr p, env')"
    using assms(1) by (auto simp: pbind_eq_Ok_iff)
  obtain w2 where w2: "u = env\<lparr>cd_wasm_instance := Some w2\<rparr>" "heap_inv w2 (vec_block v \<union> B)" "kept E B w w2" "vec_ok E w2 v bytes"
    and n: "vec_cap v = vec_len v"
    using vec_of_run [OF v assms(2,3)] assms(4,5) by auto
  define r where "r = \<lparr>reg_offset = vec_ptr v, reg_capacity = vec_len v, reg_length = vec_len v\<rparr>"
  have box: "box_new E A r u = Done (Inr p, env')"
    using rel by (simp add: release_buffer_def build_region_def build_region_from_components_def as_slice_def r_def)
  obtain w3 where w3: "env' = env\<lparr>cd_wasm_instance := Some w3\<rparr>" "4 dvd unat p" "kept E (vec_block v \<union> B) w2 w3"
    "we_read_cells E w3 p 12 = Some (region_bytes r)"
    using box_new_spec [of u w2 "vec_block v \<union> B" r] w2(1,2) box by auto
  have "vec_ok E w3 v bytes" by (rule vec_kept [OF w2(4) w3(3)])
  then have "read_region E w3 p max_length = Inr bytes"
    using host_reads_box [OF w3(2,4), of bytes max_length] assms(4,5) n by (simp add: region_ok_def vec_ok_def r_def)
  moreover have "kept E B w w3" by (rule kept_trans [OF w2(3) kept_mono [OF w3(3) Un_upper2]])
  ultimately show ?thesis using w3(1) by blast
qed

lemma owns_memoryD:
  assumes "owns_memory E heap_inv f" "f env = Done (Inr x, env')" "cd_wasm_instance env = Some w" "heap_inv w B"
  obtains w' N where "cd_wasm_instance env' = Some w'" "heap_inv w' (N \<union> B)" "separate N B" "kept E B w w'"
  using assms unfolding owns_memory_def by meson

lemma owns_memory_try:
  assumes "\<And>x. owns_memory E heap_inv (f x)"
  shows "owns_memory E heap_inv (try_into_contract_result r f)"
proof (cases r)
  case (Inl e)
  have "\<exists>N. heap_inv w (N \<union> B) \<and> separate N B" if "heap_inv w B" for w B
    using that by (intro exI [of _ "{}"]) simp
  then show ?thesis using Inl by (auto simp: owns_memory_def try_into_contract_result_def)
next
  case (Inr x)
  then show ?thesis using assms by (simp add: try_into_contract_result_def)
qed

lemma owns_memory_run_contract: "owns_memory E heap_inv f \<Longrightarrow> owns_memory E heap_inv (run_contract show f)"
  unfolding owns_memory_def run_contract_def by (fastforce simp: pbind_eq_Ok_iff)

text \<open>Taking over an argument keeps the discipline, and it changes nothing but the memory.\<close>

lemma drop_closes:
  fixes env :: "('s, 'q, 'w) context_data"
  assumes "vec_drop A v env = Done (Inr (), env')" "cd_wasm_instance env = Some w" "heap_inv w (N \<union> (vec_block v \<union> B))"
    and "separate N (vec_block v \<union> B)" "separate (vec_block v) B"
  shows "\<exists>w'. env' = env\<lparr>cd_wasm_instance := Some w'\<rparr> \<and> heap_inv w' (N \<union> B) \<and> kept E B w w'"
proof -
  have heap: "heap_inv w (vec_block v \<union> (N \<union> B))" using assms(3) by (simp add: Un_left_commute)
  have "separate (vec_block v) (N \<union> B)" using assms(4,5) separate_sym [of N "vec_block v"] by simp
  from vec_drop_run [OF assms(1,2) heap this]
  obtain w' where "env' = env\<lparr>cd_wasm_instance := Some w'\<rparr>" "heap_inv w' (N \<union> B)" and k: "kept E (N \<union> B) w w'" by blast
  then show ?thesis using kept_mono [OF k Un_upper2] by (intro exI [of _ w']) simp
qed

lemma consumed_one:
  fixes env :: "('s, 'q, 'w) context_data"
  assumes "with_consumed E A p f env = Done (Inr x, env')" "cd_wasm_instance env = Some w" "heap_inv w (C \<union> B)"
    and "passed E w p bs C" "separate C B" "owns_memory E heap_inv (f bs)"
  shows "ran_inside E heap_inv B w (f bs) x env env'"
proof -
  obtain v w1 e2 where v: "f bs (env\<lparr>cd_wasm_instance := Some w1\<rparr>) = Done (Inr x, e2)" "vec_drop A v e2 = Done (Inr (), env')"
    "heap_inv w1 (vec_block v \<union> B)" "separate (vec_block v) B" "kept E B w w1"
    using with_consumed_run [OF assms(1-5)] by blast
  obtain w2 N where w2: "cd_wasm_instance e2 = Some w2" "heap_inv w2 (N \<union> (vec_block v \<union> B))" "separate N (vec_block v \<union> B)"
    "kept E (vec_block v \<union> B) w1 w2"
    using owns_memoryD [OF assms(6) v(1) _ v(3)] by auto
  obtain w3 where w3: "env' = e2\<lparr>cd_wasm_instance := Some w3\<rparr>" "heap_inv w3 (N \<union> B)" "kept E B w2 w3"
    using drop_closes [OF v(2) w2(1-3) v(4)] by blast
  have "kept E B w w3" by (rule kept_trans [OF kept_trans [OF v(5) kept_mono [OF w2(4) Un_upper2]] w3(3)])
  then show ?thesis
    unfolding ran_inside_def using v(1) w2(3) w3(1,2)
    by (intro exI [of _ w1] exI [of _ e2] exI [of _ w3] exI [of _ N]) (simp add: same_context_def)
qed

text \<open>An argument in front of others: the blocks \<open>D\<close> of the others are still there for the inner calls.\<close>

lemma consumed_more:
  fixes env :: "('s, 'q, 'w) context_data"
  assumes run: "with_consumed E A p f env = Done (Inr x, env')" and w: "cd_wasm_instance env = Some w"
    and heap: "heap_inv w (C \<union> (D \<union> B))" and arg: "passed E w p bs C" "separate C (D \<union> B)" and sep: "separate D B"
    and inner: "\<And>V w1 e2. f bs (env\<lparr>cd_wasm_instance := Some w1\<rparr>) = Done (Inr x, e2) \<Longrightarrow> heap_inv w1 (D \<union> (V \<union> B)) \<Longrightarrow>
      separate D (V \<union> B) \<Longrightarrow> kept E D w w1 \<Longrightarrow> ran_inside E heap_inv (V \<union> B) w1 body x (env\<lparr>cd_wasm_instance := Some w1\<rparr>) e2"
  shows "ran_inside E heap_inv B w body x env env'"
proof -
  obtain v w1 e2 where v: "f bs (env\<lparr>cd_wasm_instance := Some w1\<rparr>) = Done (Inr x, e2)" "vec_drop A v e2 = Done (Inr (), env')"
    "heap_inv w1 (vec_block v \<union> (D \<union> B))" "separate (vec_block v) (D \<union> B)" "kept E (D \<union> B) w w1"
    using with_consumed_run [OF run w heap arg] by blast
  have "heap_inv w1 (D \<union> (vec_block v \<union> B))" using v(3) by (simp add: Un_left_commute)
  moreover have "separate D (vec_block v \<union> B)" using sep v(4) separate_sym [of "vec_block v" D] by simp
  ultimately have "ran_inside E heap_inv (vec_block v \<union> B) w1 body x (env\<lparr>cd_wasm_instance := Some w1\<rparr>) e2"
    using v(1) kept_mono [OF v(5) Un_upper1] by (intro inner)
  then obtain w2 e3 w3 N where i: "body (env\<lparr>cd_wasm_instance := Some w2\<rparr>) = Done (Inr x, e3)" "same_context e3 e2"
    "cd_wasm_instance e2 = Some w3" "heap_inv w3 (N \<union> (vec_block v \<union> B))" "separate N (vec_block v \<union> B)"
    "kept E (vec_block v \<union> B) w1 w3"
    by (auto simp: ran_inside_def)
  have "separate (vec_block v) B" using v(4) by simp
  from drop_closes [OF v(2) i(3-5) this]
  obtain w4 where w4: "env' = e2\<lparr>cd_wasm_instance := Some w4\<rparr>" "heap_inv w4 (N \<union> B)" "kept E B w3 w4" by blast
  have "kept E B w w4"
    by (rule kept_trans [OF kept_trans [OF kept_mono [OF v(5) Un_upper2] kept_mono [OF i(6) Un_upper2]] w4(3)])
  then show ?thesis
    unfolding ran_inside_def using i(1,2,5) w4(1,2)
    by (intro exI [of _ w2] exI [of _ e3] exI [of _ w4] exI [of _ N]) (simp add: same_context_def)
qed

lemma consumed_two:
  fixes env :: "('s, 'q, 'w) context_data"
  assumes "with_consumed E A p (\<lambda>x. with_consumed E A q (f x)) env = Done (Inr y, env')" "cd_wasm_instance env = Some w"
    and heap: "heap_inv w (C \<union> (D \<union> B))" and args: "passed E w p bs C" "passed E w q ds D"
    and sep: "separate C (D \<union> B)" "separate D B" and own: "owns_memory E heap_inv (f bs ds)"
  shows "ran_inside E heap_inv B w (f bs ds) y env env'"
proof (rule consumed_more [OF assms(1,2) heap args(1) sep])
  fix V w1 e2
  assume "with_consumed E A q (f bs) (env\<lparr>cd_wasm_instance := Some w1\<rparr>) = Done (Inr y, e2)"
    "heap_inv w1 (D \<union> (V \<union> B))" "separate D (V \<union> B)" "kept E D w w1"
  with passed_kept [OF args(2)] own
  show "ran_inside E heap_inv (V \<union> B) w1 (f bs ds) y (env\<lparr>cd_wasm_instance := Some w1\<rparr>) e2"
    by (intro consumed_one [where C = D]) simp_all
qed

lemma consumed_three:
  fixes env :: "('s, 'q, 'w) context_data"
  assumes run: "with_consumed E A p (\<lambda>x. with_consumed E A q (\<lambda>z. with_consumed E A r (f x z))) env = Done (Inr y, env')"
    and w: "cd_wasm_instance env = Some w" and heap: "heap_inv w (C \<union> (D \<union> (F \<union> B)))"
    and args: "passed E w p bs C" "passed E w q ds D" "passed E w r fs F"
    and sep: "separate C (D \<union> (F \<union> B))" "separate D (F \<union> B)" "separate F B" and own: "owns_memory E heap_inv (f bs ds fs)"
  shows "ran_inside E heap_inv B w (f bs ds fs) y env env'"
proof (rule consumed_more [OF run w _ args(1), where D = "D \<union> F"])
  show "heap_inv w (C \<union> ((D \<union> F) \<union> B))" "separate C ((D \<union> F) \<union> B)" using heap sep(1) by (simp_all add: Un_assoc)
  show "separate (D \<union> F) B" using sep(2,3) by simp
  fix V w1 e2
  assume i: "with_consumed E A q (\<lambda>z. with_consumed E A r (f bs z)) (env\<lparr>cd_wasm_instance := Some w1\<rparr>) = Done (Inr y, e2)"
    "heap_inv w1 ((D \<union> F) \<union> (V \<union> B))" "separate (D \<union> F) (V \<union> B)" "kept E (D \<union> F) w w1"
  have pass: "passed E w1 q ds D" "passed E w1 r fs F"
    using passed_kept [OF args(2) kept_mono [OF i(4) Un_upper1]] passed_kept [OF args(3) kept_mono [OF i(4) Un_upper2]] by simp_all
  have "heap_inv w1 (D \<union> (F \<union> (V \<union> B)))" "separate D (F \<union> (V \<union> B))" "separate F (V \<union> B)"
    using i(2,3) sep(2) by (simp_all add: Un_assoc)
  from consumed_two [OF i(1) _ this(1) pass this(2,3) own]
  show "ran_inside E heap_inv (V \<union> B) w1 (f bs ds fs) y (env\<lparr>cd_wasm_instance := Some w1\<rparr>) e2" by simp
qed

text \<open>Serializing the result and releasing it.\<close>

lemma release_inside:
  fixes env :: "('s, 'q, 'w) context_data"
  assumes run: "release_result E A J inner env = Done (Inr p, env')"
    and inside: "\<And>x u. inner env = Done (Inr x, u) \<Longrightarrow> ran_inside E heap_inv B w body x env u"
  shows "\<exists>x env1 env2. returned E B w J x p env' \<and> body env1 = Done (Inr x, env2) \<and> same_context env env1 \<and> same_context env2 env'"
proof -
  obtain x u out where inner: "inner env = Done (Inr x, u)" and out: "to_vec J x = Inr out"
    and rel: "pbind (vec_of E A out) (release_buffer E A) u = Done (Inr p, env')"
    using run by (auto simp: release_result_def pbind_eq_Ok_iff [of inner]
        pbind_eq_Ok_iff [of "plift_out _"] plift_out_eq_Done_iff unwrap_ok_eq_Done_iff)
  obtain w1 e2 w2 N where b: "body (env\<lparr>cd_wasm_instance := Some w1\<rparr>) = Done (Inr x, e2)" "same_context e2 u"
    "cd_wasm_instance u = Some w2" "heap_inv w2 (N \<union> B)" "kept E B w w2"
    using inside [OF inner] by (auto simp: ran_inside_def)
  obtain w' where w': "same_context u env'" "cd_wasm_instance env' = Some w'"
    using release_context [OF rel b(3)] by blast
  have "read_region E w' p limit = Inr out \<and> kept E B w w'" if small: "length out \<le> limit" "limit < 2 ^ 32" for limit
  proof -
    obtain w3 where "env' = u\<lparr>cd_wasm_instance := Some w3\<rparr>" "read_region E w3 p limit = Inr out" "kept E (N \<union> B) w2 w3"
      using release_run [OF rel b(3,4) small] by blast
    then show ?thesis using w'(2) kept_trans [OF b(5) kept_mono [OF _ Un_upper2]] by auto
  qed
  then have "returned E B w J x p env'" using out w'(2) by (auto simp: returned_def)
  moreover have "same_context e2 env'" by (rule same_context_trans [OF b(2) w'(1)])
  ultimately show ?thesis using b(1) by (intro exI [of _ x] exI [of _ "env\<lparr>cd_wasm_instance := Some w1\<rparr>"] exI [of _ e2])
    (simp add: same_context_def)
qed

text \<open>Every entry point keeps its contract.\<close>

lemma entry2_keeps_contract:
  fixes f :: "env_info \<Rightarrow> 'm \<Rightarrow> ('s, 'q, 'w, ('e, 'x) result) vm_prog"
  shows "entry2_contract E heap_inv JE JM JR show f (\<lambda>ep mp. release_result E A JR (entry2_inner E A JE JM show f ep mp))"
  unfolding entry2_contract_def
proof (intro allI impI, elim conjE)
  fix env :: "('s, 'q, 'w) context_data" and w Ce Cm B ep mp ebs mbs p env'
  define body where "body ebs mbs = try_into_contract_result (from_slice JE ebs) (\<lambda>e.
    try_into_contract_result (from_slice JM mbs) (\<lambda>m. run_contract show (f e m)))" for ebs mbs
  assume own: "\<forall>e m. owns_memory E heap_inv (f e m)" and run: "release_result E A JR (entry2_inner E A JE JM show f ep mp) env = Done (Inr p, env')"
    and mem: "cd_wasm_instance env = Some w" "heap_inv w (Ce \<union> (Cm \<union> B))" "passed E w ep ebs Ce" "passed E w mp mbs Cm"
      "separate Ce (Cm \<union> B)" "separate Cm B"
  have "owns_memory E heap_inv (body ebs mbs)"
    unfolding body_def using own by (intro owns_memory_try owns_memory_run_contract) blast
  note inside = consumed_two [where f = body, OF _ mem this]
  have "ran_inside E heap_inv B w (body ebs mbs) x env u"
    if "entry2_inner E A JE JM show f ep mp env = Done (Inr x, u)" for x u
    by (rule inside) (use that in \<open>simp add: entry2_inner_def body_def [abs_def]\<close>)
  from release_inside [OF run this]
  obtain res env1 env2 where res: "returned E B w JR res p env'" "body ebs mbs env1 = Done (Inr res, env2)"
    "same_context env env1" "same_context env2 env'" by blast
  then have "case (from_slice JE ebs, from_slice JM mbs) of
      (Inl err, _) \<Rightarrow> refused err env env' res
    | (Inr e, Inl err) \<Rightarrow> refused err env env' res
    | (Inr e, Inr m) \<Rightarrow> answered show (f e m) env env' res"
    by (cases "from_slice JE ebs"; cases "from_slice JM mbs")
      (auto simp: body_def try_into_contract_result_def run_contract_def pbind_eq_Ok_iff refused_def answered_def
        intro: same_context_trans)
  with res(1) show "\<exists>res. returned E B w JR res p env' \<and> (case (from_slice JE ebs, from_slice JM mbs) of
      (Inl err, _) \<Rightarrow> refused err env env' res
    | (Inr e, Inl err) \<Rightarrow> refused err env env' res
    | (Inr e, Inr m) \<Rightarrow> answered show (f e m) env env' res)" by blast
qed

lemma entry3_keeps_contract:
  fixes f :: "env_info \<Rightarrow> message_info \<Rightarrow> 'm \<Rightarrow> ('s, 'q, 'w, ('e, 'c response) result) vm_prog"
  shows "entry3_contract E heap_inv JE JI JM JR show f
    (\<lambda>ep ip mp. release_result E A JR (entry_execute_inner E A JE JI JM show f ep ip mp))"
  unfolding entry3_contract_def
proof (intro allI impI, elim conjE)
  fix env :: "('s, 'q, 'w) context_data" and w Ce Ci Cm B ep ip mp ebs ibs mbs p env'
  define body where "body ebs ibs mbs = try_into_contract_result (from_slice JE ebs) (\<lambda>e.
    try_into_contract_result (from_slice JI ibs) (\<lambda>i. try_into_contract_result (from_slice JM mbs) (\<lambda>m.
    run_contract show (f e i m))))" for ebs ibs mbs
  assume own: "\<forall>e i m. owns_memory E heap_inv (f e i m)"
    and run: "release_result E A JR (entry_execute_inner E A JE JI JM show f ep ip mp) env = Done (Inr p, env')"
    and mem: "cd_wasm_instance env = Some w" "heap_inv w (Ce \<union> (Ci \<union> (Cm \<union> B)))" "passed E w ep ebs Ce" "passed E w ip ibs Ci"
      "passed E w mp mbs Cm" "separate Ce (Ci \<union> (Cm \<union> B))" "separate Ci (Cm \<union> B)" "separate Cm B"
  have "owns_memory E heap_inv (body ebs ibs mbs)"
    unfolding body_def using own by (intro owns_memory_try owns_memory_run_contract) blast
  note inside = consumed_three [where f = body, OF _ mem this]
  have "ran_inside E heap_inv B w (body ebs ibs mbs) x env u"
    if "entry_execute_inner E A JE JI JM show f ep ip mp env = Done (Inr x, u)" for x u
    by (rule inside) (use that in \<open>simp add: entry_execute_inner_def body_def [abs_def]\<close>)
  from release_inside [OF run this]
  obtain res env1 env2 where res: "returned E B w JR res p env'" "body ebs ibs mbs env1 = Done (Inr res, env2)"
    "same_context env env1" "same_context env2 env'" by blast
  then have "case (from_slice JE ebs, from_slice JI ibs, from_slice JM mbs) of
      (Inl err, _, _) \<Rightarrow> refused err env env' res
    | (Inr e, Inl err, _) \<Rightarrow> refused err env env' res
    | (Inr e, Inr i, Inl err) \<Rightarrow> refused err env env' res
    | (Inr e, Inr i, Inr m) \<Rightarrow> answered show (f e i m) env env' res"
    by (cases "from_slice JE ebs"; cases "from_slice JI ibs"; cases "from_slice JM mbs")
      (auto simp: body_def try_into_contract_result_def run_contract_def pbind_eq_Ok_iff refused_def answered_def
        intro: same_context_trans)
  with res(1) show "\<exists>res. returned E B w JR res p env' \<and>
    (case (from_slice JE ebs, from_slice JI ibs, from_slice JM mbs) of
      (Inl err, _, _) \<Rightarrow> refused err env env' res
    | (Inr e, Inl err, _) \<Rightarrow> refused err env env' res
    | (Inr e, Inr i, Inl err) \<Rightarrow> refused err env env' res
    | (Inr e, Inr i, Inr m) \<Rightarrow> answered show (f e i m) env env' res)" by blast
qed

end

end
