(* ===== verification/Guest_Example.thy ===== *)
theory Guest_Example
  imports Guest_Exports
begin

text \<open>
  The laws of the guest's heap hold for an allocator that hands out the linear memory from below: the
  first four bytes of the memory hold the address of the first free byte, and freed blocks are not used
  again. The host of the mock storage whose \<open>allocate\<close> is the library's export, run with this
  allocator, is an instance of \<open>guest_host\<close>.
\<close>

definition bump_next :: "linear_instance \<Rightarrow> nat" where
  "bump_next w = unat (from_le_bytes (get_bytes 0 4 (lm_mem w)) :: u32)"

definition bump_alloc :: "linear_instance global_alloc" where
  "bump_alloc =
     \<lparr>ga_alloc = (\<lambda>n al w.
        let p = (bump_next w + 3) div 4 * 4 in
        if p + unat n \<le> length (lm_mem w)
        then Some (word_of_nat p, w\<lparr>lm_mem := put_bytes 0 (to_le_bytes (word_of_nat (p + unat n) :: u32)) (lm_mem w)\<rparr>)
        else None),
      ga_dealloc = (\<lambda>p n al w. w)\<rparr>"

definition bump_inv :: "linear_instance \<Rightarrow> block set \<Rightarrow> bool" where
  "bump_inv w B \<longleftrightarrow> length (lm_mem w) < 2 ^ 32 \<and> 8 \<le> bump_next w \<and> bump_next w \<le> length (lm_mem w) \<and>
     (\<forall>p n. (p, n) \<in> B \<longrightarrow> 8 \<le> p \<and> p + n \<le> bump_next w)"

lemma bump_next_put:
  assumes "4 \<le> i" "i + length bs \<le> length (lm_mem w)"
  shows "bump_next (w\<lparr>lm_mem := put_bytes i bs (lm_mem w)\<rparr>) = bump_next w"
  using get_put_bytes_apart [OF assms(2), of 0 4] assms(1) by (simp add: bump_next_def)

interpretation linear_bytes: byte_memory linear_engine
proof
  fix w w' :: linear_instance and p off cap off2 len :: u32 and d :: bytes and r :: region
  show "we_deref_region linear_engine w p = map_option bytes_region (we_read_cells linear_engine w p 12)"
    by (simp add: linear_engine_def)
  show "we_set_region linear_engine w p r = we_write_cells linear_engine w p 12 (region_bytes r)"
    by (simp add: linear_engine_def)
  show "we_read_cells linear_engine w' off2 len = we_read_cells linear_engine w off2 len"
    if "we_write_cells linear_engine w off cap d = Some w'"
      "unat off + unat cap \<le> unat off2 \<or> unat off2 + unat len \<le> unat off"
    using that by (auto simp: linear_engine_def length_put_bytes get_put_bytes_apart split: if_splits)
  show "we_write_cells linear_engine w off cap d \<noteq> None"
    if "we_read_cells linear_engine w off cap \<noteq> None" "length d \<le> unat cap"
    using that by (auto simp: linear_engine_def split: if_splits)
  show "we_read_cells linear_engine w' off2 len = None \<longleftrightarrow> we_read_cells linear_engine w off2 len = None"
    if "we_write_cells linear_engine w off cap d = Some w'"
    using that by (auto simp: linear_engine_def length_put_bytes split: if_splits)
  show "w' = w" if "we_write_cells linear_engine w off cap [] = Some w'"
    using that by (auto simp: linear_engine_def put_bytes_def split: if_splits)
qed

lemma bump_alloc_ok:
  assumes "bump_inv w B" "n \<noteq> 0" "al \<in> {1, 4}" "ga_alloc bump_alloc n al w = Some (p, w')"
  shows "unat al dvd unat p \<and> bump_inv w' (insert (unat p, unat n) B) \<and> separate {(unat p, unat n)} B \<and>
    kept linear_engine B w w'"
proof -
  define a where "a = (bump_next w + 3) div 4 * 4"
  define bs where "bs = to_le_bytes (word_of_nat (a + unat n) :: u32)"
  have fit: "a + unat n \<le> length (lm_mem w)" and p: "p = word_of_nat a" and w': "w' = w\<lparr>lm_mem := put_bytes 0 bs (lm_mem w)\<rparr>"
    using assms(4) by (auto simp: bump_alloc_def Let_def a_def bs_def split: if_splits)
  have small: "length (lm_mem w) < 2 ^ 32" "8 \<le> bump_next w" and old: "\<And>q m. (q, m) \<in> B \<Longrightarrow> 8 \<le> q \<and> q + m \<le> bump_next w"
    using assms(1) by (auto simp: bump_inv_def)
  have a: "bump_next w \<le> a" "4 dvd a" by (auto simp: a_def)
  have up: "unat p = a" using fit small(1) by (simp add: p unat_of_nat)
  have len: "length (lm_mem w') = length (lm_mem w)" using fit small(2) a(1) by (simp add: w' length_put_bytes bs_def)
  have "get_bytes 0 4 (lm_mem w') = bs"
    using get_put_bytes [of 0 bs "lm_mem w"] fit small(2) a(1) by (simp add: w' bs_def)
  then have nx: "bump_next w' = a + unat n"
    using fit small(1) by (simp add: bump_next_def bs_def from_to_le_bytes unat_of_nat del: of_nat_add)
  have "unat al dvd unat p" using assms(3) a(2) up by auto
  moreover have "bump_inv w' (insert (unat p, unat n) B)"
    using nx len fit small a(1) up old by (fastforce simp: bump_inv_def)
  moreover have "separate {(unat p, unat n)} B" using old a(1) up by (fastforce simp: separate_def)
  moreover have "kept linear_engine B w w'"
  proof -
    have "get_bytes i k (lm_mem w') = get_bytes i k (lm_mem w)" if "8 \<le> i" for i k
      using get_put_bytes_apart [of 0 bs "lm_mem w" i k] that fit small(2) a(1) by (simp add: w' bs_def)
    then show ?thesis using len old by (fastforce simp: kept_def linear_engine_def get_bytes_def)
  qed
  ultimately show ?thesis by blast
qed

interpretation bump: guest_heap linear_engine bump_alloc bump_inv
proof
  fix w w' :: linear_instance and B and p n al off cap :: u32 and d :: bytes and q m :: nat and g :: u64
  show "we_has_memory linear_engine w \<and> we_read_cells linear_engine w 1 0 = Some []" if "bump_inv w B"
    using that by (simp add: linear_engine_def bump_inv_def get_bytes_def)
  show "p \<noteq> 0 \<and> unat p + unat n < 2 ^ 32 \<and> we_read_cells linear_engine w p n \<noteq> None"
    if "bump_inv w B" "(unat p, unat n) \<in> B"
    using that by (fastforce simp: linear_engine_def bump_inv_def)
  show "unat al dvd unat p \<and> bump_inv w' (insert (unat p, unat n) B) \<and> separate {(unat p, unat n)} B \<and>
      kept linear_engine B w w'"
    if "bump_inv w B" "n \<noteq> 0" "al \<in> {1, 4}" "ga_alloc bump_alloc n al w = Some (p, w')"
    using bump_alloc_ok that by blast
  show "bump_inv (ga_dealloc bump_alloc p n al w) B \<and> kept linear_engine B w (ga_dealloc bump_alloc p n al w)"
    if "bump_inv w (insert (unat p, unat n) B)"
    using that by (simp add: bump_alloc_def bump_inv_def)
  show "bump_inv w' B"
    if "bump_inv w B" "(q, m) \<in> B" "q \<le> unat off" "unat off + unat cap \<le> q + m"
      "we_write_cells linear_engine w off cap d = Some w'"
  proof -
    have w': "w' = w\<lparr>lm_mem := put_bytes (unat off) d (lm_mem w)\<rparr>" and fit: "unat off + length d \<le> length (lm_mem w)"
      using that(5) by (auto simp: linear_engine_def split: if_splits)
    have "4 \<le> unat off" using that(1-3) by (fastforce simp: bump_inv_def)
    then have "bump_next w' = bump_next w" using bump_next_put fit w' by simp
    then show ?thesis using that(1) fit by (simp add: bump_inv_def w' length_put_bytes)
  qed
  show "bump_inv (we_set_points linear_engine w g) B = bump_inv w B"
    by (simp add: bump_inv_def bump_next_def linear_engine_def)
qed

definition bump_host :: "(mock_storage, unit, linear_instance, unit) host" where
  "bump_host = mock_host\<lparr>h_call := (\<lambda>name args env.
     case args of
       [I32 n] \<Rightarrow> if name = ''allocate'' then run_allocate linear_engine bump_alloc n env else (Inl (ExportFailure name), env)
     | _ \<Rightarrow> (Inl (ExportFailure name), env))\<rparr>"

interpretation bump_host: guest_host linear_engine bump_alloc bump_inv bump_host
  by unfold_locales (simp_all add: bump_host_def mock_host_def)

section \<open>A run\<close>

text \<open>
  A memory of 80 bytes: the allocator starts at address 24, the bytes 107 and 118 stand at the addresses
  8 and 16. Twelve bytes each are needed for the regions of the arguments.
\<close>

lemma to_le_bytes_u32:
  "to_le_bytes (n :: u32) = [word_of_nat (unat n mod 256), word_of_nat (unat n div 256 mod 256),
     word_of_nat (unat n div 65536 mod 256), word_of_nat (unat n div 16777216 mod 256)]"
proof -
  have "LENGTH(32) div 8 = Suc (Suc (Suc (Suc 0)))" by simp
  then show ?thesis unfolding to_le_bytes_def by (simp only: nat_to_le.simps) (simp flip: div_mult2_eq)
qed

lemma from_le_bytes_u32:
  "from_le_bytes [a, b, c, d] = (word_of_nat (unat a + 256 * unat b + 65536 * unat c + 16777216 * unat d) :: u32)"
  unfolding from_le_bytes_def by (rule arg_cong [where f = word_of_nat]) simp

lemmas guest_eval =
  with_region_def build_region_def build_region_from_components_def box_new_def box_drop_def box_read_def raw_alloc_def
  raw_dealloc_def in_guest_def store_bytes_def load_bytes_def pbind_def bump_alloc_def bump_next_def get_bytes_def
  put_bytes_def to_le_bytes_u32 from_le_bytes_u32 Let_def region_bytes_def consume_region_def guest_alloc_def
  vec_with_capacity_def run_allocate_def export_allocate_def vec_of_def vec_drop_def vec_bytes_def release_buffer_def as_slice_def

lemmas host_eval =
  bump_host_def mock_host_def env_read_region_def with_memory_def with_wasm_instance_def read_region_def get_region_def
  validate_region_def bytes_region_def to_u32_def limit_defs with_storage_from_context_def process_gas_info_def
  get_gas_left_def set_gas_left_def engine_gas_left_def engine_set_gas_left_def mock_backend_def mock_set_def mock_get_def
  gas_info_with_externally_used_def linear_engine_def write_to_contract_def call_function1_def call_function_def
  ref_to_u32_def env_write_region_def write_region_def set_region_def saturating_sub_def checked_sub_def

definition demo_mem :: linear_instance where
  "demo_mem = \<lparr>lm_mem = to_le_bytes (24 :: u32) @ replicate 4 0 @ [107] @ replicate 7 0 @ [118] @ replicate 63 0,
     lm_points = Remaining 1000\<rparr>"

definition demo_env :: "(mock_storage, unit, linear_instance) context_data" where
  "demo_env = (move_in mock_storage_new () (context_data_new 1000))
     \<lparr>cd_storage_readonly := False, cd_wasm_instance := Some demo_mem\<rparr>"

lemma demo_run:
  "\<exists>e1 v e2. external_set bump_host bump_alloc \<lparr>sl_ptr = 8, sl_len = 1\<rparr> \<lparr>sl_ptr = 16, sl_len = 1\<rparr> demo_env = Done (Inr (), e1) \<and>
    external_get bump_host bump_alloc \<lparr>sl_ptr = 8, sl_len = 1\<rparr> e1 = Done (Inr (Some v), e2)"
  by (simp add: external_set_def external_get_def do_db_write_def do_db_read_def mock_storage_new_def
      guest_eval host_eval demo_env_def move_in_def context_data_new_def demo_mem_def)

lemma demo_slices:
  "bump_inv demo_mem {(8, 1), (16, 1)}"
  "slice_ok linear_engine {(8, 1), (16, 1)} demo_mem \<lparr>sl_ptr = 8, sl_len = 1\<rparr> [107]"
  "slice_ok linear_engine {(8, 1), (16, 1)} demo_mem \<lparr>sl_ptr = 16, sl_len = 1\<rparr> [118]"
  by (auto simp: bump_inv_def slice_ok_def demo_mem_def bump_next_def get_bytes_def to_le_bytes_u32 from_le_bytes_u32
      linear_engine_def intro: exI [of _ 8] exI [of _ 16])

lemma demo_env_memory: "cd_wasm_instance demo_env = Some demo_mem"
  by (simp add: demo_env_def)

text \<open>A call of an entry point: the environment is the byte at address 8, the message the byte at address 16.\<close>

definition call_mem :: linear_instance where
  "call_mem = \<lparr>lm_mem = to_le_bytes (48 :: u32) @ replicate 4 0 @ [107] @ replicate 7 0 @ [118] @ replicate 7 0
       @ region_bytes \<lparr>reg_offset = 8, reg_capacity = 1, reg_length = 1\<rparr>
       @ region_bytes \<lparr>reg_offset = 16, reg_capacity = 1, reg_length = 1\<rparr> @ replicate 40 0,
     lm_points = Remaining 1000\<rparr>"

definition call_env :: "(mock_storage, unit, linear_instance) context_data" where
  "call_env = (move_in mock_storage_new () (context_data_new 1000))\<lparr>cd_wasm_instance := Some call_mem\<rparr>"

definition env_codec :: "env_info json" where
  "env_codec = \<lparr>json_to_vec = (\<lambda>_. Inl ''no''), json_from_slice = (\<lambda>bs. if bs = [107] then
      Inr \<lparr>env_block = \<lparr>bi_height = 1, bi_time = timestamp_from_nanos 0, bi_chain_id = ''c''\<rparr>, env_transaction = None, env_contract = ''a''\<rparr>
      else Inl ''no''), type_name = ''Env''\<rparr>"

definition byte_codec :: "bytes json" where
  "byte_codec = \<lparr>json_to_vec = Inr, json_from_slice = Inr, type_name = ''bytes''\<rparr>"

definition answer_codec :: "bytes contract_result json" where
  "answer_codec = \<lparr>json_to_vec = (\<lambda>r. case r of ContractOk b \<Rightarrow> Inr (1 # b) | ContractErr e \<Rightarrow> Inr (0 # ascii e)),
     json_from_slice = (\<lambda>bs. case bs of [] \<Rightarrow> Inl ''EOF''
       | c # cs \<Rightarrow> if c = 1 then Inr (ContractOk cs) else Inr (ContractErr (from_ascii cs))), type_name = ''ContractResult''\<rparr>"

definition echo :: "env_info \<Rightarrow> bytes \<Rightarrow> (mock_storage, unit, linear_instance, (std_error, bytes) result) vm_prog" where
  "echo e m = preturn (Inr m)"

lemma call_run:
  "\<exists>p e'. entry_query linear_engine bump_alloc env_codec byte_codec answer_codec show_std_error echo 24 36 call_env = Done (Inr p, e')"
  by (simp add: entry_query_def entry_query_inner_def release_result_def entry2_inner_def with_consumed_def try_into_contract_result_def
      run_contract_def from_slice_def to_vec_def env_codec_def byte_codec_def answer_codec_def echo_def plift_out_def
      guest_eval bytes_region_def linear_engine_def call_env_def move_in_def context_data_new_def call_mem_def)

lemma call_passed:
  "bump_inv call_mem ({(24, 12), (8, 1)} \<union> ({(36, 12), (16, 1)} \<union> {}))"
  "passed linear_engine call_mem 24 [107] {(24, 12), (8, 1)}" "passed linear_engine call_mem 36 [118] {(36, 12), (16, 1)}"
  "separate {(24, 12), (8, 1)} ({(36, 12), (16, 1)} \<union> {})"
proof -
  show "bump_inv call_mem ({(24, 12), (8, 1)} \<union> ({(36, 12), (16, 1)} \<union> {}))"
    by (auto simp: bump_inv_def call_mem_def bump_next_def get_bytes_def to_le_bytes_u32 from_le_bytes_u32)
  have "we_read_cells linear_engine call_mem 24 12 = Some (region_bytes \<lparr>reg_offset = 8, reg_capacity = 1, reg_length = 1\<rparr>)"
    "we_read_cells linear_engine call_mem 36 12 = Some (region_bytes \<lparr>reg_offset = 16, reg_capacity = 1, reg_length = 1\<rparr>)"
    "we_read_cells linear_engine call_mem 8 1 = Some [107]" "we_read_cells linear_engine call_mem 16 1 = Some [118]"
    by (simp_all add: call_mem_def linear_engine_def get_bytes_def to_le_bytes_u32 region_bytes_def)
  then show "passed linear_engine call_mem 24 [107] {(24, 12), (8, 1)}" "passed linear_engine call_mem 36 [118] {(36, 12), (16, 1)}"
    unfolding passed_def
    by (intro exI [of _ "\<lparr>vec_ptr = 8, vec_cap = 1, vec_len = 1\<rparr>"],
        simp add: blk_def separate_def vec_ok_def insert_commute,
        intro exI [of _ "\<lparr>vec_ptr = 16, vec_cap = 1, vec_len = 1\<rparr>"],
        simp add: blk_def separate_def vec_ok_def insert_commute)
  show "separate {(24, 12), (8, 1)} ({(36, 12), (16, 1)} \<union> {})" by (auto simp: separate_def)
qed

lemma echo_owns_memory: "owns_memory linear_engine bump_inv (echo e m)"
  unfolding owns_memory_def echo_def by (auto intro: exI [of _ "{}"])

end
