(* ===== verification/VM_Sandbox.thy ===== *)
theory VM_Sandbox
  imports VM_Instance Guest_Example
begin

text \<open>
  A call into the guest as the sandbox of wasmer runs it: instructions of the guest, which change
  nothing but its own instance and never add points, and calls of the imports of \<open>env\<close>, which may
  call back into the guest. What the imports guarantee then holds of every call. The guest at the end
  keeps a storage: its query looks the message up and stores it when it is absent, which the host
  refuses.
\<close>

section \<open>Runs of a guest\<close>

text \<open>
  An import may call the guest again (\<open>allocate\<close> in \<open>write_to_contract\<close>). In the third rule
  \<open>call\<close> is what these inner calls do; each of them is a run itself, so the nesting is finite.
\<close>

inductive guest_run :: "('s, 'q, 'w, 'r) host \<Rightarrow> ('s, 'q, 'w) context_data \<Rightarrow> ('s, 'q, 'w) context_data \<Rightarrow> bool"
  for H :: "('s, 'q, 'w, 'r) host" where
  start: "guest_run H env env"
| instruction: "guest_run H env u \<Longrightarrow> cd_wasm_instance u = Some w \<Longrightarrow>
    engine_gas_left (h_engine H) w' \<le> engine_gas_left (h_engine H) w \<Longrightarrow>
    guest_run H env (u\<lparr>cd_wasm_instance := Some w'\<rparr>)"
| imported: "guest_run H env u \<Longrightarrow> (\<And>f args a r b. call f args a = (r, b) \<Longrightarrow> guest_run H a b) \<Longrightarrow>
    import_step (H\<lparr>h_call := call\<rparr>) u v \<Longrightarrow> guest_run H env v"

locale sandboxed_host = wasm_engine_laws E for E :: "'w wasm_engine" +
  fixes H :: "('s, 'q, 'w, 'r) host" and sd :: "'s \<Rightarrow> 'd"
  assumes sandbox_engine: "h_engine H = E"
    and sandbox_call: "h_call H f args env = (r, env') \<Longrightarrow> guest_run H env env'"
    and sandbox_scan: "bs_scan (h_storage H) s start end ord = Done (b, s') \<Longrightarrow> sd s' = sd s"
    and sandbox_next: "bs_next (h_storage H) s i = (n, s') \<Longrightarrow> sd s' = sd s"
begin

text \<open>The imports are confined whatever confined calls they make, and so is every run.\<close>

lemma host_laws_for:
  assumes "\<And>f args a r b. call f args a = (r, b) \<Longrightarrow> confined E sd a b"
  shows "host_laws E (H\<lparr>h_call := call\<rparr>) sd"
proof (intro host_laws.intro wasm_engine_laws_axioms host_laws_axioms.intro)
  show "h_engine (H\<lparr>h_call := call\<rparr>) = E" by (simp add: sandbox_engine)
qed (use assms sandbox_scan sandbox_next in \<open>auto simp: confined_def\<close>)

lemma guest_run_confined: "guest_run H env env' \<Longrightarrow> confined E sd env env'"
proof (induction rule: guest_run.induct)
  case (start env)
  show ?case by simp
next
  case (instruction env u w w')
  have "confined E sd u (u\<lparr>cd_wasm_instance := Some w'\<rparr>)"
    using instruction.hyps by (simp add: confined_def sandbox_engine)
  with instruction.IH show ?case by (rule confined_trans)
next
  case (imported env u call v)
  have "confined E sd u v"
    by (rule host_laws.import_step_confined [OF host_laws_for imported.hyps(3)]) (rule imported.IH(2))
  with imported.IH(1) show ?case by (rule confined_trans)
qed

end

sublocale sandboxed_host \<subseteq> host_laws
proof -
  have "host_laws E (H\<lparr>h_call := h_call H\<rparr>) sd"
    by (rule host_laws_for) (rule guest_run_confined [OF sandbox_call])
  then show "host_laws E H sd" by simp
qed

context sandboxed_host
begin

lemma query_in_sandbox: "call_keeps E sd True (call_query H Se Sx json_value env msg)"
  by (rule query_call_keeps)

end

section \<open>A guest with a query\<close>

text \<open>
  The guest looks the message of a query up in the storage. When there is a value it returns it,
  otherwise it stores the message under itself and returns the message. An import that fails ends the call.
\<close>

definition lookup_query :: "u32 \<Rightarrow> (mock_storage, unit, linear_instance, wasm_val list) vm_prog" where
  "lookup_query msg_ptr =
     pbind (do_db_read bump_host msg_ptr) (\<lambda>value_ptr.
     if value_ptr \<noteq> 0 then preturn [I32 value_ptr]
     else pbind (do_db_write bump_host msg_ptr msg_ptr) (\<lambda>_. preturn [I32 msg_ptr]))"

definition lookup_call ::
  "string \<Rightarrow> wasm_val list \<Rightarrow> (mock_storage, unit, linear_instance) context_data \<Rightarrow>
    (call_failure, wasm_val list) result \<times> (mock_storage, unit, linear_instance) context_data" where
  "lookup_call name args env =
     (if name = ''deallocate'' then (Inr [], env)
      else if name = ''query''
      then (case args of
              [I32 env_ptr, I32 msg_ptr] \<Rightarrow>
                (case lookup_query msg_ptr env of
                   Done (Inr vs, env') \<Rightarrow> (Inr vs, env')
                 | Done (Inl e, env') \<Rightarrow> (Inl (RuntimeFailure ''import failed''), env')
                 | Panic m \<Rightarrow> (Inl (RuntimeFailure m), env))
            | _ \<Rightarrow> (Inl (ExportFailure name), env))
      else h_call bump_host name args env)"

definition lookup_host :: "(mock_storage, unit, linear_instance, unit) host" where
  "lookup_host = bump_host\<lparr>h_call := lookup_call\<rparr>"

text \<open>The guest's \<open>allocate\<close> writes its memory only.\<close>

definition memory_prog :: "('s, 'q, linear_instance, 'a) vm_prog \<Rightarrow> bool" where
  "memory_prog p \<longleftrightarrow> (\<forall>env r env'. p env = Done (r, env') \<longrightarrow> env' = env \<or>
     (\<exists>w w'. cd_wasm_instance env = Some w \<and> env' = env\<lparr>cd_wasm_instance := Some w'\<rparr> \<and> lm_points w' = lm_points w))"

lemma memory_prog_pbind:
  assumes "memory_prog p" "\<And>x. memory_prog (f x)"
  shows "memory_prog (pbind p f)"
  unfolding memory_prog_def pbind_eq_Done_iff
proof (intro allI impI; elim disjE exE conjE)
  fix env env' x u r
  assume "p env = Done (Inr x, u)" "f x u = Done (r, env')"
  then have "u = env \<or> (\<exists>w w'. cd_wasm_instance env = Some w \<and> u = env\<lparr>cd_wasm_instance := Some w'\<rparr> \<and> lm_points w' = lm_points w)"
    "env' = u \<or> (\<exists>w w'. cd_wasm_instance u = Some w \<and> env' = u\<lparr>cd_wasm_instance := Some w'\<rparr> \<and> lm_points w' = lm_points w)"
    using assms unfolding memory_prog_def by metis+
  then show "env' = env \<or> (\<exists>w w'. cd_wasm_instance env = Some w \<and> env' = env\<lparr>cd_wasm_instance := Some w'\<rparr> \<and> lm_points w' = lm_points w)"
    by auto
qed (use assms(1) in \<open>unfold memory_prog_def, metis\<close>)

lemma memory_prog_in_guest:
  assumes "\<And>w x w'. f w = Some (x, w') \<Longrightarrow> lm_points w' = lm_points w"
  shows "memory_prog (in_guest m f)"
proof -
  have "\<exists>w w'. cd_wasm_instance env = Some w \<and> env' = env\<lparr>cd_wasm_instance := Some w'\<rparr> \<and> lm_points w' = lm_points w"
    if "in_guest m f env = Done (r, env')" for env r env'
    using that assms by (auto simp: in_guest_def split: option.splits prod.splits)
  then show ?thesis unfolding memory_prog_def by metis
qed

lemma memory_prog_pure: "memory_prog (preturn x)"
  by (simp add: memory_prog_def)

lemma memory_prog_raw_alloc: "memory_prog (raw_alloc bump_alloc n al)"
  unfolding raw_alloc_def
  by (cases "n = 0") (auto intro!: memory_prog_pure memory_prog_in_guest simp: bump_alloc_def Let_def split: if_splits)

lemma memory_prog_store: "memory_prog (store_bytes linear_engine p bs)"
  unfolding store_bytes_def by (rule memory_prog_in_guest) (auto simp: linear_engine_def split: if_splits)

lemma memory_prog_allocate: "memory_prog (export_allocate linear_engine bump_alloc n)"
  unfolding export_allocate_def guest_alloc_def vec_with_capacity_def build_region_from_components_def box_new_def
  by (intro memory_prog_pbind memory_prog_raw_alloc memory_prog_store memory_prog_pure)

lemma bump_host_call: "h_call bump_host f args env = (r, env') \<Longrightarrow>
  env' = env \<or> (\<exists>n r. export_allocate linear_engine bump_alloc n env = Done (r, env'))"
  by (auto simp: bump_host_def run_allocate_def
      split: list.splits wasm_val.splits if_splits outcome.splits prod.splits sum.splits)

lemma lookup_engine [simp]: "h_engine lookup_host = linear_engine"
  by (simp add: lookup_host_def bump_host_def mock_host_def)

lemma bump_host_call_runs:
  assumes "h_call bump_host f args env = (r, env')"
  shows "guest_run lookup_host env env'"
proof -
  have "env' = env \<or> (\<exists>w w'. cd_wasm_instance env = Some w \<and> env' = env\<lparr>cd_wasm_instance := Some w'\<rparr> \<and>
      lm_points w' = lm_points w)"
    using bump_host_call [OF assms] memory_prog_allocate unfolding memory_prog_def by metis
  then show ?thesis
  proof (elim disjE exE conjE)
    assume "env' = env"
    then show ?thesis by (simp add: guest_run.start)
  next
    fix w w' :: linear_instance
    assume w: "cd_wasm_instance env = Some w" "env' = env\<lparr>cd_wasm_instance := Some w'\<rparr>" and "lm_points w' = lm_points w"
    then have "engine_gas_left linear_engine w' \<le> engine_gas_left linear_engine w"
      by (simp add: engine_gas_left_def linear_engine_def)
    then show ?thesis unfolding w(2) by (intro guest_run.instruction [OF guest_run.start w(1)]) simp
  qed
qed

lemma lookup_import:
  assumes "guest_run lookup_host env u" "import_step bump_host u v"
  shows "guest_run lookup_host env v"
  by (rule guest_run.imported [where call = "h_call bump_host", OF assms(1) bump_host_call_runs])
    (use assms(2) in \<open>simp_all add: lookup_host_def\<close>)

lemma lookup_query_runs:
  assumes "lookup_query p env = Done (r, env')"
  shows "guest_run lookup_host env env'"
proof -
  note steps = lookup_import [OF guest_run.start] import_step.db_read import_step.db_write
  consider e where "do_db_read bump_host p env = Done (Inl e, env')"
    | x where "do_db_read bump_host p env = Done (Inr x, env')"
    | u x y where "do_db_read bump_host p env = Done (Inr x, u)" "do_db_write bump_host p p u = Done (y, env')"
    using assms by (auto simp: lookup_query_def pbind_eq_Done_iff split: if_splits)
  then show ?thesis
    by cases (blast intro: steps lookup_import)+
qed

interpretation lookup: sandboxed_host linear_engine lookup_host mock_view
proof
  show "h_engine lookup_host = linear_engine" by simp
next
  fix f args env r env'
  assume "h_call lookup_host f args env = (r, env')"
  then have "env' = env \<or> (\<exists>p r. lookup_query p env = Done (r, env')) \<or> h_call bump_host f args env = (r, env')"
    by (auto simp: lookup_host_def lookup_call_def
        split: list.splits wasm_val.splits if_splits outcome.splits prod.splits sum.splits)
  then show "guest_run lookup_host env env'"
    using guest_run.start lookup_query_runs bump_host_call_runs by metis
next
  have same: "h_storage lookup_host = h_storage mock_host" by (simp add: lookup_host_def bump_host_def)
  fix s s' start "end" ord b i n
  show "mock_view s' = mock_view s" if "bs_scan (h_storage lookup_host) s start end ord = Done (b, s')"
    using mock.scan_data that by (simp add: same)
  show "mock_view s' = mock_view s" if "bs_next (h_storage lookup_host) s i = (n, s')"
    using mock.next_data that by (simp add: same)
qed

section \<open>Two queries\<close>

text \<open>
  The storage holds the value 118 under the key 107. The environment and the result are passed as
  they are. A query for 107 returns the value; one for 5 tries to write and ends with an error.
\<close>

definition lookup_storage :: mock_storage where
  "lookup_storage = \<lparr>mk_data = [([107], [118])], mk_iterators = []\<rparr>"

definition lookup_mem :: linear_instance where
  "lookup_mem = \<lparr>lm_mem = to_le_bytes (8 :: u32) @ replicate 92 0, lm_points = Remaining 1000\<rparr>"

definition lookup_env :: "(mock_storage, unit, linear_instance) context_data" where
  "lookup_env = (move_in lookup_storage () (context_data_new 1000))\<lparr>cd_wasm_instance := Some lookup_mem\<rparr>"

definition raw_env :: "bytes serde" where
  "raw_env = \<lparr>sd_type_name = ''Env'', sd_to_vec = Inr, sd_from_slice = Inr\<rparr>"

definition raw_result :: "bytes contract_result serde" where
  "raw_result = \<lparr>sd_type_name = ''ContractResult'', sd_to_vec = (\<lambda>_. Inl ''not needed''),
     sd_from_slice = (\<lambda>bs. Inr (ContractOk bs))\<rparr>"

definition run_lookup :: "bytes \<Rightarrow> (bytes contract_result vm_result \<times> (mock_storage, unit, linear_instance) context_data) outcome" where
  "run_lookup msg = call_query lookup_host raw_env raw_result (\<lambda>_. Inr ()) [1] msg lookup_env"

lemmas lookup_eval =
  run_lookup_def call_query_def call_query_raw_def with_readonly_def set_storage_readonly_def call_raw_def instance_allocate_def
  instance_write_memory_def instance_read_memory_def instance_deallocate_def call_function0_def vm_to_vec_def vm_from_slice_def
  lookup_host_def lookup_call_def lookup_query_def do_db_read_def do_db_write_def read_limit_result_def
  deserialization_limit_result_def raw_env_def raw_result_def lookup_env_def lookup_mem_def lookup_storage_def
  move_in_def context_data_new_def

lemma lookup_found: "\<exists>env'. run_lookup [107] = Done (Inr (ContractOk [118]), env')"
  by (simp add: lookup_eval guest_eval host_eval)

lemma lookup_refused: "\<exists>env'. run_lookup [5] = Done (Inl (vm_error_from_runtime ''import failed''), env')"
  by (simp add: lookup_eval guest_eval host_eval)

end
