(* ===== verification/Crypto_Boundary.thy ===== *)
theory Crypto_Boundary
  imports Guest_Example
begin

text \<open>
  The cryptographic functions of \<open>ExternalApi\<close> from end to end: the slices of the contract go through
  regions to the import, the host calls the package of theory Crypto, and the code or the key it answers with comes
  back to the contract.
\<close>

section \<open>Codes\<close>

lemma secp256k1_recover_pubkey_errors:
  "secp256k1_recover_pubkey K h s p = Inl e \<Longrightarrow> e \<noteq> CryptoInvalidPubkeyFormat \<and> (\<forall>msg. e \<noteq> CryptoBatchErr msg)"
  by (auto simp: secp256k1_recover_pubkey_def crypto_errs read_hash_def read_signature_def split: if_splits)

section \<open>Regions that the host can read\<close>

definition holds_region :: "'w wasm_engine \<Rightarrow> block set \<Rightarrow> 'w \<Rightarrow> u32 \<Rightarrow> bytes \<Rightarrow> bool" where
  "holds_region E B w p bs \<longleftrightarrow> 4 dvd unat p \<and> (unat p, 12) \<in> B \<and>
     (\<exists>sl. slice_ok E B w sl bs \<and> we_read_cells E w p 12 =
        Some (region_bytes \<lparr>reg_offset = sl_ptr sl, reg_capacity = sl_len sl, reg_length = sl_len sl\<rparr>))"

lemma holds_region_mono: "holds_region E B w p bs \<Longrightarrow> B \<subseteq> C \<Longrightarrow> holds_region E C w p bs"
  unfolding holds_region_def by (meson slice_ok_mono subsetD)

text \<open>
  How a call ends: the contract owns new blocks \<open>N\<close>, of which \<open>Q\<close> holds, what it had is kept and so is
  the rest of the environment.
\<close>

definition call_ends ::
  "'w wasm_engine \<Rightarrow> ('w \<Rightarrow> block set \<Rightarrow> bool) \<Rightarrow> block set \<Rightarrow> 'w \<Rightarrow> ('s, 'q, 'w) context_data \<Rightarrow> ('s, 'q, 'w) context_data \<Rightarrow>
    (block set \<Rightarrow> 'w \<Rightarrow> bool) \<Rightarrow> bool" where
  "call_ends E live B w env env' Q \<longleftrightarrow>
     (\<exists>w' N. cd_wasm_instance env' = Some w' \<and> live w' (N \<union> B) \<and> separate N B \<and> kept E B w w' \<and> same_context env env' \<and> Q N w')"

text \<open>
  What the contract sees of an error of a batch: the code 7 has no case of its own in the library, so a batch with
  mismatched numbers of items is an unknown error.
\<close>

definition batch_error_seen :: "crypto_error \<Rightarrow> verification_error" where
  "batch_error_seen e = (case e of CryptoBatchErr msg \<Rightarrow> VUnknownErr 7 | _ \<Rightarrow> verification_error_from e)"

lemma batch_boundary:
  "\<exists>c. verdict_code ed25519_batch_error (ed25519_batch_verify K ms ss ks) = Done c \<and>
    external_ed25519_verdict c = Done (map_err batch_error_seen (ed25519_batch_verify K ms ss ks))"
proof -
  have "map_err batch_error_seen r = (case r of Inl (CryptoBatchErr msg) \<Rightarrow> Inl (VUnknownErr 7) | _ \<Rightarrow> map_err verification_error_from r)"
    for r :: "(crypto_error, bool) result"
    by (auto simp: batch_error_seen_def split: sum.splits crypto_error.splits)
  then show ?thesis using ed25519_batch_boundary [OF refl, of K ms ss ks] by simp
qed

text \<open>The errors of a recovery have a counterpart in the library, so the conversion does not panic.\<close>

lemma recover_error_converts:
  assumes "secp256k1_recover_pubkey K h s p = Inl e"
  shows "\<exists>err. recover_pubkey_error_from e = Done err \<and> external_recover_verdict (to_high_half (crypto_error_code e)) = Done (Inl err)"
  using recover_boundary [OF assms] secp256k1_recover_pubkey_errors [OF assms] by (cases e) auto

text \<open>Sections whose encoding fits into the memory of the contract.\<close>

definition sections_fit :: "bytes list \<Rightarrow> bool" where
  "sections_fit ss \<longleftrightarrow> sum_list (map (\<lambda>s. length s + 4) ss) < 2 ^ 32"

lemma sections_fit_coded:
  assumes "sections_fit ss"
  shows "std_encode_sections ss = Done (concat (map section_bytes ss))" "length (concat (map section_bytes ss)) < 2 ^ 32"
    "decode_sections (concat (map section_bytes ss)) = Done ss"
proof -
  have sum: "length (concat (map section_bytes ss)) = sum_list (map (\<lambda>s. length s + 4) ss)"
    by (induction ss) auto
  then show "length (concat (map section_bytes ss)) < 2 ^ 32" using assms by (simp add: sections_fit_def)
  have "length s + 4 \<le> sum_list (map (\<lambda>s. length s + 4) ss)" if "s \<in> set ss" for s
    using that by (intro member_le_sum_list) auto
  then have "sections_small ss" using assms by (force simp: sections_fit_def sections_small_def)
  then show "std_encode_sections ss = Done (concat (map section_bytes ss))" "decode_sections (concat (map section_bytes ss)) = Done ss"
    by (rule std_encode_sections_Done, rule decode_encode_sections)
qed

context guest_host
begin

lemma holds_region_kept:
  assumes "holds_region E B w p bs" "kept E B w w'"
  shows "holds_region E B w' p bs"
proof -
  obtain sl where sl: "4 dvd unat p" "(unat p, 12) \<in> B" "slice_ok E B w sl bs" "we_read_cells E w p 12 =
      Some (region_bytes \<lparr>reg_offset = sl_ptr sl, reg_capacity = sl_len sl, reg_length = sl_len sl\<rparr>)"
    using assms(1) by (auto simp: holds_region_def)
  have "we_read_cells E w' p 12 = we_read_cells E w p 12" using keptD [OF assms(2), of "unat p" 12 p 12] sl(2) by simp
  then show ?thesis using sl slice_kept [OF sl(3) assms(2)] by (auto simp: holds_region_def)
qed

lemma read_held:
  assumes "holds_region E B w p bs" "env_read_region H p n env = Done (Inr x, env')" "cd_wasm_instance env = Some w" "n < 2 ^ 32"
  shows "x = bs \<and> env' = env"
proof -
  have "read_region E w p n = Inr x" "env' = env"
    using assms(2,3) by (auto simp: env_read_region_Ok_iff host_engine)
  moreover obtain sl where "4 dvd unat p" "slice_ok E B w sl bs" "we_read_cells E w p 12 =
      Some (region_bytes \<lparr>reg_offset = sl_ptr sl, reg_capacity = sl_len sl, reg_length = sl_len sl\<rparr>)"
    using assms(1) by (auto simp: holds_region_def)
  ultimately show ?thesis using host_reads_slice [of p w sl B bs n] assms(4) by (auto split: if_splits)
qed

text \<open>A region around a call: the call runs with the region, and its end is the end of the whole.\<close>

lemma with_region_ends:
  fixes env :: "('s, 'q, 'w) context_data"
  assumes run: "with_region E A sl f env = Done (Inr x, env')" and mem: "cd_wasm_instance env = Some w" "heap_inv w B"
    and slice: "slice_ok E B w sl bs" and stable: "\<And>N w w'. Q N w \<Longrightarrow> kept E N w w' \<Longrightarrow> Q N w'"
    and inner: "\<And>p w1 e2. f p (env\<lparr>cd_wasm_instance := Some w1\<rparr>) = Done (Inr x, e2) \<Longrightarrow> heap_inv w1 (insert (unat p, 12) B) \<Longrightarrow>
      kept E B w w1 \<Longrightarrow> holds_region E (insert (unat p, 12) B) w1 p bs \<Longrightarrow>
      call_ends E heap_inv (insert (unat p, 12) B) w1 env e2 Q"
  shows "call_ends E heap_inv B w env env' Q"
proof -
  obtain p w1 e2 where r: "f p (env\<lparr>cd_wasm_instance := Some w1\<rparr>) = Done (Inr x, e2)" "box_drop A p e2 = Done (Inr (), env')"
    "4 dvd unat p" "heap_inv w1 (insert (unat p, 12) B)" "separate {(unat p, 12)} B" "kept E B w w1"
    "slice_ok E B w1 sl bs" "we_read_cells E w1 p 12 =
      Some (region_bytes \<lparr>reg_offset = sl_ptr sl, reg_capacity = sl_len sl, reg_length = sl_len sl\<rparr>)"
    using with_region_run [OF run mem slice] by blast
  have "holds_region E (insert (unat p, 12) B) w1 p bs"
    unfolding holds_region_def using r(3,8) slice_ok_mono [OF r(7) subset_insertI] by blast
  from inner [OF r(1,4,6) this]
  obtain w2 N where e: "cd_wasm_instance e2 = Some w2" "heap_inv w2 (N \<union> insert (unat p, 12) B)" "separate N (insert (unat p, 12) B)"
    "kept E (insert (unat p, 12) B) w1 w2" "same_context env e2" "Q N w2"
    by (auto simp: call_ends_def)
  have sep: "separate {(unat p, 12)} (N \<union> B)" "separate N B"
    using separate_sym [OF separate_mono [OF e(3) order_refl, of "{(unat p, 12)}"]] separate_mono [OF e(3) order_refl, of B] r(5)
    by auto
  obtain w3 where w3: "env' = e2\<lparr>cd_wasm_instance := Some w3\<rparr>" "heap_inv w3 (N \<union> B)" "kept E (N \<union> B) w2 w3"
    using box_drop_run [OF r(2) e(1) _ sep(1)] e(2) by auto
  have "kept E B w w3"
    by (rule kept_trans [OF kept_trans [OF r(6) kept_mono [OF e(4) subset_insertI]] kept_mono [OF w3(3) Un_upper2]])
  moreover have "Q N w3" by (rule stable [OF e(6) kept_mono [OF w3(3) Un_upper1]])
  ultimately show ?thesis
    unfolding call_ends_def using w3(1,2) sep(2) e(5) by (intro exI [of _ w3] exI [of _ N]) (simp add: same_context_def)
qed

lemma with_sections_ends:
  fixes env :: "('s, 'q, 'w) context_data"
  assumes run: "with_sections H A sections f env = Done (Inr x, env')" and mem: "cd_wasm_instance env = Some w" "heap_inv w B"
    and enc: "std_encode_sections sections = Done bs" "length bs < 2 ^ 32"
    and stable: "\<And>N w w'. Q N w \<Longrightarrow> kept E N w w' \<Longrightarrow> Q N w'"
    and inner: "\<And>p w1 e2 C. f p (env\<lparr>cd_wasm_instance := Some w1\<rparr>) = Done (Inr x, e2) \<Longrightarrow> heap_inv w1 C \<Longrightarrow> B \<subseteq> C \<Longrightarrow>
      kept E B w w1 \<Longrightarrow> holds_region E C w1 p bs \<Longrightarrow> call_ends E heap_inv C w1 env e2 Q"
  shows "call_ends E heap_inv B w env env' Q"
proof -
  obtain v u e2 where v: "vec_of E A bs env = Done (Inr v, u)" and reg: "with_region E A (as_slice v) f u = Done (Inr x, e2)"
    and drop: "vec_drop A v e2 = Done (Inr (), env')"
    using run enc(1) by (auto simp: with_sections_def pbind_eq_Ok_iff plift_out_eq_Done_iff host_engine)
  obtain w1 where w1: "u = env\<lparr>cd_wasm_instance := Some w1\<rparr>" "heap_inv w1 (vec_block v \<union> B)" "separate (vec_block v) B"
    "kept E B w w1" "vec_ok E w1 v bs"
    using vec_of_run [OF v mem enc(2)] by blast
  have "call_ends E heap_inv (vec_block v \<union> B) w1 u e2 Q"
  proof (rule with_region_ends [OF reg _ w1(2) slice_ok_mono [OF vec_ok_slice [OF w1(5)] Un_upper1] stable])
    fix p w2 e3
    assume "f p (u\<lparr>cd_wasm_instance := Some w2\<rparr>) = Done (Inr x, e3)" "heap_inv w2 (insert (unat p, 12) (vec_block v \<union> B))"
      "kept E (vec_block v \<union> B) w1 w2" "holds_region E (insert (unat p, 12) (vec_block v \<union> B)) w2 p bs"
    then have "call_ends E heap_inv (insert (unat p, 12) (vec_block v \<union> B)) w2 env e3 Q"
      using kept_trans [OF w1(4) kept_mono [OF _ Un_upper2]] by (intro inner [of p w2]) (auto simp: w1(1))
    then show "call_ends E heap_inv (insert (unat p, 12) (vec_block v \<union> B)) w2 u e3 Q"
      by (simp add: call_ends_def w1(1))
  qed (simp_all add: w1(1))
  then obtain w2 N where e: "cd_wasm_instance e2 = Some w2" "heap_inv w2 (N \<union> (vec_block v \<union> B))" "separate N (vec_block v \<union> B)"
    "kept E (vec_block v \<union> B) w1 w2" "same_context env e2" "Q N w2"
    by (auto simp: call_ends_def w1(1))
  have heap: "heap_inv w2 (vec_block v \<union> (N \<union> B))" using e(2) by (simp add: Un_left_commute)
  have "separate (vec_block v) (N \<union> B)" using e(3) w1(3) separate_sym [of N "vec_block v"] by simp
  from vec_drop_run [OF drop e(1) heap this]
  obtain w3 where w3: "env' = e2\<lparr>cd_wasm_instance := Some w3\<rparr>" "heap_inv w3 (N \<union> B)" "kept E (N \<union> B) w2 w3" by blast
  have "kept E B w w3"
    by (rule kept_trans [OF kept_trans [OF w1(4) kept_mono [OF e(4) Un_upper2]] kept_mono [OF w3(3) Un_upper2]])
  moreover have "Q N w3" by (rule stable [OF e(6) kept_mono [OF w3(3) Un_upper1]])
  moreover have "separate N B" using e(3) by simp
  ultimately show ?thesis
    unfolding call_ends_def using w3(1,2) e(5) by (intro exI [of _ w3] exI [of _ N]) (simp add: same_context_def)
qed

section \<open>The imports\<close>

lemma read_held_bind:
  assumes "pbind (env_read_region H p n) f env = Done (Inr x, env')" "holds_region E B w p bs" "cd_wasm_instance env = Some w"
    "n < 2 ^ 32"
  shows "f bs env = Done (Inr x, env')"
  using assms(1) read_held [OF assms(2) _ assms(3,4)] by (auto simp: pbind_eq_Ok_iff)

text \<open>A call that charges gas and answers with a code takes no memory.\<close>

lemma gas_then_code:
  fixes env :: "('s, 'q, 'w) context_data"
  assumes "pbind (process_gas_info H g) (\<lambda>_. plift_out code) env = Done (Inr c, env')"
    and "cd_wasm_instance env = Some w" "heap_inv w B"
  shows "code = Done c \<and> call_ends E heap_inv B w env env' (\<lambda>N w. True)"
proof -
  obtain u where gas: "process_gas_info H g env = Done (Inr u, env')" and c: "code = Done c"
    using assms(1) by (auto simp: pbind_eq_Ok_iff plift_out_eq_Done_iff)
  obtain w' where "cd_wasm_instance env' = Some w'" "heap_inv w' B" "kept E B w w'" "same_context env env'"
    using gas_info_heap [OF gas assms(2,3)] by blast
  then show ?thesis
    unfolding call_ends_def using c by (intro conjI exI [of _ w'] exI [of _ "{}"]) (simp_all add: separate_def)
qed

text \<open>The contract's reading of the code follows the call.\<close>

lemma code_then_verdict:
  fixes env :: "('s, 'q, 'w) context_data"
  assumes "pbind call (\<lambda>result. plift_out (verdict result)) env = Done (Inr x, env')"
    and "\<And>c u. call env = Done (Inr c, u) \<Longrightarrow> code = Done c \<and> call_ends E heap_inv B w env u (\<lambda>N w. True)"
    and "\<exists>c. code = Done c \<and> verdict c = Done r"
  shows "call_ends E heap_inv B w env env' (\<lambda>N w. x = r)"
proof -
  obtain c where c: "call env = Done (Inr c, env')" "verdict c = Done x"
    using assms(1) by (auto simp: pbind_eq_Ok_iff plift_out_eq_Done_iff)
  then have "code = Done c" "call_ends E heap_inv B w env env' (\<lambda>N w. True)" using assms(2) by blast+
  moreover have "x = r" using assms(3) c(2) calculation(1) by auto
  ultimately show ?thesis by (simp add: call_ends_def)
qed

lemma two_regions_end:
  fixes env :: "('s, 'q, 'w) context_data"
  assumes run: "with_region E A a (\<lambda>p. with_region E A b (f p)) env = Done (Inr x, env')"
    and mem: "cd_wasm_instance env = Some w" "heap_inv w B" and slices: "slice_ok E B w a as" "slice_ok E B w b bs"
    and stable: "\<And>N w w'. Q N w \<Longrightarrow> kept E N w w' \<Longrightarrow> Q N w'"
    and inner: "\<And>p q w1 e2 C. f p q (env\<lparr>cd_wasm_instance := Some w1\<rparr>) = Done (Inr x, e2) \<Longrightarrow> heap_inv w1 C \<Longrightarrow> B \<subseteq> C \<Longrightarrow>
      kept E B w w1 \<Longrightarrow> holds_region E C w1 p as \<Longrightarrow> holds_region E C w1 q bs \<Longrightarrow> call_ends E heap_inv C w1 env e2 Q"
  shows "call_ends E heap_inv B w env env' Q"
proof (rule with_region_ends [OF run mem slices(1) stable])
  fix p :: u32 and w1 e2
  define C where "C = insert (unat p, 12) B"
  assume one: "with_region E A b (f p) (env\<lparr>cd_wasm_instance := Some w1\<rparr>) = Done (Inr x, e2)"
    "heap_inv w1 (insert (unat p, 12) B)" "kept E B w w1" "holds_region E (insert (unat p, 12) B) w1 p as"
  have B: "B \<subseteq> C" by (auto simp: C_def)
  have b: "slice_ok E C w1 b bs" by (rule slice_ok_mono [OF slice_kept [OF slices(2) one(3)] B])
  have "call_ends E heap_inv C w1 (env\<lparr>cd_wasm_instance := Some w1\<rparr>) e2 Q"
  proof (rule with_region_ends [OF one(1) _ one(2) [folded C_def] b stable])
    fix q w2 e3
    assume two: "f p q (env\<lparr>cd_wasm_instance := Some w1, cd_wasm_instance := Some w2\<rparr>) = Done (Inr x, e3)"
      "heap_inv w2 (insert (unat q, 12) C)" "kept E C w1 w2" "holds_region E (insert (unat q, 12) C) w2 q bs"
    have "holds_region E (insert (unat q, 12) C) w2 p as"
      by (rule holds_region_mono [OF holds_region_kept [OF one(4) [folded C_def] two(3)] subset_insertI])
    then have "call_ends E heap_inv (insert (unat q, 12) C) w2 env e3 Q"
      using two B kept_trans [OF one(3) kept_mono [OF two(3) B]] by (intro inner [of p q w2]) auto
    then show "call_ends E heap_inv (insert (unat q, 12) C) w2 (env\<lparr>cd_wasm_instance := Some w1\<rparr>) e3 Q"
      by (simp add: call_ends_def)
  qed simp_all
  then show "call_ends E heap_inv (insert (unat p, 12) B) w1 env e2 Q" by (simp add: call_ends_def C_def)
qed

lemma three_regions_end:
  fixes env :: "('s, 'q, 'w) context_data"
  assumes run: "with_region E A a (\<lambda>p. with_region E A b (\<lambda>q. with_region E A c (f p q))) env = Done (Inr x, env')"
    and mem: "cd_wasm_instance env = Some w" "heap_inv w B"
    and slices: "slice_ok E B w a as" "slice_ok E B w b bs" "slice_ok E B w c cs"
    and stable: "\<And>N w w'. Q N w \<Longrightarrow> kept E N w w' \<Longrightarrow> Q N w'"
    and inner: "\<And>p q r w1 e2 C. f p q r (env\<lparr>cd_wasm_instance := Some w1\<rparr>) = Done (Inr x, e2) \<Longrightarrow> heap_inv w1 C \<Longrightarrow>
      holds_region E C w1 p as \<Longrightarrow> holds_region E C w1 q bs \<Longrightarrow> holds_region E C w1 r cs \<Longrightarrow> call_ends E heap_inv C w1 env e2 Q"
  shows "call_ends E heap_inv B w env env' Q"
proof (rule two_regions_end [OF run mem slices(1,2) stable])
  fix p q w1 e2 C
  assume two: "with_region E A c (f p q) (env\<lparr>cd_wasm_instance := Some w1\<rparr>) = Done (Inr x, e2)" "heap_inv w1 C" "B \<subseteq> C"
    "kept E B w w1" "holds_region E C w1 p as" "holds_region E C w1 q bs"
  have c: "slice_ok E C w1 c cs" by (rule slice_ok_mono [OF slice_kept [OF slices(3) two(4)] two(3)])
  have "call_ends E heap_inv C w1 (env\<lparr>cd_wasm_instance := Some w1\<rparr>) e2 Q"
  proof (rule with_region_ends [OF two(1) _ two(2) c stable])
    fix r w2 e3
    assume three: "f p q r (env\<lparr>cd_wasm_instance := Some w1, cd_wasm_instance := Some w2\<rparr>) = Done (Inr x, e3)"
      "heap_inv w2 (insert (unat r, 12) C)" "kept E C w1 w2" "holds_region E (insert (unat r, 12) C) w2 r cs"
    have "holds_region E (insert (unat r, 12) C) w2 p as" "holds_region E (insert (unat r, 12) C) w2 q bs"
      using holds_region_mono [OF holds_region_kept [OF _ three(3)] subset_insertI] two(5,6) by blast+
    then have "call_ends E heap_inv (insert (unat r, 12) C) w2 env e3 Q"
      using three by (intro inner [of p q r w2]) auto
    then show "call_ends E heap_inv (insert (unat r, 12) C) w2 (env\<lparr>cd_wasm_instance := Some w1\<rparr>) e3 Q"
      by (simp add: call_ends_def)
  qed simp_all
  then show "call_ends E heap_inv C w1 env e2 Q" by (simp add: call_ends_def)
qed

lemma secp256k1_verify_code:
  fixes env :: "('s, 'q, 'w) context_data"
  assumes "h_crypto H = package_crypto K" "do_secp256k1_verify H p q r env = Done (Inr c, env')"
    and mem: "cd_wasm_instance env = Some w" "heap_inv w B"
    and held: "holds_region E B w p h" "holds_region E B w q s" "holds_region E B w r k"
  shows "verdict_code secp256k1_verify_error (secp256k1_verify K h s k) = Done c \<and> call_ends E heap_inv B w env env' (\<lambda>N w. True)"
  using assms(2) [unfolded do_secp256k1_verify_def Let_def, THEN read_held_bind [OF _ held(1) mem(1)],
      THEN read_held_bind [OF _ held(2) mem(1)], THEN read_held_bind [OF _ held(3) mem(1)]] mem assms(1)
  by (intro gas_then_code [of _ _ _ c]) (simp_all add: limit_defs package_crypto_def)

lemma ed25519_verify_code:
  fixes env :: "('s, 'q, 'w) context_data"
  assumes "h_crypto H = package_crypto K" "do_ed25519_verify H p q r env = Done (Inr c, env')"
    and mem: "cd_wasm_instance env = Some w" "heap_inv w B"
    and held: "holds_region E B w p m" "holds_region E B w q s" "holds_region E B w r k"
  shows "verdict_code ed25519_verify_error (ed25519_verify K m s k) = Done c \<and> call_ends E heap_inv B w env env' (\<lambda>N w. True)"
  using assms(2) [unfolded do_ed25519_verify_def Let_def, THEN read_held_bind [OF _ held(1) mem(1)],
      THEN read_held_bind [OF _ held(2) mem(1)], THEN read_held_bind [OF _ held(3) mem(1)]] mem assms(1)
  by (intro gas_then_code [of _ _ _ c]) (simp_all add: limit_defs package_crypto_def)

lemma ed25519_batch_code:
  fixes env :: "('s, 'q, 'w) context_data"
  assumes "h_crypto H = package_crypto K" "do_ed25519_batch_verify H p q r env = Done (Inr c, env')"
    and mem: "cd_wasm_instance env = Some w" "heap_inv w B"
    and held: "holds_region E B w p mb" "holds_region E B w q sb" "holds_region E B w r kb"
    and dec: "decode_sections mb = Done ms" "decode_sections sb = Done ss" "decode_sections kb = Done ks"
  shows "verdict_code ed25519_batch_error (ed25519_batch_verify K ms ss ks) = Done c \<and> call_ends E heap_inv B w env env' (\<lambda>N w. True)"
  using assms(2) [unfolded do_ed25519_batch_verify_def Let_def, THEN read_held_bind [OF _ held(1) mem(1)],
      THEN read_held_bind [OF _ held(2) mem(1)], THEN read_held_bind [OF _ held(3) mem(1)]] mem dec assms(1)
  by (intro gas_then_code [of _ _ _ c]) (simp_all add: limit_defs package_crypto_def pbind_def [of "plift_out _"] plift_out_def)

text \<open>The recovered key is handed over in a new region.\<close>

lemma recover_result:
  fixes env :: "('s, 'q, 'w) context_data"
  assumes crypto: "h_crypto H = package_crypto K" and run: "do_secp256k1_recover_pubkey H p q (ucast (param :: u8)) env = Done (Inr l, env')"
    and mem: "cd_wasm_instance env = Some w" "heap_inv w B"
    and held: "holds_region E B w p h" "holds_region E B w q s"
  shows "\<exists>u w1. cd_wasm_instance u = Some w1 \<and> heap_inv w1 B \<and> kept E B w w1 \<and> same_context env u \<and>
    (case secp256k1_recover_pubkey K h s param of
       Inl e \<Rightarrow> l = to_high_half (crypto_error_code e) \<and> env' = u
     | Inr key \<Rightarrow> (\<exists>ptr. write_to_contract H key u = Done (Inr ptr, env') \<and> l = to_low_half ptr))"
proof -
  have "unat (ucast param :: u32) = unat param" by (simp add: unat_ucast_widen)
  then have fits: "try_into_word (ucast param :: u32) = Some param"
    by (simp add: try_into_word_Some_iff)
  define rest where "rest = (case secp256k1_recover_pubkey K h s param of
      Inr pubkey \<Rightarrow> pbind (write_to_contract H pubkey) (\<lambda>pubkey_ptr. preturn (to_low_half pubkey_ptr))
    | Inl err \<Rightarrow> if secp256k1_recover_error err then preturn (to_high_half (crypto_error_code err))
        else ppanic ''Error must not happen for this call'')"
  have "pbind (process_gas_info H (gas_info_with_cost (secp256k1_recover_pubkey_cost (h_gas_config H)))) (\<lambda>_. rest) env = Done (Inr l, env')"
    using run [unfolded do_secp256k1_recover_pubkey_def Let_def, THEN read_held_bind [OF _ held(1) mem(1)],
        THEN read_held_bind [OF _ held(2) mem(1)]] fits crypto
    by (simp add: limit_defs package_crypto_def rest_def)
  then obtain v u where gas: "process_gas_info H (gas_info_with_cost (secp256k1_recover_pubkey_cost (h_gas_config H))) env = Done (Inr v, u)"
    and rest: "rest u = Done (Inr l, env')"
    by (auto simp: pbind_eq_Ok_iff)
  obtain w1 where w1: "cd_wasm_instance u = Some w1" "heap_inv w1 B" "kept E B w w1" "same_context env u"
    using gas_info_heap [OF gas mem] by blast
  have "case secp256k1_recover_pubkey K h s param of
       Inl e \<Rightarrow> l = to_high_half (crypto_error_code e) \<and> env' = u
     | Inr key \<Rightarrow> (\<exists>ptr. write_to_contract H key u = Done (Inr ptr, env') \<and> l = to_low_half ptr)"
    using rest secp256k1_recover_errors [of K h s param]
    by (cases "secp256k1_recover_pubkey K h s param") (auto simp: rest_def pbind_eq_Ok_iff)
  with w1 show ?thesis by blast
qed

section \<open>From end to end\<close>

lemma external_secp256k1_verify_ends:
  fixes env :: "('s, 'q, 'w) context_data"
  assumes crypto: "h_crypto H = package_crypto K" and run: "external_secp256k1_verify H A hash sig key env = Done (Inr x, env')"
    and mem: "cd_wasm_instance env = Some w" "heap_inv w B"
    and slices: "slice_ok E B w hash h" "slice_ok E B w sig s" "slice_ok E B w key k"
  shows "call_ends E heap_inv B w env env' (\<lambda>N w. x = map_err verification_error_from (secp256k1_verify K h s k))"
proof (rule three_regions_end [OF run [unfolded external_secp256k1_verify_def host_engine] mem slices])
  fix p q r w1 e2 C
  assume i: "pbind (do_secp256k1_verify H p q r) (\<lambda>result. plift_out (external_secp256k1_verdict result))
      (env\<lparr>cd_wasm_instance := Some w1\<rparr>) = Done (Inr x, e2)" "heap_inv w1 C"
    and held: "holds_region E C w1 p h" "holds_region E C w1 q s" "holds_region E C w1 r k"
  have "call_ends E heap_inv C w1 (env\<lparr>cd_wasm_instance := Some w1\<rparr>) e2
      (\<lambda>N w. x = map_err verification_error_from (secp256k1_verify K h s k))"
    by (rule code_then_verdict [OF i(1) secp256k1_verify_code [OF crypto _ _ i(2) held] secp256k1_boundary [OF refl]]) simp_all
  then show "call_ends E heap_inv C w1 env e2 (\<lambda>N w. x = map_err verification_error_from (secp256k1_verify K h s k))"
    by (simp add: call_ends_def)
qed simp

lemma external_ed25519_verify_ends:
  fixes env :: "('s, 'q, 'w) context_data"
  assumes crypto: "h_crypto H = package_crypto K" and run: "external_ed25519_verify H A msg sig key env = Done (Inr x, env')"
    and mem: "cd_wasm_instance env = Some w" "heap_inv w B"
    and slices: "slice_ok E B w msg m" "slice_ok E B w sig s" "slice_ok E B w key k"
  shows "call_ends E heap_inv B w env env' (\<lambda>N w. x = map_err verification_error_from (ed25519_verify K m s k))"
proof (rule three_regions_end [OF run [unfolded external_ed25519_verify_def host_engine] mem slices])
  fix p q r w1 e2 C
  assume i: "pbind (do_ed25519_verify H p q r) (\<lambda>result. plift_out (external_ed25519_verdict result))
      (env\<lparr>cd_wasm_instance := Some w1\<rparr>) = Done (Inr x, e2)" "heap_inv w1 C"
    and held: "holds_region E C w1 p m" "holds_region E C w1 q s" "holds_region E C w1 r k"
  have "call_ends E heap_inv C w1 (env\<lparr>cd_wasm_instance := Some w1\<rparr>) e2
      (\<lambda>N w. x = map_err verification_error_from (ed25519_verify K m s k))"
    by (rule code_then_verdict [OF i(1) ed25519_verify_code [OF crypto _ _ i(2) held] ed25519_boundary [OF refl]]) simp_all
  then show "call_ends E heap_inv C w1 env e2 (\<lambda>N w. x = map_err verification_error_from (ed25519_verify K m s k))"
    by (simp add: call_ends_def)
qed simp

lemma three_sections_end:
  fixes env :: "('s, 'q, 'w) context_data"
  assumes run: "with_sections H A a (\<lambda>p. with_sections H A b (\<lambda>q. with_sections H A c (f p q))) env = Done (Inr x, env')"
    and mem: "cd_wasm_instance env = Some w" "heap_inv w B"
    and enc: "std_encode_sections a = Done as" "length as < 2 ^ 32" "std_encode_sections b = Done bs" "length bs < 2 ^ 32"
      "std_encode_sections c = Done cs" "length cs < 2 ^ 32"
    and stable: "\<And>N w w'. Q N w \<Longrightarrow> kept E N w w' \<Longrightarrow> Q N w'"
    and inner: "\<And>p q r w1 e2 C. f p q r (env\<lparr>cd_wasm_instance := Some w1\<rparr>) = Done (Inr x, e2) \<Longrightarrow> heap_inv w1 C \<Longrightarrow>
      holds_region E C w1 p as \<Longrightarrow> holds_region E C w1 q bs \<Longrightarrow> holds_region E C w1 r cs \<Longrightarrow> call_ends E heap_inv C w1 env e2 Q"
  shows "call_ends E heap_inv B w env env' Q"
proof (rule with_sections_ends [OF run mem enc(1,2) stable])
  fix p w1 e2 C
  assume one: "with_sections H A b (\<lambda>q. with_sections H A c (f p q)) (env\<lparr>cd_wasm_instance := Some w1\<rparr>) = Done (Inr x, e2)"
    "heap_inv w1 C" "holds_region E C w1 p as"
  have "call_ends E heap_inv C w1 (env\<lparr>cd_wasm_instance := Some w1\<rparr>) e2 Q"
  proof (rule with_sections_ends [OF one(1) _ one(2) enc(3,4) stable])
    fix q w2 e3 D
    assume two: "with_sections H A c (f p q) (env\<lparr>cd_wasm_instance := Some w1, cd_wasm_instance := Some w2\<rparr>) = Done (Inr x, e3)"
      "heap_inv w2 D" "C \<subseteq> D" "kept E C w1 w2" "holds_region E D w2 q bs"
    have p2: "holds_region E D w2 p as" by (rule holds_region_mono [OF holds_region_kept [OF one(3) two(4)] two(3)])
    have "call_ends E heap_inv D w2 (env\<lparr>cd_wasm_instance := Some w2\<rparr>) e3 Q"
    proof (rule with_sections_ends [OF _ _ two(2) enc(5,6) stable])
      show "with_sections H A c (f p q) (env\<lparr>cd_wasm_instance := Some w2\<rparr>) = Done (Inr x, e3)" using two(1) by simp
      fix r w3 e4 F
      assume three: "f p q r (env\<lparr>cd_wasm_instance := Some w2, cd_wasm_instance := Some w3\<rparr>) = Done (Inr x, e4)"
        "heap_inv w3 F" "D \<subseteq> F" "kept E D w2 w3" "holds_region E F w3 r cs"
      have "holds_region E F w3 p as" "holds_region E F w3 q bs"
        using holds_region_mono [OF holds_region_kept [OF _ three(4)] three(3)] p2 two(5) by blast+
      then have "call_ends E heap_inv F w3 env e4 Q" using three by (intro inner [of p q r w3]) auto
      then show "call_ends E heap_inv F w3 (env\<lparr>cd_wasm_instance := Some w2\<rparr>) e4 Q" by (simp add: call_ends_def)
    qed simp_all
    then show "call_ends E heap_inv D w2 (env\<lparr>cd_wasm_instance := Some w1\<rparr>) e3 Q" by (simp add: call_ends_def)
  qed simp_all
  then show "call_ends E heap_inv C w1 env e2 Q" by (simp add: call_ends_def)
qed

lemma external_ed25519_batch_verify_ends:
  fixes env :: "('s, 'q, 'w) context_data"
  assumes crypto: "h_crypto H = package_crypto K" and run: "external_ed25519_batch_verify H A ms ss ks env = Done (Inr x, env')"
    and mem: "cd_wasm_instance env = Some w" "heap_inv w B"
    and small: "sections_fit ms" "sections_fit ss" "sections_fit ks"
  shows "call_ends E heap_inv B w env env' (\<lambda>N w. x = map_err batch_error_seen (ed25519_batch_verify K ms ss ks))" (is "call_ends _ _ _ _ _ _ ?Q")
proof -
  note m = sections_fit_coded [OF small(1)] and s = sections_fit_coded [OF small(2)] and k = sections_fit_coded [OF small(3)]
  show ?thesis
  proof (rule three_sections_end [OF run [unfolded external_ed25519_batch_verify_def] mem m(1,2) s(1,2) k(1,2)])
    fix p q r w1 e2 C
    assume i: "pbind (do_ed25519_batch_verify H p q r) (\<lambda>result. plift_out (external_ed25519_verdict result))
        (env\<lparr>cd_wasm_instance := Some w1\<rparr>) = Done (Inr x, e2)" "heap_inv w1 C"
      and held: "holds_region E C w1 p (concat (map section_bytes ms))" "holds_region E C w1 q (concat (map section_bytes ss))"
        "holds_region E C w1 r (concat (map section_bytes ks))"
    have "call_ends E heap_inv C w1 (env\<lparr>cd_wasm_instance := Some w1\<rparr>) e2 ?Q"
      by (rule code_then_verdict [OF i(1) ed25519_batch_code [OF crypto _ _ i(2) held m(3) s(3) k(3)] batch_boundary])
        simp_all
    then show "call_ends E heap_inv C w1 env e2 ?Q" by (simp add: call_ends_def)
  qed simp
qed

text \<open>The key arrives in a vector of its own.\<close>

lemma external_recover_ends:
  fixes env :: "('s, 'q, 'w) context_data"
  assumes crypto: "h_crypto H = package_crypto K"
    and run: "external_secp256k1_recover_pubkey H A hash sig param env = Done (Inr x, env')"
    and mem: "cd_wasm_instance env = Some w" "heap_inv w B" and slices: "slice_ok E B w hash h" "slice_ok E B w sig s"
  shows "call_ends E heap_inv B w env env' (\<lambda>N w. case secp256k1_recover_pubkey K h s param of
      Inl e \<Rightarrow> (\<exists>err. recover_pubkey_error_from e = Done err \<and> x = Inl err)
    | Inr key \<Rightarrow> (\<exists>v. x = Inr v \<and> N = vec_block v \<and> vec_ok E w v key))" (is "call_ends _ _ _ _ _ _ ?Q")
proof (rule two_regions_end [OF run [unfolded external_secp256k1_recover_pubkey_def host_engine] mem slices])
  show "?Q N w2" if "?Q N w1" "kept E N w1 w2" for N w1 w2
    using that vec_kept [of w1 _ _ "{}" w2] by (auto split: sum.splits)
  fix p q w1 e2 C
  assume i: "pbind (do_secp256k1_recover_pubkey H p q (ucast param)) (\<lambda>result.
      pbind (plift_out (external_recover_verdict result)) (\<lambda>verdict. case verdict of
         Inr pubkey_ptr \<Rightarrow> pbind (consume_region E A pubkey_ptr) (\<lambda>pubkey. preturn (Inr pubkey))
       | Inl err \<Rightarrow> preturn (Inl err))) (env\<lparr>cd_wasm_instance := Some w1\<rparr>) = Done (Inr x, e2)" "heap_inv w1 C"
    and held: "holds_region E C w1 p h" "holds_region E C w1 q s"
  obtain l u where l: "do_secp256k1_recover_pubkey H p q (ucast param) (env\<lparr>cd_wasm_instance := Some w1\<rparr>) = Done (Inr l, u)"
    and rest: "pbind (plift_out (external_recover_verdict l)) (\<lambda>verdict. case verdict of
         Inr pubkey_ptr \<Rightarrow> pbind (consume_region E A pubkey_ptr) (\<lambda>pubkey. preturn (Inr pubkey))
       | Inl err \<Rightarrow> preturn (Inl err)) u = Done (Inr x, e2)"
    using i(1) by (auto simp: pbind_eq_Ok_iff [of "do_secp256k1_recover_pubkey _ _ _ _"])
  obtain u0 w2 where u0: "cd_wasm_instance u0 = Some w2" "heap_inv w2 C" "kept E C w1 w2" "same_context env u0"
    and res: "case secp256k1_recover_pubkey K h s param of
       Inl e \<Rightarrow> l = to_high_half (crypto_error_code e) \<and> u = u0
     | Inr key \<Rightarrow> (\<exists>ptr. write_to_contract H key u0 = Done (Inr ptr, u) \<and> l = to_low_half ptr)"
    using recover_result [OF crypto l _ i(2) held] by auto
  show "call_ends E heap_inv C w1 env e2 ?Q"
  proof (cases "secp256k1_recover_pubkey K h s param")
    case (Inl e)
    then obtain err where err: "recover_pubkey_error_from e = Done err" "external_recover_verdict l = Done (Inl err)" "u = u0"
      using recover_error_converts [OF Inl] res by auto
    then have "x = Inl err" "e2 = u0" using rest by (auto simp: pbind_def plift_out_def)
    then show ?thesis
      unfolding call_ends_def using Inl err(1) u0 by (intro exI [of _ w2] exI [of _ "{}"]) (simp add: separate_def)
  next
    case (Inr key)
    then obtain ptr where ptr: "write_to_contract H key u0 = Done (Inr ptr, u)" "external_recover_verdict l = Done (Inr ptr)"
      using res recover_boundary_ptr by auto
    obtain v e3 w3 where v: "consume_region E A ptr u = Done (Inr v, e3)" "same_context u0 e3" "cd_wasm_instance e3 = Some w3"
      "heap_inv w3 (vec_block v \<union> C)" "separate (vec_block v) C" "kept E C w2 w3" "vec_ok E w3 v key"
      using receive_spec [OF ptr(1) u0(1,2)] by blast
    have "x = Inr v" "e2 = e3" using rest ptr(2) v(1) by (auto simp: pbind_def plift_out_def)
    then show ?thesis
      unfolding call_ends_def using Inr v same_context_trans [OF u0(4) v(2)] kept_trans [OF u0(3) v(6)]
      by (intro exI [of _ w3] exI [of _ "vec_block v"]) simp
  qed
qed

end

section \<open>An example\<close>

text \<open>
  The host of theory Guest_Example with the package over curves that accept everything of the right length. The memory
  holds 64 bytes from address 8 on; a hash is the first 32 of them and a signature all of them.
\<close>

definition crypto_host :: "(mock_storage, unit, linear_instance, unit) host" where
  "crypto_host = bump_host\<lparr>h_crypto := package_crypto length_curves\<rparr>"

interpretation crypto_host: guest_host linear_engine bump_alloc bump_inv crypto_host
  by unfold_locales (simp_all add: crypto_host_def bump_host_def mock_host_def)

definition crypto_mem :: linear_instance where
  "crypto_mem = \<lparr>lm_mem = to_le_bytes (72 :: u32) @ replicate 140 0, lm_points = Remaining 1000000000000\<rparr>"

definition crypto_env :: "(mock_storage, unit, linear_instance) context_data" where
  "crypto_env = (move_in mock_storage_new () (context_data_new 1000000000000))\<lparr>cd_wasm_instance := Some crypto_mem\<rparr>"

lemma crypto_slices:
  "bump_inv crypto_mem {(8, 64)}"
  "slice_ok linear_engine {(8, 64)} crypto_mem \<lparr>sl_ptr = 8, sl_len = 32\<rparr> (replicate 32 0)"
  "slice_ok linear_engine {(8, 64)} crypto_mem \<lparr>sl_ptr = 8, sl_len = 64\<rparr> (replicate 64 0)"
  by (auto simp: bump_inv_def slice_ok_def crypto_mem_def bump_next_def get_bytes_def to_le_bytes_u32 from_le_bytes_u32
      linear_engine_def intro: exI [of _ 8] exI [of _ 64])

lemmas crypto_eval = crypto_host_def package_crypto_def length_curves_def do_secp256k1_recover_pubkey_def
  secp256k1_recover_pubkey_def read_hash_def read_signature_def recover_boundary_ptr try_into_word_def
  external_secp256k1_recover_pubkey_def crypto_env_def crypto_mem_def move_in_def context_data_new_def
  gas_info_with_cost_def gas_config_default_def GAS_PER_US_def gas_state_with_limit_def

lemma recover_runs:
  "\<exists>v env'. external_secp256k1_recover_pubkey crypto_host bump_alloc \<lparr>sl_ptr = 8, sl_len = 32\<rparr> \<lparr>sl_ptr = 8, sl_len = 64\<rparr> 0 crypto_env =
    Done (Inr (Inr v), env')"
  by (simp add: crypto_eval guest_eval host_eval mock_storage_new_def plift_out_def)

end
