(* ===== verification/Std_Mock.thy ===== *)
theory Std_Mock
  imports Crypto Std_Ibc Std_Query
begin

text \<open>
  \<open>packages/std/src/mock.rs\<close>, the API and the querier that contracts are tested with, and the text forms
  of \<open>binary.rs\<close> and \<open>addresses.rs\<close>. A \<open>Binary\<close> and a \<open>CanonicalAddr\<close> are lists of bytes, an \<open>Addr\<close> is a
  string. The base64 crate is a pair of functions, a hash map of balances a map.
\<close>

section \<open>Binary and addresses\<close>

record base64 =
  b64_encode :: "bytes \<Rightarrow> string"
  b64_decode :: "string \<Rightarrow> (string, bytes) result"

definition binary_from_base64 :: "base64 \<Rightarrow> string \<Rightarrow> bytes std_result" where
  "binary_from_base64 X encoded = map_err InvalidBase64 (b64_decode X encoded)"

definition binary_to_base64 :: "base64 \<Rightarrow> bytes \<Rightarrow> string" where
  "binary_to_base64 X self = b64_encode X self"

definition binary_to_array :: "nat \<Rightarrow> bytes \<Rightarrow> bytes std_result" where
  "binary_to_array n self =
     (if length self \<noteq> n then Inl (InvalidDataSize (word_of_nat n) (word_of_nat (length self))) else Inr self)"

definition hex_nibble :: "string \<Rightarrow> nat \<Rightarrow> char" where
  "hex_nibble digits n = digits ! n"

definition show_hex_byte :: "string \<Rightarrow> u8 \<Rightarrow> string" where
  "show_hex_byte digits b = [hex_nibble digits (unat b div 16), hex_nibble digits (unat b mod 16)]"

definition binary_display :: "base64 \<Rightarrow> bytes \<Rightarrow> string" where
  "binary_display X self = binary_to_base64 X self"

definition binary_debug :: "bytes \<Rightarrow> string" where
  "binary_debug self = ''Binary('' @ concat (map (show_hex_byte ''0123456789abcdef'') self) @ '')''"

definition canonical_addr_display :: "bytes \<Rightarrow> string" where
  "canonical_addr_display self = concat (map (show_hex_byte ''0123456789ABCDEF'') self)"

text \<open>The visitor that reads a \<open>Binary\<close> from a JSON string; its error is the text of the deserializer.\<close>

definition base64_visit_str :: "base64 \<Rightarrow> string \<Rightarrow> (string, bytes) result" where
  "base64_visit_str X v =
     (case binary_from_base64 X v of Inr binary \<Rightarrow> Inr binary | Inl _ \<Rightarrow> Inl (''invalid base64: '' @ v))"

section \<open>Guards\<close>

text \<open>The macros of \<open>assertions.rs\<close> as the early return they expand to.\<close>

definition ensure :: "bool \<Rightarrow> 'e \<Rightarrow> ('e, unit) result" where
  "ensure cond e = (if \<not> cond then Inl e else Inr ())"

definition ensure_eq :: "'a \<Rightarrow> 'a \<Rightarrow> 'e \<Rightarrow> ('e, unit) result" where
  "ensure_eq a b e = (if \<not> (a = b) then Inl e else Inr ())"

definition ensure_ne :: "'a \<Rightarrow> 'a \<Rightarrow> 'e \<Rightarrow> ('e, unit) result" where
  "ensure_ne a b e = (if \<not> (a \<noteq> b) then Inl e else Inr ())"

section \<open>Errors of UTF-8\<close>

text \<open>
  The position of the first invalid sequence and its length, absent at a premature end, as the standard
  library reports them.
\<close>

fun utf8_error_at :: "nat \<Rightarrow> bytes \<Rightarrow> (nat \<times> nat option) option" where
  "utf8_error_at i [] = None"
| "utf8_error_at i (b # bs) =
     (if b < 0x80 then utf8_error_at (i + 1) bs
      else if 0xC2 \<le> b \<and> b \<le> 0xDF then
        (case bs of [] \<Rightarrow> Some (i, None)
         | c # cs \<Rightarrow> if utf8_cont c then utf8_error_at (i + 2) cs else Some (i, Some 1))
      else if 0xE0 \<le> b \<and> b \<le> 0xEF then
        (case bs of [] \<Rightarrow> Some (i, None)
         | c # cs \<Rightarrow>
             if \<not> (utf8_cont c \<and> (b = 0xE0 \<longrightarrow> 0xA0 \<le> c) \<and> (b = 0xED \<longrightarrow> c \<le> 0x9F)) then Some (i, Some 1)
             else case cs of [] \<Rightarrow> Some (i, None)
                  | d # ds \<Rightarrow> if utf8_cont d then utf8_error_at (i + 3) ds else Some (i, Some 2))
      else if 0xF0 \<le> b \<and> b \<le> 0xF4 then
        (case bs of [] \<Rightarrow> Some (i, None)
         | c # cs \<Rightarrow>
             if \<not> (utf8_cont c \<and> (b = 0xF0 \<longrightarrow> 0x90 \<le> c) \<and> (b = 0xF4 \<longrightarrow> c \<le> 0x8F)) then Some (i, Some 1)
             else case cs of [] \<Rightarrow> Some (i, None)
                  | d # ds \<Rightarrow>
                      if \<not> utf8_cont d then Some (i, Some 2)
                      else case ds of [] \<Rightarrow> Some (i, None)
                           | e # es \<Rightarrow> if utf8_cont e then utf8_error_at (i + 4) es else Some (i, Some 3))
      else Some (i, Some 1))"

definition utf8_error_text :: "nat \<times> nat option \<Rightarrow> string" where
  "utf8_error_text e =
     (case e of
        (i, Some n) \<Rightarrow> ''invalid utf-8 sequence of '' @ show_nat n @ '' bytes from index '' @ show_nat i
      | (i, None) \<Rightarrow> ''incomplete utf-8 byte sequence from index '' @ show_nat i)"

definition string_from_utf8 :: "bytes \<Rightarrow> (string, string) result" where
  "string_from_utf8 bs =
     (case utf8_error_at 0 bs of None \<Rightarrow> Inr (from_ascii bs) | Some e \<Rightarrow> Inl (utf8_error_text e))"

lemma utf8_error_at_None_iff: "utf8_error_at i bs = None \<longleftrightarrow> utf8_valid bs"
proof (induction bs arbitrary: i rule: utf8_valid.induct)
  case (2 b bs)
  show ?case
  proof (cases "b < 0x80")
    case True
    then show ?thesis using "2.IH"(1) [OF True] by simp
  next
    case False
    then have nz: "\<not> b < 0x80" .
    show ?thesis
    proof (cases bs)
      case Nil
      then show ?thesis using nz by simp
    next
      case (Cons c cs)
      note bs = this
      show ?thesis
      proof (cases "0xC2 \<le> b \<and> b \<le> 0xDF")
        case True
        then show ?thesis using "2.IH"(2) [OF nz bs True] nz bs by simp
      next
        case nr2: False
        show ?thesis
        proof (cases cs)
          case Nil
          then show ?thesis using nz bs nr2 by simp
        next
          case (Cons d ds)
          note cs = this
          show ?thesis
          proof (cases "0xE0 \<le> b \<and> b \<le> 0xEF")
            case True
            have valid: "utf8_valid (b # bs) \<longleftrightarrow> utf8_cont c \<and> (b = 0xE0 \<longrightarrow> 0xA0 \<le> c) \<and>
                (b = 0xED \<longrightarrow> c \<le> 0x9F) \<and> utf8_cont d \<and> utf8_valid ds"
              unfolding bs cs by (subst utf8_valid.simps(2)) (simp only: nz nr2 True if_True if_False list.case simp_thms)
            have "utf8_error_at i (b # bs) = None \<longleftrightarrow> utf8_cont c \<and> (b = 0xE0 \<longrightarrow> 0xA0 \<le> c) \<and>
                (b = 0xED \<longrightarrow> c \<le> 0x9F) \<and> utf8_cont d \<and> utf8_error_at (i + 3) ds = None"
              unfolding bs cs 
              by (subst utf8_error_at.simps(2)) (auto simp only: nz nr2 True if_True if_False list.case simp_thms split: if_splits)
            then show ?thesis
              unfolding valid using "2.IH"(3) [OF nz bs nr2 cs True, of "i + 3"] by blast
          next
            case nr3: False
            show ?thesis
            proof (cases ds)
              case Nil
              have "\<not> utf8_valid [b, c, d]" by (subst utf8_valid.simps(2)) (simp only: nz nr2 nr3 if_False list.case not_False_eq_True)
              moreover have "utf8_error_at i [b, c, d] \<noteq> None"
                by (subst utf8_error_at.simps(2)) (simp only: nz nr2 nr3 if_False list.case, simp split: if_split)
              ultimately show ?thesis unfolding bs cs Nil by blast
            next
              case (Cons e es)
              note ds = this
              have IH: "utf8_error_at (i + 4) es = None \<longleftrightarrow> utf8_valid es" by (rule "2.IH"(4) [OF nz bs nr2 cs nr3 ds])
              have "utf8_error_at i (b # c # d # e # es) =
                  (if 0xF0 \<le> b \<and> b \<le> 0xF4 then
                     if \<not> (utf8_cont c \<and> (b = 0xF0 \<longrightarrow> 0x90 \<le> c) \<and> (b = 0xF4 \<longrightarrow> c \<le> 0x8F)) then Some (i, Some 1)
                     else if \<not> utf8_cont d then Some (i, Some 2)
                     else if utf8_cont e then utf8_error_at (i + 4) es else Some (i, Some 3)
                   else Some (i, Some 1))"
                by (subst utf8_error_at.simps(2)) (simp only: nz nr2 nr3 if_False list.case)
              moreover have "utf8_valid (b # c # d # e # es) \<longleftrightarrow>
                  0xF0 \<le> b \<and> b \<le> 0xF4 \<and> utf8_cont c \<and> (b = 0xF0 \<longrightarrow> 0x90 \<le> c) \<and> (b = 0xF4 \<longrightarrow> c \<le> 0x8F) \<and>
                  utf8_cont d \<and> utf8_cont e \<and> utf8_valid es"
                by (subst utf8_valid.simps(2)) (simp only: nz nr2 nr3 if_False list.case)
              ultimately show ?thesis unfolding bs cs ds using IH
                by (auto simp del: utf8_error_at.simps utf8_valid.simps split: if_splits)
            qed
          qed
        qed
      qed
    qed
  qed
qed simp

lemma string_from_utf8_Ok_iff: "string_from_utf8 bs = Inr s \<longleftrightarrow> utf8_valid bs \<and> bs = ascii s"
  using utf8_error_at_None_iff [of 0 bs] by (auto simp: string_from_utf8_def split: option.splits)

section \<open>The mock API\<close>

definition MOCK_CONTRACT_ADDR :: string where
  "MOCK_CONTRACT_ADDR = ''cosmos2contract''"

definition CANONICAL_LENGTH :: nat where "CANONICAL_LENGTH = 54"

definition SHUFFLES_ENCODE :: nat where "SHUFFLES_ENCODE = 18"

definition SHUFFLES_DECODE :: nat where "SHUFFLES_DECODE = 2"

definition riffle_shuffle :: "'a list \<Rightarrow> 'a list outcome" where
  "riffle_shuffle input =
     (if length input mod 2 \<noteq> 0 then Panic ''Method only defined for even number of elements''
      else let mid = length input div 2; left = take mid input; right = drop mid input
           in Done (concat (map (\<lambda>i. [right ! i, left ! i]) [0..<mid])))"

definition digit_sum :: "bytes \<Rightarrow> nat" where
  "digit_sum input = fold (\<lambda>val sum. sum + unat val) input 0"

primrec shuffle_times :: "nat \<Rightarrow> 'a list \<Rightarrow> 'a list outcome" where
  "shuffle_times 0 out = Done out"
| "shuffle_times (Suc n) out = obind (riffle_shuffle out) (shuffle_times n)"

text \<open>\<open>Vec::resize\<close>, \<open>rotate_left\<close> and \<open>rotate_right\<close>; the API is its \<open>canonical_length\<close>.\<close>

definition vec_resize :: "nat \<Rightarrow> 'a \<Rightarrow> 'a list \<Rightarrow> 'a list" where
  "vec_resize n x xs = take n xs @ replicate (n - length xs) x"

definition rotate_left :: "nat \<Rightarrow> 'a list \<Rightarrow> 'a list" where
  "rotate_left k xs = drop k xs @ take k xs"

definition rotate_right :: "nat \<Rightarrow> 'a list \<Rightarrow> 'a list" where
  "rotate_right k xs = drop (length xs - k) xs @ take (length xs - k) xs"

definition mock_addr_canonicalize :: "nat \<Rightarrow> string \<Rightarrow> bytes std_result outcome" where
  "mock_addr_canonicalize canonical_length human =
     (if length human < 3 then Done (Inl (GenericErr ''Invalid input: human address too short''))
      else if canonical_length < length human then Done (Inl (GenericErr ''Invalid input: human address too long''))
      else let out = vec_resize canonical_length 0 (ascii human);
               rotate_by = digit_sum out mod canonical_length
           in omap Inr (shuffle_times SHUFFLES_ENCODE (rotate_left rotate_by out)))"

definition mock_addr_validate :: "nat \<Rightarrow> string \<Rightarrow> string std_result outcome" where
  "mock_addr_validate canonical_length human =
     orbind (mock_addr_canonicalize canonical_length human) (\<lambda>_. Done (Inr human))"

definition mock_addr_humanize :: "nat \<Rightarrow> bytes \<Rightarrow> string std_result outcome" where
  "mock_addr_humanize canonical_length canonical =
     (if length canonical \<noteq> canonical_length
      then Done (Inl (GenericErr ''Invalid input: canonical address length not correct''))
      else obind (shuffle_times SHUFFLES_DECODE canonical) (\<lambda>tmp.
           let rotate_by = digit_sum tmp mod canonical_length;
               tmp = rotate_right rotate_by tmp;
               trimmed = filter (\<lambda>x. x \<noteq> 0) tmp
           in Done (map_err InvalidUtf8 (string_from_utf8 trimmed))))"

definition mock_secp256k1_verify :: "('sig, 'rsig, 'id, 'vk, 'evk) curves \<Rightarrow> bytes \<Rightarrow> bytes \<Rightarrow> bytes \<Rightarrow> (verification_error, bool) result" where
  "mock_secp256k1_verify K message_hash signature public_key =
     map_err verification_error_from (secp256k1_verify K message_hash signature public_key)"

definition mock_secp256k1_recover_pubkey ::
  "('sig, 'rsig, 'id, 'vk, 'evk) curves \<Rightarrow> bytes \<Rightarrow> bytes \<Rightarrow> u8 \<Rightarrow> (recover_pubkey_error, bytes) result outcome" where
  "mock_secp256k1_recover_pubkey K message_hash signature recovery_param =
     (case secp256k1_recover_pubkey K message_hash signature recovery_param of
        Inr pubkey \<Rightarrow> Done (Inr pubkey)
      | Inl e \<Rightarrow> omap Inl (recover_pubkey_error_from e))"

definition mock_ed25519_verify :: "('sig, 'rsig, 'id, 'vk, 'evk) curves \<Rightarrow> bytes \<Rightarrow> bytes \<Rightarrow> bytes \<Rightarrow> (verification_error, bool) result" where
  "mock_ed25519_verify K message signature public_key =
     map_err verification_error_from (ed25519_verify K message signature public_key)"

definition mock_ed25519_batch_verify ::
  "('sig, 'rsig, 'id, 'vk, 'evk) curves \<Rightarrow> bytes list \<Rightarrow> bytes list \<Rightarrow> bytes list \<Rightarrow> (verification_error, bool) result" where
  "mock_ed25519_batch_verify K messages signatures public_keys =
     map_err verification_error_from (ed25519_batch_verify K messages signatures public_keys)"

section \<open>Call data and IBC messages for tests\<close>

definition mock_env :: env_info where
  "mock_env =
     \<lparr>env_block = \<lparr>bi_height = 12345, bi_time = timestamp_from_nanos 1571797419879305533, bi_chain_id = ''cosmos-testnet-14002''\<rparr>,
      env_transaction = Some 3, env_contract = MOCK_CONTRACT_ADDR\<rparr>"

definition mock_info :: "string \<Rightarrow> coin list \<Rightarrow> message_info" where
  "mock_info sender funds = \<lparr>mi_sender = sender, mi_funds = funds\<rparr>"

definition mock_ibc_channel :: "string \<Rightarrow> ibc_order \<Rightarrow> string \<Rightarrow> ibc_channel" where
  "mock_ibc_channel my_channel_id ord version =
     \<lparr>ch_endpoint = \<lparr>ep_port_id = ''my_port'', ep_channel_id = my_channel_id\<rparr>,
      ch_counterparty_endpoint = \<lparr>ep_port_id = ''their_port'', ep_channel_id = ''channel-7''\<rparr>,
      ch_order = ord, ch_version = version, ch_connection_id = ''connection-2''\<rparr>"

definition mock_ibc_channel_open_init :: "string \<Rightarrow> ibc_order \<Rightarrow> string \<Rightarrow> ibc_channel_open_msg" where
  "mock_ibc_channel_open_init my_channel_id ord version = open_new_init (mock_ibc_channel my_channel_id ord version)"

definition mock_ibc_channel_open_try :: "string \<Rightarrow> ibc_order \<Rightarrow> string \<Rightarrow> ibc_channel_open_msg" where
  "mock_ibc_channel_open_try my_channel_id ord version =
     open_new_try (mock_ibc_channel my_channel_id ord version) version"

definition mock_ibc_channel_connect_ack :: "string \<Rightarrow> ibc_order \<Rightarrow> string \<Rightarrow> ibc_channel_connect_msg" where
  "mock_ibc_channel_connect_ack my_channel_id ord version =
     connect_new_ack (mock_ibc_channel my_channel_id ord version) version"

definition mock_ibc_channel_connect_confirm :: "string \<Rightarrow> ibc_order \<Rightarrow> string \<Rightarrow> ibc_channel_connect_msg" where
  "mock_ibc_channel_connect_confirm my_channel_id ord version =
     connect_new_confirm (mock_ibc_channel my_channel_id ord version)"

definition mock_ibc_channel_close_init :: "string \<Rightarrow> ibc_order \<Rightarrow> string \<Rightarrow> ibc_channel_close_msg" where
  "mock_ibc_channel_close_init my_channel_id ord version = close_new_init (mock_ibc_channel my_channel_id ord version)"

definition mock_ibc_channel_close_confirm :: "string \<Rightarrow> ibc_order \<Rightarrow> string \<Rightarrow> ibc_channel_close_msg" where
  "mock_ibc_channel_close_confirm my_channel_id ord version =
     close_new_confirm (mock_ibc_channel my_channel_id ord version)"

definition mock_ibc_packet_recv :: "'a json \<Rightarrow> string \<Rightarrow> 'a \<Rightarrow> ibc_packet_receive_msg std_result" where
  "mock_ibc_packet_recv J my_channel_id data =
     rbind (to_vec J data) (\<lambda>bytes. Inr (packet_receive_new
       \<lparr>pk_data = bytes, pk_src = \<lparr>ep_port_id = ''their-port'', ep_channel_id = ''channel-1234''\<rparr>,
        pk_dest = \<lparr>ep_port_id = ''our-port'', ep_channel_id = my_channel_id\<rparr>, pk_sequence = 27,
        pk_timeout = timeout_from_block \<lparr>tb_revision = 1, tb_height = 12345678\<rparr>\<rparr>))"

definition mock_ibc_packet :: "'a json \<Rightarrow> string \<Rightarrow> 'a \<Rightarrow> ibc_packet std_result" where
  "mock_ibc_packet J my_channel_id data =
     rbind (to_vec J data) (\<lambda>bytes. Inr
       \<lparr>pk_data = bytes, pk_src = \<lparr>ep_port_id = ''their-port'', ep_channel_id = my_channel_id\<rparr>,
        pk_dest = \<lparr>ep_port_id = ''our-port'', ep_channel_id = ''channel-1234''\<rparr>, pk_sequence = 29,
        pk_timeout = timeout_from_block \<lparr>tb_revision = 1, tb_height = 432332552\<rparr>\<rparr>)"

definition mock_ibc_packet_ack :: "'a json \<Rightarrow> string \<Rightarrow> 'a \<Rightarrow> ibc_acknowledgement \<Rightarrow> ibc_packet_ack_msg std_result" where
  "mock_ibc_packet_ack J my_channel_id data ack =
     rbind (mock_ibc_packet J my_channel_id data) (\<lambda>packet. Inr (packet_ack_new ack packet))"

definition mock_ibc_packet_timeout :: "'a json \<Rightarrow> string \<Rightarrow> 'a \<Rightarrow> ibc_packet_timeout_msg std_result" where
  "mock_ibc_packet_timeout J my_channel_id data =
     map_ok packet_timeout_new (mock_ibc_packet J my_channel_id data)"

definition mock_wasmd_attr :: "string \<Rightarrow> string \<Rightarrow> attribute" where
  "mock_wasmd_attr key val = \<lparr>attr_key = key, attr_value = val\<rparr>"

section \<open>The mock querier\<close>

type_synonym balances = "string \<Rightarrow> coin list option"

definition bank_querier_new :: "(string \<times> coin list) list \<Rightarrow> balances" where
  "bank_querier_new entries = fold (\<lambda>(addr, cs) m. m(addr \<mapsto> cs)) entries Map.empty"

text \<open>\<open>to_binary(..).into()\<close>: the serialized response or the text of its error.\<close>

definition binary_result :: "'a json \<Rightarrow> 'a \<Rightarrow> bytes contract_result" where
  "binary_result J x = contract_from_result show_std_error (to_vec J x)"

definition bank_querier_query :: "response_codecs \<Rightarrow> balances \<Rightarrow> bank_query \<Rightarrow> querier_result" where
  "bank_querier_query R self request =
     SystemOk (case request of
       Balance address den \<Rightarrow>
         let amt = (case Option.bind (self address) (find (\<lambda>c. denom c = den)) of
                      Some c \<Rightarrow> amount c | None \<Rightarrow> uint128_new 0)
         in binary_result (balance_json R) (BalanceResponse \<lparr>denom = den, amount = amt\<rparr>)
     | AllBalances address \<Rightarrow>
         binary_result (all_balance_json R)
           (AllBalanceResponse (case self address of Some cs \<Rightarrow> cs | None \<Rightarrow> [])))"

record staking_querier =
  sq_denom :: string
  sq_validators :: "validator list"
  sq_delegations :: "full_delegation list"

definition staking_querier_new :: "string \<Rightarrow> validator list \<Rightarrow> full_delegation list \<Rightarrow> staking_querier" where
  "staking_querier_new den validators delegations =
     \<lparr>sq_denom = den, sq_validators = validators, sq_delegations = delegations\<rparr>"

definition staking_querier_query :: "response_codecs \<Rightarrow> staking_querier \<Rightarrow> staking_query \<Rightarrow> querier_result" where
  "staking_querier_query R self request =
     SystemOk (case request of
       BondedDenom \<Rightarrow> binary_result (bonded_denom_json R) (BondedDenomResponse (sq_denom self))
     | AllValidators \<Rightarrow> binary_result (all_validators_json R) (AllValidatorsResponse (sq_validators self))
     | ValidatorAt address \<Rightarrow>
         binary_result (validator_json R) (ValidatorResponse (find (\<lambda>v. va_address v = address) (sq_validators self)))
     | AllDelegations delegator \<Rightarrow>
         binary_result (all_delegations_json R) (AllDelegationsResponse
           (map delegation_from_full (filter (\<lambda>d. fd_delegator d = delegator) (sq_delegations self))))
     | DelegationOf delegator validator \<Rightarrow>
         binary_result (delegation_json R) (DelegationResponse
           (find (\<lambda>d. fd_delegator d = delegator \<and> fd_validator d = validator) (sq_delegations self))))"

fun no_wasm_querier_query :: "wasm_query \<Rightarrow> querier_result" where
  "no_wasm_querier_query (Smart contract_addr msg) = SystemErr (NoSuchContract contract_addr)"
| "no_wasm_querier_query (Raw contract_addr key) = SystemErr (NoSuchContract contract_addr)"
| "no_wasm_querier_query (ContractInfo contract_addr) = SystemErr (NoSuchContract contract_addr)"

record 'c mock_querier =
  mq_bank :: balances
  mq_staking :: staking_querier
  mq_custom_handler :: "'c \<Rightarrow> querier_result"

definition mock_querier_new :: "(string \<times> coin list) list \<Rightarrow> 'c mock_querier" where
  "mock_querier_new entries =
     \<lparr>mq_bank = bank_querier_new entries, mq_staking = \<lparr>sq_denom = [], sq_validators = [], sq_delegations = []\<rparr>,
      mq_custom_handler = (\<lambda>_. SystemErr (UnsupportedRequest ''custom''))\<rparr>"

definition update_balance :: "string \<Rightarrow> coin list \<Rightarrow> 'c mock_querier \<Rightarrow> coin list option \<times> 'c mock_querier" where
  "update_balance addr balance self = (mq_bank self addr, self\<lparr>mq_bank := (mq_bank self)(addr \<mapsto> balance)\<rparr>)"

definition update_staking :: "string \<Rightarrow> validator list \<Rightarrow> full_delegation list \<Rightarrow> 'c mock_querier \<Rightarrow> 'c mock_querier" where
  "update_staking den validators delegations self =
     self\<lparr>mq_staking := staking_querier_new den validators delegations\<rparr>"

definition with_custom_handler :: "('c \<Rightarrow> querier_result) \<Rightarrow> 'c mock_querier \<Rightarrow> 'c mock_querier" where
  "with_custom_handler handler self = self\<lparr>mq_custom_handler := handler\<rparr>"

fun mock_handle_query :: "response_codecs \<Rightarrow> 'c mock_querier \<Rightarrow> 'c query_request \<Rightarrow> querier_result" where
  "mock_handle_query R self (QueryBank bank_query) = bank_querier_query R (mq_bank self) bank_query"
| "mock_handle_query R self (QueryCustom custom_query) = mq_custom_handler self custom_query"
| "mock_handle_query R self (QueryStaking staking_query) = staking_querier_query R (mq_staking self) staking_query"
| "mock_handle_query R self (QueryWasm msg) = no_wasm_querier_query msg"
| "mock_handle_query R self (QueryStargate path data) = SystemErr (UnsupportedRequest ''Stargate'')"
| "mock_handle_query R self (QueryIbc q) = SystemErr (UnsupportedRequest ''Ibc'')"

definition mock_raw_query :: "response_codecs \<Rightarrow> 'c query_request json \<Rightarrow> 'c mock_querier \<Rightarrow> bytes \<Rightarrow> querier_result" where
  "mock_raw_query R J self bin_request =
     (case from_slice J bin_request of
        Inr request \<Rightarrow> mock_handle_query R self request
      | Inl e \<Rightarrow> SystemErr (InvalidRequest (''Parsing query request: '' @ show_std_error e) bin_request))"

text \<open>\<open>QuerierWrapper\<close> around the mock.\<close>

definition mock_wrapper :: "response_codecs \<Rightarrow> 'c query_request json \<Rightarrow> (bytes \<Rightarrow> string) \<Rightarrow> 'c mock_querier \<Rightarrow> 'c querier" where
  "mock_wrapper R J lossy self =
     \<lparr>raw_query = mock_raw_query R J self, show_system_error = show_system_err lossy, request_json = J\<rparr>"

section \<open>Addresses of the mock API\<close>

lemma length_vec_resize [simp]: "length (vec_resize n x xs) = n"
  by (simp add: vec_resize_def)

lemma rotate_right_left: "k \<le> length xs \<Longrightarrow> rotate_right k (rotate_left k xs) = xs"
  by (simp add: rotate_right_def rotate_left_def)

lemma length_rotate_left [simp]: "length (rotate_left k xs) = length xs"
  by (simp add: rotate_left_def)

lemma digit_sum_sum: "digit_sum xs = sum_list (map unat xs)"
proof -
  have "fold (\<lambda>val sum. sum + unat val) xs n = n + sum_list (map unat xs)" for n
    by (induction xs arbitrary: n) auto
  then show ?thesis by (simp add: digit_sum_def)
qed

lemma digit_sum_rotate: "digit_sum (rotate_left k xs) = digit_sum xs"
proof -
  have "sum_list (map unat (take k xs)) + sum_list (map unat (drop k xs)) = sum_list (map unat xs)"
    by (metis append_take_drop_id map_append sum_list_append)
  then show ?thesis by (simp add: digit_sum_sum rotate_left_def)
qed

text \<open>A shuffle moves the elements around, whatever they are; twenty of them put 54 elements back in place.\<close>

lemma riffle_map: "riffle_shuffle (map f xs) = omap (map f) (riffle_shuffle xs)"
proof (cases "length xs mod 2 = 0")
  case True
  define m where "m = length xs div 2"
  have "concat (map (\<lambda>i. [drop m (map f xs) ! i, take m (map f xs) ! i]) [0..<m]) =
      concat (map (\<lambda>i. map f [drop m xs ! i, take m xs ! i]) [0..<m])"
    by (intro arg_cong [where f = concat] map_cong) (auto simp: m_def)
  then show ?thesis using True by (simp add: riffle_shuffle_def Let_def map_concat comp_def m_def)
qed (simp add: riffle_shuffle_def)

lemma riffle_length: "riffle_shuffle xs = Done ys \<Longrightarrow> length ys = length xs"
  by (auto simp: riffle_shuffle_def Let_def length_concat comp_def sum_list_triv split: if_splits)

lemma shuffle_times_length: "shuffle_times n xs = Done ys \<Longrightarrow> length ys = length xs"
  by (induction n arbitrary: xs) (auto simp: obind_eq_Done_iff dest: riffle_length)

lemma shuffle_times_map: "shuffle_times n (map f xs) = omap (map f) (shuffle_times n xs)"
proof (induction n arbitrary: xs)
  case (Suc n)
  then show ?case by (cases "riffle_shuffle xs") (simp_all add: riffle_map)
qed simp

lemma shuffle_times_add: "shuffle_times (m + n) xs = obind (shuffle_times m xs) (shuffle_times n)"
proof (induction m arbitrary: xs)
  case (Suc m)
  then show ?case by (cases "riffle_shuffle xs") simp_all
qed simp

lemma shuffle_indices: "shuffle_times 20 [0..<54] = Done [0..<54]"
  by code_simp

lemma shuffle_identity:
  assumes "length xs = 54"
  shows "shuffle_times 20 xs = Done xs"
proof -
  have xs: "xs = map ((!) xs) [0..<54]" using assms map_nth [of xs] by simp
  then show ?thesis using shuffle_times_map [of 20 "(!) xs" "[0..<54]"] by (simp only: shuffle_indices omap.simps flip: xs)
qed

text \<open>
  Encoding an address and decoding it gives it back, for every address of the allowed length without a
  null byte.
\<close>

lemma mock_addr_roundtrip:
  assumes "3 \<le> length human" "length human \<le> CANONICAL_LENGTH" "0 \<notin> set (ascii human)" "utf8_valid (ascii human)"
  shows "\<exists>canonical. mock_addr_canonicalize CANONICAL_LENGTH human = Done (Inr canonical) \<and>
    length canonical = CANONICAL_LENGTH \<and> mock_addr_humanize CANONICAL_LENGTH canonical = Done (Inr human)"
proof -
  define out where "out = vec_resize 54 0 (ascii human)"
  define k where "k = digit_sum out mod 54"
  have len: "length out = 54" "length (rotate_left k out) = 54" by (simp_all add: out_def)
  have twenty: "obind (shuffle_times 18 (rotate_left k out)) (shuffle_times 2) = Done (rotate_left k out)"
    using shuffle_identity [OF len(2)] shuffle_times_add [of 18 2 "rotate_left k out"] by simp
  then obtain c where c: "shuffle_times 18 (rotate_left k out) = Done c" "shuffle_times 2 c = Done (rotate_left k out)"
    by (cases "shuffle_times 18 (rotate_left k out)") auto
  have "length c = 54" using shuffle_times_length [OF c(1)] len(2) by simp
  moreover have "mock_addr_canonicalize CANONICAL_LENGTH human = Done (Inr c)"
    using assms(1,2) c(1) by (simp add: mock_addr_canonicalize_def CANONICAL_LENGTH_def SHUFFLES_ENCODE_def Let_def out_def k_def)
  moreover have "filter (\<lambda>x. x \<noteq> 0) out = ascii human"
  proof -
    have "take 54 (ascii human) = ascii human" using assms(2) by (simp add: CANONICAL_LENGTH_def)
    moreover have "filter (\<lambda>x. x \<noteq> 0) (ascii human) = ascii human" using assms(3) by (auto intro: filter_True)
    ultimately show ?thesis by (simp add: out_def vec_resize_def filter_replicate)
  qed
  moreover have "k \<le> length out" using len by (simp add: k_def)
  then have "rotate_right k (rotate_left k out) = out" by (rule rotate_right_left)
  moreover have "digit_sum (rotate_left k out) mod 54 = k" by (simp add: digit_sum_rotate k_def)
  ultimately have "mock_addr_humanize CANONICAL_LENGTH c = Done (Inr human)"
    using c(2) assms(4)
    by (simp add: mock_addr_humanize_def CANONICAL_LENGTH_def SHUFFLES_DECODE_def Let_def string_from_utf8_Ok_iff map_err_eq_Ok_iff)
  with \<open>length c = 54\<close> \<open>mock_addr_canonicalize CANONICAL_LENGTH human = _\<close> show ?thesis by (auto simp: CANONICAL_LENGTH_def)
qed

end
