(* ===== verification/VM_Mock_Backend.thy ===== *)
theory VM_Mock_Backend
  imports VM_Instance VM_Mock_Storage Std_Mock
begin

text \<open>
  The rest of \<open>packages/vm/src/testing\<close>: the API and the querier with gas costs (\<open>mock.rs\<close>, \<open>querier.rs\<close>),
  instances for integration tests (\<open>instance.rs\<close>) and calls that expect success (\<open>calls.rs\<close>).
\<close>

section \<open>The API\<close>

definition GAS_COST_HUMANIZE :: u64 where "GAS_COST_HUMANIZE = 44"

definition GAS_COST_CANONICALIZE :: u64 where "GAS_COST_CANONICALIZE = 55"

record vm_mock_api =
  ma_canonical_length :: nat
  ma_backend_error :: "string option"

definition vm_mock_api_default :: vm_mock_api where
  "vm_mock_api_default = \<lparr>ma_canonical_length = CANONICAL_LENGTH, ma_backend_error = None\<rparr>"

definition vm_mock_api_new_failing :: "string \<Rightarrow> vm_mock_api" where
  "vm_mock_api_new_failing backend_error = vm_mock_api_default\<lparr>ma_backend_error := Some backend_error\<rparr>"

definition vm_canonical_address :: "vm_mock_api \<Rightarrow> string \<Rightarrow> bytes backend_result outcome" where
  "vm_canonical_address self human =
     (let gas_info = gas_info_with_cost GAS_COST_CANONICALIZE in
      case ma_backend_error self of
        Some backend_error \<Rightarrow> Done (Inl (Unknown (Some backend_error)), gas_info)
      | None \<Rightarrow>
          if length human < 3 then Done (Inl (UserErr ''Invalid input: human address too short''), gas_info)
          else if ma_canonical_length self < length human
          then Done (Inl (UserErr ''Invalid input: human address too long''), gas_info)
          else let out = vec_resize (ma_canonical_length self) 0 (ascii human);
                   rotate_by = digit_sum out mod ma_canonical_length self
               in omap (\<lambda>out. (Inr out, gas_info)) (shuffle_times SHUFFLES_ENCODE (rotate_left rotate_by out)))"

definition vm_human_address :: "vm_mock_api \<Rightarrow> bytes \<Rightarrow> string backend_result outcome" where
  "vm_human_address self canonical =
     (let gas_info = gas_info_with_cost GAS_COST_HUMANIZE in
      case ma_backend_error self of
        Some backend_error \<Rightarrow> Done (Inl (Unknown (Some backend_error)), gas_info)
      | None \<Rightarrow>
          if length canonical \<noteq> ma_canonical_length self
          then Done (Inl (UserErr ''Invalid input: canonical address length not correct''), gas_info)
          else obind (shuffle_times SHUFFLES_DECODE canonical) (\<lambda>tmp.
               let rotate_by = digit_sum tmp mod ma_canonical_length self;
                   tmp = rotate_right rotate_by tmp;
                   trimmed = filter (\<lambda>x. x \<noteq> 0) tmp;
                   result = (case string_from_utf8 trimmed of Inr human \<Rightarrow> Inr human | Inl err \<Rightarrow> Inl BackendInvalidUtf8)
               in Done (result, gas_info)))"

section \<open>The querier\<close>

definition GAS_COST_QUERY_FLAT :: u64 where "GAS_COST_QUERY_FLAT = 100000"

definition GAS_COST_QUERY_REQUEST_MULTIPLIER :: u64 where "GAS_COST_QUERY_REQUEST_MULTIPLIER = 0"

definition GAS_COST_QUERY_RESPONSE_MULTIPLIER :: u64 where "GAS_COST_QUERY_RESPONSE_MULTIPLIER = 100"

definition vm_query_raw ::
  "response_codecs \<Rightarrow> 'c query_request json \<Rightarrow> querier_result json \<Rightarrow> 'c mock_querier \<Rightarrow> bytes \<Rightarrow> u64 \<Rightarrow>
    querier_result backend_result outcome" where
  "vm_query_raw R J JR self bin_request gas_limit_arg =
     (let response = mock_raw_query R J self bin_request in
      obind (unwrap_ok (to_vec JR response)) (\<lambda>bytes.
      let gas_info = gas_info_with_externally_used
            (GAS_COST_QUERY_FLAT + GAS_COST_QUERY_REQUEST_MULTIPLIER * word_of_nat (length bin_request)
             + GAS_COST_QUERY_RESPONSE_MULTIPLIER * word_of_nat (length bytes))
      in if gas_limit_arg < externally_used gas_info then Done (Inl OutOfGas, gas_info)
         else Done (Inr response, gas_info)))"

definition vm_mock_query ::
  "response_codecs \<Rightarrow> 'c query_request json \<Rightarrow> querier_result json \<Rightarrow> 'c mock_querier \<Rightarrow> 'c query_request \<Rightarrow> u64 \<Rightarrow>
    querier_result backend_result outcome" where
  "vm_mock_query R J JR self request gas_limit_arg =
     (case to_vec J request of
        Inr request_binary \<Rightarrow> vm_query_raw R J JR self request_binary gas_limit_arg
      | Inl err \<Rightarrow>
          Done (Inr (SystemErr (InvalidRequest (''Serializing query request: '' @ show_std_error err) (ascii ''N/A''))),
                gas_info_with_externally_used (word_of_nat (length (show_std_error err)))))"

record ('s, 'q) vm_backend =
  be_api :: vm_mock_api
  be_storage :: 's
  be_querier :: 'q

definition vm_mock_backend :: "coin list \<Rightarrow> (mock_storage, 'c mock_querier) vm_backend" where
  "vm_mock_backend contract_balance =
     \<lparr>be_api = vm_mock_api_default, be_storage = mock_storage_new,
      be_querier = mock_querier_new [(MOCK_CONTRACT_ADDR, contract_balance)]\<rparr>"

definition vm_mock_backend_with_balances :: "(string \<times> coin list) list \<Rightarrow> (mock_storage, 'c mock_querier) vm_backend" where
  "vm_mock_backend_with_balances balances =
     \<lparr>be_api = vm_mock_api_default, be_storage = mock_storage_new, be_querier = mock_querier_new balances\<rparr>"

section \<open>Instances for tests\<close>

definition DEFAULT_GAS_LIMIT :: u64 where "DEFAULT_GAS_LIMIT = 500000000000"

definition DEFAULT_MEMORY_LIMIT :: "size_of option" where "DEFAULT_MEMORY_LIMIT = Some (size_mebi 16)"

definition DEFAULT_PRINT_DEBUG :: bool where "DEFAULT_PRINT_DEBUG = True"

record mock_options =
  mo_balances :: "(string \<times> coin list) list"
  mo_contract_balance :: "coin list option"
  mo_backend_error :: "string option"
  mo_supported_features :: "string set"
  mo_gas_limit :: u64
  mo_print_debug :: bool
  mo_memory_limit :: "size_of option"

definition default_features :: "string set" where
  "default_features = insert ''stargate'' (features_from_csv ''iterator,staking'')"

definition mock_instance_options_default :: mock_options where
  "mock_instance_options_default =
     \<lparr>mo_balances = [], mo_contract_balance = None, mo_backend_error = None, mo_supported_features = default_features,
      mo_gas_limit = DEFAULT_GAS_LIMIT, mo_print_debug = DEFAULT_PRINT_DEBUG, mo_memory_limit = DEFAULT_MEMORY_LIMIT\<rparr>"

text \<open>\<open>Vec::remove\<close> of the first entry for the contract.\<close>

fun remove_entry :: "string \<Rightarrow> (string \<times> 'b) list \<Rightarrow> (string \<times> 'b) list" where
  "remove_entry a [] = []"
| "remove_entry a ((k, v) # xs) = (if k = a then xs else (k, v) # remove_entry a xs)"

definition merge_balances :: "(string \<times> coin list) list \<Rightarrow> coin list option \<Rightarrow> (string \<times> coin list) list" where
  "merge_balances balances contract_balance =
     (case contract_balance of
        None \<Rightarrow> balances
      | Some cs \<Rightarrow> remove_entry MOCK_CONTRACT_ADDR balances @ [(MOCK_CONTRACT_ADDR, cs)])"

text \<open>
  The host depends on the API and on whether debug messages are printed. Parsing, compiling and starting a
  module are parameters, as in theory VM_Instance.
\<close>

definition mock_instance_with_options ::
  "(vm_mock_api \<Rightarrow> bool \<Rightarrow> (mock_storage, 'c mock_querier, 'w, 'r) host) \<Rightarrow> 'p wasm_parser \<Rightarrow>
    (bytes \<Rightarrow> size_of option \<Rightarrow> 'm vm_result) \<Rightarrow>
    ('m \<Rightarrow> (mock_storage, 'c mock_querier, 'w) import_object \<Rightarrow> (string, 'w) result) \<Rightarrow> bytes \<Rightarrow> mock_options \<Rightarrow>
    (mock_storage, 'c mock_querier, 'w) context_data outcome" where
  "mock_instance_with_options mk_host P compile inst wasm options =
     obind (check_wasm P wasm (mo_supported_features options)) (\<lambda>r.
     obind (unwrap_ok r) (\<lambda>_.
     let balances = merge_balances (mo_balances options) (mo_contract_balance options);
         api = (case mo_backend_error options of
                  Some backend_error \<Rightarrow> vm_mock_api_new_failing backend_error
                | None \<Rightarrow> vm_mock_api_default);
         inst_options = \<lparr>io_gas_limit = mo_gas_limit options, io_print_debug = mo_print_debug options\<rparr>
     in obind (instance_from_code (mk_host api (mo_print_debug options)) compile inst wasm mock_storage_new
                 (mock_querier_new balances) inst_options (mo_memory_limit options)) unwrap_ok))"

definition mock_instance where
  "mock_instance mk_host P compile inst wasm contract_balance =
     mock_instance_with_options mk_host P compile inst wasm
       (mock_instance_options_default\<lparr>mo_contract_balance := Some contract_balance\<rparr>)"

definition mock_instance_with_failing_api where
  "mock_instance_with_failing_api mk_host P compile inst wasm contract_balance backend_error =
     mock_instance_with_options mk_host P compile inst wasm
       (mock_instance_options_default\<lparr>mo_contract_balance := Some contract_balance, mo_backend_error := Some backend_error\<rparr>)"

definition mock_instance_with_balances where
  "mock_instance_with_balances mk_host P compile inst wasm balances =
     mock_instance_with_options mk_host P compile inst wasm (mock_instance_options_default\<lparr>mo_balances := balances\<rparr>)"

definition mock_instance_with_gas_limit where
  "mock_instance_with_gas_limit mk_host P compile inst wasm limit =
     mock_instance_with_options mk_host P compile inst wasm (mock_instance_options_default\<lparr>mo_gas_limit := limit\<rparr>)"

definition mock_instance_options :: "instance_options \<times> size_of option" where
  "mock_instance_options =
     (\<lparr>io_gas_limit = DEFAULT_GAS_LIMIT, io_print_debug = DEFAULT_PRINT_DEBUG\<rparr>, DEFAULT_MEMORY_LIMIT)"

section \<open>Calls that expect success\<close>

definition pexpect :: "string \<Rightarrow> ('s, 'e, 'a) prog \<Rightarrow> 's \<Rightarrow> ('a \<times> 's) outcome" where
  "pexpect m p env =
     obind (p env) (\<lambda>(r, env'). case r of Inr x \<Rightarrow> Done (x, env') | Inl e \<Rightarrow> Panic m)"

text \<open>A round trip through the memory of the instance for one size and byte.\<close>

definition test_io_one :: "('s, 'q, 'w, 'r) host \<Rightarrow> nat \<Rightarrow> u8 \<Rightarrow> ('s, 'q, 'w) context_data \<Rightarrow> (unit \<times> ('s, 'q, 'w) context_data) outcome" where
  "test_io_one H n byte env =
     (let original = replicate n byte in
      obind (pexpect ''Could not allocate memory'' (instance_allocate H (length original)) env) (\<lambda>(wasm_ptr, env).
      obind (pexpect ''Could not write data'' (instance_write_memory H wasm_ptr original) env) (\<lambda>(_, env).
      obind (pexpect ''error reading'' (instance_read_memory H wasm_ptr n) env) (\<lambda>(wasm_data, env).
      if original \<noteq> wasm_data then Panic (''failed for size '' @ show_nat n)
      else pexpect ''Could not deallocate memory'' (instance_deallocate H wasm_ptr) env))))"

fun test_io_loop :: "('s, 'q, 'w, 'r) host \<Rightarrow> (nat \<times> u8) list \<Rightarrow> ('s, 'q, 'w) context_data \<Rightarrow> (unit \<times> ('s, 'q, 'w) context_data) outcome" where
  "test_io_loop H [] env = Done ((), env)"
| "test_io_loop H ((n, byte) # rest) env = obind (test_io_one H n byte env) (\<lambda>(_, env). test_io_loop H rest env)"

definition test_io :: "('s, 'q, 'w, 'r) host \<Rightarrow> ('s, 'q, 'w) context_data \<Rightarrow> (unit \<times> ('s, 'q, 'w) context_data) outcome" where
  "test_io H = test_io_loop H (List.product [0, 1, 3, 10, 200, 2000, 5 * 1024] [0x00, 0xA5, 0xFF])"

text \<open>\<open>expect\<close> of the serialized message, then of the call.\<close>

definition with_serialized where
  "with_serialized Sm msg call env =
     obind (expect_ok ''Testing error: Could not seralize request message'' (vm_to_vec Sm msg)) (\<lambda>serialized_msg.
     pexpect ''VM error'' (call serialized_msg) env)"

definition test_instantiate where
  "test_instantiate H Se Si Sx Sm env info msg = with_serialized Sm msg (call_instantiate H Se Si Sx env info)"

definition test_execute where
  "test_execute H Se Si Sx Sm env info msg = with_serialized Sm msg (call_execute H Se Si Sx env info)"

definition test_migrate where
  "test_migrate H Se Sx Sm env msg = with_serialized Sm msg (call_migrate H Se Sx env)"

definition test_sudo where
  "test_sudo H Se Sx Sm env msg = with_serialized Sm msg (call_sudo H Se Sx env)"

definition test_query where
  "test_query H Se Sx json_value Sm env msg = with_serialized Sm msg (call_query H Se Sx json_value env)"

definition test_reply where
  "test_reply H Se Sm Sx env msg = pexpect ''VM error'' (call_reply H Se Sm Sx env msg)"

definition test_ibc_channel_open where
  "test_ibc_channel_open H Se Sm Sx env msg = pexpect ''VM error'' (call_ibc_channel_open H Se Sm Sx env msg)"

definition test_ibc_channel_connect where
  "test_ibc_channel_connect H Se Sm Sx env msg = pexpect ''VM error'' (call_ibc_channel_connect H Se Sm Sx env msg)"

definition test_ibc_channel_close where
  "test_ibc_channel_close H Se Sm Sx env msg = pexpect ''VM error'' (call_ibc_channel_close H Se Sm Sx env msg)"

definition test_ibc_packet_receive where
  "test_ibc_packet_receive H Se Sm Sx env msg = pexpect ''VM error'' (call_ibc_packet_receive H Se Sm Sx env msg)"

definition test_ibc_packet_ack where
  "test_ibc_packet_ack H Se Sm Sx env msg = pexpect ''VM error'' (call_ibc_packet_ack H Se Sm Sx env msg)"

definition test_ibc_packet_timeout where
  "test_ibc_packet_timeout H Se Sm Sx env msg = pexpect ''VM error'' (call_ibc_packet_timeout H Se Sm Sx env msg)"

section \<open>Facts\<close>

text \<open>The two mock APIs agree: the same addresses, the errors as user errors, and the cost of gas on top.\<close>

lemma vm_canonical_address_agrees:
  "vm_canonical_address vm_mock_api_default human =
     omap (\<lambda>r. (case r of Inr out \<Rightarrow> Inr out | Inl (GenericErr msg) \<Rightarrow> Inl (UserErr msg) | Inl _ \<Rightarrow> Inl (Unknown None),
       gas_info_with_cost GAS_COST_CANONICALIZE)) (mock_addr_canonicalize CANONICAL_LENGTH human)"
  by (cases "shuffle_times SHUFFLES_ENCODE (rotate_left (digit_sum (vec_resize CANONICAL_LENGTH 0 (ascii human)) mod CANONICAL_LENGTH)
        (vec_resize CANONICAL_LENGTH 0 (ascii human)))")
    (simp_all add: vm_canonical_address_def vm_mock_api_default_def mock_addr_canonicalize_def Let_def)

text \<open>The balance of the contract that is given explicitly wins, the others are kept.\<close>

lemma remove_entry_set: "distinct (map fst xs) \<Longrightarrow> set (remove_entry a xs) = {(k, v) \<in> set xs. k \<noteq> a}"
  by (induction a xs rule: remove_entry.induct) (auto simp: image_iff)

lemma bank_querier_new_append: "bank_querier_new (xs @ [(a, cs)]) = (bank_querier_new xs)(a \<mapsto> cs)"
  by (simp add: bank_querier_new_def)

lemma merged_contract_balance:
  "bank_querier_new (merge_balances balances (Some cs)) MOCK_CONTRACT_ADDR = Some cs"
  by (simp add: merge_balances_def bank_querier_new_append)

end
