(* ===== verification/Contract_Hackatom.thy ===== *)
theory Contract_Hackatom
  imports Contract_Deps
begin

text \<open>
  The contract \<open>contracts/hackatom/src\<close>: an escrow that pays its balance to a beneficiary when the verifier
  asks for it, with a number of messages that misbehave on purpose. Parameters stand for the crates \<open>argon2\<close> and
  \<open>sha2\<close>, for the instruction that grows the memory, for the derived \<open>Debug\<close> text of an error and for
  the number of elements a vector can grow to. Messages that loop run as partial functions, whose value \<open>None\<close>
  is a run without end. Also \<open>contracts/floaty/src\<close>, a copy of the escrow that computes with floats; the text of
  the float is a parameter.
\<close>

section \<open>state.rs, msg.rs and errors.rs\<close>

definition CONFIG_KEY :: bytes where "CONFIG_KEY = ascii ''config''"

record hackatom_state =
  hs_verifier :: string
  hs_beneficiary :: string
  hs_funder :: string

record hackatom_instantiate_msg =
  hi_verifier :: string
  hi_beneficiary :: string

datatype hackatom_migrate_msg = HackMigrate (hm_verifier: string)

datatype hackatom_sudo_msg = StealFunds string "coin list"

datatype hackatom_execute_msg =
    Release
  | Argon2 u32 u32
  | CpuLoop
  | StorageLoop
  | MemoryLoop
  | MessageLoop
  | AllocateLargeMemory u32
  | PanicMsg
  | UserErrorsInApiCalls

datatype hackatom_query_msg = QVerifier | QOtherBalance string | QRecurse u32 u32 | QGetInt

datatype verifier_response = VerifierResponse string

datatype recurse_response = RecurseResponse bytes

datatype int_response = IntResponse u32

datatype hack_error = HackStd std_error | HackUnauthorized

text \<open>Third-party code and the machine.\<close>

record argon2_config =
  ac_mem_cost :: u32
  ac_time_cost :: u32
  ac_lanes :: u32
  ac_secret :: bytes
  ac_ad :: bytes
  ac_hash_length :: u32

record hackatom_host =
  hh_hash_encoded :: "bytes \<Rightarrow> bytes \<Rightarrow> argon2_config \<Rightarrow> (string, string) result"
  hh_sha256 :: "bytes \<Rightarrow> bytes"
  hh_memory_grow :: "u32 \<Rightarrow> u32"
  hh_debug_text :: "std_error \<Rightarrow> string"
  hh_room :: nat

record hackatom_codecs =
  hj_state :: "hackatom_state json"
  hj_execute :: "hackatom_execute_msg json"
  hj_query :: "hackatom_query_msg json"
  hj_verifier :: "verifier_response json"
  hj_recurse :: "recurse_response json"
  hj_int :: "int_response json"

section \<open>Entry points that change the configuration\<close>

definition store_value :: "'s storage_ops \<Rightarrow> bytes \<Rightarrow> bytes \<Rightarrow> ('s, 'e, unit) prog" where
  "store_value S key val s = omap (\<lambda>t. (Inr (), t)) (st_set S s key val)"

definition hackatom_instantiate :: "'s storage_ops \<Rightarrow> hackatom_state json \<Rightarrow> 'c deps \<Rightarrow> message_info \<Rightarrow>
    hackatom_instantiate_msg \<Rightarrow> ('s, hack_error, 'd response) prog" where
  "hackatom_instantiate S J d info msg =
     pmap_err HackStd
       (pbind (plift (addr_validate (dp_api d) (hi_verifier msg))) (\<lambda>verifier.
        pbind (plift (addr_validate (dp_api d) (hi_beneficiary msg))) (\<lambda>beneficiary.
        pbind (plift (to_vec J \<lparr>hs_verifier = verifier, hs_beneficiary = beneficiary, hs_funder = mi_sender info\<rparr>)) (\<lambda>data.
        pbind (store_value S CONFIG_KEY data) (\<lambda>_.
        preturn (add_attribute ''Let the'' ''hacking begin'' response_new))))))"

definition load_state :: "'s storage_ops \<Rightarrow> hackatom_state json \<Rightarrow> ('s, std_error, hackatom_state) prog" where
  "load_state S J s =
     Done (rbind (ok_or (NotFound ''State'') (st_get S s CONFIG_KEY)) (from_slice J), s)"

definition hackatom_migrate :: "'s storage_ops \<Rightarrow> hackatom_state json \<Rightarrow> 'c deps \<Rightarrow> hackatom_migrate_msg \<Rightarrow>
    ('s, hack_error, 'd response) prog" where
  "hackatom_migrate S J d msg =
     pmap_err HackStd
       (pbind (load_state S J) (\<lambda>config.
        pbind (plift (addr_validate (dp_api d) (hm_verifier msg))) (\<lambda>verifier.
        pbind (plift (to_vec J (config\<lparr>hs_verifier := verifier\<rparr>))) (\<lambda>data.
        pbind (store_value S CONFIG_KEY data) (\<lambda>_.
        preturn response_new)))))"

fun hackatom_sudo :: "hackatom_sudo_msg \<Rightarrow> ('s, hack_error, 'd response) prog" where
  "hackatom_sudo (StealFunds recipient amt) = preturn (add_message (MsgBank (BankSend recipient amt)) response_new)"

section \<open>Execution\<close>

definition do_release :: "'s storage_ops \<Rightarrow> hackatom_state json \<Rightarrow> 'c deps \<Rightarrow> env_info \<Rightarrow> message_info \<Rightarrow>
    ('s, hack_error, 'd response) prog" where
  "do_release S J d env info =
     pbind (pmap_err HackStd (load_state S J)) (\<lambda>state.
     if mi_sender info = hs_verifier state
     then
       pbind (plift (map_err HackStd (query_all_balances (dp_querier d) (dp_responses d) (env_contract env)))) (\<lambda>balance.
       preturn
         (set_data [0xF0, 0x0B, 0xAA]
         (add_message (MsgBank (BankSend (hs_beneficiary state) balance))
         (add_event (event_add_attribute (event_new ''hackatom'') ''action'' ''release'')
         (add_attribute ''destination'' (hs_beneficiary state)
         (add_attribute ''action'' ''release'' response_new))))))
     else pfail HackUnauthorized)"

definition do_argon2 :: "hackatom_host \<Rightarrow> u32 \<Rightarrow> u32 \<Rightarrow> ('s, hack_error, 'd response) prog" where
  "do_argon2 H mem_cost time_cost =
     (let config = \<lparr>ac_mem_cost = mem_cost, ac_time_cost = time_cost, ac_lanes = 4, ac_secret = [], ac_ad = [],
        ac_hash_length = 32\<rparr>
      in pbind (plift (map_err (\<lambda>e. HackStd (GenericErr (''hash_encoded errored: '' @ e)))
           (hh_hash_encoded H (ascii ''password'') (ascii ''othersalt'') config))) (\<lambda>hash.
         preturn (set_data (ascii hash) response_new)))"

partial_function (option) cpu_loop :: "u64 \<Rightarrow> 'a option" where
  [code]: "cpu_loop counter =
     (let counter' = counter + 1 in cpu_loop (if 9000000000 \<le> counter' then 0 else counter'))"

definition do_cpu_loop :: "'s \<Rightarrow> ((hack_error, 'd response) result \<times> 's) outcome option" where
  "do_cpu_loop s = cpu_loop 0"

text \<open>The storage loop ends with the overflow of its counter, if the host does not end it before.\<close>

partial_function (option) storage_loop :: "'s storage_ops \<Rightarrow> u64 \<Rightarrow> 's \<Rightarrow> 'a outcome option" where
  [code]: "storage_loop S test_case s =
     (case st_set S s (ascii ''test.key'') (ascii (to_string test_case)) of
        Panic m \<Rightarrow> Some (Panic m)
      | Done t \<Rightarrow>
          (case plain_add test_case 1 of
             Panic m \<Rightarrow> Some (Panic m)
           | Done n \<Rightarrow> storage_loop S n t))"

definition do_storage_loop :: "'s storage_ops \<Rightarrow> 's \<Rightarrow> ((hack_error, 'd response) result \<times> 's) outcome option" where
  "do_storage_loop S s = storage_loop S 0 s"

partial_function (option) memory_loop :: "nat \<Rightarrow> u32 list \<Rightarrow> 'a outcome option" where
  [code]: "memory_loop room data =
     (case (if data = [] then Panic ''must not be empty'' else plain_add (last data) 1) of
        Panic m \<Rightarrow> Some (Panic m)
      | Done next_elem \<Rightarrow>
          if room \<le> length data then Some (Panic ''memory allocation failed'') else memory_loop room (data @ [next_elem]))"

definition do_memory_loop :: "hackatom_host \<Rightarrow> 's \<Rightarrow> ((hack_error, 'd response) result \<times> 's) outcome option" where
  "do_memory_loop H s = memory_loop (hh_room H) [1]"

definition do_message_loop :: "hackatom_codecs \<Rightarrow> env_info \<Rightarrow> ('s, hack_error, 'd response) prog" where
  "do_message_loop X env =
     pbind (plift (map_err HackStd (to_vec (hj_execute X) MessageLoop))) (\<lambda>msg.
     preturn (add_message (MsgWasm (WasmExecute (env_contract env) msg [])) response_new))"

text \<open>\<open>memory.grow\<close> returns the old size in pages, or the largest value when it fails.\<close>

definition do_allocate_large_memory :: "hackatom_host \<Rightarrow> u32 \<Rightarrow> ('s, hack_error, 'd response) prog" where
  "do_allocate_large_memory H pages =
     (let old_size = hh_memory_grow H pages
      in if old_size = - 1 then pfail (HackStd (GenericErr ''memory.grow failed''))
         else preturn (set_data (to_be_bytes old_size) response_new))"

definition do_panic :: "('s, hack_error, 'd response) prog" where
  "do_panic = ppanic ''This page intentionally faulted''"

definition expect_user_error :: "hackatom_host \<Rightarrow> 'a std_result \<Rightarrow> (hack_error, unit) result outcome" where
  "expect_user_error H r =
     obind (unwrap_err r) (\<lambda>err.
     case err of
       GenericErr _ \<Rightarrow> Done (Inr ())
     | _ \<Rightarrow> Done (Inl (HackStd (GenericErr (''Unexpected error in do_user_errors_in_api_calls: '' @ hh_debug_text H err)))))"

definition do_user_errors_in_api_calls :: "hackatom_host \<Rightarrow> contract_api \<Rightarrow> ('s, hack_error, 'd response) prog" where
  "do_user_errors_in_api_calls H api =
     pbind (lift_or (expect_user_error H (addr_canonicalize api ''''))) (\<lambda>_.
     pbind (lift_or (expect_user_error H (addr_canonicalize api
       ''bn9hhssomeltvhzgvuqkwjkpwxojfuigltwedayzxljucefikuieillowaticksoistqoynmgcnj219a''))) (\<lambda>_.
     pbind (lift_or (expect_user_error H (addr_humanize api []))) (\<lambda>_.
     pbind (lift_or (expect_user_error H (addr_humanize api [0xAA, 0xBB, 0xCC]))) (\<lambda>_.
     pbind (lift_or (expect_user_error H (addr_humanize api (replicate 17 0xA6)))) (\<lambda>_.
     preturn response_new)))))"

definition hackatom_execute :: "hackatom_host \<Rightarrow> 's storage_ops \<Rightarrow> hackatom_codecs \<Rightarrow> 'c deps \<Rightarrow> env_info \<Rightarrow>
    message_info \<Rightarrow> hackatom_execute_msg \<Rightarrow> 's \<Rightarrow> ((hack_error, 'd response) result \<times> 's) outcome option" where
  "hackatom_execute H S X d env info msg s =
     (case msg of
        Release \<Rightarrow> Some (do_release S (hj_state X) d env info s)
      | Argon2 mem_cost time_cost \<Rightarrow> Some (do_argon2 H mem_cost time_cost s)
      | CpuLoop \<Rightarrow> do_cpu_loop s
      | StorageLoop \<Rightarrow> do_storage_loop S s
      | MemoryLoop \<Rightarrow> do_memory_loop H s
      | MessageLoop \<Rightarrow> Some (do_message_loop X env s)
      | AllocateLargeMemory pages \<Rightarrow> Some (do_allocate_large_memory H pages s)
      | PanicMsg \<Rightarrow> Some (do_panic s)
      | UserErrorsInApiCalls \<Rightarrow> Some (do_user_errors_in_api_calls H (dp_api d) s))"

section \<open>Queries\<close>

definition query_verifier :: "'s storage_ops \<Rightarrow> hackatom_state json \<Rightarrow> ('s, std_error, verifier_response) prog" where
  "query_verifier S J = pbind (load_state S J) (\<lambda>state. preturn (VerifierResponse (hs_verifier state)))"

definition query_other_balance :: "'c deps \<Rightarrow> string \<Rightarrow> all_balance_response std_result" where
  "query_other_balance d address =
     map_ok AllBalanceResponse (query_all_balances (dp_querier d) (dp_responses d) address)"

definition query_recurse :: "hackatom_host \<Rightarrow> hackatom_codecs \<Rightarrow> 'c deps \<Rightarrow> u32 \<Rightarrow> u32 \<Rightarrow> string \<Rightarrow> recurse_response std_result" where
  "query_recurse H X d depth work contract =
     (let hashed = (hh_sha256 H ^^ unat work) (ascii contract)
      in if depth = 0 then Inr (RecurseResponse hashed)
         else rbind (to_vec (hj_query X) (QRecurse (depth - 1) work)) (\<lambda>msg.
              query (dp_querier d) (hj_recurse X) (QueryWasm (Smart contract msg))))"

definition query_int :: int_response where
  "query_int = IntResponse 0xf00baa"

definition hackatom_query :: "hackatom_host \<Rightarrow> 's storage_ops \<Rightarrow> hackatom_codecs \<Rightarrow> 'c deps \<Rightarrow> env_info \<Rightarrow>
    hackatom_query_msg \<Rightarrow> ('s, std_error, bytes) prog" where
  "hackatom_query H S X d env msg =
     (case msg of
        QVerifier \<Rightarrow> pbind (query_verifier S (hj_state X)) (\<lambda>r. plift (to_vec (hj_verifier X) r))
      | QOtherBalance address \<Rightarrow> plift (rbind (query_other_balance d address) (to_vec (all_balance_json (dp_responses d))))
      | QRecurse depth work \<Rightarrow> plift (rbind (query_recurse H X d depth work (env_contract env)) (to_vec (hj_recurse X)))
      | QGetInt \<Rightarrow> plift (to_vec (hj_int X) query_int))"

section \<open>Floaty\<close>

text \<open>
  The same escrow with one message. The first coin is indexed, and the text of three tenths of its amount, computed as a
  float, becomes an attribute.
\<close>

definition floaty_instantiate :: "'s storage_ops \<Rightarrow> hackatom_state json \<Rightarrow> 'c deps \<Rightarrow> message_info \<Rightarrow>
    hackatom_instantiate_msg \<Rightarrow> ('s, hack_error, 'd response) prog" where
  "floaty_instantiate = hackatom_instantiate"

definition floaty_execute :: "(u128 \<Rightarrow> string) \<Rightarrow> 's storage_ops \<Rightarrow> hackatom_state json \<Rightarrow> 'c deps \<Rightarrow> env_info \<Rightarrow>
    message_info \<Rightarrow> ('s, hack_error, 'd response) prog" where
  "floaty_execute tenths_text S J d env info =
     pbind (pmap_err HackStd (load_state S J)) (\<lambda>state.
     if mi_sender info = hs_verifier state
     then
       pbind (plift (map_err HackStd (query_all_balances (dp_querier d) (dp_responses d) (env_contract env)))) (\<lambda>balance.
       case balance of
         [] \<Rightarrow> ppanic ''index out of bounds: the len is 0 but the index is 0''
       | c # _ \<Rightarrow> preturn
         (set_data [0xF0, 0x0B, 0xAA]
         (add_message (MsgBank (BankSend (hs_beneficiary state) balance))
         (add_event (event_add_attribute (event_new ''hackatom'') ''action'' ''release'')
         (add_attribute ''foo'' (tenths_text (u128 (amount c)))
         (add_attribute ''destination'' (hs_beneficiary state)
         (add_attribute ''action'' ''release'' response_new)))))))
     else pfail HackUnauthorized)"

datatype floaty_query_msg = FloatyVerifier | FloatyOtherBalance string | FloatyRecurse u32 u32

record floaty_codecs =
  fj_state :: "hackatom_state json"
  fj_query :: "floaty_query_msg json"
  fj_verifier :: "verifier_response json"
  fj_recurse :: "recurse_response json"

definition floaty_query_verifier :: "'s storage_ops \<Rightarrow> hackatom_state json \<Rightarrow> ('s, std_error, verifier_response) prog" where
  "floaty_query_verifier S J = pbind (load_state S J) (\<lambda>state. preturn (VerifierResponse (hs_verifier state)))"

definition floaty_query_other_balance :: "'c deps \<Rightarrow> string \<Rightarrow> all_balance_response std_result" where
  "floaty_query_other_balance d address =
     map_ok AllBalanceResponse (query_all_balances (dp_querier d) (dp_responses d) address)"

definition floaty_query_recurse ::
  "(bytes \<Rightarrow> bytes) \<Rightarrow> floaty_codecs \<Rightarrow> 'c deps \<Rightarrow> u32 \<Rightarrow> u32 \<Rightarrow> string \<Rightarrow> recurse_response std_result" where
  "floaty_query_recurse sha256 X d depth work contract =
     (let hashed = (sha256 ^^ unat work) (ascii contract)
      in if depth = 0 then Inr (RecurseResponse hashed)
         else rbind (to_vec (fj_query X) (FloatyRecurse (depth - 1) work)) (\<lambda>msg.
              query (dp_querier d) (fj_recurse X) (QueryWasm (Smart contract msg))))"

definition floaty_query :: "(bytes \<Rightarrow> bytes) \<Rightarrow> 's storage_ops \<Rightarrow> floaty_codecs \<Rightarrow> 'c deps \<Rightarrow> env_info \<Rightarrow>
    floaty_query_msg \<Rightarrow> ('s, std_error, bytes) prog" where
  "floaty_query sha256 S X d env msg =
     (case msg of
        FloatyVerifier \<Rightarrow> pbind (floaty_query_verifier S (fj_state X)) (\<lambda>r. plift (to_vec (fj_verifier X) r))
      | FloatyOtherBalance address \<Rightarrow>
          plift (rbind (floaty_query_other_balance d address) (to_vec (all_balance_json (dp_responses d))))
      | FloatyRecurse depth work \<Rightarrow>
          plift (rbind (floaty_query_recurse sha256 X d depth work (env_contract env)) (to_vec (fj_recurse X))))"

text \<open>A release by the verifier panics exactly when the contract owns nothing: it reads the first coin.\<close>

lemma floaty_release_panics_iff:
  assumes "load_state S J s = Done (Inr state, s)" and "mi_sender info = hs_verifier state"
    and "query_all_balances (dp_querier d) (dp_responses d) (env_contract env) = Inr balance"
  shows "panics (floaty_execute tenths_text S J d env info s) \<longleftrightarrow> balance = []"
  using assms
  by (cases balance) (simp_all add: floaty_execute_def pbind_def pmap_err_def plift_def ppanic_def preturn_def)

section \<open>Messages that never come to a result\<close>

lemma cpu_loop_no_result: "cpu_loop counter \<noteq> Some y"
  using cpu_loop.raw_induct [of "\<lambda>_ _. False" counter y] by (auto simp: Let_def)

lemma cpu_loop_diverges: "cpu_loop counter = None"
  using cpu_loop_no_result by (rule not_Some_eq [THEN iffD1, OF allI])

lemma storage_loop_panics: "\<exists>m. storage_loop S n s = Some (Panic m)"
proof (induction "2 ^ 64 - unat n" arbitrary: n s rule: less_induct)
  case less
  show ?case
  proof (cases "st_set S s (ascii ''test.key'') (ascii (to_string n))")
    case (Done t)
    show ?thesis
    proof (cases "plain_add n 1")
      fix n' assume n': "plain_add n 1 = Done n'"
      then have "unat n' = unat n + 1" "unat n' < 2 ^ 64"
        using unsigned_less [of n', where ?'a = nat] by (auto simp: plain_add_def expect_eq_Done_iff rust_simps)
      then have "2 ^ 64 - unat n' < 2 ^ 64 - unat n" by linarith
      from less [OF this, of t] show ?thesis using Done n' by (subst storage_loop.simps) simp
    qed (use Done in \<open>simp add: storage_loop.simps\<close>)
  qed (simp add: storage_loop.simps)
qed

lemma memory_loop_panics: "\<exists>m. memory_loop room data = Some (Panic m)"
proof (induction "room - length data" arbitrary: data rule: less_induct)
  case less
  show ?case
  proof (cases "if data = [] then Panic ''must not be empty'' else plain_add (last data) 1")
    case (Done x)
    show ?thesis
    proof (cases "room \<le> length data")
      case False
      then have "room - length (data @ [x]) < room - length data" by simp
      from less [OF this] show ?thesis using Done False by (subst memory_loop.simps) simp
    qed (use Done in \<open>simp add: memory_loop.simps\<close>)
  qed (simp add: memory_loop.simps)
qed

lemma loops_without_result [simp]:
  "cpu_loop counter \<noteq> Some r" "storage_loop S n s \<noteq> Some (Done x)" "memory_loop room data \<noteq> Some (Done x)"
  by (simp add: cpu_loop_diverges) (metis storage_loop_panics option.inject outcome.distinct(1), metis memory_loop_panics option.inject outcome.distinct(1))

section \<open>Who moves the funds\<close>

text \<open>
  The runs of the contract: an instantiation, then calls of the entry points by anyone, with any state of the
  chain, and migrations to new verifiers. The configuration is followed besides the storage.
\<close>

inductive hackatom_reachable :: "'s storage_ops \<Rightarrow> hackatom_codecs \<Rightarrow> 's \<Rightarrow> hackatom_state \<Rightarrow> 's \<Rightarrow> bool"
  for S X s0 where
  hack_instantiated: "hackatom_instantiate S (hj_state X) (d :: unit deps) info msg s0 = Done (Inr (res :: unit response), s) \<Longrightarrow>
    addr_validate (dp_api d) (hi_verifier msg) = Inr v \<Longrightarrow> addr_validate (dp_api d) (hi_beneficiary msg) = Inr b \<Longrightarrow>
    hackatom_reachable S X s0 \<lparr>hs_verifier = v, hs_beneficiary = b, hs_funder = mi_sender info\<rparr> s"
| hack_executed: "hackatom_reachable S X s0 st s \<Longrightarrow>
    hackatom_execute H S X (d :: unit deps) env info msg s = Some (Done (Inr (res :: unit response), s')) \<Longrightarrow>
    hackatom_reachable S X s0 st s'"
| hack_sudo_called: "hackatom_reachable S X s0 st s \<Longrightarrow> hackatom_sudo smsg s = Done (Inr (res :: unit response), s') \<Longrightarrow>
    hackatom_reachable S X s0 st s'"
| hack_migrated: "hackatom_reachable S X s0 st s \<Longrightarrow>
    hackatom_migrate S (hj_state X) (d :: unit deps) mmsg s = Done (Inr (res :: unit response), s') \<Longrightarrow>
    addr_validate (dp_api d) (hm_verifier mmsg) = Inr v \<Longrightarrow>
    hackatom_reachable S X s0 (st\<lparr>hs_verifier := v\<rparr>) s'"

definition configured :: "hackatom_state json \<Rightarrow> (bytes \<rightharpoonup> bytes) \<Rightarrow> hackatom_state \<Rightarrow> bool" where
  "configured J m st \<longleftrightarrow> (\<exists>b. m CONFIG_KEY = Some b \<and> from_slice J b = Inr st)"

lemma load_state_eq_Done_iff:
  "load_state S J s = Done (r, t) \<longleftrightarrow> rbind (ok_or (NotFound ''State'') (st_get S s CONFIG_KEY)) (from_slice J) = r \<and> t = s"
  by (auto simp: load_state_def)

lemmas hackatom_defs = do_release_def do_argon2_def do_message_loop_def do_allocate_large_memory_def do_panic_def
  do_user_errors_in_api_calls_def do_cpu_loop_def do_storage_loop_def do_memory_loop_def Let_def

lemma hackatom_keeps_storage:
  assumes "hackatom_execute H S X d env info msg s = Some (Done (r, s'))"
  shows "s' = s"
  by (cases msg) (use assms in \<open>auto simp: hackatom_execute_def hackatom_defs pbind_eq_Done_iff
    pmap_err_eq_Done_iff load_state_eq_Done_iff lift_or_eq_Done_iff split: if_splits\<close>)

text \<open>
  The messages of each entry point: a release sends the balance, the message loop calls the contract itself without
  funds, the chain's own call sends what it is told to, and the others send nothing.
\<close>

lemma hackatom_execute_messages:
  assumes "hackatom_execute H S X d env info msg s = Some (Done (Inr res, s'))" "m \<in> set (r_messages res)"
  shows "(\<exists>b st amt. st_get S s CONFIG_KEY = Some b \<and> from_slice (hj_state X) b = Inr st \<and> msg = Release \<and>
      mi_sender info = hs_verifier st \<and> sm_msg m = MsgBank (BankSend (hs_beneficiary st) amt) \<and>
      query_all_balances (dp_querier d) (dp_responses d) (env_contract env) = Inr amt) \<or>
    (\<exists>b. msg = MessageLoop \<and> sm_msg m = MsgWasm (WasmExecute (env_contract env) b []))"
  by (cases msg) (use assms in \<open>auto simp: hackatom_execute_def hackatom_defs pbind_eq_Ok_iff
    pmap_err_eq_Ok_iff map_err_eq_Ok_iff load_state_eq_Done_iff lift_or_eq_Done_iff rbind_eq_Ok_iff ok_or_eq_Ok_iff
    set_data_def add_message_def add_event_def add_attribute_def response_new_def sub_msg_new_def split: if_splits\<close>)

lemma hackatom_no_messages:
  "hackatom_instantiate S J d info imsg s = Done (Inr res, s') \<Longrightarrow> r_messages res = []"
  "hackatom_migrate S J d mmsg s = Done (Inr res', s') \<Longrightarrow> r_messages res' = []"
  by (auto simp: hackatom_instantiate_def hackatom_migrate_def pmap_err_eq_Ok_iff pbind_eq_Ok_iff add_attribute_def response_new_def)

lemma hackatom_sudo_messages:
  "hackatom_sudo (StealFunds to amt) s = Done (Inr res, s') \<Longrightarrow>
   map sm_msg (r_messages res) = [MsgBank (BankSend to amt)]"
  by (auto simp: add_message_def response_new_def sub_msg_new_def)

context key_value_store
begin

lemma store_value_Ok:
  assumes "valid s" "store_value S key v s = Done (Inr u, t)"
  shows "valid t \<and> view t = (view s)(key \<mapsto> v)"
proof -
  have "st_set S s key v = Done t" using assms(2) by (auto simp: store_value_def omap_eq_Done_iff)
  moreover have "v \<noteq> []" using set_empty [OF assms(1), of key] calculation by (metis panics.simps(2))
  ultimately show ?thesis using set_view [OF assms(1), of v key] by auto
qed

lemma configured_store:
  assumes "valid s" "json_codec J" "to_vec J st = Inr data" "store_value S CONFIG_KEY data s = Done (Inr u, t)"
  shows "valid t \<and> configured J (view t) st"
  using store_value_Ok [OF assms(1,4)] json_codec.to_vec_Ok [OF assms(2), of st] assms(3) by (auto simp: configured_def)

lemma load_state_configured: "valid s \<Longrightarrow> configured J (view s) st \<Longrightarrow> load_state S J s = Done (Inr st, s)"
  by (auto simp: load_state_def configured_def get_view)

lemma reachable_configured:
  assumes "valid s0" "json_codec (hj_state X)" "hackatom_reachable S X s0 st s"
  shows "valid s \<and> configured (hj_state X) (view s) st"
  using assms(3)
proof (induction rule: hackatom_reachable.induct)
  case (hack_instantiated d info msg res s v b)
  then show ?case using configured_store [OF assms(1,2)]
    by (auto simp: hackatom_instantiate_def pmap_err_eq_Ok_iff pbind_eq_Ok_iff)
next
  case (hack_executed st s H d env info msg res s')
  then show ?case using hackatom_keeps_storage [of H S X d env info msg s] by metis
next
  case (hack_sudo_called st s smsg res s')
  then show ?case by (cases smsg) auto
next
  case (hack_migrated st s d mmsg res s' v)
  then have load: "load_state S (hj_state X) s = Done (Inr st, s)" "valid s" using load_state_configured by auto
  show ?case using hack_migrated.hyps load configured_store [OF load(2) assms(2)]
    by (auto simp: hackatom_migrate_def pmap_err_eq_Ok_iff pbind_eq_Ok_iff)
qed

lemma release_runs:
  assumes "valid s" "configured (hj_state X) (view s) st" "mi_sender info = hs_verifier st"
    and "query_all_balances (dp_querier d) (dp_responses d) (env_contract env) = Inr amt"
  shows "\<exists>res. hackatom_execute H S X d env info Release s = Some (Done (Inr res, s)) \<and>
    map sm_msg (r_messages res) = [MsgBank (BankSend (hs_beneficiary st) amt)]"
  using assms(3,4) load_state_configured [OF assms(1,2)]
  by (auto simp: hackatom_execute_def do_release_def pbind_def pmap_err_def set_data_def add_message_def add_event_def
      add_attribute_def response_new_def sub_msg_new_def)

end

end
