(* ===== verification/Contract_Reflect.thy ===== *)
theory Contract_Reflect
  imports Contract_Deps Contract_Queue
begin

text \<open>
  Two small contracts. \<open>contracts/reflect/src\<close> sends on the messages that its owner passes and records the replies
  to sub-messages; its abstract specification is a state with an owner and a map of replies. \<open>contracts/burner/src\<close>
  is a target of migrations that deletes the storage and pays out the balance.
\<close>

section \<open>Reflect: state.rs, msg.rs and errors.rs\<close>

definition REFLECT_CONFIG_KEY :: bytes where "REFLECT_CONFIG_KEY = ascii ''config''"
definition RESULT_PREFIX :: bytes where "RESULT_PREFIX = ascii ''result''"

datatype reflect_state = ReflectState (rs_owner: string)

datatype custom_msg = CustomDebug string | CustomRaw bytes

datatype reflect_execute_msg =
    ReflectMsg "custom_msg cosmos_msg list"
  | ReflectSubMsg "custom_msg sub_msg list"
  | ChangeOwner string

datatype special_query = Ping | Capitalized string

datatype reflect_query_msg =
    QOwner
  | QCapitalized string
  | QChain "special_query query_request"
  | QRaw string bytes
  | QSubMsgResult u64

datatype owner_response = OwnerResponse string
datatype capitalized_response = CapitalizedResponse string
datatype chain_response = ChainResponse bytes
datatype raw_response = RawResponse bytes
datatype special_response = SpecialResponse (spr_msg: string)

datatype reflect_error =
    ReflectStd std_error
  | NotCurrentOwner string string
  | MessagesEmpty

definition custom_into_cosmos :: "custom_msg \<Rightarrow> custom_msg cosmos_msg" where
  "custom_into_cosmos original = MsgCustom original"

record reflect_codecs =
  rj_state :: "reflect_state json"
  rj_reply :: "reply json"
  rj_owner :: "owner_response json"
  rj_capitalized :: "capitalized_response json"
  rj_chain :: "chain_response json"
  rj_raw :: "raw_response json"
  rj_special :: "special_response json"

section \<open>Reflect: contract.rs\<close>

definition reflect_instantiate :: "'s storage_ops \<Rightarrow> reflect_codecs \<Rightarrow> message_info \<Rightarrow> ('s, std_error, custom_msg response) prog" where
  "reflect_instantiate S X info =
     pbind (save_item S (rj_state X) REFLECT_CONFIG_KEY (ReflectState (mi_sender info))) (\<lambda>_. preturn response_new)"

definition try_reflect :: "'s storage_ops \<Rightarrow> reflect_codecs \<Rightarrow> message_info \<Rightarrow> custom_msg cosmos_msg list \<Rightarrow>
    ('s, reflect_error, custom_msg response) prog" where
  "try_reflect S X info msgs =
     pbind (pmap_err ReflectStd (load_item S (rj_state X) REFLECT_CONFIG_KEY)) (\<lambda>state.
     if mi_sender info \<noteq> rs_owner state then pfail (NotCurrentOwner (rs_owner state) (mi_sender info))
     else if msgs = [] then pfail MessagesEmpty
     else preturn (add_messages msgs (add_attribute ''action'' ''reflect'' response_new)))"

definition try_reflect_subcall :: "'s storage_ops \<Rightarrow> reflect_codecs \<Rightarrow> message_info \<Rightarrow> custom_msg sub_msg list \<Rightarrow>
    ('s, reflect_error, custom_msg response) prog" where
  "try_reflect_subcall S X info msgs =
     pbind (pmap_err ReflectStd (load_item S (rj_state X) REFLECT_CONFIG_KEY)) (\<lambda>state.
     if mi_sender info \<noteq> rs_owner state then pfail (NotCurrentOwner (rs_owner state) (mi_sender info))
     else if msgs = [] then pfail MessagesEmpty
     else preturn (add_submessages msgs (add_attribute ''action'' ''reflect_subcall'' response_new)))"

definition change_owner :: "contract_api \<Rightarrow> message_info \<Rightarrow> string \<Rightarrow> reflect_state \<Rightarrow>
    (reflect_error, reflect_state \<times> unit) result outcome" where
  "change_owner api info new_owner state =
     (if mi_sender info \<noteq> rs_owner state then Done (Inl (NotCurrentOwner (rs_owner state) (mi_sender info)))
      else Done (map_ok (\<lambda>a. (ReflectState a, ())) (map_err ReflectStd (addr_validate api new_owner))))"

definition try_change_owner :: "'s storage_ops \<Rightarrow> reflect_codecs \<Rightarrow> contract_api \<Rightarrow> message_info \<Rightarrow> string \<Rightarrow>
    ('s, reflect_error, custom_msg response) prog" where
  "try_change_owner S X api info new_owner =
     pbind (with_singleton REFLECT_CONFIG_KEY (singleton_update S (rj_state X) ReflectStd (change_owner api info new_owner))) (\<lambda>_.
     preturn (add_attribute ''owner'' new_owner (add_attribute ''action'' ''change_owner'' response_new)))"

definition reflect_execute :: "'s storage_ops \<Rightarrow> reflect_codecs \<Rightarrow> contract_api \<Rightarrow> message_info \<Rightarrow> reflect_execute_msg \<Rightarrow>
    ('s, reflect_error, custom_msg response) prog" where
  "reflect_execute S X api info msg =
     (case msg of
        ReflectMsg msgs \<Rightarrow> try_reflect S X info msgs
      | ReflectSubMsg msgs \<Rightarrow> try_reflect_subcall S X info msgs
      | ChangeOwner new_owner \<Rightarrow> try_change_owner S X api info new_owner)"

definition reflect_reply :: "'s storage_ops \<Rightarrow> reflect_codecs \<Rightarrow> reply \<Rightarrow> ('s, reflect_error, unit response) prog" where
  "reflect_reply S X msg =
     pbind (pmap_err ReflectStd (save_at S (rj_reply X) RESULT_PREFIX (to_be_bytes (rp_id msg)) msg)) (\<lambda>_. preturn response_new)"

definition query_owner :: "'s storage_ops \<Rightarrow> reflect_codecs \<Rightarrow> ('s, std_error, owner_response) prog" where
  "query_owner S X =
     pbind (load_item S (rj_state X) REFLECT_CONFIG_KEY) (\<lambda>state. preturn (OwnerResponse (rs_owner state)))"

definition query_subcall :: "'s storage_ops \<Rightarrow> reflect_codecs \<Rightarrow> u64 \<Rightarrow> ('s, std_error, reply) prog" where
  "query_subcall S X i = load_at S (rj_reply X) RESULT_PREFIX (to_be_bytes i)"

definition query_capitalized :: "reflect_codecs \<Rightarrow> special_query deps \<Rightarrow> string \<Rightarrow> capitalized_response std_result" where
  "query_capitalized X d text =
     map_ok (\<lambda>r. CapitalizedResponse (spr_msg r)) (query (dp_querier d) (rj_special X) (QueryCustom (Capitalized text)))"

definition query_chain :: "special_query deps \<Rightarrow> special_query query_request \<Rightarrow> chain_response std_result" where
  "query_chain d request =
     rbind (map_err (\<lambda>e. GenericErr (''Serializing QueryRequest: '' @ show_std_error e)) (to_vec (request_json (dp_querier d)) request)) (\<lambda>raw.
     case raw_query (dp_querier d) raw of
       SystemErr system_err \<Rightarrow> Inl (GenericErr (''Querier system error: '' @ show_system_error (dp_querier d) system_err))
     | SystemOk (ContractErr contract_err) \<Rightarrow> Inl (GenericErr (''Querier contract error: '' @ contract_err))
     | SystemOk (ContractOk val) \<Rightarrow> Inr (ChainResponse val))"

definition query_raw :: "special_query deps \<Rightarrow> string \<Rightarrow> bytes \<Rightarrow> raw_response std_result" where
  "query_raw d contract key =
     map_ok (\<lambda>response. RawResponse (case response of Some v \<Rightarrow> v | None \<Rightarrow> [])) (query_wasm_raw (dp_querier d) contract key)"

definition reflect_query :: "'s storage_ops \<Rightarrow> reflect_codecs \<Rightarrow> special_query deps \<Rightarrow> reflect_query_msg \<Rightarrow> ('s, std_error, bytes) prog" where
  "reflect_query S X d msg =
     (case msg of
        QOwner \<Rightarrow> pbind (query_owner S X) (\<lambda>r. plift (to_vec (rj_owner X) r))
      | QCapitalized text \<Rightarrow> plift (rbind (query_capitalized X d text) (to_vec (rj_capitalized X)))
      | QChain request \<Rightarrow> plift (rbind (query_chain d request) (to_vec (rj_chain X)))
      | QRaw contract key \<Rightarrow> plift (rbind (query_raw d contract key) (to_vec (rj_raw X)))
      | QSubMsgResult i \<Rightarrow> pbind (query_subcall S X i) (\<lambda>r. plift (to_vec (rj_reply X) r)))"

section \<open>Burner\<close>

definition burner_instantiate :: "('s, std_error, 'd response) prog" where
  "burner_instantiate = pfail (GenericErr ''You can only use this contract for migrations'')"

definition burner_migrate :: "'s storage_ops \<Rightarrow> 'c deps \<Rightarrow> env_info \<Rightarrow> string \<Rightarrow> ('s, std_error, 'd response) prog" where
  "burner_migrate S d env payout s =
     obind (st_range S s None None Ascending) (\<lambda>items.
     let keys = map fst items
     in obind (remove_keys S keys s)
          (pbind (plift (query_all_balances (dp_querier d) (dp_responses d) (env_contract env))) (\<lambda>balance.
           preturn
             (set_data (ascii (''burnt '' @ show_nat (length keys) @ '' keys''))
             (add_attribute ''payout'' payout
             (add_attribute ''action'' ''burn''
             (add_message (MsgBank (BankSend payout balance)) response_new)))))))"

context key_value_store
begin

text \<open>Every key goes, and the whole balance is sent to the address of the message.\<close>

lemma burner_migrate_burns:
  assumes "valid s"
  shows "\<exists>r t. burner_migrate S d env payout s = Done (r, t) \<and> valid t \<and> view t = Map.empty \<and>
    (case query_all_balances (dp_querier d) (dp_responses d) (env_contract env) of
       Inl e \<Rightarrow> r = Inl e
     | Inr balance \<Rightarrow> \<exists>res. r = Inr res \<and> map sm_msg (r_messages res) = [MsgBank (BankSend payout balance)] \<and>
         r_data res = Some (ascii (''burnt '' @ show_nat (card (dom (view s))) @ '' keys'')))"
proof -
  obtain rs where rs: "st_range S s None None Ascending = Done rs" "range_spec (view s) None None Ascending rs"
    using range_view [OF assms] by blast
  obtain t where t: "remove_keys S (map fst rs) s = Done t" "valid t" "view t = Map.empty"
    using remove_keys_empty [OF assms rs(2)] by blast
  have keys: "set (map fst rs) = dom (view s)" using rs(2) by (force simp: range_spec_def in_range_def)
  have "distinct (map fst rs)" using rs(2) by (simp add: range_spec_def ordered_by_def strict_sorted_iff)
  then have "length rs = card (dom (view s))" using keys distinct_card by fastforce
  then show ?thesis using rs(1) t
    by (cases "query_all_balances (dp_querier d) (dp_responses d) (env_contract env)")
      (simp_all add: burner_migrate_def set_data_def add_attribute_def add_message_def response_new_def sub_msg_new_def)
qed

end

section \<open>Reflect refines an abstract machine\<close>

text \<open>
  The abstract state has the owner and the reply last received for each id. The calls of the contract are
  the executions by anyone and the replies of the chain.
\<close>

record reflect_abs =
  ra_owner :: string
  ra_replies :: "u64 \<rightharpoonup> reply"

datatype reflect_call = CallExecute message_info reflect_execute_msg | CallReply reply

datatype reflect_result = ExecuteResult "(reflect_error, custom_msg response) result" | ReplyResult "(reflect_error, unit response) result"

fun reflect_call_run :: "'s storage_ops \<Rightarrow> reflect_codecs \<Rightarrow> contract_api \<Rightarrow> reflect_call \<Rightarrow> 's \<Rightarrow> (reflect_result \<times> 's) outcome" where
  "reflect_call_run S X api (CallExecute info msg) s = omap (\<lambda>(r, t). (ExecuteResult r, t)) (reflect_execute S X api info msg s)"
| "reflect_call_run S X api (CallReply msg) s = omap (\<lambda>(r, t). (ReplyResult r, t)) (reflect_reply S X msg s)"

fun reflect_run :: "'s storage_ops \<Rightarrow> reflect_codecs \<Rightarrow> contract_api \<Rightarrow> reflect_call list \<Rightarrow> 's \<Rightarrow> (reflect_result list \<times> 's) outcome" where
  "reflect_run S X api [] s = Done ([], s)"
| "reflect_run S X api (c # cs) s =
     obind (reflect_call_run S X api c s) (\<lambda>(r, t). omap (\<lambda>(rs, u). (r # rs, u)) (reflect_run S X api cs t))"

fun abs_execute :: "contract_api \<Rightarrow> string \<Rightarrow> reflect_execute_msg \<Rightarrow> string \<Rightarrow> (reflect_error, custom_msg response \<times> string) result" where
  "abs_execute api sender (ReflectMsg msgs) owner =
     (if sender \<noteq> owner then Inl (NotCurrentOwner owner sender) else if msgs = [] then Inl MessagesEmpty
      else Inr (response_new\<lparr>r_messages := map sub_msg_new msgs, r_attributes := [attribute_new ''action'' ''reflect'']\<rparr>, owner))"
| "abs_execute api sender (ReflectSubMsg msgs) owner =
     (if sender \<noteq> owner then Inl (NotCurrentOwner owner sender) else if msgs = [] then Inl MessagesEmpty
      else Inr (response_new\<lparr>r_messages := msgs, r_attributes := [attribute_new ''action'' ''reflect_subcall'']\<rparr>, owner))"
| "abs_execute api sender (ChangeOwner new_owner) owner =
     (if sender \<noteq> owner then Inl (NotCurrentOwner owner sender)
      else case addr_validate api new_owner of
        Inl e \<Rightarrow> Inl (ReflectStd e)
      | Inr a \<Rightarrow> Inr (response_new\<lparr>r_attributes := [attribute_new ''action'' ''change_owner'', attribute_new ''owner'' new_owner]\<rparr>, a))"

fun abs_call :: "contract_api \<Rightarrow> reflect_call \<Rightarrow> reflect_abs \<Rightarrow> reflect_result \<times> reflect_abs" where
  "abs_call api (CallExecute info msg) a =
     (case abs_execute api (mi_sender info) msg (ra_owner a) of
        Inl e \<Rightarrow> (ExecuteResult (Inl e), a)
      | Inr (res, new_owner) \<Rightarrow> (ExecuteResult (Inr res), a\<lparr>ra_owner := new_owner\<rparr>))"
| "abs_call api (CallReply msg) a = (ReplyResult (Inr response_new), a\<lparr>ra_replies := (ra_replies a)(rp_id msg \<mapsto> msg)\<rparr>)"

fun abs_run :: "contract_api \<Rightarrow> reflect_call list \<Rightarrow> reflect_abs \<Rightarrow> reflect_result list \<times> reflect_abs" where
  "abs_run api [] a = ([], a)"
| "abs_run api (c # cs) a = (let (r, b) = abs_call api c a; (rs, e) = abs_run api cs b in (r # rs, e))"

definition reflect_config_key :: bytes where "reflect_config_key = [0, 6] @ REFLECT_CONFIG_KEY"
definition result_prefix :: bytes where "result_prefix = [0, 6] @ RESULT_PREFIX"

lemmas reflect_key_defs = reflect_config_key_def result_prefix_def REFLECT_CONFIG_KEY_def RESULT_PREFIX_def ascii_def

lemma reflect_keys:
  "to_length_prefixed REFLECT_CONFIG_KEY = Done reflect_config_key" "to_length_prefixed RESULT_PREFIX = Done result_prefix"
  by (simp_all add: to_length_prefixed_def obind_eq_Done_iff encode_length_Done_iff reflect_key_defs)

lemma reflect_keys_differ [simp]: "reflect_config_key \<noteq> result_prefix @ k" "result_prefix @ k \<noteq> reflect_config_key"
  by (simp_all add: reflect_key_defs)

definition reflects :: "reflect_codecs \<Rightarrow> (bytes \<rightharpoonup> bytes) \<Rightarrow> reflect_abs \<Rightarrow> bool" where
  "reflects X m a \<longleftrightarrow> must_deserialize (rj_state X) (m reflect_config_key) = Inr (ReflectState (ra_owner a)) \<and>
     (\<forall>i. may_deserialize (rj_reply X) (m (result_prefix @ to_be_bytes i)) = Inr (ra_replies a i))"

lemma to_be_bytes_u64_inject [simp]: "to_be_bytes (a :: u64) = to_be_bytes b \<longleftrightarrow> a = b"
proof -
  have "from_be_bytes (to_be_bytes c) = c" for c :: u64 by (rule from_to_be_bytes) simp
  then show ?thesis by metis
qed

locale reflect_store = key_value_store S valid view + st: json_codec "rj_state X" + rp: json_codec "rj_reply X"
  for S :: "'s storage_ops" and valid view and X :: reflect_codecs
begin

lemma load_owner:
  assumes "valid s" "reflects X (view s) a"
  shows "load_item S (rj_state X) REFLECT_CONFIG_KEY s = Done (Inr (ReflectState (ra_owner a)), s)"
  using load_item_view [OF assms(1) reflect_keys(1), of "rj_state X"] assms(2) by (simp add: reflects_def)

lemma change_owner_refines:
  assumes "valid s" "reflects X (view s) a"
  shows "\<exists>t. try_change_owner S X api info new_owner s =
      Done (map_ok fst (abs_execute api (mi_sender info) (ChangeOwner new_owner) (ra_owner a)), t) \<and> valid t \<and>
    reflects X (view t) (snd (abs_call api (CallExecute info (ChangeOwner new_owner)) a))"
proof -
  have owner: "must_deserialize (rj_state X) (view s reflect_config_key) = Inr (ReflectState (ra_owner a))"
    using assms(2) by (simp add: reflects_def)
  show ?thesis
  proof (cases "mi_sender info = ra_owner a \<and> (\<exists>v. addr_validate api new_owner = Inr v)")
    case True
    then obtain v where v: "addr_validate api new_owner = Inr v" by blast
    have "change_owner api info new_owner (ReflectState (ra_owner a)) = Done (Inr (ReflectState v, ()))"
      using True v by (simp add: change_owner_def)
    from update_item_Ok [where action = "change_owner api info new_owner", OF assms(1) reflect_keys(1) st.json_codec_axioms owner this,
        of ReflectStd]
    obtain b t where t: "from_slice (rj_state X) b = Inr (ReflectState v)" "valid t" "view t = (view s)(reflect_config_key \<mapsto> b)"
      "with_singleton REFLECT_CONFIG_KEY (singleton_update S (rj_state X) ReflectStd (change_owner api info new_owner)) s =
        Done (Inr (ReflectState v, ()), t)" by blast
    with True v assms(2) show ?thesis
      by (auto simp: try_change_owner_def pbind_def reflects_def must_deserialize_def add_attribute_def response_new_def)
  next
    case False
    then obtain e where "change_owner api info new_owner (ReflectState (ra_owner a)) = Done (Inl e)"
      "abs_execute api (mi_sender info) (ChangeOwner new_owner) (ra_owner a) = Inl e"
      by (cases "mi_sender info = ra_owner a"; cases "addr_validate api new_owner") (auto simp: change_owner_def)
    with update_item_Err [where action = "change_owner api info new_owner", OF assms(1) reflect_keys(1) owner, of e ReflectStd] assms show ?thesis
      by (simp add: try_change_owner_def pbind_def)
  qed
qed

lemma execute_refines:
  assumes "valid s" "reflects X (view s) a"
  shows "\<exists>t. reflect_call_run S X api (CallExecute info msg) s = Done (fst (abs_call api (CallExecute info msg) a), t) \<and> valid t \<and>
    reflects X (view t) (snd (abs_call api (CallExecute info msg) a))"
proof (cases msg)
  case (ChangeOwner new_owner)
  from change_owner_refines [OF assms, of api info new_owner] ChangeOwner show ?thesis
    by (cases "abs_execute api (mi_sender info) msg (ra_owner a)") (auto simp: reflect_execute_def)
qed (use assms load_owner [OF assms] in \<open>simp_all add: reflect_execute_def try_reflect_def try_reflect_subcall_def pbind_def pmap_err_def
    add_messages_def add_submessages_def add_attribute_def response_new_def\<close>)

lemma reply_refines:
  assumes "valid s" "reflects X (view s) a"
  shows "\<exists>t. reflect_call_run S X api (CallReply msg) s = Done (fst (abs_call api (CallReply msg) a), t) \<and> valid t \<and>
    reflects X (view t) (snd (abs_call api (CallReply msg) a))"
proof -
  from save_at_view [OF assms(1) reflect_keys(2) rp.json_codec_axioms]
  obtain b t where t: "from_slice (rj_reply X) b = Inr msg" "valid t" "view t = (view s)(result_prefix @ to_be_bytes (rp_id msg) \<mapsto> b)"
    "save_at S (rj_reply X) RESULT_PREFIX (to_be_bytes (rp_id msg)) msg s = Done (Inr (), t)" by blast
  with assms(2) show ?thesis
    by (auto simp: reflect_reply_def pbind_def pmap_err_def reflects_def may_deserialize_def)
qed

lemma run_refines:
  assumes "valid s" "reflects X (view s) a"
  shows "\<exists>t. reflect_run S X api cs s = Done (fst (abs_run api cs a), t) \<and> valid t \<and> reflects X (view t) (snd (abs_run api cs a))"
  using assms
proof (induction cs arbitrary: s a)
  case (Cons c cs)
  obtain t where t: "reflect_call_run S X api c s = Done (fst (abs_call api c a), t)" "valid t" "reflects X (view t) (snd (abs_call api c a))"
    using execute_refines [OF Cons.prems] reply_refines [OF Cons.prems] by (cases c) blast+
  from Cons.IH [OF t(2,3)] t(1) show ?case by (auto simp: split_beta)
qed simp

lemma queries_refine:
  assumes "valid s" "reflects X (view s) a"
  shows "query_owner S X s = Done (Inr (OwnerResponse (ra_owner a)), s)"
    and "query_subcall S X i s = Done (ok_or (NotFound (type_name (rj_reply X))) (ra_replies a i), s)"
proof -
  show "query_owner S X s = Done (Inr (OwnerResponse (ra_owner a)), s)"
    using load_owner [OF assms] by (simp add: query_owner_def pbind_def)
  have "may_deserialize (rj_reply X) (view s (result_prefix @ to_be_bytes i)) = Inr (ra_replies a i)"
    using assms(2) by (simp add: reflects_def)
  then show "query_subcall S X i s = Done (ok_or (NotFound (type_name (rj_reply X))) (ra_replies a i), s)"
    using load_at_view [OF assms(1) reflect_keys(2), of "rj_reply X" "to_be_bytes i"]
    by (cases "view s (result_prefix @ to_be_bytes i)")
      (auto simp: query_subcall_def must_deserialize_def may_deserialize_def map_ok_eq_Ok_iff)
qed

lemma instantiate_reflects:
  assumes "valid s" "\<And>i :: u64. view s (result_prefix @ to_be_bytes i) = None"
  shows "\<exists>t. reflect_instantiate S X info s = Done (Inr response_new, t) \<and> valid t \<and>
    reflects X (view t) \<lparr>ra_owner = mi_sender info, ra_replies = Map.empty\<rparr>"
proof -
  from save_item_view [OF assms(1) reflect_keys(1) st.json_codec_axioms, of "ReflectState (mi_sender info)"]
  obtain b t where "from_slice (rj_state X) b = Inr (ReflectState (mi_sender info))" "valid t" "view t = (view s)(reflect_config_key \<mapsto> b)"
    "save_item S (rj_state X) REFLECT_CONFIG_KEY (ReflectState (mi_sender info)) s = Done (Inr (), t)" by blast
  then show ?thesis by (simp add: reflect_instantiate_def pbind_def reflects_def must_deserialize_def may_deserialize_def assms(2))
qed

end

text \<open>In the abstract machine only the owner has messages sent, and only the owner names a new owner.\<close>

lemma abs_execute_owner:
  "abs_execute api sender msg owner = Inr (res, new_owner) \<Longrightarrow> sender = owner \<and> (r_messages res \<noteq> [] \<longleftrightarrow> (\<forall>n. msg \<noteq> ChangeOwner n))"
  by (cases "(api, sender, msg, owner)" rule: abs_execute.cases) (auto simp: response_new_def split: if_splits sum.splits)

end
