(* ===== verification/Contract_Ibc_Reflect.thy ===== *)
theory Contract_Ibc_Reflect
  imports Contract_Queue Contract_Deps Std_Mock
begin

text \<open>
  The contract \<open>contracts/ibc-reflect/src\<close>: for each IBC channel it creates an account, a reflect contract on this
  chain, through which the other end of the channel sends messages. The channel id waits in the storage between the
  connection and the reply with the address of the new account. The abstract state is the pending channel and the map from
  channels to accounts.
\<close>

section \<open>state.rs and msg.rs\<close>

definition KEY_CONFIG :: bytes where "KEY_CONFIG = ascii ''config''"
definition KEY_PENDING_CHANNEL :: bytes where "KEY_PENDING_CHANNEL = ascii ''pending''"
definition PREFIX_ACCOUNTS :: bytes where "PREFIX_ACCOUNTS = ascii ''accounts''"

definition IBC_VERSION :: string where "IBC_VERSION = ''ibc-reflect-v1''"
definition RECEIVE_DISPATCH_ID :: u64 where "RECEIVE_DISPATCH_ID = 1234"
definition INIT_CALLBACK_ID :: u64 where "INIT_CALLBACK_ID = 7890"

datatype ibc_config = IbcConfig (ic_reflect_code_id: u64)

datatype ibc_reflect_query_msg = QAccount string | QListAccounts

datatype account_response = AccountResponse "string option"

record account_info =
  ai_account :: string
  ai_channel_id :: string

datatype list_accounts_response = ListAccountsResponse "account_info list"

datatype reflect_forward_msg = ForwardMsgs "unit cosmos_msg list"

datatype packet_msg =
    Dispatch "unit cosmos_msg list"
  | WhoAmI
  | Balances

datatype who_am_i_response = WhoAmIResponse (who_account: string)

record balances_response =
  bl_account :: string
  bl_balances :: "coin list"

text \<open>
  The codecs. The packets and acknowledgements have the same definitions in \<open>ibc-reflect-send/src/ibc_msg.rs\<close>,
  hence the same JSON. The success value of a dispatch is the unit.
\<close>

record packet_codecs =
  pj_packet :: "packet_msg json"
  pj_unit_ack :: "unit contract_result json"
  pj_who_ack :: "who_am_i_response contract_result json"
  pj_balances_ack :: "balances_response contract_result json"

record ibc_reflect_codecs =
  ij_config :: "ibc_config json"
  ij_string :: "string json"
  ij_addr :: "string json"
  ij_forward :: "reflect_forward_msg json"
  ij_account_response :: "account_response json"
  ij_list_response :: "list_accounts_response json"
  ij_packets :: packet_codecs

section \<open>Instantiation and replies\<close>

definition ibc_reflect_instantiate :: "'s storage_ops \<Rightarrow> ibc_reflect_codecs \<Rightarrow> u64 \<Rightarrow> ('s, std_error, unit response) prog" where
  "ibc_reflect_instantiate S X reflect_code_id =
     pbind (save_item S (ij_config X) KEY_CONFIG (IbcConfig reflect_code_id)) (\<lambda>_.
     preturn (add_attribute ''action'' ''instantiate'' response_new))"

definition encode_ibc_error :: "ibc_reflect_codecs \<Rightarrow> string \<Rightarrow> bytes outcome" where
  "encode_ibc_error X msg = unwrap_ok (to_vec (pj_unit_ack (ij_packets X)) (ContractErr msg))"

definition parse_contract_from_event :: "event list \<Rightarrow> string option" where
  "parse_contract_from_event events =
     map_option attr_value
       (Option.bind (find (\<lambda>e. ev_type e = ''instantiate'') events)
         (\<lambda>ev. find (\<lambda>a. attr_key a = ''_contract_address'') (ev_attributes ev)))"

definition register_account :: "string \<Rightarrow> string option \<Rightarrow> string std_result" where
  "register_account contract_addr val =
     (case val of
        Some _ \<Rightarrow> Inl (GenericErr ''Cannot register over an existing channel'')
      | None \<Rightarrow> Inr contract_addr)"

definition handle_init_callback :: "'s storage_ops \<Rightarrow> ibc_reflect_codecs \<Rightarrow> contract_api \<Rightarrow> sub_msg_execution_response \<Rightarrow>
    ('s, std_error, unit response) prog" where
  "handle_init_callback S X api response =
     pbind (load_item S (ij_string X) KEY_PENDING_CHANNEL) (\<lambda>i.
     pbind (remove_item S KEY_PENDING_CHANNEL) (\<lambda>_.
     pbind (plift (case parse_contract_from_event (sr_events response) of
              Some addr \<Rightarrow> addr_validate api addr
            | None \<Rightarrow> Inl (GenericErr ''No _contract_address found in callback events''))) (\<lambda>contract_addr.
     pbind (update_at S (ij_addr X) PREFIX_ACCOUNTS (ascii i) (register_account contract_addr)) (\<lambda>_.
     preturn (add_attribute ''action'' ''execute_init_callback'' response_new)))))"

definition ibc_reflect_reply :: "'s storage_ops \<Rightarrow> ibc_reflect_codecs \<Rightarrow> contract_api \<Rightarrow> reply \<Rightarrow> ('s, std_error, unit response) prog" where
  "ibc_reflect_reply S X api rep =
     (case rp_result rep of
        SubMsgErr err \<Rightarrow>
          if rp_id rep = RECEIVE_DISPATCH_ID
          then pbind (plift_out (encode_ibc_error X err)) (\<lambda>data. preturn (set_data data response_new))
          else pfail (GenericErr ''invalid reply id or result'')
      | SubMsgOk response \<Rightarrow>
          if rp_id rep = INIT_CALLBACK_ID then handle_init_callback S X api response
          else pfail (GenericErr ''invalid reply id or result''))"

section \<open>Queries\<close>

definition query_channel_account :: "'s storage_ops \<Rightarrow> ibc_reflect_codecs \<Rightarrow> string \<Rightarrow> ('s, std_error, account_response) prog" where
  "query_channel_account S X channel_id =
     pbind (load_at S (ij_addr X) PREFIX_ACCOUNTS (ascii channel_id)) (\<lambda>account. preturn (AccountResponse (Some account)))"

definition channel_key :: "bytes \<Rightarrow> string std_result" where
  "channel_key key = map_err InvalidUtf8 (string_from_utf8 key)"

definition query_list_accounts :: "'s storage_ops \<Rightarrow> ibc_reflect_codecs \<Rightarrow> ('s, std_error, list_accounts_response) prog" where
  "query_list_accounts S X =
     with_bucket PREFIX_ACCOUNTS (\<lambda>bk.
       omap (\<lambda>items.
         (map_ok ListAccountsResponse (collect_ok (map (\<lambda>item.
            rbind item (\<lambda>(key, account).
            rbind (channel_key key) (\<lambda>channel_id.
            Inr \<lparr>ai_account = account, ai_channel_id = channel_id\<rparr>))) items)), bk))
         (bucket_range S (ij_addr X) None None Ascending bk))"

definition ibc_reflect_query :: "'s storage_ops \<Rightarrow> ibc_reflect_codecs \<Rightarrow> ibc_reflect_query_msg \<Rightarrow> ('s, std_error, bytes) prog" where
  "ibc_reflect_query S X msg =
     (case msg of
        QAccount channel_id \<Rightarrow> pbind (query_channel_account S X channel_id) (\<lambda>r. plift (to_vec (ij_account_response X) r))
      | QListAccounts \<Rightarrow> pbind (query_list_accounts S X) (\<lambda>r. plift (to_vec (ij_list_response X) r)))"

section \<open>Channels\<close>

definition quoted_version :: string where
  "quoted_version = CHR 0x60 # IBC_VERSION @ [CHR 0x60]"

definition ibc_reflect_channel_open :: "ibc_channel_open_msg \<Rightarrow> unit std_result" where
  "ibc_reflect_channel_open msg =
     (let channel = open_channel msg
      in if ch_order channel \<noteq> Ordered then Inl (GenericErr ''Only supports ordered channels'')
         else if ch_version channel \<noteq> IBC_VERSION then Inl (GenericErr (''Must set version to '' @ quoted_version))
         else case open_counterparty_version msg of
           Some counter_version \<Rightarrow>
             if counter_version \<noteq> IBC_VERSION then Inl (GenericErr (''Counterparty version must be '' @ quoted_version)) else Inr ()
         | None \<Rightarrow> Inr ())"

definition ibc_reflect_channel_connect :: "'s storage_ops \<Rightarrow> ibc_reflect_codecs \<Rightarrow> ibc_channel_connect_msg \<Rightarrow>
    ('s, std_error, unit ibc_basic_response) prog" where
  "ibc_reflect_channel_connect S X msg =
     (let channel = connect_channel msg
      in pbind (load_item S (ij_config X) KEY_CONFIG) (\<lambda>cfg.
         let chan_id = ep_channel_id (ch_endpoint channel);
             m = reply_on_success
                   (MsgWasm (WasmInstantiate None (ic_reflect_code_id cfg) (ascii ''{}'') [] (''ibc-reflect-'' @ chan_id))) INIT_CALLBACK_ID
         in pbind (save_item S (ij_string X) KEY_PENDING_CHANNEL chan_id) (\<lambda>_.
            preturn
              (ibc_basic_add_event (event_add_attribute (event_new ''ibc'') ''channel'' ''connect'')
              (ibc_basic_add_attribute ''channel_id'' chan_id
              (ibc_basic_add_attribute ''action'' ''ibc_connect''
              (ibc_basic_add_submessage m ibc_basic_new)))))))"

definition show_bool :: "bool \<Rightarrow> string" where
  "show_bool b = (if b then ''true'' else ''false'')"

definition ibc_reflect_channel_close :: "'s storage_ops \<Rightarrow> ibc_reflect_codecs \<Rightarrow> unit deps \<Rightarrow> env_info \<Rightarrow> ibc_channel_close_msg \<Rightarrow>
    ('s, std_error, unit ibc_basic_response) prog" where
  "ibc_reflect_channel_close S X d env msg =
     (let channel = close_channel msg;
          channel_id = ep_channel_id (ch_endpoint channel)
      in pbind (load_at S (ij_addr X) PREFIX_ACCOUNTS (ascii channel_id)) (\<lambda>reflect_addr.
         pbind (remove_at S PREFIX_ACCOUNTS (ascii channel_id)) (\<lambda>_.
         pbind (plift (query_all_balances (dp_querier d) (dp_responses d) reflect_addr)) (\<lambda>amt.
         pbind (plift
           (if amt \<noteq> []
            then rbind (wasm_execute (ij_forward X) reflect_addr (ForwardMsgs [MsgBank (BankSend (env_contract env) amt)]) [])
                   (\<lambda>wasm_msg. Inr [sub_msg_new (MsgWasm wasm_msg)])
            else Inr [])) (\<lambda>messages.
         let steal_funds = messages \<noteq> []
         in preturn
              (ibc_basic_add_attribute ''steal_funds'' (show_bool steal_funds)
              (ibc_basic_add_attribute ''channel_id'' channel_id
              (ibc_basic_add_attribute ''action'' ''ibc_close''
              (ibc_basic_add_submessages messages ibc_basic_new)))))))))"

definition ibc_reflect_migrate :: "('s, std_error, unit response) prog" where
  "ibc_reflect_migrate = preturn response_new"

section \<open>Packets\<close>

definition receive_who_am_i :: "'s storage_ops \<Rightarrow> ibc_reflect_codecs \<Rightarrow> string \<Rightarrow> ('s, std_error, unit ibc_receive_response) prog" where
  "receive_who_am_i S X caller =
     pbind (load_at S (ij_addr X) PREFIX_ACCOUNTS (ascii caller)) (\<lambda>account.
     pbind (plift (to_vec (pj_who_ack (ij_packets X)) (ContractOk (WhoAmIResponse account)))) (\<lambda>acknowledgement.
     preturn (ibc_receive_add_attribute ''action'' ''receive_who_am_i'' (ibc_receive_set_ack acknowledgement ibc_receive_new))))"

definition receive_balances :: "'s storage_ops \<Rightarrow> ibc_reflect_codecs \<Rightarrow> unit deps \<Rightarrow> string \<Rightarrow>
    ('s, std_error, unit ibc_receive_response) prog" where
  "receive_balances S X d caller =
     pbind (load_at S (ij_addr X) PREFIX_ACCOUNTS (ascii caller)) (\<lambda>account.
     pbind (plift (query_all_balances (dp_querier d) (dp_responses d) account)) (\<lambda>balances.
     pbind (plift (to_vec (pj_balances_ack (ij_packets X))
       (ContractOk \<lparr>bl_account = account, bl_balances = balances\<rparr>))) (\<lambda>acknowledgement.
     preturn (ibc_receive_add_attribute ''action'' ''receive_balances'' (ibc_receive_set_ack acknowledgement ibc_receive_new)))))"

definition receive_dispatch :: "'s storage_ops \<Rightarrow> ibc_reflect_codecs \<Rightarrow> string \<Rightarrow> unit cosmos_msg list \<Rightarrow>
    ('s, std_error, unit ibc_receive_response) prog" where
  "receive_dispatch S X caller msgs =
     pbind (load_at S (ij_addr X) PREFIX_ACCOUNTS (ascii caller)) (\<lambda>reflect_addr.
     pbind (plift (to_vec (pj_unit_ack (ij_packets X)) (ContractOk ()))) (\<lambda>acknowledgement.
     pbind (plift (wasm_execute (ij_forward X) reflect_addr (ForwardMsgs msgs) [])) (\<lambda>wasm_msg.
     preturn
       (ibc_receive_add_attribute ''action'' ''receive_dispatch''
       (ibc_receive_add_submessage (reply_on_error (MsgWasm wasm_msg) RECEIVE_DISPATCH_ID)
       (ibc_receive_set_ack acknowledgement ibc_receive_new))))))"

definition receive_packet_msg :: "'s storage_ops \<Rightarrow> ibc_reflect_codecs \<Rightarrow> unit deps \<Rightarrow> ibc_packet \<Rightarrow>
    ('s, std_error, unit ibc_receive_response) prog" where
  "receive_packet_msg S X d packet =
     (let caller = ep_channel_id (pk_dest packet)
      in pbind (plift (from_slice (pj_packet (ij_packets X)) (pk_data packet))) (\<lambda>msg.
         case msg of
           Dispatch msgs \<Rightarrow> receive_dispatch S X caller msgs
         | WhoAmI \<Rightarrow> receive_who_am_i S X caller
         | Balances \<Rightarrow> receive_balances S X d caller))"

text \<open>\<open>Result::or_else\<close> on a program.\<close>

definition por_else :: "('s, 'e, 'a) prog \<Rightarrow> ('e \<Rightarrow> ('s, 'f, 'a) prog) \<Rightarrow> ('s, 'f, 'a) prog" where
  "por_else m h s = obind (m s) (\<lambda>(r, t). case r of Inl e \<Rightarrow> h e t | Inr x \<Rightarrow> Done (Inr x, t))"

definition ibc_reflect_packet_receive :: "'s storage_ops \<Rightarrow> ibc_reflect_codecs \<Rightarrow> unit deps \<Rightarrow> ibc_packet_receive_msg \<Rightarrow>
    ('s, std_error, unit ibc_receive_response) prog" where
  "ibc_reflect_packet_receive S X d msg =
     por_else (receive_packet_msg S X d (receive_packet msg)) (\<lambda>e.
       pbind (plift_out (encode_ibc_error X (''invalid packet: '' @ show_std_error e))) (\<lambda>acknowledgement.
       preturn
         (ibc_receive_add_event (event_add_attribute (event_new ''ibc'') ''packet'' ''receive'')
         (ibc_receive_set_ack acknowledgement ibc_receive_new))))"

definition ibc_reflect_packet_ack :: "('s, std_error, unit ibc_basic_response) prog" where
  "ibc_reflect_packet_ack = preturn (ibc_basic_add_attribute ''action'' ''ibc_packet_ack'' ibc_basic_new)"

definition ibc_reflect_packet_timeout :: "('s, std_error, unit ibc_basic_response) prog" where
  "ibc_reflect_packet_timeout = preturn (ibc_basic_add_attribute ''action'' ''ibc_packet_timeout'' ibc_basic_new)"

section \<open>The accounts of the channels\<close>

definition ibc_config_key :: bytes where "ibc_config_key = [0, 6] @ KEY_CONFIG"
definition pending_key :: bytes where "pending_key = [0, 7] @ KEY_PENDING_CHANNEL"
definition accounts_prefix :: bytes where "accounts_prefix = [0, 8] @ PREFIX_ACCOUNTS"

lemmas ibc_key_defs = ibc_config_key_def pending_key_def accounts_prefix_def KEY_CONFIG_def KEY_PENDING_CHANNEL_def
  PREFIX_ACCOUNTS_def ascii_def

lemma ibc_keys:
  "to_length_prefixed KEY_CONFIG = Done ibc_config_key"
  "to_length_prefixed KEY_PENDING_CHANNEL = Done pending_key"
  "to_length_prefixed PREFIX_ACCOUNTS = Done accounts_prefix"
  by (simp_all add: to_length_prefixed_def obind_eq_Done_iff encode_length_Done_iff ibc_key_defs)

lemma ibc_keys_differ [simp]:
  "pending_key \<noteq> ibc_config_key" "ibc_config_key \<noteq> pending_key"
  "accounts_prefix @ k \<noteq> ibc_config_key" "accounts_prefix @ k \<noteq> pending_key"
  "ibc_config_key \<noteq> accounts_prefix @ k" "pending_key \<noteq> accounts_prefix @ k"
  by (simp_all add: ibc_key_defs)

text \<open>The account that is stored for a channel.\<close>

definition account_of :: "ibc_reflect_codecs \<Rightarrow> (bytes \<rightharpoonup> bytes) \<Rightarrow> string \<Rightarrow> string option" where
  "account_of X m ch = result_ok (must_deserialize (ij_addr X) (m (accounts_prefix @ ascii ch)))"

lemma account_of_upd:
  "account_of X (m(accounts_prefix @ ascii ch \<mapsto> b)) ch' =
    (if ch' = ch then result_ok (from_slice (ij_addr X) b) else account_of X m ch')"
  "account_of X (m(accounts_prefix @ ascii ch := None)) ch' = (if ch' = ch then None else account_of X m ch')"
  "account_of X (m(pending_key := v)) ch' = account_of X m ch'"
  by (auto simp: account_of_def must_deserialize_def dest: ascii_inj)

text \<open>
  The calls the chain makes. The chain keeps the writes of a call only when it returns without an error.
\<close>

datatype ibc_reflect_call =
    IbcReply reply
  | IbcConnect ibc_channel_connect_msg
  | IbcClose ibc_channel_close_msg
  | IbcReceive ibc_packet_receive_msg
  | IbcMigrate

definition keep_ok :: "('s, 'e, 'a) prog \<Rightarrow> 's \<Rightarrow> 's" where
  "keep_ok p s = (case p s of Done (Inr _, t) \<Rightarrow> t | _ \<Rightarrow> s)"

definition ibc_reflect_next :: "'s storage_ops \<Rightarrow> ibc_reflect_codecs \<Rightarrow> unit deps \<times> env_info \<times> ibc_reflect_call \<Rightarrow> 's \<Rightarrow> 's" where
  "ibc_reflect_next S X c =
     (case c of (d, env, call) \<Rightarrow>
       (case call of
          IbcReply rep \<Rightarrow> keep_ok (ibc_reflect_reply S X (dp_api d) rep)
        | IbcConnect msg \<Rightarrow> keep_ok (ibc_reflect_channel_connect S X msg)
        | IbcClose msg \<Rightarrow> keep_ok (ibc_reflect_channel_close S X d env msg)
        | IbcReceive msg \<Rightarrow> keep_ok (ibc_reflect_packet_receive S X d msg)
        | IbcMigrate \<Rightarrow> keep_ok ibc_reflect_migrate))"

definition closes :: "string \<Rightarrow> ibc_reflect_call \<Rightarrow> bool" where
  "closes ch call \<longleftrightarrow> (\<exists>msg. call = IbcClose msg \<and> ep_channel_id (ch_endpoint (close_channel msg)) = ch)"

locale ibc_reflect_store = key_value_store S valid view + ad: json_codec "ij_addr X" + str: json_codec "ij_string X" +
  fw: json_codec "ij_forward X" + un: json_codec "pj_unit_ack (ij_packets X)" + wh: json_codec "pj_who_ack (ij_packets X)" +
  bl: json_codec "pj_balances_ack (ij_packets X)"
  for S :: "'s storage_ops" and valid view and X :: ibc_reflect_codecs
begin

lemma load_account:
  assumes "valid s"
  shows "load_at S (ij_addr X) PREFIX_ACCOUNTS (ascii ch) s = Done (must_deserialize (ij_addr X) (view s (accounts_prefix @ ascii ch)), s)"
  by (rule load_at_view [OF assms ibc_keys(3)])

lemma encode_error: "\<exists>b. encode_ibc_error X msg = Done b \<and> from_slice (pj_unit_ack (ij_packets X)) b = Inr (ContractErr msg)"
  using un.to_vec_Ok [of "ContractErr msg"] by (auto simp: encode_ibc_error_def unwrap_ok_eq_Done_iff)

text \<open>A packet on a channel with an account.\<close>

lemma receive_packet_known:
  assumes "valid s" "account_of X (view s) (ep_channel_id (pk_dest p)) = Some a"
  shows "from_slice (pj_packet (ij_packets X)) (pk_data p) = Inr (Dispatch msgs) \<Longrightarrow>
      \<exists>payload res. from_slice (ij_forward X) payload = Inr (ForwardMsgs msgs) \<and> receive_packet_msg S X d p s = Done (Inr res, s) \<and>
        from_slice (pj_unit_ack (ij_packets X)) (ir_acknowledgement res) = Inr (ContractOk ()) \<and>
        ir_messages res = [reply_on_error (MsgWasm (WasmExecute a payload [])) RECEIVE_DISPATCH_ID]"
    and "from_slice (pj_packet (ij_packets X)) (pk_data p) = Inr WhoAmI \<Longrightarrow>
      \<exists>res. receive_packet_msg S X d p s = Done (Inr res, s) \<and> ir_messages res = [] \<and>
        from_slice (pj_who_ack (ij_packets X)) (ir_acknowledgement res) = Inr (ContractOk (WhoAmIResponse a))"
    and "from_slice (pj_packet (ij_packets X)) (pk_data p) = Inr Balances \<Longrightarrow>
      query_all_balances (dp_querier d) (dp_responses d) a = Inr cs \<Longrightarrow>
      \<exists>res. receive_packet_msg S X d p s = Done (Inr res, s) \<and> ir_messages res = [] \<and>
        from_slice (pj_balances_ack (ij_packets X)) (ir_acknowledgement res) =
          Inr (ContractOk \<lparr>bl_account = a, bl_balances = cs\<rparr>)"
proof -
  have load: "load_at S (ij_addr X) PREFIX_ACCOUNTS (ascii (ep_channel_id (pk_dest p))) s = Done (Inr a, s)"
    using load_account [OF assms(1)] assms(2) by (cases "must_deserialize (ij_addr X) (view s (accounts_prefix @ ascii (ep_channel_id (pk_dest p))))")
      (auto simp: account_of_def)
  obtain ack payload where ok: "to_vec (pj_unit_ack (ij_packets X)) (ContractOk ()) = Inr ack"
    "from_slice (pj_unit_ack (ij_packets X)) ack = Inr (ContractOk ())" "to_vec (ij_forward X) (ForwardMsgs msgs) = Inr payload"
    "from_slice (ij_forward X) payload = Inr (ForwardMsgs msgs)"
    using un.to_vec_Ok [of "ContractOk ()"] fw.to_vec_Ok [of "ForwardMsgs msgs"] by blast
  show "\<exists>payload res. from_slice (ij_forward X) payload = Inr (ForwardMsgs msgs) \<and> receive_packet_msg S X d p s = Done (Inr res, s) \<and>
        from_slice (pj_unit_ack (ij_packets X)) (ir_acknowledgement res) = Inr (ContractOk ()) \<and>
        ir_messages res = [reply_on_error (MsgWasm (WasmExecute a payload [])) RECEIVE_DISPATCH_ID]"
    if "from_slice (pj_packet (ij_packets X)) (pk_data p) = Inr (Dispatch msgs)"
    using that load ok
    by (intro exI [of _ payload]) (simp add: receive_packet_msg_def Let_def receive_dispatch_def pbind_def wasm_execute_def
        ibc_receive_add_attribute_def ibc_receive_add_submessage_def ibc_receive_set_ack_def ibc_receive_new_def)
  show "\<exists>res. receive_packet_msg S X d p s = Done (Inr res, s) \<and> ir_messages res = [] \<and>
        from_slice (pj_who_ack (ij_packets X)) (ir_acknowledgement res) = Inr (ContractOk (WhoAmIResponse a))"
    if "from_slice (pj_packet (ij_packets X)) (pk_data p) = Inr WhoAmI"
    using that load wh.to_vec_Ok [of "ContractOk (WhoAmIResponse a)"]
    by (auto simp: receive_packet_msg_def Let_def receive_who_am_i_def pbind_def ibc_receive_add_attribute_def ibc_receive_set_ack_def ibc_receive_new_def)
  show "\<exists>res. receive_packet_msg S X d p s = Done (Inr res, s) \<and> ir_messages res = [] \<and>
        from_slice (pj_balances_ack (ij_packets X)) (ir_acknowledgement res) =
          Inr (ContractOk \<lparr>bl_account = a, bl_balances = cs\<rparr>)"
    if "from_slice (pj_packet (ij_packets X)) (pk_data p) = Inr Balances"
      "query_all_balances (dp_querier d) (dp_responses d) a = Inr cs"
    using that load bl.to_vec_Ok [of "ContractOk \<lparr>bl_account = a, bl_balances = cs\<rparr>"]
    by (auto simp: receive_packet_msg_def Let_def receive_balances_def pbind_def ibc_receive_add_attribute_def ibc_receive_set_ack_def ibc_receive_new_def)
qed

text \<open>Whatever arrives, the inner closure returns and writes nothing.\<close>

lemma receive_packet_returns:
  assumes "valid s"
  shows "\<exists>r. receive_packet_msg S X d p s = Done (r, s) \<and>
    (\<forall>res. r = Inr res \<longrightarrow> account_of X (view s) (ep_channel_id (pk_dest p)) \<noteq> None)"
proof -
  define ch where "ch = ep_channel_id (pk_dest p)"
  have load: "load_at S (ij_addr X) PREFIX_ACCOUNTS (ascii ch) s = Done (must_deserialize (ij_addr X) (view s (accounts_prefix @ ascii ch)), s)"
    by (rule load_account [OF assms])
  show ?thesis
  proof (cases "must_deserialize (ij_addr X) (view s (accounts_prefix @ ascii ch))")
    case (Inl e)
    then show ?thesis using load
      by (cases "from_slice (pj_packet (ij_packets X)) (pk_data p)")
        (auto simp: receive_packet_msg_def Let_def receive_dispatch_def receive_who_am_i_def receive_balances_def pbind_def simp flip: ch_def split: packet_msg.splits)
  next
    case (Inr a)
    then have known: "account_of X (view s) ch = Some a" by (simp add: account_of_def)
    note packet = receive_packet_known [OF assms known [unfolded ch_def]]
    show ?thesis
    proof (cases "from_slice (pj_packet (ij_packets X)) (pk_data p)")
      case (Inl e)
      then show ?thesis by (simp add: receive_packet_msg_def Let_def)
    next
      case msg: (Inr msg)
      have "\<exists>r. receive_packet_msg S X d p s = Done (r, s)"
      proof (cases msg)
        case Balances
        then show ?thesis using packet(3) msg Inr load
          by (cases "query_all_balances (dp_querier d) (dp_responses d) a")
            (fastforce simp: receive_packet_msg_def Let_def receive_balances_def pbind_def simp flip: ch_def)+
      qed (use packet(1,2) msg in blast)+
      then show ?thesis using known ch_def by auto
    qed
  qed
qed

end

context ibc_reflect_store
begin

text \<open>
  Every packet is answered with an acknowledgement and nothing is written; a message is sent exactly for a dispatch on a
  channel with an account, and it goes to that account.
\<close>

lemma packet_receive_answers:
  fixes msg :: ibc_packet_receive_msg and d :: "unit deps"
  defines "ch \<equiv> ep_channel_id (pk_dest (receive_packet msg))"
    and "content \<equiv> from_slice (pj_packet (ij_packets X)) (pk_data (receive_packet msg))"
  assumes "valid s"
  shows "\<exists>res. ibc_reflect_packet_receive S X d msg s = Done (Inr res, s) \<and>
    (\<forall>a msgs. account_of X (view s) ch = Some a \<and> content = Inr (Dispatch msgs) \<longrightarrow>
      (\<exists>payload. from_slice (ij_forward X) payload = Inr (ForwardMsgs msgs) \<and>
        ir_messages res = [reply_on_error (MsgWasm (WasmExecute a payload [])) RECEIVE_DISPATCH_ID] \<and>
        from_slice (pj_unit_ack (ij_packets X)) (ir_acknowledgement res) = Inr (ContractOk ()))) \<and>
    ((\<nexists>a msgs. account_of X (view s) ch = Some a \<and> content = Inr (Dispatch msgs)) \<longrightarrow> ir_messages res = []) \<and>
    (account_of X (view s) ch = None \<longrightarrow>
      (\<exists>err. from_slice (pj_unit_ack (ij_packets X)) (ir_acknowledgement res) = Inr (ContractErr err)))"
proof -
  define p where "p = receive_packet msg"
  obtain r where r: "receive_packet_msg S X d p s = Done (r, s)"
    "\<And>res. r = Inr res \<Longrightarrow> account_of X (view s) ch \<noteq> None"
    using receive_packet_returns [OF assms(3), of d p] by (auto simp: p_def ch_def)
  show ?thesis
  proof (cases r)
    case (Inl e)
    obtain ack where ack: "encode_ibc_error X (''invalid packet: '' @ show_std_error e) = Done ack"
      "from_slice (pj_unit_ack (ij_packets X)) ack = Inr (ContractErr (''invalid packet: '' @ show_std_error e))"
      using encode_error by blast
    have "\<not> (account_of X (view s) ch = Some a \<and> content = Inr (Dispatch msgs))" for a msgs
      using receive_packet_known(1) [OF assms(3), of p a msgs d] r(1) Inl by (auto simp: p_def ch_def content_def)
    with ack r(1) Inl show ?thesis
      by (auto simp: ibc_reflect_packet_receive_def por_else_def p_def pbind_def plift_out_def ibc_receive_add_event_def
          ibc_receive_set_ack_def ibc_receive_new_def)
  next
    case (Inr res)
    then obtain a where a: "account_of X (view s) ch = Some a" using r(2) by blast
    have run: "ibc_reflect_packet_receive S X d msg s = Done (Inr res, s)"
      using r(1) Inr by (simp add: ibc_reflect_packet_receive_def por_else_def p_def)
    note known = receive_packet_known [OF assms(3) a [unfolded ch_def, folded p_def], where d = d]
    show ?thesis
    proof (cases content)
      case (Inl e)
      then show ?thesis using r(1) Inr by (simp add: receive_packet_msg_def Let_def content_def p_def)
    next
      case m: (Inr m)
      show ?thesis
      proof (cases m)
        case (Dispatch msgs)
        then show ?thesis using known(1) [of msgs] m r(1) Inr run a by (fastforce simp: content_def p_def)
      next
        case WhoAmI
        then show ?thesis using known(2) m r(1) Inr run a by (auto simp: content_def p_def)
      next
        case Balances
        have "ir_messages res = []"
        proof (cases "query_all_balances (dp_querier d) (dp_responses d) a")
          case (Inl e)
          have "load_at S (ij_addr X) PREFIX_ACCOUNTS (ascii ch) s = Done (Inr a, s)"
            using load_account [OF assms(3), of ch] a
            by (cases "must_deserialize (ij_addr X) (view s (accounts_prefix @ ascii ch))") (auto simp: account_of_def)
          then show ?thesis using Inl r(1) Inr m Balances
            by (simp add: receive_packet_msg_def Let_def receive_balances_def pbind_def content_def p_def ch_def)
        next
          case cs: (Inr cs)
          then show ?thesis using known(3) [of cs] m Balances r(1) Inr by (auto simp: content_def p_def)
        qed
        then show ?thesis using run a m Balances by simp
      qed
    qed
  qed
qed

lemma keep_ok_id: "(\<And>x t. p s = Done (Inr x, t) \<Longrightarrow> t = s) \<Longrightarrow> keep_ok p s = s"
  by (auto simp: keep_ok_def split: outcome.splits sum.splits)

lemma keep_ok_cases: "keep_ok p s = s \<or> (\<exists>x. p s = Done (Inr x, keep_ok p s))"
  by (auto simp: keep_ok_def split: outcome.splits sum.splits)

text \<open>What the calls that write do to the accounts.\<close>

lemma connect_effect:
  assumes "valid s" "ibc_reflect_channel_connect S X msg s = Done (Inr res, t)"
  shows "valid t \<and> account_of X (view t) ch = account_of X (view s) ch"
proof -
  from save_item_view [OF assms(1) ibc_keys(2) str.json_codec_axioms, of "ep_channel_id (ch_endpoint (connect_channel msg))"]
  obtain b u where "save_item S (ij_string X) KEY_PENDING_CHANNEL (ep_channel_id (ch_endpoint (connect_channel msg))) s = Done (Inr (), u)"
    "valid u" "view u = (view s)(pending_key \<mapsto> b)" by blast
  then show ?thesis using assms load_item_view [OF assms(1) ibc_keys(1), of "ij_config X"]
    by (auto simp: ibc_reflect_channel_connect_def Let_def pbind_eq_Ok_iff account_of_upd)
qed

lemma close_effect:
  assumes "valid s" "ibc_reflect_channel_close S X d env msg s = Done (Inr res, t)" "ep_channel_id (ch_endpoint (close_channel msg)) \<noteq> ch"
  shows "valid t \<and> account_of X (view t) ch = account_of X (view s) ch"
proof -
  obtain u where "remove_at S PREFIX_ACCOUNTS (ascii (ep_channel_id (ch_endpoint (close_channel msg)))) s = Done (Inr () :: (std_error, unit) result, u)"
    "valid u" "view u = (view s)(accounts_prefix @ ascii (ep_channel_id (ch_endpoint (close_channel msg))) := None)"
    using remove_at_view [OF assms(1) ibc_keys(3)] by blast
  then show ?thesis using assms load_account [OF assms(1)]
    by (auto simp: ibc_reflect_channel_close_def Let_def pbind_eq_Ok_iff account_of_upd)
qed

end

context ibc_reflect_store
begin

text \<open>A callback that succeeds registers an account for a channel that had none.\<close>

lemma callback_effect:
  assumes "valid s" "handle_init_callback S X api response s = Done (Inr res, t)"
  shows "\<exists>i a. must_deserialize (ij_string X) (view s pending_key) = Inr i \<and> view s (accounts_prefix @ ascii i) = None \<and> valid t \<and>
    (\<forall>ch. account_of X (view t) ch = (if ch = i then Some a else account_of X (view s) ch))"
proof -
  obtain i where i: "must_deserialize (ij_string X) (view s pending_key) = Inr i"
    using assms(2) load_item_view [OF assms(1) ibc_keys(2), of "ij_string X"]
    by (auto simp: handle_init_callback_def pbind_eq_Ok_iff)
  obtain u where u: "remove_item S KEY_PENDING_CHANNEL s = Done (Inr () :: (std_error, unit) result, u)" "valid u" "view u = (view s)(pending_key := None)"
    using remove_item_view [OF assms(1) ibc_keys(2)] by blast
  obtain a a' where run: "update_at S (ij_addr X) PREFIX_ACCOUNTS (ascii i) (register_account a) u = Done (Inr a', t)"
    using assms(2) load_item_view [OF assms(1) ibc_keys(2), of "ij_string X"] i u(1)
    by (auto simp: handle_init_callback_def pbind_eq_Ok_iff)
  show ?thesis
  proof (cases "rbind (may_deserialize (ij_addr X) (view u (accounts_prefix @ ascii i))) (register_account a)")
    case (Inl e)
    then show ?thesis using update_at_Err [OF u(2) ibc_keys(3) Inl] run by simp
  next
    case (Inr x)
    then have none: "view u (accounts_prefix @ ascii i) = None" "x = a"
      by (auto simp: rbind_eq_Ok_iff may_deserialize_def register_account_def map_ok_eq_Ok_iff split: option.splits)
    from update_at_Ok [OF u(2) ibc_keys(3) ad.json_codec_axioms Inr] run
    obtain b where "from_slice (ij_addr X) b = Inr x" "valid t" "view t = (view u)(accounts_prefix @ ascii i \<mapsto> b)" by auto
    then show ?thesis using i none u(3) by (auto simp: account_of_upd)
  qed
qed

text \<open>The callback for a new channel succeeds.\<close>

lemma callback_registers:
  assumes "valid s" "must_deserialize (ij_string X) (view s pending_key) = Inr ch" "view s (accounts_prefix @ ascii ch) = None"
    and "parse_contract_from_event (sr_events response) = Some addr" "addr_validate api addr = Inr a"
  shows "\<exists>res t. handle_init_callback S X api response s = Done (Inr res, t) \<and> valid t \<and> account_of X (view t) ch = Some a"
proof -
  obtain u where u: "remove_item S KEY_PENDING_CHANNEL s = Done (Inr () :: (std_error, unit) result, u)" "valid u" "view u = (view s)(pending_key := None)"
    using remove_item_view [OF assms(1) ibc_keys(2)] by blast
  have "rbind (may_deserialize (ij_addr X) (view u (accounts_prefix @ ascii ch))) (register_account a) = Inr a"
    using assms(3) u(3) by (simp add: may_deserialize_def register_account_def)
  from update_at_Ok [OF u(2) ibc_keys(3) ad.json_codec_axioms this] obtain b t where
    "from_slice (ij_addr X) b = Inr a" "update_at S (ij_addr X) PREFIX_ACCOUNTS (ascii ch) (register_account a) u = Done (Inr a, t)"
    "valid t" "view t = (view u)(accounts_prefix @ ascii ch \<mapsto> b)" by blast
  then show ?thesis using assms u load_item_view [OF assms(1) ibc_keys(2), of "ij_string X"]
    by (simp add: handle_init_callback_def pbind_def account_of_upd)
qed

lemma connect_pending:
  assumes "valid s" "must_deserialize (ij_config X) (view s ibc_config_key) = Inr cfg"
  shows "\<exists>res t. ibc_reflect_channel_connect S X msg s = Done (Inr res, t) \<and> valid t \<and>
    must_deserialize (ij_string X) (view t pending_key) = Inr (ep_channel_id (ch_endpoint (connect_channel msg))) \<and>
    (\<forall>k. k \<noteq> pending_key \<longrightarrow> view t k = view s k)"
proof -
  from save_item_view [OF assms(1) ibc_keys(2) str.json_codec_axioms, of "ep_channel_id (ch_endpoint (connect_channel msg))"]
  obtain b u where "save_item S (ij_string X) KEY_PENDING_CHANNEL (ep_channel_id (ch_endpoint (connect_channel msg))) s = Done (Inr (), u)"
    "valid u" "view u = (view s)(pending_key \<mapsto> b)" "from_slice (ij_string X) b = Inr (ep_channel_id (ch_endpoint (connect_channel msg)))"
    by blast
  then show ?thesis using load_item_view [OF assms(1) ibc_keys(1), of "ij_config X"] assms(2)
    by (simp add: ibc_reflect_channel_connect_def Let_def pbind_def must_deserialize_def)
qed

text \<open>An account stays until its channel is closed, whatever the chain calls.\<close>

lemma next_keeps_account:
  assumes "valid s" "account_of X (view s) ch = Some a" "\<not> closes ch (snd (snd c))"
  shows "valid (ibc_reflect_next S X c s) \<and> account_of X (view (ibc_reflect_next S X c s)) ch = Some a"
proof -
  obtain d env call where c: "c = (d, env, call)" using prod_cases3 by blast
  show ?thesis
  proof (cases call)
    case (IbcReply rep)
    have "keep_ok (ibc_reflect_reply S X (dp_api d) rep) s = s \<or>
      (\<exists>res response. handle_init_callback S X (dp_api d) response s = Done (Inr res, keep_ok (ibc_reflect_reply S X (dp_api d) rep) s))"
      using keep_ok_cases [of "ibc_reflect_reply S X (dp_api d) rep" s]
      by (auto simp: ibc_reflect_reply_def pbind_eq_Ok_iff plift_out_eq_Done_iff split: sub_msg_result.splits if_splits)
    moreover have "account_of X (view s) i = None" if "view s (accounts_prefix @ ascii i) = None" for i
      using that by (simp add: account_of_def must_deserialize_def)
    ultimately show ?thesis using assms(1,2) callback_effect [OF assms(1)] c IbcReply
      by (fastforce simp: ibc_reflect_next_def)
  next
    case (IbcConnect msg)
    then show ?thesis using assms(1,2) c connect_effect [OF assms(1)] keep_ok_cases [of "ibc_reflect_channel_connect S X msg" s]
      by (auto simp: ibc_reflect_next_def)
  next
    case (IbcClose msg)
    then show ?thesis using assms c close_effect [OF assms(1)] keep_ok_cases [of "ibc_reflect_channel_close S X d env msg" s]
      by (auto simp: ibc_reflect_next_def closes_def)
  next
    case (IbcReceive msg)
    then show ?thesis using assms(1,2) c packet_receive_answers [OF assms(1), of d msg]
      by (auto simp: ibc_reflect_next_def keep_ok_def)
  next
    case IbcMigrate
    then show ?thesis using assms(1,2) c by (simp add: ibc_reflect_next_def keep_ok_def ibc_reflect_migrate_def)
  qed
qed

lemma run_keeps_account:
  "valid s \<Longrightarrow> account_of X (view s) ch = Some a \<Longrightarrow> \<forall>c \<in> set cs. \<not> closes ch (snd (snd c)) \<Longrightarrow>
   valid (fold (ibc_reflect_next S X) cs s) \<and> account_of X (view (fold (ibc_reflect_next S X) cs s)) ch = Some a"
proof (induction cs arbitrary: s)
  case (Cons c cs)
  with next_keeps_account [of s ch a c] show ?case by simp
qed simp

text \<open>The life of an account: connecting the channel and the reply create it, and it stays.\<close>

lemma account_lifecycle:
  assumes "valid s" "must_deserialize (ij_config X) (view s ibc_config_key) = Inr cfg"
    and "ep_channel_id (ch_endpoint (connect_channel msg)) = ch" "view s (accounts_prefix @ ascii ch) = None"
    and "parse_contract_from_event (sr_events response) = Some addr" "addr_validate (dp_api d') addr = Inr a"
    and "\<forall>c \<in> set cs. \<not> closes ch (snd (snd c))"
  shows "account_of X (view (fold (ibc_reflect_next S X) ((d, env, IbcConnect msg) #
    (d', env', IbcReply \<lparr>rp_id = INIT_CALLBACK_ID, rp_result = SubMsgOk response\<rparr>) # cs) s)) ch = Some a"
proof -
  obtain res t where t: "ibc_reflect_channel_connect S X msg s = Done (Inr res, t)" "valid t"
    "must_deserialize (ij_string X) (view t pending_key) = Inr ch" "\<And>k. k \<noteq> pending_key \<Longrightarrow> view t k = view s k"
    using connect_pending [OF assms(1,2), of msg] assms(3) by blast
  then have "view t (accounts_prefix @ ascii ch) = None" using assms(4) by simp
  from callback_registers [OF t(2,3) this assms(5,6)] obtain res' u where
    u: "handle_init_callback S X (dp_api d') response t = Done (Inr res', u)" "valid u" "account_of X (view u) ch = Some a" by blast
  have "ibc_reflect_next S X (d', env', IbcReply \<lparr>rp_id = INIT_CALLBACK_ID, rp_result = SubMsgOk response\<rparr>)
      (ibc_reflect_next S X (d, env, IbcConnect msg) s) = u"
    using t(1) u(1) by (simp add: ibc_reflect_next_def keep_ok_def ibc_reflect_reply_def)
  then show ?thesis using run_keeps_account [OF u(2,3) assms(7)] by simp
qed

end

end
