(* ===== verification/Contract_Ibc_Send.thy ===== *)
theory Contract_Ibc_Send
  imports Contract_Ibc_Reflect
begin

text \<open>
  The contract \<open>contracts/ibc-reflect-send/src\<close>, the other end of the channels of \<open>ibc-reflect\<close>: it asks for
  the account behind a channel, and its admin sends messages to it. Besides the contract, the handshake between the two
  contracts: the account that the one registered is the remote address that the other records and sends funds to.
\<close>

section \<open>state.rs and msg.rs\<close>

definition SEND_KEY_CONFIG :: bytes where "SEND_KEY_CONFIG = ascii ''config''"
definition SEND_PREFIX_ACCOUNTS :: bytes where "SEND_PREFIX_ACCOUNTS = ascii ''accounts''"

definition PACKET_LIFETIME :: u64 where "PACKET_LIFETIME = 60 * 60"

datatype send_config = SendConfig (sc_admin: string)

record account_data =
  ac_last_update_time :: timestamp
  ac_remote_addr :: "string option"
  ac_remote_balance :: "coin list"

definition account_data_default :: account_data where
  "account_data_default = \<lparr>ac_last_update_time = timestamp_from_nanos 0, ac_remote_addr = None, ac_remote_balance = []\<rparr>"

datatype send_execute_msg =
    UpdateAdmin string
  | SendMsgs string "unit cosmos_msg list"
  | CheckRemoteBalance string
  | SendFunds string string

datatype send_query_msg = QAdmin | QSendListAccounts | QSendAccount string

datatype admin_response = AdminResponse string

record send_account_info =
  si_channel_id :: string
  si_last_update_time :: timestamp
  si_remote_addr :: "string option"
  si_remote_balance :: "coin list"

definition account_info_convert :: "string \<Rightarrow> account_data \<Rightarrow> send_account_info" where
  "account_info_convert channel_id input =
     \<lparr>si_channel_id = channel_id, si_last_update_time = ac_last_update_time input, si_remote_addr = ac_remote_addr input,
      si_remote_balance = ac_remote_balance input\<rparr>"

datatype send_list_response = SendListResponse "send_account_info list"

record send_account_response =
  sa_last_update_time :: timestamp
  sa_remote_addr :: "string option"
  sa_remote_balance :: "coin list"

definition account_response_from :: "account_data \<Rightarrow> send_account_response" where
  "account_response_from input =
     \<lparr>sa_last_update_time = ac_last_update_time input, sa_remote_addr = ac_remote_addr input, sa_remote_balance = ac_remote_balance input\<rparr>"

record ibc_send_codecs =
  nj_config :: "send_config json"
  nj_account :: "account_data json"
  nj_admin_response :: "admin_response json"
  nj_account_response :: "send_account_response json"
  nj_list_response :: "send_list_response json"
  nj_packets :: packet_codecs

section \<open>contract.rs\<close>

definition send_instantiate :: "'s storage_ops \<Rightarrow> ibc_send_codecs \<Rightarrow> message_info \<Rightarrow> ('s, std_error, unit response) prog" where
  "send_instantiate S Y info =
     pbind (save_item S (nj_config Y) SEND_KEY_CONFIG (SendConfig (mi_sender info))) (\<lambda>_.
     preturn (add_attribute ''action'' ''instantiate'' response_new))"

definition handle_update_admin :: "'s storage_ops \<Rightarrow> ibc_send_codecs \<Rightarrow> contract_api \<Rightarrow> message_info \<Rightarrow> string \<Rightarrow>
    ('s, std_error, unit response) prog" where
  "handle_update_admin S Y api info new_admin =
     pbind (load_item S (nj_config Y) SEND_KEY_CONFIG) (\<lambda>cfg.
     if mi_sender info \<noteq> sc_admin cfg then pfail (GenericErr ''Only admin may set new admin'')
     else
       pbind (plift (addr_validate api new_admin)) (\<lambda>admin.
       pbind (save_item S (nj_config Y) SEND_KEY_CONFIG (SendConfig admin)) (\<lambda>_.
       preturn (add_attribute ''new_admin'' admin (add_attribute ''action'' ''handle_update_admin'' response_new)))))"

definition packet_timeout :: "env_info \<Rightarrow> ('s, 'e, ibc_timeout) prog" where
  "packet_timeout env =
     plift_out (omap timeout_from_timestamp (timestamp_plus_seconds (bi_time (env_block env)) PACKET_LIFETIME))"

definition handle_send_msgs :: "'s storage_ops \<Rightarrow> ibc_send_codecs \<Rightarrow> env_info \<Rightarrow> message_info \<Rightarrow> string \<Rightarrow>
    unit cosmos_msg list \<Rightarrow> ('s, std_error, unit response) prog" where
  "handle_send_msgs S Y env info channel_id msgs =
     pbind (load_item S (nj_config Y) SEND_KEY_CONFIG) (\<lambda>cfg.
     if mi_sender info \<noteq> sc_admin cfg then pfail (GenericErr ''Only admin may send messages'')
     else
       pbind (load_at S (nj_account Y) SEND_PREFIX_ACCOUNTS (ascii channel_id)) (\<lambda>_.
       pbind (plift (to_vec (pj_packet (nj_packets Y)) (Dispatch msgs))) (\<lambda>data.
       pbind (packet_timeout env) (\<lambda>timeout.
       preturn
         (add_attribute ''action'' ''handle_send_msgs''
         (add_message (MsgIbc (IbcSendPacket channel_id data timeout)) response_new))))))"

definition handle_check_remote_balance :: "'s storage_ops \<Rightarrow> ibc_send_codecs \<Rightarrow> env_info \<Rightarrow> message_info \<Rightarrow> string \<Rightarrow>
    ('s, std_error, unit response) prog" where
  "handle_check_remote_balance S Y env info channel_id =
     pbind (load_item S (nj_config Y) SEND_KEY_CONFIG) (\<lambda>cfg.
     if mi_sender info \<noteq> sc_admin cfg then pfail (GenericErr ''Only admin may send messages'')
     else
       pbind (load_at S (nj_account Y) SEND_PREFIX_ACCOUNTS (ascii channel_id)) (\<lambda>_.
       pbind (plift (to_vec (pj_packet (nj_packets Y)) Balances)) (\<lambda>data.
       pbind (packet_timeout env) (\<lambda>timeout.
       preturn
         (add_attribute ''action'' ''handle_check_remote_balance''
         (add_message (MsgIbc (IbcSendPacket channel_id data timeout)) response_new))))))"

text \<open>The last coin is popped; there must be no other.\<close>

definition handle_send_funds :: "'s storage_ops \<Rightarrow> ibc_send_codecs \<Rightarrow> env_info \<Rightarrow> message_info \<Rightarrow> string \<Rightarrow> string \<Rightarrow>
    ('s, std_error, unit response) prog" where
  "handle_send_funds S Y env info reflect_channel_id transfer_channel_id =
     (if mi_funds info = [] then pfail (GenericErr ''you must send the coins you wish to ibc transfer'')
      else if butlast (mi_funds info) \<noteq> [] then pfail (GenericErr ''you can only ibc transfer one coin'')
      else
        pbind (load_at S (nj_account Y) SEND_PREFIX_ACCOUNTS (ascii reflect_channel_id)) (\<lambda>data.
        case ac_remote_addr data of
          None \<Rightarrow> pfail (GenericErr (''We don'' @ [CHR 0x27] @ ''t have the remote address for this channel''))
        | Some remote_addr \<Rightarrow>
            pbind (packet_timeout env) (\<lambda>timeout.
            preturn
              (add_attribute ''action'' ''handle_send_funds''
              (add_message (MsgIbc (IbcTransfer transfer_channel_id remote_addr (last (mi_funds info)) timeout)) response_new)))))"

definition send_execute :: "'s storage_ops \<Rightarrow> ibc_send_codecs \<Rightarrow> contract_api \<Rightarrow> env_info \<Rightarrow> message_info \<Rightarrow> send_execute_msg \<Rightarrow>
    ('s, std_error, unit response) prog" where
  "send_execute S Y api env info msg =
     (case msg of
        UpdateAdmin admin \<Rightarrow> handle_update_admin S Y api info admin
      | SendMsgs channel_id msgs \<Rightarrow> handle_send_msgs S Y env info channel_id msgs
      | CheckRemoteBalance channel_id \<Rightarrow> handle_check_remote_balance S Y env info channel_id
      | SendFunds reflect_channel_id transfer_channel_id \<Rightarrow> handle_send_funds S Y env info reflect_channel_id transfer_channel_id)"

definition query_send_account :: "'s storage_ops \<Rightarrow> ibc_send_codecs \<Rightarrow> string \<Rightarrow> ('s, std_error, send_account_response) prog" where
  "query_send_account S Y channel_id =
     pbind (load_at S (nj_account Y) SEND_PREFIX_ACCOUNTS (ascii channel_id)) (\<lambda>account. preturn (account_response_from account))"

definition query_send_list_accounts :: "'s storage_ops \<Rightarrow> ibc_send_codecs \<Rightarrow> ('s, std_error, send_list_response) prog" where
  "query_send_list_accounts S Y =
     with_bucket SEND_PREFIX_ACCOUNTS (\<lambda>bk.
       omap (\<lambda>items.
         (map_ok SendListResponse (collect_ok (map (\<lambda>r.
            rbind r (\<lambda>(k, account).
            rbind (channel_key k) (\<lambda>channel_id.
            Inr (account_info_convert channel_id account)))) items)), bk))
         (bucket_range S (nj_account Y) None None Ascending bk))"

definition query_admin :: "'s storage_ops \<Rightarrow> ibc_send_codecs \<Rightarrow> ('s, std_error, admin_response) prog" where
  "query_admin S Y = pbind (load_item S (nj_config Y) SEND_KEY_CONFIG) (\<lambda>cfg. preturn (AdminResponse (sc_admin cfg)))"

definition send_query :: "'s storage_ops \<Rightarrow> ibc_send_codecs \<Rightarrow> send_query_msg \<Rightarrow> ('s, std_error, bytes) prog" where
  "send_query S Y msg =
     (case msg of
        QAdmin \<Rightarrow> pbind (query_admin S Y) (\<lambda>r. plift (to_vec (nj_admin_response Y) r))
      | QSendAccount channel_id \<Rightarrow> pbind (query_send_account S Y channel_id) (\<lambda>r. plift (to_vec (nj_account_response Y) r))
      | QSendListAccounts \<Rightarrow> pbind (query_send_list_accounts S Y) (\<lambda>r. plift (to_vec (nj_list_response Y) r)))"

section \<open>ibc.rs\<close>

definition send_channel_open :: "ibc_channel_open_msg \<Rightarrow> unit std_result" where
  "send_channel_open msg =
     (let channel = open_channel msg
      in if ch_order channel \<noteq> Ordered then Inl (GenericErr ''Only supports ordered channels'')
         else if ch_version channel \<noteq> IBC_VERSION then Inl (GenericErr (''Must set version to '' @ quoted_version))
         else case open_counterparty_version msg of
           Some counter_version \<Rightarrow>
             if counter_version \<noteq> IBC_VERSION then Inl (GenericErr (''Counterparty version must be '' @ quoted_version)) else Inr ()
         | None \<Rightarrow> Inr ())"

definition send_channel_connect :: "'s storage_ops \<Rightarrow> ibc_send_codecs \<Rightarrow> env_info \<Rightarrow> ibc_channel_connect_msg \<Rightarrow>
    ('s, std_error, unit ibc_basic_response) prog" where
  "send_channel_connect S Y env msg =
     (let channel_id = ep_channel_id (ch_endpoint (connect_channel msg))
      in pbind (save_at S (nj_account Y) SEND_PREFIX_ACCOUNTS (ascii channel_id) account_data_default) (\<lambda>_.
         pbind (plift (to_vec (pj_packet (nj_packets Y)) WhoAmI)) (\<lambda>data.
         pbind (packet_timeout env) (\<lambda>timeout.
         preturn
           (ibc_basic_add_attribute ''channel_id'' channel_id
           (ibc_basic_add_attribute ''action'' ''ibc_connect''
           (ibc_basic_add_message (MsgIbc (IbcSendPacket channel_id data timeout)) ibc_basic_new)))))))"

definition send_channel_close :: "'s storage_ops \<Rightarrow> ibc_channel_close_msg \<Rightarrow> ('s, std_error, unit ibc_basic_response) prog" where
  "send_channel_close S msg =
     (let channel_id = ep_channel_id (ch_endpoint (close_channel msg))
      in pbind (remove_at S SEND_PREFIX_ACCOUNTS (ascii channel_id)) (\<lambda>_.
         preturn
           (ibc_basic_add_attribute ''channel_id'' channel_id
           (ibc_basic_add_attribute ''action'' ''ibc_close'' ibc_basic_new))))"

definition send_packet_receive :: "('s, std_error, unit ibc_receive_response) prog" where
  "send_packet_receive =
     preturn (ibc_receive_add_attribute ''action'' ''ibc_packet_ack'' (ibc_receive_set_ack (ascii ''{}'') ibc_receive_new))"

definition acknowledge_dispatch :: "('s, std_error, unit ibc_basic_response) prog" where
  "acknowledge_dispatch = preturn (ibc_basic_add_attribute ''action'' ''acknowledge_dispatch'' ibc_basic_new)"

definition set_remote_addr :: "string \<Rightarrow> account_data option \<Rightarrow> account_data std_result" where
  "set_remote_addr account acct =
     (case acct of
        Some a \<Rightarrow> Inr (if ac_remote_addr a = None then a\<lparr>ac_remote_addr := Some account\<rparr> else a)
      | None \<Rightarrow> Inl (GenericErr ''no account to update''))"

definition acknowledge_who_am_i :: "'s storage_ops \<Rightarrow> ibc_send_codecs \<Rightarrow> string \<Rightarrow> who_am_i_response contract_result \<Rightarrow>
    ('s, std_error, unit ibc_basic_response) prog" where
  "acknowledge_who_am_i S Y caller ack =
     (case ack of
        ContractErr e \<Rightarrow> preturn
          (ibc_basic_add_attribute ''error'' e (ibc_basic_add_attribute ''action'' ''acknowledge_who_am_i'' ibc_basic_new))
      | ContractOk (WhoAmIResponse account) \<Rightarrow>
          pbind (update_at S (nj_account Y) SEND_PREFIX_ACCOUNTS (ascii caller) (set_remote_addr account)) (\<lambda>_.
          preturn (ibc_basic_add_attribute ''action'' ''acknowledge_who_am_i'' ibc_basic_new)))"

definition set_balances :: "timestamp \<Rightarrow> string \<Rightarrow> coin list \<Rightarrow> account_data option \<Rightarrow> account_data std_result" where
  "set_balances now account balances acct =
     (case acct of
        Some a \<Rightarrow>
          (case ac_remote_addr a of
             Some old_addr \<Rightarrow>
               if old_addr \<noteq> account
               then Inl (GenericErr (''remote account changed from '' @ old_addr @ '' to '' @ account))
               else Inr \<lparr>ac_last_update_time = now, ac_remote_addr = Some account, ac_remote_balance = balances\<rparr>
           | None \<Rightarrow> Inr \<lparr>ac_last_update_time = now, ac_remote_addr = Some account, ac_remote_balance = balances\<rparr>)
      | None \<Rightarrow> Inl (GenericErr ''no account to update''))"

definition acknowledge_balances :: "'s storage_ops \<Rightarrow> ibc_send_codecs \<Rightarrow> env_info \<Rightarrow> string \<Rightarrow> balances_response contract_result \<Rightarrow>
    ('s, std_error, unit ibc_basic_response) prog" where
  "acknowledge_balances S Y env caller ack =
     (case ack of
        ContractErr e \<Rightarrow> preturn
          (ibc_basic_add_attribute ''error'' e (ibc_basic_add_attribute ''action'' ''acknowledge_balances'' ibc_basic_new))
      | ContractOk r \<Rightarrow>
          pbind (update_at S (nj_account Y) SEND_PREFIX_ACCOUNTS (ascii caller)
            (set_balances (bi_time (env_block env)) (bl_account r) (bl_balances r))) (\<lambda>_.
          preturn (ibc_basic_add_attribute ''action'' ''acknowledge_balances'' ibc_basic_new)))"

definition send_packet_ack :: "'s storage_ops \<Rightarrow> ibc_send_codecs \<Rightarrow> env_info \<Rightarrow> ibc_packet_ack_msg \<Rightarrow>
    ('s, std_error, unit ibc_basic_response) prog" where
  "send_packet_ack S Y env msg =
     (let caller = ep_channel_id (pk_src (pa_original_packet msg));
          data = ack_data (pa_acknowledgement msg);
          P = nj_packets Y
      in pbind (plift (from_slice (pj_packet P) (pk_data (pa_original_packet msg)))) (\<lambda>packet.
         case packet of
           Dispatch _ \<Rightarrow> pbind (plift (from_slice (pj_unit_ack P) data)) (\<lambda>_. acknowledge_dispatch)
         | WhoAmI \<Rightarrow> pbind (plift (from_slice (pj_who_ack P) data)) (acknowledge_who_am_i S Y caller)
         | Balances \<Rightarrow> pbind (plift (from_slice (pj_balances_ack P) data)) (acknowledge_balances S Y env caller)))"

definition send_packet_timeout :: "('s, std_error, unit ibc_basic_response) prog" where
  "send_packet_timeout = preturn (ibc_basic_add_attribute ''action'' ''ibc_packet_timeout'' ibc_basic_new)"

section \<open>The recorded remote address\<close>

lemma send_keys:
  "to_length_prefixed SEND_KEY_CONFIG = Done ibc_config_key" "to_length_prefixed SEND_PREFIX_ACCOUNTS = Done accounts_prefix"
  using ibc_keys(1,3) by (simp_all add: SEND_KEY_CONFIG_def SEND_PREFIX_ACCOUNTS_def KEY_CONFIG_def PREFIX_ACCOUNTS_def)

definition remote_of :: "ibc_send_codecs \<Rightarrow> (bytes \<rightharpoonup> bytes) \<Rightarrow> string \<Rightarrow> string option" where
  "remote_of Y m ch =
     Option.bind (result_ok (must_deserialize (nj_account Y) (m (accounts_prefix @ ascii ch)))) ac_remote_addr"

lemma remote_of_upd:
  "remote_of Y (m(accounts_prefix @ ascii ch \<mapsto> b)) ch' =
    (if ch' = ch then Option.bind (result_ok (from_slice (nj_account Y) b)) ac_remote_addr else remote_of Y m ch')"
  "remote_of Y (m(accounts_prefix @ ascii ch := None)) ch' = (if ch' = ch then None else remote_of Y m ch')"
  "remote_of Y (m(ibc_config_key := v)) ch' = remote_of Y m ch'"
  by (auto simp: remote_of_def must_deserialize_def dest: ascii_inj)

lemma remote_of_Some_iff:
  "remote_of Y m ch = Some a \<longleftrightarrow>
   (\<exists>b x. m (accounts_prefix @ ascii ch) = Some b \<and> from_slice (nj_account Y) b = Inr x \<and> ac_remote_addr x = Some a)"
  by (cases "m (accounts_prefix @ ascii ch)"; cases "from_slice (nj_account Y) (the (m (accounts_prefix @ ascii ch)))")
    (auto simp: remote_of_def must_deserialize_def)

datatype send_call =
    SendExecute message_info send_execute_msg
  | SendConnect ibc_channel_connect_msg
  | SendClose ibc_channel_close_msg
  | SendReceive
  | SendAck ibc_packet_ack_msg
  | SendTimeout

definition send_next :: "'s storage_ops \<Rightarrow> ibc_send_codecs \<Rightarrow> contract_api \<times> env_info \<times> send_call \<Rightarrow> 's \<Rightarrow> 's" where
  "send_next S Y c =
     (case c of (api, env, call) \<Rightarrow>
       (case call of
          SendExecute info msg \<Rightarrow> keep_ok (send_execute S Y api env info msg)
        | SendConnect msg \<Rightarrow> keep_ok (send_channel_connect S Y env msg)
        | SendClose msg \<Rightarrow> keep_ok (send_channel_close S msg)
        | SendReceive \<Rightarrow> keep_ok send_packet_receive
        | SendAck msg \<Rightarrow> keep_ok (send_packet_ack S Y env msg)
        | SendTimeout \<Rightarrow> keep_ok send_packet_timeout))"

definition resets :: "string \<Rightarrow> send_call \<Rightarrow> bool" where
  "resets ch call \<longleftrightarrow>
     (\<exists>msg. call = SendConnect msg \<and> ep_channel_id (ch_endpoint (connect_channel msg)) = ch) \<or>
     (\<exists>msg. call = SendClose msg \<and> ep_channel_id (ch_endpoint (close_channel msg)) = ch)"

lemma keep_ok_rule:
  "P s \<Longrightarrow> (\<And>x t. p s = Done (Inr x, t) \<Longrightarrow> P t) \<Longrightarrow> P (keep_ok p s)"
  by (auto simp: keep_ok_def split: outcome.splits sum.splits)

locale ibc_send_store = key_value_store S valid view + cf: json_codec "nj_config Y" + ac: json_codec "nj_account Y" +
  pk: json_codec "pj_packet (nj_packets Y)"
  for S :: "'s storage_ops" and valid view and Y :: ibc_send_codecs
begin

lemma update_keeps_remote:
  assumes "valid s" "remote_of Y (view s) ch = Some a"
    and "\<And>x y. f (Some x) = Inr y \<Longrightarrow> ac_remote_addr x = Some a \<Longrightarrow> ac_remote_addr y = Some a"
    and "update_at S (nj_account Y) SEND_PREFIX_ACCOUNTS (ascii ch') f s = Done (Inr z, t)"
  shows "valid t \<and> remote_of Y (view t) ch = Some a"
proof (cases "rbind (may_deserialize (nj_account Y) (view s (accounts_prefix @ ascii ch'))) f")
  case (Inl e)
  then show ?thesis using update_at_Err [OF assms(1) send_keys(2) Inl] assms(4) by simp
next
  case (Inr y)
  from update_at_Ok [OF assms(1) send_keys(2) ac.json_codec_axioms Inr] assms(4)
  obtain b where b: "from_slice (nj_account Y) b = Inr y" "valid t" "view t = (view s)(accounts_prefix @ ascii ch' \<mapsto> b)" by auto
  have "ac_remote_addr y = Some a" if "ch = ch'"
    using assms(2,3) Inr that by (auto simp: remote_of_Some_iff may_deserialize_def)
  then show ?thesis using b assms(2) by (auto simp: remote_of_upd)
qed

lemma set_remote_addr_keeps: "set_remote_addr n (Some x) = Inr y \<Longrightarrow> ac_remote_addr x = Some a \<Longrightarrow> ac_remote_addr y = Some a"
  by (auto simp: set_remote_addr_def)

lemma set_balances_keeps: "set_balances t n bs (Some x) = Inr y \<Longrightarrow> ac_remote_addr x = Some a \<Longrightarrow> ac_remote_addr y = Some a"
  by (auto simp: set_balances_def split: if_splits)

lemma who_am_i_keeps:
  assumes "valid s" "remote_of Y (view s) ch = Some a" "acknowledge_who_am_i S Y caller ack s = Done (Inr res, t)"
  shows "valid t \<and> remote_of Y (view t) ch = Some a"
proof (cases ack)
  case (ContractOk r)
  obtain n where "r = WhoAmIResponse n" by (cases r)
  with ContractOk obtain z where "update_at S (nj_account Y) SEND_PREFIX_ACCOUNTS (ascii caller) (set_remote_addr n) s = Done (Inr z, t)"
    using assms(3) by (auto simp: acknowledge_who_am_i_def pbind_eq_Ok_iff)
  from update_keeps_remote [OF assms(1,2) _ this] set_remote_addr_keeps show ?thesis by blast
qed (use assms in \<open>simp add: acknowledge_who_am_i_def\<close>)

lemma balances_keeps:
  assumes "valid s" "remote_of Y (view s) ch = Some a" "acknowledge_balances S Y env caller ack s = Done (Inr res, t)"
  shows "valid t \<and> remote_of Y (view t) ch = Some a"
proof (cases ack)
  case (ContractOk r)
  with assms(3) obtain z where "update_at S (nj_account Y) SEND_PREFIX_ACCOUNTS (ascii caller)
      (set_balances (bi_time (env_block env)) (bl_account r) (bl_balances r)) s = Done (Inr z, t)"
    by (auto simp: acknowledge_balances_def pbind_eq_Ok_iff)
  from update_keeps_remote [OF assms(1,2) _ this] set_balances_keeps show ?thesis by blast
qed (use assms in \<open>simp add: acknowledge_balances_def\<close>)

lemma ack_keeps_remote:
  assumes "valid s" "remote_of Y (view s) ch = Some a" "send_packet_ack S Y env msg s = Done (Inr res, t)"
  shows "valid t \<and> remote_of Y (view t) ch = Some a"
proof (cases "from_slice (pj_packet (nj_packets Y)) (pk_data (pa_original_packet msg))")
  case (Inl e)
  then show ?thesis using assms(3) by (simp add: send_packet_ack_def Let_def)
next
  case (Inr packet)
  then show ?thesis
    using assms who_am_i_keeps [OF assms(1,2)] balances_keeps [OF assms(1,2)]
    by (cases packet) (auto simp: send_packet_ack_def Let_def pbind_eq_Ok_iff acknowledge_dispatch_def)
qed

lemma loads:
  assumes "valid s"
  shows "load_item S (nj_config Y) SEND_KEY_CONFIG s = Done (must_deserialize (nj_config Y) (view s ibc_config_key), s)"
    and "load_at S (nj_account Y) SEND_PREFIX_ACCOUNTS (ascii ch) s = Done (must_deserialize (nj_account Y) (view s (accounts_prefix @ ascii ch)), s)"
  using load_item_view [OF assms send_keys(1), of "nj_config Y"] load_at_view [OF assms send_keys(2), of "nj_account Y" "ascii ch"] by simp_all

lemma timeout_eq_Done_iff: "packet_timeout env s = Done (r, t) \<longleftrightarrow> t = s \<and> (\<exists>x. timestamp_plus_seconds (bi_time (env_block env)) PACKET_LIFETIME = Done x \<and> r = Inr (timeout_from_timestamp x))"
  by (auto simp: packet_timeout_def plift_out_eq_Done_iff omap_eq_Done_iff)

text \<open>Packets are sent for the admin only, and funds go to the recorded address of the channel.\<close>

lemma execute_messages:
  assumes "valid s" "send_execute S Y api env info msg s = Done (Inr res, t)" "m \<in> set (r_messages res)"
  shows "(\<exists>ch data timeout. sm_msg m = MsgIbc (IbcSendPacket ch data timeout) \<and>
      must_deserialize (nj_config Y) (view s ibc_config_key) = Inr (SendConfig (mi_sender info))) \<or>
    (\<exists>rch tch a c timeout. sm_msg m = MsgIbc (IbcTransfer tch a c timeout) \<and> msg = SendFunds rch tch \<and>
      remote_of Y (view s) rch = Some a \<and> mi_funds info = [c])"
proof (cases msg)
  case (UpdateAdmin admin)
  then show ?thesis using assms
    by (auto simp: send_execute_def handle_update_admin_def pbind_eq_Ok_iff add_attribute_def response_new_def split: if_splits)
next
  case (SendMsgs ch msgs)
  then show ?thesis using assms(2,3)
    by (auto simp: send_execute_def handle_send_msgs_def pbind_eq_Ok_iff loads [OF assms(1)] timeout_eq_Done_iff add_attribute_def
        add_message_def response_new_def sub_msg_new_def split: if_splits)
next
  case (CheckRemoteBalance ch)
  then show ?thesis using assms(2,3)
    by (auto simp: send_execute_def handle_check_remote_balance_def pbind_eq_Ok_iff loads [OF assms(1)] timeout_eq_Done_iff
        add_attribute_def add_message_def response_new_def sub_msg_new_def split: if_splits)
next
  case (SendFunds rch tch)
  have "mi_funds info = [last (mi_funds info)]" if "mi_funds info \<noteq> []" "butlast (mi_funds info) = []"
    using that append_butlast_last_id by fastforce
  with SendFunds show ?thesis using assms(2,3)
    by (auto simp: send_execute_def handle_send_funds_def pbind_eq_Ok_iff loads [OF assms(1)] timeout_eq_Done_iff remote_of_def
        add_attribute_def add_message_def response_new_def sub_msg_new_def split: if_splits option.splits)
qed

lemma execute_keeps_remote:
  assumes "valid s" "send_execute S Y api env info msg s = Done (Inr res, t)"
  shows "valid t \<and> remote_of Y (view t) ch = remote_of Y (view s) ch"
proof (cases msg)
  case (UpdateAdmin admin)
  have save: "valid t' \<and> remote_of Y (view t') ch = remote_of Y (view s) ch"
    if "save_item S (nj_config Y) SEND_KEY_CONFIG c s = Done (Inr u, t')" for c u t'
    using save_item_view [OF assms(1) send_keys(1) cf.json_codec_axioms, of c] that by (auto simp: remote_of_upd)
  show ?thesis using assms UpdateAdmin save
    by (auto simp: send_execute_def handle_update_admin_def pbind_eq_Ok_iff loads [OF assms(1)] split: if_splits)
qed (use assms in \<open>auto simp: send_execute_def handle_send_msgs_def handle_check_remote_balance_def handle_send_funds_def
    pbind_eq_Ok_iff loads [OF assms(1)] timeout_eq_Done_iff split: if_splits option.splits\<close>)

lemma connect_effect:
  assumes "valid s" "send_channel_connect S Y env msg s = Done (Inr res, t)"
  shows "valid t \<and> (\<exists>b. from_slice (nj_account Y) b = Inr account_data_default \<and>
    view t = (view s)(accounts_prefix @ ascii (ep_channel_id (ch_endpoint (connect_channel msg))) \<mapsto> b))"
proof -
  from save_at_view [OF assms(1) send_keys(2) ac.json_codec_axioms]
  obtain b u where "save_at S (nj_account Y) SEND_PREFIX_ACCOUNTS (ascii (ep_channel_id (ch_endpoint (connect_channel msg)))) account_data_default s =
      Done (Inr (), u)" "from_slice (nj_account Y) b = Inr account_data_default"
    "valid u" "view u = (view s)(accounts_prefix @ ascii (ep_channel_id (ch_endpoint (connect_channel msg))) \<mapsto> b)" by blast
  then show ?thesis using assms(2) by (auto simp: send_channel_connect_def Let_def pbind_eq_Ok_iff timeout_eq_Done_iff)
qed

text \<open>Once recorded, the address of a channel stays until the channel is connected anew or closed.\<close>

lemma next_keeps_remote:
  assumes "valid s" "remote_of Y (view s) ch = Some a" "\<not> resets ch (snd (snd c))"
  shows "valid (send_next S Y c s) \<and> remote_of Y (view (send_next S Y c s)) ch = Some a"
proof -
  obtain api env call where c: "c = (api, env, call)" using prod_cases3 by blast
  have keep: "valid (keep_ok p s) \<and> remote_of Y (view (keep_ok p s)) ch = Some a"
    if "\<And>x t. p s = Done (Inr x, t) \<Longrightarrow> valid t \<and> remote_of Y (view t) ch = Some a" for p :: "('s, std_error, 'x) prog"
    using keep_ok_rule [of "\<lambda>t. valid t \<and> remote_of Y (view t) ch = Some a" s p] that assms(1,2) by blast
  show ?thesis
  proof (cases call)
    case (SendExecute info msg)
    have "valid (keep_ok (send_execute S Y api env info msg) s) \<and> remote_of Y (view (keep_ok (send_execute S Y api env info msg) s)) ch = Some a"
      using execute_keeps_remote [OF assms(1)] assms(2) by (intro keep) simp
    then show ?thesis using c SendExecute by (simp add: send_next_def)
  next
    case (SendConnect msg)
    have "valid (keep_ok (send_channel_connect S Y env msg) s) \<and> remote_of Y (view (keep_ok (send_channel_connect S Y env msg) s)) ch = Some a"
    proof (rule keep)
      fix x t assume "send_channel_connect S Y env msg s = Done (Inr x, t)"
      from connect_effect [OF assms(1) this] assms(2,3) c SendConnect
      show "valid t \<and> remote_of Y (view t) ch = Some a" by (auto simp: resets_def remote_of_upd)
    qed
    then show ?thesis using c SendConnect by (simp add: send_next_def)
  next
    case (SendClose msg)
    define k where "k = ep_channel_id (ch_endpoint (close_channel msg))"
    obtain u where u: "remove_at S SEND_PREFIX_ACCOUNTS (ascii k) s = Done (Inr () :: (std_error, unit) result, u)" "valid u"
      "view u = (view s)(accounts_prefix @ ascii k := None)" using remove_at_view [OF assms(1) send_keys(2)] by blast
    have "ch \<noteq> k" using assms(3) c SendClose by (auto simp: resets_def k_def)
    then have "valid (keep_ok (send_channel_close S msg) s) \<and> remote_of Y (view (keep_ok (send_channel_close S msg) s)) ch = Some a"
      using u assms(2) by (intro keep) (auto simp: send_channel_close_def Let_def pbind_eq_Ok_iff remote_of_upd simp flip: k_def)
    then show ?thesis using c SendClose by (simp add: send_next_def)
  next
    case (SendAck msg)
    have "valid (keep_ok (send_packet_ack S Y env msg) s) \<and> remote_of Y (view (keep_ok (send_packet_ack S Y env msg) s)) ch = Some a"
      using ack_keeps_remote [OF assms(1,2)] by (intro keep) blast
    then show ?thesis using c SendAck by (simp add: send_next_def)
  qed (use assms(1,2) c in \<open>simp_all add: send_next_def keep_ok_def send_packet_receive_def send_packet_timeout_def\<close>)
qed

lemma run_keeps_remote:
  "valid s \<Longrightarrow> remote_of Y (view s) ch = Some a \<Longrightarrow> \<forall>c \<in> set cs. \<not> resets ch (snd (snd c)) \<Longrightarrow>
   valid (fold (send_next S Y) cs s) \<and> remote_of Y (view (fold (send_next S Y) cs s)) ch = Some a"
proof (induction cs arbitrary: s)
  case (Cons c cs)
  with next_keeps_remote [of s ch a c] show ?case by simp
qed simp

end

context ibc_send_store
begin

lemma connect_sends:
  assumes "valid s" "timestamp_plus_seconds (bi_time (env_block env)) PACKET_LIFETIME = Done deadline"
    and "ep_channel_id (ch_endpoint (connect_channel msg)) = ch"
  shows "\<exists>res t data. send_channel_connect S Y env msg s = Done (Inr res, t) \<and> valid t \<and>
    must_deserialize (nj_account Y) (view t (accounts_prefix @ ascii ch)) = Inr account_data_default \<and>
    from_slice (pj_packet (nj_packets Y)) data = Inr WhoAmI \<and>
    map sm_msg (ib_messages res) = [MsgIbc (IbcSendPacket ch data (timeout_from_timestamp deadline))]"
proof -
  from save_at_view [OF assms(1) send_keys(2) ac.json_codec_axioms]
  obtain b t where t: "save_at S (nj_account Y) SEND_PREFIX_ACCOUNTS (ascii ch) account_data_default s = Done (Inr (), t)"
    "from_slice (nj_account Y) b = Inr account_data_default" "valid t" "view t = (view s)(accounts_prefix @ ascii ch \<mapsto> b)" by blast
  obtain data where data: "to_vec (pj_packet (nj_packets Y)) WhoAmI = Inr data" "from_slice (pj_packet (nj_packets Y)) data = Inr WhoAmI"
    using pk.to_vec_Ok by blast
  then show ?thesis using t assms(2,3)
    by (intro exI [of _ "ibc_basic_add_attribute ''channel_id'' ch (ibc_basic_add_attribute ''action'' ''ibc_connect''
        (ibc_basic_add_message (MsgIbc (IbcSendPacket ch data (timeout_from_timestamp deadline))) ibc_basic_new))"] exI [of _ t] exI [of _ data])
      (simp add: send_channel_connect_def Let_def pbind_def packet_timeout_def plift_out_def must_deserialize_def
        ibc_basic_add_attribute_def ibc_basic_add_message_def ibc_basic_new_def sub_msg_new_def)
qed

text \<open>The first answer to the question for the account is recorded.\<close>

lemma who_am_i_recorded:
  assumes "valid s" "must_deserialize (nj_account Y) (view s (accounts_prefix @ ascii ch)) = Inr account_data_default"
    and "from_slice (pj_packet (nj_packets Y)) (pk_data p) = Inr WhoAmI" "ep_channel_id (pk_src p) = ch"
    and "from_slice (pj_who_ack (nj_packets Y)) ack = Inr (ContractOk (WhoAmIResponse acc))"
  shows "\<exists>res t. send_packet_ack S Y env \<lparr>pa_acknowledgement = IbcAcknowledgement ack, pa_original_packet = p\<rparr> s = Done (Inr res, t) \<and>
    valid t \<and> remote_of Y (view t) ch = Some acc"
proof -
  have "rbind (may_deserialize (nj_account Y) (view s (accounts_prefix @ ascii ch))) (set_remote_addr acc) =
      Inr (account_data_default\<lparr>ac_remote_addr := Some acc\<rparr>)"
    using assms(2) by (cases "view s (accounts_prefix @ ascii ch)")
      (auto simp: must_deserialize_def may_deserialize_def set_remote_addr_def account_data_default_def)
  from update_at_Ok [OF assms(1) send_keys(2) ac.json_codec_axioms this]
  obtain b t where "from_slice (nj_account Y) b = Inr (account_data_default\<lparr>ac_remote_addr := Some acc\<rparr>)" "valid t"
    "update_at S (nj_account Y) SEND_PREFIX_ACCOUNTS (ascii ch) (set_remote_addr acc) s =
      Done (Inr (account_data_default\<lparr>ac_remote_addr := Some acc\<rparr>), t)"
    "view t = (view s)(accounts_prefix @ ascii ch \<mapsto> b)" by blast
  then show ?thesis using assms(3-5)
    by (simp add: send_packet_ack_def Let_def pbind_def acknowledge_who_am_i_def remote_of_upd)
qed

lemma send_funds_runs:
  assumes "valid s" "remote_of Y (view s) rch = Some a" "mi_funds info = [c]"
    and "timestamp_plus_seconds (bi_time (env_block env)) PACKET_LIFETIME = Done deadline"
  shows "\<exists>res. send_execute S Y api env info (SendFunds rch tch) s = Done (Inr res, s) \<and>
    map sm_msg (r_messages res) = [MsgIbc (IbcTransfer tch a c (timeout_from_timestamp deadline))]"
proof -
  obtain x where "must_deserialize (nj_account Y) (view s (accounts_prefix @ ascii rch)) = Inr x" "ac_remote_addr x = Some a"
    using assms(2) by (auto simp: remote_of_Some_iff must_deserialize_def)
  then show ?thesis using loads(2) [OF assms(1), of rch] assms(3,4)
    by (simp add: send_execute_def handle_send_funds_def pbind_def packet_timeout_def plift_out_def add_attribute_def add_message_def
        response_new_def sub_msg_new_def)
qed

end

section \<open>The handshake of the two contracts\<close>

text \<open>Both ends of a channel, each on its own chain, with the same format of packets.\<close>

locale ibc_pair =
  A: ibc_send_store SA validA viewA Y + B: ibc_reflect_store SB validB viewB X
  for SA :: "'a storage_ops" and validA viewA Y and SB :: "'b storage_ops" and validB viewB X +
  assumes same_packets: "ij_packets X = nj_packets Y"
begin

lemma handshake:
  assumes "validA sA" "validB sB" "account_of X (viewB sB) chB = Some acc"
    and "timestamp_plus_seconds (bi_time (env_block env)) PACKET_LIFETIME = Done deadline"
    and "ep_channel_id (ch_endpoint (connect_channel msg)) = chA"
  shows "\<exists>resA tA data. send_channel_connect SA Y env msg sA = Done (Inr resA, tA) \<and>
    map sm_msg (ib_messages resA) = [MsgIbc (IbcSendPacket chA data (timeout_from_timestamp deadline))] \<and>
    (\<forall>p. pk_data p = data \<and> ep_channel_id (pk_src p) = chA \<and> ep_channel_id (pk_dest p) = chB \<longrightarrow>
      (\<exists>resB resA' uA. ibc_reflect_packet_receive SB X d (IbcPacketReceiveMsg p) sB = Done (Inr resB, sB) \<and>
        send_packet_ack SA Y env' \<lparr>pa_acknowledgement = IbcAcknowledgement (ir_acknowledgement resB), pa_original_packet = p\<rparr> tA =
          Done (Inr resA', uA) \<and>
        validA uA \<and> remote_of Y (viewA uA) chA = Some acc))"
proof -
  obtain resA tA data where A: "send_channel_connect SA Y env msg sA = Done (Inr resA, tA)" "validA tA"
    "must_deserialize (nj_account Y) (viewA tA (accounts_prefix @ ascii chA)) = Inr account_data_default"
    "from_slice (pj_packet (nj_packets Y)) data = Inr WhoAmI"
    "map sm_msg (ib_messages resA) = [MsgIbc (IbcSendPacket chA data (timeout_from_timestamp deadline))]"
    using A.connect_sends [OF assms(1,4,5)] by (elim exE conjE) (rule that)
  have answered: "\<exists>resB resA' uA. ibc_reflect_packet_receive SB X d (IbcPacketReceiveMsg p) sB = Done (Inr resB, sB) \<and>
        send_packet_ack SA Y env' \<lparr>pa_acknowledgement = IbcAcknowledgement (ir_acknowledgement resB), pa_original_packet = p\<rparr> tA =
          Done (Inr resA', uA) \<and> validA uA \<and> remote_of Y (viewA uA) chA = Some acc"
    if p: "pk_data p = data" "ep_channel_id (pk_src p) = chA" "ep_channel_id (pk_dest p) = chB" for p
  proof -
    obtain resB where B: "receive_packet_msg SB X d p sB = Done (Inr resB, sB)"
      "from_slice (pj_who_ack (nj_packets Y)) (ir_acknowledgement resB) = Inr (ContractOk (WhoAmIResponse acc))"
      using B.receive_packet_known(2) [OF assms(2), of p acc d] assms(3) A(4) p by (auto simp: same_packets)
    then have "ibc_reflect_packet_receive SB X d (IbcPacketReceiveMsg p) sB = Done (Inr resB, sB)"
      by (simp add: ibc_reflect_packet_receive_def por_else_def)
    moreover have "from_slice (pj_packet (nj_packets Y)) (pk_data p) = Inr WhoAmI" using A(4) p(1) by simp
    ultimately show ?thesis using A.who_am_i_recorded [OF A(2,3) _ p(2) B(2)] by blast
  qed
  show ?thesis
    by (intro exI [of _ resA] exI [of _ tA] exI [of _ data] conjI allI impI A(1,5)) (elim conjE, rule answered)
qed

end

context ibc_pair
begin

text \<open>After the handshake, and whatever happens until the channel is connected anew or closed, funds go to the account.\<close>

lemma handshake_pays:
  assumes "validA sA" "validB sB" "account_of X (viewB sB) chB = Some acc"
    and "timestamp_plus_seconds (bi_time (env_block env)) PACKET_LIFETIME = Done deadline"
    and "ep_channel_id (ch_endpoint (connect_channel msg)) = chA"
  shows "\<exists>resA tA data. send_channel_connect SA Y env msg sA = Done (Inr resA, tA) \<and>
    map sm_msg (ib_messages resA) = [MsgIbc (IbcSendPacket chA data (timeout_from_timestamp deadline))] \<and>
    (\<forall>p. pk_data p = data \<and> ep_channel_id (pk_src p) = chA \<and> ep_channel_id (pk_dest p) = chB \<longrightarrow>
      (\<exists>resB resA' uA. ibc_reflect_packet_receive SB X d (IbcPacketReceiveMsg p) sB = Done (Inr resB, sB) \<and>
        send_packet_ack SA Y env' \<lparr>pa_acknowledgement = IbcAcknowledgement (ir_acknowledgement resB), pa_original_packet = p\<rparr> tA =
          Done (Inr resA', uA) \<and>
        (\<forall>cs api env2 info c tch dl. (\<forall>call \<in> set cs. \<not> resets chA (snd (snd call))) \<and> mi_funds info = [c] \<and>
          timestamp_plus_seconds (bi_time (env_block env2)) PACKET_LIFETIME = Done dl \<longrightarrow>
          (\<exists>res. send_execute SA Y api env2 info (SendFunds chA tch) (fold (send_next SA Y) cs uA) =
              Done (Inr res, fold (send_next SA Y) cs uA) \<and>
            map sm_msg (r_messages res) = [MsgIbc (IbcTransfer tch acc c (timeout_from_timestamp dl))]))))"
proof -
  have pays: "\<exists>res. send_execute SA Y api env2 info (SendFunds chA tch) (fold (send_next SA Y) cs uA) =
        Done (Inr res, fold (send_next SA Y) cs uA) \<and>
      map sm_msg (r_messages res) = [MsgIbc (IbcTransfer tch acc c (timeout_from_timestamp dl))]"
    if "validA uA" "remote_of Y (viewA uA) chA = Some acc" "\<forall>call \<in> set cs. \<not> resets chA (snd (snd call))" "mi_funds info = [c]"
      "timestamp_plus_seconds (bi_time (env_block env2)) PACKET_LIFETIME = Done dl" for uA cs api env2 info c tch dl
    using A.run_keeps_remote [OF that(1-3)] A.send_funds_runs that(4,5) by blast
  from handshake [OF assms, of d env'] obtain resA tA data where h: "send_channel_connect SA Y env msg sA = Done (Inr resA, tA)"
    "map sm_msg (ib_messages resA) = [MsgIbc (IbcSendPacket chA data (timeout_from_timestamp deadline))]"
    "\<forall>p. pk_data p = data \<and> ep_channel_id (pk_src p) = chA \<and> ep_channel_id (pk_dest p) = chB \<longrightarrow>
      (\<exists>resB resA' uA. ibc_reflect_packet_receive SB X d (IbcPacketReceiveMsg p) sB = Done (Inr resB, sB) \<and>
        send_packet_ack SA Y env' \<lparr>pa_acknowledgement = IbcAcknowledgement (ir_acknowledgement resB), pa_original_packet = p\<rparr> tA =
          Done (Inr resA', uA) \<and> validA uA \<and> remote_of Y (viewA uA) chA = Some acc)"
    by (elim exE conjE) (rule that)
  show ?thesis
  proof (intro exI [of _ resA] exI [of _ tA] exI [of _ data] conjI allI impI h(1,2), goal_cases)
    case (1 p)
    with h(3) obtain resB resA' uA where
      "ibc_reflect_packet_receive SB X d (IbcPacketReceiveMsg p) sB = Done (Inr resB, sB)"
      "send_packet_ack SA Y env' \<lparr>pa_acknowledgement = IbcAcknowledgement (ir_acknowledgement resB), pa_original_packet = p\<rparr> tA =
        Done (Inr resA', uA)" "validA uA" "remote_of Y (viewA uA) chA = Some acc" by auto
    then show ?case using pays by (intro exI [of _ resB] exI [of _ resA'] exI [of _ uA]) auto
  qed
qed

end

end
