(* ===== verification/Contract_Crypto_Verify.thy ===== *)
theory Contract_Crypto_Verify
  imports Contract_Deps
begin

text \<open>
  The contract \<open>contracts/crypto-verify/src\<close>: queries that verify Cosmos, Ethereum and Tendermint signatures
  with the functions of the API. The hash functions, the hexadecimal decoder and the RLP encoder are crates and hence
  parameters. The arithmetic on the values of a transaction panics on overflow.
\<close>

section \<open>Parameters and msg.rs\<close>

datatype rlp_item = RlpU64 u64 | RlpU128 u128 | RlpBytes bytes

record verify_host =
  vh_sha256 :: "bytes \<Rightarrow> bytes"
  vh_keccak256 :: "bytes \<Rightarrow> bytes"
  vh_hex_decode :: "string \<Rightarrow> bytes option"
  vh_rlp_list :: "rlp_item list \<Rightarrow> bytes"

text \<open>What the crates document: the digest has 32 bytes, and two digits make a byte.\<close>

locale verify_host_laws =
  fixes H :: verify_host
  assumes keccak_length: "length (vh_keccak256 H b) = 32"
    and hex_length: "vh_hex_decode H str = Some bs \<Longrightarrow> length str = 2 * length bs"

record ethereum_transaction =
  et_from :: string
  et_to :: string
  et_nonce :: u64
  et_gas_limit :: uint128
  et_gas_price :: uint128
  et_value :: uint128
  et_data :: bytes
  et_chain_id :: u64
  et_r :: bytes
  et_s :: bytes
  et_v :: u64

datatype verify_query_msg =
    VerifyCosmosSignature bytes bytes bytes
  | VerifyEthereumText string bytes string
  | VerifyEthereumTransaction ethereum_transaction
  | VerifyTendermintSignature bytes bytes bytes
  | VerifyTendermintBatch "bytes list" "bytes list" "bytes list"
  | ListVerificationSchemes

datatype verify_response = VerifyResponse (verifies: bool)

datatype list_verifications_response = ListVerificationsResponse "string list"

record verify_codecs =
  vj_verify :: "verify_response json"
  vj_list :: "list_verifications_response json"

definition list_verifications :: "string list" where
  "list_verifications = [''secp256k1'', ''ed25519'', ''ed25519_batch'']"

section \<open>ethereum.rs\<close>

definition serialize_unsigned_transaction :: "verify_host \<Rightarrow> bytes \<Rightarrow> u64 \<Rightarrow> u128 \<Rightarrow> u128 \<Rightarrow> u128 \<Rightarrow> bytes \<Rightarrow> u64 \<Rightarrow> bytes" where
  "serialize_unsigned_transaction H to nonce gas price val data chain_id =
     vh_rlp_list H [RlpU64 nonce, RlpU128 price, RlpU128 gas, RlpBytes to, RlpU128 val, RlpBytes data, RlpU64 chain_id,
       RlpBytes [], RlpBytes []]"

definition get_recovery_param :: "u8 \<Rightarrow> u8 std_result" where
  "get_recovery_param v =
     (if v = 27 then Inr 0 else if v = 28 then Inr 1
      else Inl (GenericErr ''Values of v other than 27 and 28 not supported. Replay protection (EIP-155) cannot be used here.''))"

definition get_recovery_param_with_chain_id :: "u64 \<Rightarrow> u64 \<Rightarrow> u8 std_result outcome" where
  "get_recovery_param_with_chain_id v chain_id =
     obind (plain_mul chain_id 2) (\<lambda>twice.
     obind (plain_sub v twice) (\<lambda>rest.
     obind (plain_sub rest 35) (\<lambda>recovery.
     if recovery = 0 \<or> recovery = 1 then Done (Inr (ucast recovery))
     else Done (Inl (GenericErr (''Calculated recovery parameter must be 0 or 1 but is '' @ to_string recovery @ ''.''))))))"

definition ethereum_address_raw :: "verify_host \<Rightarrow> bytes \<Rightarrow> bytes std_result outcome" where
  "ethereum_address_raw H pubkey =
     (case pubkey of
        [] \<Rightarrow> Done (Inl (GenericErr ''Public key must not be empty''))
      | tag # data \<Rightarrow>
          if tag \<noteq> 4 then Done (Inl (GenericErr ''Public key must start with 0x04''))
          else if length data \<noteq> 64 then Done (Inl (GenericErr ''Public key must be 65 bytes long''))
          else let hash = vh_keccak256 H data
               in if length hash < 20 then Panic ''attempt to subtract with overflow''
                  else Done (Inr (drop (length hash - 20) hash)))"

definition decode_address :: "verify_host \<Rightarrow> string \<Rightarrow> bytes std_result outcome" where
  "decode_address H input =
     (if length input \<noteq> 42 then Done (Inl (GenericErr ''Ethereum address must be 42 characters long''))
      else if take 2 input \<noteq> ''0x'' then Done (Inl (GenericErr ''Ethereum address must start wit 0x''))
      else case vh_hex_decode H (drop 2 input) of
        None \<Rightarrow> Done (Inl (GenericErr ''hex decoding error''))
      | Some data \<Rightarrow>
          if length data = 20 then Done (Inr data) else Panic ''called Result::unwrap() on an Err value'')"

text \<open>Each half of the signature is padded to 32 bytes; a longer half makes the subtraction overflow.\<close>

definition pad32 :: "bytes \<Rightarrow> bytes outcome" where
  "pad32 b = (if 32 < length b then Panic ''attempt to subtract with overflow'' else Done (replicate (32 - length b) 0 @ b))"

definition verify_transaction :: "verify_host \<Rightarrow> contract_api \<Rightarrow> bytes \<Rightarrow> bytes \<Rightarrow> u64 \<Rightarrow> u128 \<Rightarrow> u128 \<Rightarrow> u128 \<Rightarrow> bytes \<Rightarrow>
    u64 \<Rightarrow> bytes \<Rightarrow> bytes \<Rightarrow> u64 \<Rightarrow> bool std_result outcome" where
  "verify_transaction H api from to nonce gas price val data chain_id r s v =
     (let hash = vh_keccak256 H (serialize_unsigned_transaction H to nonce gas price val data chain_id)
      in obind (pad32 r) (\<lambda>r32.
         obind (pad32 s) (\<lambda>s32.
         let rs = r32 @ s32
         in orbind (get_recovery_param_with_chain_id v chain_id) (\<lambda>recovery.
            orbind (Done (map_err RecoverPubkeyErr (api_secp256k1_recover_pubkey api hash rs recovery))) (\<lambda>calculated_pubkey.
            orbind (ethereum_address_raw H calculated_pubkey) (\<lambda>calculated_address.
            if from \<noteq> calculated_address then Done (Inr False)
            else Done (map_err VerificationErr (api_secp256k1_verify api hash rs calculated_pubkey))))))))"

section \<open>contract.rs\<close>

definition verify_instantiate :: "('s, std_error, 'd response) prog" where
  "verify_instantiate = preturn response_new"

definition query_verify_cosmos :: "verify_host \<Rightarrow> contract_api \<Rightarrow> bytes \<Rightarrow> bytes \<Rightarrow> bytes \<Rightarrow> verify_response std_result" where
  "query_verify_cosmos H api message signature public_key =
     (let hash = vh_sha256 H message
      in case api_secp256k1_verify api hash signature public_key of
           Inr ok \<Rightarrow> Inr (VerifyResponse ok)
         | Inl err \<Rightarrow> Inl (VerificationErr err))"

definition ethereum_text :: "string \<Rightarrow> bytes" where
  "ethereum_text message =
     ascii ([CHR 0x19] @ ''Ethereum Signed Message:'' @ [CHR 0x0A] @ show_nat (length message)) @ ascii message"

definition query_verify_ethereum_text :: "verify_host \<Rightarrow> contract_api \<Rightarrow> string \<Rightarrow> bytes \<Rightarrow> string \<Rightarrow> verify_response std_result outcome" where
  "query_verify_ethereum_text H api message signature signer_address =
     orbind (decode_address H signer_address) (\<lambda>signer.
     let hash = vh_keccak256 H (ethereum_text message)
     in if signature = [] then Done (Inl (GenericErr ''Signature must not be empty''))
        else
          let v = last signature; rs = butlast signature
          in orbind (Done (get_recovery_param v)) (\<lambda>recovery.
             orbind (Done (map_err RecoverPubkeyErr (api_secp256k1_recover_pubkey api hash rs recovery))) (\<lambda>calculated_pubkey.
             orbind (ethereum_address_raw H calculated_pubkey) (\<lambda>calculated_address.
             if signer \<noteq> calculated_address then Done (Inr (VerifyResponse False))
             else case api_secp256k1_verify api hash rs calculated_pubkey of
               Inr ok \<Rightarrow> Done (Inr (VerifyResponse ok))
             | Inl err \<Rightarrow> Done (Inl (VerificationErr err))))))"

definition query_verify_ethereum_transaction :: "verify_host \<Rightarrow> contract_api \<Rightarrow> ethereum_transaction \<Rightarrow> verify_response std_result outcome" where
  "query_verify_ethereum_transaction H api t =
     orbind (decode_address H (et_from t)) (\<lambda>from_addr.
     orbind (decode_address H (et_to t)) (\<lambda>to_addr.
     orbind (verify_transaction H api from_addr to_addr (et_nonce t) (u128 (et_gas_limit t)) (u128 (et_gas_price t)) (u128 (et_value t))
       (et_data t) (et_chain_id t) (et_r t) (et_s t) (et_v t)) (\<lambda>ok.
     Done (Inr (VerifyResponse ok)))))"

definition query_verify_tendermint :: "contract_api \<Rightarrow> bytes \<Rightarrow> bytes \<Rightarrow> bytes \<Rightarrow> verify_response std_result" where
  "query_verify_tendermint api message signature public_key =
     map_ok VerifyResponse (map_err VerificationErr (api_ed25519_verify api message signature public_key))"

definition query_verify_tendermint_batch :: "contract_api \<Rightarrow> bytes list \<Rightarrow> bytes list \<Rightarrow> bytes list \<Rightarrow> verify_response std_result" where
  "query_verify_tendermint_batch api messages signatures public_keys =
     map_ok VerifyResponse (map_err VerificationErr (api_ed25519_batch_verify api messages signatures public_keys))"

definition query_list_verifications :: "list_verifications_response std_result" where
  "query_list_verifications = Inr (ListVerificationsResponse list_verifications)"

definition verify_query :: "verify_host \<Rightarrow> verify_codecs \<Rightarrow> contract_api \<Rightarrow> verify_query_msg \<Rightarrow> ('s, std_error, bytes) prog" where
  "verify_query H Z api msg =
     (case msg of
        VerifyCosmosSignature m sig pk \<Rightarrow> plift (rbind (query_verify_cosmos H api m sig pk) (to_vec (vj_verify Z)))
      | VerifyEthereumText m sig signer \<Rightarrow>
          pbind (lift_or (query_verify_ethereum_text H api m sig signer)) (\<lambda>r. plift (to_vec (vj_verify Z) r))
      | VerifyEthereumTransaction t \<Rightarrow>
          pbind (lift_or (query_verify_ethereum_transaction H api t)) (\<lambda>r. plift (to_vec (vj_verify Z) r))
      | VerifyTendermintSignature m sig pk \<Rightarrow> plift (rbind (query_verify_tendermint api m sig pk) (to_vec (vj_verify Z)))
      | VerifyTendermintBatch ms sigs pks \<Rightarrow> plift (rbind (query_verify_tendermint_batch api ms sigs pks) (to_vec (vj_verify Z)))
      | ListVerificationSchemes \<Rightarrow> plift (rbind query_list_verifications (to_vec (vj_list Z))))"

section \<open>What a positive answer means\<close>

text \<open>The address of an uncompressed key, and the message an Ethereum transaction is signed as.\<close>

definition address_of :: "verify_host \<Rightarrow> bytes \<Rightarrow> bytes" where
  "address_of H pubkey = drop 12 (vh_keccak256 H (tl pubkey))"

definition uncompressed :: "bytes \<Rightarrow> bool" where
  "uncompressed pubkey \<longleftrightarrow> length pubkey = 65 \<and> hd pubkey = 4"

lemma recovery_with_chain_id_eq:
  "get_recovery_param_with_chain_id v chain_id =
    (if 2 ^ 64 \<le> 2 * unat chain_id then Panic ''attempt to multiply with overflow''
     else if unat v < 2 * unat chain_id + 35 then Panic ''attempt to subtract with overflow''
     else let n = unat v - (2 * unat chain_id + 35)
          in if n \<le> 1 then Done (Inr (word_of_nat n))
             else Done (Inl (GenericErr (''Calculated recovery parameter must be 0 or 1 but is '' @ show_nat n @ ''.''))))"
proof (cases "2 ^ 64 \<le> 2 * unat chain_id")
  case True
  then show ?thesis by (simp add: get_recovery_param_with_chain_id_def plain_mul_def checked_mul_def mult.commute)
next
  case fits: False
  define twice where "twice = chain_id * 2"
  have twice: "unat twice = 2 * unat chain_id" using fits by (simp add: twice_def unat_mult_lem [THEN iffD1] mult.commute)
  have mul: "plain_mul chain_id 2 = Done twice"
    using fits by (simp add: plain_mul_def checked_mul_def twice_def mult.commute)
  show ?thesis
  proof (cases "unat v < 2 * unat chain_id + 35")
    case True
    then show ?thesis using mul twice fits
      by (auto simp: get_recovery_param_with_chain_id_def plain_sub_def checked_sub_def word_le_nat_alt unat_sub)
  next
    case False
    define rest where "rest = v - twice - 35"
    have le: "twice \<le> v" "35 \<le> v - twice" using False twice by (simp_all add: word_le_nat_alt unat_sub)
    then have "plain_sub v twice = Done (v - twice)" "plain_sub (v - twice) 35 = Done rest"
      by (simp_all add: plain_sub_def checked_sub_def rest_def word_le_nat_alt)
    moreover have n: "unat rest = unat v - (2 * unat chain_id + 35)" using le twice by (simp add: rest_def unat_sub)
    moreover have "rest = 0 \<or> rest = 1 \<longleftrightarrow> unat rest \<le> 1" by (auto simp: word_unat_eq_iff)
    moreover have "ucast rest = (word_of_nat (unat rest) :: u8)" by (simp add: of_nat_unat)
    ultimately show ?thesis using mul fits False by (simp add: get_recovery_param_with_chain_id_def Let_def to_string_def)
  qed
qed

lemma recovery_with_chain_id_Ok_iff:
  "get_recovery_param_with_chain_id v chain_id = Done (Inr p) \<longleftrightarrow>
   2 * unat chain_id < 2 ^ 64 \<and> (p = 0 \<or> p = 1) \<and> unat v = 2 * unat chain_id + 35 + unat p"
proof (cases "2 * unat chain_id < 2 ^ 64 \<and> 2 * unat chain_id + 35 \<le> unat v")
  case True
  then obtain n where n: "unat v = 2 * unat chain_id + 35 + n" using le_Suc_ex by blast
  have "get_recovery_param_with_chain_id v chain_id = Done (Inr p) \<longleftrightarrow> n \<le> 1 \<and> word_of_nat n = p"
    using True unfolding recovery_with_chain_id_eq n by (simp add: Let_def)
  also have "\<dots> \<longleftrightarrow> (p = 0 \<or> p = 1) \<and> n = unat p" by (auto simp: le_Suc_eq)
  finally show ?thesis using True n by simp
next
  case False
  then show ?thesis by (auto simp: recovery_with_chain_id_eq)
qed

context verify_host_laws
begin

lemma address_raw_Ok_iff: "ethereum_address_raw H pk = Done (Inr a) \<longleftrightarrow> uncompressed pk \<and> a = address_of H pk"
  by (cases pk) (auto simp: ethereum_address_raw_def Let_def uncompressed_def address_of_def keccak_length)

lemma address_raw_total: "\<exists>r. ethereum_address_raw H pk = Done r"
  by (cases pk) (auto simp: ethereum_address_raw_def Let_def keccak_length)

lemma decode_address_total: "\<exists>r. decode_address H input = Done r"
  using hex_length [of "drop 2 input"] by (auto simp: decode_address_def split: option.splits)

lemma pad32_eq_Done_iff: "pad32 b = Done c \<longleftrightarrow> length b \<le> 32 \<and> c = replicate (32 - length b) 0 @ b"
  by (auto simp: pad32_def)

lemma orbind_total: "(\<And>x. m = Done (Inr x) \<Longrightarrow> \<exists>r. f x = Done r) \<Longrightarrow> \<exists>r. m = Done r \<Longrightarrow> \<exists>r. orbind m f = Done r"
  by (cases "(m, f)" rule: orbind.cases) auto

lemma recovered_total:
  "\<exists>r. orbind (Done (map_err RecoverPubkeyErr x)) (\<lambda>pk. orbind (ethereum_address_raw H pk) (\<lambda>a.
     if from \<noteq> a then Done (Inr f) else Done (g pk))) = Done r"
  by (intro orbind_total) (auto intro: address_raw_total)

text \<open>A transaction verifies exactly when its key is recovered, belongs to the sender and verifies the signature.\<close>

lemma verify_transaction_True_iff:
  "verify_transaction H api from to nonce gas price val data chain_id r s v = Done (Inr True) \<longleftrightarrow>
   (let hash = vh_keccak256 H (serialize_unsigned_transaction H to nonce gas price val data chain_id);
        rs = replicate (32 - length r) 0 @ r @ replicate (32 - length s) 0 @ s
    in length r \<le> 32 \<and> length s \<le> 32 \<and> 2 * unat chain_id < 2 ^ 64 \<and>
       (\<exists>p pk. (p = 0 \<or> p = 1) \<and> unat v = 2 * unat chain_id + 35 + unat p \<and>
         api_secp256k1_recover_pubkey api hash rs p = Inr pk \<and> uncompressed pk \<and> address_of H pk = from \<and>
         api_secp256k1_verify api hash rs pk = Inr True))"
  by (auto simp: verify_transaction_def Let_def obind_eq_Done_iff pad32_eq_Done_iff orbind_eq_Ok_iff recovery_with_chain_id_Ok_iff
      map_err_eq_Ok_iff address_raw_Ok_iff split: if_splits)

lemma verify_transaction_panics_iff:
  "panics (verify_transaction H api from to nonce gas price val data chain_id r s v) \<longleftrightarrow>
   32 < length r \<or> 32 < length s \<or> 2 ^ 64 \<le> 2 * unat chain_id \<or> unat v < 2 * unat chain_id + 35"
proof (cases "32 < length r \<or> 32 < length s \<or> 2 ^ 64 \<le> 2 * unat chain_id \<or> unat v < 2 * unat chain_id + 35")
  case True
  then show ?thesis by (auto simp: verify_transaction_def Let_def pad32_def recovery_with_chain_id_eq)
next
  case False
  have "\<exists>x. get_recovery_param_with_chain_id v chain_id = Done x"
    using False unfolding recovery_with_chain_id_eq by (simp add: Let_def)
  then obtain x where "get_recovery_param_with_chain_id v chain_id = Done x" by blast
  then have "\<exists>y. verify_transaction H api from to nonce gas price val data chain_id r s v = Done y"
    using False recovered_total by (cases x) (auto simp: verify_transaction_def Let_def pad32_def)
  with False show ?thesis by auto
qed

lemma verdict_iff:
  "(case x of Inl err \<Rightarrow> Done (Inl (VerificationErr err)) | Inr ok \<Rightarrow> Done (Inr (VerifyResponse ok))) = Done (Inr (VerifyResponse b)) \<longleftrightarrow> x = Inr b"
  by (cases x) auto

text \<open>The same for a signed text, which is answered without a panic.\<close>

lemma ethereum_text_True_iff:
  "query_verify_ethereum_text H api message signature signer_address = Done (Inr (VerifyResponse True)) \<longleftrightarrow>
   (\<exists>signer rs v p pk. decode_address H signer_address = Done (Inr signer) \<and> signature = rs @ [v] \<and>
     (v = 27 \<and> p = 0 \<or> v = 28 \<and> p = 1) \<and>
     api_secp256k1_recover_pubkey api (vh_keccak256 H (ethereum_text message)) rs p = Inr pk \<and> uncompressed pk \<and>
     address_of H pk = signer \<and> api_secp256k1_verify api (vh_keccak256 H (ethereum_text message)) rs pk = Inr True)"
  by (cases signature rule: rev_cases)
    (auto simp: query_verify_ethereum_text_def Let_def orbind_eq_Ok_iff map_err_eq_Ok_iff address_raw_Ok_iff get_recovery_param_def
      verdict_iff split: if_splits)

lemma ethereum_text_total: "\<exists>r. query_verify_ethereum_text H api message signature signer_address = Done r"
  unfolding query_verify_ethereum_text_def Let_def
  by (intro orbind_total decode_address_total) (auto intro!: orbind_total address_raw_total split: sum.splits)

end

end
