(* ===== verification/Contract_Example.thy ===== *)
theory Contract_Example
  imports Contract_Hackatom Contract_Reflect Contract_Ibc_Send Contract_Crypto_Verify Staking_Ledger "HOL-Library.Countable"
begin

text \<open>
  The contracts on the memory storage. One codec serves every type with countably many values: the value is
  numbered and the number written in unary, so that it is read back. The storage starts empty, and the states the facts
  speak about are reached by the entry points.
\<close>

section \<open>A codec for every countable type\<close>

definition any_json :: "'a::countable json" where
  "any_json = \<lparr>json_to_vec = (\<lambda>x. Inr (replicate (Suc (to_nat x)) 1)), json_from_slice = (\<lambda>b. Inr (from_nat (length b - 1))),
     type_name = ''value''\<rparr>"

lemma any_json_codec: "json_codec any_json"
  by unfold_locales (auto simp: any_json_def)

instance uint64 :: countable by countable_datatype
instance uint128 :: countable by countable_datatype
instance timestamp :: countable by countable_datatype

instance coin_ext :: (countable) countable
  by (rule countable_classI [of "\<lambda>r. to_nat (denom r, amount r, coin.more r)"]) simp

instance ibc_timeout_block_ext :: (countable) countable
  by (rule countable_classI [of "\<lambda>r. to_nat (tb_revision r, tb_height r, ibc_timeout_block.more r)"]) simp

instance ibc_timeout_ext :: (countable) countable
  by (rule countable_classI [of "\<lambda>r. to_nat (to_block r, to_timestamp r, ibc_timeout.more r)"]) simp

instance ibc_msg :: countable by countable_datatype
instance bank_msg :: countable by countable_datatype
instance staking_msg :: countable by countable_datatype
instance distribution_msg :: countable by countable_datatype
instance wasm_msg :: countable by countable_datatype
instance vote_option :: countable by countable_datatype
instance gov_msg :: countable by countable_datatype
instance cosmos_msg :: (countable) countable by countable_datatype

instance attribute_ext :: (countable) countable
  by (rule countable_classI [of "\<lambda>r. to_nat (attr_key r, attr_value r, attribute.more r)"]) simp

instance event_ext :: (countable) countable
  by (rule countable_classI [of "\<lambda>r. to_nat (ev_type r, ev_attributes r, event.more r)"]) simp

instance sub_msg_execution_response_ext :: (countable) countable
  by (rule countable_classI [of "\<lambda>r. to_nat (sr_events r, sr_data r, sub_msg_execution_response.more r)"]) simp

instance sub_msg_result :: countable by countable_datatype

instance reply_ext :: (countable) countable
  by (rule countable_classI [of "\<lambda>r. to_nat (rp_id r, rp_result r, reply.more r)"]) simp

instance hackatom_state_ext :: (countable) countable
  by (rule countable_classI [of "\<lambda>r. to_nat (hs_verifier r, hs_beneficiary r, hs_funder r, hackatom_state.more r)"]) simp

instance reflect_state :: countable by countable_datatype
instance reflect_forward_msg :: countable by countable_datatype
instance packet_msg :: countable by countable_datatype
instance contract_result :: (countable) countable by countable_datatype
instance who_am_i_response :: countable by countable_datatype

instance balances_response_ext :: (countable) countable
  by (rule countable_classI [of "\<lambda>r. to_nat (bl_account r, bl_balances r, balances_response.more r)"]) simp

instance ibc_config :: countable by countable_datatype
instance send_config :: countable by countable_datatype

instance account_data_ext :: (countable) countable
  by (rule countable_classI [of "\<lambda>r. to_nat (ac_last_update_time r, ac_remote_addr r, ac_remote_balance r, account_data.more r)"]) simp

section \<open>The environment of the examples\<close>

definition example_api :: contract_api where
  "example_api = \<lparr>addr_validate = (\<lambda>a. if a = [] then Inl (GenericErr ''Invalid input: human address too short'') else Inr a),
     addr_canonicalize = (\<lambda>a. Inr (ascii a)), addr_humanize = (\<lambda>b. Inr (from_ascii b)),
     api_secp256k1_verify = (\<lambda>hash signature key. Inr (key = 4 # replicate 64 7)),
     api_secp256k1_recover_pubkey = (\<lambda>hash signature param. Inr (4 # replicate 64 7)),
     api_ed25519_verify = (\<lambda>message signature key. Inr (message = key)),
     api_ed25519_batch_verify = (\<lambda>messages signatures keys. Inr (messages = keys))\<rparr>"

definition example_contract_deps :: "unit deps" where
  "example_contract_deps = \<lparr>dp_api = example_api, dp_querier = sd_querier (example_deps []),
     dp_responses = (sd_responses (example_deps []))\<lparr>all_balance_json := answer_json (AllBalanceResponse (coins 5 ''ustake''))\<rparr>\<rparr>"

lemma example_balances:
  "query_all_balances (dp_querier example_contract_deps) (dp_responses example_contract_deps) a = Inr (coins 5 ''ustake'')"
  by (simp add: example_contract_deps_def example_deps_def query_all_balances_def query_def query_bytes_def answer_json_def to_vec_def from_slice_def)

lemma memory_store_any: "\<exists>t. st_set memory_ops s k (replicate (Suc n) 1) = Done t"
  by (simp add: memory_ops_def memory_set_def)

section \<open>Hackatom\<close>

definition example_hackatom_codecs :: hackatom_codecs where
  "example_hackatom_codecs = \<lparr>hj_state = any_json, hj_execute = answer_json Release, hj_query = answer_json QVerifier,
     hj_verifier = answer_json (VerifierResponse ''vera''), hj_recurse = answer_json (RecurseResponse []),
     hj_int = answer_json (IntResponse 0)\<rparr>"

definition example_hackatom_state :: hackatom_state where
  "example_hackatom_state = \<lparr>hs_verifier = ''vera'', hs_beneficiary = ''ben'', hs_funder = ''owner''\<rparr>"

lemma example_hackatom_reachable:
  "\<exists>s. hackatom_reachable memory_ops example_hackatom_codecs memory_storage_new example_hackatom_state s"
proof -
  obtain s where "st_set memory_ops memory_storage_new CONFIG_KEY (replicate (Suc (to_nat example_hackatom_state)) 1) = Done s"
    using memory_store_any by blast
  then have "hackatom_instantiate memory_ops (hj_state example_hackatom_codecs) example_contract_deps example_info
      \<lparr>hi_verifier = ''vera'', hi_beneficiary = ''ben''\<rparr> memory_storage_new =
      Done (Inr (add_attribute ''Let the'' ''hacking begin'' response_new :: unit response), s)"
    by (simp add: hackatom_instantiate_def example_hackatom_codecs_def example_contract_deps_def example_api_def pmap_err_def pbind_def
        store_value_def to_vec_def any_json_def example_hackatom_state_def example_info_def)
  from hack_instantiated [OF this, of "''vera''" "''ben''"] show ?thesis
    by (auto simp: example_contract_deps_def example_api_def example_info_def example_hackatom_state_def)
qed

section \<open>Reflect\<close>

definition example_reflect_codecs :: reflect_codecs where
  "example_reflect_codecs = \<lparr>rj_state = any_json, rj_reply = any_json, rj_owner = answer_json (OwnerResponse ''owner''),
     rj_capitalized = answer_json (CapitalizedResponse ''A''), rj_chain = answer_json (ChainResponse []),
     rj_raw = answer_json (RawResponse []), rj_special = answer_json (SpecialResponse ''A'')\<rparr>"

interpretation reflect_memory: reflect_store memory_ops memory_inv "\<lambda>s. btree_get (ms_data s)" example_reflect_codecs
  by (rule reflect_store.intro) (simp_all add: memory.key_value_store_axioms example_reflect_codecs_def any_json_codec)

section \<open>The two ends of a channel\<close>

definition example_packets :: packet_codecs where
  "example_packets = \<lparr>pj_packet = any_json, pj_unit_ack = any_json, pj_who_ack = any_json, pj_balances_ack = any_json\<rparr>"

definition example_ibc_reflect_codecs :: ibc_reflect_codecs where
  "example_ibc_reflect_codecs = \<lparr>ij_config = any_json, ij_string = any_json, ij_addr = any_json, ij_forward = any_json,
     ij_account_response = answer_json (AccountResponse None), ij_list_response = answer_json (ListAccountsResponse []),
     ij_packets = example_packets\<rparr>"

definition example_send_codecs :: ibc_send_codecs where
  "example_send_codecs = \<lparr>nj_config = any_json, nj_account = any_json, nj_admin_response = answer_json (AdminResponse ''owner''),
     nj_account_response = answer_json (account_response_from account_data_default), nj_list_response = answer_json (SendListResponse []),
     nj_packets = example_packets\<rparr>"

interpretation ibc_reflect_memory: ibc_reflect_store memory_ops memory_inv "\<lambda>s. btree_get (ms_data s)" example_ibc_reflect_codecs
  by (rule ibc_reflect_store.intro)
    (simp_all add: memory.key_value_store_axioms example_ibc_reflect_codecs_def example_packets_def any_json_codec)

interpretation ibc_send_memory: ibc_send_store memory_ops memory_inv "\<lambda>s. btree_get (ms_data s)" example_send_codecs
  by (rule ibc_send_store.intro) (simp_all add: memory.key_value_store_axioms example_send_codecs_def example_packets_def any_json_codec)

interpretation ibc_pair_memory: ibc_pair memory_ops memory_inv "\<lambda>s. btree_get (ms_data s)" example_send_codecs
    memory_ops memory_inv "\<lambda>s. btree_get (ms_data s)" example_ibc_reflect_codecs
  by unfold_locales (simp add: example_send_codecs_def example_ibc_reflect_codecs_def)

section \<open>Signatures\<close>

fun hex_pairs :: "string \<Rightarrow> bytes option" where
  "hex_pairs [] = Some []"
| "hex_pairs (a # b # cs) =
     (if is_digit a \<and> is_digit b then map_option ((#) (word_of_nat (16 * digit_val a + digit_val b))) (hex_pairs cs) else None)"
| "hex_pairs [a] = None"

fun rlp_bytes :: "rlp_item \<Rightarrow> bytes" where
  "rlp_bytes (RlpU64 n) = to_be_bytes n"
| "rlp_bytes (RlpU128 n) = to_be_bytes n"
| "rlp_bytes (RlpBytes b) = b"

definition example_verify_host :: verify_host where
  "example_verify_host = \<lparr>vh_sha256 = (\<lambda>b. take 32 (b @ replicate 32 0)), vh_keccak256 = (\<lambda>b. take 32 (b @ replicate 32 0)),
     vh_hex_decode = hex_pairs, vh_rlp_list = (\<lambda>items. concat (map rlp_bytes items))\<rparr>"

lemma hex_pairs_length: "hex_pairs s = Some bs \<Longrightarrow> length s = 2 * length bs"
  by (induction s arbitrary: bs rule: hex_pairs.induct) (auto split: if_splits)

interpretation example_verify: verify_host_laws example_verify_host
  by unfold_locales (simp_all add: example_verify_host_def hex_pairs_length)

section \<open>States the entry points reach\<close>

definition example_hackatom_host :: hackatom_host where
  "example_hackatom_host = \<lparr>hh_hash_encoded = (\<lambda>password salt config. Inr ''hash''), hh_sha256 = id, hh_memory_grow = (\<lambda>pages. 17),
     hh_debug_text = show_std_error, hh_room = 100\<rparr>"

definition example_owner_info :: "string \<Rightarrow> message_info" where
  "example_owner_info sender = \<lparr>mi_sender = sender, mi_funds = [coin_new 5 ''ustake'']\<rparr>"

lemma memory_start: "memory_inv memory_storage_new" "btree_get (ms_data memory_storage_new) k = None"
  by (simp_all add: memory_inv_def memory_storage_new_def btree_sorted_def)

lemma example_reflect_started:
  "\<exists>s. reflect_instantiate memory_ops example_reflect_codecs (example_owner_info ''owner'') memory_storage_new = Done (Inr response_new, s) \<and>
    memory_inv s \<and> reflects example_reflect_codecs (btree_get (ms_data s)) \<lparr>ra_owner = ''owner'', ra_replies = Map.empty\<rparr>"
  using reflect_memory.instantiate_reflects [OF memory_start(1) memory_start(2), of "example_owner_info ''owner''"]
  by (simp add: example_owner_info_def)

definition example_endpoint :: "string \<Rightarrow> ibc_endpoint" where
  "example_endpoint ch = \<lparr>ep_port_id = ''wasm'', ep_channel_id = ch\<rparr>"

definition example_connect :: "string \<Rightarrow> ibc_channel_connect_msg" where
  "example_connect ch = OpenConfirm (ibc_channel_new (example_endpoint ch) (example_endpoint ''other'') Ordered IBC_VERSION ''connection-0'')"

lemma example_connect_channel [simp]: "ep_channel_id (ch_endpoint (connect_channel (example_connect ch))) = ch"
  by (simp add: example_connect_def ibc_channel_new_def example_endpoint_def)

definition example_packet :: "bytes \<Rightarrow> string \<Rightarrow> string \<Rightarrow> ibc_packet" where
  "example_packet data src dest =
     ibc_packet_new data (example_endpoint src) (example_endpoint dest) 1 (timeout_with_timestamp (timestamp_from_nanos 5))"

definition example_created :: sub_msg_execution_response where
  "example_created = \<lparr>sr_events = [event_add_attribute (event_new ''instantiate'') ''_contract_address'' ''acc''], sr_data = None\<rparr>"

lemma example_created_address: "parse_contract_from_event (sr_events example_created) = Some ''acc''"
  by (simp add: example_created_def parse_contract_from_event_def event_add_attribute_def event_new_def)

lemma example_ibc_reflect_started:
  "\<exists>res s. ibc_reflect_instantiate memory_ops example_ibc_reflect_codecs 17 memory_storage_new = Done (Inr res, s) \<and> memory_inv s \<and>
    must_deserialize (ij_config example_ibc_reflect_codecs) (btree_get (ms_data s) ibc_config_key) = Inr (IbcConfig 17) \<and>
    btree_get (ms_data s) (accounts_prefix @ k) = None"
proof -
  have "json_codec (ij_config example_ibc_reflect_codecs)" by (simp add: example_ibc_reflect_codecs_def any_json_codec)
  from memory.save_item_view [OF memory_start(1) ibc_keys(1) this, of "IbcConfig 17"] obtain b s where
    "from_slice (ij_config example_ibc_reflect_codecs) b = Inr (IbcConfig 17)" "memory_inv s"
    "btree_get (ms_data s) = (btree_get (ms_data memory_storage_new))(ibc_config_key \<mapsto> b)"
    "save_item memory_ops (ij_config example_ibc_reflect_codecs) KEY_CONFIG (IbcConfig 17) memory_storage_new = Done (Inr (), s)" by blast
  then show ?thesis by (simp add: ibc_reflect_instantiate_def pbind_def must_deserialize_def memory_start(2))
qed

lemma example_account:
  "\<exists>s. memory_inv s \<and> account_of example_ibc_reflect_codecs (btree_get (ms_data s)) ''channel-1'' = Some ''acc''"
proof -
  obtain res s where s: "memory_inv s" "must_deserialize (ij_config example_ibc_reflect_codecs) (btree_get (ms_data s) ibc_config_key) = Inr (IbcConfig 17)"
    "btree_get (ms_data s) (accounts_prefix @ ascii ''channel-1'') = None" using example_ibc_reflect_started by blast
  obtain res' t where t: "memory_inv t" "must_deserialize (ij_string example_ibc_reflect_codecs) (btree_get (ms_data t) pending_key) = Inr ''channel-1''"
    "\<And>k. k \<noteq> pending_key \<Longrightarrow> btree_get (ms_data t) k = btree_get (ms_data s) k"
    using ibc_reflect_memory.connect_pending [OF s(1,2), of "example_connect ''channel-1''"] by auto
  then have "btree_get (ms_data t) (accounts_prefix @ ascii ''channel-1'') = None" using s(3) by simp
  from ibc_reflect_memory.callback_registers [OF t(1,2) this example_created_address, of example_api "''acc''"] show ?thesis
    by (auto simp: example_api_def)
qed

lemma example_deadline: "timestamp_plus_seconds (bi_time (env_block example_env)) PACKET_LIFETIME = Done (timestamp_from_nanos 3600000000000)"
  by (simp add: example_env_def timestamp_plus_seconds_def timestamp_plus_nanos_def timestamp_from_nanos_def PACKET_LIFETIME_def plain_mul_def
      plain_add_def checked_mul_def checked_add_def uint64_new_def)

end
