(* ===== verification/Profiler.thy ===== *)
theory Profiler
  imports Profiler_Operators Rust_Integers
begin

text \<open>
  \<open>packages/profiler\<close>: code blocks and their store (\<open>code_blocks.rs\<close>), queues in a map (\<open>utils.rs\<close>), the
  measurements (\<open>measure.rs\<close>) and the middleware that inserts the probes (\<open>instrumentation.rs\<close>).

  The standard hasher does not specify its function: it is the parameter \<open>hasher\<close>, a function from the symbols
  of a block to a word. The clock is an argument, the nanoseconds since a fixed instant; a duration is a number of
  nanoseconds. The order in which a hash map is traversed is an argument of \<open>compile_csv\<close>, and the csv writer is
  the record \<open>csv_writer\<close>. Mutexes are not modelled.
\<close>

section \<open>Code blocks\<close>

datatype block_id = BlockId (as_u64: u64)

record code_block =
  cb_inner :: "operator_symbol list"

type_synonym hasher = "operator_symbol list \<Rightarrow> u64"

definition get_hash :: "hasher \<Rightarrow> code_block \<Rightarrow> block_id" where
  "get_hash hasher block = BlockId (hasher (cb_inner block))"

record block_store =
  bs_inner :: "block_id \<rightharpoonup> code_block"

definition block_store_new :: block_store where
  "block_store_new = \<lparr>bs_inner = Map.empty\<rparr>"

definition register_block :: "hasher \<Rightarrow> code_block \<Rightarrow> block_store \<Rightarrow> block_id \<times> block_store" where
  "register_block hasher block store =
     (let hash = get_hash hasher block
      in (hash, store\<lparr>bs_inner := (bs_inner store)(hash \<mapsto> block)\<rparr>))"

definition get_block :: "block_store \<Rightarrow> block_id \<Rightarrow> code_block option" where
  "get_block store hash = bs_inner store hash"

section \<open>Queues in a map\<close>

definition insert_push :: "'k \<Rightarrow> 'i \<Rightarrow> ('k \<rightharpoonup> 'i list) \<Rightarrow> ('k \<rightharpoonup> 'i list)" where
  "insert_push k item m =
     (let m' = (if m k = None then m(k \<mapsto> []) else m)
      in case m' k of None \<Rightarrow> m' | Some q \<Rightarrow> m'(k \<mapsto> q @ [item]))"

section \<open>Measurements\<close>

record measurements =
  started :: "(u32 \<times> u32) \<rightharpoonup> nat list"
  taken :: "block_id \<rightharpoonup> nat list"

definition measurements_new :: measurements where
  "measurements_new = \<lparr>started = Map.empty, taken = Map.empty\<rparr>"

definition start_measurement :: "nat \<Rightarrow> u32 \<Rightarrow> u32 \<Rightarrow> measurements \<Rightarrow> measurements" where
  "start_measurement now fn_index local_block_id m =
     m\<lparr>started := insert_push (fn_index, local_block_id) now (started m)\<rparr>"

text \<open>The time that has passed is zero if the clock went back.\<close>

definition NEVER_STARTED :: string where
  "NEVER_STARTED = ''trying to finalize a measurement that was never started''"

definition take_measurement :: "nat \<Rightarrow> u32 \<Rightarrow> u32 \<Rightarrow> block_id \<Rightarrow> measurements \<Rightarrow> measurements outcome" where
  "take_measurement now fn_index local_block_id block_id m =
     (case started m (fn_index, local_block_id) of
        Some q \<Rightarrow>
          (case q of
             [] \<Rightarrow> Panic NEVER_STARTED
           | start # q' \<Rightarrow>
               Done (m\<lparr>started := (started m)((fn_index, local_block_id) \<mapsto> q'),
                       taken := insert_push block_id (now - start) (taken m)\<rparr>))
      | None \<Rightarrow> Panic NEVER_STARTED)"

definition measurements_clear :: "measurements \<Rightarrow> measurements" where
  "measurements_clear m = m\<lparr>started := Map.empty, taken := Map.empty\<rparr>"

text \<open>
  A duration holds the seconds in 64 bits, and a sum of durations panics above that. The debug text of a block is
  the one the compiler derives.
\<close>

definition DURATION_LIMIT :: nat where
  "DURATION_LIMIT = 2 ^ 64 * 1000000000"

fun sum_durations :: "nat \<Rightarrow> nat list \<Rightarrow> nat outcome" where
  "sum_durations acc [] = Done acc"
| "sum_durations acc (d # ds) =
     (if acc + d < DURATION_LIMIT then sum_durations (acc + d) ds
      else Panic ''overflow in iter::sum over durations'')"

fun list_min :: "nat list \<Rightarrow> nat option" where
  "list_min [] = None"
| "list_min (d # ds) = (case list_min ds of None \<Rightarrow> Some d | Some e \<Rightarrow> Some (min d e))"

fun list_max :: "nat list \<Rightarrow> nat option" where
  "list_max [] = None"
| "list_max (d # ds) = (case list_max ds of None \<Rightarrow> Some d | Some e \<Rightarrow> Some (max d e))"

fun comma_separated :: "string list \<Rightarrow> string" where
  "comma_separated [] = []"
| "comma_separated [s] = s"
| "comma_separated (s # ss) = s @ '', '' @ comma_separated ss"

definition code_block_debug :: "code_block \<Rightarrow> string" where
  "code_block_debug block = ''CodeBlock { inner: ['' @ comma_separated (cb_inner block) @ ''] }''"

record ('s, 'e) csv_writer =
  write_record :: "string list \<Rightarrow> ('s, 'e, unit) prog"
  csv_flush :: "('s, 'e, unit) prog"

text \<open>\<open>unwrap\<close> on the result of a write: an error panics.\<close>

definition write_unwrap :: "('s, 'e, unit) prog \<Rightarrow> 's \<Rightarrow> 's outcome" where
  "write_unwrap p s = obind (p s) (\<lambda>(r, s'). obind (unwrap_ok r) (\<lambda>_. Done s'))"

definition csv_row :: "block_store \<Rightarrow> block_id \<Rightarrow> nat list \<Rightarrow> string list outcome" where
  "csv_row store block_id timings =
     obind (sum_durations 0 timings) (\<lambda>total.
     if length timings = 0 then Panic ''attempt to divide by zero'' else
     let avg = total div length timings in
     obind (unwrap (list_min timings)) (\<lambda>mn.
     obind (unwrap (list_max timings)) (\<lambda>mx.
     obind (unwrap (get_block store block_id)) (\<lambda>block.
       Done [code_block_debug block, show_nat (length timings), show_nat avg, show_nat mn,
             show_nat mx]))))"

fun csv_rows ::
  "('s, 'e) csv_writer \<Rightarrow> block_store \<Rightarrow> (block_id \<times> nat list) list \<Rightarrow> 's \<Rightarrow> 's outcome" where
  "csv_rows wtr store [] s = Done s"
| "csv_rows wtr store ((block_id, timings) # rest) s =
     obind (csv_row store block_id timings) (\<lambda>row.
     obind (write_unwrap (write_record wtr row) s) (csv_rows wtr store rest))"

definition CSV_HEADER :: "string list" where
  "CSV_HEADER = [''block'', ''executions'', ''avg in ns'', ''min in ns'', ''max in ns'']"

text \<open>The argument \<open>entries\<close> is the content of the map \<open>taken\<close> in the order of its traversal.\<close>

definition entries_of :: "(block_id \<times> nat list) list \<Rightarrow> measurements \<Rightarrow> bool" where
  "entries_of entries m \<longleftrightarrow> distinct (map fst entries) \<and> map_of entries = taken m"

definition compile_csv ::
  "('s, 'e) csv_writer \<Rightarrow> block_store \<Rightarrow> (block_id \<times> nat list) list \<Rightarrow> 's \<Rightarrow> 's outcome" where
  "compile_csv wtr store entries s =
     obind (write_unwrap (write_record wtr CSV_HEADER) s) (\<lambda>s.
     obind (csv_rows wtr store entries s) (write_unwrap (csv_flush wtr)))"

section \<open>The middleware\<close>

text \<open>
  An operator with the operands the profiler writes; of the other operators only the variant matters. The conversion
  to a symbol forgets the operands.
\<close>

datatype operator =
    OpI32Const "32 word"
  | OpI64Const "64 word"
  | OpCall u32
  | OpOther operator_symbol

fun from_operator :: "operator \<Rightarrow> operator_symbol" where
  "from_operator (OpI32Const v) = ''I32Const''"
| "from_operator (OpI64Const v) = ''I64Const''"
| "from_operator (OpCall i) = ''Call''"
| "from_operator (OpOther s) = s"

text \<open>
  The conversion of an operator that is passed by value calls itself: \<open>op.into()\<close> with the same type. It has no
  result, and nothing in the profiler calls it.
\<close>

partial_function (option) from_owned_operator :: "operator \<Rightarrow> operator_symbol option" where
  "from_owned_operator operator = from_owned_operator operator"

lemma from_owned_operator_no_result: "from_owned_operator operator = None"
proof -
  have False if "from_owned_operator operator = Some s" for s
    using that by (rule from_owned_operator.raw_induct [where P = "\<lambda>_ _. False", rotated]) 
  then show ?thesis
    by (cases "from_owned_operator operator") auto
qed

definition code_block_from :: "operator list \<Rightarrow> code_block" where
  "code_block_from ops = \<lparr>cb_inner = map from_operator ops\<rparr>"

record profiling_indexes =
  pi_start_measurement :: u32
  pi_take_measurement :: u32

record profiling =
  pr_block_store :: block_store
  pr_indexes :: "profiling_indexes option"

definition profiling_new :: "block_store \<Rightarrow> profiling" where
  "profiling_new block_store = \<lparr>pr_block_store = block_store, pr_indexes = None\<rparr>"

datatype import_index = ImportFunction u32 | ImportTable u32 | ImportMemory u32 | ImportGlobal u32

text \<open>The imports of a module in their order: the module, the field and the position, with the index.\<close>

type_synonym module_imports = "((string \<times> string \<times> u32) \<times> import_index) list"

fun find_import :: "string \<Rightarrow> module_imports \<Rightarrow> u32 option" where
  "find_import name [] = None"
| "find_import name (((module, field, _), index) # imports) =
     (if (module, field) = (''profiling'', name)
      then (case index of ImportFunction fn_index \<Rightarrow> Some fn_index | _ \<Rightarrow> find_import name imports)
      else find_import name imports)"

definition transform_module_info :: "module_imports \<Rightarrow> profiling \<Rightarrow> profiling outcome" where
  "transform_module_info imports p =
     (if pr_indexes p \<noteq> None then
        Panic (''Profiling::transform_module_info: Attempting to use a `Profiling` middleware '' @
               ''from multiple modules.'')
      else
        obind (unwrap (find_import ''start_measurement'' imports)) (\<lambda>fn1.
        obind (unwrap (find_import ''take_measurement'' imports)) (\<lambda>fn2.
          Done (p\<lparr>pr_indexes := Some \<lparr>pi_start_measurement = fn1, pi_take_measurement = fn2\<rparr>\<rparr>))))"

record function_profiling =
  accumulated_ops :: "operator_symbol list"
  fp_indexes :: profiling_indexes
  block_count :: u32
  fp_fn_index :: u32

definition function_profiling_new :: "profiling_indexes \<Rightarrow> u32 \<Rightarrow> function_profiling" where
  "function_profiling_new indexes fn_index =
     \<lparr>accumulated_ops = [], fp_indexes = indexes, block_count = 0, fp_fn_index = fn_index\<rparr>"

definition profiling_function_middleware :: "profiling \<Rightarrow> u32 \<Rightarrow> function_profiling outcome" where
  "profiling_function_middleware p local_function_index =
     obind (unwrap (pr_indexes p)) (\<lambda>indexes. Done (function_profiling_new indexes local_function_index))"

text \<open>The variants of the first arm of \<open>feed\<close>: sources and targets of branches.\<close>

definition BRANCH_SYMBOLS :: "operator_symbol list" where
  "BRANCH_SYMBOLS =
     [''Loop'', ''End'', ''Else'', ''Br'', ''BrTable'', ''BrIf'', ''Call'', ''CallIndirect'', ''Return'']"

definition is_branch :: "operator \<Rightarrow> bool" where
  "is_branch operator \<longleftrightarrow> from_operator operator \<in> set BRANCH_SYMBOLS"

definition take_probe :: "function_profiling \<Rightarrow> block_id \<Rightarrow> operator list" where
  "take_probe fp block_id =
     [OpI32Const (fp_fn_index fp), OpI32Const (block_count fp), OpI64Const (as_u64 block_id),
      OpCall (pi_take_measurement (fp_indexes fp))]"

definition start_probe :: "function_profiling \<Rightarrow> operator list" where
  "start_probe fp =
     [OpI32Const (fp_fn_index fp), OpI32Const (block_count fp), OpCall (pi_start_measurement (fp_indexes fp))]"

text \<open>What \<open>feed\<close> changes: its own fields, the shared store of blocks and the operators written so far.\<close>

record feed_state =
  fs_function :: function_profiling
  fs_store :: block_store
  fs_output :: "operator list"

definition end_block :: "hasher \<Rightarrow> feed_state \<Rightarrow> feed_state" where
  "end_block hasher s =
     (let fp = fs_function s;
          (block_id, store) = register_block hasher \<lparr>cb_inner = accumulated_ops fp\<rparr> (fs_store s)
      in s\<lparr>fs_function := fp\<lparr>accumulated_ops := []\<rparr>, fs_store := store,
           fs_output := fs_output s @ take_probe fp block_id\<rparr>)"

definition profiling_feed :: "hasher \<Rightarrow> operator \<Rightarrow> (feed_state, middleware_error, unit) prog" where
  "profiling_feed hasher operator s =
     (let s = (if is_branch operator then
                 (if accumulated_ops (fs_function s) \<noteq> [] then end_block hasher s else s)
               else
                 (let fp = fs_function s;
                      s = (if accumulated_ops fp = [] then s\<lparr>fs_output := fs_output s @ start_probe fp\<rparr> else s)
                  in s\<lparr>fs_function := fp\<lparr>accumulated_ops := accumulated_ops fp @ [from_operator operator]\<rparr>\<rparr>))
      in Done (Inr (), s\<lparr>fs_output := fs_output s @ [operator]\<rparr>))"

text \<open>The compiler feeds the operators of a function in their order.\<close>

fun profiling_feed_all :: "hasher \<Rightarrow> operator list \<Rightarrow> (feed_state, middleware_error, unit) prog" where
  "profiling_feed_all hasher [] = preturn ()"
| "profiling_feed_all hasher (operator # operators) =
     pbind (profiling_feed hasher operator) (\<lambda>_. profiling_feed_all hasher operators)"

text \<open>The functions of a module, one middleware for each, over one store.\<close>

fun instrument_functions ::
  "hasher \<Rightarrow> u32 \<Rightarrow> operator list list \<Rightarrow> profiling \<Rightarrow> (operator list list \<times> profiling) outcome" where
  "instrument_functions hasher fn_index [] p = Done ([], p)"
| "instrument_functions hasher fn_index (body # bodies) p =
     obind (profiling_function_middleware p fn_index) (\<lambda>fp.
     obind (profiling_feed_all hasher body \<lparr>fs_function = fp, fs_store = pr_block_store p, fs_output = []\<rparr>) (\<lambda>(_, s).
     obind (instrument_functions hasher (fn_index + 1) bodies (p\<lparr>pr_block_store := fs_store s\<rparr>)) (\<lambda>(outs, p).
       Done (fs_output s # outs, p))))"

definition instrument_module ::
  "hasher \<Rightarrow> module_imports \<Rightarrow> operator list list \<Rightarrow> block_store \<Rightarrow> (operator list list \<times> profiling) outcome" where
  "instrument_module hasher imports bodies store =
     obind (transform_module_info imports (profiling_new store)) (instrument_functions hasher 0 bodies)"

end
