(* ===== verification/Profiler_Runs.thy ===== *)
theory Profiler_Runs
  imports Profiler
begin

text \<open>
  What the profiler measures. The first part says which operators the middleware writes before each operator of a
  function, by the position of the operator. The second part follows runs of instrumented functions: sequences of
  positions, with calls, branches and the times at which the probes call the host. No run makes
  \<open>take_measurement\<close> panic, and a run that does not leave a block through an \<open>if\<close> measures each block with its
  own times.
\<close>

section \<open>What the middleware writes\<close>

text \<open>The symbols since the last branch.\<close>

definition open_block :: "operator list \<Rightarrow> operator_symbol list" where
  "open_block pre = map from_operator (rev (takeWhile (\<lambda>operator. \<not> is_branch operator) (rev pre)))"

definition probe :: "hasher \<Rightarrow> function_profiling \<Rightarrow> operator list \<Rightarrow> operator \<Rightarrow> operator list" where
  "probe hasher fp pre operator =
     (if is_branch operator then
        (if open_block pre \<noteq> [] then take_probe fp (BlockId (hasher (open_block pre))) else [])
      else if open_block pre = [] then start_probe fp else [])"

fun instrumented :: "hasher \<Rightarrow> function_profiling \<Rightarrow> operator list \<Rightarrow> operator list \<Rightarrow> operator list" where
  "instrumented hasher fp pre [] = []"
| "instrumented hasher fp pre (operator # operators) =
     probe hasher fp pre operator @ [operator] @ instrumented hasher fp (pre @ [operator]) operators"

text \<open>The blocks of a function that end with a branch.\<close>

fun blocks_of :: "operator list \<Rightarrow> operator list \<Rightarrow> operator_symbol list list" where
  "blocks_of pre [] = []"
| "blocks_of pre (operator # operators) =
     (if is_branch operator \<and> open_block pre \<noteq> [] then [open_block pre] else []) @
     blocks_of (pre @ [operator]) operators"

definition register_symbols :: "hasher \<Rightarrow> operator_symbol list \<Rightarrow> block_store \<Rightarrow> block_store" where
  "register_symbols hasher symbols store = snd (register_block hasher \<lparr>cb_inner = symbols\<rparr> store)"

lemma open_block_Nil [simp]: "open_block [] = []"
  by (simp add: open_block_def)

lemma open_block_snoc [simp]:
  "open_block (pre @ [operator]) =
     (if is_branch operator then [] else open_block pre @ [from_operator operator])"
  by (simp add: open_block_def)

lemma probe_accumulated [simp]:
  "probe hasher (fp\<lparr>accumulated_ops := ops\<rparr>) pre operator = probe hasher fp pre operator"
  by (simp add: probe_def take_probe_def start_probe_def)

lemma instrumented_accumulated [simp]:
  "instrumented hasher (fp\<lparr>accumulated_ops := ops\<rparr>) pre operators = instrumented hasher fp pre operators"
  by (induction operators arbitrary: pre) simp_all

lemma profiling_feed_eq:
  assumes "accumulated_ops (fs_function s) = open_block pre"
  shows "profiling_feed hasher operator s = Done (Inr (),
    s\<lparr>fs_function := (fs_function s)\<lparr>accumulated_ops := open_block (pre @ [operator])\<rparr>,
      fs_store := fold (register_symbols hasher) (blocks_of pre [operator]) (fs_store s),
      fs_output := fs_output s @ probe hasher (fs_function s) pre operator @ [operator]\<rparr>)"
  using assms
  by (cases s; cases "fs_function s")
    (auto simp: profiling_feed_def Let_def end_block_def probe_def register_symbols_def register_block_def get_hash_def
      take_probe_def start_probe_def split: prod.splits)

lemma profiling_feed_all_eq:
  assumes "accumulated_ops (fs_function s) = open_block pre"
  shows "profiling_feed_all hasher operators s = Done (Inr (),
    s\<lparr>fs_function := (fs_function s)\<lparr>accumulated_ops := open_block (pre @ operators)\<rparr>,
      fs_store := fold (register_symbols hasher) (blocks_of pre operators) (fs_store s),
      fs_output := fs_output s @ instrumented hasher (fs_function s) pre operators\<rparr>)"
  using assms
proof (induction operators arbitrary: s pre)
  case Nil
  then show ?case
    by (cases s; cases "fs_function s") (simp add: preturn_def)
next
  case (Cons operator operators)
  let ?t = "s\<lparr>fs_function := (fs_function s)\<lparr>accumulated_ops := open_block (pre @ [operator])\<rparr>,
      fs_store := fold (register_symbols hasher) (blocks_of pre [operator]) (fs_store s),
      fs_output := fs_output s @ probe hasher (fs_function s) pre operator @ [operator]\<rparr>"
  have "profiling_feed_all hasher (operator # operators) s = profiling_feed_all hasher operators ?t"
    using profiling_feed_eq [OF Cons.prems, of hasher operator] by (simp add: pbind_def del: open_block_snoc)
  then show ?case
    using Cons.IH [of ?t "pre @ [operator]"] by (simp del: open_block_snoc)
qed

lemma fold_register_lookup:
  "get_block (fold (register_symbols hasher) blocks store) block_id =
     (case find (\<lambda>symbols. BlockId (hasher symbols) = block_id) (rev blocks) of
        Some symbols \<Rightarrow> Some \<lparr>cb_inner = symbols\<rparr>
      | None \<Rightarrow> get_block store block_id)"
  by (induction blocks rule: rev_induct)
    (simp_all add: register_symbols_def register_block_def get_block_def get_hash_def Let_def)

lemma fold_register_known:
  assumes "symbols \<in> set blocks"
  shows "\<exists>block. get_block (fold (register_symbols hasher) blocks store) (BlockId (hasher symbols)) = Some block"
  using assms by (auto simp: fold_register_lookup find_None_iff split: option.splits)

lemma fold_register_exact:
  assumes "symbols \<in> set blocks" and "inj_on hasher (set blocks)"
  shows "get_block (fold (register_symbols hasher) blocks store) (BlockId (hasher symbols)) = Some \<lparr>cb_inner = symbols\<rparr>"
proof (cases "find (\<lambda>other. BlockId (hasher other) = BlockId (hasher symbols)) (rev blocks)")
  case None
  then show ?thesis
    using assms(1) by (auto simp: find_None_iff)
next
  case (Some other)
  then have "hasher other = hasher symbols" and "other \<in> set (rev blocks)"
    using nth_mem [of _ "rev blocks"] by (auto simp: find_Some_iff)
  then have "other = symbols"
    using assms by (auto dest: inj_onD)
  with Some show ?thesis
    by (simp add: fold_register_lookup)
qed

section \<open>Host calls of a probe\<close>

datatype host_call = StartCall u32 u32 | TakeCall u32 u32 block_id

datatype wasm_value = V32 "32 word" | V64 "64 word"

text \<open>Constants go to the stack; a call of one of the two imports takes its arguments from there.\<close>

fun probe_calls :: "profiling_indexes \<Rightarrow> wasm_value list \<Rightarrow> operator list \<Rightarrow> host_call list" where
  "probe_calls ix stack [] = []"
| "probe_calls ix stack (OpI32Const v # operators) = probe_calls ix (V32 v # stack) operators"
| "probe_calls ix stack (OpI64Const v # operators) = probe_calls ix (V64 v # stack) operators"
| "probe_calls ix stack (OpOther s # operators) = probe_calls ix stack operators"
| "probe_calls ix stack (OpCall i # operators) =
     (if i = pi_start_measurement ix then
        (case stack of V32 b # V32 f # stack' \<Rightarrow> StartCall f b # probe_calls ix stack' operators
         | _ \<Rightarrow> [])
      else if i = pi_take_measurement ix then
        (case stack of V64 h # V32 b # V32 f # stack' \<Rightarrow> TakeCall f b (BlockId h) # probe_calls ix stack' operators
         | _ \<Rightarrow> [])
      else probe_calls ix stack operators)"

fun measure_call :: "nat \<times> host_call \<Rightarrow> measurements \<Rightarrow> measurements outcome" where
  "measure_call (now, StartCall f b) m = Done (start_measurement now f b m)"
| "measure_call (now, TakeCall f b h) m = take_measurement now f b h m"

fun measure_calls :: "(nat \<times> host_call) list \<Rightarrow> measurements \<Rightarrow> measurements outcome" where
  "measure_calls [] m = Done m"
| "measure_calls (c # cs) m = obind (measure_call c m) (measure_calls cs)"

definition queue :: "measurements \<Rightarrow> u32 \<times> u32 \<Rightarrow> nat list" where
  "queue m k = (case started m k of None \<Rightarrow> [] | Some q \<Rightarrow> q)"

lemma insert_push_eq: "insert_push k item m = m(k \<mapsto> (case m k of None \<Rightarrow> [] | Some q \<Rightarrow> q) @ [item])"
  by (auto simp: insert_push_def Let_def split: option.splits)

lemma start_measurement_simps [simp]:
  "queue (start_measurement now f b m) k = (if k = (f, b) then queue m k @ [now] else queue m k)"
  "taken (start_measurement now f b m) = taken m"
  by (auto simp: start_measurement_def queue_def insert_push_eq)

lemma take_measurement_cases:
  "take_measurement now f b h m =
    (case queue m (f, b) of
       [] \<Rightarrow> Panic NEVER_STARTED
     | start # q \<Rightarrow> Done (m\<lparr>started := (started m)((f, b) \<mapsto> q), taken := insert_push h (now - start) (taken m)\<rparr>))"
  by (simp add: take_measurement_def queue_def split: option.splits)

lemma queue_update [simp]:
  "queue (m\<lparr>started := (started m)(k \<mapsto> q), taken := t\<rparr>) k' = (if k' = k then q else queue m k')"
  by (simp add: queue_def)

lemma measure_calls_append: "measure_calls (cs @ ds) m = obind (measure_calls cs m) (measure_calls ds)"
proof (induction cs arbitrary: m)
  case (Cons c cs)
  then show ?case
    by (cases "measure_call c m") auto
qed simp

section \<open>Runs\<close>

text \<open>
  The bodies of the functions are given by their local index. A run stands at a position of a function and ends when
  the function returns. A branch continues behind a loop header, an else or an end, as in the semantics of wasm;
  which of them, and whether it is taken, is left open, so that every run of the real code is one of these. With the
  flag \<open>free\<close> the run may also branch at an \<open>if\<close> whose condition is false, and it may stop at any position, as
  it does on a trap. A call of a local function runs it; a call of an import is a step. Each probe calls the host at
  times of its own.
\<close>

type_synonym bodies = "u32 \<Rightarrow> operator list"

definition calls_at :: "hasher \<Rightarrow> profiling_indexes \<Rightarrow> bodies \<Rightarrow> u32 \<Rightarrow> nat \<Rightarrow> host_call list" where
  "calls_at hasher ix F f p = probe_calls ix [] (probe hasher (function_profiling_new ix f) (take p (F f)) (F f ! p))"

definition jumps :: "bool \<Rightarrow> operator \<Rightarrow> bool" where
  "jumps free operator \<longleftrightarrow> from_operator operator \<in> {''Br'', ''BrIf'', ''BrTable'', ''Else''} \<or>
     free \<and> from_operator operator = ''If''"

definition lands :: "operator list \<Rightarrow> nat \<Rightarrow> bool" where
  "lands body q \<longleftrightarrow> 0 < q \<and> q \<le> length body \<and> from_operator (body ! (q - 1)) \<in> {''Loop'', ''Else'', ''End''}"

definition continues :: "bool \<Rightarrow> operator list \<Rightarrow> nat \<Rightarrow> nat \<Rightarrow> bool" where
  "continues free body p q \<longleftrightarrow> q = Suc p \<or> jumps free (body ! p) \<and> lands body q"

inductive run :: "hasher \<Rightarrow> profiling_indexes \<Rightarrow> bodies \<Rightarrow> bool \<Rightarrow> u32 \<Rightarrow> nat \<Rightarrow> (nat \<times> host_call) list \<Rightarrow> bool"
  for hasher ix F free where
  ends: "p = length (F f) \<Longrightarrow> run hasher ix F free f p []"
| stops: "free \<Longrightarrow> run hasher ix F free f p []"
| returns: "p < length (F f) \<Longrightarrow> from_operator (F f ! p) = ''Return'' \<Longrightarrow> map snd cs = calls_at hasher ix F f p
    \<Longrightarrow> run hasher ix F free f p cs"
| steps: "p < length (F f) \<Longrightarrow> from_operator (F f ! p) \<noteq> ''Return'' \<Longrightarrow> map snd cs = calls_at hasher ix F f p
    \<Longrightarrow> continues free (F f) p q \<Longrightarrow> run hasher ix F free f q ds \<Longrightarrow> run hasher ix F free f p (cs @ ds)"
| calls: "p < length (F f) \<Longrightarrow> from_operator (F f ! p) \<in> {''Call'', ''CallIndirect''}
    \<Longrightarrow> map snd cs = calls_at hasher ix F f p \<Longrightarrow> run hasher ix F free g 0 ds
    \<Longrightarrow> run hasher ix F free f (Suc p) es \<Longrightarrow> run hasher ix F free f p (cs @ ds @ es)"

subsection \<open>No measurement is taken that was not started\<close>

text \<open>One when the block before position \<open>p\<close> of \<open>f\<close> is open and \<open>k\<close> is its key.\<close>

definition pending :: "bodies \<Rightarrow> u32 \<Rightarrow> nat \<Rightarrow> u32 \<times> u32 \<Rightarrow> nat" where
  "pending F f p k = (if k = (f, 0) \<and> open_block (take p (F f)) \<noteq> [] then 1 else 0)"

lemma open_block_Suc:
  assumes "p < length body"
  shows "open_block (take (Suc p) body) =
    (if is_branch (body ! p) then [] else open_block (take p body) @ [from_operator (body ! p)])"
  using assms by (simp add: take_Suc_conv_app_nth)

lemma lands_closed:
  assumes "lands body q"
  shows "open_block (take q body) = []"
proof -
  obtain p where "q = Suc p" and "p < length body"
    using assms by (cases q) (auto simp: lands_def)
  then show ?thesis
    using assms by (simp add: open_block_Suc lands_def is_branch_def BRANCH_SYMBOLS_def) auto
qed

lemma calls_at_eq:
  assumes "pi_start_measurement ix \<noteq> pi_take_measurement ix"
  shows "calls_at hasher ix F f p =
    (if is_branch (F f ! p) then
       (if open_block (take p (F f)) \<noteq> [] then [TakeCall f 0 (BlockId (hasher (open_block (take p (F f)))))] else [])
     else if open_block (take p (F f)) = [] then [StartCall f 0] else [])"
  using assms
  by (simp add: calls_at_def probe_def take_probe_def start_probe_def function_profiling_new_def)

text \<open>The calls of a probe keep the number of open measurements: the balance of a position.\<close>

lemma measure_probe:
  assumes "pi_start_measurement ix \<noteq> pi_take_measurement ix" and "p < length (F f)"
    and "map snd cs = calls_at hasher ix F f p" and "pending F f p (f, 0) \<le> length (queue m (f, 0))"
  shows "\<exists>m'. measure_calls cs m = Done m' \<and>
    (\<forall>k. length (queue m' k) + pending F f p k = length (queue m k) + pending F f (Suc p) k)"
proof (cases "calls_at hasher ix F f p")
  case Nil
  then have "\<forall>k. pending F f (Suc p) k = pending F f p k"
    using assms(1,2) by (auto simp: calls_at_eq pending_def open_block_Suc split: if_splits)
  then show ?thesis
    using assms(3) Nil by simp
next
  case (Cons c rest)
  then obtain now where cs: "cs = [(now, c)]"
    using assms(1,3) by (cases cs) (auto simp: calls_at_eq split: if_splits)
  show ?thesis
  proof (cases c)
    case (StartCall g b)
    then have "g = f" and "b = 0" and "pending F f p (f, 0) = 0" and "pending F f (Suc p) (f, 0) = 1"
      using Cons assms(1,2) by (auto simp: calls_at_eq pending_def open_block_Suc split: if_splits)
    then show ?thesis
      using cs StartCall by (auto simp: pending_def split: if_splits)
  next
    case (TakeCall g b h)
    then have "g = f" and "b = 0" and one: "pending F f p (f, 0) = 1" and "pending F f (Suc p) (f, 0) = 0"
      using Cons assms(1,2) by (auto simp: calls_at_eq pending_def open_block_Suc split: if_splits)
    moreover obtain start q where "queue m (f, 0) = start # q"
      using assms(4) one by (cases "queue m (f, 0)") auto
    ultimately show ?thesis
      using cs TakeCall by (auto simp: take_measurement_cases pending_def split: if_splits)
  qed
qed

lemma run_measured:
  assumes "run hasher ix F free f p cs" and "pi_start_measurement ix \<noteq> pi_take_measurement ix"
    and "pending F f p (f, 0) \<le> length (queue m (f, 0))"
  shows "\<exists>m'. measure_calls cs m = Done m' \<and> (\<forall>k. length (queue m k) \<le> length (queue m' k) + pending F f p k)"
  using assms
proof (induction arbitrary: m rule: run.induct)
  case (returns p f cs)
  then show ?case
    using measure_probe [of ix p F f cs hasher m] by (metis le_add1)
next
  case (steps p f cs q ds)
  obtain m1 where m1: "measure_calls cs m = Done m1"
    and bal: "\<forall>k. length (queue m1 k) + pending F f p k = length (queue m k) + pending F f (Suc p) k"
    using measure_probe [of ix p F f cs hasher m] steps.hyps steps.prems by blast
  have q: "q = Suc p \<or> (\<forall>k. pending F f q k = 0)"
    using steps.hyps by (auto simp: continues_def pending_def lands_closed)
  then have "pending F f q (f, 0) \<le> length (queue m1 (f, 0))"
    using spec [OF bal, of "(f, 0)"] steps.prems(2) by auto
  then obtain m2 where m2: "measure_calls ds m1 = Done m2"
    and le: "\<forall>k. length (queue m1 k) \<le> length (queue m2 k) + pending F f q k"
    using steps.IH steps.prems(1) by blast
  have "length (queue m k) \<le> length (queue m2 k) + pending F f p k" for k
  proof -
    have "q = Suc p \<or> pending F f q k = 0"
      using q by metis
    then show ?thesis
      using spec [OF bal, of k] spec [OF le, of k] by auto
  qed
  then show ?case
    using m1 m2 by (simp add: measure_calls_append)
next
  case (calls p f cs g ds es)
  obtain m1 where m1: "measure_calls cs m = Done m1"
    and bal: "\<forall>k. length (queue m1 k) + pending F f p k = length (queue m k) + pending F f (Suc p) k"
    using measure_probe [of ix p F f cs hasher m] calls.hyps calls.prems by blast
  have closed: "pending F f (Suc p) k = 0" "pending F g 0 k = 0" for k
    using calls.hyps(1,2) by (auto simp: pending_def open_block_Suc is_branch_def BRANCH_SYMBOLS_def)
  obtain m2 where m2: "measure_calls ds m1 = Done m2" and le: "\<forall>k. length (queue m1 k) \<le> length (queue m2 k)"
    using calls.IH(1) [of m1] calls.prems(1) by (auto simp: closed)
  obtain m3 where m3: "measure_calls es m2 = Done m3" and le': "\<forall>k. length (queue m2 k) \<le> length (queue m3 k)"
    using calls.IH(2) [of m2] calls.prems(1) by (auto simp: closed)
  have "length (queue m k) \<le> length (queue m3 k) + pending F f p k" for k
    using closed spec [OF bal, of k] spec [OF le, of k] spec [OF le', of k] by auto
  then show ?case
    using m1 m2 m3 by (simp add: measure_calls_append)
qed auto

subsection \<open>Every block is measured with its own times\<close>

text \<open>An execution of a block: the function, the symbols of the block, and the times of its two probes.\<close>

type_synonym execution = "u32 \<times> operator_symbol list \<times> nat \<times> nat"

fun execution_calls :: "hasher \<Rightarrow> execution \<Rightarrow> (nat \<times> host_call) list" where
  "execution_calls hasher (f, block, t, u) = [(t, StartCall f 0), (u, TakeCall f 0 (BlockId (hasher block)))]"

definition executions_calls :: "hasher \<Rightarrow> execution list \<Rightarrow> (nat \<times> host_call) list" where
  "executions_calls hasher bs = concat (map (execution_calls hasher) bs)"

fun record_execution :: "hasher \<Rightarrow> execution \<Rightarrow> (block_id \<rightharpoonup> nat list) \<Rightarrow> (block_id \<rightharpoonup> nat list)" where
  "record_execution hasher (f, block, t, u) m = insert_push (BlockId (hasher block)) (u - t) m"

definition blocks_known :: "bodies \<Rightarrow> execution list \<Rightarrow> bool" where
  "blocks_known F bs \<longleftrightarrow> list_all (\<lambda>(f, block, _, _). block \<in> set (blocks_of [] (F f))) bs"

definition ends_with_end :: "bodies \<Rightarrow> bool" where
  "ends_with_end F \<longleftrightarrow> (\<forall>f. F f = [] \<or> from_operator (last (F f)) = ''End'')"

definition no_open :: "measurements \<Rightarrow> bool" where
  "no_open m \<longleftrightarrow> (\<forall>k. queue m k = [])"

lemma executions_calls_simps [simp]:
  "executions_calls hasher [] = []"
  "executions_calls hasher (b # bs) = execution_calls hasher b @ executions_calls hasher bs"
  "executions_calls hasher (bs @ bs') = executions_calls hasher bs @ executions_calls hasher bs'"
  by (simp_all add: executions_calls_def)

lemma blocks_known_simps [simp]:
  "blocks_known F []"
  "blocks_known F ((f, block, t, u) # bs) \<longleftrightarrow> block \<in> set (blocks_of [] (F f)) \<and> blocks_known F bs"
  "blocks_known F (bs @ bs') \<longleftrightarrow> blocks_known F bs \<and> blocks_known F bs'"
  by (simp_all add: blocks_known_def)

lemma measure_executions:
  assumes "no_open m"
  shows "\<exists>m'. measure_calls (executions_calls hasher bs) m = Done m' \<and> no_open m' \<and>
    taken m' = fold (record_execution hasher) bs (taken m)"
  using assms
proof (induction bs arbitrary: m)
  case (Cons b bs)
  obtain f block t u where b: "b = (f, block, t, u)"
    by (cases b)
  define m1 where "m1 = start_measurement t f 0 m"
  have q: "queue m1 k = (if k = (f, 0) then [t] else [])" for k
    using Cons.prems by (cases k) (simp add: m1_def no_open_def)
  define m2 where "m2 = m1\<lparr>started := (started m1)((f, 0) \<mapsto> []),
    taken := insert_push (BlockId (hasher block)) (u - t) (taken m1)\<rparr>"
  have "no_open m2" and "taken m2 = record_execution hasher b (taken m)"
    by (simp_all add: no_open_def m2_def q b) (simp add: m1_def)
  moreover have "measure_calls (executions_calls hasher (b # bs)) m = measure_calls (executions_calls hasher bs) m2"
    by (simp add: b m1_def [symmetric] take_measurement_cases q m2_def)
  ultimately show ?case
    using Cons.IH [of m2] by simp
qed simp

lemma blocks_of_mem:
  assumes "p < length operators" and "is_branch (operators ! p)" and "open_block (pre @ take p operators) \<noteq> []"
  shows "open_block (pre @ take p operators) \<in> set (blocks_of pre operators)"
  using assms
proof (induction operators arbitrary: p pre)
  case (Cons operator operators)
  show ?case
  proof (cases p)
    case 0
    then show ?thesis
      using Cons.prems by simp
  next
    case (Suc p')
    then show ?thesis
      using Cons.IH [of p' "pre @ [operator]"] Cons.prems by (simp del: open_block_snoc)
  qed
qed simp

text \<open>The calls of a run from a position on: the end of the open block, if there is one, then whole executions.\<close>

definition rest_calls :: "hasher \<Rightarrow> bodies \<Rightarrow> u32 \<Rightarrow> nat \<Rightarrow> (nat \<times> host_call) list \<Rightarrow> bool" where
  "rest_calls hasher F f p cs \<longleftrightarrow>
     (if open_block (take p (F f)) = [] then \<exists>bs. blocks_known F bs \<and> cs = executions_calls hasher bs
      else \<exists>u block bs. block \<in> set (blocks_of [] (F f)) \<and> blocks_known F bs \<and>
             cs = (u, TakeCall f 0 (BlockId (hasher block))) # executions_calls hasher bs)"

lemma rest_calls_closed:
  "open_block (take p (F f)) = [] \<Longrightarrow>
    rest_calls hasher F f p cs \<longleftrightarrow> (\<exists>bs. blocks_known F bs \<and> cs = executions_calls hasher bs)"
  by (simp add: rest_calls_def)

lemma rest_calls_branch:
  assumes "pi_start_measurement ix \<noteq> pi_take_measurement ix" and "p < length (F f)" and "is_branch (F f ! p)"
    and "map snd cs = calls_at hasher ix F f p" and "blocks_known F bs"
  shows "rest_calls hasher F f p (cs @ executions_calls hasher bs)"
proof (cases "open_block (take p (F f)) = []")
  case True
  then show ?thesis
    using assms by (auto simp: calls_at_eq rest_calls_def)
next
  case False
  then obtain u where "cs = [(u, TakeCall f 0 (BlockId (hasher (open_block (take p (F f))))))]"
    using assms by (auto simp: calls_at_eq)
  moreover have "open_block (take p (F f)) \<in> set (blocks_of [] (F f))"
    using blocks_of_mem [of p "F f" "[]"] assms(2,3) False by simp
  ultimately show ?thesis
    using False assms(5) by (auto simp: rest_calls_def)
qed

lemma rest_calls_plain:
  assumes "pi_start_measurement ix \<noteq> pi_take_measurement ix" and "p < length (F f)" and "\<not> is_branch (F f ! p)"
    and "map snd cs = calls_at hasher ix F f p" and "rest_calls hasher F f (Suc p) ds"
  shows "rest_calls hasher F f p (cs @ ds)"
proof -
  obtain u block bs where ds: "block \<in> set (blocks_of [] (F f))" "blocks_known F bs"
    "ds = (u, TakeCall f 0 (BlockId (hasher block))) # executions_calls hasher bs"
    using assms(2,3,5) by (auto simp: rest_calls_def open_block_Suc)
  show ?thesis
  proof (cases "open_block (take p (F f)) = []")
    case True
    then obtain t where "cs = [(t, StartCall f 0)]"
      using assms by (auto simp: calls_at_eq)
    then have "blocks_known F ((f, block, t, u) # bs)" and "cs @ ds = executions_calls hasher ((f, block, t, u) # bs)"
      using ds by simp_all
    then show ?thesis
      using True by (subst rest_calls_closed) (rule exI conjI | assumption)+
  next
    case False
    then show ?thesis
      using assms(1,3,4) ds by (auto simp: rest_calls_def calls_at_eq)
  qed
qed

lemma strict_run_rest:
  assumes "run hasher ix F free f p cs" and "\<not> free" and "pi_start_measurement ix \<noteq> pi_take_measurement ix"
    and "ends_with_end F"
  shows "rest_calls hasher F f p cs"
  using assms
proof (induction rule: run.induct)
  case (ends p f)
  have "open_block (F f) = []"
  proof (cases "F f" rule: rev_cases)
    case (snoc body operator)
    then have "from_operator operator = ''End''"
      using ends.prems(3) by (metis append_is_Nil_conv ends_with_end_def last_snoc list.distinct(1))
    then show ?thesis
      by (simp add: snoc is_branch_def BRANCH_SYMBOLS_def)
  qed simp
  then show ?case
    using ends.hyps by (subst rest_calls_closed) (auto intro: exI [of _ "[]"])
next
  case (returns p f cs)
  then have "is_branch (F f ! p)"
    by (simp add: is_branch_def BRANCH_SYMBOLS_def)
  then show ?case
    using rest_calls_branch [of ix p F f cs hasher "[]"] returns by simp
next
  case (steps p f cs q ds)
  then have rest: "rest_calls hasher F f q ds"
    by simp
  show ?case
  proof (cases "is_branch (F f ! p)")
    case True
    have "open_block (take q (F f)) = []"
      using steps.hyps(1,4) True by (auto simp: continues_def open_block_Suc lands_closed)
    then obtain bs where "blocks_known F bs" and "ds = executions_calls hasher bs"
      using rest by (auto simp: rest_calls_closed)
    then show ?thesis
      using rest_calls_branch True steps by simp
  next
    case False
    then have "q = Suc p"
      using steps.hyps(4) steps.prems(1) by (auto simp: continues_def jumps_def is_branch_def BRANCH_SYMBOLS_def)
    then show ?thesis
      using rest_calls_plain False rest steps by simp
  qed
next
  case (calls p f cs g ds es)
  have branch: "is_branch (F f ! p)"
    using calls.hyps(2) by (auto simp: is_branch_def BRANCH_SYMBOLS_def)
  obtain bs where "blocks_known F bs" and "ds = executions_calls hasher bs"
    using calls by (auto simp: rest_calls_closed)
  moreover obtain bs' where "blocks_known F bs'" and "es = executions_calls hasher bs'"
    using calls branch by (auto simp: rest_calls_closed open_block_Suc)
  ultimately show ?case
    using rest_calls_branch [of ix p F f cs hasher "bs @ bs'"] branch calls by simp
qed simp

lemma strict_run_executions:
  assumes "run hasher ix F False f 0 cs" and "pi_start_measurement ix \<noteq> pi_take_measurement ix" and "ends_with_end F"
  shows "\<exists>bs. blocks_known F bs \<and> cs = executions_calls hasher bs"
  using strict_run_rest [of hasher ix F False f 0 cs] assms by (simp add: rest_calls_closed)

section \<open>A module under the profiler\<close>

definition bodies_of :: "operator list list \<Rightarrow> bodies" where
  "bodies_of bodies f = (if unat f < length bodies then bodies ! unat f else [])"

fun instrumented_all ::
  "hasher \<Rightarrow> profiling_indexes \<Rightarrow> u32 \<Rightarrow> operator list list \<Rightarrow> operator list list" where
  "instrumented_all hasher ix n [] = []"
| "instrumented_all hasher ix n (body # bodies) =
     instrumented hasher (function_profiling_new ix n) [] body # instrumented_all hasher ix (n + 1) bodies"

lemma instrument_functions_eq:
  assumes "pr_indexes p = Some ix"
  shows "instrument_functions hasher n bodies p = Done (instrumented_all hasher ix n bodies,
     p\<lparr>pr_block_store := fold (register_symbols hasher) (concat (map (blocks_of []) bodies)) (pr_block_store p)\<rparr>)"
  using assms
proof (induction bodies arbitrary: n p)
  case (Cons body bodies)
  define s where "s = \<lparr>fs_function = function_profiling_new ix n, fs_store = pr_block_store p, fs_output = []\<rparr>"
  have feed: "profiling_feed_all hasher body s = Done (Inr (),
      s\<lparr>fs_function := (fs_function s)\<lparr>accumulated_ops := open_block body\<rparr>,
        fs_store := fold (register_symbols hasher) (blocks_of [] body) (fs_store s),
        fs_output := fs_output s @ instrumented hasher (fs_function s) [] body\<rparr>)"
    using profiling_feed_all_eq [of s "[]" hasher body] by (simp add: s_def function_profiling_new_def)
  then show ?case
    using Cons.IH [of "p\<lparr>pr_block_store := fold (register_symbols hasher) (blocks_of [] body) (pr_block_store p)\<rparr>" "n + 1"]
      Cons.prems
    by (simp add: profiling_function_middleware_def s_def)
qed simp

lemma list_min_Some: "ds \<noteq> [] \<Longrightarrow> list_min ds = Some (Min (set ds))"
  by (induction ds rule: list_nonempty_induct) simp_all

lemma list_max_Some: "ds \<noteq> [] \<Longrightarrow> list_max ds = Some (Max (set ds))"
  by (induction ds rule: list_nonempty_induct) simp_all

lemma sum_durations_Done:
  "acc + sum_list ds < DURATION_LIMIT \<Longrightarrow> sum_durations acc ds = Done (acc + sum_list ds)"
  by (induction ds arbitrary: acc) (auto simp: ac_simps)

definition report_row :: "code_block \<Rightarrow> nat list \<Rightarrow> string list" where
  "report_row block timings = [code_block_debug block, show_nat (length timings),
    show_nat (sum_list timings div length timings), show_nat (Min (set timings)), show_nat (Max (set timings))]"

lemma csv_row_eq:
  assumes "timings \<noteq> []" and "sum_list timings < DURATION_LIMIT" and "get_block store block_id = Some block"
  shows "csv_row store block_id timings = Done (report_row block timings)"
  using assms
  by (simp add: csv_row_def Let_def sum_durations_Done list_min_Some list_max_Some report_row_def)

text \<open>A writer whose writes succeed: \<open>out\<close> and \<open>fl\<close> are what a record and a flush do to the sink.\<close>

definition reliable_writer :: "('s, 'e) csv_writer \<Rightarrow> (string list \<Rightarrow> 's \<Rightarrow> 's) \<Rightarrow> ('s \<Rightarrow> 's) \<Rightarrow> bool" where
  "reliable_writer wtr out fl \<longleftrightarrow>
     (\<forall>row s. write_record wtr row s = Done (Inr (), out row s)) \<and> (\<forall>s. csv_flush wtr s = Done (Inr (), fl s))"

definition entry_row :: "block_store \<Rightarrow> block_id \<times> nat list \<Rightarrow> string list" where
  "entry_row store entry = report_row (the (get_block store (fst entry))) (snd entry)"

definition entry_ok :: "block_store \<Rightarrow> block_id \<times> nat list \<Rightarrow> bool" where
  "entry_ok store entry \<longleftrightarrow> snd entry \<noteq> [] \<and> sum_list (snd entry) < DURATION_LIMIT \<and>
     get_block store (fst entry) \<noteq> None"

lemma csv_rows_eq:
  assumes "reliable_writer wtr out fl" and "list_all (entry_ok store) entries"
  shows "csv_rows wtr store entries s = Done (fold out (map (entry_row store) entries) s)"
  using assms(2)
proof (induction entries arbitrary: s)
  case (Cons entry entries)
  obtain block_id timings where entry: "entry = (block_id, timings)"
    by (cases entry)
  obtain block where "get_block store block_id = Some block"
    using Cons.prems by (auto simp: entry entry_ok_def)
  then show ?case
    using Cons assms(1)
    by (simp add: entry entry_ok_def csv_row_eq entry_row_def write_unwrap_def reliable_writer_def)
qed simp

lemma compile_csv_eq:
  assumes "reliable_writer wtr out fl" and "list_all (entry_ok store) entries"
  shows "compile_csv wtr store entries s = Done (fl (fold out (CSV_HEADER # map (entry_row store) entries) s))"
  using assms csv_rows_eq [OF assms]
  by (simp add: compile_csv_def write_unwrap_def reliable_writer_def)

lemma instrument_module_Done:
  assumes "instrument_module hasher imports bodies store = Done (outs, p)"
  shows "\<exists>ix. pr_indexes p = Some ix \<and> find_import ''start_measurement'' imports = Some (pi_start_measurement ix) \<and>
    find_import ''take_measurement'' imports = Some (pi_take_measurement ix) \<and>
    outs = instrumented_all hasher ix 0 bodies \<and>
    pr_block_store p = fold (register_symbols hasher) (concat (map (blocks_of []) bodies)) store"
  using assms
  by (auto simp: instrument_module_def transform_module_info_def profiling_new_def obind_eq_Done_iff unwrap_eq_Done_iff
      instrument_functions_eq)

lemma blocks_of_bodies:
  assumes "block \<in> set (blocks_of [] (bodies_of bodies f))"
  shows "block \<in> set (concat (map (blocks_of []) bodies))"
  using assms by (auto simp: bodies_of_def split: if_splits intro: nth_mem)

lemma blocks_known_registered:
  assumes "blocks_known (bodies_of bodies) bs" and "(f, block, t, u) \<in> set bs"
  shows "block \<in> set (concat (map (blocks_of []) bodies))"
  using assms by (intro blocks_of_bodies [of _ _ f]) (auto simp: blocks_known_def list_all_iff)

lemma taken_executions:
  assumes "fold (record_execution hasher) bs Map.empty block_id = Some timings"
  shows "timings \<noteq> [] \<and> (\<exists>f block t u. (f, block, t, u) \<in> set bs \<and> block_id = BlockId (hasher block))"
  using assms
proof (induction bs arbitrary: timings rule: rev_induct)
  case (snoc b bs)
  obtain f block t u where b: "b = (f, block, t, u)"
    by (cases b)
  show ?case
  proof (cases "block_id = BlockId (hasher block)")
    case True
    then show ?thesis
      using snoc.prems by (auto simp: b insert_push_eq)
  next
    case False
    then show ?thesis
      using snoc.prems snoc.IH by (fastforce simp: b insert_push_eq)
  qed
qed simp

lemma bodies_end:
  assumes "list_all (\<lambda>body. body \<noteq> [] \<and> from_operator (last body) = ''End'') bodies"
  shows "ends_with_end (bodies_of bodies)"
  using assms by (auto simp: ends_with_end_def bodies_of_def list_all_length)

lemma no_open_new: "no_open measurements_new"
  by (simp add: no_open_def queue_def measurements_new_def)

text \<open>The row of a block that has been executed.\<close>

lemma executed_entry_ok:
  assumes "pr_block_store p = fold (register_symbols hasher) (concat (map (blocks_of []) bodies)) store"
    and "blocks_known (bodies_of bodies) bs" and "fold (record_execution hasher) bs Map.empty block_id = Some timings"
    and "sum_list timings < DURATION_LIMIT"
  shows "entry_ok (pr_block_store p) (block_id, timings)"
proof -
  obtain f block t u where "(f, block, t, u) \<in> set bs" and "block_id = BlockId (hasher block)" and "timings \<noteq> []"
    using taken_executions [OF assms(3)] by blast
  then show ?thesis
    using fold_register_known [OF blocks_known_registered [OF assms(2)], of f block t u hasher store] assms(1,4)
    by (auto simp: entry_ok_def)
qed

section \<open>Through the gatekeeper\<close>

text \<open>
  The compiler runs the profiler first and passes what it writes on to the gatekeeper. The probes are made of basic
  operators, so that a function is accepted with them exactly when it is accepted without.
\<close>

definition wasm_operator_of :: "(operator \<Rightarrow> string) \<Rightarrow> operator \<Rightarrow> wasm_operator" where
  "wasm_operator_of debug operator = \<lparr>op_variant = from_operator operator, op_debug = debug operator\<rparr>"

definition accepted :: "(operator \<Rightarrow> string) \<Rightarrow> operator list \<Rightarrow> bool" where
  "accepted debug body \<longleftrightarrow>
     (\<exists>t. feed_all gatekeeper_default (map (wasm_operator_of debug) body) [] = Done (Inr (), t))"

lemma accepted_iff: "accepted debug body \<longleftrightarrow> list_all (\<lambda>operator. from_operator operator \<in> set BASIC_OPERATORS) body"
  by (auto simp: accepted_def feed_all_default_Ok_iff wasm_operator_of_def list_all_iff)

lemma probe_basic: "list_all (\<lambda>operator. from_operator operator \<in> set BASIC_OPERATORS) (probe hasher fp pre operator)"
proof -
  have "''I32Const'' \<in> set BASIC_OPERATORS" and "''I64Const'' \<in> set BASIC_OPERATORS" and "''Call'' \<in> set BASIC_OPERATORS"
    by (simp_all add: BASIC_OPERATORS_def)
  then show ?thesis
    by (simp add: probe_def take_probe_def start_probe_def)
qed

lemma accepted_instrumented: "accepted debug (instrumented hasher fp pre body) \<longleftrightarrow> accepted debug body"
  unfolding accepted_iff by (induction body arbitrary: pre) (simp_all add: probe_basic)

lemma accepted_instrumented_all:
  "list_all (accepted debug) (instrumented_all hasher ix n bodies) \<longleftrightarrow> list_all (accepted debug) bodies"
  by (induction bodies arbitrary: n) (simp_all add: accepted_instrumented)

section \<open>The report\<close>

text \<open>
  After a run that returns and takes every \<open>if\<close> it meets, \<open>compile_csv\<close> does not panic: in whatever order the map
  is traversed, as long as the times of no block add up to more than a duration holds, it writes the header and for
  every recorded block one record.
\<close>

lemma report_complete:
  assumes "instrument_module hasher imports bodies store = Done (outs, p)" and "pr_indexes p = Some ix"
    and "pi_start_measurement ix \<noteq> pi_take_measurement ix" and "run hasher ix (bodies_of bodies) False f 0 cs"
    and "list_all (\<lambda>body. body \<noteq> [] \<and> from_operator (last body) = ''End'') bodies"
    and "measure_calls cs measurements_new = Done m'" and "entries_of entries m'"
    and "\<forall>entry \<in> set entries. sum_list (snd entry) < DURATION_LIMIT" and "reliable_writer wtr out fl"
  shows "compile_csv wtr (pr_block_store p) entries s =
      Done (fl (fold out (CSV_HEADER # map (entry_row (pr_block_store p)) entries) s)) \<and>
    list_all (entry_ok (pr_block_store p)) entries"
proof -
  obtain bs where known: "blocks_known (bodies_of bodies) bs" and cs: "cs = executions_calls hasher bs"
    using strict_run_executions [OF assms(4,3) bodies_end [OF assms(5)]] by blast
  have taken: "taken m' = fold (record_execution hasher) bs Map.empty"
    using measure_executions [OF no_open_new, of hasher bs] assms(6) cs by (auto simp: measurements_new_def)
  have store: "pr_block_store p = fold (register_symbols hasher) (concat (map (blocks_of []) bodies)) store"
    using instrument_module_Done [OF assms(1)] by auto
  have "entry_ok (pr_block_store p) (block_id, timings)" if "(block_id, timings) \<in> set entries" for block_id timings
  proof -
    have "fold (record_execution hasher) bs Map.empty block_id = Some timings"
      using that assms(7) taken by (metis entries_of_def map_of_eq_Some_iff)
    moreover have "sum_list timings < DURATION_LIMIT"
      using assms(8) that by force
    ultimately show ?thesis
      by (rule executed_entry_ok [OF store known])
  qed
  then have "list_all (entry_ok (pr_block_store p)) entries"
    by (auto simp: list_all_iff)
  then show ?thesis
    using compile_csv_eq [OF assms(9)] by blast
qed

section \<open>A branch over an if\<close>

text \<open>
  An \<open>if\<close> is not among the branches of \<open>feed\<close>. A block that contains it is left without its second probe when the
  condition is false; the next block of the function then ends the measurement of the first one, and each later
  block is measured from the start of the block before it. The function here is \<open>(if (local.get 0) (then nop)) nop\<close>
  with a block of one operator behind the \<open>if\<close>: that block runs from 10 to 11 and is recorded with the duration 11.
\<close>

definition if_body :: "operator list" where
  "if_body = [OpOther ''LocalGet'', OpOther ''If'', OpOther ''Nop'', OpOther ''End'', OpOther ''Nop'', OpOther ''End'']"

definition if_indexes :: profiling_indexes where
  "if_indexes = \<lparr>pi_start_measurement = 0, pi_take_measurement = 1\<rparr>"

lemmas run_evals = bodies_of_def calls_at_def probe_def open_block_def is_branch_def BRANCH_SYMBOLS_def if_indexes_def
  start_probe_def take_probe_def function_profiling_new_def continues_def jumps_def lands_def

lemma if_run:
  "run (\<lambda>symbols. word_of_nat (length symbols)) if_indexes (bodies_of [if_body]) True 0 0
     [(0, StartCall 0 0), (10, StartCall 0 0), (11, TakeCall 0 0 (BlockId 1))]"
proof -
  let ?r = "run (\<lambda>symbols. word_of_nat (length symbols)) if_indexes (bodies_of [if_body]) True 0"
  note defs = run_evals if_body_def
  have "?r 6 []"
    by (rule run.ends) (simp add: bodies_of_def if_body_def)
  then have "?r 5 ([(11, TakeCall 0 0 (BlockId 1))] @ [])"
    by (rule run.steps [rotated 4]) (simp_all add: defs)
  then have "?r 4 ([(10, StartCall 0 0)] @ [(11, TakeCall 0 0 (BlockId 1))])"
    by (intro run.steps [of _ _ _ _ _ _ _ 5]) (simp_all add: defs)
  then have "?r 1 ([] @ [(10, StartCall 0 0), (11, TakeCall 0 0 (BlockId 1))])"
    by (intro run.steps [of _ _ _ _ _ _ _ 4]) (simp_all add: defs)
  then have "?r 0 ([(0, StartCall 0 0)] @ [(10, StartCall 0 0), (11, TakeCall 0 0 (BlockId 1))])"
    by (intro run.steps [of _ _ _ _ _ _ _ 1]) (simp_all add: defs)
  then show ?thesis
    by simp
qed

lemma if_measured:
  "\<exists>m. measure_calls [(0, StartCall 0 0), (10, StartCall 0 0), (11, TakeCall 0 0 (BlockId 1))] measurements_new = Done m \<and>
    taken m (BlockId 1) = Some [11] \<and> queue m (0, 0) = [10]"
  by (simp add: measurements_new_def start_measurement_def take_measurement_def insert_push_eq queue_def)

section \<open>A module with two functions\<close>

text \<open>
  The functions \<open>sub_one\<close> and \<open>multisub\<close> of the tests in \<open>instrumentation.rs\<close>, where \<open>multisub\<close> calls the first
  one, and a hash that tells their blocks apart.
\<close>

definition example_bodies :: "operator list list" where
  "example_bodies =
     [[OpOther ''LocalGet'', OpI32Const 1, OpOther ''I32Sub'', OpOther ''End''],
      [OpOther ''LocalGet'', OpI32Const 2, OpOther ''I32Mul'', OpCall 2, OpI32Const 1, OpOther ''I32Sub'', OpOther ''End'']]"

definition example_imports :: module_imports where
  "example_imports =
     [((''env'', ''memory'', 0), ImportMemory 0), ((''profiling'', ''start_measurement'', 1), ImportFunction 0),
      ((''profiling'', ''take_measurement'', 2), ImportFunction 1)]"

definition example_hasher :: hasher where
  "example_hasher symbols = word_of_nat (length symbols + (if ''I32Mul'' \<in> set symbols then 10 else 0))"

definition example_calls :: "(nat \<times> host_call) list" where
  "example_calls =
     [(100, StartCall 1 0), (104, TakeCall 1 0 (BlockId 13)),
      (110, StartCall 0 0), (117, TakeCall 0 0 (BlockId 3)),
      (120, StartCall 1 0), (122, TakeCall 1 0 (BlockId 2))]"

lemma example_instrumented:
  "\<exists>outs p. instrument_module example_hasher example_imports example_bodies block_store_new = Done (outs, p) \<and>
    pr_indexes p = Some if_indexes"
  by (simp add: instrument_module_def transform_module_info_def profiling_new_def example_imports_def
      instrument_functions_eq if_indexes_def)

lemma example_run: "run example_hasher if_indexes (bodies_of example_bodies) False 1 0 example_calls"
proof -
  let ?r = "run example_hasher if_indexes (bodies_of example_bodies) False"
  note defs = run_evals example_bodies_def example_hasher_def
  have "?r 0 4 []" and "?r 1 7 []"
    by (rule run.ends, simp add: bodies_of_def example_bodies_def)+
  have "?r 0 3 ([(117, TakeCall 0 0 (BlockId 3))] @ [])"
    by (rule run.steps [OF _ _ _ _ \<open>?r 0 4 []\<close>]) (simp_all add: defs)
  then have "?r 0 2 ([] @ [(117, TakeCall 0 0 (BlockId 3))])"
    by (intro run.steps [of _ _ _ _ _ _ _ 3]) (simp_all add: defs)
  then have "?r 0 1 ([] @ [(117, TakeCall 0 0 (BlockId 3))])"
    by (intro run.steps [of _ _ _ _ _ _ _ 2]) (simp_all add: defs)
  then have sub_one: "?r 0 0 ([(110, StartCall 0 0)] @ [(117, TakeCall 0 0 (BlockId 3))])"
    by (intro run.steps [of _ _ _ _ _ _ _ 1]) (simp_all add: defs)
  have "?r 1 6 ([(122, TakeCall 1 0 (BlockId 2))] @ [])"
    by (rule run.steps [OF _ _ _ _ \<open>?r 1 7 []\<close>]) (simp_all add: defs)
  then have "?r 1 5 ([] @ [(122, TakeCall 1 0 (BlockId 2))])"
    by (intro run.steps [of _ _ _ _ _ _ _ 6]) (simp_all add: defs)
  then have "?r 1 4 ([(120, StartCall 1 0)] @ [(122, TakeCall 1 0 (BlockId 2))])"
    by (intro run.steps [of _ _ _ _ _ _ _ 5]) (simp_all add: defs)
  then have "?r 1 3 ([(104, TakeCall 1 0 (BlockId 13))] @ ([(110, StartCall 0 0)] @ [(117, TakeCall 0 0 (BlockId 3))]) @
      ([(120, StartCall 1 0)] @ [(122, TakeCall 1 0 (BlockId 2))]))"
    by (intro run.calls [OF _ _ _ sub_one]) (simp_all add: defs)
  then have "?r 1 2 ([] @ tl example_calls)"
    by (intro run.steps [of _ _ _ _ _ _ _ 3]) (simp_all add: defs example_calls_def)
  then have "?r 1 1 ([] @ tl example_calls)"
    by (intro run.steps [of _ _ _ _ _ _ _ 2]) (simp_all add: defs)
  then have "?r 1 0 ([(100, StartCall 1 0)] @ tl example_calls)"
    by (intro run.steps [of _ _ _ _ _ _ _ 1]) (simp_all add: defs)
  then show ?thesis
    by (simp add: example_calls_def)
qed

lemma example_blocks:
  "concat (map (blocks_of []) example_bodies) =
    [[''LocalGet'', ''I32Const'', ''I32Sub''], [''LocalGet'', ''I32Const'', ''I32Mul''], [''I32Const'', ''I32Sub'']]"
  by (simp add: example_bodies_def open_block_def is_branch_def BRANCH_SYMBOLS_def)

lemma example_bodies_end: "list_all (\<lambda>body. body \<noteq> [] \<and> from_operator (last body) = ''End'') example_bodies"
  by (simp add: example_bodies_def)

lemma example_hasher_inj: "inj_on example_hasher (set (concat (map (blocks_of []) example_bodies)))"
  unfolding example_blocks by (simp add: inj_on_def example_hasher_def)

text \<open>A sink that keeps the records.\<close>

definition record_writer :: "(string list list, string) csv_writer" where
  "record_writer = \<lparr>write_record = (\<lambda>row s. Done (Inr (), s @ [row])), csv_flush = (\<lambda>s. Done (Inr (), s))\<rparr>"

lemma record_writer_reliable: "reliable_writer record_writer (\<lambda>row s. s @ [row]) (\<lambda>s. s)"
  by (simp add: reliable_writer_def record_writer_def)

lemma example_report:
  "\<exists>outs p. instrument_module example_hasher example_imports example_bodies block_store_new = Done (outs, p) \<and>
    compile_csv record_writer (pr_block_store p) [(BlockId 3, [7]), (BlockId 13, [4]), (BlockId 2, [2])] [] =
      Done (CSV_HEADER # map (entry_row (pr_block_store p)) [(BlockId 3, [7]), (BlockId 13, [4]), (BlockId 2, [2])])"
proof -
  obtain outs p where p: "instrument_module example_hasher example_imports example_bodies block_store_new = Done (outs, p)"
    "pr_indexes p = Some if_indexes"
    using example_instrumented by blast
  have ix: "pi_start_measurement if_indexes \<noteq> pi_take_measurement if_indexes"
    by (simp add: if_indexes_def)
  obtain m' where m': "measure_calls example_calls measurements_new = Done m'"
    and "taken m' = [BlockId 13 \<mapsto> [4], BlockId 3 \<mapsto> [7], BlockId 2 \<mapsto> [2]]"
    by (simp add: example_calls_def measurements_new_def start_measurement_def take_measurement_def insert_push_eq)
  then have entries: "entries_of [(BlockId 3, [7]), (BlockId 13, [4]), (BlockId 2, [2])] m'"
    by (auto simp: entries_of_def)
  have "\<forall>entry \<in> set [(BlockId 3, [7]), (BlockId 13, [4]), (BlockId 2, [2])]. sum_list (snd entry) < DURATION_LIMIT"
    by (simp add: DURATION_LIMIT_def)
  from report_complete [OF p ix example_run example_bodies_end m' entries this record_writer_reliable, of "[]"] p(1)
  show ?thesis
    by simp
qed

end
