(* ===== verification/Std_Serde.thy ===== *)
theory Std_Serde
  imports Decimal256 Std_Mock
begin

text \<open>
  How the number types and \<open>Binary\<close> of \<open>packages/std\<close> appear in JSON: as strings. The implementations of
  \<open>Serialize\<close> hand a text to \<open>serialize_str\<close>; those of \<open>Deserialize\<close> give a visitor to \<open>deserialize_str\<close> that
  accepts strings only.

  A value of the data model of serde is a string or something else, by its description. The text of the error for
  something else belongs to the deserializer: it is the parameter \<open>invalid\<close>, a function of the description and of
  what the visitor expects. The locale \<open>string_serde\<close> states what a type written as a string promises.
\<close>

datatype serde_value = SerdeStr string | SerdeOther string

type_synonym invalid_type = "string \<Rightarrow> string \<Rightarrow> string"

definition serialize_str :: "string \<Rightarrow> serde_value" where
  "serialize_str s = SerdeStr s"

definition deserialize_str ::
  "invalid_type \<Rightarrow> string \<Rightarrow> (string \<Rightarrow> (string, 'a) result outcome) \<Rightarrow> serde_value \<Rightarrow> (string, 'a) result outcome" where
  "deserialize_str invalid expecting visit_str v =
     (case v of SerdeStr s \<Rightarrow> visit_str s | SerdeOther d \<Rightarrow> Done (Inl (invalid d expecting)))"

section \<open>Integers\<close>

definition STRING_ENCODED_INTEGER :: string where
  "STRING_ENCODED_INTEGER = ''string-encoded integer''"

definition uint64_serialize :: "uint64 \<Rightarrow> serde_value outcome" where
  "uint64_serialize self = Done (serialize_str (uint64_to_string self))"

definition uint64_deserialize :: "invalid_type \<Rightarrow> serde_value \<Rightarrow> (string, uint64) result outcome" where
  "uint64_deserialize invalid = deserialize_str invalid STRING_ENCODED_INTEGER (\<lambda>v. Done (uint64_visit_str v))"

definition uint128_serialize :: "uint128 \<Rightarrow> serde_value outcome" where
  "uint128_serialize self = Done (serialize_str (uint128_to_string self))"

definition uint128_deserialize :: "invalid_type \<Rightarrow> serde_value \<Rightarrow> (string, uint128) result outcome" where
  "uint128_deserialize invalid = deserialize_str invalid STRING_ENCODED_INTEGER (\<lambda>v. Done (uint128_visit_str v))"

definition quoted :: "string \<Rightarrow> string" where
  "quoted v = [CHR 0x27] @ v @ [CHR 0x27]"

definition uint256_serialize :: "u256 uint_crate \<Rightarrow> uint256 \<Rightarrow> serde_value outcome" where
  "uint256_serialize C self = Done (serialize_str (uint256_to_string C self))"

definition uint256_visit_str :: "u256 uint_crate \<Rightarrow> string \<Rightarrow> (string, uint256) result" where
  "uint256_visit_str C v =
     map_err (\<lambda>e. ''invalid Uint256 '' @ quoted v @ '' - '' @ show_std_error e) (uint256_try_from_str C v)"

definition uint256_deserialize :: "u256 uint_crate \<Rightarrow> invalid_type \<Rightarrow> serde_value \<Rightarrow> (string, uint256) result outcome" where
  "uint256_deserialize C invalid = deserialize_str invalid STRING_ENCODED_INTEGER (\<lambda>v. Done (uint256_visit_str C v))"

definition uint512_serialize :: "u512 uint_crate \<Rightarrow> uint512 \<Rightarrow> serde_value outcome" where
  "uint512_serialize C self = Done (serialize_str (uint512_to_string C self))"

definition uint512_visit_str :: "u512 uint_crate \<Rightarrow> string \<Rightarrow> (string, uint512) result" where
  "uint512_visit_str C v =
     map_err (\<lambda>e. ''invalid Uint512 '' @ quoted v @ '' - '' @ show_std_error e) (uint512_try_from_str C v)"

definition uint512_deserialize :: "u512 uint_crate \<Rightarrow> invalid_type \<Rightarrow> serde_value \<Rightarrow> (string, uint512) result outcome" where
  "uint512_deserialize C invalid = deserialize_str invalid STRING_ENCODED_INTEGER (\<lambda>v. Done (uint512_visit_str C v))"

section \<open>Decimals\<close>

definition STRING_ENCODED_DECIMAL :: string where
  "STRING_ENCODED_DECIMAL = ''string-encoded decimal''"

definition decimal_serialize :: "decimal \<Rightarrow> serde_value outcome" where
  "decimal_serialize self = omap serialize_str (decimal_to_string self)"

definition decimal_visit_str :: "string \<Rightarrow> (string, decimal) result outcome" where
  "decimal_visit_str v =
     omap (map_err (\<lambda>e. ''Error parsing decimal '' @ quoted v @ '': '' @ show_std_error e)) (decimal_from_str v)"

definition decimal_deserialize :: "invalid_type \<Rightarrow> serde_value \<Rightarrow> (string, decimal) result outcome" where
  "decimal_deserialize invalid = deserialize_str invalid STRING_ENCODED_DECIMAL decimal_visit_str"

definition decimal256_serialize :: "u256 uint_crate \<Rightarrow> decimal256 \<Rightarrow> serde_value outcome" where
  "decimal256_serialize C self = omap serialize_str (decimal256_to_string C self)"

definition decimal256_visit_str :: "u256 uint_crate \<Rightarrow> string \<Rightarrow> (string, decimal256) result outcome" where
  "decimal256_visit_str C v =
     omap (map_err (\<lambda>e. ''Error parsing decimal '' @ quoted v @ '': '' @ show_std_error e)) (decimal256_from_str C v)"

definition decimal256_deserialize ::
  "u256 uint_crate \<Rightarrow> invalid_type \<Rightarrow> serde_value \<Rightarrow> (string, decimal256) result outcome" where
  "decimal256_deserialize C invalid = deserialize_str invalid STRING_ENCODED_DECIMAL (decimal256_visit_str C)"

section \<open>Binary data\<close>

definition binary_serialize :: "base64 \<Rightarrow> bytes \<Rightarrow> serde_value outcome" where
  "binary_serialize X self = Done (serialize_str (binary_to_base64 X self))"

definition binary_deserialize :: "base64 \<Rightarrow> invalid_type \<Rightarrow> serde_value \<Rightarrow> (string, bytes) result outcome" where
  "binary_deserialize X invalid =
     deserialize_str invalid ''valid base64 encoded string'' (\<lambda>v. Done (base64_visit_str X v))"

lemmas serialize_defs = uint64_serialize_def uint128_serialize_def uint256_serialize_def uint512_serialize_def
  decimal_serialize_def decimal256_serialize_def binary_serialize_def serialize_str_def

lemmas deserialize_defs = uint64_deserialize_def uint128_deserialize_def uint256_deserialize_def uint512_deserialize_def
  decimal_deserialize_def decimal256_deserialize_def binary_deserialize_def deserialize_str_def

section \<open>What a type written as a string promises\<close>

locale string_serde =
  fixes ser :: "'a \<Rightarrow> serde_value outcome" and des :: "invalid_type \<Rightarrow> serde_value \<Rightarrow> (string, 'a) result outcome"
  assumes ser_str: "\<exists>s. ser x = Done (SerdeStr s) \<and> des invalid (SerdeStr s) = Done (Inr x)"
    and des_other: "\<exists>e. des invalid (SerdeOther d) = Done (Inl e)"
    and des_total: "\<not> panics (des invalid (SerdeStr s))"
begin

text \<open>Writing and reading gives the value back; different values are written differently; reading never panics.\<close>

lemma roundtrip: "obind (ser x) (des invalid) = Done (Inr x)"
  using ser_str [of x invalid] by auto

lemma ser_inj: "ser x = ser y \<longleftrightarrow> x = y"
  using ser_str [of x undefined] ser_str [of y undefined] by auto

lemma des_never_panics: "\<not> panics (des invalid v)"
  using des_total [of invalid] des_other [of invalid] by (cases v) (auto simp: panics_iff)

lemma des_Ok_string: "des invalid v = Done (Inr x) \<Longrightarrow> \<exists>s. v = SerdeStr s"
  using des_other [of invalid "case v of SerdeOther d \<Rightarrow> d | SerdeStr s \<Rightarrow> s"] by (cases v) auto

lemma contract:
  "obind (ser x) (des invalid) = Done (Inr x) \<and> (ser x = ser y \<longleftrightarrow> x = y) \<and> \<not> panics (des invalid v) \<and>
   (des invalid v = Done (Inr x) \<longrightarrow> (\<exists>s. v = SerdeStr s))"
  using roundtrip ser_inj des_never_panics des_Ok_string by blast

end

interpretation uint64_serde: string_serde uint64_serialize uint64_deserialize
  by unfold_locales
    (auto simp: serialize_defs deserialize_defs uint64_visit_str_def uint64_to_string_def parse_word_to_string)

interpretation uint128_serde: string_serde uint128_serialize uint128_deserialize
  by unfold_locales
    (auto simp: serialize_defs deserialize_defs uint128_visit_str_def uint128_to_string_def parse_word_to_string)

interpretation decimal_serde: string_serde decimal_serialize decimal_deserialize
proof unfold_locales
  fix x :: decimal and invalid s d
  obtain t where "decimal_to_string x = Done t" and "decimal_from_str t = Done (Inr x)"
    using decimal_from_to_string [of x] by (auto simp: obind_eq_Done_iff)
  then show "\<exists>s. decimal_serialize x = Done (SerdeStr s) \<and> decimal_deserialize invalid (SerdeStr s) = Done (Inr x)"
    by (simp add: serialize_defs deserialize_defs decimal_visit_str_def)
  show "\<exists>e. decimal_deserialize invalid (SerdeOther d) = Done (Inl e)"
    by (simp add: deserialize_defs)
  show "\<not> panics (decimal_deserialize invalid (SerdeStr s))"
    using decimal_from_str_ok [of s] by (auto simp: deserialize_defs decimal_visit_str_def)
qed

lemma digits_of_show_nat: "\<forall>c \<in> set (show_nat n). is_digit c"
  using digit_char_simps(1) by (blast dest: show_nat_digits)

sublocale crate256 \<subseteq> uint256_serde: string_serde "uint256_serialize C" "uint256_deserialize C"
proof unfold_locales
  fix x invalid s d
  have "uint256_from_str C (uint256_to_string C x) = Inr x"
    by (simp add: uint256_from_str_iff uint256_to_string_def to_string_eq digits_of_show_nat)
  then show "\<exists>s. uint256_serialize C x = Done (SerdeStr s) \<and> uint256_deserialize C invalid (SerdeStr s) = Done (Inr x)"
    by (simp add: serialize_defs deserialize_defs uint256_visit_str_def uint256_try_from_str_def)
qed (simp_all add: deserialize_defs)

sublocale crate256 \<subseteq> decimal256_serde: string_serde "decimal256_serialize C" "decimal256_deserialize C"
proof unfold_locales
  fix x invalid s d
  obtain t where "decimal256_to_string C x = Done t" and "decimal256_from_str C t = Done (Inr x)"
    using decimal256_from_to_string [of x] by (auto simp: obind_eq_Done_iff)
  then show "\<exists>s. decimal256_serialize C x = Done (SerdeStr s) \<and> decimal256_deserialize C invalid (SerdeStr s) = Done (Inr x)"
    by (simp add: serialize_defs deserialize_defs decimal256_visit_str_def)
  show "\<exists>e. decimal256_deserialize C invalid (SerdeOther d) = Done (Inl e)"
    by (simp add: deserialize_defs)
  show "\<not> panics (decimal256_deserialize C invalid (SerdeStr s))"
    using decimal256_from_str_ok [of s] by (auto simp: deserialize_defs decimal256_visit_str_def)
qed

sublocale crate512 \<subseteq> uint512_serde: string_serde "uint512_serialize D" "uint512_deserialize D"
proof unfold_locales
  fix x invalid s d
  have "uint512_from_str D (uint512_to_string D x) = Inr x"
    using from_dec_str_iff [of "show_nat (val512 x)" "inner512 x"]
    by (cases x) (simp add: uint512_from_str_def uint512_to_string_def to_string_eq digits_of_show_nat)
  then show "\<exists>s. uint512_serialize D x = Done (SerdeStr s) \<and> uint512_deserialize D invalid (SerdeStr s) = Done (Inr x)"
    by (simp add: serialize_defs deserialize_defs uint512_visit_str_def uint512_try_from_str_def)
qed (simp_all add: deserialize_defs)

text \<open>\<open>Binary\<close> over a base64 codec that decodes what it encodes.\<close>

lemma binary_string_serde:
  assumes "\<And>x. b64_decode X (b64_encode X x) = Inr x"
  shows "string_serde (binary_serialize X) (binary_deserialize X)"
proof unfold_locales
  fix x invalid s d
  show "\<exists>s. binary_serialize X x = Done (SerdeStr s) \<and> binary_deserialize X invalid (SerdeStr s) = Done (Inr x)"
    using assms [of x]
    by (simp add: serialize_defs deserialize_defs base64_visit_str_def binary_from_base64_def binary_to_base64_def)
qed (simp_all add: deserialize_defs)

text \<open>The sublocales as facts about any crate that keeps the laws.\<close>

context crate256
begin

lemma wide_serde:
  "string_serde (uint256_serialize C) (uint256_deserialize C)"
  "string_serde (decimal256_serialize C) (decimal256_deserialize C)"
  by (rule uint256_serde.string_serde_axioms, rule decimal256_serde.string_serde_axioms)

end

context crate512
begin

lemma wide_serde: "string_serde (uint512_serialize D) (uint512_deserialize D)"
  by (rule uint512_serde.string_serde_axioms)

end

end
