(* ===== verification/Schema_Tools.thy ===== *)
theory Schema_Tools
  imports Rust_Integers "HOL-Library.Sublist"
begin

text \<open>
  The tools around a contract: \<open>packages/schema\<close>, which writes the JSON schemas of the messages to files and removes
  them again, and the text that the macro \<open>entry_point\<close> of \<open>packages/derive\<close> adds to a contract.

  Strings are ASCII here. The schema type of the crate \<open>schemars\<close> is the record \<open>root_schema\<close> with the title, the
  only part the code looks at, and printing it is a parameter. The directory maps names to entries; the order and the
  errors of \<open>read_dir\<close>, and which files cannot be written or removed, are parameters too. What the code prints to the
  terminal is left out.
\<close>

section \<open>Names\<close>

definition is_uppercase :: "char \<Rightarrow> bool" where
  "is_uppercase c \<longleftrightarrow> 65 \<le> (of_char c :: nat) \<and> (of_char c :: nat) \<le> 90"

definition to_ascii_lowercase :: "char \<Rightarrow> char" where
  "to_ascii_lowercase c = (if is_uppercase c then char_of ((of_char c :: nat) + 32) else c)"

fun snake_loop :: "nat \<Rightarrow> string \<Rightarrow> string \<Rightarrow> string" where
  "snake_loop index [] out = out"
| "snake_loop index (ch # chs) out =
     (let out = (if index \<noteq> 0 \<and> is_uppercase ch then out @ ''_'' else out)
      in snake_loop (Suc index) chs (out @ [to_ascii_lowercase ch]))"

definition to_snake_case :: "string \<Rightarrow> string" where
  "to_snake_case name = snake_loop 0 name []"

section \<open>Files of a directory\<close>

datatype dir_entry = RegularFile string | Directory | Symlink | NoMetadata string

type_synonym schema_dir = "string \<rightharpoonup> dir_entry"

type_synonym schema_path = "string list"

text \<open>The last component of a path, unless it is the parent directory.\<close>

definition file_name :: "schema_path \<Rightarrow> string option" where
  "file_name path = (if path = [] \<or> last path = ''..'' then None else Some (last path))"

definition is_regular_file :: "schema_dir \<Rightarrow> string \<Rightarrow> (string, bool) result" where
  "is_regular_file dir name =
     (case dir name of
        None \<Rightarrow> Inl ''No such file or directory (os error 2)''
      | Some (NoMetadata e) \<Rightarrow> Inl e
      | Some (RegularFile _) \<Rightarrow> Inr True
      | Some _ \<Rightarrow> Inr False)"

definition is_hidden :: "schema_path \<Rightarrow> bool" where
  "is_hidden path = (case file_name path of Some name \<Rightarrow> prefix ''.'' name | None \<Rightarrow> False)"

definition is_json :: "schema_path \<Rightarrow> bool" where
  "is_json path = (case file_name path of Some name \<Rightarrow> suffix ''.json'' name | None \<Rightarrow> False)"

text \<open>The filters of the iteration, for an entry of the directory as it is when the entry is reached.\<close>

definition schema_file :: "schema_path \<Rightarrow> schema_dir \<Rightarrow> string \<Rightarrow> bool" where
  "schema_file schemas_dir dir name \<longleftrightarrow>
     (case is_regular_file dir name of Inr b \<Rightarrow> b | Inl _ \<Rightarrow> False) \<and>
     \<not> is_hidden (schemas_dir @ [name]) \<and> is_json (schemas_dir @ [name])"

text \<open>
  The iteration over the listing, whose errors are skipped. \<open>locked name\<close> is the error of removing the file \<open>name\<close>,
  if it cannot be removed.
\<close>

fun remove_loop ::
  "(string \<Rightarrow> string option) \<Rightarrow> schema_path \<Rightarrow> (string, string) result list \<Rightarrow> schema_dir \<Rightarrow>
   (string, unit) result \<times> schema_dir" where
  "remove_loop locked schemas_dir [] dir = (Inr (), dir)"
| "remove_loop locked schemas_dir (Inl e # entries) dir = remove_loop locked schemas_dir entries dir"
| "remove_loop locked schemas_dir (Inr name # entries) dir =
     (if schema_file schemas_dir dir name
      then (case locked name of
              Some e \<Rightarrow> (Inl e, dir)
            | None \<Rightarrow> remove_loop locked schemas_dir entries (dir(name := None)))
      else remove_loop locked schemas_dir entries dir)"

definition remove_schemas ::
  "(string \<Rightarrow> string option) \<Rightarrow> schema_path \<Rightarrow> (string, (string, string) result list) result \<Rightarrow> schema_dir \<Rightarrow>
   (string, unit) result \<times> schema_dir" where
  "remove_schemas locked schemas_dir read_dir dir =
     (case read_dir of
        Inl e \<Rightarrow> (Inl e, dir)
      | Inr listing \<Rightarrow> remove_loop locked schemas_dir listing dir)"

section \<open>Writing a schema\<close>

record schema_metadata =
  md_title :: "string option"

record 'x root_schema =
  rs_metadata :: "schema_metadata option"
  rs_rest :: 'x

text \<open>
  \<open>pretty\<close> prints a schema; \<open>refused name\<close> is the error of writing the file, if it cannot be written. The write
  replaces the content of an existing file.
\<close>

definition write_schema ::
  "('x root_schema \<Rightarrow> (string, string) result) \<Rightarrow> (string \<Rightarrow> string option) \<Rightarrow> 'x root_schema \<Rightarrow> string \<Rightarrow> schema_dir \<Rightarrow>
   schema_dir outcome" where
  "write_schema pretty refused schema title dir =
     (let name = to_snake_case title @ ''.json'' in
      obind (unwrap_ok (pretty schema)) (\<lambda>json.
        case refused name of
          Some e \<Rightarrow> unwrap_ok (Inl e)
        | None \<Rightarrow> Done (dir(name \<mapsto> RegularFile (json @ [char_of (10 :: nat)])))))"

definition schema_title :: "'x root_schema \<Rightarrow> string" where
  "schema_title schema =
     (case rs_metadata schema of
        None \<Rightarrow> ''unknown''
      | Some b \<Rightarrow> (case md_title b of Some title \<Rightarrow> title | None \<Rightarrow> ''untitled''))"

definition export_schema ::
  "('x root_schema \<Rightarrow> (string, string) result) \<Rightarrow> (string \<Rightarrow> string option) \<Rightarrow> 'x root_schema \<Rightarrow> schema_dir \<Rightarrow>
   schema_dir outcome" where
  "export_schema pretty refused schema dir = write_schema pretty refused schema (schema_title schema) dir"

definition export_schema_with_title ::
  "('x root_schema \<Rightarrow> (string, string) result) \<Rightarrow> (string \<Rightarrow> string option) \<Rightarrow> 'x root_schema \<Rightarrow> string \<Rightarrow> schema_dir \<Rightarrow>
   schema_dir outcome" where
  "export_schema_with_title pretty refused schema title dir =
     (let schema = (case rs_metadata schema of
                      Some metadata \<Rightarrow> schema\<lparr>rs_metadata := Some (metadata\<lparr>md_title := Some title\<rparr>)\<rparr>
                    | None \<Rightarrow> schema)
      in write_schema pretty refused schema title dir)"

section \<open>Entry points of a contract\<close>

text \<open>
  The code the macro adds for a function with the name \<open>name\<close> and \<open>inputs\<close> parameters, the first of which is the
  dependencies. A function without parameters makes the subtraction overflow.
\<close>

definition typed_ptrs :: "nat \<Rightarrow> string" where
  "typed_ptrs args = fold (\<lambda>i acc. acc @ ''ptr'' @ show_nat i @ '': u32, '') [0..<args] []"

definition ptrs :: "nat \<Rightarrow> string" where
  "ptrs args = fold (\<lambda>i acc. acc @ ''ptr'' @ show_nat i @ '', '') [0..<args] []"

definition code_line :: "nat \<Rightarrow> string \<Rightarrow> string" where
  "code_line indent text = replicate indent (CHR '' '') @ text @ [char_of (10 :: nat)]"

definition entry_point_code :: "string \<Rightarrow> nat \<Rightarrow> string outcome" where
  "entry_point_code name inputs =
     (if inputs = 0 then Panic ''attempt to subtract with overflow'' else
      let args = inputs - 1 in
      Done ([char_of (10 :: nat)] @
        code_line 8 (''#[cfg(target_arch = '' @ [CHR 0x22] @ ''wasm32'' @ [CHR 0x22] @ '')]'') @
        code_line 8 (''mod __wasm_export_'' @ name @ '' { // new module to avoid conflict of function name'') @
        code_line 12 ''#[no_mangle]'' @
        code_line 12 (''extern '' @ [CHR 0x22] @ ''C'' @ [CHR 0x22] @ '' fn '' @ name @ ''('' @ typed_ptrs args @ '') -> u32 {'') @
        code_line 16 (''cosmwasm_std::do_'' @ name @ ''(&super::'' @ name @ '', '' @ ptrs args @ '')'') @
        code_line 12 ''}'' @
        code_line 8 ''}'' @
        replicate 4 (CHR '' '')))"

section \<open>What the tools do\<close>

lemma snake_loop_out: "snake_loop index chs out = out @ snake_loop index chs []"
proof (induction chs arbitrary: index out)
  case (Cons ch chs)
  show ?case
    using Cons [of "Suc index" "out @ [to_ascii_lowercase ch]"] Cons [of "Suc index" "out @ ''_'' @ [to_ascii_lowercase ch]"]
      Cons [of "Suc index" "[to_ascii_lowercase ch]"] Cons [of "Suc index" "''_'' @ [to_ascii_lowercase ch]"]
    by (cases index) (simp_all add: Let_def)
qed simp

lemma snake_loop_Cons:
  "snake_loop index (ch # chs) [] =
    (if index \<noteq> 0 \<and> is_uppercase ch then ''_'' else []) @ [to_ascii_lowercase ch] @ snake_loop (Suc index) chs []"
  using snake_loop_out [of "Suc index" chs "[to_ascii_lowercase ch]"]
    snake_loop_out [of "Suc index" chs "''_'' @ [to_ascii_lowercase ch]"]
  by (cases index) (simp_all add: Let_def)

lemma lowercase_not_uppercase: "\<not> is_uppercase (to_ascii_lowercase c)"
  by (simp add: is_uppercase_def to_ascii_lowercase_def)

lemma lowercase_dot:
  assumes "d \<noteq> CHR ''.''"
  shows "to_ascii_lowercase d \<noteq> CHR ''.''"
proof (cases "is_uppercase d")
  case True
  then have "(of_char (to_ascii_lowercase d) :: nat) = of_char d + 32" and "65 \<le> (of_char d :: nat)"
    by (simp_all add: to_ascii_lowercase_def is_uppercase_def)
  then have "(of_char (to_ascii_lowercase d) :: nat) \<noteq> of_char (CHR ''.'')"
    by simp
  then show ?thesis
    by metis
qed (use assms in \<open>simp add: to_ascii_lowercase_def\<close>)

lemma snake_loop_lowercase: "list_all (\<lambda>c. \<not> is_uppercase c) (snake_loop index chs [])"
proof (induction chs arbitrary: index)
  case (Cons ch chs)
  moreover have "\<not> is_uppercase (CHR ''_'')"
    by (simp add: is_uppercase_def)
  ultimately show ?case
    by (simp add: snake_loop_Cons lowercase_not_uppercase del: snake_loop.simps)
qed simp

lemma snake_loop_id: "list_all (\<lambda>c. \<not> is_uppercase c) chs \<Longrightarrow> snake_loop index chs [] = chs"
  by (induction chs arbitrary: index) (simp_all add: snake_loop_Cons to_ascii_lowercase_def del: snake_loop.simps(2))

lemma to_snake_case_idem: "to_snake_case (to_snake_case name) = to_snake_case name"
  by (simp add: to_snake_case_def snake_loop_id snake_loop_lowercase)

lemma to_snake_case_first: "name \<noteq> [] \<Longrightarrow> hd (to_snake_case name) = to_ascii_lowercase (hd name)"
  by (cases name) (simp_all add: to_snake_case_def snake_loop_Cons del: snake_loop.simps)

lemma schema_file_iff:
  "schema_file schemas_dir dir name \<longleftrightarrow>
    (\<exists>content. dir name = Some (RegularFile content)) \<and> \<not> prefix ''.'' name \<and> suffix ''.json'' name"
proof -
  have "name \<noteq> ''..''" if "suffix ''.json'' name"
    using that by (auto simp: suffix_def)
  then show ?thesis
    by (auto simp: schema_file_def is_regular_file_def is_hidden_def is_json_def file_name_def
        split: option.splits dir_entry.splits if_splits)
qed

lemma schema_file_update: "schema_file schemas_dir (dir(n := None)) name \<longleftrightarrow> name \<noteq> n \<and> schema_file schemas_dir dir name"
  by (auto simp: schema_file_iff)

lemma remove_loop_Ok:
  assumes "remove_loop locked schemas_dir listing dir = (Inr (), dir')"
  shows "dir' name = (if Inr name \<in> set listing \<and> schema_file schemas_dir dir name then None else dir name)"
  using assms
  by (induction locked schemas_dir listing dir rule: remove_loop.induct)
    (auto simp: schema_file_update split: if_splits option.splits)

lemma remove_loop_keeps:
  assumes "remove_loop locked schemas_dir listing dir = (r, dir')" and "dir' name \<noteq> dir name"
  shows "dir' name = None \<and> schema_file schemas_dir dir name"
  using assms
  by (induction locked schemas_dir listing dir rule: remove_loop.induct)
    (force simp: schema_file_update split: if_splits option.splits)+

text \<open>When it reports success, exactly the regular, visible JSON files of the listing are gone.\<close>

lemma remove_schemas_Ok:
  assumes "remove_schemas locked schemas_dir (Inr listing) dir = (Inr (), dir')"
  shows "dir' name =
    (if Inr name \<in> set listing \<and> (\<exists>content. dir name = Some (RegularFile content)) \<and> \<not> prefix ''.'' name \<and>
        suffix ''.json'' name then None else dir name)"
  using remove_loop_Ok [of locked schemas_dir listing dir dir' name] assms
  by (simp add: remove_schemas_def schema_file_iff)

text \<open>Whatever it reports, nothing else is removed.\<close>

lemma remove_schemas_keeps:
  assumes "remove_schemas locked schemas_dir read_dir dir = (r, dir')" and "dir' name \<noteq> dir name"
  shows "dir' name = None \<and> (\<exists>content. dir name = Some (RegularFile content)) \<and> \<not> prefix ''.'' name \<and> suffix ''.json'' name"
  using remove_loop_keeps [of locked schemas_dir _ dir r dir' name] assms
  by (cases read_dir) (auto simp: remove_schemas_def schema_file_iff)

text \<open>A schema that was exported is a file that the removal takes, unless its title starts with a dot.\<close>

lemma exported_schema_removed:
  assumes "export_schema pretty refused schema dir = Done dir1" and "schema_title schema \<noteq> []"
    and "hd (schema_title schema) \<noteq> CHR ''.''" and "Inr (to_snake_case (schema_title schema) @ ''.json'') \<in> set listing"
    and "remove_schemas locked schemas_dir (Inr listing) dir1 = (Inr (), dir2)"
  shows "dir2 (to_snake_case (schema_title schema) @ ''.json'') = None"
proof -
  let ?name = "to_snake_case (schema_title schema) @ ''.json''"
  have "\<exists>content. dir1 ?name = Some (RegularFile content)"
    using assms(1) by (auto simp: export_schema_def write_schema_def Let_def obind_eq_Done_iff unwrap_ok_eq_Done_iff
        split: option.splits)
  moreover have "to_snake_case (schema_title schema) \<noteq> []"
    using assms(2) by (cases "schema_title schema") (simp_all add: to_snake_case_def snake_loop_Cons del: snake_loop.simps)
  then have "\<not> prefix ''.'' ?name"
  proof (cases "to_snake_case (schema_title schema)")
    case (Cons c cs)
    have "c = to_ascii_lowercase (hd (schema_title schema))"
      using to_snake_case_first [OF assms(2)] Cons by simp
    then have "c \<noteq> CHR ''.''"
      using lowercase_dot [OF assms(3)] by simp
    then show ?thesis
      by (simp add: Cons)
  qed simp
  ultimately show ?thesis
    using remove_schemas_Ok [OF assms(5), of ?name] assms(4) by (simp add: suffix_def)
qed

text \<open>One pointer for each parameter but the first, with ascending numbers; only a function without parameters fails.\<close>

lemma typed_ptrs_Suc: "typed_ptrs (Suc args) = typed_ptrs args @ ''ptr'' @ show_nat args @ '': u32, ''"
  by (simp add: typed_ptrs_def)

lemma ptrs_Suc: "ptrs (Suc args) = ptrs args @ ''ptr'' @ show_nat args @ '', ''"
  by (simp add: ptrs_def)

lemma ptrs_2: "typed_ptrs 2 = ''ptr0: u32, ptr1: u32, ''" "ptrs 2 = ''ptr0, ptr1, ''"
  by code_simp+

lemma entry_point_code_panics_iff: "panics (entry_point_code name inputs) \<longleftrightarrow> inputs = 0"
  by (simp add: entry_point_code_def Let_def)

end
