(* ===== verification/VM_Error_Text.thy ===== *)
theory VM_Error_Text
  imports VM_Instance VM_Gatekeeper
begin

text \<open>
  The texts of the errors of cosmwasm-vm, which the attributes of \<open>errors/*.rs\<close>, \<open>backend.rs\<close> and of
  \<open>packages/crypto/src/errors.rs\<close> define, and the way of an error that an import returns: wasmer gets its text as a
  runtime error, unwinds the contract, and the caller of the contract makes an error of its own from the text. The
  debug form of a string is a parameter; only the unknown error of a backend uses it. Also the conversion
  \<open>to_i32\<close>, the flat cost of an operator and the order of the middlewares of \<open>wasm_backend/store.rs\<close>.
\<close>

section \<open>Texts\<close>

fun region_validation_error_text :: "region_validation_error \<Rightarrow> string" where
  "region_validation_error_text (LengthExceedsCapacity len capacity) =
     ''Region length exceeds capacity. Length '' @ to_string len @ '', capacity '' @ to_string capacity"
| "region_validation_error_text (OutOfRange offset capacity) =
     ''Region exceeds address space. Offset '' @ to_string offset @ '', capacity '' @ to_string capacity"
| "region_validation_error_text ZeroOffset = ''Got a zero Wasm address in the offset''"

definition show_int :: "int \<Rightarrow> string" where
  "show_int i = (if i < 0 then CHR ''-'' # show_nat (nat (- i)) else show_nat (nat i))"

fun communication_error_text :: "communication_error \<Rightarrow> string" where
  "communication_error_text (DerefErr offset msg) =
     ''The Wasm memory address '' @ to_string offset @
     '' provided by the contract could not be dereferenced: '' @ msg"
| "communication_error_text (InvalidOrder v) = ''Got an invalid value for iteration order: '' @ show_int v"
| "communication_error_text (InvalidRegion source) =
     ''Got an invalid region: '' @ region_validation_error_text source"
| "communication_error_text (CommInvalidUtf8 msg) = ''Cannot decode UTF8 bytes into string: '' @ msg"
| "communication_error_text (RegionLengthTooBig len max_length) =
     ''Region length too big. Got '' @ show_nat len @ '', limit '' @ show_nat max_length"
| "communication_error_text (RegionTooSmall got required) =
     ''Region too small. Got '' @ show_nat got @ '', required '' @ show_nat required"
| "communication_error_text ZeroAddress = ''Got a zero Wasm address''"

fun backend_error_text :: "(string option \<Rightarrow> string) \<Rightarrow> backend_error \<Rightarrow> string" where
  "backend_error_text dbg ForeignPanic = ''Panic in FFI call''"
| "backend_error_text dbg BadArgument = ''Bad argument''"
| "backend_error_text dbg BackendInvalidUtf8 = ''VM received invalid UTF-8 data from backend''"
| "backend_error_text dbg (IteratorDoesNotExist i) = ''Iterator with ID '' @ to_string i @ '' does not exist''"
| "backend_error_text dbg OutOfGas = ''Ran out of gas during call into backend''"
| "backend_error_text dbg (Unknown msg) = ''Unknown error during call into backend: '' @ dbg msg"
| "backend_error_text dbg (UserErr msg) = ''User error during call into backend: '' @ msg"

fun crypto_error_text :: "crypto_error \<Rightarrow> string" where
  "crypto_error_text (CryptoBatchErr msg) = ''Batch verify error: '' @ msg"
| "crypto_error_text (CryptoGenericErr msg) = ''Crypto error: '' @ msg"
| "crypto_error_text CryptoInvalidHashFormat = ''Invalid hash format''"
| "crypto_error_text CryptoInvalidPubkeyFormat = ''Invalid public key format''"
| "crypto_error_text CryptoInvalidSignatureFormat = ''Invalid signature format''"
| "crypto_error_text CryptoInvalidRecoveryParam = ''Invalid recovery parameter. Supported values: 0 and 1.''"

fun vm_error_text :: "(string option \<Rightarrow> string) \<Rightarrow> vm_error \<Rightarrow> string" where
  "vm_error_text dbg (VmBackendErr source) =
     ''Error calling into the VM'' @ [CHR 0x27] @ ''s backend: '' @ backend_error_text dbg source"
| "vm_error_text dbg (VmCacheErr msg) = ''Cache error: '' @ msg"
| "vm_error_text dbg (VmCommunicationErr source) =
     ''Error in guest/host communication: '' @ communication_error_text source"
| "vm_error_text dbg (VmCompileErr msg) = ''Error compiling Wasm: '' @ msg"
| "vm_error_text dbg (VmConversionErr from_type to_type input) =
     ''Couldn'' @ [CHR 0x27] @ ''t convert from '' @ from_type @ '' to '' @ to_type @ ''. Input: '' @ input"
| "vm_error_text dbg (VmCryptoErr source) = ''Crypto error: '' @ crypto_error_text source"
| "vm_error_text dbg VmGasDepletion = ''Ran out of gas during contract execution''"
| "vm_error_text dbg (VmGenericErr msg) = ''Generic error: '' @ msg"
| "vm_error_text dbg (VmInstantiationErr msg) = ''Error instantiating a Wasm module: '' @ msg"
| "vm_error_text dbg VmIntegrityErr = ''Hash doesn'' @ [CHR 0x27] @ ''t match stored data''"
| "vm_error_text dbg (VmParseErr target msg) = ''Error parsing into type '' @ target @ '': '' @ msg"
| "vm_error_text dbg (VmDeserializationLimitExceeded len max_length) =
     ''Data too long for deserialization. Got: '' @ show_nat len @ '' bytes; limit: '' @ show_nat max_length @ '' bytes''"
| "vm_error_text dbg (VmSerializeErr src msg) = ''Error serializing type '' @ src @ '': '' @ msg"
| "vm_error_text dbg (VmResolveErr msg) = ''Error resolving Wasm function: '' @ msg"
| "vm_error_text dbg (VmResultMismatch function_name expected actual) =
     ''Unexpected number of result values when calling '' @ [CHR 0x27] @ function_name @ [CHR 0x27] @
     ''. Expected: '' @ show_nat expected @ '', actual: '' @ show_nat actual @ ''.''"
| "vm_error_text dbg (VmRuntimeErr msg) = ''Error executing Wasm: '' @ msg"
| "vm_error_text dbg (VmStaticValidationErr msg) = ''Error during static Wasm validation: '' @ msg"
| "vm_error_text dbg (VmUninitializedContextData kind) = ''Uninitialized Context Data: '' @ kind"
| "vm_error_text dbg VmWriteAccessDenied = ''Must not call a writing storage function in this context.''"

text \<open>What wasmer is given when an import returns an error: the message of the runtime error.\<close>

definition runtime_error_from_vm :: "(string option \<Rightarrow> string) \<Rightarrow> vm_error \<Rightarrow> string" where
  "runtime_error_from_vm dbg original = vm_error_text dbg original"

section \<open>Conversions\<close>

definition to_i32 :: "nat \<Rightarrow> 32 word vm_result" where
  "to_i32 input =
     (if input < 2 ^ 31 then Inr (word_of_nat input)
      else Inl (VmConversionErr ''usize'' ''i32'' (show_nat input)))"

section \<open>The store of the compiler\<close>

text \<open>The flat fee of an operator, and the middlewares that see the operators of a contract, in their order.\<close>

definition operator_cost :: "wasm_operator \<Rightarrow> u64" where
  "operator_cost operator = 150000"

datatype 'm middleware = Given 'm | GatekeeperDefault gatekeeper_config | Metering u64 "wasm_operator \<Rightarrow> u64"

definition compile_time_middlewares :: "'m list \<Rightarrow> 'm middleware list" where
  "compile_time_middlewares middlewares =
     map Given middlewares @ [GatekeeperDefault gatekeeper_default, Metering 0 operator_cost]"

section \<open>What the caller of a contract learns\<close>

text \<open>
  An import that fails ends the contract. Unless the contract had used up its gas itself, the caller gets a runtime
  error whose text ends with the text of the error of the import.
\<close>

lemma import_error_reported:
  assumes "cd_wasm_instance env \<noteq> None"
    and "h_call H name args env = (Inl (RuntimeFailure (runtime_error_from_vm dbg e)), env')"
    and "map_option (we_points (h_engine H)) (cd_wasm_instance env') \<noteq> Some Exhausted"
  shows "call_function H name args env =
    Done (Inl (VmRuntimeErr (''Wasmer runtime error: RuntimeError: '' @ vm_error_text dbg e)), env')"
  using assms
  by (auto simp: call_function_def runtime_error_from_vm_def vm_error_from_runtime_def
      split: option.splits metering_points.splits)

text \<open>
  The kind of the error is lost on the way, also for gas: an import that finds the gas used up sets the remaining
  points to zero, which is not the exhausted state of the metering. The caller then gets a runtime error with the text
  of the depletion, not the depletion itself.
\<close>

context wasm_engine_laws
begin

lemma depletion_in_import:
  assumes "h_engine H = E" and "process_gas_info H info env = Done (Inl e, env1)"
    and "cd_wasm_instance env0 \<noteq> None"
    and "h_call H name args env0 = (Inl (RuntimeFailure (runtime_error_from_vm dbg e)), env1)"
  shows "e = VmGasDepletion \<and> call_function H name args env0 =
    Done (Inl (VmRuntimeErr ''Wasmer runtime error: RuntimeError: Ran out of gas during contract execution''), env1)"
proof -
  have e: "e = VmGasDepletion" and points: "\<exists>n. map_option (we_points E) (cd_wasm_instance env1) = Some (Remaining n)"
    using assms(1,2) points_set
    by (auto simp: process_gas_info_def obind_eq_Done_iff Let_def set_gas_left_def omap_eq_Done_iff expect_eq_Done_iff
        engine_set_gas_left_def split: if_splits)
  then show ?thesis
    using import_error_reported [OF assms(3,4)] assms(1) by auto
qed

end

section \<open>Facts about the conversions and the store\<close>

lemma to_i32_Ok_iff: "to_i32 n = Inr w \<longleftrightarrow> sint w = int n"
proof
  assume "to_i32 n = Inr w"
  then have n: "n < 2 ^ 31" and w: "w = word_of_nat n"
    by (auto simp: to_i32_def split: if_splits)
  have "sint w = signed_take_bit 31 (int n)"
    unfolding w by (simp add: signed_of_nat)
  also have "\<dots> = int n"
    using n by (intro signed_take_bit_int_eq_self) auto
  finally show "sint w = int n" .
next
  assume eq: "sint w = int n"
  have "sint w < 2 ^ 31"
    using sint_lt [of w] by simp
  then have "n < 2 ^ 31"
    using eq by simp
  moreover have "w = word_of_int (int n)"
    unfolding eq [symmetric] by simp
  ultimately show "to_i32 n = Inr w"
    by (simp add: to_i32_def)
qed

text \<open>Whatever middlewares are given, the gatekeeper and the metering see what they write.\<close>

lemma compile_time_middlewares_last:
  "\<exists>before. compile_time_middlewares ms = before @ [GatekeeperDefault gatekeeper_default, Metering 0 operator_cost]"
  by (simp add: compile_time_middlewares_def)

end
