(* ===== verification/Spec2Isabelle.thy ===== *)
theory Spec2Isabelle
  imports Crypto Decimal256 Contract_Queue Staking_Ledger Cache_Example VM_Gatekeeper Guest_Example VM_Sandbox Crypto_Boundary VM_Mock_Backend Contract_Example Profiler_Runs Std_Serde Schema_Tools VM_Error_Text
begin

text \<open>
  CosmWasm: the smart contract platform of \<open>packages/\<close> and the contracts of \<open>contracts/\<close> as a library of theories.

  The program. A contract is compiled to WebAssembly and runs inside a virtual machine
  (\<open>packages/vm\<close>) that gives it a storage, a querier, address functions and signature checks
  through imports, and charges gas. The standard library (\<open>packages/std\<close>) holds what contracts
  compute with: unsigned integers of 64 to 512 bits, decimals, errors, the storage trait, messages and queries, and the
  contract's side of the imports. \<open>packages/storage\<close> builds namespaced and typed stores on the storage trait. The
  contracts use all of it; the profiler runs a contract inside the virtual machine with probes.

  The theories, in the order of their imports.
  \<^item> \<open>Rust_Prelude\<close>, \<open>Rust_Integers\<close>, \<open>Rust_Strings\<close>: what the sources use
    of Rust. A computation that can panic is an \<open>outcome\<close>, a fallible one a \<open>result\<close>, one
    that changes state a \<open>prog\<close>; machine integers are words, and the checked, wrapping and
    saturating operations, parsing, printing and byte order are defined on them.
  \<^item> \<open>Std_Errors\<close>: \<open>packages/std/src/errors\<close> and the error codes of
    \<open>packages/crypto\<close>.
  \<^item> \<open>Uint64_128\<close>, \<open>Isqrt\<close>, \<open>Wide_Uint\<close>: \<open>packages/std/src/math/uint*.rs\<close>
    and \<open>isqrt.rs\<close>. \<open>Uint256\<close> and \<open>Uint512\<close> call the \<open>uint\<close> crate, which is
    the record \<open>uint_crate\<close> with the laws of the locale \<open>uint_crate_laws\<close>; \<open>exact_u256\<close>
    and \<open>exact_u512\<close> satisfy them. The Newton loop is a partial function, and the locale
    \<open>unsigned_int\<close> proves once that it ends with the integer square root.
  \<^item> \<open>Decimal_Spec\<close>, \<open>Decimal\<close>, \<open>Decimal256\<close>: \<open>decimal.rs\<close>, \<open>fraction.rs\<close> and
    \<open>decimal256.rs\<close>, against the specification of decimal strings.
  \<^item> \<open>Storage\<close>, \<open>Prefixed_Storage\<close>, \<open>Typed_Storage\<close>: the storage trait with its
    contract, the locale \<open>key_value_store\<close>; the memory storage; the wrappers of
    \<open>packages/storage\<close>. \<open>MemoryStorage\<close> and \<open>PrefixedStorage\<close> are shown to keep the
    contract, the ranges of a namespace that ends in 255 are characterised with the keys that make them panic,
    and the facts about \<open>Singleton\<close>, \<open>Bucket\<close> and sequences hold over any
    storage that keeps it and any JSON codec (the locale \<open>json_codec\<close>).
  \<^item> \<open>VM_Errors\<close>, \<open>Sections\<close>, \<open>VM_Memory\<close>, \<open>VM_Environment\<close>, \<open>VM_Imports\<close>,
    \<open>VM_Mock_Storage\<close>: the virtual machine. wasmer is the record \<open>wasm_engine\<close> with the laws
    of the locale \<open>wasm_engine_laws\<close>, satisfied by \<open>linear_engine\<close>; the backend, the
    signature checks and the code of the contract are the record \<open>host\<close>.
  \<^item> \<open>VM_Safety\<close>: the imports as a step relation, with what holds after any number of steps,
    and the effect of reading and writing the storage.
  \<^item> \<open>Crypto\<close>: \<open>packages/crypto\<close> with the curve libraries as the record
    \<open>curves\<close>, and the way of its results through the imports to \<open>ExternalApi\<close>.
  \<^item> \<open>Std_Results\<close>, \<open>Std_Ibc\<close>, \<open>Std_Query\<close>: time, coins, messages, responses, the messages of the IBC entry
    points and the queries of \<open>QuerierWrapper\<close>.
  \<^item> \<open>Std_Mock\<close>, \<open>VM_Mock_Backend\<close>: \<open>std/src/mock.rs\<close>, \<open>binary.rs\<close>, \<open>assertions.rs\<close> and the helpers of
    \<open>vm/src/testing\<close>: the mock address functions invert each other, and those of the two packages agree.
  \<^item> \<open>Std_Serde\<close>: the JSON forms of the number types and of \<open>Binary\<close>; the locale \<open>string_serde\<close> says what a type
    that is written as a string promises, and each type is an instance.
  \<^item> \<open>Guest_Memory\<close>, \<open>Guest_Imports\<close>, \<open>Guest_Boundary\<close>, \<open>Guest_Exports\<close>, \<open>Guest_Example\<close>: the contract's side,
    \<open>std/src/memory.rs\<close>, \<open>imports.rs\<close> and \<open>exports.rs\<close>, over the memory of the guest and its allocator. What the
    contract reads is what the host stored, and every entry point returns a region with the result or the first parse error.
  \<^item> \<open>Crypto_Boundary\<close>: the signature checks and the key recovery from the contract's slices through the imports to the
    crypto package and back.
  \<^item> \<open>VM_Compatibility\<close>, \<open>VM_Gatekeeper\<close>: the checks of a contract's code before it is accepted
    (\<open>compatibility.rs\<close>, \<open>static_analysis.rs\<close>, \<open>features.rs\<close>, \<open>limited.rs\<close>, \<open>gatekeeper.rs\<close>); the
    parser is the record \<open>wasm_parser\<close>.
  \<^item> \<open>VM_Instance\<close>: instances and entry point calls (\<open>instance.rs\<close>, \<open>calls.rs\<close>), on top of the environment
    and its imports.
  \<^item> \<open>VM_Sandbox\<close>: a call into the guest as an inductive relation, its own instructions and calls of the imports, which
    may call back into it. What the imports guarantee follows for every call of a host that is \<open>sandboxed_host\<close>; the
    example is a guest whose query reads the storage and tries to write it.
  \<^item> \<open>VM_Error_Text\<close>: the texts of the errors, what the caller learns of an error in an import, the flat cost of
    operators and the order of the middlewares.
  \<^item> \<open>VM_Cache\<close>, \<open>Cache_Safety\<close>, \<open>Cache_Example\<close>: the module caches (\<open>cache.rs\<close>, \<open>modules/\<close>) on a file
    system whose accesses can fail; invariants of any sequence of operations in the locale \<open>cache_platform\<close>, and a
    platform that satisfies its laws.
  \<^item> \<open>Contract_Deps\<close>, \<open>Contract_Queue\<close>, \<open>Contract_Staking\<close>, \<open>Staking_Ledger\<close>, \<open>Contract_Hackatom\<close>,
    \<open>Contract_Reflect\<close>, \<open>Contract_Ibc_Reflect\<close>, \<open>Contract_Ibc_Send\<close>, \<open>Contract_Crypto_Verify\<close>,
    \<open>Contract_Example\<close>: the contracts of \<open>contracts/\<close> over any storage that keeps its contract and any codecs, each
    with a locale of what it needs and an interpretation on the memory storage. The queue refines an abstract queue and
    reflect an abstract machine; the staking contract has an invariant over its reachable states; the funds of
    hackatom leave by a release of the verifier to the beneficiary or by the chain's own \<open>sudo\<close> call; the two IBC contracts are put together for a handshake.
  \<^item> \<open>Profiler_Operators\<close>, \<open>Profiler\<close>, \<open>Profiler_Runs\<close>: \<open>packages/profiler\<close>. The middleware is related to the
    positions of a function, and runs of instrumented functions, with calls, branches and times, to the measurements:
    none is ended that was not started, and a run that takes every \<open>if\<close> it meets measures each block with its own
    times. An example shows what an \<open>if\<close> that is not taken does to the measurements.
  \<^item> \<open>Schema_Tools\<close>: \<open>packages/schema\<close> and the text of the macro in \<open>packages/derive\<close>.
  This theory states the properties.

  Arithmetic. Contracts are built with overflow checks, so plain arithmetic in the standard library
  panics on overflow; the virtual machine is a release build, whose plain arithmetic wraps. Loops
  have no fuel: the square root and the messages of hackatom that do not end are partial functions, the iterator loop of
  the mock storage and the trimming of white space have measures, and the other loops are structural.

  Not modelled. JSON text (a codec is a parameter; how numbers and binary data appear in it is in \<open>Std_Serde\<close>) and the
  schemas derived from types. The gas of the contract's own instructions, which wasmer meters. Locks: the operations of
  a cache and of the profiler run one after the other. The capacity of a vector that the serializer returns is its length.
  Calls of the profiling imports that a module makes itself: in a run they are steps without effect. The random
  blinding of the batch verifier, whose verdict is a function here. Parent directories that remain when creating a
  directory fails halfway. Backtraces of errors, references between owned and borrowed
  wrappers of addresses and dependencies, which change nothing. Building engines and adding imports to a module (wasmer
  and walrus), the main program of the profiler, tests and benchmarks, and the scripts of \<open>devtools\<close>. The remaining
  Rust code is of these kinds.
\<close>


section \<open>Integers and decimals\<close>

text \<open>
  C1: \<open>Uint128::multiply_ratio\<close> returns the quotient of the exact product, also when the
  product does not fit into 128 bits; it panics exactly when the denominator is zero or the quotient
  does not fit.
\<close>

theorem uint128_multiply_ratio_exact:
  assumes "crate256 C"
  shows "uint128_multiply_ratio C a n d = Done c \<longleftrightarrow>
    unat d \<noteq> 0 \<and> val128 c = val128 a * unat n div unat d"
  using assms by (rule crate256.uint128_multiply_ratio_iff)

theorem uint128_multiply_ratio_exact_witness:
  "uint128_multiply_ratio exact_u256 (Uint128 (- 1)) 6 9 = Done (Uint128 226854911280625642308916404954512140970)"
  using uint128_multiply_ratio_exact [OF ref256.crate256_axioms, of "Uint128 (- 1)" 6 9
      "Uint128 226854911280625642308916404954512140970"]
  by (simp add: unat_max_word)

text \<open>
  C35: \<open>Isqrt::isqrt\<close> on \<open>Uint128\<close> terminates, does not panic and returns the integer
  square root.
\<close>

theorem uint128_isqrt_correct:
  "\<exists>r. isqrt uint128_unsigned n = Some (Done r) \<and> (val128 r)\<^sup>2 \<le> val128 n \<and> val128 n < (val128 r + 1)\<^sup>2"
  by (rule uint128_int.isqrt_ok)

text \<open>
  C9: \<open>Decimal::sqrt\<close> returns for every decimal and never panics. With \<open>p\<close> the largest
  number of digit pairs (at most nine) that fits into 128 bits, the result is the square root rounded down
  to \<open>9 + p\<close> fractional digits.
\<close>

theorem decimal_sqrt_correct:
  "\<exists>p e r. p \<le> 9 \<and> decimal_sqrt d = Some (Done e) \<and> valD e = r * 10 ^ (9 - p) \<and>
    r\<^sup>2 \<le> valD d * 100 ^ p \<and> valD d * 100 ^ p < (r + 1)\<^sup>2 \<and> valD d * 100 ^ p < 2 ^ 128 \<and>
    (\<forall>q \<le> 9. valD d * 100 ^ q < 2 ^ 128 \<longrightarrow> q \<le> p)"
  by (rule decimal_sqrt_precision)

theorem decimal_sqrt_correct_witness:
  "decimal_sqrt (Decimal (Uint128 4000000000000000000)) = Some (Done (Decimal (Uint128 2000000000000000000)))"
proof -
  define d where "d = Decimal (Uint128 4000000000000000000)"
  have val: "valD d = 4000000000000000000" by (simp add: d_def)
  obtain p e r where p: "p \<le> 9" "decimal_sqrt d = Some (Done e)" "valD e = r * 10 ^ (9 - p)"
    "r\<^sup>2 \<le> valD d * 100 ^ p" "valD d * 100 ^ p < (r + 1)\<^sup>2" "\<forall>q \<le> 9. valD d * 100 ^ q < 2 ^ 128 \<longrightarrow> q \<le> p"
    using decimal_sqrt_correct [of d] by blast
  have "p = 9" using p(1) p(6) [rule_format, of 9] by (simp add: val)
  then have "r\<^sup>2 \<le> 2000000000000000000\<^sup>2" "2000000000000000000\<^sup>2 < (r + 1)\<^sup>2" using p(4,5) val by simp_all
  then have "r \<le> 2000000000000000000" "2000000000000000000 < r + 1"
    by (blast intro: power2_le_imp_le power2_less_imp_less)+
  then have "r = 2000000000000000000" by linarith
  then have "e = Decimal (Uint128 2000000000000000000)" using p(3) \<open>p = 9\<close> by (simp add: decimal_eq_iff)
  with p(2) show ?thesis by (simp add: d_def)
qed

text \<open>
  C12: \<open>Decimal::from_str\<close> never panics, and it returns \<open>d\<close> exactly when the string is a whole part,
  or a whole part, a dot and a fractional part of at most 18 characters, that denotes the atomics of \<open>d\<close>.
  A part is a non-empty string of digits, which may have a plus sign in front (in the fractional part it
  counts as a character, so \<open>1.+5\<close> is read as 1.05); every other string is an error. For a string without
  a plus sign this is the plain grammar of digits.
\<close>

theorem decimal_from_str_exact:
  "\<exists>r. decimal_from_str s = Done r \<and>
   (\<forall>d. r = Inr d \<longleftrightarrow> dec_denotes plus_digits_denote s (valD d)) \<and>
   (CHR ''+'' \<notin> set s \<longrightarrow> (\<forall>d. r = Inr d \<longleftrightarrow> dec_denotes digits_denote s (valD d)))"
  using decimal_from_str_ok [of s] dec_denotes_parse_iff [OF valD_lt, of s] dec_denotes_unsigned [of s] by auto

theorem decimal_from_str_exact_witness:
  "decimal_from_str ''1.5'' = Done (Inr (Decimal (Uint128 1500000000000000000))) \<and>
   decimal_from_str ''1.+5'' = Done (Inr (Decimal (Uint128 1050000000000000000)))"
proof -
  have digits: "digits_denote ''1'' 1" "digits_denote ''5'' 5"
    by (simp_all add: digits_denote_def is_digit_def digit_val_def)
  have plain: "dec_denotes digits_denote ''1.5'' (valD (Decimal (Uint128 1500000000000000000)))"
    unfolding dec_denotes_def using digits by (intro disjI2 exI [of _ "''1''"] exI [of _ "''5''"] exI [of _ 1] exI [of _ 5]) simp
  have plus: "dec_denotes plus_digits_denote ''1.+5'' (valD (Decimal (Uint128 1050000000000000000)))"
    unfolding dec_denotes_def plus_digits_denote_def using digits
    by (intro disjI2 exI [of _ "''1''"] exI [of _ "''+5''"] exI [of _ 1] exI [of _ 5]) simp
  show ?thesis
    using decimal_from_str_exact [of "''1.5''"] decimal_from_str_exact [of "''1.+5''"] plain plus by auto
qed

text \<open>
  C26: \<open>Decimal256\<close> reads and writes decimal strings exactly: what it prints is read back, reading never
  panics, and it accepts exactly the strings of digits with an optional dot and at most 18 fractional digits whose value
  fits into 256 bits.
\<close>

theorem decimal256_strings_exact:
  assumes "crate256 C"
  shows "obind (decimal256_to_string C e) (decimal256_from_str C) = Done (Inr e) \<and>
    (\<exists>r. decimal256_from_str C s = Done r \<and> (\<forall>d. r = Inr d \<longleftrightarrow> dec_denotes digits_denote s (valE d)))"
  using crate256.decimal256_from_to_string [OF assms] crate256.decimal256_from_str_ok [OF assms] by blast

theorem decimal256_strings_exact_witness:
  "\<exists>d. decimal256_from_str exact_u256 ''1.5'' = Done (Inr d) \<and> valE d = 1500000000000000000"
proof -
  obtain d where d: "valE d = 1500000000000000000" using ex_valE [of 1500000000000000000] by auto
  have "dec_denotes digits_denote ''1.5'' 1500000000000000000"
    unfolding dec_denotes_split by (simp add: digits_denote_def is_digit_def digit_val_def)
  moreover obtain r where "decimal256_from_str exact_u256 ''1.5'' = Done r"
      "r = Inr d \<longleftrightarrow> dec_denotes digits_denote ''1.5'' (valE d)"
    using decimal256_strings_exact [OF ref256.crate256_axioms, of d "''1.5''"] by blast
  ultimately show ?thesis using d by simp
qed

section \<open>Storage\<close>

text \<open>
  C16: the keys of two nested namespaces of the same depth never collide: from the prefixed key the
  namespaces and the key inside them are recovered.
\<close>

theorem nested_namespaces_disjoint:
  assumes "to_length_prefixed_nested as = Done p" "to_length_prefixed_nested bs = Done q"
    and "length as = length bs" "p @ xs = q @ ys"
  shows "as = bs \<and> xs = ys"
  using assms by (rule nested_prefix_free)

theorem nested_namespaces_disjoint_witness:
  "to_length_prefixed_nested [[1], [2, 3]] = Done [0, 1, 1, 0, 2, 2, 3] \<and> [[1], [2, 3]] = [[1], [2, 3 :: u8]] \<and>
   [9] = [9 :: u8]"
proof -
  have "to_length_prefixed_nested [[1], [2, 3]] = Done [0, 1, 1, 0, 2, 2, 3]"
    by (simp add: obind_eq_Done_iff encode_length_Done_iff)
  from nested_namespaces_disjoint [OF this this, of "[9]" "[9]"] this show ?thesis by simp
qed

text \<open>
  C6: over any storage that keeps the contract of the trait, a range of a \<open>PrefixedStorage\<close>
  whose namespace does not end in the byte 255 returns exactly the entries of the namespace between
  the bounds, in order, with the prefix removed.
\<close>

theorem prefixed_range_correct:
  assumes "key_value_store S valid view" "valid s" "prefixed_new s ns = Done p" "ns = [] \<or> last ns \<noteq> 255"
  shows "\<exists>rs. prefixed_range S p start end ord = Done rs \<and>
    range_spec (\<lambda>k. st_get S s (ps_prefix p @ k)) start end ord rs"
proof -
  have p: "prefixed_inv valid p" "ps_storage p = s" using prefixed_new_inv [of valid, OF assms(2-4)] by simp_all
  have "st_get S s k = view s k" for k using key_value_store.get_view [OF assms(1,2)] .
  then show ?thesis
    using key_value_store.range_with_prefix_view [OF assms(1,2), of "ps_prefix p" start "end" ord] p
    by (simp add: prefixed_range_def prefixed_inv_def)
qed

theorem prefixed_range_correct_witness:
  "\<exists>p rs. prefixed_new \<lparr>ms_data = [([0, 1, 7, 5], [1])]\<rparr> [7] = Done p \<and>
    prefixed_range memory_ops p None None Ascending = Done rs \<and> ([5], [1]) \<in> set rs"
proof -
  define s where "s = \<lparr>ms_data = [([0, 1, 7, 5 :: u8], [1 :: u8])]\<rparr>"
  have s: "memory_inv s" by (simp add: s_def memory_inv_def btree_sorted_def)
  have p: "prefixed_new s [7] = Done \<lparr>ps_storage = s, ps_prefix = [0, 1, 7]\<rparr>" (is "_ = Done ?p")
    by (simp add: prefixed_new_def omap_eq_Done_iff to_length_prefixed_def obind_eq_Done_iff encode_length_Done_iff)
  obtain rs where "prefixed_range memory_ops ?p None None Ascending = Done rs"
    "range_spec (\<lambda>k. st_get memory_ops s ([0, 1, 7] @ k)) None None Ascending rs"
    using prefixed_range_correct [OF memory.key_value_store_axioms s p, of None None Ascending] by auto
  with p show ?thesis
    by (auto simp: s_def range_spec_def in_range_def memory_ops_def memory_get_def)
qed

text \<open>
  C37: ranges over namespaces that end in 255, where the upper bound keeps the zeros of its carry. Let the
  prefix be \<open>xs\<close>, a byte \<open>b\<close> other than 255 and \<open>n\<close> bytes 255. Reading a range panics exactly when it has
  no end and the storage holds a key \<open>xs\<close>, \<open>b + 1\<close> and fewer than \<open>n\<close> zeros: a raw key outside the
  namespace, below the bound and shorter than the prefix. In every other case the range returns exactly the entries of
  the namespace between the bounds, in order, without the prefix.
\<close>

theorem prefixed_range_panics:
  assumes "key_value_store S valid view" "valid s" "prefixed_new s ns = Done p"
    and "ps_prefix p = xs @ [b] @ replicate n 255" "b \<noteq> 255"
  shows "if end = None \<and> (\<exists>j < n. st_get S s (xs @ [b + 1] @ replicate j 0) \<noteq> None)
    then panics (prefixed_range S p start end ord)
    else \<exists>rs. prefixed_range S p start end ord = Done rs \<and>
      range_spec (\<lambda>k. st_get S s (ps_prefix p @ k)) start end ord rs"
proof -
  have get: "st_get S s = view s" by (rule ext) (rule key_value_store.get_view [OF assms(1,2)])
  show ?thesis
    unfolding prefixed_range_def prefixed_new_storage [OF assms(3)] get
    by (rule key_value_store.range_with_prefix_carry [OF assms(1,2,5,4)])
qed

theorem prefixed_range_panics_witness:
  "\<exists>p q. prefixed_new \<lparr>ms_data = [([0, 1, 255, 5], [1]), ([0, 2], [1])]\<rparr> [255] = Done p \<and>
    panics (prefixed_range memory_ops p None None Ascending) \<and>
    prefixed_new \<lparr>ms_data = [([0, 1, 255, 5], [1])]\<rparr> [255] = Done q \<and>
    \<not> panics (prefixed_range memory_ops q None None Ascending)"
proof -
  define s :: "kv list \<Rightarrow> memory_storage" where "s es = \<lparr>ms_data = ([0, 1, 255, 5], [1]) # es\<rparr>" for es
  have inv: "memory_inv (s [([0, 2], [1])])" "memory_inv (s [])" by (simp_all add: s_def memory_inv_def btree_sorted_def)
  have new: "prefixed_new (s es) [255] = Done \<lparr>ps_storage = s es, ps_prefix = [0, 1, 255]\<rparr>" (is "_ = Done (?p es)") for es
    by (simp add: prefixed_new_def omap_eq_Done_iff to_length_prefixed_def obind_eq_Done_iff encode_length_Done_iff)
  have pre: "ps_prefix (?p es) = [0] @ [1] @ replicate 1 255" for es by simp
  note range = prefixed_range_panics [OF memory.key_value_store_axioms _ new pre, of _ None None Ascending]
  have "st_get memory_ops (s [([0, 2], [1])]) ([0] @ [1 + 1] @ replicate 0 0) \<noteq> None"
    by (simp add: memory_ops_def memory_get_def s_def)
  then have bad: "panics (prefixed_range memory_ops (?p [([0, 2], [1])]) None None Ascending)"
    using range [OF inv(1)] by auto
  have "st_get memory_ops (s []) ([0] @ [1 + 1] @ replicate j 0) = None" for j
    by (simp add: memory_ops_def memory_get_def s_def)
  then have good: "\<not> panics (prefixed_range memory_ops (?p []) None None Ascending)"
    using range [OF inv(2)] by auto
  from new [of "[([0, 2], [1])]"] new [of "[]"] bad good show ?thesis unfolding s_def by blast
qed

text \<open>
  C13: a value saved in a \<open>Bucket\<close> under a key is loaded back; every other key of the bucket and
  every key of a bucket with another namespace keeps its value.
\<close>

theorem bucket_isolation:
  assumes "typed_store S valid view J" "valid s" "bucket_new s ns = Done bk"
  shows "\<exists>bk'. bucket_save S J key x bk = Done (Inr (), bk') \<and> bucket_load S J key bk' = Inr x \<and>
    (\<forall>key2. key2 \<noteq> key \<longrightarrow> bucket_may_load S J key2 bk' = bucket_may_load S J key2 bk) \<and>
    (\<forall>ns2 p2 key2. ns2 \<noteq> ns \<longrightarrow> to_length_prefixed ns2 = Done p2 \<longrightarrow>
       st_get S (bk_storage bk') (p2 @ key2) = st_get S s (p2 @ key2))"
proof -
  have bk: "to_length_prefixed ns = Done (bk_prefix bk)" "bk_storage bk = s"
    using assms(3) by (simp_all add: bucket_new_Done_iff)
  obtain bk' where bk': "bucket_save S J key x bk = Done (Inr (), bk')" "bk_prefix bk' = bk_prefix bk"
    "\<And>k. st_get S (bk_storage bk') k =
      (if k = bk_prefix bk @ key then result_ok (to_vec J x) else st_get S (bk_storage bk) k)"
    using typed_store.bucket_save_Done [OF assms(1), of bk key x] assms(2) bk(2) by metis
  have "p2 @ key2 \<noteq> bk_prefix bk @ key" if "ns2 \<noteq> ns" "to_length_prefixed ns2 = Done p2" for ns2 p2 key2
    using length_prefixed_prefix_free [OF that(2) bk(1)] that(1) by blast
  moreover have "bucket_load S J key bk' = Inr x"
    using typed_store.may_deserialize_saved [OF assms(1), of x] bk'(2,3)
    by (auto simp: bucket_load_def get_with_prefix_def must_deserialize_def may_deserialize_def map_ok_eq_Ok_iff
        split: option.splits)
  ultimately show ?thesis
    using bk' bk(2) by (auto simp: bucket_may_load_def get_with_prefix_def)
qed

theorem bucket_isolation_witness:
  "\<exists>bk bk'. bucket_new memory_storage_new [7] = Done bk \<and>
    bucket_save memory_ops u64_json [1, 2] 42 bk = Done (Inr (), bk') \<and> bucket_load memory_ops u64_json [1, 2] bk' = Inr 42"
proof -
  have new: "bucket_new memory_storage_new [7] = Done \<lparr>bk_storage = memory_storage_new, bk_prefix = [0, 1, 7]\<rparr>"
    by (simp add: bucket_new_def omap_eq_Done_iff to_length_prefixed_def obind_eq_Done_iff encode_length_Done_iff)
  have "memory_inv memory_storage_new" by (simp add: memory_storage_new_def memory_inv_def btree_sorted_def)
  from bucket_isolation [OF memory_sequence.typed_store_axioms this new, of "[1, 2]" 42] new show ?thesis by blast
qed

section \<open>Sections\<close>

text \<open>
  C34: both encoders produce the same bytes, the host decodes them to the list it was given, and
  the contract decodes two sections to the pair.
\<close>

theorem sections_roundtrip:
  assumes "\<forall>s \<in> set ss. length s < 2 ^ 32"
  shows "\<exists>data. vm_encode_sections ss = Inr data \<and> std_encode_sections ss = Done data \<and>
    decode_sections data = Done ss \<and> (\<forall>a b. ss = [a, b] \<longrightarrow> decode_sections2 data = Done (a, b))"
  using assms vm_encode_sections_Ok [of ss] std_encode_sections_Done [of ss] decode_encode_sections [of ss]
    decode_encode_sections2
  by (auto simp: sections_small_def)

theorem sections_roundtrip_witness:
  "\<exists>data. vm_encode_sections [[1, 2], [3]] = Inr data \<and> decode_sections2 data = Done ([1, 2], [3])"
  using sections_roundtrip [of "[[1, 2], [3]]"] by auto

section \<open>The virtual machine\<close>

text \<open>
  C36: \<open>process_gas_info\<close> takes what was used from the remaining gas, down to zero at most,
  records the externally used part, and fails exactly when more was used than was left, provided
  that cost and externally used gas do not overflow 64 bits together.
\<close>

theorem process_gas_info_correct:
  assumes "wasm_engine_laws (h_engine H)" "cd_wasm_instance env = Some w"
    and "unat (externally_used info) + unat (cost info) < 2 ^ 64"
  shows "\<exists>r env' w'. process_gas_info H info env = Done (r, env') \<and> cd_wasm_instance env' = Some w' \<and>
    unat (engine_gas_left (h_engine H) w') =
      unat (engine_gas_left (h_engine H) w) - (unat (externally_used info) + unat (cost info)) \<and>
    r = (if unat (externally_used info) + unat (cost info) \<le> unat (engine_gas_left (h_engine H) w)
         then Inr () else Inl VmGasDepletion) \<and>
    externally_used_gas (cd_gas_state env') = externally_used_gas (cd_gas_state env) + externally_used info \<and>
    cd_storage env' = cd_storage env"
proof -
  define g where "g = saturating_sub (saturating_sub (engine_gas_left (h_engine H) w) (externally_used info)) (cost info)"
  obtain r env' where res: "process_gas_info H info env = Done (r, env')" "get_gas_left H env' = Done g"
    "r = Inr () \<longleftrightarrow> unat (externally_used info) + unat (cost info) \<le> unat (engine_gas_left (h_engine H) w)"
    "r = Inr () \<or> r = Inl VmGasDepletion"
    "externally_used_gas (cd_gas_state env') = externally_used_gas (cd_gas_state env) + externally_used info"
    "cd_storage env' = cd_storage env"
    using wasm_engine_laws.process_gas_info_ok [OF assms(1) refl assms(2,3)] unfolding g_def by blast
  then obtain w' where "cd_wasm_instance env' = Some w'" "engine_gas_left (h_engine H) w' = g"
    by (auto simp: get_gas_left_def omap_eq_Done_iff expect_eq_Done_iff)
  with res wasm_engine_laws.unat_gas_after [OF assms(1)] show ?thesis by (auto simp: g_def)
qed

theorem process_gas_info_correct_witness:
  "\<exists>r env'. process_gas_info mock_host \<lparr>cost = 2, externally_used = 3\<rparr>
     ((context_data_new 10)\<lparr>cd_wasm_instance := Some \<lparr>lm_mem = [], lm_points = Remaining 9\<rparr>\<rparr>) = Done (r, env') \<and> r = Inr ()"
  using process_gas_info_correct [of mock_host
      "(context_data_new 10)\<lparr>cd_wasm_instance := Some \<lparr>lm_mem = [], lm_points = Remaining 9\<rparr>\<rparr>"
      "\<lparr>lm_mem = [], lm_points = Remaining 9\<rparr>" "\<lparr>cost = 2, externally_used = 3\<rparr>"] linear.wasm_engine_laws_axioms
  by (auto simp: mock_host_def engine_gas_left_def linear_engine_def)

text \<open>
  C2: whatever imports a contract calls, in any order, the gas left never grows, the gas limit and
  the read-only flag stay, and while the flag is set the stored data does not change.
\<close>

theorem imports_confined:
  assumes "host_laws E H sd" "(import_step H)\<^sup>*\<^sup>* env env'"
  shows "(\<forall>w. cd_wasm_instance env = Some w \<longrightarrow>
      (\<exists>w'. cd_wasm_instance env' = Some w' \<and> engine_gas_left E w' \<le> engine_gas_left E w)) \<and>
    cd_storage_readonly env' = cd_storage_readonly env \<and>
    gas_limit (cd_gas_state env') = gas_limit (cd_gas_state env) \<and>
    (cd_storage_readonly env \<longrightarrow> map_option sd (cd_storage env') = map_option sd (cd_storage env))"
  using host_laws.import_steps_confined [OF assms] unfolding confined_def .

theorem imports_confined_witness:
  "\<exists>env' :: (mock_storage, unit, linear_instance) context_data.
    (import_step mock_host)\<^sup>*\<^sup>* (move_in mock_storage_new () (context_data_new 10)) env' \<and> cd_storage_readonly env' \<and>
    map_option mock_view (cd_storage env') = Some (mock_view mock_storage_new)"
proof -
  define env where "env = (move_in mock_storage_new () (context_data_new 10)
    :: (mock_storage, unit, linear_instance) context_data)"
  have "do_db_write mock_host 1 2 env = Done (Inl VmWriteAccessDenied, env)"
    by (simp add: do_db_write_def env_def move_in_def context_data_new_def)
  then have step: "(import_step mock_host)\<^sup>*\<^sup>* env env" by blast
  have "cd_storage_readonly env \<and> cd_storage env = Some mock_storage_new"
    by (simp add: env_def move_in_def context_data_new_def)
  with imports_confined [OF mock.host_laws_axioms step] step show ?thesis unfolding env_def by auto
qed

text \<open>
  C15: \<open>db_write\<close> refuses to write in a read-only environment and changes nothing then; when it
  succeeds, the storage received exactly the key and the value that the two regions hold, within the
  length limits.
\<close>

theorem db_write_correct:
  assumes "wasm_engine_laws (h_engine H)"
  shows "(cd_storage_readonly env \<longrightarrow> do_db_write H kp vp env = Done (Inl VmWriteAccessDenied, env)) \<and>
    (do_db_write H kp vp env = Done (Inr (), env') \<longrightarrow>
      (\<exists>w key dat s s' g. \<not> cd_storage_readonly env \<and> cd_wasm_instance env = Some w \<and>
        read_region (h_engine H) w kp MAX_LENGTH_DB_KEY = Inr key \<and> length key \<le> MAX_LENGTH_DB_KEY \<and>
        read_region (h_engine H) w vp MAX_LENGTH_DB_VALUE = Inr dat \<and> length dat \<le> MAX_LENGTH_DB_VALUE \<and>
        cd_storage env = Some s \<and> bs_set (h_storage H) s key dat = ((Inr (), g), s') \<and> cd_storage env' = Some s'))"
  using wasm_engine_laws.do_db_write_effect [OF assms refl, of kp vp env env'] by (simp add: do_db_write_def)

theorem db_write_correct_witness:
  "do_db_write mock_host 4 8 (context_data_new 10) = Done (Inl VmWriteAccessDenied, context_data_new 10)"
  using db_write_correct [of mock_host "context_data_new 10" 4 8] linear.wasm_engine_laws_axioms
  by (simp add: mock_host_def context_data_new_def)

text \<open>
  C10: when \<open>db_read\<close> succeeds it returns a null pointer exactly when the storage has no value
  under the key that the region holds, and otherwise a pointer to a region that holds the value.
\<close>

theorem db_read_correct:
  assumes "wasm_engine_laws (h_engine H)" "allocator_ok H" "do_db_read H kp env = Done (Inr p, env')"
  shows "\<exists>w key s v g. cd_wasm_instance env = Some w \<and> read_region (h_engine H) w kp MAX_LENGTH_DB_KEY = Inr key \<and>
    cd_storage env = Some s \<and> bs_get (h_storage H) s key = (Inr v, g) \<and>
    (case v of None \<Rightarrow> p = 0
     | Some d \<Rightarrow> p \<noteq> 0 \<and> (\<exists>w'. cd_wasm_instance env' = Some w' \<and> read_region (h_engine H) w' p (length d) = Inr d))"
  using wasm_engine_laws.do_db_read_effect [OF assms(1) refl assms(2,3)] .

theorem db_read_correct_witness:
  "\<exists>w' env env'. do_db_read mock_host 16 env = Done (Inr 8, env') \<and> cd_wasm_instance env' = Some w' \<and>
    read_region linear_engine w' 8 1 = Inr [2]"
proof -
  define w where "w = \<lparr>lm_mem = replicate 16 0 @ region_bytes \<lparr>reg_offset = 40, reg_capacity = 1, reg_length = 1\<rparr>
    @ replicate 12 0 @ [1] @ replicate 50 0, lm_points = Remaining 100\<rparr>"
  define env :: "(mock_storage, unit, linear_instance) context_data" where
    "env = move_in (snd (mock_set mock_storage_new [1] [2])) () ((context_data_new 10)\<lparr>cd_wasm_instance := Some w\<rparr>)"
  have "we_deref_region linear_engine w 16 = Some \<lparr>reg_offset = 40, reg_capacity = 1, reg_length = 1\<rparr>"
    "we_read_cells linear_engine w 40 1 = Some [1]"
    by (simp_all add: w_def linear_engine_def get_bytes_def bytes_region_bytes)
  then have key: "read_region linear_engine w 16 MAX_LENGTH_DB_KEY = Inr [1]"
    by (simp add: read_region_def get_region_def validate_region_def to_u32_def limit_defs)
  have env: "cd_wasm_instance env = Some w" "cd_storage env = Some (snd (mock_set mock_storage_new [1] [2]))"
    by (simp_all add: env_def move_in_def)
  obtain env1 w1 where gas: "process_gas_info mock_host (gas_info_with_externally_used 1) env = Done (Inr (), env1)"
    "cd_wasm_instance env1 = Some w1" "lm_mem w1 = lm_mem w"
    using env(1) by (simp add: process_gas_info_def get_gas_left_def set_gas_left_def engine_gas_left_def
        engine_set_gas_left_def Let_def mock_host_def linear_engine_def w_def gas_info_with_externally_used_def)
  obtain env' where "write_to_contract mock_host [2] env1 = Done (Inr 8, env')"
    using mock_write_to_contract [OF gas(2), of "[2]"] by (auto simp: gas(3) w_def)
  moreover have "env_read_region mock_host 16 MAX_LENGTH_DB_KEY env = Done (Inr [1], env)"
    using key env(1) unfolding env_read_region_Ok_iff by (simp add: mock_host_def linear_engine_def)
  moreover have "with_storage_from_context (\<lambda>store. Done (bs_get (h_storage mock_host) store [1], store)) env =
      Done (Inr (Inr (Some [2]), gas_info_with_externally_used 1), env)"
    using env(2) unfolding with_storage_Ok_iff
    by (cases env) (simp add: mock_host_def mock_backend_def mock_get_def mock_set_def mock_storage_new_def)
  ultimately have run: "do_db_read mock_host 16 env = Done (Inr 8, env')"
    using gas(1) by (simp add: do_db_read_def pbind_def)
  have "wasm_engine_laws (h_engine mock_host)" using linear.wasm_engine_laws_axioms by (simp add: mock_host_def)
  from db_read_correct [OF this mock_allocator_ok run] key env run show ?thesis
    by (auto simp: mock_host_def mock_backend_def mock_get_def mock_set_def mock_storage_new_def)
qed


section \<open>Contracts\<close>

text \<open>
  C7: the queue contract is a queue. On any storage that keeps the contract of the trait and is empty at first, a
  sequence of messages with at most 256 enqueues is executed without error or panic, the data returned to the
  dequeues is what the abstract queue gives, and the count query returns its length.
\<close>

theorem queue_is_fifo:
  assumes "key_value_store S valid view" "json_codec J" "valid s" "view s = Map.empty" "enqueues ms \<le> 256"
  shows "\<exists>s'. queue_run S J ms s = Done (Inr (map (\<lambda>x. Option.bind x (encode_item J)) (fst (fifo ms []))), s') \<and>
    query_count S s' = Done (word_of_nat (length (snd (fifo ms []))))"
proof -
  have Q: "queue_store S valid view J" using assms(1,2) by (simp add: queue_store.intro typed_store.intro)
  show ?thesis
    using queue_store.queue_run_fifo [OF Q queue_store.holds_empty [OF Q assms(3,4)] assms(5)]
      queue_store.query_count_holds [OF Q] by blast
qed

theorem queue_is_fifo_witness:
  "\<exists>s'. queue_run memory_ops item_json_codec [Enqueue 5, Enqueue 6, Dequeue, Dequeue, Dequeue, Enqueue 7] memory_storage_new =
      Done (Inr [encode_item item_json_codec 5, encode_item item_json_codec 6, None], s') \<and> query_count memory_ops s' = Done 1"
proof -
  from queue_is_fifo [OF memory.key_value_store_axioms queue_memory.json_codec_axioms memory_new_empty,
      of "[Enqueue 5, Enqueue 6, Dequeue, Dequeue, Dequeue, Enqueue 7]"]
  show ?thesis by (simp del: queue_run.simps)
qed

text \<open>
  C4: in every state the staking contract can reach, whoever calls it in whatever order and whatever the chain answers,
  the balances add up to the issued derivative tokens and the claims to the recorded claims.
\<close>

theorem staking_always_solvent:
  assumes "key_value_store S valid view" "json_codec (sj_uint128 X)" "json_codec (sj_supply X)" "crate256 C"
    and "valid s0" "view s0 = Map.empty" "staking_reachable C S X s0 s"
  shows "\<exists>sp. supply_at X (view s) = Inr sp \<and> balances_total X (view s) = val128 (su_issued sp) \<and>
    claims_total X (view s) = val128 (su_claims sp)"
proof -
  have "staking_store S valid view X C" using assms(1-4) by (simp add: staking_store.intro)
  from staking_store.reachable_solvent [OF this assms(5-7)] show ?thesis by (simp add: solvent_def)
qed

theorem staking_always_solvent_witness:
  "\<exists>s sp. staking_reachable exact_u256 memory_ops example_codecs memory_storage_new s \<and>
    supply_at example_codecs (btree_get (ms_data s)) = Inr sp \<and> val128 (su_issued sp) = 5 \<and>
    balances_total example_codecs (btree_get (ms_data s)) = 5"
proof -
  obtain s s' res sp where run: "staking_reachable exact_u256 memory_ops example_codecs memory_storage_new s"
    "staking_execute exact_u256 memory_ops example_codecs (example_deps []) example_env example_info Bond s =
      Done (Inr (res :: unit response), s')"
    "supply_at example_codecs (btree_get (ms_data s')) = Inr sp" "val128 (su_issued sp) = 5"
    using example_bond by (auto simp: uint128_new_def)
  have reach: "staking_reachable exact_u256 memory_ops example_codecs memory_storage_new s'"
    using run(1,2) by (rule executed)
  from staking_always_solvent [OF memory.key_value_store_axioms example.bal.json_codec_axioms example.sup.json_codec_axioms ref256.crate256_axioms memory_new_empty reach] reach run(3,4)
  show ?thesis by auto
qed

text \<open>
  C11: no call of the staking contract lowers the value of a derivative token: the ratio of bonded to issued tokens
  after a call is at least what it was before (compared crosswise, as long as tokens are issued).
\<close>

theorem staking_value_never_decreases:
  assumes "key_value_store S valid view" "json_codec (sj_uint128 X)" "json_codec (sj_supply X)" "crate256 C"
    and "valid s" "supply_at X (view s) = Inr sp"
    and "staking_execute C S X d env info msg s = Done (Inr res, s')"
  shows "\<exists>sp'. supply_at X (view s') = Inr sp' \<and>
    (0 < val128 (su_issued sp) \<longrightarrow>
      val128 (su_bonded sp) * val128 (su_issued sp') \<le> val128 (su_bonded sp') * val128 (su_issued sp))"
proof -
  have "staking_store S valid view X C" using assms(1-4) by (simp add: staking_store.intro)
  from staking_store.execute_books [OF this assms(5-7)] assms(6) show ?thesis by (auto simp: books_step_def)
qed

theorem staking_value_never_decreases_witness:
  "\<exists>s s' sp sp' res. supply_at example_codecs (btree_get (ms_data s)) = Inr sp \<and> val128 (su_issued sp) = 5 \<and>
    staking_execute exact_u256 memory_ops example_codecs (example_deps [example_bond_5]) example_env example_info Bond s =
      Done (Inr (res :: unit response), s') \<and>
    supply_at example_codecs (btree_get (ms_data s')) = Inr sp' \<and>
    val128 (su_bonded sp) * val128 (su_issued sp') \<le> val128 (su_bonded sp') * 5"
proof -
  obtain s s' res sp where run: "memory_inv s" "supply_at example_codecs (btree_get (ms_data s)) = Inr sp" "val128 (su_issued sp) = 5"
    "staking_execute exact_u256 memory_ops example_codecs (example_deps [example_bond_5]) example_env example_info Bond s =
      Done (Inr (res :: unit response), s')"
    using example_second_bond by blast
  from staking_value_never_decreases [OF memory.key_value_store_axioms example.bal.json_codec_axioms example.sup.json_codec_axioms
      ref256.crate256_axioms run(1,2,4)] run(2-4)
  show ?thesis by auto
qed

text \<open>
  C18: whoever has a claim gets it. When the contract holds at least the minimum withdrawal and its books are in order,
  a claim succeeds, sends the smaller of the claim and the balance to the claimant and lowers the claim by that much.
\<close>

theorem staking_claim_pays:
  assumes "key_value_store S valid view" "json_codec (sj_uint128 X)" "json_codec (sj_supply X)" "crate256 C"
    and "valid s" "solvent X (view s)"
    and "must_deserialize (sj_invest X) (view s invest_key) = Inr invest"
    and "query_balance (sd_querier d) (sd_responses d) (env_contract env) (inv_bond_denom invest) = Inr balance"
    and "inv_min_withdrawal invest \<le> amount balance"
    and "sd_canonicalize d (mi_sender info) = Inr a"
    and "may_deserialize (sj_uint128 X) (view s (claims_prefix @ a)) = Inr (Some owed)"
  shows "\<exists>res s'. staking_execute C S X d env info Claim s = Done (Inr res, s') \<and>
    map sm_msg (r_messages res) = [MsgBank (BankSend (mi_sender info) [balance\<lparr>amount := min (amount balance) owed\<rparr>])] \<and>
    account (sj_uint128 X) claims_prefix (view s') a = val128 owed - val128 (min (amount balance) owed)"
proof -
  have "staking_store S valid view X C" using assms(1-4) by (simp add: staking_store.intro)
  from staking_store.claim_pays [OF this assms(5-11)] show ?thesis
    by (auto simp: staking_execute_def pmap_err_eq_Ok_iff)
qed

theorem staking_claim_pays_witness:
  "\<exists>s res s'. staking_execute exact_u256 memory_ops example_codecs (example_deps []) example_env example_info Claim s =
      Done (Inr (res :: unit response), s') \<and>
    map sm_msg (r_messages res) = [MsgBank (BankSend ''owner'' [coin_new 3 ''ustake''])]"
proof -
  obtain s where s: "memory_inv s" "solvent example_codecs (btree_get (ms_data s))"
    "must_deserialize (sj_invest example_codecs) (btree_get (ms_data s) invest_key) = Inr example_invest"
    "may_deserialize (sj_uint128 example_codecs) (btree_get (ms_data s) (claims_prefix @ ascii ''owner'')) = Inr (Some (uint128_new 3))"
    using example_claim_state by blast
  have "min (amount (coin_new 7 ''ustake'')) (uint128_new 3) = uint128_new 3"
    by (simp add: coin_new_def min_def uint128_le_iff uint128_new_def)
  then have pay: "(coin_new 7 ''ustake'')\<lparr>amount := min (amount (coin_new 7 ''ustake'')) (uint128_new 3)\<rparr> = coin_new 3 ''ustake''"
    by (simp add: coin_new_def)
  have "inv_min_withdrawal example_invest \<le> amount (coin_new 7 ''ustake'')"
    by (simp add: example_invest_def uint128_le_iff)
  from staking_claim_pays [OF memory.key_value_store_axioms example.bal.json_codec_axioms example.sup.json_codec_axioms
      ref256.crate256_axioms s(1-3) example_answers(4) this example_answers(5) [of "[]" "mi_sender example_info"], of "uint128_new 3"]
    s(4) pay
  show ?thesis by (fastforce simp: example_info_def)
qed

section \<open>Signatures across the boundary\<close>

text \<open>
  C19: the cryptographic functions of the contract's API return what the crypto package decides, from end to end: through
  the regions of the arguments, the imports, the package, the codes and the contract's reading of them. When the call of
  \<open>secp256k1_verify\<close> or \<open>ed25519_verify\<close> returns, the contract has exactly the verdict or the error of the
  package. A batch is the same with one exception: the package's error for mismatched numbers of items arrives as an
  unknown error with the code 7. A recovery returns the package's error, or a vector of the contract that holds exactly
  the recovered key in memory of its own. All the calls keep the memory and the context of the contract otherwise. The
  codes in between never make one of the two sides panic: the host never meets an error it does not expect, and the
  contract never a code it does not expect.
\<close>

theorem crypto_results_reach_contract:
  assumes host: "guest_host E A live H" and crypto: "h_crypto H = package_crypto K"
    and mem: "cd_wasm_instance env = Some w" "live w B"
    and slices: "slice_ok E B w msg m" "slice_ok E B w sig s" "slice_ok E B w key k"
    and fit: "sections_fit ms" "sections_fit ss" "sections_fit ks"
  shows "(external_secp256k1_verify H A msg sig key env = Done (Inr verdict, env') \<longrightarrow>
      call_ends E live B w env env' (\<lambda>N w. verdict = map_err verification_error_from (secp256k1_verify K m s k))) \<and>
    (external_ed25519_verify H A msg sig key env = Done (Inr verdict, env') \<longrightarrow>
      call_ends E live B w env env' (\<lambda>N w. verdict = map_err verification_error_from (ed25519_verify K m s k))) \<and>
    (external_ed25519_batch_verify H A ms ss ks env = Done (Inr verdict, env') \<longrightarrow>
      call_ends E live B w env env' (\<lambda>N w. verdict = map_err batch_error_seen (ed25519_batch_verify K ms ss ks))) \<and>
    (external_secp256k1_recover_pubkey H A msg sig param env = Done (Inr recovered, env') \<longrightarrow>
      call_ends E live B w env env' (\<lambda>N w. case secp256k1_recover_pubkey K m s param of
        Inl e \<Rightarrow> (\<exists>err. recover_pubkey_error_from e = Done err \<and> recovered = Inl err)
      | Inr pubkey \<Rightarrow> (\<exists>v. recovered = Inr v \<and> N = vec_block v \<and> vec_ok E w v pubkey))) \<and>
    (\<exists>c r. verdict_code secp256k1_verify_error (secp256k1_verify K m s k) = Done c \<and> external_secp256k1_verdict c = Done r) \<and>
    (\<exists>c r. verdict_code ed25519_verify_error (ed25519_verify K m s k) = Done c \<and> external_ed25519_verdict c = Done r) \<and>
    (\<exists>c r. verdict_code ed25519_batch_error (ed25519_batch_verify K ms ss ks) = Done c \<and> external_ed25519_verdict c = Done r) \<and>
    (\<forall>e. secp256k1_recover_pubkey K m s param = Inl e \<longrightarrow> secp256k1_recover_error e \<and>
      (\<exists>r. external_recover_verdict (to_high_half (crypto_error_code e)) = Done r))"
proof (intro conjI impI allI)
  show "\<exists>c r. verdict_code secp256k1_verify_error (secp256k1_verify K m s k) = Done c \<and> external_secp256k1_verdict c = Done r"
    using secp256k1_boundary [OF refl] by blast
  show "\<exists>c r. verdict_code ed25519_verify_error (ed25519_verify K m s k) = Done c \<and> external_ed25519_verdict c = Done r"
    using ed25519_boundary [OF refl] by blast
  show "\<exists>c r. verdict_code ed25519_batch_error (ed25519_batch_verify K ms ss ks) = Done c \<and> external_ed25519_verdict c = Done r"
    using batch_boundary by blast
  fix e
  assume e: "secp256k1_recover_pubkey K m s param = Inl e"
  show "secp256k1_recover_error e" by (rule secp256k1_recover_errors [OF e])
  show "\<exists>r. external_recover_verdict (to_high_half (crypto_error_code e)) = Done r" using recover_error_converts [OF e] by blast
qed (rule guest_host.external_secp256k1_verify_ends [OF host crypto _ mem slices]
  guest_host.external_ed25519_verify_ends [OF host crypto _ mem slices]
  guest_host.external_ed25519_batch_verify_ends [OF host crypto _ mem fit]
  guest_host.external_recover_ends [OF host crypto _ mem slices(1,2)]; assumption)+

theorem crypto_results_reach_contract_witness:
  "\<exists>v env' w'. external_secp256k1_recover_pubkey crypto_host bump_alloc \<lparr>sl_ptr = 8, sl_len = 32\<rparr> \<lparr>sl_ptr = 8, sl_len = 64\<rparr> 0
      crypto_env = Done (Inr (Inr v), env') \<and> cd_wasm_instance env' = Some w' \<and> vec_ok linear_engine w' v [4]"
proof -
  let ?hash = "\<lparr>sl_ptr = 8, sl_len = 32\<rparr>" and ?sig = "\<lparr>sl_ptr = 8, sl_len = 64\<rparr>"
  obtain v env' where run: "external_secp256k1_recover_pubkey crypto_host bump_alloc ?hash ?sig 0 crypto_env = Done (Inr (Inr v), env')"
    using recover_runs by blast
  have crypto: "h_crypto crypto_host = package_crypto length_curves" by (simp add: crypto_host_def)
  have mem: "cd_wasm_instance crypto_env = Some crypto_mem" by (simp add: crypto_env_def)
  have fit: "sections_fit []" by (simp add: sections_fit_def)
  have "secp256k1_recover_pubkey length_curves (replicate 32 0) (replicate 64 0) 0 = Inr [4]"
    by (simp add: secp256k1_recover_pubkey_def length_curves_def read_hash_def read_signature_def)
  with crypto_results_reach_contract [OF crypto_host.guest_host_axioms crypto mem crypto_slices(1) crypto_slices(2,3,3) fit fit fit,
      THEN conjunct2, THEN conjunct2, THEN conjunct2, THEN conjunct1, rule_format, OF run] run
  show ?thesis by (auto simp: call_ends_def)
qed

text \<open>
  C17: batch verification is equivalent to verifying the signatures one by one, with one message or one key standing
  for as many as there are signatures, provided the batch verifier of the library accepts exactly batches of valid items.
\<close>

theorem ed25519_batch_equivalent:
  assumes "batch_consistent K"
  shows "ed25519_batch_verify K ms ss ps = Inr True \<longleftrightarrow>
    (\<exists>items. batch_items ms ss ps = Some items \<and> (\<forall>(m, s, p) \<in> set items. ed25519_verify K m s p = Inr True))"
  using ed25519_batch_True_iff [OF assms] .

theorem ed25519_batch_equivalent_witness:
  "ed25519_batch_verify length_curves [[1]] [replicate 64 0, replicate 64 1] [replicate 32 7, replicate 32 8] = Inr True"
proof -
  have "batch_consistent length_curves" by (auto simp: batch_consistent_def length_curves_def)
  from ed25519_batch_equivalent [OF this, of "[[1]]" "[replicate 64 0, replicate 64 1]" "[replicate 32 7, replicate 32 8]"]
  show ?thesis by (simp add: batch_items_def ed25519_verify_True_iff length_curves_def)
qed

section \<open>Admission of contracts\<close>

text \<open>
  C27: \<open>check_wasm\<close> accepts exactly the code that parses to a module with one memory of at most 512 initial
  pages and no maximum, with the one interface marker \<open>interface_version_8\<close>, with the exports the VM calls,
  with function imports the VM provides only, and whose required features are supported. It never panics.
\<close>

theorem check_wasm_exact:
  assumes "\<And>module. wp_deserialize_buffer P wasm_code = Inr module \<Longrightarrow> section_sizes P module < 10 ^ 180"
  shows "\<not> panics (check_wasm P wasm_code features) \<and>
    (check_wasm P wasm_code features = Done (Inr ()) \<longleftrightarrow>
      (\<exists>module. wp_deserialize_buffer P wasm_code = Inr module \<and>
        (\<exists>limits. wp_memory_section P module = Some [limits] \<and> unat (limits_initial limits) \<le> 512 \<and>
          limits_maximum limits = None) \<and>
        {name \<in> exported_functions P module. starts_with name ''interface_version_''} = {''interface_version_8''} \<and>
        {''allocate'', ''deallocate'', ''instantiate''} \<subseteq> exported_functions P module \<and>
        (\<forall>ie \<in> imported_entries P module.
          full_import_name ie \<in> set SUPPORTED_IMPORTS \<and> (\<exists>i. ie_external ie = WasmFunction i)) \<and>
        (\<forall>f. f \<noteq> [] \<longrightarrow> ''requires_'' @ f \<in> exported_functions P module \<longrightarrow> f \<in> features)))"
  using check_wasm_no_panic [OF assms] check_wasm_Ok_iff [of P wasm_code features]
  by (simp only: module_accepted_def not_False_eq_True simp_thms)

theorem check_wasm_exact_witness:
  "\<not> panics (check_wasm small_parser [0, 97] {''staking''})"
proof -
  have "section_sizes small_parser module < 10 ^ 180" for module
    by (simp add: section_sizes_def small_parser_def)
  then show ?thesis using check_wasm_exact [of small_parser "[0, 97]" "{''staking''}"] by blast
qed

text \<open>
  C30: a module that \<open>check_wasm\<close> accepts can be linked: each import it asks for is in the namespace that
  \<open>Instance::from_module\<close> registers, under the name of one of its functions, and calling that function keeps
  the contract confined.
\<close>

theorem accepted_imports_linked:
  assumes "check_wasm P wasm_code features = Done (Inr ())" "wp_deserialize_buffer P wasm_code = Inr module"
    and "ie \<in> imported_entries P module" "''env'' \<notin> fst ` set extra"
  shows "\<exists>exports f i. ie_external ie = WasmFunction i \<and> import_object H extra (ie_module ie) = Some exports \<and>
    (ie_field ie, f) \<in> set exports \<and> (\<forall>args env r env'. f args env = Done (r, env') \<longrightarrow> import_step H env env')"
proof -
  have "full_import_name ie \<in> set SUPPORTED_IMPORTS" "\<exists>i. ie_external ie = WasmFunction i"
    using assms(1-3) by (auto simp: check_wasm_Ok_iff module_accepted_def)
  then obtain i where i: "ie_external ie = WasmFunction i" "ie_module ie = ''env''" "ie_field ie \<in> fst ` set (env_imports H)"
    using full_import_name_supported by blast
  then obtain f where "(ie_field ie, f) \<in> set (env_imports H)" by force
  with i import_object_env [OF assms(4), of H] env_import_step show ?thesis by metis
qed

theorem accepted_imports_linked_witness:
  "\<exists>exports f. import_object mock_host [] ''env'' = Some exports \<and> (''db_read'', f) \<in> set exports"
proof -
  let ?ie = "\<lparr>ie_module = ''env'', ie_field = ''db_read'', ie_external = WasmFunction 0\<rparr>"
  have "wp_deserialize_buffer small_parser [0, 97] = Inr ()" by (simp add: small_parser_def)
  moreover have "?ie \<in> imported_entries small_parser ()" by (simp add: imported_entries_def small_parser_def)
  ultimately show ?thesis
    using accepted_imports_linked [OF small_accepted, of "()" ?ie "[]" mock_host] by auto
qed

text \<open>
  C31: with the default configuration a function passes the gatekeeper exactly when all its operators are
  among the control, variable and memory size operators and the operators on 32-bit and 64-bit integers of
  the WebAssembly core (\<open>INTEGER_OPERATORS\<close>), and it is passed on unchanged. None of these works on floats,
  vectors or shared memory by its name, and none belongs to an extension (reference types, threads, SIMD,
  floats, bulk memory, exceptions); an operator of an extension is refused with an error of the gatekeeper.
\<close>

theorem gatekeeper_default_exact:
  "(feed_all gatekeeper_default ops [] = Done (Inr (), out) \<longleftrightarrow>
      (\<forall>op \<in> set ops. op_variant op \<in> set INTEGER_OPERATORS) \<and> out = ops) \<and>
   (v \<in> set INTEGER_OPERATORS \<longrightarrow> \<not> beyond_integers v \<and> v \<notin> set EXTENSION_OPERATORS) \<and>
   (op_variant op \<in> set EXTENSION_OPERATORS \<longrightarrow>
      (\<exists>m. feed gatekeeper_default op sent = Done (Inl \<lparr>mw_name = ''Gatekeeper'', mw_message = m\<rparr>, sent)))"
proof (intro conjI impI)
  show "feed_all gatekeeper_default ops [] = Done (Inr (), out) \<longleftrightarrow>
      (\<forall>op \<in> set ops. op_variant op \<in> set INTEGER_OPERATORS) \<and> out = ops"
    using feed_all_default_Ok_iff [of ops "[]" out] by (simp add: basic_operators_integer)
  show "\<not> beyond_integers v" if "v \<in> set INTEGER_OPERATORS"
    using that integer_operators_names by (simp add: list_all_iff)
  show "v \<notin> set EXTENSION_OPERATORS" if "v \<in> set INTEGER_OPERATORS"
    using that by (rule integer_operators_no_extension)
  show "\<exists>m. feed gatekeeper_default op sent = Done (Inl \<lparr>mw_name = ''Gatekeeper'', mw_message = m\<rparr>, sent)"
    if "op_variant op \<in> set EXTENSION_OPERATORS"
    using feed_default_extension [OF that] by (simp add: MIDDLEWARE_NAME_def)
qed

theorem gatekeeper_default_exact_witness:
  "feed_all gatekeeper_default [\<lparr>op_variant = ''Nop'', op_debug = ''Nop''\<rparr>] [] =
      Done (Inr (), [\<lparr>op_variant = ''Nop'', op_debug = ''Nop''\<rparr>]) \<and>
    \<not> beyond_integers ''Nop'' \<and>
    (\<exists>m. feed gatekeeper_default \<lparr>op_variant = ''I8x16Add'', op_debug = ''I8x16Add''\<rparr> [] =
      Done (Inl \<lparr>mw_name = ''Gatekeeper'', mw_message = m\<rparr>, []))"
proof -
  have "''Nop'' \<in> set INTEGER_OPERATORS" by (simp add: INTEGER_OPERATORS_def CONTROL_NAMES_def)
  moreover have "''I8x16Add'' \<in> set EXTENSION_OPERATORS" by (simp add: EXTENSION_OPERATORS_def SIMD_OPERATORS_def)
  ultimately show ?thesis
    using gatekeeper_default_exact [of "[\<lparr>op_variant = ''Nop'', op_debug = ''Nop''\<rparr>]" "[\<lparr>op_variant = ''Nop'', op_debug = ''Nop''\<rparr>]"
        "''Nop''" "\<lparr>op_variant = ''I8x16Add'', op_debug = ''I8x16Add''\<rparr>" "[]"]
    by simp
qed

text \<open>
  C38: \<open>to_string_limited\<close> returns the whole collection if it fits, else the longest beginning that fits
  together with the number of elements left out, and panics only when not even that number fits. The result never
  exceeds the limit.
\<close>

theorem limited_text_exact:
  "collection_to_string_limited xs m start closing =
     (case limited_spec xs m start closing of
        None \<Rightarrow> Panic ''Cannot remove hide enough elements to fit in length limit.''
      | Some s \<Rightarrow> Done s) \<and>
   (\<forall>s. collection_to_string_limited xs m start closing = Done s \<longrightarrow> length s \<le> m)"
  using collection_to_string_limited_eq [of xs m start closing] limited_spec_bounded [of xs m start closing]
  by (auto split: option.splits)

theorem limited_text_exact_witness:
  "length ''{... 2 elements}'' \<le> 20 \<and>
   collection_to_string_limited [''abcdefgh'', ''ijklmnop''] 20 ''{'' ''}'' = Done ''{... 2 elements}''"
proof -
  have "collection_to_string_limited [''abcdefgh'', ''ijklmnop''] 20 ''{'' ''}'' = Done ''{... 2 elements}''"
    by (simp add: collection_to_string_limited_def quote_def skipped_text_def Let_def show_nat.simps digit_char_def char_of_def bit_0)
  with limited_text_exact [of "[''abcdefgh'', ''ijklmnop'']" 20 "''{''" "''}''"] show ?thesis by blast
qed

section \<open>Calls of entry points\<close>

text \<open>
  C29: A query leaves the stored data and the gas limit unchanged and gives no gas back, however the call
  ends: with a result, with an error of the contract or with an error of the VM. The guest is any code
  whose calls are runs in the sandbox: instructions on its own instance that add no gas, and calls of the
  imports in any order, which may call back into the guest. That such a guest cannot write during a query
  follows from the flag \<open>call_query_raw\<close> sets and from the imports that respect it.
\<close>

theorem query_keeps_storage:
  assumes "sandboxed_host E H sd" "cd_wasm_instance env = Some w"
    and "call_query H Se Sx json_value e msg env = Done (r, env')"
  shows "map_option sd (cd_storage env') = map_option sd (cd_storage env) \<and>
    gas_limit (cd_gas_state env') = gas_limit (cd_gas_state env) \<and>
    (\<exists>w'. cd_wasm_instance env' = Some w' \<and> engine_gas_left E w' \<le> engine_gas_left E w)"
  using sandboxed_host.query_in_sandbox [OF assms(1), of Se Sx json_value e msg] assms(2,3) unfolding call_keeps_def by blast

theorem query_keeps_storage_witness:
  "\<exists>env1 env2. run_lookup [107] = Done (Inr (ContractOk [118]), env1) \<and>
    run_lookup [5] = Done (Inl (vm_error_from_runtime ''import failed''), env2) \<and>
    map_option mock_view (cd_storage env1) = Some (mock_view lookup_storage) \<and>
    map_option mock_view (cd_storage env2) = Some (mock_view lookup_storage)"
proof -
  obtain env1 env2 where run: "run_lookup [107] = Done (Inr (ContractOk [118]), env1)"
    "run_lookup [5] = Done (Inl (vm_error_from_runtime ''import failed''), env2)"
    using lookup_found lookup_refused by blast
  have w: "cd_wasm_instance lookup_env = Some lookup_mem" "cd_storage lookup_env = Some lookup_storage"
    by (simp_all add: lookup_env_def move_in_def)
  note keeps = query_keeps_storage [OF lookup.sandboxed_host_axioms w(1), THEN conjunct1, unfolded w(2)]
  from keeps [OF run(1) [unfolded run_lookup_def]] keeps [OF run(2) [unfolded run_lookup_def]] run
  show ?thesis by auto
qed

section \<open>The module cache\<close>

text \<open>
  C8: whatever sequence of operations ran before and whatever accesses to the disk failed, a module that the cache
  hands out was compiled from code with the requested checksum and carries the memory limit of the cache, also when
  the file on disk was compiled without a limit.
\<close>

theorem cache_modules_authentic:
  assumes "cache_platform F code_of limit_of artifact entries"
    and "cache_new F options d = Done (Inr ch0, d')"
    and "\<And>c bs code. file_at (ch_disk ch0) (modules_file ch0 c) = Some bs \<Longrightarrow> artifact bs = Some code \<Longrightarrow>
      checksum_generate (pf_sha256 F) code = c"
    and "run_ops F ops ch0 = Done ch" "get_module F c ch = Done (Inr m, ch')"
  shows "checksum_generate (pf_sha256 F) (code_of m) = c \<and>
    limit_of m = Some (word_of_nat (min (unat (size_bytes (co_instance_memory_limit options))) (2 ^ 32) div 65536))"
proof -
  note cp = assms(1)
  have "cache_platform.artifacts_ok F artifact ch0"
    unfolding cache_platform.artifacts_ok_def [OF cp] cache_platform.of_checksum_def [OF cp] using assms(3) by blast
  from cache_platform.get_module_authentic [OF cp assms(2) this assms(4,5)]
  have "cache_platform.authentic F code_of limit_of (co_instance_memory_limit options) c m" .
  from cache_platform.authentic_limit [OF cp this] this show ?thesis
    unfolding cache_platform.authentic_def [OF cp] cache_platform.of_checksum_def [OF cp] by blast
qed

theorem cache_modules_authentic_witness:
  "\<exists>ch ch'. get_module small_platform small_checksum ch = Done (Inr ([0, 97], Some 512), ch') \<and>
    checksum_generate pad_hash [0, 97] = small_checksum \<and> word_of_nat (min 33554432 (2 ^ 32) div 65536) = (512 :: u32)"
proof -
  obtain d where new: "cache_new small_platform small_options empty_disk = Done (Inr (small_cache d), d)"
    and d: "fresh_disk d" "is_dir_at d [''node'', ''state'', ''wasm'']" "\<And>name. dk_nodes d [''node'', ''state'', ''wasm'', name] = None"
    using small_new by blast
  obtain d' where save: "save_wasm small_platform [0, 97] (small_cache d) = Done (Inr small_checksum, small_cache d')"
    and art: "file_at d' (modules_file (small_cache d') small_checksum) = Some (plain_file ([0, 97], None))"
    using small_save [OF d(1,2) d(3) refl] by blast
  obtain ch' where get: "get_module small_platform small_checksum (small_cache d') = Done (Inr ([0, 97], Some 512), ch')"
    using small_get_module [OF art] by blast
  have "run_ops small_platform [SaveWasm [0, 97]] (small_cache d) = Done (small_cache d')"
    using save by (simp add: pvoid_def pbind_def)
  from cache_modules_authentic [OF small.cache_platform_axioms new _ this get] fresh_no_file [OF d(1)] get
  show ?thesis by (auto simp: small_platform_def small_options_def size_mebi_def)
qed

text \<open>
  C28: code that \<open>save_wasm\<close> reported as saved is what \<open>load_wasm\<close> returns for its checksum, after any
  further operations and failed accesses, provided the directory held no wasm code at first, no two different codes
  saved have the same checksum, and reading the file does not fail.
\<close>

theorem cache_saved_then_loaded:
  assumes "cache_platform F code_of limit_of artifact entries"
    and "cache_new F options d = Done (Inr ch0, d')"
    and "\<And>name. file_at d (co_base_dir options @ [''state'', ''wasm'', name]) = None"
    and "inj_on (checksum_generate (pf_sha256 F)) {v. SaveWasm v \<in> set (before @ SaveWasm w # after)}"
    and "run_ops F before ch0 = Done ch1" "save_wasm F w ch1 = Done (Inr c, ch2)" "run_ops F after ch2 = Done ch3"
    and "dk_faults (ch_disk ch3) = []"
  shows "load_wasm F c ch3 = Done (Inr w, ch3)"
  using cache_platform.saved_then_loaded [OF assms] .

theorem cache_saved_then_loaded_witness:
  "\<exists>ch. load_wasm small_platform small_checksum ch = Done (Inr [0, 97], ch)"
proof -
  obtain d where new: "cache_new small_platform small_options empty_disk = Done (Inr (small_cache d), d)"
    and d: "fresh_disk d" "is_dir_at d [''node'', ''state'', ''wasm'']" "\<And>name. dk_nodes d [''node'', ''state'', ''wasm'', name] = None"
    using small_new by blast
  obtain d' where save: "save_wasm small_platform [0, 97] (small_cache d) = Done (Inr small_checksum, small_cache d')"
    and faults: "dk_faults d' = []"
    using small_save [OF d(1,2) d(3) refl] by blast
  have none: "file_at empty_disk p = None" for p by (simp add: empty_disk_def file_at_def)
  have inj: "inj_on (checksum_generate (pf_sha256 small_platform)) {v. SaveWasm v \<in> set ([] @ SaveWasm [0, 97] # [])}"
    by simp
  have "load_wasm small_platform small_checksum (small_cache d') = Done (Inr [0, 97], small_cache d')"
    by (rule cache_saved_then_loaded [OF small.cache_platform_axioms new none inj _ save]) (simp_all add: faults)
  then show ?thesis by blast
qed

text \<open>
  C39: once \<open>pin\<close> succeeded, the module is returned from the pinned cache without touching the disk or the other
  cache, after any operations other than unpinning it; only the counter of hits changes.
\<close>

theorem cache_pinned_stays:
  assumes "pin F c ch = Done (Inr (), ch1)" "Unpin c \<notin> set ops" "run_ops F ops ch1 = Done ch2"
  shows "\<exists>sm. map_of (ch_pinned ch1) c = Some sm \<and>
    get_module F c ch2 = Done (Inr (sm_module sm), ch2\<lparr>ch_stats :=
      (ch_stats ch2)\<lparr>hits_pinned_memory_cache := hits_pinned_memory_cache (ch_stats ch2) + 1\<rparr>\<rparr>)"
  using pinned_stays [OF assms] by blast

theorem cache_pinned_stays_witness:
  "\<exists>ch1 ch2 (sm :: plain_module sized_module). run_ops small_platform [Pin small_checksum, LoadWasm small_checksum] ch1 = Done ch2 \<and>
    get_module small_platform small_checksum ch2 = Done (Inr (sm_module sm), ch2\<lparr>ch_stats :=
      (ch_stats ch2)\<lparr>hits_pinned_memory_cache := hits_pinned_memory_cache (ch_stats ch2) + 1\<rparr>\<rparr>)"
proof -
  define ch where "ch = (small_cache empty_disk)\<lparr>ch_pinned := [(small_checksum, \<lparr>sm_module = ([0, 97], Some 512), sm_size = 2\<rparr>)]\<rparr>"
  have pin: "pin small_platform small_checksum ch = Done (Inr (), ch)" by (simp add: pin_def pinned_has_def ch_def)
  have run: "run_ops small_platform [Pin small_checksum, LoadWasm small_checksum] ch = Done ch"
    using pin by (simp add: pvoid_def load_wasm_def load_wasm_from_disk_def Let_def pbind_def on_disk_def fs_open_read_def
        next_fault_def empty_disk_def ch_def small_cache_def)
  have "Unpin small_checksum \<notin> set [Pin small_checksum, LoadWasm small_checksum]" by simp
  from cache_pinned_stays [OF pin this run] obtain sm :: "plain_module sized_module" where "get_module small_platform small_checksum ch = Done (Inr (sm_module sm), ch\<lparr>ch_stats :=
      (ch_stats ch)\<lparr>hits_pinned_memory_cache := hits_pinned_memory_cache (ch_stats ch) + 1\<rparr>\<rparr>)"
    by blast
  with run show ?thesis by blast
qed

section \<open>The contract's side of the boundary\<close>

text \<open>
  C3: what a contract writes with \<open>ExternalStorage::set\<close> it reads back with \<open>get\<close>, over the whole way: regions in
  its linear memory, the imports of the virtual machine, the storage of the host, \<open>allocate\<close> and
  \<open>consume_region\<close>. Whenever both calls return, the second one returns a vector with exactly the value, in memory
  of its own, and everything the contract had in memory is unchanged.
\<close>

theorem guest_storage_roundtrip:
  assumes host: "guest_host E A live H" and mem: "cd_wasm_instance env = Some w" "live w B"
    and slices: "slice_ok E B w key k" "slice_ok E B w val d"
    and set: "external_set H A key val env = Done (Inr (), env1)" and get: "external_get H A key env1 = Done (Inr r, env2)"
    and store: "\<forall>s g s'. bs_set (h_storage H) s k d = ((Inr (), g), s') \<longrightarrow> (\<exists>g'. bs_get (h_storage H) s' k = (Inr (Some d), g'))"
  shows "\<exists>v w2. r = Some v \<and> cd_wasm_instance env2 = Some w2 \<and> vec_ok E w2 v d \<and> separate (vec_block v) B \<and>
    live w2 (vec_block v \<union> B) \<and> kept E B w w2"
proof -
  obtain s g s' w1 where s: "bs_set (h_storage H) s k d = ((Inr (), g), s')" "same_context (env\<lparr>cd_storage := Some s'\<rparr>) env1"
    "cd_wasm_instance env1 = Some w1" "live w1 B" "kept E B w w1"
    using guest_host.external_set_run [OF host set mem slices] by blast
  have heap: "guest_heap E A live" using host by (simp add: guest_host_def)
  have bm: "byte_memory E" using heap by (simp add: guest_heap_def)
  have key: "slice_ok E B w1 key k" by (rule byte_memory.slice_kept [OF bm slices(1) s(5)])
  obtain s1 v g' w2 where got: "cd_storage env1 = Some s1" "bs_get (h_storage H) s1 k = (Inr v, g')" "cd_wasm_instance env2 = Some w2"
    "kept E B w1 w2" "case r of None \<Rightarrow> v = None \<and> live w2 B
     | Some vec \<Rightarrow> (\<exists>d. v = Some d \<and> vec_ok E w2 vec d) \<and> live w2 (vec_block vec \<union> B) \<and> separate (vec_block vec) B"
    using guest_host.external_get_run [OF host get s(3,4) key] by blast
  have "v = Some d" using store s(1) got(1,2) s(2) by (fastforce simp: same_context_def)
  then show ?thesis using got(3,5) kept_trans [OF s(5) got(4)] by (cases r) auto
qed

theorem guest_storage_roundtrip_witness:
  "\<exists>env1 env2 v w2. external_set bump_host bump_alloc \<lparr>sl_ptr = 8, sl_len = 1\<rparr> \<lparr>sl_ptr = 16, sl_len = 1\<rparr> demo_env = Done (Inr (), env1) \<and>
    external_get bump_host bump_alloc \<lparr>sl_ptr = 8, sl_len = 1\<rparr> env1 = Done (Inr (Some v), env2) \<and>
    cd_wasm_instance env2 = Some w2 \<and> vec_ok linear_engine w2 v [118]"
proof -
  obtain e1 v e2 where run: "external_set bump_host bump_alloc \<lparr>sl_ptr = 8, sl_len = 1\<rparr> \<lparr>sl_ptr = 16, sl_len = 1\<rparr> demo_env = Done (Inr (), e1)"
    "external_get bump_host bump_alloc \<lparr>sl_ptr = 8, sl_len = 1\<rparr> e1 = Done (Inr (Some v), e2)"
    using demo_run by blast
  have "\<forall>s g s'. bs_set (h_storage bump_host) s [107] [118] = ((Inr (), g), s') \<longrightarrow>
      (\<exists>g'. bs_get (h_storage bump_host) s' [107] = (Inr (Some [118]), g'))"
    by (auto simp: bump_host_def mock_host_def mock_backend_def mock_set_def mock_get_def btree_get_insert)
  from guest_storage_roundtrip [OF bump_host.guest_host_axioms demo_env_memory demo_slices run this] run show ?thesis by blast
qed

text \<open>
  C25: an iteration in the contract is the iteration of the host: \<open>ExternalIterator::next\<close> returns the record that the
  storage returned, through the encoding in sections. The one exception is a record with an empty key, which the
  contract takes for the end.
\<close>

theorem guest_next_faithful:
  assumes "guest_host E A live H" "cd_wasm_instance env = Some w" "live w B"
    and "external_next H A it env = Done (Inr r, env')"
  shows "\<exists>s n g s' w'. cd_storage env = Some s \<and> bs_next (h_storage H) s (iterator_id it) = ((Inr n, g), s') \<and>
    r = (case n of Some (k, v) \<Rightarrow> if k = [] then None else Some (k, v) | None \<Rightarrow> None) \<and>
    cd_storage env' = Some s' \<and> cd_wasm_instance env' = Some w' \<and> kept E B w w'"
  using guest_host.external_next_run [OF assms(1,4,2,3)] by (auto simp: same_context_def)

theorem guest_next_faithful_witness:
  "\<exists>env' s'. external_next bump_host bump_alloc \<lparr>iterator_id = 1\<rparr>
      (demo_env\<lparr>cd_storage := Some \<lparr>mk_data = [([], [7])], mk_iterators = [(1, \<lparr>it_data = [([], [7])], it_position = 0\<rparr>)]\<rparr>\<rparr>) =
        Done (Inr None, env') \<and> cd_storage env' = Some s' \<and>
    fst (fst (mock_next \<lparr>mk_data = [([], [7])], mk_iterators = [(1, \<lparr>it_data = [([], [7])], it_position = 0\<rparr>)]\<rparr> 1)) = Inr (Some ([], [7]))"
proof -
  define st where "st = \<lparr>mk_data = [([], [7 :: u8])], mk_iterators = [(1 :: u32, \<lparr>it_data = [([], [7])], it_position = 0\<rparr>)]\<rparr>"
  define env where "env = demo_env\<lparr>cd_storage := Some st\<rparr>"
  have mem: "cd_wasm_instance env = Some demo_mem" by (simp add: env_def demo_env_memory)
  have run: "\<exists>env'. external_next bump_host bump_alloc \<lparr>iterator_id = 1\<rparr> env = Done (Inr None, env')"
    by (simp add: external_next_def do_db_next_def mock_next_def st_def env_def gas_info_with_cost_def plift_out_def decode_sections2_def
        split_tail_def section_len_before_def to_be_bytes_def from_be_bytes_def guest_eval host_eval demo_env_def move_in_def context_data_new_def demo_mem_def)
  then obtain env' where env': "external_next bump_host bump_alloc \<lparr>iterator_id = 1\<rparr> env = Done (Inr None, env')" by blast
  have "fst (fst (mock_next st 1)) = Inr (Some ([], [7]))" by (simp add: mock_next_def st_def Let_def)
  with guest_next_faithful [OF bump_host.guest_host_axioms mem demo_slices(1) env'] env' show ?thesis
    unfolding env_def st_def by blast
qed

text \<open>
  C24: every entry point of a contract keeps its contract with the host. The host passes the arguments in regions
  of the guest's memory; when the call returns a pointer, the host reads the serialized result from it, whatever limit
  at or above the length of this result it reads with, and the memory of the guest outside of the call is unchanged.
  The result is the text of the first argument that does not parse, and then the contract's function was not called and
  the storage is as before; or it is what the function returned for the parsed arguments. The functions of the contract
  are any programs that touch only memory they allocated.
\<close>

theorem entry_point_returns_result:
  fixes H :: "('s, 'q, 'w, 'r) host"
    and f1 :: "env_info \<Rightarrow> message_info \<Rightarrow> 'm1 \<Rightarrow> ('s, 'q, 'w, ('e1, 'c1 response) result) vm_prog"
    and f2 :: "env_info \<Rightarrow> message_info \<Rightarrow> 'm2 \<Rightarrow> ('s, 'q, 'w, ('e2, 'c2 response) result) vm_prog"
    and f3 :: "env_info \<Rightarrow> 'm3 \<Rightarrow> ('s, 'q, 'w, ('e3, 'c3 response) result) vm_prog"
    and f4 :: "env_info \<Rightarrow> 'm4 \<Rightarrow> ('s, 'q, 'w, ('e4, 'c4 response) result) vm_prog"
    and f5 :: "env_info \<Rightarrow> reply \<Rightarrow> ('s, 'q, 'w, ('e5, 'c5 response) result) vm_prog"
    and f6 :: "env_info \<Rightarrow> 'm6 \<Rightarrow> ('s, 'q, 'w, ('e6, bytes) result) vm_prog"
    and f7 :: "env_info \<Rightarrow> ibc_channel_open_msg \<Rightarrow> ('s, 'q, 'w, ('e7, unit) result) vm_prog"
    and f8 :: "env_info \<Rightarrow> ibc_channel_connect_msg \<Rightarrow> ('s, 'q, 'w, ('e8, 'c8 ibc_basic_response) result) vm_prog"
    and f9 :: "env_info \<Rightarrow> ibc_channel_close_msg \<Rightarrow> ('s, 'q, 'w, ('e9, 'c9 ibc_basic_response) result) vm_prog"
    and f10 :: "env_info \<Rightarrow> ibc_packet_receive_msg \<Rightarrow> ('s, 'q, 'w, ('e10, 'c10 ibc_receive_response) result) vm_prog"
    and f11 :: "env_info \<Rightarrow> ibc_packet_ack_msg \<Rightarrow> ('s, 'q, 'w, ('e11, 'c11 ibc_basic_response) result) vm_prog"
    and f12 :: "env_info \<Rightarrow> ibc_packet_timeout_msg \<Rightarrow> ('s, 'q, 'w, ('e12, 'c12 ibc_basic_response) result) vm_prog"
  assumes "guest_host E A live H"
  shows "entry3_contract E live JE JI J1 R1 show1 f1 (entry_instantiate E A JE JI J1 R1 show1 f1) \<and>
    entry3_contract E live JE JI J2 R2 show2 f2 (entry_execute E A JE JI J2 R2 show2 f2) \<and>
    entry2_contract E live JE J3 R3 show3 f3 (entry_migrate E A JE J3 R3 show3 f3) \<and>
    entry2_contract E live JE J4 R4 show4 f4 (entry_sudo E A JE J4 R4 show4 f4) \<and>
    entry2_contract E live JE J5 R5 show5 f5 (entry_reply E A JE J5 R5 show5 f5) \<and>
    entry2_contract E live JE J6 R6 show6 f6 (entry_query E A JE J6 R6 show6 f6) \<and>
    entry2_contract E live JE J7 R7 show7 f7 (entry_ibc_channel_open E A JE J7 R7 show7 f7) \<and>
    entry2_contract E live JE J8 R8 show8 f8 (entry_ibc_channel_connect E A JE J8 R8 show8 f8) \<and>
    entry2_contract E live JE J9 R9 show9 f9 (entry_ibc_channel_close E A JE J9 R9 show9 f9) \<and>
    entry2_contract E live JE J10 R10 show10 f10 (entry_ibc_packet_receive E A JE J10 R10 show10 f10) \<and>
    entry2_contract E live JE J11 R11 show11 f11 (entry_ibc_packet_ack E A JE J11 R11 show11 f11) \<and>
    entry2_contract E live JE J12 R12 show12 f12 (entry_ibc_packet_timeout E A JE J12 R12 show12 f12)"
  unfolding entry_point_shapes
  by (intro conjI guest_host.entry2_keeps_contract [OF assms] guest_host.entry3_keeps_contract [OF assms])

theorem entry_point_returns_result_witness:
  "\<exists>p env' w'. entry_query linear_engine bump_alloc env_codec byte_codec answer_codec show_std_error echo 24 36 call_env = Done (Inr p, env') \<and>
    cd_wasm_instance env' = Some w' \<and> read_region linear_engine w' p 20 = Inr [1, 118] \<and>
    from_slice answer_codec [1, 118] = Inr (ContractOk [118])"
proof -
  obtain p env' where run: "entry_query linear_engine bump_alloc env_codec byte_codec answer_codec show_std_error echo 24 36 call_env = Done (Inr p, env')"
    using call_run by blast
  have mem: "cd_wasm_instance call_env = Some call_mem" by (simp add: call_env_def)
  have own: "\<forall>e m. owns_memory linear_engine bump_inv (echo e m)" using echo_owns_memory by blast
  have sep: "separate {(36, 12), (16, 1)} {}" by simp
  have "entry2_contract linear_engine bump_inv env_codec byte_codec answer_codec show_std_error echo
      (entry_query linear_engine bump_alloc env_codec byte_codec answer_codec show_std_error echo)"
    by (rule entry_point_returns_result [OF bump_host.guest_host_axioms, THEN conjunct2, THEN conjunct2, THEN conjunct2,
      THEN conjunct2, THEN conjunct2, THEN conjunct1])
  from this [unfolded entry2_contract_def, rule_format, OF conjI [OF own conjI [OF mem conjI [OF call_passed(1)
      conjI [OF call_passed(2) conjI [OF call_passed(3) conjI [OF call_passed(4) conjI [OF sep run]]]]]]]]
  obtain res where res: "returned linear_engine {} call_mem answer_codec res p env'" "res = ContractOk [118]"
    by (auto simp: from_slice_def env_codec_def byte_codec_def echo_def answered_def)
  then have "to_vec answer_codec res = Inr [1, 118]" by (simp add: to_vec_def answer_codec_def)
  with res(1) obtain w' where "cd_wasm_instance env' = Some w'" "read_region linear_engine w' p 20 = Inr [1, 118]"
    by (auto simp: returned_def)
  with run show ?thesis by (auto simp: from_slice_def answer_codec_def)
qed
text \<open>
  C20: In every state the hackatom contract can reach, by whatever calls, its funds leave in two ways only: the
  verifier of the configuration releases the balance, to the beneficiary named at the instantiation, or the chain
  itself calls \<open>sudo\<close> with \<open>StealFunds\<close>, which sends exactly the given coins to the given recipient.
  The only other message of \<open>execute\<close> is a call of the contract itself without funds; \<open>instantiate\<close> and
  \<open>migrate\<close> send no messages. A release by the verifier succeeds and sends the whole balance.
\<close>

theorem hackatom_funds_safe:
  assumes "key_value_store S valid view" "json_codec (hj_state X)" "valid s0" "hackatom_reachable S X s0 st s"
  shows "(\<forall>H (d :: unit deps) env info msg (res :: unit response) s' m.
      hackatom_execute H S X d env info msg s = Some (Done (Inr res, s')) \<and> m \<in> set (r_messages res) \<longrightarrow>
      (msg = Release \<and> mi_sender info = hs_verifier st \<and>
        (\<exists>amt. query_all_balances (dp_querier d) (dp_responses d) (env_contract env) = Inr amt \<and>
          sm_msg m = MsgBank (BankSend (hs_beneficiary st) amt))) \<or>
      (\<exists>b. msg = MessageLoop \<and> sm_msg m = MsgWasm (WasmExecute (env_contract env) b []))) \<and>
    (\<forall>to amt (res :: unit response) s'. hackatom_sudo (StealFunds to amt) s = Done (Inr res, s') \<longrightarrow>
      map sm_msg (r_messages res) = [MsgBank (BankSend to amt)]) \<and>
    (\<forall>(d :: unit deps) mmsg (res :: unit response) s'.
      hackatom_migrate S (hj_state X) d mmsg s = Done (Inr res, s') \<longrightarrow> r_messages res = []) \<and>
    (\<forall>(d :: unit deps) info imsg (res :: unit response) s'.
      hackatom_instantiate S (hj_state X) d info imsg s0 = Done (Inr res, s') \<longrightarrow> r_messages res = []) \<and>
    (\<forall>H (d :: unit deps) env info amt.
      mi_sender info = hs_verifier st \<and> query_all_balances (dp_querier d) (dp_responses d) (env_contract env) = Inr amt \<longrightarrow>
      (\<exists>res :: unit response. hackatom_execute H S X d env info Release s = Some (Done (Inr res, s)) \<and>
        map sm_msg (r_messages res) = [MsgBank (BankSend (hs_beneficiary st) amt)]))"
proof -
  note conf = key_value_store.reachable_configured [OF assms(1,3,2,4)]
  obtain b where b: "st_get S s CONFIG_KEY = Some b" "from_slice (hj_state X) b = Inr st"
    using conf key_value_store.get_view [OF assms(1)] by (auto simp: configured_def)
  show ?thesis
  proof (intro conjI allI impI)
    fix H and d :: "unit deps" and env info msg and res :: "unit response" and s' m
    assume "hackatom_execute H S X d env info msg s = Some (Done (Inr res, s')) \<and> m \<in> set (r_messages res)"
    then show "(msg = Release \<and> mi_sender info = hs_verifier st \<and>
        (\<exists>amt. query_all_balances (dp_querier d) (dp_responses d) (env_contract env) = Inr amt \<and>
          sm_msg m = MsgBank (BankSend (hs_beneficiary st) amt))) \<or>
      (\<exists>b. msg = MessageLoop \<and> sm_msg m = MsgWasm (WasmExecute (env_contract env) b []))"
      using hackatom_execute_messages [of H S X d env info msg s res s' m] b by auto
  next
    fix H and d :: "unit deps" and env :: env_info and info :: message_info and amt
    assume "mi_sender info = hs_verifier st \<and> query_all_balances (dp_querier d) (dp_responses d) (env_contract env) = Inr amt"
    then show "\<exists>res :: unit response. hackatom_execute H S X d env info Release s = Some (Done (Inr res, s)) \<and>
        map sm_msg (r_messages res) = [MsgBank (BankSend (hs_beneficiary st) amt)]"
      using key_value_store.release_runs [OF assms(1) conf [THEN conjunct1] conf [THEN conjunct2]] by blast
  qed (rule hackatom_sudo_messages hackatom_no_messages; assumption)+
qed

theorem hackatom_funds_safe_witness:
  "\<exists>s (res :: unit response). hackatom_reachable memory_ops example_hackatom_codecs memory_storage_new example_hackatom_state s \<and>
    hackatom_execute example_hackatom_host memory_ops example_hackatom_codecs example_contract_deps example_env
      (example_owner_info ''vera'') Release s = Some (Done (Inr res, s)) \<and>
    map sm_msg (r_messages res) = [MsgBank (BankSend ''ben'' (coins 5 ''ustake''))]"
proof -
  obtain s where s: "hackatom_reachable memory_ops example_hackatom_codecs memory_storage_new example_hackatom_state s"
    using example_hackatom_reachable by blast
  have "json_codec (hj_state example_hackatom_codecs)" by (simp add: example_hackatom_codecs_def any_json_codec)
  from hackatom_funds_safe [OF memory.key_value_store_axioms this memory_start(1) s, THEN conjunct2, THEN conjunct2,
      THEN conjunct2, THEN conjunct2, rule_format,
      of "example_owner_info ''vera''" example_contract_deps example_env "coins 5 ''ustake''" example_hackatom_host] s
  show ?thesis by (auto simp: example_owner_info_def example_hackatom_state_def example_balances)
qed

text \<open>
  C21: the reflect contract refines a machine with an owner and a map of replies: any sequence of executions and replies
  returns what the machine returns, without a panic, and afterwards the queries answer with the state of the machine.
\<close>

theorem reflect_refines_machine:
  assumes "key_value_store S valid view" "json_codec (rj_state X)" "json_codec (rj_reply X)" "valid s" "reflects X (view s) a"
  shows "\<exists>t. reflect_run S X api cs s = Done (fst (abs_run api cs a), t) \<and>
    query_owner S X t = Done (Inr (OwnerResponse (ra_owner (snd (abs_run api cs a)))), t) \<and>
    (\<forall>i. query_subcall S X i t = Done (ok_or (NotFound (type_name (rj_reply X))) (ra_replies (snd (abs_run api cs a)) i), t))"
proof -
  have store: "reflect_store S valid view X" using assms(1-3) by (simp add: reflect_store.intro)
  from reflect_store.run_refines [OF this assms(4,5)] obtain t where "reflect_run S X api cs s = Done (fst (abs_run api cs a), t)"
    "valid t" "reflects X (view t) (snd (abs_run api cs a))" by blast
  with reflect_store.queries_refine [OF store this(2,3)] show ?thesis by blast
qed

theorem reflect_refines_machine_witness:
  "\<exists>s t rs. reflect_instantiate memory_ops example_reflect_codecs (example_owner_info ''owner'') memory_storage_new = Done (Inr response_new, s) \<and>
    reflect_run memory_ops example_reflect_codecs example_api
      [CallExecute (example_owner_info ''owner'') (ChangeOwner ''bob''), CallExecute (example_owner_info ''owner'') (ReflectMsg [])] s = Done (rs, t) \<and>
    rs ! 1 = ExecuteResult (Inl (NotCurrentOwner ''bob'' ''owner'')) \<and>
    query_owner memory_ops example_reflect_codecs t = Done (Inr (OwnerResponse ''bob''), t)"
proof -
  obtain s where s: "reflect_instantiate memory_ops example_reflect_codecs (example_owner_info ''owner'') memory_storage_new = Done (Inr response_new, s)"
    "memory_inv s" "reflects example_reflect_codecs (btree_get (ms_data s)) \<lparr>ra_owner = ''owner'', ra_replies = Map.empty\<rparr>"
    using example_reflect_started by blast
  from reflect_refines_machine [OF memory.key_value_store_axioms reflect_memory.st.json_codec_axioms reflect_memory.rp.json_codec_axioms s(2,3),
      of example_api "[CallExecute (example_owner_info ''owner'') (ChangeOwner ''bob''), CallExecute (example_owner_info ''owner'') (ReflectMsg [])]"] s(1)
  show ?thesis by (auto simp: example_owner_info_def example_api_def)
qed

text \<open>
  C23: \<open>ibc-reflect\<close> answers every packet with an acknowledgement and writes nothing. It sends a message exactly for a
  dispatch on a channel with an account: the messages of the packet, to that account, with a reply on error. A packet on a
  channel without an account gets an error acknowledgement.
\<close>

theorem ibc_reflect_answers_packets:
  assumes "ibc_reflect_store S valid view X" "valid s"
  shows "\<exists>res. ibc_reflect_packet_receive S X d msg s = Done (Inr res, s) \<and>
    (\<forall>a msgs. account_of X (view s) (ep_channel_id (pk_dest (receive_packet msg))) = Some a \<and>
        from_slice (pj_packet (ij_packets X)) (pk_data (receive_packet msg)) = Inr (Dispatch msgs) \<longrightarrow>
      (\<exists>payload. from_slice (ij_forward X) payload = Inr (ForwardMsgs msgs) \<and>
        ir_messages res = [reply_on_error (MsgWasm (WasmExecute a payload [])) RECEIVE_DISPATCH_ID] \<and>
        from_slice (pj_unit_ack (ij_packets X)) (ir_acknowledgement res) = Inr (ContractOk ()))) \<and>
    ((\<nexists>a msgs. account_of X (view s) (ep_channel_id (pk_dest (receive_packet msg))) = Some a \<and>
        from_slice (pj_packet (ij_packets X)) (pk_data (receive_packet msg)) = Inr (Dispatch msgs)) \<longrightarrow> ir_messages res = []) \<and>
    (account_of X (view s) (ep_channel_id (pk_dest (receive_packet msg))) = None \<longrightarrow>
      (\<exists>err. from_slice (pj_unit_ack (ij_packets X)) (ir_acknowledgement res) = Inr (ContractErr err)))"
  by (rule ibc_reflect_store.packet_receive_answers [OF assms])

theorem ibc_reflect_answers_packets_witness:
  "\<exists>s data res. memory_inv s \<and> account_of example_ibc_reflect_codecs (btree_get (ms_data s)) ''channel-1'' = Some ''acc'' \<and>
    from_slice (pj_packet example_packets) data = Inr (Dispatch [MsgBank (BankBurn [])]) \<and>
    ibc_reflect_packet_receive memory_ops example_ibc_reflect_codecs example_contract_deps
      (IbcPacketReceiveMsg (example_packet data ''channel-9'' ''channel-1'')) s = Done (Inr res, s) \<and> length (ir_messages res) = 1"
proof -
  obtain s where s: "memory_inv s" "account_of example_ibc_reflect_codecs (btree_get (ms_data s)) ''channel-1'' = Some ''acc''"
    using example_account by blast
  have packets: "ij_packets example_ibc_reflect_codecs = example_packets" by (simp add: example_ibc_reflect_codecs_def)
  have "json_codec (pj_packet example_packets)" by (simp add: example_packets_def any_json_codec)
  from json_codec.to_vec_Ok [OF this, of "Dispatch [MsgBank (BankBurn [])]"]
  obtain data where data: "from_slice (pj_packet example_packets) data = Inr (Dispatch [MsgBank (BankBurn [])])"
    by (elim exE conjE) (rule that)
  define p where "p = example_packet data ''channel-9'' ''channel-1''"
  have p: "ep_channel_id (pk_dest (receive_packet (IbcPacketReceiveMsg p))) = ''channel-1''"
    "pk_data (receive_packet (IbcPacketReceiveMsg p)) = data"
    by (simp_all add: p_def example_packet_def ibc_packet_new_def example_endpoint_def)
  obtain res where res: "ibc_reflect_packet_receive memory_ops example_ibc_reflect_codecs example_contract_deps (IbcPacketReceiveMsg p) s = Done (Inr res, s)"
    and sent: "\<forall>a msgs. account_of example_ibc_reflect_codecs (btree_get (ms_data s)) ''channel-1'' = Some a \<and>
        from_slice (pj_packet example_packets) data = Inr (Dispatch msgs) \<longrightarrow>
      (\<exists>payload. from_slice (ij_forward example_ibc_reflect_codecs) payload = Inr (ForwardMsgs msgs) \<and>
        ir_messages res = [reply_on_error (MsgWasm (WasmExecute a payload [])) RECEIVE_DISPATCH_ID] \<and>
        from_slice (pj_unit_ack example_packets) (ir_acknowledgement res) = Inr (ContractOk ()))"
    using ibc_reflect_answers_packets [OF ibc_reflect_memory.ibc_reflect_store_axioms s(1), of example_contract_deps "IbcPacketReceiveMsg p"]
    unfolding p packets by (elim exE conjE) (rule that)
  obtain payload where "ir_messages res = [reply_on_error (MsgWasm (WasmExecute ''acc'' payload [])) RECEIVE_DISPATCH_ID]"
    using sent [rule_format, OF conjI, OF s(2) data] by (elim exE conjE) (rule that)
  then have "length (ir_messages res) = 1" by simp
  with s data res show ?thesis unfolding p_def by (intro exI [of _ s] exI [of _ data] exI [of _ res] conjI)
qed

text \<open>
  C22: connecting a channel and the reply to the instantiation give the channel its account, and it stays the same through
  any further calls, with failed ones rolled back, until this channel is closed.
\<close>

theorem ibc_reflect_account_stays:
  assumes "ibc_reflect_store S valid view X" "valid s" "must_deserialize (ij_config X) (view s ibc_config_key) = Inr cfg"
    and "ep_channel_id (ch_endpoint (connect_channel msg)) = ch" "view s (accounts_prefix @ ascii ch) = None"
    and "parse_contract_from_event (sr_events response) = Some addr" "addr_validate (dp_api d') addr = Inr a"
    and "\<forall>c \<in> set cs. \<not> closes ch (snd (snd c))"
  shows "account_of X (view (fold (ibc_reflect_next S X) ((d, env, IbcConnect msg) #
    (d', env', IbcReply \<lparr>rp_id = INIT_CALLBACK_ID, rp_result = SubMsgOk response\<rparr>) # cs) s)) ch = Some a"
  using ibc_reflect_store.account_lifecycle [OF assms] .

theorem ibc_reflect_account_stays_witness:
  "\<exists>res s. ibc_reflect_instantiate memory_ops example_ibc_reflect_codecs 17 memory_storage_new = Done (Inr res, s) \<and>
    account_of example_ibc_reflect_codecs (btree_get (ms_data (fold (ibc_reflect_next memory_ops example_ibc_reflect_codecs)
      [(example_contract_deps, example_env, IbcConnect (example_connect ''channel-1'')),
       (example_contract_deps, example_env, IbcReply \<lparr>rp_id = INIT_CALLBACK_ID, rp_result = SubMsgOk example_created\<rparr>),
       (example_contract_deps, example_env, IbcConnect (example_connect ''channel-1'')),
       (example_contract_deps, example_env, IbcMigrate)] s))) ''channel-1'' = Some ''acc''"
proof -
  obtain res s where s: "ibc_reflect_instantiate memory_ops example_ibc_reflect_codecs 17 memory_storage_new = Done (Inr res, s)" "memory_inv s"
    "must_deserialize (ij_config example_ibc_reflect_codecs) (btree_get (ms_data s) ibc_config_key) = Inr (IbcConfig 17)"
    "btree_get (ms_data s) (accounts_prefix @ ascii ''channel-1'') = None" using example_ibc_reflect_started by blast
  have "addr_validate (dp_api example_contract_deps) ''acc'' = Inr ''acc''" by (simp add: example_contract_deps_def example_api_def)
  note stays = ibc_reflect_account_stays [OF ibc_reflect_memory.ibc_reflect_store_axioms,
    where s = s and cfg = "IbcConfig 17" and msg = "example_connect ''channel-1''" and ch = "''channel-1''" and response = example_created
      and addr = "''acc''" and a = "''acc''" and d' = example_contract_deps and d = example_contract_deps and env = example_env
      and env' = example_env and cs = "[(example_contract_deps, example_env, IbcConnect (example_connect ''channel-1'')),
        (example_contract_deps, example_env, IbcMigrate)]"]
  have "\<forall>c \<in> set [(example_contract_deps, example_env, IbcConnect (example_connect ''channel-1'')), (example_contract_deps, example_env, IbcMigrate)].
      \<not> closes ''channel-1'' (snd (snd c))" by (simp add: closes_def)
  from stays [OF s(2,3) example_connect_channel s(4) example_created_address \<open>addr_validate _ _ = _\<close> this] s(1)
  show ?thesis by (intro exI [of _ res] exI [of _ s] conjI)
qed

text \<open>
  C5: the handshake of the two IBC contracts. \<open>ibc-reflect-send\<close> connects a channel and sends a packet; the acknowledgement
  with which \<open>ibc-reflect\<close> answers it makes the sender record the account of the channel; from then on, until the
  channel is connected anew or closed, whoever sends one coin has it transferred to that account.
\<close>

theorem ibc_handshake_pays_account:
  assumes "ibc_pair SA validA viewA Y SB validB viewB X"
    and "validA sA" "validB sB" "account_of X (viewB sB) chB = Some acc"
    and "timestamp_plus_seconds (bi_time (env_block env)) PACKET_LIFETIME = Done deadline"
    and "ep_channel_id (ch_endpoint (connect_channel msg)) = chA"
  shows "\<exists>resA tA data. send_channel_connect SA Y env msg sA = Done (Inr resA, tA) \<and>
    map sm_msg (ib_messages resA) = [MsgIbc (IbcSendPacket chA data (timeout_from_timestamp deadline))] \<and>
    (\<forall>p. pk_data p = data \<and> ep_channel_id (pk_src p) = chA \<and> ep_channel_id (pk_dest p) = chB \<longrightarrow>
      (\<exists>resB resA' uA. ibc_reflect_packet_receive SB X d (IbcPacketReceiveMsg p) sB = Done (Inr resB, sB) \<and>
        send_packet_ack SA Y env' \<lparr>pa_acknowledgement = IbcAcknowledgement (ir_acknowledgement resB), pa_original_packet = p\<rparr> tA =
          Done (Inr resA', uA) \<and>
        (\<forall>cs api env2 info c tch dl. (\<forall>call \<in> set cs. \<not> resets chA (snd (snd call))) \<and> mi_funds info = [c] \<and>
          timestamp_plus_seconds (bi_time (env_block env2)) PACKET_LIFETIME = Done dl \<longrightarrow>
          (\<exists>res. send_execute SA Y api env2 info (SendFunds chA tch) (fold (send_next SA Y) cs uA) =
              Done (Inr res, fold (send_next SA Y) cs uA) \<and>
            map sm_msg (r_messages res) = [MsgIbc (IbcTransfer tch acc c (timeout_from_timestamp dl))]))))"
  by (rule ibc_pair.handshake_pays [OF assms])

theorem ibc_handshake_pays_account_witness:
  "\<exists>sB resA tA data. account_of example_ibc_reflect_codecs (btree_get (ms_data sB)) ''channel-1'' = Some ''acc'' \<and>
    send_channel_connect memory_ops example_send_codecs example_env (example_connect ''channel-9'') memory_storage_new = Done (Inr resA, tA) \<and>
    map sm_msg (ib_messages resA) =
      [MsgIbc (IbcSendPacket ''channel-9'' data (timeout_from_timestamp (timestamp_from_nanos 3600000000000)))] \<and>
    (\<exists>resB resA' uA. ibc_reflect_packet_receive memory_ops example_ibc_reflect_codecs example_contract_deps
        (IbcPacketReceiveMsg (example_packet data ''channel-9'' ''channel-1'')) sB = Done (Inr resB, sB) \<and>
      send_packet_ack memory_ops example_send_codecs example_env
        \<lparr>pa_acknowledgement = IbcAcknowledgement (ir_acknowledgement resB),
         pa_original_packet = example_packet data ''channel-9'' ''channel-1''\<rparr> tA = Done (Inr resA', uA) \<and>
      (\<exists>res. send_execute memory_ops example_send_codecs example_api example_env (example_owner_info ''anyone'') (SendFunds ''channel-9'' ''channel-5'') uA =
          Done (Inr res, uA) \<and>
        map sm_msg (r_messages res) =
          [MsgIbc (IbcTransfer ''channel-5'' ''acc'' (coin_new 5 ''ustake'') (timeout_from_timestamp (timestamp_from_nanos 3600000000000)))]))"
proof -
  obtain sB where sB: "memory_inv sB" "account_of example_ibc_reflect_codecs (btree_get (ms_data sB)) ''channel-1'' = Some ''acc''"
    using example_account by blast
  from ibc_handshake_pays_account [OF ibc_pair_memory.ibc_pair_axioms memory_start(1) sB example_deadline example_connect_channel,
      of "''channel-9''" example_contract_deps example_env]
  obtain resA tA data where h: "send_channel_connect memory_ops example_send_codecs example_env (example_connect ''channel-9'') memory_storage_new = Done (Inr resA, tA)"
    "map sm_msg (ib_messages resA) =
      [MsgIbc (IbcSendPacket ''channel-9'' data (timeout_from_timestamp (timestamp_from_nanos 3600000000000)))]"
    and p: "\<forall>p. pk_data p = data \<and> ep_channel_id (pk_src p) = ''channel-9'' \<and> ep_channel_id (pk_dest p) = ''channel-1'' \<longrightarrow>
      (\<exists>resB resA' uA. ibc_reflect_packet_receive memory_ops example_ibc_reflect_codecs example_contract_deps (IbcPacketReceiveMsg p) sB = Done (Inr resB, sB) \<and>
        send_packet_ack memory_ops example_send_codecs example_env \<lparr>pa_acknowledgement = IbcAcknowledgement (ir_acknowledgement resB), pa_original_packet = p\<rparr> tA =
          Done (Inr resA', uA) \<and>
        (\<forall>cs api env2 info c tch dl. (\<forall>call \<in> set cs. \<not> resets ''channel-9'' (snd (snd call))) \<and> mi_funds info = [c] \<and>
          timestamp_plus_seconds (bi_time (env_block env2)) PACKET_LIFETIME = Done dl \<longrightarrow>
          (\<exists>res. send_execute memory_ops example_send_codecs api env2 info (SendFunds ''channel-9'' tch) (fold (send_next memory_ops example_send_codecs) cs uA) =
              Done (Inr res, fold (send_next memory_ops example_send_codecs) cs uA) \<and>
            map sm_msg (r_messages res) = [MsgIbc (IbcTransfer tch ''acc'' c (timeout_from_timestamp dl))])))"
    by (elim exE conjE) (rule that)
  have "pk_data (example_packet data ''channel-9'' ''channel-1'') = data \<and>
      ep_channel_id (pk_src (example_packet data ''channel-9'' ''channel-1'')) = ''channel-9'' \<and>
      ep_channel_id (pk_dest (example_packet data ''channel-9'' ''channel-1'')) = ''channel-1''"
    by (simp add: example_packet_def ibc_packet_new_def example_endpoint_def)
  from p [rule_format, OF this] obtain resB resA' uA where r:
    "ibc_reflect_packet_receive memory_ops example_ibc_reflect_codecs example_contract_deps
        (IbcPacketReceiveMsg (example_packet data ''channel-9'' ''channel-1'')) sB = Done (Inr resB, sB)"
    "send_packet_ack memory_ops example_send_codecs example_env
        \<lparr>pa_acknowledgement = IbcAcknowledgement (ir_acknowledgement resB),
         pa_original_packet = example_packet data ''channel-9'' ''channel-1''\<rparr> tA = Done (Inr resA', uA)"
    and pays: "\<And>cs api env2 info c tch dl. (\<forall>call \<in> set cs. \<not> resets ''channel-9'' (snd (snd call))) \<and> mi_funds info = [c] \<and>
          timestamp_plus_seconds (bi_time (env_block env2)) PACKET_LIFETIME = Done dl \<Longrightarrow>
          (\<exists>res. send_execute memory_ops example_send_codecs api env2 info (SendFunds ''channel-9'' tch) (fold (send_next memory_ops example_send_codecs) cs uA) =
              Done (Inr res, fold (send_next memory_ops example_send_codecs) cs uA) \<and>
            map sm_msg (r_messages res) = [MsgIbc (IbcTransfer tch ''acc'' c (timeout_from_timestamp dl))])"
    by (elim exE conjE) (metis (no_types, lifting))
  have "\<exists>res. send_execute memory_ops example_send_codecs example_api example_env (example_owner_info ''anyone'') (SendFunds ''channel-9'' ''channel-5'') uA =
          Done (Inr res, uA) \<and>
        map sm_msg (r_messages res) =
          [MsgIbc (IbcTransfer ''channel-5'' ''acc'' (coin_new 5 ''ustake'') (timeout_from_timestamp (timestamp_from_nanos 3600000000000)))]"
    using pays [of "[]" "example_owner_info ''anyone''" "coin_new 5 ''ustake''" example_env "timestamp_from_nanos 3600000000000" example_api "''channel-5''"]
    by (simp add: example_owner_info_def example_deadline)
  with sB(2) h r show ?thesis
    by (intro exI [of _ sB] exI [of _ resA] exI [of _ tA] exI [of _ data] exI [of _ resB] exI [of _ resA'] exI [of _ uA] conjI)
qed

text \<open>
  C40: an Ethereum transaction verifies exactly when a key is recovered from the padded signature, its address is the
  sender's and it verifies the signature; and the contract panics exactly when a part of the signature is longer than 32
  bytes or \<open>v\<close> is too small for the chain id, instead of returning an error.
\<close>

theorem ethereum_transaction_exact:
  assumes "verify_host_laws H"
  shows "(verify_transaction H api from to nonce gas price val data chain_id r s v = Done (Inr True) \<longleftrightarrow>
     (let hash = vh_keccak256 H (serialize_unsigned_transaction H to nonce gas price val data chain_id);
          rs = replicate (32 - length r) 0 @ r @ replicate (32 - length s) 0 @ s
      in length r \<le> 32 \<and> length s \<le> 32 \<and> 2 * unat chain_id < 2 ^ 64 \<and>
         (\<exists>p pk. (p = 0 \<or> p = 1) \<and> unat v = 2 * unat chain_id + 35 + unat p \<and>
           api_secp256k1_recover_pubkey api hash rs p = Inr pk \<and> uncompressed pk \<and> address_of H pk = from \<and>
           api_secp256k1_verify api hash rs pk = Inr True))) \<and>
    (panics (verify_transaction H api from to nonce gas price val data chain_id r s v) \<longleftrightarrow>
     32 < length r \<or> 32 < length s \<or> 2 ^ 64 \<le> 2 * unat chain_id \<or> unat v < 2 * unat chain_id + 35)"
  by (intro conjI verify_host_laws.verify_transaction_True_iff [OF assms] verify_host_laws.verify_transaction_panics_iff [OF assms])

theorem ethereum_transaction_exact_witness:
  "verify_transaction example_verify_host example_api (replicate 20 7) (replicate 20 9) 1 2 3 4 [] 1 [5] [6] 37 = Done (Inr True) \<and>
   panics (verify_transaction example_verify_host example_api (replicate 20 7) (replicate 20 9) 1 2 3 4 [] 1 [5] [6] 36)"
proof
  show "verify_transaction example_verify_host example_api (replicate 20 7) (replicate 20 9) 1 2 3 4 [] 1 [5] [6] 37 = Done (Inr True)"
    unfolding ethereum_transaction_exact [OF example_verify.verify_host_laws_axioms, THEN conjunct1] Let_def
    by (auto simp: example_api_def uncompressed_def address_of_def example_verify_host_def)
  show "panics (verify_transaction example_verify_host example_api (replicate 20 7) (replicate 20 9) 1 2 3 4 [] 1 [5] [6] 36)"
    unfolding ethereum_transaction_exact [OF example_verify.verify_host_laws_axioms, THEN conjunct2] by simp
qed
text \<open>
  C32: the profiler writes before each operator of a function the probe of its position, and however the instrumented
  code runs, with calls, branches at every label, an \<open>if\<close> that is not taken or a trap in the middle, whatever
  measurements are open before, no probe ends a measurement that was not started: \<open>take_measurement\<close> never
  panics. The gatekeeper accepts the functions with the probes exactly when it accepts them without.
\<close>

theorem profiler_never_panics:
  assumes "instrument_module hasher imports bodies store = Done (outs, p)" and "pr_indexes p = Some ix"
    and "pi_start_measurement ix \<noteq> pi_take_measurement ix" and "run hasher ix (bodies_of bodies) free f 0 cs"
  shows "outs = instrumented_all hasher ix 0 bodies \<and> (\<exists>m'. measure_calls cs m = Done m') \<and>
    (list_all (accepted debug) outs \<longleftrightarrow> list_all (accepted debug) bodies)"
proof (intro conjI)
  show outs: "outs = instrumented_all hasher ix 0 bodies"
    using instrument_module_Done [OF assms(1)] assms(2) by auto
  show "list_all (accepted debug) outs \<longleftrightarrow> list_all (accepted debug) bodies"
    unfolding outs by (rule accepted_instrumented_all)
  show "\<exists>m'. measure_calls cs m = Done m'"
    using run_measured [OF assms(4,3), of m] by (auto simp: pending_def)
qed

theorem profiler_never_panics_witness:
  "\<exists>m'. measure_calls example_calls measurements_new = Done m'"
proof -
  obtain outs p where p: "instrument_module example_hasher example_imports example_bodies block_store_new = Done (outs, p)"
    "pr_indexes p = Some if_indexes"
    using example_instrumented by blast
  have "pi_start_measurement if_indexes \<noteq> pi_take_measurement if_indexes"
    by (simp add: if_indexes_def)
  from profiler_never_panics [OF p this example_run] show ?thesis
    by blast
qed

text \<open>
  C33: a run that returns and takes every \<open>if\<close> it meets is a sequence of executions of the blocks of its functions.
  Each of them is recorded once, under the hash of its operators, with the time between its own two probes; nothing
  stays open; and when the hash tells the blocks of the module apart, the store gives for every recorded hash the
  operators of the block.
\<close>

theorem profiler_measures_blocks:
  assumes "instrument_module hasher imports bodies store = Done (outs, p)" and "pr_indexes p = Some ix"
    and "pi_start_measurement ix \<noteq> pi_take_measurement ix" and "run hasher ix (bodies_of bodies) False f 0 cs"
    and "list_all (\<lambda>body. body \<noteq> [] \<and> from_operator (last body) = ''End'') bodies"
    and "inj_on hasher (set (concat (map (blocks_of []) bodies)))" and "no_open m"
  shows "\<exists>bs m'. cs = executions_calls hasher bs \<and> measure_calls cs m = Done m' \<and> no_open m' \<and>
    taken m' = fold (record_execution hasher) bs (taken m) \<and>
    (\<forall>f' block t u. (f', block, t, u) \<in> set bs \<longrightarrow> block \<in> set (blocks_of [] (bodies_of bodies f')) \<and>
      get_block (pr_block_store p) (BlockId (hasher block)) = Some \<lparr>cb_inner = block\<rparr>)"
proof -
  obtain bs where known: "blocks_known (bodies_of bodies) bs" and cs: "cs = executions_calls hasher bs"
    using strict_run_executions [OF assms(4,3) bodies_end [OF assms(5)]] by blast
  obtain m' where m': "measure_calls cs m = Done m'" "no_open m'" "taken m' = fold (record_execution hasher) bs (taken m)"
    using measure_executions [OF assms(7), of hasher bs] cs by auto
  have "block \<in> set (blocks_of [] (bodies_of bodies f')) \<and>
      get_block (pr_block_store p) (BlockId (hasher block)) = Some \<lparr>cb_inner = block\<rparr>"
    if "(f', block, t, u) \<in> set bs" for f' block t u
    using that known instrument_module_Done [OF assms(1)] fold_register_exact [OF blocks_known_registered [OF known that] assms(6)]
    by (auto simp: blocks_known_def list_all_iff)
  then show ?thesis
    using cs m' by blast
qed

theorem profiler_measures_blocks_witness:
  "\<exists>m'. measure_calls example_calls measurements_new = Done m' \<and> no_open m' \<and>
    taken m' = [BlockId 13 \<mapsto> [4], BlockId 3 \<mapsto> [7], BlockId 2 \<mapsto> [2]]"
proof -
  obtain outs p where p: "instrument_module example_hasher example_imports example_bodies block_store_new = Done (outs, p)"
    "pr_indexes p = Some if_indexes"
    using example_instrumented by blast
  have "pi_start_measurement if_indexes \<noteq> pi_take_measurement if_indexes"
    by (simp add: if_indexes_def)
  from profiler_measures_blocks [OF p this example_run example_bodies_end example_hasher_inj no_open_new]
  obtain m' where "measure_calls example_calls measurements_new = Done m'" "no_open m'"
    by blast
  moreover from this(1) have "taken m' = [BlockId 13 \<mapsto> [4], BlockId 3 \<mapsto> [7], BlockId 2 \<mapsto> [2]]"
    by (auto simp: example_calls_def measurements_new_def start_measurement_def take_measurement_def insert_push_eq)
  ultimately show ?thesis
    by blast
qed

section \<open>Numbers and binary data in JSON\<close>

text \<open>
  C14: \<open>Uint64\<close>, \<open>Uint128\<close>, \<open>Uint256\<close>, \<open>Uint512\<close>, \<open>Decimal\<close>, \<open>Decimal256\<close> and \<open>Binary\<close> are written to
  JSON as strings without panicking and read back unchanged, and reading any value of the data model, a string or not,
  never panics.
\<close>

theorem json_strings_roundtrip:
  assumes "crate256 C" and "crate512 D" and "\<And>x. b64_decode X (b64_encode X x) = Inr x"
  shows "(obind (uint64_serialize a) (uint64_deserialize invalid) = Done (Inr a) \<and> \<not> panics (uint64_deserialize invalid v)) \<and>
    (obind (uint128_serialize b) (uint128_deserialize invalid) = Done (Inr b) \<and> \<not> panics (uint128_deserialize invalid v)) \<and>
    (obind (uint256_serialize C c) (uint256_deserialize C invalid) = Done (Inr c) \<and> \<not> panics (uint256_deserialize C invalid v)) \<and>
    (obind (uint512_serialize D d) (uint512_deserialize D invalid) = Done (Inr d) \<and> \<not> panics (uint512_deserialize D invalid v)) \<and>
    (obind (decimal_serialize e) (decimal_deserialize invalid) = Done (Inr e) \<and> \<not> panics (decimal_deserialize invalid v)) \<and>
    (obind (decimal256_serialize C f) (decimal256_deserialize C invalid) = Done (Inr f) \<and>
      \<not> panics (decimal256_deserialize C invalid v)) \<and>
    (obind (binary_serialize X g) (binary_deserialize X invalid) = Done (Inr g) \<and> \<not> panics (binary_deserialize X invalid v))"
proof -
  note c = crate256.wide_serde [OF assms(1)] and d = crate512.wide_serde [OF assms(2)] and x = binary_string_serde [OF assms(3)]
  show ?thesis
    by (intro conjI uint64_serde.roundtrip uint64_serde.des_never_panics uint128_serde.roundtrip
        uint128_serde.des_never_panics decimal_serde.roundtrip decimal_serde.des_never_panics
        string_serde.roundtrip [OF c(1)] string_serde.des_never_panics [OF c(1)] string_serde.roundtrip [OF c(2)]
        string_serde.des_never_panics [OF c(2)] string_serde.roundtrip [OF d] string_serde.des_never_panics [OF d]
        string_serde.roundtrip [OF x] string_serde.des_never_panics [OF x])
qed

theorem json_strings_roundtrip_witness:
  "obind (decimal256_serialize exact_u256 (decimal256_MAX exact_u256)) (decimal256_deserialize exact_u256 (\<lambda>_ _. ''invalid type'')) =
     Done (Inr (decimal256_MAX exact_u256)) \<and>
   obind (uint128_serialize (Uint128 (- 1))) (uint128_deserialize (\<lambda>_ _. ''invalid type'')) = Done (Inr (Uint128 (- 1)))"
proof -
  let ?X = "\<lparr>b64_encode = from_ascii, b64_decode = (\<lambda>s. Inr (ascii s))\<rparr>"
  have "b64_decode ?X (b64_encode ?X x) = Inr x" for x
    by simp
  from json_strings_roundtrip [OF ref256.crate256_axioms ref512.crate512_axioms this,
      where b = "Uint128 (- 1)" and f = "decimal256_MAX exact_u256" and invalid = "\<lambda>_ _. ''invalid type''"]
  show ?thesis
    by blast
qed

end
